(* ===== verification/Prelude.thy ===== *)
theory Prelude
  imports Main "HOL-Library.AList" "HOL-Library.Multiset" "HOL-Library.List_Lexorder"
    "HOL-Library.Char_ord"
begin

text \<open>
  What the component theories share.

  \<^item> Collections of rewrite rules: \<open>go_simps\<close> (the Go runtime model: maps, sorting, time)
    and \<open>clone_simps\<close> (the source's \<^verbatim>\<open>clone...\<close> functions are copies).
  \<^item> Go maps. A \<^verbatim>\<open>map[K]V\<close> is an association list with distinct keys. The order of
    the list is the order in which a \<^verbatim>\<open>range\<close> loop happens to visit the map, which Go
    leaves open; a theorem about every such list is a theorem about every iteration order.
  \<^item> \<^verbatim>\<open>sort.Slice\<close> / \<^verbatim>\<open>sort.SliceStable\<close>: insertion sort over the comparison \<open>lt\<close> of the caller,
    the routine Go runs for short slices. The locale \<open>go_less\<close> is the contract the sort
    package puts on \<open>lt\<close> (a strict weak order); under it the result is sorted, and with
    distinct keys (\<open>go_less_keyed\<close>) it is the only sorted permutation, so the choice of
    the algorithm does not matter.
  \<^item> Runs of an event-driven machine and the rule that lifts a one-step invariant to runs.
\<close>

named_theorems go_simps
named_theorems clone_simps

section \<open>Go maps\<close>

type_synonym ('k, 'v) gmap = "('k \<times> 'v) list"

abbreviation gget :: "('k, 'v) gmap \<Rightarrow> 'k \<Rightarrow> 'v option" where
  "gget \<equiv> map_of"

abbreviation gput :: "'k \<Rightarrow> 'v \<Rightarrow> ('k, 'v) gmap \<Rightarrow> ('k, 'v) gmap" where
  "gput \<equiv> AList.update"

abbreviation gdel :: "'k \<Rightarrow> ('k, 'v) gmap \<Rightarrow> ('k, 'v) gmap" where
  "gdel \<equiv> AList.delete"

definition gkeys :: "('k, 'v) gmap \<Rightarrow> 'k set" where
  "gkeys m = set (map fst m)"

definition gmap_wf :: "('k, 'v) gmap \<Rightarrow> bool" where
  "gmap_wf m \<longleftrightarrow> distinct (map fst m)"

definition gmap_vals :: "('v \<Rightarrow> 'w) \<Rightarrow> ('k, 'v) gmap \<Rightarrow> ('k, 'w) gmap" where
  "gmap_vals f m = map (\<lambda>(k, v). (k, f v)) m"

lemma gmap_wf_Nil [simp]: "gmap_wf []"
  by (simp add: gmap_wf_def)

lemma gmap_wf_gput [simp]: "gmap_wf m \<Longrightarrow> gmap_wf (gput k v m)"
  by (simp add: gmap_wf_def distinct_update)

lemma gmap_wf_gdel [simp]: "gmap_wf m \<Longrightarrow> gmap_wf (gdel k m)"
  by (simp add: gmap_wf_def distinct_delete)

lemma gmap_wf_filter [simp]: "gmap_wf m \<Longrightarrow> gmap_wf (filter P m)"
  by (simp add: gmap_wf_def distinct_map_filter)

lemma fst_gmap_vals [simp]: "map fst (gmap_vals f m) = map fst m"
  by (simp add: gmap_vals_def case_prod_unfold)

lemma gmap_wf_vals [simp]: "gmap_wf (gmap_vals f m) = gmap_wf m"
  by (simp add: gmap_wf_def)

lemma gget_gput [go_simps]: "gget (gput k v m) k' = (if k' = k then Some v else gget m k')"
  by (simp add: update_conv')

lemma gget_gdel [go_simps]: "gget (gdel k m) k' = (if k' = k then None else gget m k')"
  by (simp add: delete_conv')

lemma gget_vals [go_simps]: "gget (gmap_vals f m) k = map_option f (gget m k)"
  by (induction m) (auto simp: gmap_vals_def)

lemma gget_None_iff: "gget m k = None \<longleftrightarrow> k \<notin> gkeys m"
  by (simp add: gkeys_def map_of_eq_None_iff)

lemma gget_in_set: "gmap_wf m \<Longrightarrow> (k, v) \<in> set m \<longleftrightarrow> gget m k = Some v"
  by (simp add: gmap_wf_def)

lemma gkeys_gput [simp]: "gkeys (gput k v m) = insert k (gkeys m)"
  by (simp add: gkeys_def dom_update)

lemma gkeys_gdel [simp]: "gkeys (gdel k m) = gkeys m - {k}"
  by (induction m) (auto simp: gkeys_def)

lemma set_gput_subset: "set (gput k v m) \<subseteq> insert (k, v) (set m)"
  by (induction m) auto

lemma find_SomeD: "find P xs = Some x \<Longrightarrow> x \<in> set xs \<and> P x"
  by (induction xs) (auto split: if_splits)

lemma gget_filter_wf:
  "gmap_wf m \<Longrightarrow> gget (filter P m) k =
    (case gget m k of None \<Rightarrow> None | Some v \<Rightarrow> if P (k, v) then Some v else None)"
  by (induction m) (force simp: gmap_wf_def map_of_eq_None_iff split: option.splits)+

section \<open>Sorting by a caller's comparison\<close>

fun sink :: "('a \<Rightarrow> 'a \<Rightarrow> bool) \<Rightarrow> 'a \<Rightarrow> 'a list \<Rightarrow> 'a list" where
  "sink lt x [] = [x]"
| "sink lt x (y # ys) = (if lt x y then y # sink lt x ys else x # y # ys)"

definition sort_slice :: "('a \<Rightarrow> 'a \<Rightarrow> bool) \<Rightarrow> 'a list \<Rightarrow> 'a list" where
  \<comment> \<open>each element moves left past the sorted prefix while it compares less than its neighbour;
    the prefix is kept reversed, so that its last element comes first\<close>
  "sort_slice lt xs = rev (fold (sink lt) xs [])"

lemma mset_sink [simp]: "mset (sink lt x ys) = add_mset x (mset ys)"
  by (induction ys) auto

lemma set_sink [simp]: "set (sink lt x ys) = insert x (set ys)"
  by (metis mset_sink set_mset_add_mset_insert set_mset_mset)

lemma mset_fold_sink: "mset (fold (sink lt) xs ys) = mset xs + mset ys"
  by (induction xs arbitrary: ys) auto

lemma mset_sort_slice [simp]: "mset (sort_slice lt xs) = mset xs"
  by (simp add: sort_slice_def mset_fold_sink)

lemma set_sort_slice [simp]: "set (sort_slice lt xs) = set xs"
  by (metis mset_sort_slice set_mset_mset)

lemma length_sort_slice [simp]: "length (sort_slice lt xs) = length xs"
  by (metis mset_sort_slice size_mset)

lemma sort_slice_Nil [simp]: "sort_slice lt [] = []"
  by (simp add: sort_slice_def)

lemma sort_slice_eq_Nil [simp]: "sort_slice lt xs = [] \<longleftrightarrow> xs = []"
  by (metis length_0_conv length_sort_slice)

lemma hd_sort_slice_in: "xs \<noteq> [] \<Longrightarrow> hd (sort_slice lt xs) \<in> set xs"
  by (metis hd_in_set set_sort_slice sort_slice_eq_Nil)

lemma distinct_sort_slice [simp]: "distinct (sort_slice lt xs) = distinct xs"
  by (metis distinct_card card_distinct length_sort_slice set_sort_slice)

locale go_less =
  fixes lt :: "'a \<Rightarrow> 'a \<Rightarrow> bool" and ok :: "'a \<Rightarrow> bool"
  assumes less_irrefl: "ok a \<Longrightarrow> \<not> lt a a"
    and less_trans: "ok a \<Longrightarrow> ok b \<Longrightarrow> ok c \<Longrightarrow> lt a b \<Longrightarrow> lt b c \<Longrightarrow> lt a c"
    and less_neg_trans:
      "ok a \<Longrightarrow> ok b \<Longrightarrow> ok c \<Longrightarrow> \<not> lt a b \<Longrightarrow> \<not> lt b c \<Longrightarrow> \<not> lt a c"
begin

lemma less_asym: "ok a \<Longrightarrow> ok b \<Longrightarrow> lt a b \<Longrightarrow> \<not> lt b a"
  using less_irrefl less_trans by blast

lemma sink_sorted:
  "sorted_wrt (\<lambda>a b. \<not> lt a b) ys \<Longrightarrow> ok x \<Longrightarrow> \<forall>y \<in> set ys. ok y \<Longrightarrow>
   sorted_wrt (\<lambda>a b. \<not> lt a b) (sink lt x ys)"
proof (induction ys)
  case Nil
  then show ?case by simp
next
  case (Cons y ys)
  show ?case
  proof (cases "lt x y")
    case True
    with Cons show ?thesis by (auto dest: less_asym)
  next
    case False
    have "\<not> lt x z" if "z \<in> set ys" for z
      using that Cons.prems False less_neg_trans [of x y z] by auto
    with Cons.prems False show ?thesis by auto
  qed
qed

lemma fold_sink_sorted:
  "sorted_wrt (\<lambda>a b. \<not> lt a b) ys \<Longrightarrow> \<forall>x \<in> set xs \<union> set ys. ok x \<Longrightarrow>
   sorted_wrt (\<lambda>a b. \<not> lt a b) (fold (sink lt) xs ys)"
  by (induction xs arbitrary: ys) (auto simp: sink_sorted)

lemma sorted_sort_slice:
  assumes "\<forall>x \<in> set xs. ok x"
  shows "sorted_wrt (\<lambda>a b. \<not> lt b a) (sort_slice lt xs)"
  using fold_sink_sorted [of "[]" xs] assms
  by (simp add: sort_slice_def sorted_wrt_rev)

lemma hd_sort_slice_least:
  assumes "\<forall>x \<in> set xs. ok x" and "x \<in> set xs"
  shows "\<not> lt x (hd (sort_slice lt xs))"
proof -
  from assms(2) obtain y ys where eq: "sort_slice lt xs = y # ys"
    by (cases "sort_slice lt xs") auto
  with assms(2) have "x = y \<or> x \<in> set ys"
    by (metis set_ConsD set_sort_slice)
  moreover have "ok y"
    using eq assms(1) by (metis list.set_intros(1) set_sort_slice)
  ultimately show ?thesis
    using sorted_sort_slice [OF assms(1)] eq less_irrefl by auto
qed

end

locale go_less_keyed = go_less lt ok
  for lt :: "'a \<Rightarrow> 'a \<Rightarrow> bool" and ok :: "'a \<Rightarrow> bool" +
  fixes key :: "'a \<Rightarrow> 'k"
  assumes tie: "ok a \<Longrightarrow> ok b \<Longrightarrow> \<not> lt a b \<Longrightarrow> \<not> lt b a \<Longrightarrow> key a = key b"
begin

lemma sorted_permutation_unique:
  assumes "mset xs = mset ys" and "inj_on key (set xs)" and "\<forall>x \<in> set xs. ok x"
    and "sorted_wrt (\<lambda>a b. \<not> lt b a) xs" and "sorted_wrt (\<lambda>a b. \<not> lt b a) ys"
  shows "xs = ys"
  using assms
proof (induction xs arbitrary: ys)
  case Nil
  then show ?case by simp
next
  case (Cons x xs)
  from Cons.prems(1) obtain y zs where ys: "ys = y # zs"
    by (cases ys) auto
  have set_eq: "set (x # xs) = set ys"
    using Cons.prems(1) by (metis set_mset_mset)
  have "x = y"
  proof (rule ccontr)
    assume "x \<noteq> y"
    with set_eq ys have mem: "y \<in> set xs" "x \<in> set zs" by auto
    then have "\<not> lt y x" "\<not> lt x y"
      using Cons.prems(4,5) ys by auto
    moreover have "ok x" "ok y" using Cons.prems(3) mem by auto
    ultimately have "key x = key y" using tie by blast
    with \<open>x \<noteq> y\<close> mem Cons.prems(2) show False by (auto simp: inj_on_def)
  qed
  with Cons.prems ys Cons.IH [of zs] show ?case by auto
qed

lemma sort_slice_unique:
  assumes "mset ys = mset xs" and "inj_on key (set xs)" and "\<forall>x \<in> set xs. ok x"
    and "sorted_wrt (\<lambda>a b. \<not> lt b a) ys"
  shows "ys = sort_slice lt xs"
proof -
  have "set ys = set xs" using assms(1) by (metis set_mset_mset)
  then show ?thesis
    using sorted_permutation_unique [of ys "sort_slice lt xs"] assms
      sorted_sort_slice [OF assms(3)] by simp
qed

end

lemma go_less_keyed_key: "go_less_keyed (\<lambda>a b. key a < (key b :: 'k :: linorder)) (\<lambda>a. True) key"
  by unfold_locales (auto simp: not_less intro: order.strict_trans order.trans)

lemma go_less_keyed_desc:
  "go_less_keyed (\<lambda>a b. if rank a \<noteq> (rank b :: 'r :: linorder) then rank b < rank a else key a < (key b :: 'k :: linorder))
     (\<lambda>a. True) key"
proof (unfold_locales, goal_cases)
  case (2 a b c)
  then show ?case by (metis order.strict_trans less_asym)
next
  case (3 a b c)
  then show ?case by (metis linorder_less_linear order.strict_trans)
next
  case (4 a b)
  then show ?case by (metis linorder_less_linear)
qed auto

section \<open>Runs of an event-driven machine\<close>

fun run :: "('s \<Rightarrow> 'e \<Rightarrow> 's) \<Rightarrow> 's \<Rightarrow> 'e list \<Rightarrow> 's" where
  "run step s [] = s"
| "run step s (e # es) = run step (step s e) es"

lemma run_append: "run step s (es @ fs) = run step (run step s es) fs"
  by (induction es arbitrary: s) auto

locale invariant_machine =
  fixes step :: "'s \<Rightarrow> 'e \<Rightarrow> 's" and inv :: "'s \<Rightarrow> bool"
  assumes step_inv: "inv s \<Longrightarrow> inv (step s e)"
begin

lemma run_inv: "inv s \<Longrightarrow> inv (run step s es)"
  by (induction es arbitrary: s) (auto intro: step_inv)

end

end
