(* ===== verification/Go_Float.thy ===== *)
theory Go_Float
  imports Prelude Complex_Main
begin

text \<open>
  Finite \<^verbatim>\<open>float64\<close> values are rational numbers and every arithmetic operation rounds its
  exact result to the nearest value with a 53-bit significand, ties to even, down to the
  subnormal step \<open>2 powi (-1074)\<close>: IEEE 754 binary64 as Go uses it. NaN and infinities do
  not occur in the modelled code: \<^verbatim>\<open>encoding/json\<close> refuses numbers outside the range, and
  the one product that can leave it (\<open>Quota.getResetAt\<close>) is converted to an integer at
  once, where every value beyond the range of \<^verbatim>\<open>int64\<close> takes the same branch.
\<close>

type_synonym float64 = rat

fun ilog2 :: "nat \<Rightarrow> nat" where
  "ilog2 n = (if n < 2 then 0 else Suc (ilog2 (n div 2)))"

declare ilog2.simps [simp del]

definition fexp :: "rat \<Rightarrow> int" where
  \<comment> \<open>the binade of a positive value: \<open>2 powi e \<le> x < 2 powi (e + 1)\<close>\<close>
  "fexp x = (if 1 \<le> x then int (ilog2 (nat \<lfloor>x\<rfloor>))
             else (let m = nat \<lceil>1 / x\<rceil> in - int (if m \<le> 1 then 0 else Suc (ilog2 (m - 1)))))"

definition rhe :: "rat \<Rightarrow> int" where
  \<comment> \<open>round to the nearest integer, ties to even\<close>
  "rhe y = (let f = \<lfloor>y\<rfloor>; r = y - of_int f
            in if r < 1 / 2 then f else if 1 / 2 < r then f + 1
               else if even f then f else f + 1)"

definition ulp :: "rat \<Rightarrow> rat" where
  "ulp x = 2 powi (max (fexp \<bar>x\<bar> - 52) (- 1074))"

definition fl :: "rat \<Rightarrow> float64" where
  "fl x = (if x = 0 then 0 else ulp x * of_int (rhe (x / ulp x)))"

definition fadd :: "float64 \<Rightarrow> float64 \<Rightarrow> float64" where "fadd a b = fl (a + b)"
definition fsub :: "float64 \<Rightarrow> float64 \<Rightarrow> float64" where "fsub a b = fl (a - b)"
definition fmul :: "float64 \<Rightarrow> float64 \<Rightarrow> float64" where "fmul a b = fl (a * b)"
definition fdiv :: "float64 \<Rightarrow> float64 \<Rightarrow> float64" where "fdiv a b = fl (a / b)"

definition trunc_rat :: "rat \<Rightarrow> int" where
  "trunc_rat x = (if 0 \<le> x then \<lfloor>x\<rfloor> else \<lceil>x\<rceil>)"

definition float_to_int64 :: "float64 \<Rightarrow> int" where
  \<comment> \<open>Go leaves the result for a value outside the range of the target type to the
    implementation; this is what amd64 produces\<close>
  "float_to_int64 x = (let t = trunc_rat x
     in if - (2 ^ 63) \<le> t \<and> t < 2 ^ 63 then t else - (2 ^ 63))"

section \<open>Logarithms\<close>

lemma ilog2_bounds: "0 < n \<Longrightarrow> 2 ^ ilog2 n \<le> n \<and> n < 2 ^ Suc (ilog2 n)"
proof (induction n rule: ilog2.induct)
  case (1 n)
  show ?case
  proof (cases "n < 2")
    case True
    with "1.prems" show ?thesis by (simp add: ilog2.simps [of n])
  next
    case False
    then have "2 ^ ilog2 (n div 2) \<le> n div 2 \<and> n div 2 < 2 ^ Suc (ilog2 (n div 2))"
      using "1.IH" by simp
    with False show ?thesis by (simp add: ilog2.simps [of n]) linarith
  qed
qed

lemma fexp_bounds:
  assumes "0 < x"
  shows "2 powi fexp x \<le> x \<and> x < 2 powi (fexp x + 1)"
proof (cases "1 \<le> x")
  case True
  define n where "n = nat \<lfloor>x\<rfloor>"
  have n: "0 < n" "of_nat n \<le> x" "x < of_nat n + 1"
    using True by (simp_all add: n_def) linarith+
  have "(2::nat) ^ ilog2 n \<le> n" "n + 1 \<le> 2 ^ Suc (ilog2 n)"
    using ilog2_bounds [OF n(1)] by simp_all
  then have "(2::rat) ^ ilog2 n \<le> of_nat n" "of_nat n + 1 \<le> (2::rat) ^ Suc (ilog2 n)"
    using of_nat_mono [of "n + 1" "2 ^ Suc (ilog2 n)", where 'a = rat] by simp_all
  moreover have "2 powi fexp x = (2::rat) ^ ilog2 n"
    and "2 powi (fexp x + 1) = (2::rat) ^ Suc (ilog2 n)"
    using True by (simp_all add: fexp_def n_def power_int_add)
  ultimately show ?thesis
    using n by linarith
next
  case False
  define m where "m = nat \<lceil>1 / x\<rceil>"
  have "1 < 1 / x" using False assms by (simp add: field_simps)
  then have m: "1 < m" "of_nat m - 1 < 1 / x" "1 / x \<le> of_nat m"
    unfolding m_def by linarith+
  let ?k = "ilog2 (m - 1)"
  have "(2::nat) ^ ?k \<le> m - 1" "m \<le> 2 ^ Suc ?k"
    using ilog2_bounds [of "m - 1"] m(1) by linarith+
  then have "(2::rat) ^ ?k \<le> of_nat m - 1" "of_nat m \<le> (2::rat) ^ Suc ?k"
    using of_nat_mono [of "2 ^ ?k" "m - 1", where 'a = rat] of_nat_mono [of m "2 ^ Suc ?k", where 'a = rat] m(1)
    by (simp_all add: of_nat_diff)
  with m have *: "2 ^ ?k < 1 / x" "1 / x \<le> 2 ^ Suc ?k" by linarith+
  have e: "fexp x = - int (Suc ?k)"
    unfolding fexp_def m_def [symmetric] Let_def using False m(1) by simp
  have "2 powi fexp x = 1 / (2::rat) ^ Suc ?k"
    unfolding e power_int_minus power_int_of_nat by (simp add: field_simps)
  moreover have "2 powi (fexp x + 1) = 1 / (2::rat) ^ ?k"
  proof -
    have "fexp x + 1 = - int ?k" using e by simp
    then show ?thesis by (simp only: power_int_minus power_int_of_nat) (simp add: field_simps)
  qed
  moreover have "1 / 2 ^ Suc ?k \<le> x" "x < 1 / 2 ^ ?k"
    using * assms by (simp_all add: field_simps)
  ultimately show ?thesis by simp
qed

lemma fexp_mono:
  assumes "0 < x" and "x \<le> y"
  shows "fexp x \<le> fexp y"
proof (rule ccontr)
  assume "\<not> fexp x \<le> fexp y"
  then have "2 powi (fexp y + 1) \<le> (2::rat) powi fexp x"
    by (intro power_int_increasing) auto
  with fexp_bounds [of x] fexp_bounds [of y] assms show False by auto
qed

section \<open>Rounding\<close>

lemma rhe_of_int [simp]: "rhe (of_int k) = k"
  by (simp add: rhe_def)

lemma rhe_mono: "x \<le> y \<Longrightarrow> rhe x \<le> rhe y"
proof -
  assume le: "x \<le> y"
  then have f: "\<lfloor>x\<rfloor> \<le> \<lfloor>y\<rfloor>" by (rule floor_mono)
  show ?thesis
  proof (cases "\<lfloor>x\<rfloor> = \<lfloor>y\<rfloor>")
    case True
    with le show ?thesis by (auto simp: rhe_def Let_def)
  next
    case False
    with f have "\<lfloor>x\<rfloor> + 1 \<le> \<lfloor>y\<rfloor>" by simp
    moreover have "rhe x \<le> \<lfloor>x\<rfloor> + 1" "\<lfloor>y\<rfloor> \<le> rhe y"
      by (auto simp: rhe_def Let_def)
    ultimately show ?thesis by linarith
  qed
qed

lemma rhe_le: "x \<le> of_int k \<Longrightarrow> rhe x \<le> k"
  using rhe_mono [of x "of_int k"] by simp

lemma rhe_ge: "of_int k \<le> x \<Longrightarrow> k \<le> rhe x"
  using rhe_mono [of "of_int k" x] by simp

lemma ulp_pos [simp]: "0 < ulp x"
  by (simp add: ulp_def)

lemma ulp_nonneg [simp]: "0 \<le> ulp x"
  using ulp_pos [of x] by linarith

lemma powi_quotient: "j \<le> m \<Longrightarrow> (2::rat) powi m / 2 powi j = of_int (2 ^ nat (m - j))"
proof -
  assume "j \<le> m"
  then have "(2::rat) powi (m - j) = of_int (2 ^ nat (m - j))"
    by (simp add: power_int_def)
  then show ?thesis by (simp add: power_int_diff)
qed

lemma fl_0 [simp]: "fl 0 = 0"
  by (simp add: fl_def)

lemma fl_nonneg: "0 \<le> x \<Longrightarrow> 0 \<le> fl x"
  using rhe_ge [of 0 "x / ulp x"] by (simp add: fl_def divide_nonneg_nonneg)

lemma fl_le_of:
  assumes "0 < x" and "x \<le> 2 powi m" and "max (fexp x - 52) (- 1074) \<le> m"
  shows "fl x \<le> 2 powi m"
proof -
  let ?e = "max (fexp x - 52) (- 1074)"
  have u: "ulp x = 2 powi ?e" using assms(1) by (simp add: ulp_def)
  have k: "2 powi m / ulp x = of_int (2 ^ nat (m - ?e))"
    using assms(3) by (simp only: u powi_quotient)
  have "x / ulp x \<le> of_int (2 ^ nat (m - ?e))"
    using assms(2) k by (metis divide_right_mono less_imp_le ulp_pos)
  then have "of_int (rhe (x / ulp x)) \<le> 2 powi m / ulp x"
    using k rhe_le by (metis of_int_le_iff)
  then show ?thesis
    using assms(1) by (simp add: fl_def field_simps pos_le_divide_eq)
qed

lemma fl_ge_binade:
  assumes "0 < x" and "- 1074 \<le> fexp x - 52"
  shows "2 powi fexp x \<le> fl x"
proof -
  have u: "ulp x = 2 powi (fexp x - 52)" using assms by (simp add: ulp_def)
  have k: "2 powi fexp x / ulp x = of_int (2 ^ 52)"
    using powi_quotient [of "fexp x - 52" "fexp x"] by (simp add: u)
  have "of_int (2 ^ 52) \<le> x / ulp x"
    using fexp_bounds [OF assms(1)] k by (metis divide_right_mono less_imp_le ulp_pos)
  then have "2 powi fexp x / ulp x \<le> of_int (rhe (x / ulp x))"
    using k rhe_ge by (metis of_int_le_iff)
  then show ?thesis
    using assms(1) by (simp add: fl_def field_simps pos_divide_le_eq)
qed

lemma fl_mono:
  assumes "0 \<le> x" and "x \<le> y"
  shows "fl x \<le> fl y"
proof (cases "x = 0")
  case True
  with assms fl_nonneg [of y] show ?thesis by simp
next
  case False
  with assms have pos: "0 < x" "0 < y" by auto
  let ?e = "\<lambda>z. max (fexp z - 52) (- 1074)"
  show ?thesis
  proof (cases "?e x = ?e y")
    case True
    then have u: "ulp x = ulp y" using pos by (simp add: ulp_def)
    have "x / ulp x \<le> y / ulp y"
      using u assms(2) by (simp add: divide_right_mono)
    then show ?thesis
      using u pos rhe_mono by (simp add: fl_def mult_left_mono)
  next
    case False
    with fexp_mono [OF pos(1) assms(2)] have ey: "- 1074 < fexp y - 52" "fexp x < fexp y"
      by linarith+
    have "x \<le> 2 powi (fexp x + 1)" "2 powi (fexp x + 1) \<le> (2::rat) powi fexp y"
      using fexp_bounds [OF pos(1)] ey(2) by (auto intro: power_int_increasing)
    then have "fl x \<le> 2 powi fexp y"
      using fl_le_of [OF pos(1), of "fexp y"] ey by linarith
    also have "\<dots> \<le> fl y"
      using fl_ge_binade [OF pos(2)] ey(1) by linarith
    finally show ?thesis .
  qed
qed

lemma fexp_eqI:
  assumes "0 < x" and "2 powi e \<le> x" and "x < 2 powi (e + 1)"
  shows "fexp x = e"
proof -
  have "\<not> e + 1 \<le> fexp x"
    using fexp_bounds [OF assms(1)] assms(3) power_int_increasing [of "e + 1" "fexp x" "2::rat"]
    by auto
  moreover have "\<not> fexp x + 1 \<le> e"
    using fexp_bounds [OF assms(1)] assms(2) power_int_increasing [of "fexp x + 1" e "2::rat"]
    by auto
  ultimately show ?thesis by linarith
qed

lemma fl_exact:
  assumes "x / ulp x = of_int k"
  shows "fl x = x"
proof (cases "x = 0")
  case False
  have "ulp x \<noteq> 0" using ulp_pos [of x] by linarith
  then have "ulp x * (x / ulp x) = x" by simp
  with False assms show ?thesis by (simp add: fl_def)
qed simp

lemma fl_of_int_exact:
  assumes "0 < n" and "n < 2 ^ 53"
  shows "fl (of_int n) = of_int n"
proof -
  let ?x = "of_int n :: rat"
  have "fexp ?x \<le> 52"
  proof (rule ccontr)
    assume "\<not> fexp ?x \<le> 52"
    then have "(2::rat) powi 53 \<le> 2 powi fexp ?x" by (intro power_int_increasing) auto
    also have "\<dots> \<le> ?x" using fexp_bounds [of ?x] assms(1) by simp
    also have "?x < of_int (2 ^ 53)" using assms(2) by (simp only: of_int_less_iff)
    finally show False by simp
  qed
  moreover have "0 \<le> fexp ?x" using assms(1) by (simp add: fexp_def)
  ultimately have e: "max (fexp \<bar>?x\<bar> - 52) (- 1074) = - int (nat (52 - fexp ?x))"
    using assms(1) by simp
  have "ulp ?x = inverse (2 ^ nat (52 - fexp ?x))"
    unfolding ulp_def e by (simp only: power_int_minus power_int_of_nat)
  then have "?x / ulp ?x = of_int (n * 2 ^ nat (52 - fexp ?x))" by (simp add: divide_inverse)
  then show ?thesis by (rule fl_exact)
qed

lemma fexp_half: "fexp (1/2) = -1"
  by (rule fexp_eqI) (simp_all add: power_int_minus)

lemma fl_half: "fl (1/2) = 1/2"
proof -
  have "(1/2 :: rat) / ulp (1/2) = of_int (2 ^ 52)"
    by (simp add: ulp_def fexp_half power_int_minus)
  then show ?thesis by (rule fl_exact)
qed

end
