(* ===== verification/Go_Base.thy ===== *)
theory Go_Base
  imports Go_Float "HOL-Library.Word"
begin

text \<open>
  The part of the Go language and its standard library the modelled code uses.

  \<^item> \<^verbatim>\<open>time.Time\<close> is the number of nanoseconds since Go's zero time (January 1, year 1,
    UTC), so \<^verbatim>\<open>IsZero\<close> is comparison with 0; \<^verbatim>\<open>time.Duration\<close> is a number of
    nanoseconds in the range of \<^verbatim>\<open>int64\<close>. \<^verbatim>\<open>Time.Sub\<close> saturates at the ends of that
    range, products of durations wrap.
  \<^item> \<^verbatim>\<open>string\<close> is a list of bytes; \<^verbatim>\<open>strings.TrimSpace\<close> removes the UTF-8 encodings of
    Unicode white space; \<^verbatim>\<open>strings.ToLower\<close> acts on ASCII letters (provider and model
    names) and leaves other bytes alone.
  \<^item> \<^verbatim>\<open>any\<close> as \<^verbatim>\<open>encoding/json\<close> fills it, with the integer cases the source's type
    switches list.
  \<^item> 64-bit unsigned identifiers, epochs and fences are \<open>64 word\<close>.
\<close>

section \<open>Time\<close>

type_synonym time = int
type_synonym duration = int
type_synonym uint64 = "64 word"

abbreviation (input) ZeroTime :: time where "ZeroTime \<equiv> 0"
abbreviation (input) IsZero :: "time \<Rightarrow> bool" where "IsZero t \<equiv> t = 0"
abbreviation (input) After :: "time \<Rightarrow> time \<Rightarrow> bool" where "After t u \<equiv> u < t"
abbreviation (input) Before :: "time \<Rightarrow> time \<Rightarrow> bool" where "Before t u \<equiv> t < u"
abbreviation (input) Add :: "time \<Rightarrow> duration \<Rightarrow> time" where "Add t d \<equiv> t + d"

abbreviation (input) Second :: duration where "Second \<equiv> 1000000000"
abbreviation (input) Minute :: duration where "Minute \<equiv> 60000000000"
abbreviation (input) Hour :: duration where "Hour \<equiv> 3600000000000"

definition maxDuration :: duration where "maxDuration = 2 ^ 63 - 1"
definition minDuration :: duration where "minDuration = - (2 ^ 63)"

definition Sub :: "time \<Rightarrow> time \<Rightarrow> duration" where
  "Sub t u = max minDuration (min maxDuration (t - u))"

definition wrap64 :: "int \<Rightarrow> int" where
  "wrap64 x = (x + 2 ^ 63) mod 2 ^ 64 - 2 ^ 63"

definition time_Unix :: "int \<Rightarrow> time" where
  \<comment> \<open>the zero time is 62135596800 seconds before the Unix epoch\<close>
  "time_Unix s = (s + 62135596800) * Second"

definition quot_int :: "int \<Rightarrow> int \<Rightarrow> int" where
  "quot_int a b = sgn a * sgn b * (\<bar>a\<bar> div \<bar>b\<bar>)"

definition rem_int :: "int \<Rightarrow> int \<Rightarrow> int" where
  "rem_int a b = a - quot_int a b * b"

definition Hours :: "duration \<Rightarrow> float64" where
  "Hours d = fadd (fl (of_int (quot_int d Hour))) (fdiv (fl (of_int (rem_int d Hour))) (of_int Hour))"

lemma word_succ_greater:
  assumes "x \<noteq> (- 1 :: uint64)"
  shows "x < x + 1"
proof -
  have "x + 1 \<noteq> 0" using assms by (simp add: eq_neg_iff_add_eq_0)
  then have "unat (x + 1) \<noteq> 0" by (simp add: unat_eq_0)
  moreover have s: "unat (x + 1) = (unat x + 1) mod 2 ^ 64" by (simp add: unat_word_ariths)
  moreover have "unat x < 2 ^ 64" using unsigned_less [of x, where ?'a = nat] by simp
  ultimately have "unat x + 1 < 2 ^ 64" by (cases "unat x + 1 = 2 ^ 64") simp_all
  with s show ?thesis by (simp add: word_less_nat_alt)
qed

lemma Sub_mono: "t \<le> t' \<Longrightarrow> Sub t u \<le> Sub t' u"
  by (auto simp: Sub_def)

lemma Sub_self [simp]: "Sub t t = 0"
  by (simp add: Sub_def minDuration_def maxDuration_def)

lemma Sub_gt_iff:
  assumes "0 \<le> d" and "d < maxDuration"
  shows "d < Sub t u \<longleftrightarrow> u + d < t"
  using assms by (auto simp: Sub_def minDuration_def maxDuration_def min_def max_def)

lemma Sub_pos_iff: "0 < Sub t u \<longleftrightarrow> u < t"
  by (auto simp: Sub_def minDuration_def maxDuration_def min_def max_def)

lemma wrap64_id: "- (2 ^ 63) \<le> x \<Longrightarrow> x < 2 ^ 63 \<Longrightarrow> wrap64 x = x"
  by (simp add: wrap64_def)

lemma wrap64_range: "- (2 ^ 63) \<le> wrap64 x \<and> wrap64 x < 2 ^ 63"
proof -
  have "0 \<le> (x + 2 ^ 63) mod 2 ^ 64" "(x + 2 ^ 63) mod 2 ^ 64 < (2 ^ 64 :: int)"
    by simp_all
  then show ?thesis by (simp add: wrap64_def)
qed

section \<open>Strings\<close>

definition space_runes :: "string list" where
  \<comment> \<open>the UTF-8 encodings of the code points with the property White_Space\<close>
  "space_runes = [
     [CHR 0x09], [CHR 0x0A], [CHR 0x0B], [CHR 0x0C], [CHR 0x0D], [CHR 0x20],
     [CHR 0xC2, CHR 0x85], [CHR 0xC2, CHR 0xA0], [CHR 0xE1, CHR 0x9A, CHR 0x80],
     [CHR 0xE2, CHR 0x80, CHR 0xA8], [CHR 0xE2, CHR 0x80, CHR 0xA9],
     [CHR 0xE2, CHR 0x80, CHR 0xAF], [CHR 0xE2, CHR 0x81, CHR 0x9F],
     [CHR 0xE3, CHR 0x80, CHR 0x80], [CHR 0xE2, CHR 0x80, CHR 0x80],
     [CHR 0xE2, CHR 0x80, CHR 0x81], [CHR 0xE2, CHR 0x80, CHR 0x82],
     [CHR 0xE2, CHR 0x80, CHR 0x83], [CHR 0xE2, CHR 0x80, CHR 0x84],
     [CHR 0xE2, CHR 0x80, CHR 0x85], [CHR 0xE2, CHR 0x80, CHR 0x86],
     [CHR 0xE2, CHR 0x80, CHR 0x87], [CHR 0xE2, CHR 0x80, CHR 0x88],
     [CHR 0xE2, CHR 0x80, CHR 0x89], [CHR 0xE2, CHR 0x80, CHR 0x8A]]"

lemma space_runes_nonempty: "r \<in> set space_runes \<Longrightarrow> r \<noteq> []"
  by (auto simp: space_runes_def)

definition leading_space :: "string list \<Rightarrow> string \<Rightarrow> string option" where
  "leading_space runes s = find (\<lambda>r. take (length r) s = r \<and> r \<noteq> []) runes"

lemma leading_space_Some:
  "leading_space runes s = Some r \<Longrightarrow> r \<noteq> [] \<and> (\<exists>t. s = r @ t)"
  by (auto simp: leading_space_def find_Some_iff) (metis append_take_drop_id)

function trim_left_by :: "string list \<Rightarrow> string \<Rightarrow> string" where
  "trim_left_by runes s =
    (case leading_space runes s of None \<Rightarrow> s
     | Some r \<Rightarrow> trim_left_by runes (drop (length r) s))"
  by pat_completeness auto
termination
  by (relation "measure (\<lambda>(runes, s). length s)") (auto dest!: leading_space_Some)

declare trim_left_by.simps [simp del]

definition TrimSpace :: "string \<Rightarrow> string" where
  "TrimSpace s = rev (trim_left_by (map rev space_runes) (rev (trim_left_by space_runes s)))"

definition lower_char :: "char \<Rightarrow> char" where
  "lower_char c = (if CHR ''A'' \<le> c \<and> c \<le> CHR ''Z'' then char_of (of_char c + 32 :: nat) else c)"

definition ToLower :: "string \<Rightarrow> string" where
  "ToLower = map lower_char"

definition EqualFold :: "string \<Rightarrow> string \<Rightarrow> bool" where
  "EqualFold a b \<longleftrightarrow> ToLower a = ToLower b"

fun split_on :: "char \<Rightarrow> string \<Rightarrow> string list" where
  "split_on c [] = [[]]"
| "split_on c (x # xs) =
    (if x = c then [] # split_on c xs
     else (case split_on c xs of [] \<Rightarrow> [[x]] | p # ps \<Rightarrow> (x # p) # ps))"

fun join_with :: "string \<Rightarrow> string list \<Rightarrow> string" where
  "join_with sep [] = []"
| "join_with sep [p] = p"
| "join_with sep (p # q # ps) = p @ sep @ join_with sep (q # ps)"

fun nat_digits :: "nat \<Rightarrow> string" where
  "nat_digits n = (if n < 10 then [char_of (48 + n)]
                   else nat_digits (n div 10) @ [char_of (48 + n mod 10)])"

declare nat_digits.simps [simp del]

definition FormatUint :: "uint64 \<Rightarrow> string" where
  "FormatUint w = nat_digits (unat w)"

section \<open>Dynamic values\<close>

datatype go_any =
    ANil
  | ABool bool
  | AFloat float64
  | AInt int
  | AInt64 int
  | AString string
  | ASlice "go_any list"
  | AMap "(string \<times> go_any) list"

type_synonym doc = "(string \<times> go_any) list"

section \<open>String normalisation is idempotent\<close>

lemma leading_space_trim_left_by: "leading_space runes (trim_left_by runes s) = None"
proof (induction runes s rule: trim_left_by.induct)
  case (1 runes s)
  then show ?case
    by (subst trim_left_by.simps) (auto split: option.splits)
qed

lemma trim_left_by_suffix: "\<exists>p. s = p @ trim_left_by runes s"
proof (induction runes s rule: trim_left_by.induct)
  case (1 runes s)
  show ?case
  proof (cases "leading_space runes s")
    case None
    then show ?thesis by (simp add: trim_left_by.simps)
  next
    case (Some r)
    then obtain t where t: "s = r @ t" using leading_space_Some by blast
    with 1 Some obtain p where "t = p @ trim_left_by runes t" by auto
    moreover have "trim_left_by runes s = trim_left_by runes t"
      using Some t by (subst trim_left_by.simps) simp
    ultimately have "s = (r @ p) @ trim_left_by runes s" using t by simp
    then show ?thesis by blast
  qed
qed

lemma trim_left_by_id: "leading_space runes s = None \<Longrightarrow> trim_left_by runes s = s"
  by (simp add: trim_left_by.simps)

lemma TrimSpace_Nil [simp]: "TrimSpace [] = []"
  by (simp add: TrimSpace_def trim_left_by_id leading_space_def find_None_iff)

lemma take_eq_self_append: "take (length r) s = r \<Longrightarrow> take (length r) (s @ t) = r"
proof -
  assume r: "take (length r) s = r"
  then have "length (take (length r) s) = length r" by simp
  then have "length r \<le> length s" by simp
  with r show ?thesis by simp
qed

lemma leading_space_prefix:
  "leading_space runes (s @ t) = None \<Longrightarrow> leading_space runes s = None"
  by (auto simp: leading_space_def find_None_iff simp del: take_append dest: take_eq_self_append)

lemma TrimSpace_no_leading: "leading_space space_runes (TrimSpace s) = None"
proof -
  let ?t = "trim_left_by space_runes s"
  obtain p where "rev ?t = p @ trim_left_by (map rev space_runes) (rev ?t)"
    using trim_left_by_suffix by blast
  then have "?t = TrimSpace s @ rev p"
    by (metis TrimSpace_def rev_append rev_rev_ident)
  then show ?thesis
    using leading_space_trim_left_by leading_space_prefix by metis
qed

lemma TrimSpace_idem [simp]: "TrimSpace (TrimSpace s) = TrimSpace s"
proof -
  have "leading_space (map rev space_runes) (rev (TrimSpace s)) = None"
    by (simp add: TrimSpace_def leading_space_trim_left_by)
  then show ?thesis
    using TrimSpace_no_leading [of s]
    by (simp add: TrimSpace_def [of "TrimSpace s"] trim_left_by_id)
qed

lemma lower_char_idem [simp]: "lower_char (lower_char c) = lower_char c"
  by (auto simp: lower_char_def less_eq_char_def)

lemma ToLower_idem [simp]: "ToLower (ToLower s) = ToLower s"
  by (simp add: ToLower_def)

definition not_letter :: "char \<Rightarrow> bool" where
  "not_letter c \<longleftrightarrow> \<not> (CHR ''A'' \<le> c \<and> c \<le> CHR ''Z'') \<and> \<not> (CHR ''a'' \<le> c \<and> c \<le> CHR ''z'')"

lemma lower_char_eq_not_letter: "not_letter c \<Longrightarrow> lower_char d = c \<longleftrightarrow> d = c"
  by (auto simp: lower_char_def not_letter_def less_eq_char_def)

lemma map_lower_eq: "\<forall>c \<in> set r. not_letter c \<Longrightarrow> map lower_char s = r \<longleftrightarrow> s = r"
  by (induction r arbitrary: s) (auto simp: map_eq_Cons_conv Cons_eq_map_conv lower_char_eq_not_letter)

lemma space_runes_not_letter: "\<forall>r \<in> set space_runes. \<forall>c \<in> set r. not_letter c"
  by (simp add: space_runes_def not_letter_def less_eq_char_def)

lemma leading_space_ToLower:
  "\<forall>r \<in> set runes. \<forall>c \<in> set r. not_letter c \<Longrightarrow>
   leading_space runes (ToLower s) = leading_space runes s"
  unfolding leading_space_def
  by (rule find_cong) (auto simp: ToLower_def take_map map_lower_eq)

lemma drop_ToLower: "drop n (ToLower s) = ToLower (drop n s)"
  by (simp add: ToLower_def drop_map)

lemma trim_left_by_ToLower:
  "\<forall>r \<in> set runes. \<forall>c \<in> set r. not_letter c \<Longrightarrow>
   trim_left_by runes (ToLower s) = ToLower (trim_left_by runes s)"
proof (induction runes s rule: trim_left_by.induct)
  case (1 runes s)
  then show ?case
    by (subst (1 2) trim_left_by.simps)
      (auto simp: leading_space_ToLower drop_ToLower split: option.splits)
qed

lemma TrimSpace_ToLower: "TrimSpace (ToLower s) = ToLower (TrimSpace s)"
proof -
  have r: "rev (ToLower t) = ToLower (rev t)" for t by (simp add: ToLower_def rev_map)
  show ?thesis
    using space_runes_not_letter
    by (simp add: TrimSpace_def trim_left_by_ToLower r)
qed

lemma Hours_ge_half:
  assumes "30 * Minute \<le> d"
  shows "1 / 2 \<le> Hours d"
proof (cases "Hour \<le> d")
  case True
  let ?q = "d div Hour" and ?r = "d mod Hour"
  have q: "quot_int d Hour = ?q" "rem_int d Hour = ?r"
    using assms by (simp_all add: quot_int_def rem_int_def minus_div_mult_eq_mod)
  have "1 \<le> ?q" using True zdiv_mono1 [of Hour d Hour] by simp
  then have "fl 1 \<le> fl (of_int ?q)" by (intro fl_mono) simp_all
  then have "1 \<le> fl (of_int ?q)" using fl_of_int_exact [of 1] by simp
  moreover have "0 \<le> fdiv (fl (of_int ?r)) (of_int Hour)"
    unfolding fdiv_def by (intro fl_nonneg divide_nonneg_nonneg) (simp_all add: fl_nonneg)
  ultimately have "fl 1 \<le> Hours d"
    unfolding Hours_def fadd_def q by (intro fl_mono) simp_all
  then show ?thesis using fl_of_int_exact [of 1] by simp
next
  case False
  then have q: "quot_int d Hour = 0" "rem_int d Hour = d"
    using assms by (simp_all add: quot_int_def rem_int_def)
  have "fl (of_int (30 * Minute)) \<le> fl (of_int d)" using assms by (intro fl_mono) simp_all
  then have "of_int (30 * Minute) \<le> fl (of_int d)" using fl_of_int_exact [of "30 * Minute"] by simp
  then have "fl (1/2) \<le> fdiv (fl (of_int d)) (of_int Hour)"
    unfolding fdiv_def by (intro fl_mono) simp_all
  then have "1/2 \<le> fdiv (fl (of_int d)) (of_int Hour)" by (simp add: fl_half)
  then have "fl (1/2) \<le> Hours d" unfolding Hours_def fadd_def q by (intro fl_mono) simp_all
  then show ?thesis by (simp add: fl_half)
qed

end
