(* ===== verification/Models.thy ===== *)
theory Models
  imports Go_Base
begin

text \<open>
  The data model of \<^verbatim>\<open>models.go\<close> and the identity types of \<^verbatim>\<open>identity.go\<close>: one record
  per struct (fields keep the Go name behind a short prefix, so that equal field names of
  different structs stay apart), one datatype per string enumeration. The constructors
  ending in \<open>Empty\<close> are the zero value \<^verbatim>\<open>""\<close> of the enumeration. A pointer that is only
  used as "maybe absent" is an option; a \<^verbatim>\<open>map[K]struct{}\<close> is a set. \<open>zero_...\<close> are the
  zero values of the structs.
\<close>

section \<open>Enumerations\<close>

datatype AccountFamily =
  AccountFamilyEmpty | AccountFamilyUnknown | AccountFamilyWeekly | AccountFamilyMonthly

datatype WindowKind = WindowKindEmpty | WindowFiveHour | WindowWeekly | WindowMonthly

datatype CircuitState =
  CircuitStateEmpty | CircuitStateClosed | CircuitStateOpen | CircuitStateHalfOpen

datatype RefreshFailureKind =
  RefreshFailureNone | RefreshFailureTransient | RefreshFailureAuth | RefreshFailureLocal

datatype ResetProbeStatus =
  ResetProbeStatusNone | ResetProbeStatusPending | ResetProbeStatusConfirmedActive
  | ResetProbeStatusVerified | ResetProbeStatusFailed

section \<open>Quota\<close>

record QuotaWindow =
  qw_Kind :: WindowKind
  qw_UsedPercent :: "float64 option"
  qw_LimitWindowSeconds :: "int option"
  qw_ResetAt :: time
  qw_Exhausted :: bool

record ResetCredit =
  rc_ID :: string
  rc_Status :: string
  rc_GrantedAt :: time
  rc_ExpiresAt :: time
  rc_UsedAt :: time

record ParsedQuota =
  pq_PlanType :: string
  pq_Family :: AccountFamily
  pq_FiveHour :: "QuotaWindow option"
  pq_LongWindow :: "QuotaWindow option"
  pq_CodeReviewWindows :: "QuotaWindow list"
  pq_AdditionalWindows :: "QuotaWindow list"
  pq_ResetCreditsAvailableCount :: "int option"
  pq_ResetCreditsTotalEarnedCount :: "int option"
  pq_ResetCredits :: "ResetCredit list"

definition zero_ParsedQuota :: ParsedQuota where
  "zero_ParsedQuota = \<lparr>pq_PlanType = [], pq_Family = AccountFamilyEmpty, pq_FiveHour = None,
     pq_LongWindow = None, pq_CodeReviewWindows = [], pq_AdditionalWindows = [],
     pq_ResetCreditsAvailableCount = None, pq_ResetCreditsTotalEarnedCount = None,
     pq_ResetCredits = []\<rparr>"

section \<open>Per-account control state\<close>

record CircuitBreakerState =
  cb_State :: CircuitState
  cb_EffectiveState :: CircuitState
  cb_FailureCount :: int
  cb_SuccessCount :: int
  cb_OpenedAt :: time
  cb_NextProbeAt :: time
  cb_Reason :: string
  cb_LastFailureAt :: time
  cb_LastSuccessAt :: time

definition zero_CircuitBreakerState :: CircuitBreakerState where
  "zero_CircuitBreakerState = \<lparr>cb_State = CircuitStateEmpty,
     cb_EffectiveState = CircuitStateEmpty, cb_FailureCount = 0, cb_SuccessCount = 0,
     cb_OpenedAt = ZeroTime, cb_NextProbeAt = ZeroTime, cb_Reason = [],
     cb_LastFailureAt = ZeroTime, cb_LastSuccessAt = ZeroTime\<rparr>"

record AccountRefreshState =
  ar_LastFailureKind :: RefreshFailureKind
  ar_RetryAttempt :: int
  ar_NextRetryAt :: time
  ar_AuthFailure :: bool
  ar_DueReason :: string
  ar_LastFailureAt :: time

definition zero_AccountRefreshState :: AccountRefreshState where
  "zero_AccountRefreshState = \<lparr>ar_LastFailureKind = RefreshFailureNone, ar_RetryAttempt = 0,
     ar_NextRetryAt = ZeroTime, ar_AuthFailure = False, ar_DueReason = [],
     ar_LastFailureAt = ZeroTime\<rparr>"

record ResetProbeState =
  rp_WindowKind :: WindowKind
  rp_WindowSeconds :: int
  rp_ResetAt :: time
  rp_NextCheckAt :: time
  rp_LastProbeAt :: time
  rp_VerifiedAt :: time
  rp_Attempts :: int
  rp_Status :: ResetProbeStatus
  rp_Error :: string

section \<open>Annotations\<close>

record AccountAnnotation =
  aa_Alias :: string
  aa_Notes :: string
  aa_Tags :: "string list"
  aa_GroupID :: string
  aa_SchedulerPriority :: int

definition zero_AccountAnnotation :: AccountAnnotation where
  "zero_AccountAnnotation = \<lparr>aa_Alias = [], aa_Notes = [], aa_Tags = [], aa_GroupID = [],
     aa_SchedulerPriority = 0\<rparr>"

record GroupAnnotation =
  ga_Name :: string
  ga_Notes :: string
  ga_Tags :: "string list"
  ga_Color :: string

record AnnotationState =
  an_Accounts :: "(string, AccountAnnotation) gmap"
  an_Groups :: "(string, GroupAnnotation) gmap"

section \<open>Identity\<close>

type_synonym AccountIdentity = uint64
type_synonym AuthInstanceID = uint64
type_synonym InstanceAdmissionEpoch = uint64
type_synonym TierGeneration = uint64
type_synonym AuthBindingEpoch = uint64
type_synonym LoginEpoch = uint64
type_synonym TokenEpoch = uint64
type_synonym hash32 = string

record CredentialFingerprint =
  fp_SubjectHash :: hash32
  fp_RefreshTokenHash :: hash32
  fp_MetadataHash :: hash32
  fp_CompositeHash :: hash32

definition zero_hash :: hash32 where
  "zero_hash = replicate 32 (char_of (0 :: nat))"

definition zero_CredentialFingerprint :: CredentialFingerprint where
  "zero_CredentialFingerprint = \<lparr>fp_SubjectHash = zero_hash, fp_RefreshTokenHash = zero_hash,
     fp_MetadataHash = zero_hash, fp_CompositeHash = zero_hash\<rparr>"

section \<open>Accounts and admission\<close>

record AccountState =
  as_Identity :: AccountIdentity
  as_Instance :: AuthInstanceID
  as_AdmissionEpoch :: InstanceAdmissionEpoch
  as_BindingEpoch :: AuthBindingEpoch
  as_LoginEpoch :: LoginEpoch
  as_TokenEpoch :: TokenEpoch
  as_TierGeneration :: TierGeneration
  as_CredentialFingerprint :: CredentialFingerprint
  as_AuthID :: string
  as_AuthIndex :: string
  as_DisplayName :: string
  as_Email :: string
  as_Provider :: string
  as_Priority :: int
  as_ChatGPTAccountID :: string
  as_Family :: AccountFamily
  as_Quota :: ParsedQuota
  as_LastRefreshAt :: time
  as_LastSuccessAt :: time
  as_LastObservedAt :: time
  as_LastError :: string
  as_Stale :: bool
  as_TemporaryExhausted :: bool
  as_TemporaryResetAt :: time
  as_Circuit :: CircuitBreakerState
  as_Refresh :: AccountRefreshState
  as_ResetProbes :: "(WindowKind, ResetProbeState) gmap"
  as_Annotation :: AccountAnnotation

definition zero_AccountState :: AccountState where
  "zero_AccountState = \<lparr>as_Identity = 0, as_Instance = 0, as_AdmissionEpoch = 0,
     as_BindingEpoch = 0, as_LoginEpoch = 0, as_TokenEpoch = 0, as_TierGeneration = 0,
     as_CredentialFingerprint = zero_CredentialFingerprint, as_AuthID = [], as_AuthIndex = [],
     as_DisplayName = [], as_Email = [], as_Provider = [], as_Priority = 0,
     as_ChatGPTAccountID = [], as_Family = AccountFamilyEmpty, as_Quota = zero_ParsedQuota,
     as_LastRefreshAt = ZeroTime, as_LastSuccessAt = ZeroTime, as_LastObservedAt = ZeroTime,
     as_LastError = [], as_Stale = False, as_TemporaryExhausted = False,
     as_TemporaryResetAt = ZeroTime, as_Circuit = zero_CircuitBreakerState,
     as_Refresh = zero_AccountRefreshState, as_ResetProbes = [],
     as_Annotation = zero_AccountAnnotation\<rparr>"

record TierAdmission =
  ta_Priority :: int
  ta_AuthIDs :: "string set"

record CPAAdmissionState =
  ad_Observed :: bool
  ad_Priority :: int
  ad_AuthIDs :: "string set"
  ad_Tiers :: "TierAdmission list"

definition zero_CPAAdmissionState :: CPAAdmissionState where
  "zero_CPAAdmissionState = \<lparr>ad_Observed = False, ad_Priority = 0, ad_AuthIDs = {},
     ad_Tiers = []\<rparr>"

record LogEntry =
  le_Time :: time
  le_Level :: string
  le_Event :: string
  le_Message :: string
  le_Fields :: "(string, go_any) gmap"

end
