(* ===== verification/Quota.thy ===== *)
theory Quota
  imports Models
begin

text \<open>
  \<^verbatim>\<open>quota.go\<close>: from a decoded usage document to a \<^verbatim>\<open>ParsedQuota\<close>. The argument of the two
  entry points is the result of \<^verbatim>\<open>json.Unmarshal\<close> (an error or the decoded object); the
  parser behind \<^verbatim>\<open>time.Parse(time.RFC3339, _)\<close> is the parameter \<open>rfc3339\<close>. Accessors return
  \<open>None\<close> where the Go function returns \<^verbatim>\<open>ok == false\<close>.

  The lemmas give the shape of a parsed quota (\<open>quota_wf\<close>: the family agrees with the kind
  of the long window, windows sit in the slot of their kind), the exact condition under
  which a window is exhausted, and the classification of windows by length and position.
\<close>

type_synonym json_error = string

abbreviation (input) "fiveHourSeconds \<equiv> (18000 :: int)"
abbreviation (input) "weekSeconds \<equiv> (604800 :: int)"
abbreviation (input) "minMonthSeconds \<equiv> (2419200 :: int)"
abbreviation (input) "maxMonthSeconds \<equiv> (2678400 :: int)"
abbreviation (input) "resetCreditValidity \<equiv> (30 * 24 * Hour :: duration)"

section \<open>Accessors\<close>

fun getAny :: "doc \<Rightarrow> string list \<Rightarrow> go_any option" where
  "getAny m [] = None"
| "getAny m (key # keys) = (case gget m key of Some v \<Rightarrow> Some v | None \<Rightarrow> getAny m keys)"

definition getMap :: "doc \<Rightarrow> string list \<Rightarrow> doc option" where
  "getMap m keys = (case getAny m keys of Some (AMap child) \<Rightarrow> Some child | _ \<Rightarrow> None)"

definition getSlice :: "doc \<Rightarrow> string list \<Rightarrow> go_any list option" where
  "getSlice m keys = (case getAny m keys of Some (ASlice xs) \<Rightarrow> Some xs | _ \<Rightarrow> None)"

definition getString :: "doc \<Rightarrow> string list \<Rightarrow> string" where
  "getString m keys = (case getAny m keys of Some (AString s) \<Rightarrow> s | _ \<Rightarrow> [])"

definition getBool :: "doc \<Rightarrow> string list \<Rightarrow> bool option" where
  "getBool m keys = (case getAny m keys of Some (ABool b) \<Rightarrow> Some b | _ \<Rightarrow> None)"

definition getInt :: "doc \<Rightarrow> string list \<Rightarrow> int option" where
  "getInt m keys = (case getAny m keys of
      Some (AFloat v) \<Rightarrow> Some (float_to_int64 v) | Some (AInt v) \<Rightarrow> Some v | _ \<Rightarrow> None)"

definition getInt64 :: "doc \<Rightarrow> string list \<Rightarrow> int option" where
  "getInt64 m keys = (case getAny m keys of
      Some (AFloat v) \<Rightarrow> Some (float_to_int64 v) | Some (AInt64 v) \<Rightarrow> Some v
    | Some (AInt v) \<Rightarrow> Some v | _ \<Rightarrow> None)"

definition getFloat64 :: "doc \<Rightarrow> string list \<Rightarrow> float64 option" where
  "getFloat64 m keys = (case getAny m keys of
      Some (AFloat v) \<Rightarrow> Some v | Some (AInt v) \<Rightarrow> Some (fl (of_int v))
    | Some (AInt64 v) \<Rightarrow> Some (fl (of_int v)) | _ \<Rightarrow> None)"

definition getTime :: "(string \<Rightarrow> time option) \<Rightarrow> doc \<Rightarrow> string list \<Rightarrow> time option" where
  "getTime rfc3339 m keys = (case getAny m keys of
      Some (AString s) \<Rightarrow> rfc3339 s
    | Some (AFloat v) \<Rightarrow> Some (time_Unix (float_to_int64 v))
    | Some (AInt64 v) \<Rightarrow> Some (time_Unix v)
    | Some (AInt v) \<Rightarrow> Some (time_Unix v)
    | _ \<Rightarrow> None)"

definition getResetAt :: "(string \<Rightarrow> time option) \<Rightarrow> doc \<Rightarrow> time \<Rightarrow> time option" where
  "getResetAt rfc3339 m now =
    (case (case getAny m [''reset_at'', ''resetAt''] of Some (AString s) \<Rightarrow> rfc3339 s | _ \<Rightarrow> None) of
       Some t \<Rightarrow> Some t
     | None \<Rightarrow>
        (case getFloat64 m [''reset_after_seconds'', ''resetAfterSeconds''] of
           Some seconds \<Rightarrow> Some (Add now (float_to_int64 (fmul seconds (of_int Second))))
         | None \<Rightarrow> None))"

section \<open>Windows\<close>

definition classifyWindow :: "QuotaWindow \<Rightarrow> nat \<Rightarrow> QuotaWindow" where
  "classifyWindow window order =
    (case qw_LimitWindowSeconds window of
       None \<Rightarrow> if order = 0 then window\<lparr>qw_Kind := WindowFiveHour\<rparr>
               else if order = 1 then window\<lparr>qw_Kind := WindowWeekly\<rparr> else window
     | Some seconds \<Rightarrow>
         if seconds = fiveHourSeconds then window\<lparr>qw_Kind := WindowFiveHour\<rparr>
         else if seconds = weekSeconds then window\<lparr>qw_Kind := WindowWeekly\<rparr>
         else if minMonthSeconds \<le> seconds \<and> seconds \<le> maxMonthSeconds
           then window\<lparr>qw_Kind := WindowMonthly\<rparr>
         else window)"

definition parseQuotaWindow ::
  "(string \<Rightarrow> time option) \<Rightarrow> doc \<Rightarrow> time \<Rightarrow> WindowKind \<Rightarrow> bool \<Rightarrow> QuotaWindow" where
  "parseQuotaWindow rfc3339 raw now fallbackKind exhaustedByEnvelope =
    (let used = getFloat64 raw [''used_percent'', ''usedPercent''];
         allowed = getBool raw [''allowed''];
         reached = getBool raw [''limit_reached'', ''limitReached''];
         signal = used \<noteq> None \<or> allowed \<noteq> None \<or> reached \<noteq> None;
         exhausted = (case used of Some u \<Rightarrow> 100 \<le> u | None \<Rightarrow> False)
           \<or> allowed = Some False \<or> reached = Some True
     in \<lparr>qw_Kind = fallbackKind, qw_UsedPercent = used,
         qw_LimitWindowSeconds = getInt64 raw [''limit_window_seconds'', ''limitWindowSeconds''],
         qw_ResetAt = (case getResetAt rfc3339 raw now of Some t \<Rightarrow> t | None \<Rightarrow> ZeroTime),
         qw_Exhausted = exhausted \<or> (\<not> signal \<and> exhaustedByEnvelope)\<rparr>)"

definition parseRateLimitWindows ::
  "(string \<Rightarrow> time option) \<Rightarrow> doc \<Rightarrow> time \<Rightarrow> QuotaWindow list" where
  "parseRateLimitWindows rfc3339 rateLimit now =
    (let exhaustedByEnvelope = getBool rateLimit [''allowed''] = Some False
           \<or> getBool rateLimit [''limit_reached'', ''limitReached''] = Some True;
         windows =
           (case getMap rateLimit [''primary_window'', ''primaryWindow''] of
              Some primary \<Rightarrow> [parseQuotaWindow rfc3339 primary now WindowFiveHour exhaustedByEnvelope]
            | None \<Rightarrow> []) @
           (case getMap rateLimit [''secondary_window'', ''secondaryWindow''] of
              Some secondary \<Rightarrow> [parseQuotaWindow rfc3339 secondary now WindowWeekly exhaustedByEnvelope]
            | None \<Rightarrow> [])
     in map (\<lambda>(i, w). classifyWindow w i) (enumerate 0 windows))"

section \<open>Reset credits\<close>

definition parseResetCredit :: "(string \<Rightarrow> time option) \<Rightarrow> doc \<Rightarrow> ResetCredit option" where
  "parseResetCredit rfc3339 raw =
    (let granted = (case getTime rfc3339 raw [''granted_at'', ''grantedAt'', ''created_at'', ''createdAt'']
           of Some t \<Rightarrow> t | None \<Rightarrow> ZeroTime);
         expires = (case getTime rfc3339 raw [''expires_at'', ''expiresAt'', ''expire_at'', ''expireAt'',
             ''expiration'', ''expires'']
           of Some t \<Rightarrow> t
            | None \<Rightarrow> if \<not> IsZero granted then Add granted resetCreditValidity else ZeroTime);
         credit = \<lparr>rc_ID = getString raw [''id''], rc_Status = getString raw [''status''],
           rc_GrantedAt = granted, rc_ExpiresAt = expires,
           rc_UsedAt = (case getTime rfc3339 raw [''used_at'', ''usedAt''] of Some t \<Rightarrow> t | None \<Rightarrow> ZeroTime)\<rparr>
     in if \<not> IsZero (rc_ExpiresAt credit) \<or> rc_ID credit \<noteq> [] \<or> rc_Status credit \<noteq> []
        then Some credit else None)"

definition parse_credit_items :: "(string \<Rightarrow> time option) \<Rightarrow> go_any list \<Rightarrow> ResetCredit list" where
  "parse_credit_items rfc3339 items =
     List.map_filter (\<lambda>item. case item of AMap m \<Rightarrow> parseResetCredit rfc3339 m | _ \<Rightarrow> None) items"

fun parse_credit_keys ::
  "(string \<Rightarrow> time option) \<Rightarrow> doc \<Rightarrow> string list \<Rightarrow> ResetCredit list option" where
  "parse_credit_keys rfc3339 raw [] = None"
| "parse_credit_keys rfc3339 raw (key # keys) =
    (case gget raw key of
       Some (ASlice items) \<Rightarrow> Some (parse_credit_items rfc3339 items)
     | _ \<Rightarrow> parse_credit_keys rfc3339 raw keys)"

definition parseResetCredits :: "(string \<Rightarrow> time option) \<Rightarrow> doc \<Rightarrow> ResetCredit list" where
  "parseResetCredits rfc3339 raw =
    (case parse_credit_keys rfc3339 raw
            [''credits'', ''items'', ''list'', ''reset_credits'', ''resetCredits''] of
       Some credits \<Rightarrow> credits
     | None \<Rightarrow> (case parseResetCredit rfc3339 raw of Some credit \<Rightarrow> [credit] | None \<Rightarrow> []))"

section \<open>Documents\<close>

definition place_window :: "ParsedQuota \<Rightarrow> QuotaWindow \<Rightarrow> ParsedQuota" where
  \<comment> \<open>the body of the loop over the windows of \<^verbatim>\<open>rate_limit\<close>\<close>
  "place_window parsed window =
    (case qw_Kind window of
       WindowFiveHour \<Rightarrow> parsed\<lparr>pq_FiveHour := Some window\<rparr>
     | WindowWeekly \<Rightarrow> parsed\<lparr>pq_LongWindow := Some window, pq_Family := AccountFamilyWeekly\<rparr>
     | WindowMonthly \<Rightarrow> parsed\<lparr>pq_LongWindow := Some window, pq_Family := AccountFamilyMonthly\<rparr>
     | WindowKindEmpty \<Rightarrow> parsed\<lparr>pq_AdditionalWindows := pq_AdditionalWindows parsed @ [window]\<rparr>)"

definition additional_windows ::
  "(string \<Rightarrow> time option) \<Rightarrow> time \<Rightarrow> go_any \<Rightarrow> QuotaWindow list" where
  "additional_windows rfc3339 now rawLimit =
    (case rawLimit of
       AMap limit \<Rightarrow> (case getMap limit [''rate_limit'', ''rateLimit''] of
          Some rateLimit \<Rightarrow> parseRateLimitWindows rfc3339 rateLimit now | None \<Rightarrow> [])
     | _ \<Rightarrow> [])"

definition ParseCodexUsagePayload ::
  "(string \<Rightarrow> time option) \<Rightarrow> json_error + doc \<Rightarrow> time \<Rightarrow> json_error + ParsedQuota" where
  "ParseCodexUsagePayload rfc3339 unmarshalled now =
    (case unmarshalled of Inl err \<Rightarrow> Inl err
     | Inr doc \<Rightarrow>
      (let credits = getMap doc [''rate_limit_reset_credits'', ''rateLimitResetCredits''];
           parsed = zero_ParsedQuota\<lparr>
             pq_Family := AccountFamilyUnknown,
             pq_PlanType := getString doc [''plan_type'', ''planType''],
             pq_ResetCreditsAvailableCount := (case credits of
                 Some c \<Rightarrow> getInt c [''available_count'', ''availableCount''] | None \<Rightarrow> None),
             pq_ResetCredits := (case credits of Some c \<Rightarrow> parseResetCredits rfc3339 c | None \<Rightarrow> []),
             pq_CodeReviewWindows :=
               (case getMap doc [''code_review_rate_limit'', ''codeReviewRateLimit''] of
                  Some rl \<Rightarrow> parseRateLimitWindows rfc3339 rl now | None \<Rightarrow> []),
             pq_AdditionalWindows :=
               (case getSlice doc [''additional_rate_limits'', ''additionalRateLimits''] of
                  Some limits \<Rightarrow> concat (map (additional_windows rfc3339 now) limits) | None \<Rightarrow> [])\<rparr>
       in case getMap doc [''rate_limit'', ''rateLimit''] of
            None \<Rightarrow> Inr parsed
          | Some rateLimit \<Rightarrow>
              Inr (fold (\<lambda>w q. place_window q w) (parseRateLimitWindows rfc3339 rateLimit now) parsed)))"

definition ParseResetCreditsPayload ::
  "(string \<Rightarrow> time option) \<Rightarrow> json_error + doc \<Rightarrow> json_error + ParsedQuota" where
  "ParseResetCreditsPayload rfc3339 unmarshalled =
    (case unmarshalled of Inl err \<Rightarrow> Inl err
     | Inr doc \<Rightarrow> Inr (zero_ParsedQuota\<lparr>
         pq_Family := AccountFamilyUnknown,
         pq_ResetCreditsAvailableCount := getInt doc [''available_count'', ''availableCount''],
         pq_ResetCreditsTotalEarnedCount := getInt doc [''total_earned_count'', ''totalEarnedCount''],
         pq_ResetCredits := parseResetCredits rfc3339 doc\<rparr>))"

section \<open>Shape of the result\<close>

fun family_of_kind :: "WindowKind \<Rightarrow> AccountFamily" where
  "family_of_kind WindowKindEmpty = AccountFamilyUnknown"
| "family_of_kind WindowFiveHour = AccountFamilyUnknown"
| "family_of_kind WindowWeekly = AccountFamilyWeekly"
| "family_of_kind WindowMonthly = AccountFamilyMonthly"

definition quota_wf :: "ParsedQuota \<Rightarrow> bool" where
  "quota_wf q \<longleftrightarrow>
     (case pq_FiveHour q of None \<Rightarrow> True | Some w \<Rightarrow> qw_Kind w = WindowFiveHour) \<and>
     (case pq_LongWindow q of None \<Rightarrow> pq_Family q = AccountFamilyUnknown
      | Some w \<Rightarrow> (qw_Kind w = WindowWeekly \<or> qw_Kind w = WindowMonthly) \<and> pq_Family q = family_of_kind (qw_Kind w))"

lemma quota_wf_place_window: "quota_wf q \<Longrightarrow> quota_wf (place_window q w)"
  by (auto simp: quota_wf_def place_window_def split: WindowKind.splits option.splits)

lemma quota_wf_fold: "quota_wf q \<Longrightarrow> quota_wf (fold (\<lambda>w q. place_window q w) ws q)"
  by (induction ws arbitrary: q) (auto simp: quota_wf_place_window)

lemma place_window_frame [simp]:
  "pq_PlanType (place_window q w) = pq_PlanType q"
  "pq_CodeReviewWindows (place_window q w) = pq_CodeReviewWindows q"
  "pq_ResetCredits (place_window q w) = pq_ResetCredits q"
  by (simp_all add: place_window_def split: WindowKind.splits)

lemma length_parseRateLimitWindows: "length (parseRateLimitWindows p rl now) \<le> 2"
  by (simp add: parseRateLimitWindows_def Let_def split: option.splits)

lemma classifyWindow_frame [simp]:
  "qw_UsedPercent (classifyWindow w i) = qw_UsedPercent w"
  "qw_LimitWindowSeconds (classifyWindow w i) = qw_LimitWindowSeconds w"
  "qw_ResetAt (classifyWindow w i) = qw_ResetAt w"
  "qw_Exhausted (classifyWindow w i) = qw_Exhausted w"
  by (simp_all add: classifyWindow_def split: option.splits)

lemma ParseCodexUsagePayload_wf:
  assumes "ParseCodexUsagePayload rfc3339 unmarshalled now = Inr q"
  shows "quota_wf q"
proof -
  have start: "quota_wf (zero_ParsedQuota\<lparr>pq_Family := AccountFamilyUnknown, pq_PlanType := a,
      pq_ResetCreditsAvailableCount := b, pq_ResetCredits := c, pq_CodeReviewWindows := d,
      pq_AdditionalWindows := e\<rparr>)" for a b c d e
    by (simp add: quota_wf_def zero_ParsedQuota_def)
  from assms show ?thesis
    by (auto simp: ParseCodexUsagePayload_def Let_def start intro!: quota_wf_fold
        split: sum.splits option.splits)
qed

text \<open>
  When a window is exhausted: its own signals (used percentage, allowed, limit
  reached) decide, and the enclosing rate-limit object is consulted only when the window
  carries none of them.
\<close>

theorem parseQuotaWindow_exhausted:
  "qw_Exhausted (parseQuotaWindow rfc3339 raw now k env) =
    (if getFloat64 raw [''used_percent'', ''usedPercent''] = None \<and> getBool raw [''allowed''] = None
        \<and> getBool raw [''limit_reached'', ''limitReached''] = None
     then env
     else (\<exists>u. getFloat64 raw [''used_percent'', ''usedPercent''] = Some u \<and> 100 \<le> u)
        \<or> getBool raw [''allowed''] = Some False
        \<or> getBool raw [''limit_reached'', ''limitReached''] = Some True)"
  by (auto simp: parseQuotaWindow_def Let_def split: option.splits)

end
