(* ===== verification/Retry_Chain.thy ===== *)
theory Retry_Chain
  imports Models
begin

text \<open>
  \<^verbatim>\<open>retry_chain.go\<close>: retry targets, the normalisation and validation of the configured
  chain, and the plan of attempts. Error messages are constructors of \<open>RetryChainError\<close>
  carrying the values the message prints. \<^verbatim>\<open>p.Fallbacks[index-1]\<close> is an option, \<open>None\<close> where Go
  would panic; \<open>Target_Some_iff\<close> shows that inside the attempt budget it never does.
\<close>

record RetryTarget =
  rt_Provider :: string
  rt_Model :: string

record RetryChainRow =
  rr_Model :: string
  rr_Fallbacks :: "RetryTarget list"

record RetryPlan =
  pl_Key :: string
  pl_Requested :: RetryTarget
  pl_Fallbacks :: "RetryTarget list"
  pl_MaxAttempts :: int

datatype RetryChainError =
    TargetEmpty
  | TargetMissingModel string
  | TargetMalformed string
  | EntryMissingModel
  | EntryDuplicateModel string
  | EntryNeedsFallback string
  | FallbackMissingModel string
  | FallbackInvalidProvider string string
  | FallbackToItself string
  | FallbackListedTwice string string

definition TargetCount :: "RetryPlan \<Rightarrow> int" where
  "TargetCount p = (let count = 1 + int (length (pl_Fallbacks p))
     in if pl_MaxAttempts p > 0 \<and> count > pl_MaxAttempts p then pl_MaxAttempts p else count)"

definition slice_get :: "'a list \<Rightarrow> int \<Rightarrow> 'a option" where
  "slice_get xs i = (if 0 \<le> i \<and> i < int (length xs) then Some (xs ! nat i) else None)"

definition Target :: "RetryPlan \<Rightarrow> int \<Rightarrow> RetryTarget option" where
  "Target p index =
    (if index < 0 \<or> index \<ge> TargetCount p then None
     else if index = 0 then Some (pl_Requested p)
     else slice_get (pl_Fallbacks p) (index - 1))"

definition Remaining :: "RetryPlan \<Rightarrow> int \<Rightarrow> RetryTarget list" where
  "Remaining p attemptIndex =
    (if TargetCount p - 1 \<le> attemptIndex then []
     else List.map_filter (Target p) [attemptIndex + 1 .. TargetCount p - 1])"

definition NormalizeRetryTarget :: "RetryTarget \<Rightarrow> RetryTarget" where
  "NormalizeRetryTarget t = \<lparr>rt_Provider = ToLower (TrimSpace (rt_Provider t)),
     rt_Model = TrimSpace (rt_Model t)\<rparr>"

definition RetryTargetKey :: "RetryTarget \<Rightarrow> string" where
  "RetryTargetKey target =
    (let t = NormalizeRetryTarget target; m = ToLower (rt_Model t)
     in if rt_Provider t = [] then m else rt_Provider t @ ''/'' @ m)"

definition FormatRetryTarget :: "RetryTarget \<Rightarrow> string" where
  "FormatRetryTarget target =
    (let t = NormalizeRetryTarget target
     in if rt_Provider t = [] then rt_Model t else rt_Provider t @ ''/'' @ rt_Model t)"

definition ParseRetryTarget :: "string \<Rightarrow> RetryChainError + RetryTarget" where
  "ParseRetryTarget raw =
    (let trimmed = TrimSpace raw
     in if trimmed = [] then Inl TargetEmpty
        else case split_on CHR ''/'' trimmed of
            [m] \<Rightarrow> Inr (NormalizeRetryTarget \<lparr>rt_Provider = [], rt_Model = m\<rparr>)
          | [p, m] \<Rightarrow>
              (let target = NormalizeRetryTarget \<lparr>rt_Provider = p, rt_Model = m\<rparr>
               in if rt_Model target = [] then Inl (TargetMissingModel trimmed) else Inr target)
          | _ \<Rightarrow> Inl (TargetMalformed trimmed))"

definition NormalizeRetryRow :: "RetryChainRow \<Rightarrow> RetryChainRow option" where
  \<comment> \<open>the body of the loop of \<open>NormalizeRetryChain\<close>; \<open>None\<close> is \<^verbatim>\<open>continue\<close>\<close>
  "NormalizeRetryRow row =
    (if TrimSpace (rr_Model row) = [] then None
     else Some \<lparr>rr_Model = TrimSpace (rr_Model row),
       rr_Fallbacks = filter (\<lambda>t. rt_Model t \<noteq> []) (map NormalizeRetryTarget (rr_Fallbacks row))\<rparr>)"

definition NormalizeRetryChain :: "RetryChainRow list \<Rightarrow> RetryChainRow list" where
  "NormalizeRetryChain rows = List.map_filter NormalizeRetryRow rows"

fun validate_fallbacks ::
  "string \<Rightarrow> string set \<Rightarrow> RetryTarget list \<Rightarrow> RetryChainError option" where
  "validate_fallbacks model seenTargets [] = None"
| "validate_fallbacks model seenTargets (fallback # rest) =
    (let target = NormalizeRetryTarget fallback; key = RetryTargetKey target
     in if rt_Model target = [] then Some (FallbackMissingModel model)
        else if rt_Provider target \<noteq> []
            \<and> (CHR '' '' \<in> set (rt_Provider target) \<or> CHR 0x09 \<in> set (rt_Provider target))
          then Some (FallbackInvalidProvider model (rt_Provider target))
        else if EqualFold (rt_Model target) model \<and> rt_Provider target = []
          then Some (FallbackToItself model)
        else if key \<in> seenTargets then Some (FallbackListedTwice model key)
        else validate_fallbacks model (insert key seenTargets) rest)"

fun validate_rows :: "string set \<Rightarrow> RetryChainRow list \<Rightarrow> RetryChainError option" where
  "validate_rows seenKeys [] = None"
| "validate_rows seenKeys (row # rows) =
    (let model = TrimSpace (rr_Model row); lowerModel = ToLower model
     in if model = [] then Some EntryMissingModel
        else if lowerModel \<in> seenKeys then Some (EntryDuplicateModel model)
        else if rr_Fallbacks row = [] then Some (EntryNeedsFallback model)
        else case validate_fallbacks model {} (rr_Fallbacks row) of
               Some err \<Rightarrow> Some err
             | None \<Rightarrow> validate_rows (insert lowerModel seenKeys) rows)"

definition validateRetryChain :: "RetryChainRow list \<Rightarrow> RetryChainError option" where
  "validateRetryChain rows = validate_rows {} rows"

definition retryChainRowFor :: "RetryChainRow list \<Rightarrow> string \<Rightarrow> RetryChainRow option" where
  "retryChainRowFor rows model =
    (let trimmed = TrimSpace model
     in if trimmed = [] then None
        else case find (\<lambda>row. TrimSpace (rr_Model row) = trimmed) rows of
               Some row \<Rightarrow> Some row
             | None \<Rightarrow> find (\<lambda>row. ToLower (TrimSpace (rr_Model row)) = ToLower trimmed) rows)"

section \<open>Normalisation of rows\<close>

lemma NormalizeRetryTarget_idem [simp]:
  "NormalizeRetryTarget (NormalizeRetryTarget t) = NormalizeRetryTarget t"
  by (simp add: NormalizeRetryTarget_def TrimSpace_ToLower)

lemma RetryTargetKey_normal [simp]:
  "RetryTargetKey (NormalizeRetryTarget t) = RetryTargetKey t"
  by (simp add: RetryTargetKey_def)

section \<open>Normalisation and validation of a chain\<close>

lemma NormalizeRetryRow_Some:
  "NormalizeRetryRow row = Some row' \<Longrightarrow> NormalizeRetryRow row' = Some row'"
proof -
  have "filter (\<lambda>t. rt_Model t \<noteq> []) (map NormalizeRetryTarget
          (filter (\<lambda>t. rt_Model t \<noteq> []) (map NormalizeRetryTarget ts)))
      = filter (\<lambda>t. rt_Model t \<noteq> []) (map NormalizeRetryTarget ts)" for ts
    by (induction ts) auto
  then show "NormalizeRetryRow row = Some row' \<Longrightarrow> ?thesis"
    by (auto simp: NormalizeRetryRow_def split: if_splits)
qed

lemma NormalizeRetryChain_idem:
  "NormalizeRetryChain (NormalizeRetryChain rows) = NormalizeRetryChain rows"
  unfolding NormalizeRetryChain_def
  by (induction rows) (auto simp: List.map_filter_simps dest: NormalizeRetryRow_Some split: option.splits)

lemma validate_fallbacks_None:
  "validate_fallbacks model seen ts = None \<Longrightarrow>
   distinct (map RetryTargetKey ts) \<and> RetryTargetKey ` set ts \<inter> seen = {}
   \<and> (\<forall>t \<in> set ts. rt_Model (NormalizeRetryTarget t) \<noteq> []
        \<and> (rt_Provider (NormalizeRetryTarget t) = [] \<longrightarrow>
             \<not> EqualFold (rt_Model (NormalizeRetryTarget t)) model))"
proof (induction ts arbitrary: seen)
  case Nil
  then show ?case by simp
next
  case (Cons t ts)
  then have "validate_fallbacks model (insert (RetryTargetKey t) seen) ts = None"
    by (auto simp: Let_def split: if_splits)
  from Cons.IH [OF this] Cons.prems show ?case
    by (auto simp: Let_def split: if_splits)
qed

lemma validate_rows_None:
  "validate_rows seen rows = None \<Longrightarrow>
   distinct (map (\<lambda>row. ToLower (TrimSpace (rr_Model row))) rows)
   \<and> (\<lambda>row. ToLower (TrimSpace (rr_Model row))) ` set rows \<inter> seen = {}
   \<and> (\<forall>row \<in> set rows. rr_Fallbacks row \<noteq> []
        \<and> validate_fallbacks (TrimSpace (rr_Model row)) {} (rr_Fallbacks row) = None)"
proof (induction rows arbitrary: seen)
  case Nil
  then show ?case by simp
next
  case (Cons row rows)
  let ?key = "ToLower (TrimSpace (rr_Model row))"
  from Cons.prems have "validate_rows (insert ?key seen) rows = None"
    by (auto simp: Let_def split: if_splits option.splits)
  from Cons.IH [OF this] Cons.prems show ?case
    by (auto simp: Let_def split: if_splits option.splits)
qed

section \<open>Plans\<close>

lemma TargetCount_bounds:
  "1 \<le> TargetCount p \<and> TargetCount p \<le> 1 + int (length (pl_Fallbacks p))
   \<and> (pl_MaxAttempts p > 0 \<longrightarrow> TargetCount p \<le> pl_MaxAttempts p)"
  by (auto simp: TargetCount_def Let_def)

lemma Target_Some_iff: "(\<exists>t. Target p i = Some t) \<longleftrightarrow> 0 \<le> i \<and> i < TargetCount p"
  using TargetCount_bounds [of p] by (auto simp: Target_def slice_get_def)

lemma Target_nth:
  "0 < i \<Longrightarrow> i < TargetCount p \<Longrightarrow> Target p i = Some (pl_Fallbacks p ! nat (i - 1))"
  using TargetCount_bounds [of p] by (simp add: Target_def slice_get_def)

lemma map_filter_Some: "\<forall>x \<in> set xs. f x = Some (g x) \<Longrightarrow> List.map_filter f xs = map g xs"
  by (induction xs) (auto simp: List.map_filter_simps)

text \<open>
  The targets left after attempt number i are exactly the configured fallbacks behind
  it, in order, cut off at the attempt budget.
\<close>

theorem Remaining_eq_drop:
  assumes "0 \<le> i"
  shows "Remaining p i = drop (nat i) (take (nat (TargetCount p - 1)) (pl_Fallbacks p))"
proof (cases "TargetCount p - 1 \<le> i")
  case True
  then show ?thesis by (simp add: Remaining_def)
next
  case False
  let ?f = "\<lambda>j. pl_Fallbacks p ! nat (j - 1)"
  have "Remaining p i = map ?f [i + 1 .. TargetCount p - 1]"
    using False assms unfolding Remaining_def
    by (simp) (intro map_filter_Some, auto simp: Target_nth)
  also have "\<dots> = drop (nat i) (take (nat (TargetCount p - 1)) (pl_Fallbacks p))"
  proof (rule nth_equalityI)
    show "length (map ?f [i + 1 .. TargetCount p - 1])
        = length (drop (nat i) (take (nat (TargetCount p - 1)) (pl_Fallbacks p)))"
      using TargetCount_bounds [of p] False assms by simp linarith
  next
    fix k assume "k < length (map ?f [i + 1 .. TargetCount p - 1])"
    then have k: "nat i + k < nat (TargetCount p - 1)" "k < nat (TargetCount p - i - 1)"
      using False assms by simp_all
    then have "nat i \<le> length (take (nat (TargetCount p - 1)) (pl_Fallbacks p))"
      using TargetCount_bounds [of p] by simp linarith
    with k show "map ?f [i + 1 .. TargetCount p - 1] ! k
        = drop (nat i) (take (nat (TargetCount p - 1)) (pl_Fallbacks p)) ! k"
      using assms by (simp add: nth_upto nat_add_distrib)
  qed
  finally show ?thesis .
qed

theorem Remaining_eq_drop_witness:
  "let t = (\<lambda>m. \<lparr>rt_Provider = [], rt_Model = m\<rparr>)
   in Remaining \<lparr>pl_Key = ''a'', pl_Requested = t ''a'', pl_Fallbacks = [t ''b'', t ''c'', t ''d''], pl_MaxAttempts = 3\<rparr> 1
      = [t ''c'']"
  unfolding Let_def by (subst Remaining_eq_drop) (simp_all add: TargetCount_def)

section \<open>Printing and parsing a target\<close>

lemma split_on_not_in: "c \<notin> set s \<Longrightarrow> split_on c s = [s]"
  by (induction s) auto

lemma split_on_append: "c \<notin> set s \<Longrightarrow> split_on c (s @ c # t) = s # split_on c t"
  by (induction s) auto

lemma leading_space_sep:
  assumes "\<forall>r \<in> set runes. c \<notin> set r"
  shows "leading_space runes (s @ c # t) = leading_space runes s"
  unfolding leading_space_def
proof (rule find_cong [OF refl])
  fix r assume r: "r \<in> set runes"
  show "(take (length r) (s @ c # t) = r \<and> r \<noteq> []) = (take (length r) s = r \<and> r \<noteq> [])"
  proof (cases "length r \<le> length s")
    case False
    then have "c \<in> set (take (length r) (s @ c # t))" by (simp add: take_Cons')
    moreover from False have "length (take (length r) s) \<noteq> length r" by simp
    then have "take (length r) s \<noteq> r" by force
    ultimately show ?thesis using assms r by metis
  qed simp
qed

lemma TrimSpace_sep:
  assumes "TrimSpace p = p" "TrimSpace m = m" "\<forall>r \<in> set space_runes. c \<notin> set r"
  shows "TrimSpace (p @ c # m) = p @ c # m"
proof -
  have "leading_space space_runes (p @ c # m) = None"
    using TrimSpace_no_leading [of p] assms by (simp add: leading_space_sep)
  moreover have "leading_space (map rev space_runes) (rev m) = None"
    using leading_space_trim_left_by [of "map rev space_runes" "rev (trim_left_by space_runes m)"]
      assms(2) by (simp add: TrimSpace_def rev_swap)
  then have "leading_space (map rev space_runes) (rev m @ c # rev p) = None"
    using assms(3) by (simp add: leading_space_sep)
  ultimately show ?thesis by (simp add: TrimSpace_def trim_left_by_id)
qed

lemma set_TrimSpace: "set (TrimSpace s) \<subseteq> set s"
proof -
  have sub: "set (trim_left_by runes t) \<subseteq> set t" for runes t
    using trim_left_by_suffix [of t runes] by (metis Un_upper2 set_append)
  show ?thesis unfolding TrimSpace_def using sub by (metis set_rev subset_trans)
qed

lemma slash_not_space: "\<forall>r \<in> set space_runes. CHR ''/'' \<notin> set r"
  by (simp add: space_runes_def)

text \<open>
  Printing a retry target and parsing the text gives the normalised target back,
  for every target that names a model and has no slash inside its two parts.
\<close>

theorem retry_target_round_trip:
  assumes "CHR ''/'' \<notin> set (rt_Provider t)" "CHR ''/'' \<notin> set (rt_Model t)" "TrimSpace (rt_Model t) \<noteq> []"
  shows "ParseRetryTarget (FormatRetryTarget t) = Inr (NormalizeRetryTarget t)"
proof -
  let ?p = "rt_Provider (NormalizeRetryTarget t)" and ?m = "rt_Model (NormalizeRetryTarget t)"
  have "CHR ''/'' \<notin> set (TrimSpace (rt_Provider t))" using assms(1) set_TrimSpace by blast
  moreover have "not_letter CHR ''/''" by (simp add: not_letter_def less_eq_char_def)
  ultimately have p: "CHR ''/'' \<notin> set ?p"
    by (auto simp: NormalizeRetryTarget_def ToLower_def lower_char_eq_not_letter dest: sym)
  have m: "CHR ''/'' \<notin> set ?m" "?m \<noteq> []"
    using assms set_TrimSpace by (auto simp: NormalizeRetryTarget_def)
  have trim: "TrimSpace ?p = ?p" "TrimSpace ?m = ?m"
    by (simp_all add: NormalizeRetryTarget_def TrimSpace_ToLower)
  have norm: "NormalizeRetryTarget \<lparr>rt_Provider = ?p, rt_Model = ?m\<rparr> = NormalizeRetryTarget t"
    using NormalizeRetryTarget_idem [of t] by (metis RetryTarget.surjective old.unit.exhaust)
  show ?thesis
  proof (cases "?p = []")
    case True
    then show ?thesis
      using m trim norm by (simp add: FormatRetryTarget_def ParseRetryTarget_def Let_def split_on_not_in)
  next
    case False
    then show ?thesis
      using m p trim norm slash_not_space
      by (simp add: FormatRetryTarget_def ParseRetryTarget_def Let_def split_on_not_in split_on_append TrimSpace_sep)
  qed
qed

theorem retry_target_round_trip_witness:
  "ParseRetryTarget (FormatRetryTarget \<lparr>rt_Provider = ''Codex'', rt_Model = ''gpt''\<rparr>)
   = Inr (NormalizeRetryTarget \<lparr>rt_Provider = ''Codex'', rt_Model = ''gpt''\<rparr>)"
proof (rule retry_target_round_trip)
  show "TrimSpace (rt_Model \<lparr>rt_Provider = ''Codex'', rt_Model = ''gpt''\<rparr>) \<noteq> []" by code_simp
qed simp_all

end
