(* ===== verification/Configuration.thy ===== *)
theory Configuration
  imports Retry_Chain
begin

text \<open>
  \<^verbatim>\<open>config.go\<close>: the configuration record, its defaults, \<^verbatim>\<open>NormalizeConfig\<close> (repairs values
  that are not positive) and \<^verbatim>\<open>DecodeConfig\<close> (rejects them). \<^verbatim>\<open>yaml.Unmarshal\<close>,
  \<^verbatim>\<open>time.ParseDuration\<close> and \<^verbatim>\<open>strconv.ParseFloat\<close> are parameters: the decoder sees the
  decoded \<open>rawConfig\<close> and two parsers returning \<open>None\<close> on an error. The retry-chain methods
  of \<^verbatim>\<open>Config\<close> (\<^verbatim>\<open>RetryPlanFor\<close>, \<^verbatim>\<open>RetryActive\<close>) are at the end.

  The lemmas show that a normalised configuration is usable (\<open>config_wf\<close>), that normalising
  is idempotent, that decoding either fails or gives a usable configuration with the one
  permitted quota endpoint, and that retry plans respect the attempt budget.
\<close>

section \<open>The configuration\<close>

datatype MonthlyMode =
  MonthlyModeEmpty | MonthlyModePriority | MonthlyModeExpiryOrder | MonthlyModeOther string

datatype FallbackMode = FallbackEmpty | FallbackFillFirst | FallbackOther string

definition MonthlyMode_of :: "string \<Rightarrow> MonthlyMode" where
  "MonthlyMode_of s = (if s = [] then MonthlyModeEmpty
     else if s = ''priority'' then MonthlyModePriority
     else if s = ''expiry_order'' then MonthlyModeExpiryOrder else MonthlyModeOther s)"

definition FallbackMode_of :: "string \<Rightarrow> FallbackMode" where
  "FallbackMode_of s = (if s = [] then FallbackEmpty
     else if s = ''fill-first'' then FallbackFillFirst else FallbackOther s)"

definition chatGPTQuotaEndpoint :: string where
  "chatGPTQuotaEndpoint = ''https://chatgpt.com/backend-api/wham/usage''"

record Config =
  cfg_HandleEnabled :: bool
  cfg_QuotaRefreshInterval :: duration
  cfg_StaleAfter :: duration
  cfg_MonthlyMode :: MonthlyMode
  cfg_Fallback :: FallbackMode
  cfg_EnableUsageFeedback :: bool
  cfg_EnableResetProbe :: bool
  cfg_ProbeOnProvisionalRoster :: bool
  cfg_MaxRefreshConcurrency :: int
  cfg_QuotaEndpoint :: string
  cfg_RefreshActiveWindow :: duration
  cfg_RefreshAfterResetDelay :: duration
  cfg_RefreshRetryDelays :: "duration list"
  cfg_AuthFailureRetryInterval :: duration
  cfg_RefreshOnStartup :: bool
  cfg_CircuitFailureThreshold :: int
  cfg_CircuitOpenDuration :: duration
  cfg_CircuitHalfOpenSuccessThreshold :: int
  cfg_MaxLogEntries :: int
  cfg_LogRetention :: duration
  cfg_ScheduleAcrossPriorities :: bool
  cfg_EnableManagedQuotaDisable :: bool
  cfg_LifecycleEventLimit :: int
  cfg_RetryEnabled :: bool
  cfg_RetryShadow :: bool
  cfg_RetryAlways :: bool
  cfg_RetryMaxAttempts :: int
  cfg_RetryStallTimeout :: duration
  cfg_RetryHoldTimeout :: duration
  cfg_RetryChainDeadline :: duration
  cfg_RetryMaxFrames :: int
  cfg_RetryMaxBytes :: int
  cfg_RetryStripReasoning :: bool
  cfg_RetryChain :: "RetryChainRow list"

abbreviation (input) "maxRetryMaxAttempts \<equiv> (16 :: int)"

definition DefaultConfig :: Config where
  "DefaultConfig = \<lparr>
     cfg_HandleEnabled = True,
     cfg_QuotaRefreshInterval = 30 * Minute,
     cfg_StaleAfter = 5 * Hour,
     cfg_MonthlyMode = MonthlyModeExpiryOrder,
     cfg_Fallback = FallbackFillFirst,
     cfg_EnableUsageFeedback = True,
     cfg_EnableResetProbe = False,
     cfg_ProbeOnProvisionalRoster = False,
     cfg_MaxRefreshConcurrency = 1,
     cfg_QuotaEndpoint = chatGPTQuotaEndpoint,
     cfg_RefreshActiveWindow = Hour,
     cfg_RefreshAfterResetDelay = Minute,
     cfg_RefreshRetryDelays = [Minute, 5 * Minute, 15 * Minute],
     cfg_AuthFailureRetryInterval = 30 * Minute,
     cfg_RefreshOnStartup = False,
     cfg_CircuitFailureThreshold = 5,
     cfg_CircuitOpenDuration = 30 * Minute,
     cfg_CircuitHalfOpenSuccessThreshold = 2,
     cfg_MaxLogEntries = 200,
     cfg_LogRetention = 24 * Hour,
     cfg_ScheduleAcrossPriorities = True,
     cfg_EnableManagedQuotaDisable = False,
     cfg_LifecycleEventLimit = 50,
     cfg_RetryEnabled = False,
     cfg_RetryShadow = False,
     cfg_RetryAlways = False,
     cfg_RetryMaxAttempts = 4,
     cfg_RetryStallTimeout = 60 * Second,
     cfg_RetryHoldTimeout = 90 * Second,
     cfg_RetryChainDeadline = 240 * Second,
     cfg_RetryMaxFrames = 4096,
     cfg_RetryMaxBytes = 8388608,
     cfg_RetryStripReasoning = True,
     cfg_RetryChain = []\<rparr>"

definition normalizeRetryDelays :: "duration list \<Rightarrow> duration list \<Rightarrow> duration list" where
  "normalizeRetryDelays values fallback =
    (let normalized = filter (\<lambda>v. v > 0) values
     in if normalized = [] then fallback else normalized)"

definition or_default :: "int \<Rightarrow> int \<Rightarrow> int" where
  "or_default v d = (if v \<le> 0 then d else v)"

definition NormalizeConfig :: "Config \<Rightarrow> Config" where
  "NormalizeConfig cfg = (let defaults = DefaultConfig in cfg\<lparr>
     cfg_QuotaRefreshInterval :=
       or_default (cfg_QuotaRefreshInterval cfg) (cfg_QuotaRefreshInterval defaults),
     cfg_StaleAfter := or_default (cfg_StaleAfter cfg) (cfg_StaleAfter defaults),
     cfg_MonthlyMode := (if cfg_MonthlyMode cfg = MonthlyModeEmpty
       then cfg_MonthlyMode defaults else cfg_MonthlyMode cfg),
     cfg_Fallback := (if cfg_Fallback cfg = FallbackEmpty
       then cfg_Fallback defaults else cfg_Fallback cfg),
     cfg_MaxRefreshConcurrency :=
       or_default (cfg_MaxRefreshConcurrency cfg) (cfg_MaxRefreshConcurrency defaults),
     cfg_QuotaEndpoint := (if TrimSpace (cfg_QuotaEndpoint cfg) = []
       then cfg_QuotaEndpoint defaults else cfg_QuotaEndpoint cfg),
     cfg_RefreshActiveWindow :=
       or_default (cfg_RefreshActiveWindow cfg) (cfg_RefreshActiveWindow defaults),
     cfg_RefreshAfterResetDelay :=
       or_default (cfg_RefreshAfterResetDelay cfg) (cfg_RefreshAfterResetDelay defaults),
     cfg_RefreshRetryDelays :=
       normalizeRetryDelays (cfg_RefreshRetryDelays cfg) (cfg_RefreshRetryDelays defaults),
     cfg_AuthFailureRetryInterval :=
       or_default (cfg_AuthFailureRetryInterval cfg) (cfg_AuthFailureRetryInterval defaults),
     cfg_CircuitFailureThreshold :=
       or_default (cfg_CircuitFailureThreshold cfg) (cfg_CircuitFailureThreshold defaults),
     cfg_CircuitOpenDuration :=
       or_default (cfg_CircuitOpenDuration cfg) (cfg_CircuitOpenDuration defaults),
     cfg_CircuitHalfOpenSuccessThreshold :=
       or_default (cfg_CircuitHalfOpenSuccessThreshold cfg)
         (cfg_CircuitHalfOpenSuccessThreshold defaults),
     cfg_MaxLogEntries := or_default (cfg_MaxLogEntries cfg) (cfg_MaxLogEntries defaults),
     cfg_LogRetention := or_default (cfg_LogRetention cfg) (cfg_LogRetention defaults),
     cfg_RetryChain := NormalizeRetryChain (cfg_RetryChain cfg),
     cfg_RetryMaxAttempts := min maxRetryMaxAttempts
       (or_default (cfg_RetryMaxAttempts cfg) (cfg_RetryMaxAttempts defaults)),
     cfg_RetryStallTimeout :=
       or_default (cfg_RetryStallTimeout cfg) (cfg_RetryStallTimeout defaults),
     cfg_RetryHoldTimeout :=
       or_default (cfg_RetryHoldTimeout cfg) (cfg_RetryHoldTimeout defaults),
     cfg_RetryChainDeadline :=
       or_default (cfg_RetryChainDeadline cfg) (cfg_RetryChainDeadline defaults),
     cfg_RetryMaxFrames := or_default (cfg_RetryMaxFrames cfg) (cfg_RetryMaxFrames defaults),
     cfg_RetryMaxBytes := or_default (cfg_RetryMaxBytes cfg) (cfg_RetryMaxBytes defaults)\<rparr>)"

section \<open>Decoding\<close>

record rawConfig =
  rw_HandleEnabled :: "bool option"
  rw_QuotaRefreshInterval :: string
  rw_StaleAfter :: string
  rw_MonthlyMode :: string
  rw_Fallback :: string
  rw_EnableUsageFeedback :: "bool option"
  rw_EnableResetProbe :: "bool option"
  rw_ProbeOnProvisionalRoster :: "bool option"
  rw_MaxRefreshConcurrency :: "int option"
  rw_QuotaEndpoint :: string
  rw_RefreshActiveWindow :: string
  rw_RefreshAfterResetDelay :: string
  rw_RefreshRetryDelays :: string
  rw_AuthFailureRetryInterval :: string
  rw_RefreshOnStartup :: "bool option"
  rw_CircuitFailureThreshold :: "int option"
  rw_CircuitOpenDuration :: string
  rw_CircuitHalfOpenSuccessThreshold :: "int option"
  rw_MaxLogEntries :: "int option"
  rw_LogRetention :: string
  rw_ScheduleAcrossPriorities :: "bool option"
  rw_EnableManagedQuotaDisable :: "bool option"
  rw_LifecycleEventLimit :: "int option"
  rw_RetryEnabled :: "bool option"
  rw_RetryShadow :: "bool option"
  rw_RetryAlways :: "bool option"
  rw_RetryMaxAttempts :: "int option"
  rw_RetryStallTimeout :: string
  rw_RetryHoldTimeout :: string
  rw_RetryChainDeadline :: string
  rw_RetryMaxFrames :: "int option"
  rw_RetryMaxBytes :: string
  rw_RetryStripReasoning :: "bool option"
  rw_RetryChain :: "RetryChainRow list option"

datatype ConfigError =
    YamlError string
  | DurationUnparsable string
  | MustBePositive string
  | MonthlyModeInvalid
  | FallbackInvalid
  | QuotaEndpointInvalid
  | DurationListEmpty
  | RetryMaxAttemptsRange
  | SizeEmpty
  | SizeUnparsable
  | SizeNotPositive
  | RetryChainInvalid RetryChainError

type_synonym decode_step = "Config \<Rightarrow> ConfigError + Config"

definition seqE :: "decode_step \<Rightarrow> decode_step \<Rightarrow> decode_step" where
  "seqE f g cfg = (case f cfg of Inl e \<Rightarrow> Inl e | Inr cfg' \<Rightarrow> g cfg')"

fun run_steps :: "decode_step list \<Rightarrow> decode_step" where
  "run_steps [] cfg = Inr cfg"
| "run_steps (f # fs) cfg = seqE f (run_steps fs) cfg"

definition set_bool :: "bool option \<Rightarrow> (bool \<Rightarrow> Config \<Rightarrow> Config) \<Rightarrow> decode_step" where
  "set_bool x upd cfg = (case x of None \<Rightarrow> Inr cfg | Some b \<Rightarrow> Inr (upd b cfg))"

definition set_pos :: "string \<Rightarrow> int option \<Rightarrow> (int \<Rightarrow> Config \<Rightarrow> Config) \<Rightarrow> decode_step" where
  "set_pos name x upd cfg = (case x of None \<Rightarrow> Inr cfg
     | Some n \<Rightarrow> if n \<le> 0 then Inl (MustBePositive name) else Inr (upd n cfg))"

definition set_dur :: "(string \<Rightarrow> duration option) \<Rightarrow> string \<Rightarrow> string
    \<Rightarrow> (duration \<Rightarrow> Config \<Rightarrow> Config) \<Rightarrow> decode_step" where
  "set_dur parseDuration name raw upd cfg =
    (if raw = [] then Inr cfg
     else case parseDuration raw of
            None \<Rightarrow> Inl (DurationUnparsable name)
          | Some d \<Rightarrow> if d \<le> 0 then Inl (MustBePositive name) else Inr (upd d cfg))"

fun parse_duration_parts ::
  "(string \<Rightarrow> duration option) \<Rightarrow> string list \<Rightarrow> ConfigError + duration list" where
  "parse_duration_parts parseDuration [] = Inr []"
| "parse_duration_parts parseDuration (part # parts) =
    (let p = TrimSpace part
     in if p = [] then parse_duration_parts parseDuration parts
        else case parseDuration p of
               None \<Rightarrow> Inl (DurationUnparsable ''refresh_retry_delays'')
             | Some d \<Rightarrow>
                 if d \<le> 0 then Inl (MustBePositive ''refresh_retry_delays'')
                 else (case parse_duration_parts parseDuration parts of
                         Inl e \<Rightarrow> Inl e | Inr ds \<Rightarrow> Inr (d # ds)))"

definition parseDurationList ::
  "(string \<Rightarrow> duration option) \<Rightarrow> string \<Rightarrow> ConfigError + duration list" where
  "parseDurationList parseDuration raw =
    (case parse_duration_parts parseDuration (split_on CHR '','' raw) of
       Inl e \<Rightarrow> Inl e
     | Inr delays \<Rightarrow> if delays = [] then Inl DurationListEmpty else Inr delays)"

definition validateQuotaEndpoint :: "string \<Rightarrow> ConfigError + string" where
  "validateQuotaEndpoint raw =
    (let endpoint = TrimSpace raw
     in if endpoint = [] then Inr []
        else if endpoint \<noteq> chatGPTQuotaEndpoint then Inl QuotaEndpointInvalid
        else Inr endpoint)"

definition upper_char :: "char \<Rightarrow> char" where
  "upper_char c = (if CHR ''a'' \<le> c \<and> c \<le> CHR ''z'' then char_of (of_char c - 32 :: nat) else c)"

definition HasSuffix :: "string \<Rightarrow> string \<Rightarrow> bool" where
  "HasSuffix s sfx \<longleftrightarrow> length sfx \<le> length s \<and> drop (length s - length sfx) s = sfx"

definition byte_units :: "(string \<times> int) list" where
  "byte_units = [(''KIB'', 1024), (''MIB'', 1024 * 1024), (''GIB'', 1024 * 1024 * 1024),
     (''KB'', 1024), (''MB'', 1024 * 1024), (''GB'', 1024 * 1024 * 1024), (''B'', 1)]"

definition parseByteSize :: "(string \<Rightarrow> float64 option) \<Rightarrow> string \<Rightarrow> ConfigError + int" where
  "parseByteSize parseFloat raw =
    (let trimmed = TrimSpace raw
     in if trimmed = [] then Inl SizeEmpty
        else let (number, multiplier) =
               (case find (\<lambda>(sfx, factor). HasSuffix (map upper_char trimmed) sfx) byte_units of
                  Some (sfx, factor) \<Rightarrow>
                    (TrimSpace (take (length trimmed - length sfx) trimmed), factor)
                | None \<Rightarrow> (trimmed, 1))
             in case parseFloat number of
                  None \<Rightarrow> Inl SizeUnparsable
                | Some value \<Rightarrow>
                    (let size = float_to_int64 (fmul value (of_int multiplier))
                     in if size \<le> 0 then Inl SizeNotPositive else Inr size))"

definition decode_monthly :: "rawConfig \<Rightarrow> decode_step" where
  "decode_monthly raw cfg =
    (let mode = (if rw_MonthlyMode raw \<noteq> [] then MonthlyMode_of (rw_MonthlyMode raw) else cfg_MonthlyMode cfg)
     in if mode \<noteq> MonthlyModePriority \<and> mode \<noteq> MonthlyModeExpiryOrder then Inl MonthlyModeInvalid
        else Inr (cfg\<lparr>cfg_MonthlyMode := mode\<rparr>))"

definition decode_fallback :: "rawConfig \<Rightarrow> decode_step" where
  "decode_fallback raw cfg =
    (let mode = (if rw_Fallback raw \<noteq> [] then FallbackMode_of (rw_Fallback raw) else cfg_Fallback cfg)
     in if mode \<noteq> FallbackEmpty \<and> mode \<noteq> FallbackFillFirst then Inl FallbackInvalid
        else Inr (cfg\<lparr>cfg_Fallback := mode\<rparr>))"

definition decode_endpoint :: "rawConfig \<Rightarrow> decode_step" where
  "decode_endpoint raw cfg =
    (if rw_QuotaEndpoint raw = [] then Inr cfg
     else case validateQuotaEndpoint (rw_QuotaEndpoint raw) of
            Inl e \<Rightarrow> Inl e | Inr endpoint \<Rightarrow> Inr (cfg\<lparr>cfg_QuotaEndpoint := endpoint\<rparr>))"

definition decode_delays :: "(string \<Rightarrow> duration option) \<Rightarrow> rawConfig \<Rightarrow> decode_step" where
  "decode_delays parseDuration raw cfg =
    (if rw_RefreshRetryDelays raw = [] then Inr cfg
     else case parseDurationList parseDuration (rw_RefreshRetryDelays raw) of
            Inl e \<Rightarrow> Inl e | Inr delays \<Rightarrow> Inr (cfg\<lparr>cfg_RefreshRetryDelays := delays\<rparr>))"

definition decode_always :: "rawConfig \<Rightarrow> decode_step" where
  "decode_always raw cfg = (case rw_RetryAlways raw of None \<Rightarrow> Inr cfg
     | Some b \<Rightarrow> Inr (if b then cfg\<lparr>cfg_RetryAlways := b, cfg_RetryShadow := False\<rparr>
                      else cfg\<lparr>cfg_RetryAlways := b\<rparr>))"

definition decode_attempts :: "rawConfig \<Rightarrow> decode_step" where
  "decode_attempts raw cfg = (case rw_RetryMaxAttempts raw of None \<Rightarrow> Inr cfg
     | Some n \<Rightarrow> if n \<le> 0 \<or> n > maxRetryMaxAttempts then Inl RetryMaxAttemptsRange
                 else Inr (cfg\<lparr>cfg_RetryMaxAttempts := n\<rparr>))"

definition decode_bytes :: "(string \<Rightarrow> float64 option) \<Rightarrow> rawConfig \<Rightarrow> decode_step" where
  "decode_bytes parseFloat raw cfg =
    (if rw_RetryMaxBytes raw = [] then Inr cfg
     else case parseByteSize parseFloat (rw_RetryMaxBytes raw) of
            Inl e \<Rightarrow> Inl e | Inr n \<Rightarrow> Inr (cfg\<lparr>cfg_RetryMaxBytes := n\<rparr>))"

definition decode_chain :: "rawConfig \<Rightarrow> decode_step" where
  "decode_chain raw cfg = (case rw_RetryChain raw of None \<Rightarrow> Inr cfg
     | Some rows \<Rightarrow> (let chain = NormalizeRetryChain rows
         in case validateRetryChain chain of
              Some err \<Rightarrow> Inl (RetryChainInvalid err)
            | None \<Rightarrow> Inr (cfg\<lparr>cfg_RetryChain := chain\<rparr>)))"

definition decode_steps ::
  "(string \<Rightarrow> duration option) \<Rightarrow> (string \<Rightarrow> float64 option) \<Rightarrow> rawConfig \<Rightarrow> decode_step list" where
  "decode_steps pd pf raw = [
     set_bool (rw_HandleEnabled raw) (\<lambda>b c. c\<lparr>cfg_HandleEnabled := b\<rparr>),
     set_dur pd ''quota_refresh_interval'' (rw_QuotaRefreshInterval raw) (\<lambda>d c. c\<lparr>cfg_QuotaRefreshInterval := d\<rparr>),
     set_dur pd ''stale_after'' (rw_StaleAfter raw) (\<lambda>d c. c\<lparr>cfg_StaleAfter := d\<rparr>),
     decode_monthly raw,
     decode_fallback raw,
     set_bool (rw_EnableUsageFeedback raw) (\<lambda>b c. c\<lparr>cfg_EnableUsageFeedback := b\<rparr>),
     set_bool (rw_EnableResetProbe raw) (\<lambda>b c. c\<lparr>cfg_EnableResetProbe := b\<rparr>),
     set_bool (rw_ProbeOnProvisionalRoster raw) (\<lambda>b c. c\<lparr>cfg_ProbeOnProvisionalRoster := b\<rparr>),
     set_pos ''max_refresh_concurrency'' (rw_MaxRefreshConcurrency raw) (\<lambda>n c. c\<lparr>cfg_MaxRefreshConcurrency := n\<rparr>),
     decode_endpoint raw,
     set_dur pd ''refresh_active_window'' (rw_RefreshActiveWindow raw) (\<lambda>d c. c\<lparr>cfg_RefreshActiveWindow := d\<rparr>),
     set_dur pd ''refresh_after_reset_delay'' (rw_RefreshAfterResetDelay raw) (\<lambda>d c. c\<lparr>cfg_RefreshAfterResetDelay := d\<rparr>),
     decode_delays pd raw,
     set_dur pd ''auth_failure_retry_interval'' (rw_AuthFailureRetryInterval raw) (\<lambda>d c. c\<lparr>cfg_AuthFailureRetryInterval := d\<rparr>),
     set_bool (rw_RefreshOnStartup raw) (\<lambda>b c. c\<lparr>cfg_RefreshOnStartup := b\<rparr>),
     set_pos ''circuit_failure_threshold'' (rw_CircuitFailureThreshold raw) (\<lambda>n c. c\<lparr>cfg_CircuitFailureThreshold := n\<rparr>),
     set_dur pd ''circuit_open_duration'' (rw_CircuitOpenDuration raw) (\<lambda>d c. c\<lparr>cfg_CircuitOpenDuration := d\<rparr>),
     set_pos ''circuit_half_open_success_threshold'' (rw_CircuitHalfOpenSuccessThreshold raw)
       (\<lambda>n c. c\<lparr>cfg_CircuitHalfOpenSuccessThreshold := n\<rparr>),
     set_pos ''max_log_entries'' (rw_MaxLogEntries raw) (\<lambda>n c. c\<lparr>cfg_MaxLogEntries := n\<rparr>),
     set_dur pd ''log_retention'' (rw_LogRetention raw) (\<lambda>d c. c\<lparr>cfg_LogRetention := d\<rparr>),
     set_bool (rw_ScheduleAcrossPriorities raw) (\<lambda>b c. c\<lparr>cfg_ScheduleAcrossPriorities := b\<rparr>),
     set_bool (rw_EnableManagedQuotaDisable raw) (\<lambda>b c. c\<lparr>cfg_EnableManagedQuotaDisable := b\<rparr>),
     set_pos ''lifecycle_event_limit'' (rw_LifecycleEventLimit raw) (\<lambda>n c. c\<lparr>cfg_LifecycleEventLimit := n\<rparr>),
     set_bool (rw_RetryEnabled raw) (\<lambda>b c. c\<lparr>cfg_RetryEnabled := b\<rparr>),
     set_bool (rw_RetryShadow raw) (\<lambda>b c. c\<lparr>cfg_RetryShadow := b\<rparr>),
     decode_always raw,
     decode_attempts raw,
     set_dur pd ''retry_stall_timeout'' (rw_RetryStallTimeout raw) (\<lambda>d c. c\<lparr>cfg_RetryStallTimeout := d\<rparr>),
     set_dur pd ''retry_hold_timeout'' (rw_RetryHoldTimeout raw) (\<lambda>d c. c\<lparr>cfg_RetryHoldTimeout := d\<rparr>),
     set_dur pd ''retry_chain_deadline'' (rw_RetryChainDeadline raw) (\<lambda>d c. c\<lparr>cfg_RetryChainDeadline := d\<rparr>),
     set_pos ''retry_max_frames'' (rw_RetryMaxFrames raw) (\<lambda>n c. c\<lparr>cfg_RetryMaxFrames := n\<rparr>),
     decode_bytes pf raw,
     set_bool (rw_RetryStripReasoning raw) (\<lambda>b c. c\<lparr>cfg_RetryStripReasoning := b\<rparr>),
     decode_chain raw]"

definition DecodeConfig ::
  "(string \<Rightarrow> duration option) \<Rightarrow> (string \<Rightarrow> float64 option)
     \<Rightarrow> (string + rawConfig) option \<Rightarrow> ConfigError + Config" where
  \<comment> \<open>\<open>None\<close>: an empty input; \<open>Some (Inl e)\<close>: the YAML decoder failed\<close>
  "DecodeConfig parseDuration parseFloat input =
    (case input of
       None \<Rightarrow> Inr DefaultConfig
     | Some (Inl e) \<Rightarrow> Inl (YamlError e)
     | Some (Inr raw) \<Rightarrow>
         (case run_steps (decode_steps parseDuration parseFloat raw) DefaultConfig of
            Inl e \<Rightarrow> Inl e | Inr cfg \<Rightarrow> Inr (NormalizeConfig cfg)))"

section \<open>Retry plans\<close>

definition RetryPlanFor :: "Config \<Rightarrow> string \<Rightarrow> RetryPlan option" where
  "RetryPlanFor cfg model =
    (let maxAttempts = (if cfg_RetryMaxAttempts cfg \<le> 0 then cfg_RetryMaxAttempts DefaultConfig
           else cfg_RetryMaxAttempts cfg);
         requested = NormalizeRetryTarget \<lparr>rt_Provider = [], rt_Model = model\<rparr>
     in case retryChainRowFor (cfg_RetryChain cfg) model of
          None \<Rightarrow>
            if cfg_RetryAlways cfg \<and> TrimSpace model \<noteq> []
            then Some \<lparr>pl_Key = TrimSpace model, pl_Requested = requested,
                 pl_Fallbacks = replicate (nat (maxAttempts - 1)) requested,
                 pl_MaxAttempts = maxAttempts\<rparr>
            else None
        | Some row \<Rightarrow>
            Some \<lparr>pl_Key = TrimSpace (rr_Model row),
              pl_Requested = NormalizeRetryTarget \<lparr>rt_Provider = [], rt_Model = TrimSpace (rr_Model row)\<rparr>,
              pl_Fallbacks = map NormalizeRetryTarget (rr_Fallbacks row),
              pl_MaxAttempts = maxAttempts\<rparr>)"

definition RetryActive :: "Config \<Rightarrow> bool" where
  "RetryActive cfg \<longleftrightarrow> cfg_RetryEnabled cfg \<and> (cfg_RetryAlways cfg \<or> cfg_RetryChain cfg \<noteq> [])"

section \<open>Fields of the default and of a normalised configuration\<close>

lemma DefaultConfig_sel [simp]:
  "cfg_HandleEnabled DefaultConfig = True"
  "cfg_QuotaRefreshInterval DefaultConfig = 30 * Minute"
  "cfg_StaleAfter DefaultConfig = 5 * Hour"
  "cfg_MonthlyMode DefaultConfig = MonthlyModeExpiryOrder"
  "cfg_Fallback DefaultConfig = FallbackFillFirst"
  "cfg_EnableUsageFeedback DefaultConfig = True"
  "cfg_EnableResetProbe DefaultConfig = False"
  "cfg_ProbeOnProvisionalRoster DefaultConfig = False"
  "cfg_MaxRefreshConcurrency DefaultConfig = 1"
  "cfg_QuotaEndpoint DefaultConfig = chatGPTQuotaEndpoint"
  "cfg_RefreshActiveWindow DefaultConfig = Hour"
  "cfg_RefreshAfterResetDelay DefaultConfig = Minute"
  "cfg_RefreshRetryDelays DefaultConfig = [Minute, 5 * Minute, 15 * Minute]"
  "cfg_AuthFailureRetryInterval DefaultConfig = 30 * Minute"
  "cfg_RefreshOnStartup DefaultConfig = False"
  "cfg_CircuitFailureThreshold DefaultConfig = 5"
  "cfg_CircuitOpenDuration DefaultConfig = 30 * Minute"
  "cfg_CircuitHalfOpenSuccessThreshold DefaultConfig = 2"
  "cfg_MaxLogEntries DefaultConfig = 200"
  "cfg_LogRetention DefaultConfig = 24 * Hour"
  "cfg_ScheduleAcrossPriorities DefaultConfig = True"
  "cfg_EnableManagedQuotaDisable DefaultConfig = False"
  "cfg_LifecycleEventLimit DefaultConfig = 50"
  "cfg_RetryEnabled DefaultConfig = False"
  "cfg_RetryShadow DefaultConfig = False"
  "cfg_RetryAlways DefaultConfig = False"
  "cfg_RetryMaxAttempts DefaultConfig = 4"
  "cfg_RetryStallTimeout DefaultConfig = 60 * Second"
  "cfg_RetryHoldTimeout DefaultConfig = 90 * Second"
  "cfg_RetryChainDeadline DefaultConfig = 240 * Second"
  "cfg_RetryMaxFrames DefaultConfig = 4096"
  "cfg_RetryMaxBytes DefaultConfig = 8388608"
  "cfg_RetryStripReasoning DefaultConfig = True"
  "cfg_RetryChain DefaultConfig = []"
  by (simp_all add: DefaultConfig_def)

lemma NormalizeConfig_sel [simp]:
  "cfg_HandleEnabled (NormalizeConfig cfg) = cfg_HandleEnabled cfg"
  "cfg_QuotaRefreshInterval (NormalizeConfig cfg) = or_default (cfg_QuotaRefreshInterval cfg) (cfg_QuotaRefreshInterval DefaultConfig)"
  "cfg_StaleAfter (NormalizeConfig cfg) = or_default (cfg_StaleAfter cfg) (cfg_StaleAfter DefaultConfig)"
  "cfg_MonthlyMode (NormalizeConfig cfg) = (if cfg_MonthlyMode cfg = MonthlyModeEmpty then cfg_MonthlyMode DefaultConfig else cfg_MonthlyMode cfg)"
  "cfg_Fallback (NormalizeConfig cfg) = (if cfg_Fallback cfg = FallbackEmpty then cfg_Fallback DefaultConfig else cfg_Fallback cfg)"
  "cfg_EnableUsageFeedback (NormalizeConfig cfg) = cfg_EnableUsageFeedback cfg"
  "cfg_EnableResetProbe (NormalizeConfig cfg) = cfg_EnableResetProbe cfg"
  "cfg_ProbeOnProvisionalRoster (NormalizeConfig cfg) = cfg_ProbeOnProvisionalRoster cfg"
  "cfg_MaxRefreshConcurrency (NormalizeConfig cfg) = or_default (cfg_MaxRefreshConcurrency cfg) (cfg_MaxRefreshConcurrency DefaultConfig)"
  "cfg_QuotaEndpoint (NormalizeConfig cfg) = (if TrimSpace (cfg_QuotaEndpoint cfg) = [] then cfg_QuotaEndpoint DefaultConfig else cfg_QuotaEndpoint cfg)"
  "cfg_RefreshActiveWindow (NormalizeConfig cfg) = or_default (cfg_RefreshActiveWindow cfg) (cfg_RefreshActiveWindow DefaultConfig)"
  "cfg_RefreshAfterResetDelay (NormalizeConfig cfg) = or_default (cfg_RefreshAfterResetDelay cfg) (cfg_RefreshAfterResetDelay DefaultConfig)"
  "cfg_RefreshRetryDelays (NormalizeConfig cfg) = normalizeRetryDelays (cfg_RefreshRetryDelays cfg) (cfg_RefreshRetryDelays DefaultConfig)"
  "cfg_AuthFailureRetryInterval (NormalizeConfig cfg) = or_default (cfg_AuthFailureRetryInterval cfg) (cfg_AuthFailureRetryInterval DefaultConfig)"
  "cfg_RefreshOnStartup (NormalizeConfig cfg) = cfg_RefreshOnStartup cfg"
  "cfg_CircuitFailureThreshold (NormalizeConfig cfg) = or_default (cfg_CircuitFailureThreshold cfg) (cfg_CircuitFailureThreshold DefaultConfig)"
  "cfg_CircuitOpenDuration (NormalizeConfig cfg) = or_default (cfg_CircuitOpenDuration cfg) (cfg_CircuitOpenDuration DefaultConfig)"
  "cfg_CircuitHalfOpenSuccessThreshold (NormalizeConfig cfg) = or_default (cfg_CircuitHalfOpenSuccessThreshold cfg) (cfg_CircuitHalfOpenSuccessThreshold DefaultConfig)"
  "cfg_MaxLogEntries (NormalizeConfig cfg) = or_default (cfg_MaxLogEntries cfg) (cfg_MaxLogEntries DefaultConfig)"
  "cfg_LogRetention (NormalizeConfig cfg) = or_default (cfg_LogRetention cfg) (cfg_LogRetention DefaultConfig)"
  "cfg_ScheduleAcrossPriorities (NormalizeConfig cfg) = cfg_ScheduleAcrossPriorities cfg"
  "cfg_EnableManagedQuotaDisable (NormalizeConfig cfg) = cfg_EnableManagedQuotaDisable cfg"
  "cfg_LifecycleEventLimit (NormalizeConfig cfg) = cfg_LifecycleEventLimit cfg"
  "cfg_RetryEnabled (NormalizeConfig cfg) = cfg_RetryEnabled cfg"
  "cfg_RetryShadow (NormalizeConfig cfg) = cfg_RetryShadow cfg"
  "cfg_RetryAlways (NormalizeConfig cfg) = cfg_RetryAlways cfg"
  "cfg_RetryMaxAttempts (NormalizeConfig cfg) = min maxRetryMaxAttempts (or_default (cfg_RetryMaxAttempts cfg) (cfg_RetryMaxAttempts DefaultConfig))"
  "cfg_RetryStallTimeout (NormalizeConfig cfg) = or_default (cfg_RetryStallTimeout cfg) (cfg_RetryStallTimeout DefaultConfig)"
  "cfg_RetryHoldTimeout (NormalizeConfig cfg) = or_default (cfg_RetryHoldTimeout cfg) (cfg_RetryHoldTimeout DefaultConfig)"
  "cfg_RetryChainDeadline (NormalizeConfig cfg) = or_default (cfg_RetryChainDeadline cfg) (cfg_RetryChainDeadline DefaultConfig)"
  "cfg_RetryMaxFrames (NormalizeConfig cfg) = or_default (cfg_RetryMaxFrames cfg) (cfg_RetryMaxFrames DefaultConfig)"
  "cfg_RetryMaxBytes (NormalizeConfig cfg) = or_default (cfg_RetryMaxBytes cfg) (cfg_RetryMaxBytes DefaultConfig)"
  "cfg_RetryStripReasoning (NormalizeConfig cfg) = cfg_RetryStripReasoning cfg"
  "cfg_RetryChain (NormalizeConfig cfg) = NormalizeRetryChain (cfg_RetryChain cfg)"
  by (simp_all add: NormalizeConfig_def)

section \<open>Usable configurations\<close>

definition config_wf :: "Config \<Rightarrow> bool" where
  "config_wf c \<longleftrightarrow>
     0 < cfg_QuotaRefreshInterval c \<and> 0 < cfg_StaleAfter c \<and> 0 < cfg_MaxRefreshConcurrency c
     \<and> cfg_MonthlyMode c \<noteq> MonthlyModeEmpty \<and> cfg_Fallback c \<noteq> FallbackEmpty
     \<and> TrimSpace (cfg_QuotaEndpoint c) \<noteq> []
     \<and> 0 < cfg_RefreshActiveWindow c \<and> 0 < cfg_RefreshAfterResetDelay c
     \<and> cfg_RefreshRetryDelays c \<noteq> [] \<and> (\<forall>d \<in> set (cfg_RefreshRetryDelays c). 0 < d)
     \<and> 0 < cfg_AuthFailureRetryInterval c
     \<and> 0 < cfg_CircuitFailureThreshold c \<and> 0 < cfg_CircuitOpenDuration c
     \<and> 0 < cfg_CircuitHalfOpenSuccessThreshold c
     \<and> 0 < cfg_MaxLogEntries c \<and> 0 < cfg_LogRetention c
     \<and> NormalizeRetryChain (cfg_RetryChain c) = cfg_RetryChain c
     \<and> 1 \<le> cfg_RetryMaxAttempts c \<and> cfg_RetryMaxAttempts c \<le> maxRetryMaxAttempts
     \<and> 0 < cfg_RetryStallTimeout c \<and> 0 < cfg_RetryHoldTimeout c \<and> 0 < cfg_RetryChainDeadline c
     \<and> 0 < cfg_RetryMaxFrames c \<and> 0 < cfg_RetryMaxBytes c"

lemma or_default_pos [simp]: "0 < d \<Longrightarrow> 0 < or_default v d"
  by (simp add: or_default_def)

lemma or_default_id [simp]: "0 < v \<Longrightarrow> or_default v d = v"
  by (simp add: or_default_def)

lemma endpoint_no_space:
  "leading_space space_runes chatGPTQuotaEndpoint = None"
  "leading_space (map rev space_runes) (rev chatGPTQuotaEndpoint) = None"
  by (simp_all add: leading_space_def find_None_iff space_runes_def
      chatGPTQuotaEndpoint_def)

lemma TrimSpace_endpoint [simp]: "TrimSpace chatGPTQuotaEndpoint = chatGPTQuotaEndpoint"
  by (simp add: TrimSpace_def trim_left_by_id endpoint_no_space)

lemma chatGPTQuotaEndpoint_not_Nil [simp]: "chatGPTQuotaEndpoint \<noteq> []"
  by (simp add: chatGPTQuotaEndpoint_def)

lemma normalizeRetryDelays_pos:
  "fallback \<noteq> [] \<Longrightarrow> \<forall>d \<in> set fallback. 0 < d \<Longrightarrow>
   normalizeRetryDelays ds fallback \<noteq> [] \<and> (\<forall>d \<in> set (normalizeRetryDelays ds fallback). 0 < d)"
  by (auto simp: normalizeRetryDelays_def Let_def)

lemma normalizeRetryDelays_id:
  "ds \<noteq> [] \<Longrightarrow> \<forall>d \<in> set ds. 0 < d \<Longrightarrow> normalizeRetryDelays ds fallback = ds"
  by (auto simp: normalizeRetryDelays_def Let_def filter_empty_conv)

lemma NormalizeConfig_wf: "config_wf (NormalizeConfig cfg)"
  using normalizeRetryDelays_pos [of "cfg_RefreshRetryDelays DefaultConfig" "cfg_RefreshRetryDelays cfg"]
  by (simp add: config_wf_def NormalizeRetryChain_idem) (simp add: or_default_def)

lemma NormalizeConfig_id: "config_wf c \<Longrightarrow> NormalizeConfig c = c"
  by (rule Config.equality) (simp_all add: config_wf_def normalizeRetryDelays_id)

lemma NormalizeConfig_idem [simp]: "NormalizeConfig (NormalizeConfig c) = NormalizeConfig c"
  by (simp add: NormalizeConfig_id NormalizeConfig_wf)

lemma DefaultConfig_wf: "config_wf DefaultConfig"
  by (simp add: config_wf_def NormalizeRetryChain_def List.map_filter_simps)

section \<open>Decoding\<close>

definition keeps :: "(Config \<Rightarrow> bool) \<Rightarrow> decode_step \<Rightarrow> bool" where
  "keeps I f \<longleftrightarrow> (\<forall>c c'. I c \<longrightarrow> f c = Inr c' \<longrightarrow> I c')"

lemma keeps_run_steps: "\<forall>f \<in> set fs. keeps I f \<Longrightarrow> keeps I (run_steps fs)"
proof (induction fs)
  case Nil
  then show ?case by (simp add: keeps_def)
next
  case (Cons f fs)
  then have f: "keeps I f" and fs: "keeps I (run_steps fs)" by auto
  show ?case
    unfolding keeps_def
  proof (intro allI impI)
    fix c c' assume "I c" and "run_steps (f # fs) c = Inr c'"
    then obtain d where "f c = Inr d" "run_steps fs d = Inr c'"
      by (auto simp: seqE_def split: sum.splits)
    with \<open>I c\<close> f fs show "I c'" by (metis keeps_def)
  qed
qed

lemma keeps_set_bool: "(\<And>b c. I c \<Longrightarrow> I (upd b c)) \<Longrightarrow> keeps I (set_bool x upd)"
  by (auto simp: keeps_def set_bool_def split: option.splits)

lemma keeps_set_pos: "(\<And>n c. 0 < n \<Longrightarrow> I c \<Longrightarrow> I (upd n c)) \<Longrightarrow> keeps I (set_pos name x upd)"
  by (auto simp: keeps_def set_pos_def split: option.splits if_splits)

lemma keeps_set_dur: "(\<And>d c. 0 < d \<Longrightarrow> I c \<Longrightarrow> I (upd d c)) \<Longrightarrow> keeps I (set_dur pd name raw upd)"
  by (auto simp: keeps_def set_dur_def split: option.splits if_splits)

definition decoded_ok :: "Config \<Rightarrow> bool" where
  \<comment> \<open>what every step of the decoder keeps, before the final normalisation\<close>
  "decoded_ok c \<longleftrightarrow>
     (cfg_MonthlyMode c = MonthlyModePriority \<or> cfg_MonthlyMode c = MonthlyModeExpiryOrder)
     \<and> (cfg_Fallback c = FallbackEmpty \<or> cfg_Fallback c = FallbackFillFirst)
     \<and> (cfg_QuotaEndpoint c = [] \<or> cfg_QuotaEndpoint c = chatGPTQuotaEndpoint)
     \<and> 0 < cfg_LifecycleEventLimit c
     \<and> validateRetryChain (cfg_RetryChain c) = None"

lemma keeps_decode_monthly: "keeps decoded_ok (decode_monthly raw)"
  by (auto simp: keeps_def decoded_ok_def decode_monthly_def Let_def split: if_splits)

lemma keeps_decode_fallback: "keeps decoded_ok (decode_fallback raw)"
  by (auto simp: keeps_def decoded_ok_def decode_fallback_def Let_def split: if_splits)

lemma keeps_decode_endpoint: "keeps decoded_ok (decode_endpoint raw)"
  by (auto simp: keeps_def decoded_ok_def decode_endpoint_def Let_def validateQuotaEndpoint_def split: sum.splits if_splits)

lemma keeps_decode_delays: "keeps decoded_ok (decode_delays pd raw)"
  by (auto simp: keeps_def decoded_ok_def decode_delays_def Let_def split: sum.splits if_splits)

lemma keeps_decode_always: "keeps decoded_ok (decode_always raw)"
  by (auto simp: keeps_def decoded_ok_def decode_always_def Let_def split: option.splits if_splits)

lemma keeps_decode_attempts: "keeps decoded_ok (decode_attempts raw)"
  by (auto simp: keeps_def decoded_ok_def decode_attempts_def Let_def split: option.splits if_splits)

lemma keeps_decode_bytes: "keeps decoded_ok (decode_bytes pf raw)"
  by (auto simp: keeps_def decoded_ok_def decode_bytes_def Let_def split: sum.splits if_splits)

lemma keeps_decode_chain: "keeps decoded_ok (decode_chain raw)"
  by (auto simp: keeps_def decoded_ok_def decode_chain_def Let_def split: option.splits)

lemmas keeps_decoded_special = keeps_decode_monthly keeps_decode_fallback keeps_decode_endpoint
  keeps_decode_delays keeps_decode_always keeps_decode_attempts keeps_decode_bytes keeps_decode_chain

lemma keeps_decode_steps: "\<forall>f \<in> set (decode_steps pd pf raw). keeps decoded_ok f"
  unfolding decode_steps_def list.set ball_simps
  by (intro conjI TrueI keeps_decoded_special keeps_set_bool keeps_set_pos keeps_set_dur)
    (simp_all add: decoded_ok_def)

lemma decoded_ok_DefaultConfig: "decoded_ok DefaultConfig"
  by (simp add: decoded_ok_def validateRetryChain_def)

lemma decode_run_decoded_ok:
  "run_steps (decode_steps pd pf raw) DefaultConfig = Inr c \<Longrightarrow> decoded_ok c"
  using keeps_run_steps [OF keeps_decode_steps] decoded_ok_DefaultConfig
  by (auto simp: keeps_def)

text \<open>
  Decoding a configuration either fails or gives a usable one: every interval,
  threshold and budget is positive, the ordering mode is one of the two documented ones,
  the fallback is fill-first, and the quota endpoint is the ChatGPT endpoint, whatever the
  input names.
\<close>

theorem DecodeConfig_usable:
  assumes "DecodeConfig parseDuration parseFloat input = Inr cfg"
  shows "config_wf cfg
    \<and> (cfg_MonthlyMode cfg = MonthlyModePriority \<or> cfg_MonthlyMode cfg = MonthlyModeExpiryOrder)
    \<and> cfg_Fallback cfg = FallbackFillFirst
    \<and> cfg_QuotaEndpoint cfg = chatGPTQuotaEndpoint
    \<and> 0 < cfg_LifecycleEventLimit cfg"
proof (cases input)
  case None
  with assms show ?thesis by (auto simp: DecodeConfig_def DefaultConfig_wf)
next
  case (Some r)
  with assms obtain raw c where "r = Inr raw"
    and run: "run_steps (decode_steps parseDuration parseFloat raw) DefaultConfig = Inr c"
    and cfg: "cfg = NormalizeConfig c"
    by (auto simp: DecodeConfig_def split: sum.splits)
  from decode_run_decoded_ok [OF run] show ?thesis
    unfolding cfg decoded_ok_def by (auto simp: NormalizeConfig_wf)
qed

section \<open>Retry plans\<close>

lemma retryChainRowFor_in: "retryChainRowFor rows model = Some row \<Longrightarrow> row \<in> set rows"
  by (auto simp: retryChainRowFor_def Let_def find_Some_iff split: if_splits option.splits)

lemma RetryPlanFor_attempts:
  assumes "RetryPlanFor cfg model = Some plan" and "config_wf cfg"
  shows "pl_MaxAttempts plan = cfg_RetryMaxAttempts cfg"
    and "1 \<le> TargetCount plan" and "TargetCount plan \<le> maxRetryMaxAttempts"
  using assms TargetCount_bounds [of plan]
  by (auto simp: RetryPlanFor_def config_wf_def Let_def split: option.splits if_splits)

lemma in_normalized_fallback:
  "row \<in> set (NormalizeRetryChain rows) \<Longrightarrow> t \<in> set (rr_Fallbacks row) \<Longrightarrow>
   rt_Model t \<noteq> [] \<and> NormalizeRetryTarget t = t"
  by (auto simp: NormalizeRetryChain_def NormalizeRetryRow_def List.map_filter_def split: if_splits)

theorem DecodeConfig_usable_witness:
  "DecodeConfig (\<lambda>_. None) (\<lambda>_. None) None = Inr DefaultConfig \<and> config_wf DefaultConfig"
proof -
  have "DecodeConfig (\<lambda>_. None) (\<lambda>_. None) None = Inr DefaultConfig" by (simp add: DecodeConfig_def)
  with DecodeConfig_usable [OF this] show ?thesis by simp
qed

end
