(* ===== verification/Circuit.thy ===== *)
theory Circuit
  imports Configuration
begin

text \<open>
  The per-account circuit breaker and the temporary-exhaustion marker, the last part of
  \<^verbatim>\<open>state.go\<close>: \<open>effectiveCircuitState\<close> derives half-open from the clock,
  \<open>applyCircuitFailure\<close> and \<open>applyCircuitSuccess\<close> move the breaker,
  \<open>markTemporaryExhausted\<close> records quota feedback.

  The breaker is run as a machine over timed events. The lemmas give its invariant (counts
  are never negative, an open breaker has a probe deadline, so it cannot stay open for
  ever), the number of failures that open it and the number of successes that close it.
\<close>

definition usageLimitReachedReason :: string where
  "usageLimitReachedReason = ''usage_limit_reached''"

definition usageLimitNoResetReason :: string where
  "usageLimitNoResetReason = ''usage_limit_reached_no_reset''"

definition effectiveCircuitState :: "CircuitBreakerState \<Rightarrow> time \<Rightarrow> CircuitBreakerState" where
  "effectiveCircuitState circuit now =
    (let c = (if cb_State circuit = CircuitStateEmpty then circuit\<lparr>cb_State := CircuitStateClosed\<rparr>
              else circuit)
     in c\<lparr>cb_EffectiveState :=
          (if cb_State c = CircuitStateOpen \<and> \<not> IsZero (cb_NextProbeAt c)
              \<and> \<not> After (cb_NextProbeAt c) now
           then CircuitStateHalfOpen else cb_State c)\<rparr>)"

definition closed_CircuitBreakerState :: CircuitBreakerState where
  "closed_CircuitBreakerState = zero_CircuitBreakerState\<lparr>cb_State := CircuitStateClosed,
     cb_EffectiveState := CircuitStateClosed\<rparr>"

definition markTemporaryExhausted :: "AccountState \<Rightarrow> time \<Rightarrow> string \<Rightarrow> AccountState" where
  "markTemporaryExhausted account resetAt reason = account\<lparr>
     as_TemporaryExhausted := True, as_TemporaryResetAt := resetAt, as_LastError := reason,
     as_Circuit := closed_CircuitBreakerState\<rparr>"

definition applyCircuitFailure ::
  "AccountState \<Rightarrow> Config \<Rightarrow> string \<Rightarrow> time \<Rightarrow> time \<Rightarrow> AccountState" where
  "applyCircuitFailure account cfg reason resetAt now =
    (let c0 = effectiveCircuitState (as_Circuit account) now;
         c1 = c0\<lparr>cb_FailureCount := cb_FailureCount c0 + 1, cb_SuccessCount := 0,
                cb_Reason := reason, cb_LastFailureAt := now\<rparr>;
         p0 = Add now (cfg_CircuitOpenDuration cfg);
         p1 = (if reason = usageLimitNoResetReason \<and> \<not> IsZero resetAt \<and> After resetAt now
               then resetAt else p0);
         nextProbeAt = (if \<not> IsZero resetAt \<and> After resetAt p1 then resetAt else p1);
         c2 = (if \<not> IsZero resetAt \<and> After resetAt now \<and> Before (cb_NextProbeAt c1) nextProbeAt
               then c1\<lparr>cb_NextProbeAt := nextProbeAt\<rparr> else c1);
         threshold = (if cfg_CircuitFailureThreshold cfg \<le> 0 then 1 else cfg_CircuitFailureThreshold cfg);
         c3 = (if cb_State c2 = CircuitStateHalfOpen \<or> cb_EffectiveState c2 = CircuitStateHalfOpen
                 \<or> cb_FailureCount c2 \<ge> threshold
               then c2\<lparr>cb_State := CircuitStateOpen, cb_EffectiveState := CircuitStateOpen,
                      cb_OpenedAt := now, cb_NextProbeAt := nextProbeAt\<rparr>
               else c2)
     in account\<lparr>as_Circuit := c3, as_LastError := reason\<rparr>)"

definition applyCircuitSuccess :: "AccountState \<Rightarrow> Config \<Rightarrow> time \<Rightarrow> AccountState" where
  "applyCircuitSuccess account cfg now =
    (let circuit = effectiveCircuitState (as_Circuit account) now
     in if cb_EffectiveState circuit = CircuitStateHalfOpen
        then (let c1 = circuit\<lparr>cb_SuccessCount := cb_SuccessCount circuit + 1, cb_LastSuccessAt := now\<rparr>;
                  threshold = (if cfg_CircuitHalfOpenSuccessThreshold cfg \<le> 0 then 1
                               else cfg_CircuitHalfOpenSuccessThreshold cfg)
              in if cb_SuccessCount c1 \<ge> threshold
                 then account\<lparr>as_Circuit := closed_CircuitBreakerState, as_LastError := []\<rparr>
                 else account\<lparr>as_Circuit := c1\<lparr>cb_State := CircuitStateHalfOpen,
                          cb_EffectiveState := CircuitStateHalfOpen, cb_NextProbeAt := ZeroTime\<rparr>,
                        as_LastError := []\<rparr>)
        else if cb_EffectiveState circuit = CircuitStateOpen
        then account\<lparr>as_Circuit := circuit\<lparr>cb_LastSuccessAt := now\<rparr>\<rparr>
        else account\<lparr>as_Circuit := closed_CircuitBreakerState\<lparr>cb_LastSuccessAt := now\<rparr>,
               as_LastError := []\<rparr>)"

section \<open>The breaker as a machine\<close>

datatype circuit_event =
    CircuitFailure string time time
  | CircuitSuccess time
  | QuotaMark time string

fun circuit_step :: "Config \<Rightarrow> AccountState \<Rightarrow> circuit_event \<Rightarrow> AccountState" where
  "circuit_step cfg a (CircuitFailure reason resetAt now) = applyCircuitFailure a cfg reason resetAt now"
| "circuit_step cfg a (CircuitSuccess now) = applyCircuitSuccess a cfg now"
| "circuit_step cfg a (QuotaMark resetAt reason) = markTemporaryExhausted a resetAt reason"

fun event_time_ok :: "circuit_event \<Rightarrow> bool" where
  "event_time_ok (CircuitFailure reason resetAt now) = (0 < now)"
| "event_time_ok _ = True"

definition circuit_inv :: "CircuitBreakerState \<Rightarrow> bool" where
  "circuit_inv c \<longleftrightarrow> 0 \<le> cb_FailureCount c \<and> 0 \<le> cb_SuccessCount c
     \<and> (cb_State c = CircuitStateOpen \<longrightarrow> 0 < cb_NextProbeAt c)"

lemma circuit_inv_zero [simp]: "circuit_inv zero_CircuitBreakerState"
  by (simp add: circuit_inv_def zero_CircuitBreakerState_def)

lemma circuit_inv_closed [simp]: "circuit_inv closed_CircuitBreakerState"
  by (simp add: circuit_inv_def closed_CircuitBreakerState_def zero_CircuitBreakerState_def)

lemma effectiveCircuitState_frame [simp]:
  "cb_FailureCount (effectiveCircuitState c now) = cb_FailureCount c"
  "cb_SuccessCount (effectiveCircuitState c now) = cb_SuccessCount c"
  "cb_NextProbeAt (effectiveCircuitState c now) = cb_NextProbeAt c"
  "cb_State (effectiveCircuitState c now) =
     (if cb_State c = CircuitStateEmpty then CircuitStateClosed else cb_State c)"
  by (simp_all add: effectiveCircuitState_def Let_def)

lemma effectiveCircuitState_idem [simp]:
  "effectiveCircuitState (effectiveCircuitState c now) now = effectiveCircuitState c now"
  by (simp add: effectiveCircuitState_def Let_def)

lemma circuit_inv_effective [simp]: "circuit_inv (effectiveCircuitState c now) = circuit_inv c"
  by (simp add: circuit_inv_def)

lemma circuit_inv_failure:
  assumes "circuit_inv (as_Circuit a)" and "0 < now" and "0 < cfg_CircuitOpenDuration cfg"
  shows "circuit_inv (as_Circuit (applyCircuitFailure a cfg reason resetAt now))"
  using assms by (auto simp: applyCircuitFailure_def circuit_inv_def Let_def)

lemma circuit_inv_success:
  assumes "circuit_inv (as_Circuit a)"
  shows "circuit_inv (as_Circuit (applyCircuitSuccess a cfg now))"
  using assms
  by (auto simp: applyCircuitSuccess_def Let_def circuit_inv_def closed_CircuitBreakerState_def
      zero_CircuitBreakerState_def)

lemma circuit_inv_mark: "circuit_inv (as_Circuit (markTemporaryExhausted a resetAt reason))"
  by (simp add: markTemporaryExhausted_def)

lemma circuit_step_inv:
  assumes "config_wf cfg" and "event_time_ok e" and "circuit_inv (as_Circuit a)"
  shows "circuit_inv (as_Circuit (circuit_step cfg a e))"
  using assms
  by (cases e) (auto simp: config_wf_def intro: circuit_inv_failure circuit_inv_success circuit_inv_mark)

definition timed_step :: "Config \<Rightarrow> AccountState \<Rightarrow> circuit_event \<Rightarrow> AccountState" where
  \<comment> \<open>the breaker under a clock that never shows the zero time and a normalised configuration\<close>
  "timed_step cfg a e = (if event_time_ok e then circuit_step (NormalizeConfig cfg) a e else a)"

interpretation breaker: invariant_machine "timed_step cfg" "\<lambda>a. circuit_inv (as_Circuit a)" for cfg
  by unfold_locales (auto simp: timed_step_def circuit_step_inv NormalizeConfig_wf)

lemma run_timed_step:
  "\<forall>e \<in> set es. event_time_ok e \<Longrightarrow>
   run (timed_step cfg) a es = run (circuit_step (NormalizeConfig cfg)) a es"
  by (induction es arbitrary: a) (auto simp: timed_step_def)

lemma circuit_inv_half_opens:
  assumes "circuit_inv c" and "cb_State c = CircuitStateOpen" and "cb_NextProbeAt c \<le> now"
  shows "cb_EffectiveState (effectiveCircuitState c now) = CircuitStateHalfOpen"
  using assms by (auto simp: effectiveCircuitState_def circuit_inv_def Let_def)

section \<open>Opening and closing\<close>

lemma failure_below_threshold:
  assumes "cb_State (as_Circuit a) = CircuitStateClosed \<or> cb_State (as_Circuit a) = CircuitStateEmpty"
    and "cb_FailureCount (as_Circuit a) + 1 < cfg_CircuitFailureThreshold cfg"
    and "0 \<le> cb_FailureCount (as_Circuit a)"
  shows "cb_State (as_Circuit (applyCircuitFailure a cfg reason resetAt now)) = CircuitStateClosed
    \<and> cb_FailureCount (as_Circuit (applyCircuitFailure a cfg reason resetAt now))
        = cb_FailureCount (as_Circuit a) + 1"
  using assms by (auto simp: applyCircuitFailure_def effectiveCircuitState_def Let_def)

lemma failure_at_threshold:
  assumes "cfg_CircuitFailureThreshold cfg \<le> cb_FailureCount (as_Circuit a) + 1"
    and "0 < cfg_CircuitFailureThreshold cfg"
  shows "cb_State (as_Circuit (applyCircuitFailure a cfg reason resetAt now)) = CircuitStateOpen"
  using assms by (auto simp: applyCircuitFailure_def Let_def)

lemma failure_half_open:
  assumes "cb_EffectiveState (effectiveCircuitState (as_Circuit a) now) = CircuitStateHalfOpen"
  shows "cb_State (as_Circuit (applyCircuitFailure a cfg reason resetAt now)) = CircuitStateOpen"
  using assms by (simp add: applyCircuitFailure_def Let_def)

lemma failures_count:
  assumes "cb_State (as_Circuit a) = CircuitStateClosed \<or> cb_State (as_Circuit a) = CircuitStateEmpty"
    and "cb_FailureCount (as_Circuit a) = int k"
    and "int k + int (length fs) < cfg_CircuitFailureThreshold cfg"
  shows "(let c = as_Circuit (run (circuit_step cfg) a (map (\<lambda>(r, t, n). CircuitFailure r t n) fs))
          in (cb_State c = CircuitStateClosed \<or> cb_State c = CircuitStateEmpty)
             \<and> cb_FailureCount c = int (k + length fs))"
  using assms
proof (induction fs arbitrary: a k)
  case Nil
  then show ?case by (auto simp: Let_def)
next
  case (Cons f fs)
  obtain r t n where f: "f = (r, t, n)" by (cases f)
  let ?b = "applyCircuitFailure a cfg r t n"
  have "cb_State (as_Circuit ?b) = CircuitStateClosed \<and> cb_FailureCount (as_Circuit ?b) = int (Suc k)"
    using failure_below_threshold [OF Cons.prems(1), of cfg] Cons.prems(2,3) by simp
  then show ?case
    using Cons.IH [of ?b "Suc k"] Cons.prems(3) f by (simp add: Let_def)
qed

lemma success_half_open:
  assumes "cb_State (as_Circuit a) = CircuitStateHalfOpen"
  shows "as_Circuit (applyCircuitSuccess a cfg now) =
    (if cb_SuccessCount (as_Circuit a) + 1 \<ge> max 1 (cfg_CircuitHalfOpenSuccessThreshold cfg)
     then closed_CircuitBreakerState
     else (as_Circuit a)\<lparr>cb_SuccessCount := cb_SuccessCount (as_Circuit a) + 1,
        cb_LastSuccessAt := now, cb_State := CircuitStateHalfOpen,
        cb_EffectiveState := CircuitStateHalfOpen, cb_NextProbeAt := ZeroTime\<rparr>)"
  using assms
  by (auto simp: applyCircuitSuccess_def effectiveCircuitState_def Let_def max_def)

lemma success_open_due:
  assumes "cb_State (as_Circuit a) = CircuitStateOpen" and "0 < cb_NextProbeAt (as_Circuit a)"
    and "cb_NextProbeAt (as_Circuit a) \<le> now"
    and "cb_SuccessCount (as_Circuit a) = 0" and "1 < cfg_CircuitHalfOpenSuccessThreshold cfg"
  shows "cb_State (as_Circuit (applyCircuitSuccess a cfg now)) = CircuitStateHalfOpen"
    and "cb_SuccessCount (as_Circuit (applyCircuitSuccess a cfg now)) = 1"
  using assms
  by (simp_all add: applyCircuitSuccess_def effectiveCircuitState_def Let_def)

lemma successes_close:
  assumes "cb_State (as_Circuit a) = CircuitStateHalfOpen"
    and "cb_SuccessCount (as_Circuit a) + int (length ts) + 1 = cfg_CircuitHalfOpenSuccessThreshold cfg"
    and "0 \<le> cb_SuccessCount (as_Circuit a)"
  shows "as_Circuit (run (circuit_step cfg) a (map CircuitSuccess (ts @ [t]))) = closed_CircuitBreakerState"
  using assms
proof (induction ts arbitrary: a)
  case Nil
  then show ?case by (simp add: success_half_open)
next
  case (Cons u ts)
  then show ?case by (simp add: success_half_open)
qed

text \<open>
  The breaker is never stuck. Whatever sequence of request failures, successes and
  quota marks an account goes through (with times after the zero time), its counters stay
  non-negative and an open breaker has a deadline \<open>NextProbeAt\<close> from which on
  \<open>effectiveCircuitState\<close> reports half-open, so the account is probed again.
\<close>
theorem circuit_never_stuck:
  assumes "circuit_inv (as_Circuit a)" and "\<forall>e \<in> set es. event_time_ok e"
    and "c = as_Circuit (run (circuit_step (NormalizeConfig cfg)) a es)"
  shows "circuit_inv c
    \<and> (cb_State c = CircuitStateOpen \<longrightarrow>
        (\<forall>now \<ge> cb_NextProbeAt c.
           cb_EffectiveState (effectiveCircuitState c now) = CircuitStateHalfOpen))"
  using breaker.run_inv [OF assms(1), of cfg es] assms(2,3)
  by (simp add: run_timed_step circuit_inv_half_opens)

theorem circuit_never_stuck_witness:
  "let c = as_Circuit (run (circuit_step (NormalizeConfig DefaultConfig)) zero_AccountState
             (replicate 5 (CircuitFailure ''boom'' 0 5)))
   in cb_State c = CircuitStateOpen
      \<and> cb_EffectiveState (effectiveCircuitState c (cb_NextProbeAt c)) = CircuitStateHalfOpen"
proof -
  let ?es = "replicate 5 (CircuitFailure ''boom'' 0 5)"
  let ?c = "as_Circuit (run (circuit_step (NormalizeConfig DefaultConfig)) zero_AccountState ?es)"
  have "cb_State ?c = CircuitStateOpen"
    by (simp add: eval_nat_numeral applyCircuitFailure_def effectiveCircuitState_def Let_def
        zero_AccountState_def zero_CircuitBreakerState_def NormalizeConfig_id DefaultConfig_wf)
  moreover have "circuit_inv ?c
    \<and> (cb_State ?c = CircuitStateOpen \<longrightarrow>
        (\<forall>now \<ge> cb_NextProbeAt ?c.
           cb_EffectiveState (effectiveCircuitState ?c now) = CircuitStateHalfOpen))"
    by (rule circuit_never_stuck [of zero_AccountState ?es]) (simp_all add: zero_AccountState_def)
  ultimately show ?thesis by (simp add: Let_def)
qed

text \<open>
  The failure threshold is exact. Starting from a fresh account, fewer than
  \<open>CircuitFailureThreshold\<close> failures in a row leave the breaker closed, and the failure that
  reaches the threshold opens it, whatever the reasons and reset times reported.
\<close>
theorem circuit_opens_at_threshold:
  assumes "as_Circuit a = zero_CircuitBreakerState"
    and "int (length fs) + 1 = cfg_CircuitFailureThreshold cfg"
    and "es = map (\<lambda>(r, t, n). CircuitFailure r t n) fs"
  shows "cb_State (as_Circuit (run (circuit_step cfg) a es)) \<noteq> CircuitStateOpen
    \<and> cb_State (as_Circuit (run (circuit_step cfg) a (es @ [CircuitFailure r t n]))) = CircuitStateOpen"
proof -
  let ?b = "run (circuit_step cfg) a es"
  have "cb_State (as_Circuit ?b) \<noteq> CircuitStateOpen \<and> cb_FailureCount (as_Circuit ?b) = int (length fs)"
    using failures_count [of a 0 fs cfg] assms by (auto simp: Let_def zero_CircuitBreakerState_def)
  then show ?thesis
    using failure_at_threshold [of cfg ?b] assms(2) by (simp add: run_append)
qed

theorem circuit_opens_at_threshold_witness:
  "cb_State (as_Circuit (run (circuit_step DefaultConfig) zero_AccountState
     (map (\<lambda>(r, t, n). CircuitFailure r t n) [(''a'', 0, 1), (''b'', 9, 2), (''b'', 0, 2), (''c'', 0, 3)]
       @ [CircuitFailure ''c'' 0 3]))) = CircuitStateOpen"
  using circuit_opens_at_threshold [of zero_AccountState "[(''a'', 0, 1), (''b'', 9, 2), (''b'', 0, 2), (''c'', 0, 3)]"
      DefaultConfig _ "''c''" 0 3]
  by (simp add: zero_AccountState_def)

text \<open>
  Recovery. When the deadline of an open breaker has passed, the first success moves it
  to half-open and the one that makes \<open>CircuitHalfOpenSuccessThreshold\<close> successes closes it
  and clears every counter; a failure on the way opens it again.
\<close>
theorem circuit_recovers:
  assumes "cb_State (as_Circuit a) = CircuitStateOpen" and "0 < cb_NextProbeAt (as_Circuit a)"
    and "cb_NextProbeAt (as_Circuit a) \<le> now" and "cb_SuccessCount (as_Circuit a) = 0"
    and "int (length ts) + 2 = cfg_CircuitHalfOpenSuccessThreshold cfg"
  shows "as_Circuit (run (circuit_step cfg) a (map CircuitSuccess (now # ts @ [t]))) = closed_CircuitBreakerState
    \<and> cb_State (as_Circuit (run (circuit_step cfg) a
        [CircuitSuccess now, CircuitFailure r resetAt now'])) = CircuitStateOpen"
proof -
  let ?b = "applyCircuitSuccess a cfg now"
  have "cb_State (as_Circuit ?b) = CircuitStateHalfOpen" "cb_SuccessCount (as_Circuit ?b) = 1"
    using success_open_due [OF assms(1-4), of cfg] assms(5) by auto
  moreover from this have
    "cb_EffectiveState (effectiveCircuitState (as_Circuit ?b) now') = CircuitStateHalfOpen"
    by (simp add: effectiveCircuitState_def Let_def)
  ultimately show ?thesis
    using successes_close [of ?b ts cfg t] failure_half_open [of ?b now'] assms(5) by simp
qed

theorem circuit_recovers_witness:
  "as_Circuit (run (circuit_step DefaultConfig)
     (zero_AccountState\<lparr>as_Circuit := zero_CircuitBreakerState\<lparr>cb_State := CircuitStateOpen, cb_NextProbeAt := 7\<rparr>\<rparr>)
     (map CircuitSuccess (8 # [] @ [9]))) = closed_CircuitBreakerState"
  using circuit_recovers [of "zero_AccountState\<lparr>as_Circuit := zero_CircuitBreakerState\<lparr>cb_State := CircuitStateOpen, cb_NextProbeAt := 7\<rparr>\<rparr>"
      8 "[]" DefaultConfig 9 "''x''" 0 9]
  by (simp add: zero_CircuitBreakerState_def)

end
