(* ===== verification/Annotations.thy ===== *)
theory Annotations
  imports Models
begin

text \<open>
  \<^verbatim>\<open>annotations.go\<close> without its file I/O: tag normalisation, the key under which an account's
  annotation is stored, and the application of annotations to a list of accounts; and the
  \<^verbatim>\<open>clone...\<close> functions at the end of \<^verbatim>\<open>state.go\<close>. Structs are values here, so a copy is
  equal to its original (collection \<open>clone_simps\<close>); what a copy is for in Go, protection
  against aliasing, is built into the model.
\<close>

section \<open>Copies\<close>

definition cloneStringSlice :: "string list \<Rightarrow> string list" where
  "cloneStringSlice values = (if values = [] then [] else map (\<lambda>v. v) values)"

definition cloneMap :: "(string, go_any) gmap \<Rightarrow> (string, go_any) gmap" where
  "cloneMap values = (if values = [] then [] else gmap_vals (\<lambda>v. v) values)"

definition cloneLogs :: "LogEntry list \<Rightarrow> LogEntry list" where
  "cloneLogs values = (if values = [] then []
     else map (\<lambda>entry. entry\<lparr>le_Fields := cloneMap (le_Fields entry)\<rparr>) values)"

definition cloneAccountAnnotation :: "AccountAnnotation \<Rightarrow> AccountAnnotation" where
  "cloneAccountAnnotation annotation = annotation\<lparr>aa_Tags := cloneStringSlice (aa_Tags annotation)\<rparr>"

definition cloneGroupAnnotation :: "GroupAnnotation \<Rightarrow> GroupAnnotation" where
  "cloneGroupAnnotation annotation = annotation\<lparr>ga_Tags := cloneStringSlice (ga_Tags annotation)\<rparr>"

definition cloneAnnotationState :: "AnnotationState \<Rightarrow> AnnotationState" where
  "cloneAnnotationState state = state\<lparr>
     an_Accounts := gmap_vals cloneAccountAnnotation (an_Accounts state),
     an_Groups := gmap_vals cloneGroupAnnotation (an_Groups state)\<rparr>"

definition cloneResetProbes :: "(WindowKind, ResetProbeState) gmap \<Rightarrow> (WindowKind, ResetProbeState) gmap" where
  "cloneResetProbes probes = (if probes = [] then [] else gmap_vals (\<lambda>p. p) probes)"

definition cloneQuotaWindows :: "QuotaWindow list \<Rightarrow> QuotaWindow list" where
  "cloneQuotaWindows windows = (if windows = [] then []
     else map (\<lambda>w. w\<lparr>qw_UsedPercent := map_option (\<lambda>used. used) (qw_UsedPercent w),
                    qw_LimitWindowSeconds := map_option (\<lambda>limit. limit) (qw_LimitWindowSeconds w)\<rparr>)
            windows)"

definition cloneParsedQuota :: "ParsedQuota \<Rightarrow> ParsedQuota" where
  "cloneParsedQuota quota = quota\<lparr>
     pq_FiveHour := map_option (\<lambda>window. window) (pq_FiveHour quota),
     pq_LongWindow := map_option (\<lambda>window. window) (pq_LongWindow quota),
     pq_CodeReviewWindows := cloneQuotaWindows (pq_CodeReviewWindows quota),
     pq_AdditionalWindows := cloneQuotaWindows (pq_AdditionalWindows quota),
     pq_ResetCreditsAvailableCount := map_option (\<lambda>count. count) (pq_ResetCreditsAvailableCount quota),
     pq_ResetCreditsTotalEarnedCount := map_option (\<lambda>count. count) (pq_ResetCreditsTotalEarnedCount quota),
     pq_ResetCredits := pq_ResetCredits quota\<rparr>"

definition cloneAccountState :: "AccountState \<Rightarrow> AccountState" where
  "cloneAccountState account = account\<lparr>
     as_Quota := cloneParsedQuota (as_Quota account),
     as_ResetProbes := cloneResetProbes (as_ResetProbes account),
     as_Annotation := cloneAccountAnnotation (as_Annotation account)\<rparr>"

lemma gmap_vals_id [simp]: "gmap_vals (\<lambda>v. v) m = m"
  by (simp add: gmap_vals_def)

lemma gmap_vals_cong: "(\<And>v. f v = v) \<Longrightarrow> gmap_vals f m = m"
  by (simp add: gmap_vals_def)

lemma cloneStringSlice_id [simp, clone_simps]: "cloneStringSlice vs = vs"
  by (simp add: cloneStringSlice_def)

lemma cloneMap_id [simp, clone_simps]: "cloneMap m = m"
  by (simp add: cloneMap_def)

lemma cloneLogs_id [simp, clone_simps]: "cloneLogs vs = vs"
  by (simp add: cloneLogs_def)

lemma cloneAccountAnnotation_id [simp, clone_simps]: "cloneAccountAnnotation a = a"
  by (simp add: cloneAccountAnnotation_def)

lemma cloneGroupAnnotation_id [simp, clone_simps]: "cloneGroupAnnotation a = a"
  by (simp add: cloneGroupAnnotation_def)

lemma cloneAnnotationState_id [simp, clone_simps]: "cloneAnnotationState s = s"
  by (simp add: cloneAnnotationState_def gmap_vals_cong)

lemma cloneResetProbes_id [simp, clone_simps]: "cloneResetProbes ps = ps"
  by (simp add: cloneResetProbes_def)

lemma cloneQuotaWindows_id [simp, clone_simps]: "cloneQuotaWindows ws = ws"
  by (simp add: cloneQuotaWindows_def map_idI option.map_ident)

lemma cloneParsedQuota_id [simp, clone_simps]: "cloneParsedQuota q = q"
  by (simp add: cloneParsedQuota_def option.map_ident)

lemma cloneAccountState_id [simp, clone_simps]: "cloneAccountState a = a"
  by (simp add: cloneAccountState_def)

section \<open>Annotations\<close>

fun normalize_tags_from :: "string set \<Rightarrow> string list \<Rightarrow> string list" where
  "normalize_tags_from seen [] = []"
| "normalize_tags_from seen (tag # tags) =
    (let t = TrimSpace tag
     in if t = [] \<or> t \<in> seen then normalize_tags_from seen tags
        else t # normalize_tags_from (insert t seen) tags)"

definition normalizeTags :: "string list \<Rightarrow> string list" where
  "normalizeTags tags = normalize_tags_from {} tags"

definition NormalizeAnnotationState :: "AnnotationState \<Rightarrow> AnnotationState" where
  "NormalizeAnnotationState state = \<lparr>
     an_Accounts = gmap_vals (\<lambda>a. a\<lparr>aa_Tags := normalizeTags (aa_Tags a)\<rparr>) (an_Accounts state),
     an_Groups = gmap_vals (\<lambda>a. a\<lparr>ga_Tags := normalizeTags (ga_Tags a)\<rparr>) (an_Groups state)\<rparr>"

definition ResolveAnnotationKey :: "AccountState \<Rightarrow> string" where
  "ResolveAnnotationKey account =
    (if as_ChatGPTAccountID account = [] \<and> as_Instance account \<noteq> 0
     then ''instance:'' @ FormatUint (as_Instance account)
     else if as_AuthID account \<noteq> [] then ''auth:'' @ as_AuthID account
     else if as_ChatGPTAccountID account \<noteq> [] then ''chatgpt:'' @ as_ChatGPTAccountID account
     else if as_Email account \<noteq> [] then ''email:'' @ as_Email account
     else if as_AuthIndex account \<noteq> [] then ''index:'' @ as_AuthIndex account
     else [])"

definition ApplyAnnotations :: "AccountState list \<Rightarrow> AnnotationState \<Rightarrow> AccountState list" where
  "ApplyAnnotations accounts state =
    (let normalized = NormalizeAnnotationState state
     in map (\<lambda>account. case gget (an_Accounts normalized) (ResolveAnnotationKey account) of
               Some annotation \<Rightarrow> (cloneAccountState account)\<lparr>as_Annotation := cloneAccountAnnotation annotation\<rparr>
             | None \<Rightarrow> cloneAccountState account) accounts)"

definition tags_ok :: "string list \<Rightarrow> bool" where
  "tags_ok tags \<longleftrightarrow> distinct tags \<and> (\<forall>t \<in> set tags. t \<noteq> [] \<and> TrimSpace t = t)"

lemma normalize_tags_from_set:
  "set (normalize_tags_from seen tags) = TrimSpace ` set tags - insert [] seen"
  by (induction tags arbitrary: seen) (auto simp: Let_def)

lemma normalize_tags_from_distinct: "distinct (normalize_tags_from seen tags)"
  by (induction tags arbitrary: seen) (auto simp: Let_def normalize_tags_from_set)

lemma tags_ok_normalizeTags [simp]: "tags_ok (normalizeTags tags)"
  by (auto simp: tags_ok_def normalizeTags_def normalize_tags_from_set
      normalize_tags_from_distinct TrimSpace_idem)

lemma normalize_tags_from_ok:
  "tags_ok tags \<Longrightarrow> set tags \<inter> seen = {} \<Longrightarrow> normalize_tags_from seen tags = tags"
  by (induction tags arbitrary: seen) (auto simp: tags_ok_def Let_def)

lemma normalizeTags_idem [simp]: "normalizeTags (normalizeTags tags) = normalizeTags tags"
  by (metis Int_empty_right normalizeTags_def normalize_tags_from_ok tags_ok_normalizeTags)

lemma gmap_vals_gmap_vals: "gmap_vals f (gmap_vals g m) = gmap_vals (\<lambda>v. f (g v)) m"
  by (simp add: gmap_vals_def case_prod_unfold)

lemma NormalizeAnnotationState_idem [simp]:
  "NormalizeAnnotationState (NormalizeAnnotationState s) = NormalizeAnnotationState s"
  by (simp add: NormalizeAnnotationState_def gmap_vals_gmap_vals)

lemma length_ApplyAnnotations [simp]: "length (ApplyAnnotations accounts s) = length accounts"
  by (simp add: ApplyAnnotations_def Let_def)

lemma ApplyAnnotations_NormalizeAnnotationState [simp]:
  "ApplyAnnotations accounts (NormalizeAnnotationState s) = ApplyAnnotations accounts s"
  by (simp add: ApplyAnnotations_def)

lemma ResolveAnnotationKey_annotation [simp]:
  "ResolveAnnotationKey (a\<lparr>as_Annotation := x\<rparr>) = ResolveAnnotationKey a"
  by (simp add: ResolveAnnotationKey_def)

lemma ApplyAnnotations_idem:
  "ApplyAnnotations (ApplyAnnotations accounts s) s = ApplyAnnotations accounts s"
  by (auto simp: ApplyAnnotations_def Let_def split: option.splits)

end
