(* ===== verification/Go_Hash.thy ===== *)
theory Go_Hash
  imports Go_Base
begin

text \<open>
  The two hash functions the credential code uses from Go's standard library:
  \<^verbatim>\<open>crypto/sha256.Sum256\<close> (FIPS 180-4) and \<^verbatim>\<open>hash/fnv.New64a\<close>. A digest is a string of
  32 bytes. No theorem of the development depends on a collision property; what is proved
  about digests is their length.
\<close>

unbundle bit_operations_syntax

section \<open>FNV-1a\<close>

definition fnv64a :: "string \<Rightarrow> uint64" where
  "fnv64a s = fold (\<lambda>c h. (h XOR of_char c) * 1099511628211) s 14695981039346656037"

section \<open>SHA-256\<close>

fun root_bits :: "nat \<Rightarrow> nat \<Rightarrow> nat \<Rightarrow> nat \<Rightarrow> nat" where
  \<comment> \<open>the integer \<open>e\<close>-th root of \<open>n\<close>, bit by bit from bit \<open>k\<close> down\<close>
  "root_bits e 0 n r = r"
| "root_bits e (Suc k) n r = root_bits e k n (if (r + 2 ^ k) ^ e \<le> n then r + 2 ^ k else r)"

definition small_primes :: "nat list" where
  "small_primes = filter (\<lambda>p. \<forall>d \<in> set [2..<p]. p mod d \<noteq> 0) [2..<312]"

definition sha256_k :: "32 word list" where
  \<comment> \<open>the round constants: the first 32 bits of the fractions of the cube roots of the first 64 primes\<close>
  "sha256_k = map (\<lambda>p. of_nat (root_bits 3 36 (p * 2 ^ 96) 0)) small_primes"

definition sha256_h0 :: "32 word list" where
  \<comment> \<open>the initial value: the first 32 bits of the fractions of the square roots of the first 8 primes\<close>
  "sha256_h0 = map (\<lambda>p. of_nat (root_bits 2 36 (p * 2 ^ 64) 0)) [2, 3, 5, 7, 11, 13, 17, 19]"

definition be_bytes :: "nat \<Rightarrow> nat \<Rightarrow> string" where
  \<comment> \<open>the \<open>n\<close> low bytes of \<open>x\<close>, most significant first\<close>
  "be_bytes n x = map (\<lambda>i. char_of (x div 256 ^ (n - 1 - i))) [0..<n]"

definition be_word :: "string \<Rightarrow> 32 word" where
  "be_word bs = fold (\<lambda>c w. w * 256 + of_char c) bs 0"

definition sha256_pad :: "string \<Rightarrow> string" where
  "sha256_pad s = s @ [char_of (128 :: nat)]
     @ replicate ((119 - length s mod 64) mod 64) (char_of (0 :: nat)) @ be_bytes 8 (8 * length s)"

fun chunks :: "nat \<Rightarrow> 'a list \<Rightarrow> 'a list list" where
  "chunks n xs = (if n = 0 \<or> xs = [] then [] else take n xs # chunks n (drop n xs))"

declare chunks.simps [simp del]

definition schedule_word :: "32 word list \<Rightarrow> 32 word" where
  \<comment> \<open>the next word of the message schedule, from the last sixteen\<close>
  "schedule_word ws =
    (let x = ws ! 1; y = ws ! 14;
         s0 = word_rotr 7 x XOR word_rotr 18 x XOR drop_bit 3 x;
         s1 = word_rotr 17 y XOR word_rotr 19 y XOR drop_bit 10 y
     in ws ! 0 + s0 + ws ! 9 + s1)"

definition sha256_round :: "32 word \<Rightarrow> 32 word \<Rightarrow> 32 word list \<Rightarrow> 32 word list" where
  "sha256_round k w st =
    (let a = st ! 0; b = st ! 1; c = st ! 2; d = st ! 3;
         e = st ! 4; f = st ! 5; g = st ! 6; h = st ! 7;
         s1 = word_rotr 6 e XOR word_rotr 11 e XOR word_rotr 25 e;
         ch = (e AND f) XOR (NOT e AND g);
         t1 = h + s1 + ch + k + w;
         s0 = word_rotr 2 a XOR word_rotr 13 a XOR word_rotr 22 a;
         maj = (a AND b) XOR (a AND c) XOR (b AND c)
     in [t1 + s0 + maj, a, b, c, d + t1, e, f, g])"

fun sha256_rounds :: "32 word list \<Rightarrow> 32 word list \<Rightarrow> 32 word list \<Rightarrow> 32 word list" where
  "sha256_rounds [] ws st = st"
| "sha256_rounds (k # ks) ws st =
    sha256_rounds ks (tl ws @ [schedule_word ws]) (sha256_round k (hd ws) st)"

definition sha256_block :: "string \<Rightarrow> 32 word list \<Rightarrow> 32 word list" where
  "sha256_block block hs = map2 (+) hs (sha256_rounds sha256_k (map be_word (chunks 4 block)) hs)"

definition sha256 :: "string \<Rightarrow> string" where
  "sha256 s = concat (map (\<lambda>w. be_bytes 4 (unat w)) (fold sha256_block (chunks 64 (sha256_pad s)) sha256_h0))"

lemma length_be_bytes [simp]: "length (be_bytes n x) = n"
  by (simp add: be_bytes_def)

lemma length_sha256_round [simp]: "length (sha256_round k w st) = 8"
  by (simp add: sha256_round_def Let_def)

lemma length_sha256_rounds: "length st = 8 \<Longrightarrow> length (sha256_rounds ks ws st) = 8"
  by (induction ks ws st rule: sha256_rounds.induct) simp_all

lemma length_sha256_blocks: "length hs = 8 \<Longrightarrow> length (fold sha256_block bs hs) = 8"
  by (induction bs arbitrary: hs) (simp_all add: sha256_block_def length_sha256_rounds)

lemma length_concat_const: "\<forall>x \<in> set xs. length x = n \<Longrightarrow> length (concat xs) = n * length xs"
  by (induction xs) auto

lemma length_sha256 [simp]: "length (sha256 s) = 32"
  unfolding sha256_def
  by (subst length_concat_const [where n = 4]) (auto simp: length_sha256_blocks sha256_h0_def)

end
