(* ===== verification/Identity.thy ===== *)
theory Identity
  imports Models Go_Hash
begin

text \<open>
  \<^verbatim>\<open>identity.go\<close>: execution tokens, credential fingerprints, the writeback check and the
  transition chain that records the credential rotations the plugin itself made, together
  with the instance number derived from an auth id (\<^verbatim>\<open>auth_transaction.go\<close>) and the test
  for an unresolved chain (\<^verbatim>\<open>refresh.go\<close>).

  The lemmas show that a linked chain stays linked, bounded and keeps its tail when a
  transition is appended, and when an observed credential is recognised as the plugin's own.
\<close>

section \<open>Tokens, fingerprints, writeback\<close>

record ExecutionToken =
  et_Instance :: AuthInstanceID
  et_Admission :: InstanceAdmissionEpoch
  et_Tier :: TierGeneration
  et_Fence :: uint64

definition ValidFor ::
  "ExecutionToken \<Rightarrow> AuthInstanceID \<Rightarrow> InstanceAdmissionEpoch \<Rightarrow> TierGeneration \<Rightarrow> bool" where
  "ValidFor t instance_id admission tier \<longleftrightarrow>
     et_Instance t = instance_id \<and> et_Admission t = admission \<and> et_Tier t = tier"

definition canonicalMetadata :: "(string \<Rightarrow> string option) \<Rightarrow> string \<Rightarrow> string" where
  \<comment> \<open>\<open>remarshal\<close> is \<^verbatim>\<open>json.Unmarshal\<close> into \<^verbatim>\<open>any\<close> followed by \<^verbatim>\<open>json.Marshal\<close>\<close>
  "canonicalMetadata remarshal value =
    (case remarshal value of Some raw \<Rightarrow> raw | None \<Rightarrow> TrimSpace value)"

definition NewCredentialFingerprint ::
  "(string \<Rightarrow> string option) \<Rightarrow> string \<Rightarrow> string \<Rightarrow> string \<Rightarrow> CredentialFingerprint" where
  "NewCredentialFingerprint remarshal subject refresh metadata =
    (let s = sha256 subject; r = sha256 refresh; m = sha256 (canonicalMetadata remarshal metadata)
     in \<lparr>fp_SubjectHash = s, fp_RefreshTokenHash = r, fp_MetadataHash = m,
         fp_CompositeHash = sha256 (s @ r @ m)\<rparr>)"

definition ValidHashes :: "CredentialFingerprint \<Rightarrow> bool" where
  "ValidHashes f \<longleftrightarrow>
     \<not> (fp_SubjectHash f = zero_hash \<or> fp_RefreshTokenHash f = zero_hash
        \<or> fp_MetadataHash f = zero_hash \<or> fp_CompositeHash f = zero_hash)
     \<and> sha256 (fp_SubjectHash f @ fp_RefreshTokenHash f @ fp_MetadataHash f) = fp_CompositeHash f"

record BindingVersion =
  bv_Instance :: AuthInstanceID
  bv_Admission :: InstanceAdmissionEpoch
  bv_Tier :: TierGeneration
  bv_Login :: LoginEpoch
  bv_Fingerprint :: CredentialFingerprint

record WritebackVersion =
  wv_Token :: ExecutionToken
  wv_Login :: LoginEpoch
  wv_Fingerprint :: CredentialFingerprint

definition ValidateWriteback :: "BindingVersion \<Rightarrow> WritebackVersion \<Rightarrow> bool" where
  "ValidateWriteback current write \<longleftrightarrow>
     ValidFor (wv_Token write) (bv_Instance current) (bv_Admission current) (bv_Tier current)
     \<and> wv_Login write = bv_Login current
     \<and> fp_CompositeHash (wv_Fingerprint write) = fp_CompositeHash (bv_Fingerprint current)"

definition legacyAuthInstanceID :: "string \<Rightarrow> AuthInstanceID" where
  "legacyAuthInstanceID authID = (let v = fnv64a authID in if v = 0 then 1 else v)"

section \<open>Transition chains\<close>

datatype TransitionPhase =
  TransitionPhaseEmpty | TransitionPlanned | TransitionApplied | TransitionAborted
  | TransitionOutcomeUnknown

record CredentialTransition =
  tr_Prev :: CredentialFingerprint
  tr_Next :: CredentialFingerprint
  tr_SaveSeq :: uint64
  tr_Phase :: TransitionPhase
  tr_CreatedAt :: time

record TransitionChain =
  ch_Cursor :: CredentialFingerprint
  ch_Transitions :: "CredentialTransition list"

definition zero_TransitionChain :: TransitionChain where
  "zero_TransitionChain = \<lparr>ch_Cursor = zero_CredentialFingerprint, ch_Transitions = []\<rparr>"

datatype credential_error =
    ErrCredentialOutcomeUnknown
  | ErrCredentialRejected
  | ErrCredentialUnresolved
  | ErrStaleExecutionToken
  | ErrCredentialChainMissing
  | ErrCredentialResolutionScope

fun tail_from :: "CredentialFingerprint \<Rightarrow> CredentialTransition list \<Rightarrow> CredentialFingerprint" where
  "tail_from current [] = current"
| "tail_from current (tr # trs) =
    (if fp_CompositeHash (tr_Prev tr) \<noteq> fp_CompositeHash current then current
     else tail_from (if tr_Phase tr = TransitionApplied then tr_Next tr else current) trs)"

definition Tail :: "TransitionChain \<Rightarrow> CredentialFingerprint" where
  "Tail c = tail_from (ch_Cursor c) (ch_Transitions c)"

fun save_tail_from ::
  "CredentialFingerprint \<Rightarrow> CredentialTransition list \<Rightarrow> credential_error + CredentialFingerprint" where
  "save_tail_from current [] = Inr current"
| "save_tail_from current (tr # trs) =
    (if fp_CompositeHash (tr_Prev tr) \<noteq> fp_CompositeHash current then Inr current
     else if tr_Phase tr = TransitionApplied then save_tail_from (tr_Next tr) trs
     else if tr_Phase tr = TransitionPlanned \<or> tr_Phase tr = TransitionOutcomeUnknown
     then Inl ErrCredentialUnresolved
     else save_tail_from current trs)"

definition SaveTail :: "TransitionChain \<Rightarrow> credential_error + CredentialFingerprint" where
  "SaveTail c = save_tail_from (ch_Cursor c) (ch_Transitions c)"

definition GenerationCount :: "TransitionChain \<Rightarrow> int" where
  "GenerationCount c = 1 + int (length (ch_Transitions c))"

fun expire_from ::
  "time \<Rightarrow> CredentialFingerprint \<Rightarrow> CredentialTransition list \<Rightarrow> TransitionChain" where
  \<comment> \<open>the loop at the head of \<^verbatim>\<open>AppendAt\<close>: applied rotations older than a day move into the cursor\<close>
  "expire_from now cursor [] = \<lparr>ch_Cursor = cursor, ch_Transitions = []\<rparr>"
| "expire_from now cursor (tr # trs) =
    (if fp_CompositeHash (tr_Prev tr) = fp_CompositeHash cursor \<and> tr_Phase tr = TransitionApplied
        \<and> \<not> IsZero (tr_CreatedAt tr) \<and> Sub now (tr_CreatedAt tr) > 24 * Hour
     then expire_from now (tr_Next tr) trs
     else \<lparr>ch_Cursor = cursor, ch_Transitions = tr # trs\<rparr>)"

definition AppendAt :: "TransitionChain \<Rightarrow> CredentialTransition \<Rightarrow> time \<Rightarrow> TransitionChain" where
  "AppendAt c t now0 =
    (let now = (if IsZero now0 then tr_CreatedAt t else now0);
         c1 = expire_from now (ch_Cursor c) (ch_Transitions c);
         trs = ch_Transitions c1 @ [t]
     in if length trs > 11
        then (let kept = drop (length trs - 11) trs
              in \<lparr>ch_Cursor = tr_Prev (hd kept), ch_Transitions = kept\<rparr>)
        else c1\<lparr>ch_Transitions := trs\<rparr>)"

definition Append :: "TransitionChain \<Rightarrow> CredentialTransition \<Rightarrow> TransitionChain" where
  "Append c t = AppendAt c t (tr_CreatedAt t)"

fun unresolved_from :: "CredentialFingerprint \<Rightarrow> CredentialTransition list \<Rightarrow> bool" where
  "unresolved_from current [] = False"
| "unresolved_from current (tr # trs) =
    (if fp_CompositeHash (tr_Prev tr) \<noteq> fp_CompositeHash current then False
     else if tr_Phase tr = TransitionApplied then unresolved_from (tr_Next tr) trs
     else tr_Phase tr = TransitionPlanned \<or> tr_Phase tr = TransitionOutcomeUnknown)"

definition credentialChainUnresolved :: "TransitionChain \<Rightarrow> bool" where
  "credentialChainUnresolved chain = unresolved_from (ch_Cursor chain) (ch_Transitions chain)"

section \<open>Classification of an observed credential\<close>

datatype CredentialObservationKind =
  CredentialKindEmpty | CredentialSame | CredentialOwnedRotation | CredentialMetadataOnly
  | CredentialExternalLogin | CredentialAmbiguous

record CredentialObservation =
  co_Kind :: CredentialObservationKind
  co_Advance :: nat

fun classify_from ::
  "time \<Rightarrow> CredentialFingerprint \<Rightarrow> nat \<Rightarrow> CredentialFingerprint \<Rightarrow> CredentialTransition list
   \<Rightarrow> CredentialObservation option" where
  \<comment> \<open>the loop over the transitions; \<open>None\<close> is leaving it by \<^verbatim>\<open>break\<close> or at its end\<close>
  "classify_from now observed i current [] = None"
| "classify_from now observed i current (tr # trs) =
    (if fp_CompositeHash (tr_Prev tr) \<noteq> fp_CompositeHash current then None
     else if \<not> IsZero (tr_CreatedAt tr) \<and> Sub now (tr_CreatedAt tr) > 24 * Hour
     then (if fp_CompositeHash observed = fp_CompositeHash (tr_Next tr)
           then Some \<lparr>co_Kind = CredentialAmbiguous, co_Advance = 0\<rparr> else None)
     else if tr_Phase tr = TransitionApplied
     then (if fp_CompositeHash observed = fp_CompositeHash (tr_Next tr)
           then Some \<lparr>co_Kind = CredentialOwnedRotation, co_Advance = i + 1\<rparr>
           else classify_from now observed (i + 1) (tr_Next tr) trs)
     else if tr_Phase tr = TransitionPlanned \<or> tr_Phase tr = TransitionOutcomeUnknown
     then (if fp_CompositeHash observed = fp_CompositeHash (tr_Next tr)
           then Some \<lparr>co_Kind = CredentialAmbiguous, co_Advance = 0\<rparr> else None)
     else None)"

definition ClassifyObservedCredentialAt ::
  "TransitionChain \<Rightarrow> CredentialFingerprint \<Rightarrow> time \<Rightarrow> CredentialObservation" where
  "ClassifyObservedCredentialAt chain observed now =
    (if fp_CompositeHash observed = fp_CompositeHash (ch_Cursor chain)
     then \<lparr>co_Kind = CredentialSame, co_Advance = 0\<rparr>
     else case classify_from now observed 0 (ch_Cursor chain) (ch_Transitions chain) of
       Some obs \<Rightarrow> obs
     | None \<Rightarrow>
         if fp_SubjectHash observed = fp_SubjectHash (ch_Cursor chain)
            \<and> fp_RefreshTokenHash observed = fp_RefreshTokenHash (ch_Cursor chain)
         then \<lparr>co_Kind = CredentialMetadataOnly, co_Advance = 0\<rparr>
         else \<lparr>co_Kind = CredentialExternalLogin, co_Advance = 0\<rparr>)"

section \<open>Linked chains\<close>

abbreviation comp :: "CredentialFingerprint \<Rightarrow> hash32" where
  "comp \<equiv> fp_CompositeHash"

fun linked_from :: "hash32 \<Rightarrow> CredentialTransition list \<Rightarrow> bool" where
  "linked_from h [] = True"
| "linked_from h (tr # trs) =
    (comp (tr_Prev tr) = h
     \<and> linked_from (if tr_Phase tr = TransitionApplied then comp (tr_Next tr) else h) trs)"

definition linked :: "TransitionChain \<Rightarrow> bool" where
  "linked c = linked_from (comp (ch_Cursor c)) (ch_Transitions c)"

definition pending :: "CredentialTransition \<Rightarrow> bool" where
  "pending t \<longleftrightarrow> tr_Phase t = TransitionPlanned \<or> tr_Phase t = TransitionOutcomeUnknown"

definition recent :: "time \<Rightarrow> CredentialTransition \<Rightarrow> bool" where
  "recent now t \<longleftrightarrow> IsZero (tr_CreatedAt t) \<or> Sub now (tr_CreatedAt t) \<le> 24 * Hour"

lemma comp_tail_from_cong:
  "comp f = comp g \<Longrightarrow> comp (tail_from f trs) = comp (tail_from g trs)"
proof (induction trs arbitrary: f g)
  case (Cons tr trs)
  note IH = Cons.IH [OF Cons.prems]
  show ?case
    by (cases "tr_Phase tr = TransitionApplied") (use Cons.prems IH in \<open>simp_all add: Cons.prems\<close>)
qed simp

lemma linked_tail_append:
  "linked_from (comp f) xs \<Longrightarrow> tail_from f (xs @ ys) = tail_from (tail_from f xs) ys"
  by (induction xs arbitrary: f) auto

lemma linked_from_append:
  "linked_from (comp f) (xs @ ys) \<longleftrightarrow>
     linked_from (comp f) xs \<and> linked_from (comp (tail_from f xs)) ys"
  by (induction xs arbitrary: f) auto

lemma expire_from_linked:
  "linked_from (comp f) trs \<Longrightarrow>
     linked (expire_from now f trs) \<and> Tail (expire_from now f trs) = tail_from f trs"
  by (induction trs arbitrary: f) (auto simp: linked_def Tail_def)

lemma linked_drop:
  assumes "linked_from (comp f) trs" and "k < length trs"
  defines "c \<equiv> \<lparr>ch_Cursor = tr_Prev (hd (drop k trs)), ch_Transitions = drop k trs\<rparr>"
  shows "linked c" and "comp (Tail c) = comp (tail_from f trs)"
proof -
  let ?g = "tail_from f (take k trs)"
  have split: "trs = take k trs @ drop k trs" by simp
  then have l: "linked_from (comp f) (take k trs)" "linked_from (comp ?g) (drop k trs)"
    using assms(1) linked_from_append [of f "take k trs" "drop k trs"] by simp_all
  have h: "comp (tr_Prev (hd (drop k trs))) = comp ?g"
    using l(2) assms(2) by (cases "drop k trs") auto
  with l(2) show "linked c" by (simp add: linked_def c_def)
  have "comp (Tail c) = comp (tail_from ?g (drop k trs))"
    using comp_tail_from_cong [OF h] by (simp add: Tail_def c_def)
  then show "comp (Tail c) = comp (tail_from f trs)"
    using linked_tail_append [OF l(1), of "drop k trs"] by simp
qed

lemma AppendAt_linked:
  assumes "linked c" and "comp (tr_Prev t) = comp (Tail c)"
  shows "linked (AppendAt c t now)
    \<and> length (ch_Transitions (AppendAt c t now)) \<le> 11
    \<and> comp (Tail (AppendAt c t now)) =
        (if tr_Phase t = TransitionApplied then comp (tr_Next t) else comp (Tail c))"
proof -
  let ?now = "if IsZero now then tr_CreatedAt t else now"
  let ?c1 = "expire_from ?now (ch_Cursor c) (ch_Transitions c)"
  let ?trs = "ch_Transitions ?c1 @ [t]"
  have c1: "linked ?c1" "Tail ?c1 = Tail c"
    using expire_from_linked [of "ch_Cursor c" "ch_Transitions c" ?now] assms(1)
    by (simp_all add: linked_def Tail_def)
  have l: "linked_from (comp (ch_Cursor ?c1)) ?trs"
    using c1 assms(2) linked_from_append [of "ch_Cursor ?c1" "ch_Transitions ?c1" "[t]"]
    by (simp add: linked_def Tail_def)
  have tail: "comp (tail_from (ch_Cursor ?c1) ?trs) =
      (if tr_Phase t = TransitionApplied then comp (tr_Next t) else comp (Tail c))"
    using c1 assms(2) linked_tail_append [of "ch_Cursor ?c1" "ch_Transitions ?c1" "[t]"]
    by (simp add: linked_def Tail_def)
  show ?thesis
  proof (cases "length ?trs > 11")
    case True
    with linked_drop [OF l, of "length ?trs - 11"] tail show ?thesis
      by (simp add: AppendAt_def Let_def)
  next
    case False
    with l tail show ?thesis by (simp add: AppendAt_def Let_def linked_def Tail_def)
  qed
qed

section \<open>Open transitions\<close>

lemma save_tail_from_linked:
  "linked_from (comp f) trs \<Longrightarrow>
    save_tail_from f trs =
      (if \<exists>t \<in> set trs. pending t then Inl ErrCredentialUnresolved else Inr (tail_from f trs))"
  by (induction trs arbitrary: f) (auto simp: pending_def)

lemma unresolved_from_linked:
  "linked_from (comp f) trs \<Longrightarrow> \<forall>t \<in> set trs. tr_Phase t = TransitionApplied \<or> pending t \<Longrightarrow>
    unresolved_from f trs \<longleftrightarrow> (\<exists>t \<in> set trs. pending t)"
  by (induction trs arbitrary: f) (auto simp: pending_def)

lemma unresolved_from_pending:
  "unresolved_from f trs \<Longrightarrow> \<exists>t \<in> set trs. pending t"
  by (induction trs arbitrary: f) (auto simp: pending_def split: if_splits)

section \<open>Recognising the plugin's own rotations\<close>

lemma classify_from_owned:
  "classify_from now observed i f trs = Some obs \<Longrightarrow> co_Kind obs = CredentialOwnedRotation \<Longrightarrow>
    \<exists>k < length trs. co_Advance obs = i + k + 1 \<and> comp (tr_Next (trs ! k)) = comp observed
      \<and> (\<forall>j \<le> k. tr_Phase (trs ! j) = TransitionApplied \<and> recent now (trs ! j))"
proof (induction now observed i f trs rule: classify_from.induct)
  case (2 now observed i f tr trs)
  show ?case
  proof (cases "tr_Phase tr = TransitionApplied \<and> recent now tr \<and> comp observed \<noteq> comp (tr_Next tr)")
    case True
    with 2 obtain k where "k < length trs" "co_Advance obs = i + 1 + k + 1"
      "comp (tr_Next (trs ! k)) = comp observed"
      "\<forall>j \<le> k. tr_Phase (trs ! j) = TransitionApplied \<and> recent now (trs ! j)"
      by (auto simp: recent_def split: if_splits)
    with True show ?thesis
      by (intro exI [of _ "Suc k"]) (auto simp: nth_Cons split: nat.split)
  next
    case False
    with "2.prems" show ?thesis
      by (auto simp: recent_def split: if_splits intro!: exI [of _ 0])
  qed
qed simp

lemma classify_from_complete:
  "linked_from (comp f) trs \<Longrightarrow> \<forall>t \<in> set trs. tr_Phase t = TransitionApplied \<and> recent now t \<Longrightarrow>
    t \<in> set trs \<Longrightarrow> comp observed = comp (tr_Next t) \<Longrightarrow>
    \<exists>obs. classify_from now observed i f trs = Some obs \<and> co_Kind obs = CredentialOwnedRotation"
  by (induction trs arbitrary: f i) (auto simp: recent_def)

lemma tail_from_in:
  "tail_from f trs = f \<or> (\<exists>t \<in> set trs. tail_from f trs = tr_Next t)"
proof (induction trs arbitrary: f)
  case (Cons tr trs)
  from Cons.IH [of f] Cons.IH [of "tr_Next tr"] show ?case by simp blast
qed simp

lemma linked_drop_owned:
  assumes "linked_from (comp f) trs" and "k < length trs"
    and "\<forall>j \<le> k. tr_Phase (trs ! j) = TransitionApplied"
  shows "linked_from (comp (tr_Next (trs ! k))) (drop (Suc k) trs)"
  using assms
proof (induction trs arbitrary: f k)
  case (Cons tr trs)
  show ?case
  proof (cases k)
    case 0
    with Cons.prems show ?thesis by auto
  next
    case (Suc m)
    have "\<forall>j \<le> m. tr_Phase (trs ! j) = TransitionApplied"
      using Cons.prems(3) Suc by auto
    moreover have "tr_Phase tr = TransitionApplied"
      using Cons.prems(3) by auto
    ultimately show ?thesis
      using Cons.IH [of "tr_Next tr" m] Cons.prems(1,2) Suc by auto
  qed
qed simp

lemma legacyAuthInstanceID_nonzero [simp]: "legacyAuthInstanceID authID \<noteq> 0"
  by (simp add: legacyAuthInstanceID_def Let_def)

section \<open>Properties\<close>

text \<open>
  Appending a transition to a linked credential chain. As long as the new transition
  starts at the chain's tail, \<open>AppendAt\<close> (which first folds day-old applied rotations into
  the cursor and then truncates) keeps the chain linked, keeps at most eleven transitions,
  and the tail, the credential the plugin believes the host to hold, moves to the new
  fingerprint exactly if the transition is applied. Neither expiry nor truncation loses it.
\<close>
theorem AppendAt_keeps_tail:
  assumes "linked c" and "comp (tr_Prev t) = comp (Tail c)"
  shows "linked (AppendAt c t now) \<and> GenerationCount (AppendAt c t now) \<le> 12
    \<and> comp (Tail (AppendAt c t now)) =
        (if tr_Phase t = TransitionApplied then comp (tr_Next t) else comp (Tail c))"
  using AppendAt_linked [OF assms, of now] by (simp add: GenerationCount_def)

definition sample_fp :: "string \<Rightarrow> CredentialFingerprint" where
  "sample_fp s = zero_CredentialFingerprint\<lparr>fp_SubjectHash := s, fp_RefreshTokenHash := s, fp_CompositeHash := s\<rparr>"

definition sample_tr :: "string \<Rightarrow> string \<Rightarrow> TransitionPhase \<Rightarrow> time \<Rightarrow> CredentialTransition" where
  "sample_tr p n phase created = \<lparr>tr_Prev = sample_fp p, tr_Next = sample_fp n, tr_SaveSeq = 0,
     tr_Phase = phase, tr_CreatedAt = created\<rparr>"

lemma comp_sample_fp [simp]: "comp (sample_fp s) = s"
  by (simp add: sample_fp_def)

lemma sample_tr_sel [simp]:
  "tr_Prev (sample_tr p n ph c) = sample_fp p" "tr_Next (sample_tr p n ph c) = sample_fp n"
  "tr_Phase (sample_tr p n ph c) = ph" "tr_CreatedAt (sample_tr p n ph c) = c"
  by (simp_all add: sample_tr_def)

theorem AppendAt_keeps_tail_witness:
  "comp (Tail (AppendAt \<lparr>ch_Cursor = sample_fp ''a'', ch_Transitions = [sample_tr ''a'' ''b'' TransitionApplied 5]\<rparr>
     (sample_tr ''b'' ''c'' TransitionApplied 9) 9)) = ''c''"
  using AppendAt_keeps_tail [of "\<lparr>ch_Cursor = sample_fp ''a'', ch_Transitions = [sample_tr ''a'' ''b'' TransitionApplied 5]\<rparr>"
      "sample_tr ''b'' ''c'' TransitionApplied 9" 9]
  by (simp add: linked_def Tail_def)

text \<open>
  The plugin recognises its own rotations. On a linked chain of applied transitions
  of the last day, every credential the chain has passed through is classified as the same
  credential or as an owned rotation, never as an external login; and whenever any chain
  classifies an observation as an owned rotation, the transition at position \<open>Advance\<close>
  produced exactly the observed credential and every transition up to it was applied.
\<close>
theorem ClassifyObservedCredentialAt_owned:
  assumes "linked c" and "t \<in> set (ch_Transitions c)" and "comp observed = comp (tr_Next t)"
    and "\<forall>u \<in> set (ch_Transitions c). tr_Phase u = TransitionApplied \<and> recent now u"
    and "comp observed \<noteq> comp (ch_Cursor c)"
    and "obs = ClassifyObservedCredentialAt c observed now"
  shows "co_Kind obs = CredentialOwnedRotation
    \<and> 0 < co_Advance obs \<and> co_Advance obs \<le> length (ch_Transitions c)
    \<and> comp (tr_Next (ch_Transitions c ! (co_Advance obs - 1))) = comp observed"
proof -
  from classify_from_complete [of "ch_Cursor c" "ch_Transitions c" now t observed 0] assms
  obtain obs' where c: "classify_from now observed 0 (ch_Cursor c) (ch_Transitions c) = Some obs'"
    "co_Kind obs' = CredentialOwnedRotation"
    by (auto simp: linked_def)
  with assms(5,6) have "obs = obs'" by (simp add: ClassifyObservedCredentialAt_def)
  with c classify_from_owned [OF c] show ?thesis by auto
qed

theorem ClassifyObservedCredentialAt_owned_witness:
  "co_Kind (ClassifyObservedCredentialAt
     \<lparr>ch_Cursor = sample_fp ''a'', ch_Transitions = [sample_tr ''a'' ''b'' TransitionApplied 5]\<rparr> (sample_fp ''b'') 9)
   = CredentialOwnedRotation"
  using ClassifyObservedCredentialAt_owned
    [of "\<lparr>ch_Cursor = sample_fp ''a'', ch_Transitions = [sample_tr ''a'' ''b'' TransitionApplied 5]\<rparr>"
      "sample_tr ''a'' ''b'' TransitionApplied 5" "sample_fp ''b''" 9]
  by (simp add: linked_def recent_def Sub_def maxDuration_def minDuration_def)

text \<open>
  The precondition that no transition is aborted is needed: after a rejected save followed by
  an applied one, the tail of the chain is the new credential, but observing it is classified
  as an external login, because the loop leaves at the aborted transition; and an open
  transition behind an aborted one blocks saving although \<open>credentialChainUnresolved\<close>,
  the precondition of the operator's resolution, does not see it.
\<close>
lemma aborted_hides_rotation:
  "let c = \<lparr>ch_Cursor = sample_fp ''a'', ch_Transitions =
         [sample_tr ''a'' ''x'' TransitionAborted 5, sample_tr ''a'' ''b'' TransitionApplied 6]\<rparr>
   in linked c \<and> Tail c = sample_fp ''b''
      \<and> co_Kind (ClassifyObservedCredentialAt c (sample_fp ''b'') 9) = CredentialExternalLogin"
  by (simp add: linked_def Tail_def ClassifyObservedCredentialAt_def Sub_def maxDuration_def
      minDuration_def Let_def) (simp add: sample_fp_def)

lemma aborted_hides_unresolved:
  "let c = \<lparr>ch_Cursor = sample_fp ''a'', ch_Transitions =
         [sample_tr ''a'' ''x'' TransitionAborted 5, sample_tr ''a'' ''b'' TransitionOutcomeUnknown 6]\<rparr>
   in linked c \<and> SaveTail c = Inl ErrCredentialUnresolved \<and> \<not> credentialChainUnresolved c"
  by (simp add: linked_def SaveTail_def credentialChainUnresolved_def)

end
