(* ===== verification/Plugin_State.thy ===== *)
theory Plugin_State
  imports Circuit Annotations Identity
begin

text \<open>
  \<^verbatim>\<open>state.go\<close>: the plugin's in-memory state and every method on it. Each method takes the
  mutex for its whole body, so a method is one atomic function on the record
  \<open>PluginState\<close>; a result is returned beside the new state. Where the source replaces a zero
  \<^verbatim>\<open>now\<close> by \<^verbatim>\<open>time.Now()\<close>, the reading of the clock is the argument \<open>clock\<close>.

  Shown here: the key invariant of the account map and its preservation by every method, the
  effect of a roster admission, the guards of the versioned writebacks, the retention of
  logs, the refresh-due rules and the wake-up time of the refresh loop.
\<close>

section \<open>State\<close>

record PluginState =
  ps_cfg :: Config
  ps_accounts :: "(string, AccountState) gmap"
  ps_cpaAdmission :: CPAAdmissionState
  ps_cpaAdmissionVersion :: uint64
  ps_annotations :: AnnotationState
  ps_logs :: "LogEntry list"
  ps_lastSelected :: string
  ps_lastReason :: string
  ps_lastCodexActivityAt :: time
  ps_lastAuthScanAt :: time
  ps_codexAuthCount :: int

record StateSnapshot =
  ss_Config :: Config
  ss_Accounts :: "AccountState list"
  ss_CPAAdmission :: CPAAdmissionState
  ss_CPAAdmissionVersion :: uint64
  ss_Annotations :: AnnotationState
  ss_Logs :: "LogEntry list"
  ss_LastSelected :: string
  ss_LastReason :: string
  ss_LastCodexActivityAt :: time
  ss_LastAuthScanAt :: time
  ss_CodexAuthCount :: int
  ss_Now :: time

record BufferedHostLog =
  bh_Level :: string
  bh_Message :: string
  bh_Fields :: "(string, go_any) gmap"

record LegacyEffectJournal =
  lj_Accounts :: "AccountState list"
  lj_Logs :: "LogEntry list"
  lj_HostLogs :: "BufferedHostLog list"

definition or_now :: "time \<Rightarrow> time \<Rightarrow> time" where
  "or_now clock now = (if IsZero now then clock else now)"

definition empty_AnnotationState :: AnnotationState where
  "empty_AnnotationState = \<lparr>an_Accounts = [], an_Groups = []\<rparr>"

definition NewPluginState :: "Config \<Rightarrow> PluginState" where
  "NewPluginState cfg = \<lparr>ps_cfg = NormalizeConfig cfg, ps_accounts = [],
     ps_cpaAdmission = zero_CPAAdmissionState, ps_cpaAdmissionVersion = 0,
     ps_annotations = NormalizeAnnotationState empty_AnnotationState, ps_logs = [],
     ps_lastSelected = [], ps_lastReason = [], ps_lastCodexActivityAt = ZeroTime,
     ps_lastAuthScanAt = ZeroTime, ps_codexAuthCount = 0\<rparr>"

section \<open>Keys and small helpers\<close>

definition accountStateKey :: "AccountState \<Rightarrow> string" where
  "accountStateKey account =
    (if as_AuthID account \<noteq> [] then ''auth:'' @ as_AuthID account
     else if as_ChatGPTAccountID account \<noteq> [] then ''chatgpt:'' @ as_ChatGPTAccountID account
     else if as_Instance account \<noteq> 0 then ''instance:'' @ FormatUint (as_Instance account)
     else if as_Email account \<noteq> [] then ''email:'' @ as_Email account
     else if as_AuthIndex account \<noteq> [] then ''index:'' @ as_AuthIndex account
     else [])"

definition findAccountLocked :: "PluginState \<Rightarrow> string \<Rightarrow> string \<Rightarrow> (string \<times> AccountState) option" where
  "findAccountLocked s authID authIndex =
    (let by_index = (if authIndex \<noteq> [] then find (\<lambda>(key, account). as_AuthIndex account = authIndex) (ps_accounts s)
                     else None)
     in if authID \<noteq> []
        then (case gget (ps_accounts s) (''auth:'' @ authID) of
                Some account \<Rightarrow> Some (''auth:'' @ authID, account)
              | None \<Rightarrow> by_index)
        else by_index)"

definition put_account :: "string \<Rightarrow> AccountState \<Rightarrow> PluginState \<Rightarrow> PluginState" where
  "put_account key account s = s\<lparr>ps_accounts := gput key account (ps_accounts s)\<rparr>"

definition retryDelayForAttempt :: "Config \<Rightarrow> int \<Rightarrow> duration" where
  "retryDelayForAttempt cfg attempt =
    (let delays = cfg_RefreshRetryDelays (NormalizeConfig cfg)
     in if delays = [] then Minute
        else let i0 = attempt - 1;
                 i1 = (if i0 < 0 then 0 else i0);
                 i2 = (if i1 \<ge> int (length delays) then int (length delays) - 1 else i1)
             in delays ! nat i2)"

definition authFailureRetryDeadlineLocked :: "PluginState \<Rightarrow> time \<Rightarrow> RefreshFailureKind \<Rightarrow> time" where
  "authFailureRetryDeadlineLocked s now kind =
    (if kind \<noteq> RefreshFailureAuth then ZeroTime
     else Add now (cfg_AuthFailureRetryInterval (NormalizeConfig (ps_cfg s))))"

definition windowShowsRemainingCapacity :: "QuotaWindow option \<Rightarrow> time \<Rightarrow> bool" where
  "windowShowsRemainingCapacity window now =
    (case window of
       None \<Rightarrow> False
     | Some w \<Rightarrow>
         if qw_Exhausted w \<and> (IsZero (qw_ResetAt w) \<or> After (qw_ResetAt w) now) then False
         else (case qw_UsedPercent w of Some used \<Rightarrow> fsub 100 used > 0 | None \<Rightarrow> True))"

definition quotaRefreshConfirmsReset :: "AccountState \<Rightarrow> time \<Rightarrow> bool" where
  "quotaRefreshConfirmsReset account now =
    (if IsZero (as_LastSuccessAt account) then False
     else let longWindow = pq_LongWindow (as_Quota account)
          in if longWindow \<noteq> None \<and> \<not> windowShowsRemainingCapacity longWindow now then False
             else case pq_FiveHour (as_Quota account) of
               Some fiveHour \<Rightarrow>
                 windowShowsRemainingCapacity (Some fiveHour) now
                 \<and> qw_ResetAt fiveHour \<noteq> as_TemporaryResetAt account
             | None \<Rightarrow>
                 (case longWindow of
                    None \<Rightarrow> False
                  | Some w \<Rightarrow> \<not> IsZero (qw_ResetAt w) \<and> After (qw_ResetAt w) (as_TemporaryResetAt account)))"

definition retainedLogs :: "LogEntry list \<Rightarrow> Config \<Rightarrow> time \<Rightarrow> LogEntry list" where
  "retainedLogs logs cfg0 now =
    (let cfg = NormalizeConfig cfg0;
         cutoff = Add now (- cfg_LogRetention cfg);
         retained = filter (\<lambda>log. IsZero (le_Time log) \<or> \<not> Before (le_Time log) cutoff) logs
     in if int (length retained) > cfg_MaxLogEntries cfg
        then drop (nat (int (length retained) - cfg_MaxLogEntries cfg)) retained
        else retained)"

definition refreshTriggerPending :: "time \<Rightarrow> time \<Rightarrow> bool" where
  "refreshTriggerPending lastSuccessAt triggerAt \<longleftrightarrow>
     \<not> IsZero triggerAt \<and> (IsZero lastSuccessAt \<or> Before lastSuccessAt triggerAt)"

definition resetDue :: "QuotaWindow option \<Rightarrow> duration \<Rightarrow> time \<Rightarrow> time \<Rightarrow> bool" where
  "resetDue window delay lastSuccessAt now =
    (case window of
       None \<Rightarrow> False
     | Some w \<Rightarrow> if IsZero (qw_ResetAt w) then False
                 else let triggerAt = Add (qw_ResetAt w) delay
                      in refreshTriggerPending lastSuccessAt triggerAt \<and> \<not> After triggerAt now)"

definition resetProbeDue :: "ResetProbeState \<Rightarrow> time \<Rightarrow> bool" where
  "resetProbeDue probe now \<longleftrightarrow> rp_Status probe = ResetProbeStatusPending
     \<and> \<not> IsZero (rp_NextCheckAt probe) \<and> \<not> After (rp_NextCheckAt probe) now"

definition resetProbeDueAny :: "(WindowKind, ResetProbeState) gmap \<Rightarrow> time \<Rightarrow> bool" where
  "resetProbeDueAny probes now = list_ex (\<lambda>(kind, probe). resetProbeDue probe now) probes"

definition accountRefreshDue :: "AccountState \<Rightarrow> Config \<Rightarrow> time \<Rightarrow> bool \<times> string" where
  "accountRefreshDue account cfg0 now =
    (let cfg = NormalizeConfig cfg0; c = as_Circuit account; r = as_Refresh account;
         ls = as_LastSuccessAt account; delay = cfg_RefreshAfterResetDelay cfg
     in if ar_LastFailureKind r = RefreshFailureLocal then (False, ''local_failure'')
        else if \<not> IsZero (cb_NextProbeAt c) \<and> After (cb_NextProbeAt c) now then (False, ''circuit_wait'')
        else if \<not> IsZero (cb_NextProbeAt c)
                \<and> (cb_State c = CircuitStateOpen \<or> cb_EffectiveState c = CircuitStateHalfOpen \<or> cb_FailureCount c > 0)
        then (True, ''circuit_probe_due'')
        else if \<not> IsZero (ar_NextRetryAt r) \<and> After (ar_NextRetryAt r) now then (False, ''retry_wait'')
        else if \<not> IsZero (ar_NextRetryAt r) \<and> \<not> After (ar_NextRetryAt r) now then (True, ''retry_due'')
        else if IsZero ls then (True, ''never_refreshed'')
        else if Sub now ls > cfg_StaleAfter cfg then (True, ''stale'')
        else if \<not> After (Add ls (cfg_QuotaRefreshInterval cfg)) now then (True, ''refresh_interval_due'')
        else if cfg_EnableResetProbe cfg \<and> resetProbeDueAny (as_ResetProbes account) now
        then (True, ''reset_probe_check_due'')
        else if resetDue (pq_FiveHour (as_Quota account)) delay ls now then (True, ''five_hour_reset_due'')
        else if resetDue (pq_LongWindow (as_Quota account)) delay ls now then (True, ''long_window_reset_due'')
        else if as_TemporaryExhausted account \<and> \<not> IsZero (as_TemporaryResetAt account)
                \<and> refreshTriggerPending ls (Add (as_TemporaryResetAt account) delay)
                \<and> \<not> After (Add (as_TemporaryResetAt account) delay) now
        then (True, ''temporary_reset_due'')
        else (False, []))"

section \<open>Configuration, annotations, journals\<close>

definition cloneCPAAdmission :: "CPAAdmissionState \<Rightarrow> CPAAdmissionState" where
  "cloneCPAAdmission value = \<lparr>ad_Observed = ad_Observed value, ad_Priority = ad_Priority value,
     ad_AuthIDs = ad_AuthIDs value,
     ad_Tiers = map (\<lambda>tier. \<lparr>ta_Priority = ta_Priority tier, ta_AuthIDs = ta_AuthIDs tier\<rparr>) (ad_Tiers value)\<rparr>"

definition cloneForLegacyTransaction :: "PluginState \<Rightarrow> PluginState" where
  "cloneForLegacyTransaction s = (NewPluginState (ps_cfg s))\<lparr>
     ps_accounts := gmap_vals cloneAccountState (ps_accounts s),
     ps_cpaAdmission := cloneCPAAdmission (ps_cpaAdmission s),
     ps_cpaAdmissionVersion := ps_cpaAdmissionVersion s,
     ps_annotations := cloneAnnotationState (ps_annotations s),
     ps_logs := cloneLogs (ps_logs s), ps_lastSelected := ps_lastSelected s,
     ps_lastReason := ps_lastReason s, ps_lastCodexActivityAt := ps_lastCodexActivityAt s,
     ps_lastAuthScanAt := ps_lastAuthScanAt s, ps_codexAuthCount := ps_codexAuthCount s\<rparr>"

definition legacyEffectJournal :: "PluginState \<Rightarrow> string \<Rightarrow> nat \<Rightarrow> LegacyEffectJournal" where
  "legacyEffectJournal s authID baselineLogs = \<lparr>
     lj_Accounts = map cloneAccountState (filter (\<lambda>a. as_AuthID a = authID) (map snd (ps_accounts s))),
     lj_Logs = (if baselineLogs < length (ps_logs s) then cloneLogs (drop baselineLogs (ps_logs s)) else []),
     lj_HostLogs = []\<rparr>"

definition journal_account :: "AccountState \<Rightarrow> PluginState \<Rightarrow> PluginState" where
  "journal_account account s =
    (let key = accountStateKey account
     in if key \<noteq> [] then put_account key (cloneAccountState account) s else s)"

definition applyLegacyEffectJournal :: "LegacyEffectJournal \<Rightarrow> PluginState \<Rightarrow> PluginState" where
  "applyLegacyEffectJournal j s =
    (let s1 = fold journal_account (lj_Accounts j) s
     in s1\<lparr>ps_logs := ps_logs s1 @ cloneLogs (lj_Logs j)\<rparr>)"

definition ReplaceConfig :: "Config \<Rightarrow> PluginState \<Rightarrow> PluginState" where
  "ReplaceConfig cfg s = s\<lparr>ps_cfg := NormalizeConfig cfg\<rparr>"

definition SetAnnotations :: "AnnotationState \<Rightarrow> PluginState \<Rightarrow> PluginState" where
  "SetAnnotations st s = s\<lparr>ps_annotations := cloneAnnotationState (NormalizeAnnotationState st)\<rparr>"

section \<open>Admission\<close>

definition equal_tier :: "TierAdmission \<Rightarrow> TierAdmission \<Rightarrow> bool" where
  "equal_tier tier other \<longleftrightarrow> ta_Priority tier = ta_Priority other
     \<and> card (ta_AuthIDs tier) = card (ta_AuthIDs other) \<and> ta_AuthIDs tier \<subseteq> ta_AuthIDs other"

definition equalCPAAdmission :: "CPAAdmissionState \<Rightarrow> CPAAdmissionState \<Rightarrow> bool" where
  "equalCPAAdmission left right \<longleftrightarrow>
     \<not> (ad_Observed left \<noteq> ad_Observed right \<or> ad_Priority left \<noteq> ad_Priority right
        \<or> card (ad_AuthIDs left) \<noteq> card (ad_AuthIDs right)
        \<or> length (ad_Tiers left) \<noteq> length (ad_Tiers right))
     \<and> ad_AuthIDs left \<subseteq> ad_AuthIDs right
     \<and> list_all2 equal_tier (ad_Tiers left) (ad_Tiers right)"

definition priorityByAuthID :: "TierAdmission list \<Rightarrow> string \<Rightarrow> int option" where
  \<comment> \<open>the map filled tier by tier: a later tier overwrites an earlier one\<close>
  "priorityByAuthID tiers authID =
    fold (\<lambda>tier found. if authID \<in> ta_AuthIDs tier then Some (ta_Priority tier) else found) tiers None"

definition admitted_account :: "CPAAdmissionState \<Rightarrow> AccountState \<Rightarrow> AccountState" where
  "admitted_account value account =
    (case priorityByAuthID (ad_Tiers value) (as_AuthID account) of
       Some tierPriority \<Rightarrow> account\<lparr>as_Priority := tierPriority\<rparr>
     | None \<Rightarrow> account\<lparr>as_Priority := ad_Priority value\<rparr>)"

definition ReplaceCPAAdmission :: "CPAAdmissionState \<Rightarrow> PluginState \<Rightarrow> uint64 \<times> PluginState" where
  "ReplaceCPAAdmission value s =
    (if equalCPAAdmission (ps_cpaAdmission s) value then (ps_cpaAdmissionVersion s, s)
     else let version = ps_cpaAdmissionVersion s + 1;
              s1 = s\<lparr>ps_cpaAdmissionVersion := version, ps_cpaAdmission := cloneCPAAdmission value\<rparr>
          in if \<not> ad_Observed value then (version, s1)
             else (version, s1\<lparr>ps_accounts :=
                    gmap_vals (admitted_account value)
                      (filter (\<lambda>(key, account). as_AuthID account \<in> ad_AuthIDs value) (ps_accounts s1))\<rparr>))"

definition admissionCurrentLocked :: "PluginState \<Rightarrow> string \<Rightarrow> uint64 \<Rightarrow> bool" where
  "admissionCurrentLocked s authID version =
    (if ps_cpaAdmissionVersion s \<noteq> version \<or> \<not> ad_Observed (ps_cpaAdmission s) \<or> authID = [] then False
     else authID \<in> ad_AuthIDs (ps_cpaAdmission s))"

definition BeginCPAAdmissionCall :: "PluginState \<Rightarrow> string \<Rightarrow> uint64 \<Rightarrow> bool" where
  "BeginCPAAdmissionCall s authID version = admissionCurrentLocked s authID version"

definition BeginCPAAdmissionVersionCall :: "PluginState \<Rightarrow> uint64 \<Rightarrow> bool" where
  "BeginCPAAdmissionVersionCall s version \<longleftrightarrow>
     ad_Observed (ps_cpaAdmission s) \<and> ps_cpaAdmissionVersion s = version"

definition CPAAdmissionVersioned :: "PluginState \<Rightarrow> CPAAdmissionState \<times> uint64" where
  "CPAAdmissionVersioned s = (cloneCPAAdmission (ps_cpaAdmission s), ps_cpaAdmissionVersion s)"

definition IsAuthAdmitted :: "PluginState \<Rightarrow> string \<Rightarrow> bool" where
  "IsAuthAdmitted s authID =
    (if \<not> ad_Observed (ps_cpaAdmission s) \<or> authID = [] then False
     else authID \<in> ad_AuthIDs (ps_cpaAdmission s))"

definition ExecutionTokenCurrent :: "PluginState \<Rightarrow> string \<Rightarrow> ExecutionToken \<Rightarrow> bool" where
  "ExecutionTokenCurrent s authID token =
    (case gget (ps_accounts s) (''auth:'' @ authID) of
       None \<Rightarrow> False
     | Some account \<Rightarrow>
         ValidateWriteback
           \<lparr>bv_Instance = as_Instance account, bv_Admission = as_AdmissionEpoch account,
            bv_Tier = as_TierGeneration account, bv_Login = as_LoginEpoch account,
            bv_Fingerprint = as_CredentialFingerprint account\<rparr>
           \<lparr>wv_Token = token, wv_Login = as_LoginEpoch account,
            wv_Fingerprint = as_CredentialFingerprint account\<rparr>)"

definition admissionPriorityLocked :: "PluginState \<Rightarrow> string \<Rightarrow> int" where
  "admissionPriorityLocked s authID =
    (case find (\<lambda>tier. authID \<in> ta_AuthIDs tier) (ad_Tiers (ps_cpaAdmission s)) of
       Some tier \<Rightarrow> ta_Priority tier
     | None \<Rightarrow> ad_Priority (ps_cpaAdmission s))"

definition AdmittedCPAPriorityVersioned :: "PluginState \<Rightarrow> string \<Rightarrow> int \<times> uint64 \<times> bool" where
  "AdmittedCPAPriorityVersioned s authID =
    (if \<not> ad_Observed (ps_cpaAdmission s) \<or> authID = [] then (0, ps_cpaAdmissionVersion s, False)
     else if authID \<notin> ad_AuthIDs (ps_cpaAdmission s) then (0, ps_cpaAdmissionVersion s, False)
     else case find (\<lambda>tier. authID \<in> ta_AuthIDs tier) (ad_Tiers (ps_cpaAdmission s)) of
       Some tier \<Rightarrow> (ta_Priority tier, ps_cpaAdmissionVersion s, True)
     | None \<Rightarrow> (ad_Priority (ps_cpaAdmission s), ps_cpaAdmissionVersion s, True))"

definition AdmittedCPAPriority :: "PluginState \<Rightarrow> string \<Rightarrow> int \<times> bool" where
  "AdmittedCPAPriority s authID =
    (let (priority, version, ok) = AdmittedCPAPriorityVersioned s authID in (priority, ok))"

definition CPAAdmissionVersionCurrent :: "PluginState \<Rightarrow> uint64 \<Rightarrow> bool" where
  "CPAAdmissionVersionCurrent s version \<longleftrightarrow> ps_cpaAdmissionVersion s = version"

section \<open>Writing accounts\<close>

definition forget_refresh_failure :: "AccountState \<Rightarrow> AccountState" where
  "forget_refresh_failure account =
    (if \<not> IsZero (as_LastSuccessAt account) \<and> as_LastError account = []
     then account\<lparr>as_Refresh := zero_AccountRefreshState\<rparr> else account)"

definition UpsertQuota :: "AccountState \<Rightarrow> PluginState \<Rightarrow> PluginState" where
  "UpsertQuota account s =
    (let key = accountStateKey account
     in if key = [] then s else put_account key (cloneAccountState (forget_refresh_failure account)) s)"

definition MarkAccountTemporaryExhausted :: "string \<Rightarrow> time \<Rightarrow> string \<Rightarrow> PluginState \<Rightarrow> PluginState" where
  "MarkAccountTemporaryExhausted authID resetAt reason s =
    (if authID = [] then s
     else let account = (case gget (ps_accounts s) (''auth:'' @ authID) of
                Some a \<Rightarrow> a | None \<Rightarrow> zero_AccountState\<lparr>as_AuthID := authID\<rparr>)
          in put_account (''auth:'' @ authID) (markTemporaryExhausted account resetAt reason) s)"

definition MarkAccountTemporaryExhaustedByAuthIndex ::
  "string \<Rightarrow> time \<Rightarrow> string \<Rightarrow> PluginState \<Rightarrow> PluginState" where
  "MarkAccountTemporaryExhaustedByAuthIndex authIndex resetAt reason s =
    (if authIndex = [] then s
     else case find (\<lambda>(key, account). as_AuthIndex account = authIndex) (ps_accounts s) of
       Some (key, account) \<Rightarrow> put_account key (markTemporaryExhausted account resetAt reason) s
     | None \<Rightarrow> s)"

definition find_or_new :: "PluginState \<Rightarrow> string \<Rightarrow> string \<Rightarrow> (string \<times> AccountState) option" where
  \<comment> \<open>the lookup at the head of \<^verbatim>\<open>RecordAccountFailure\<close> and \<^verbatim>\<open>RecordRefreshFailure\<close>\<close>
  "find_or_new s authID authIndex =
    (case findAccountLocked s authID authIndex of
       Some ka \<Rightarrow> Some ka
     | None \<Rightarrow> if authID = [] then None
               else Some (''auth:'' @ authID, zero_AccountState\<lparr>as_AuthID := authID,
                      as_AuthIndex := authIndex, as_Provider := ''codex''\<rparr>))"

definition RecordAccountFailure ::
  "string \<Rightarrow> string \<Rightarrow> string \<Rightarrow> time \<Rightarrow> time \<Rightarrow> PluginState \<Rightarrow> AccountState option \<times> PluginState" where
  "RecordAccountFailure authID authIndex reason resetAt now s =
    (if authID = [] \<and> authIndex = [] then (None, s)
     else case find_or_new s authID authIndex of
       None \<Rightarrow> (None, s)
     | Some (key, account) \<Rightarrow>
         let account' = applyCircuitFailure account (NormalizeConfig (ps_cfg s)) reason resetAt now
         in (Some (cloneAccountState account'), put_account key account' s))"

definition clear_marker :: "AccountState \<Rightarrow> AccountState" where
  "clear_marker account = account\<lparr>as_TemporaryExhausted := False, as_TemporaryResetAt := ZeroTime\<rparr>"

definition RecordAccountSuccess ::
  "string \<Rightarrow> string \<Rightarrow> time \<Rightarrow> PluginState \<Rightarrow> AccountState option \<times> PluginState" where
  "RecordAccountSuccess authID authIndex now s =
    (if authID = [] \<and> authIndex = [] then (None, s)
     else case findAccountLocked s authID authIndex of
       None \<Rightarrow> (None, s)
     | Some (key, account) \<Rightarrow>
         let account' = applyCircuitSuccess (clear_marker account) (NormalizeConfig (ps_cfg s)) now
         in (Some (cloneAccountState account'), put_account key account' s))"

definition ClearAccountTemporaryExhausted :: "string \<Rightarrow> PluginState \<Rightarrow> bool \<times> PluginState" where
  "ClearAccountTemporaryExhausted authID s =
    (if authID = [] then (False, s)
     else case findAccountLocked s authID [] of
       None \<Rightarrow> (False, s)
     | Some (key, account) \<Rightarrow>
         if \<not> as_TemporaryExhausted account then (False, s)
         else (True, put_account key (clear_marker account) s))"

definition ClearAccountAuthFailure :: "string \<Rightarrow> PluginState \<Rightarrow> bool \<times> PluginState" where
  "ClearAccountAuthFailure authID s =
    (if authID = [] then (False, s)
     else case findAccountLocked s authID [] of
       None \<Rightarrow> (False, s)
     | Some (key, account) \<Rightarrow>
         if \<not> ar_AuthFailure (as_Refresh account) then (False, s)
         else (True, put_account key (account\<lparr>as_Refresh := (as_Refresh account)
                \<lparr>ar_AuthFailure := False, ar_RetryAttempt := 0, ar_NextRetryAt := ZeroTime\<rparr>\<rparr>) s))"

definition reconcile_marker :: "AccountState \<Rightarrow> time \<Rightarrow> AccountState" where
  "reconcile_marker account now =
    (if as_TemporaryExhausted account \<and> quotaRefreshConfirmsReset account now
     then (clear_marker account)\<lparr>as_LastError := []\<rparr> else account)"

definition observed_account :: "AccountState \<Rightarrow> ParsedQuota \<Rightarrow> time \<Rightarrow> AccountState" where
  "observed_account account quota now =
    (let a1 = (if pq_FiveHour quota \<noteq> None
               then account\<lparr>as_Quota := (as_Quota account)\<lparr>pq_FiveHour := pq_FiveHour quota\<rparr>\<rparr> else account);
         a2 = (if pq_LongWindow quota \<noteq> None
               then a1\<lparr>as_Quota := (as_Quota a1)\<lparr>pq_LongWindow := pq_LongWindow quota\<rparr>\<rparr> else a1);
         a3 = (if pq_Family quota \<noteq> AccountFamilyEmpty
               then a2\<lparr>as_Quota := (as_Quota a2)\<lparr>pq_Family := pq_Family quota\<rparr>, as_Family := pq_Family quota\<rparr>
               else a2)
     in a3\<lparr>as_LastRefreshAt := now, as_LastSuccessAt := now, as_LastObservedAt := now, as_Stale := False\<rparr>)"

definition ObserveAccountQuota ::
  "time \<Rightarrow> string \<Rightarrow> string \<Rightarrow> ParsedQuota \<Rightarrow> time \<Rightarrow> PluginState \<Rightarrow> AccountState option \<times> PluginState" where
  "ObserveAccountQuota clock authID authIndex quota now0 s =
    (if authID = [] \<and> authIndex = [] then (None, s)
     else let now = or_now clock now0
          in case findAccountLocked s authID authIndex of
            None \<Rightarrow> (None, s)
          | Some (key, account) \<Rightarrow>
              let account' = reconcile_marker (observed_account account quota now) now
              in (Some (cloneAccountState account'), put_account key account' s))"

definition refresh_failed :: "PluginState \<Rightarrow> AccountState \<Rightarrow> RefreshFailureKind \<Rightarrow> string \<Rightarrow> time \<Rightarrow> AccountState" where
  \<comment> \<open>the bookkeeping shared, line for line, by the two refresh-failure methods\<close>
  "refresh_failed s account kind message now =
    (let r0 = (as_Refresh account)\<lparr>ar_LastFailureKind := kind, ar_LastFailureAt := now\<rparr>;
         r1 = (if kind = RefreshFailureAuth \<or> kind = RefreshFailureLocal
               then r0\<lparr>ar_AuthFailure := (kind = RefreshFailureAuth),
                      ar_NextRetryAt := authFailureRetryDeadlineLocked s now kind\<rparr>
               else let n = ar_RetryAttempt r0 + 1
                    in r0\<lparr>ar_AuthFailure := False, ar_RetryAttempt := n,
                         ar_NextRetryAt := Add now (retryDelayForAttempt (NormalizeConfig (ps_cfg s)) n)\<rparr>)
     in account\<lparr>as_LastError := message, as_Refresh := r1\<rparr>)"

definition RecordRefreshFailure ::
  "time \<Rightarrow> string \<Rightarrow> string \<Rightarrow> RefreshFailureKind \<Rightarrow> string \<Rightarrow> time \<Rightarrow> PluginState
   \<Rightarrow> AccountState option \<times> PluginState" where
  "RecordRefreshFailure clock authID authIndex kind message now0 s =
    (let now = or_now clock now0
     in if authID = [] \<and> authIndex = [] then (None, s)
        else case find_or_new s authID authIndex of
          None \<Rightarrow> (None, s)
        | Some (key, account) \<Rightarrow>
            let account' = refresh_failed s account kind message now
            in (Some (cloneAccountState account'), put_account key account' s))"

definition ApplyQuotaRefreshFailureIfAdmissionCurrent ::
  "time \<Rightarrow> AccountState \<Rightarrow> uint64 \<Rightarrow> RefreshFailureKind \<Rightarrow> string \<Rightarrow> time \<Rightarrow> PluginState \<Rightarrow> bool \<times> PluginState" where
  "ApplyQuotaRefreshFailureIfAdmissionCurrent clock account version kind message now0 s =
    (let now = or_now clock now0
     in if \<not> admissionCurrentLocked s (as_AuthID account) version then (False, s)
        else let a1 = account\<lparr>as_Priority := admissionPriorityLocked s (as_AuthID account)\<rparr>;
                 a2 = refresh_failed s a1 kind message now;
                 key = accountStateKey a2
             in if key = [] then (False, s) else (True, put_account key (cloneAccountState a2) s))"

definition ApplyQuotaRefreshSuccessIfAdmissionCurrent ::
  "time \<Rightarrow> AccountState \<Rightarrow> uint64 \<Rightarrow> time \<Rightarrow> PluginState \<Rightarrow> bool \<times> PluginState" where
  "ApplyQuotaRefreshSuccessIfAdmissionCurrent clock account version now0 s =
    (let now = or_now clock now0
     in if \<not> admissionCurrentLocked s (as_AuthID account) version then (False, s)
        else let a1 = account\<lparr>as_Priority := admissionPriorityLocked s (as_AuthID account)\<rparr>;
                 a2 = forget_refresh_failure a1;
                 a3 = reconcile_marker a2 now;
                 a4 = applyCircuitSuccess a3 (NormalizeConfig (ps_cfg s)) now;
                 key = accountStateKey a4
             in if key = [] then (False, s) else (True, put_account key (cloneAccountState a4) s))"

section \<open>Activity and logs\<close>

definition RecordSelection :: "string \<Rightarrow> string \<Rightarrow> PluginState \<Rightarrow> PluginState" where
  "RecordSelection authID reason s = s\<lparr>ps_lastSelected := authID, ps_lastReason := reason\<rparr>"

definition RecordCodexActivity :: "time \<Rightarrow> time \<Rightarrow> PluginState \<Rightarrow> PluginState" where
  "RecordCodexActivity clock now0 s =
    (let now = or_now clock now0
     in if IsZero (ps_lastCodexActivityAt s) \<or> After now (ps_lastCodexActivityAt s)
        then s\<lparr>ps_lastCodexActivityAt := now\<rparr> else s)"

definition RecordAuthScan :: "time \<Rightarrow> int \<Rightarrow> time \<Rightarrow> PluginState \<Rightarrow> PluginState" where
  "RecordAuthScan clock codexAuthCount now0 s =
    s\<lparr>ps_lastAuthScanAt := or_now clock now0,
      ps_codexAuthCount := (if codexAuthCount < 0 then 0 else codexAuthCount)\<rparr>"

definition RecordAuthScanIfAdmissionCurrent ::
  "time \<Rightarrow> uint64 \<Rightarrow> int \<Rightarrow> time \<Rightarrow> PluginState \<Rightarrow> bool \<times> PluginState" where
  "RecordAuthScanIfAdmissionCurrent clock version codexAuthCount now0 s =
    (if ps_cpaAdmissionVersion s \<noteq> version then (False, s)
     else (True, s\<lparr>ps_lastAuthScanAt := or_now clock now0,
                  ps_codexAuthCount := (if codexAuthCount < 0 then 0 else codexAuthCount)\<rparr>))"

definition RefreshActive :: "time \<Rightarrow> PluginState \<Rightarrow> time \<Rightarrow> bool" where
  "RefreshActive clock s now0 \<longleftrightarrow>
     \<not> IsZero (ps_lastCodexActivityAt s)
     \<and> Before (or_now clock now0)
         (Add (ps_lastCodexActivityAt s) (cfg_RefreshActiveWindow (NormalizeConfig (ps_cfg s))))"

definition RecordLog ::
  "time \<Rightarrow> string \<Rightarrow> string \<Rightarrow> string \<Rightarrow> (string, go_any) gmap \<Rightarrow> time \<Rightarrow> PluginState \<Rightarrow> PluginState" where
  "RecordLog clock level event message flds now0 s =
    (let now = or_now clock now0;
         entry = \<lparr>le_Time = now, le_Level = level, le_Event = event, le_Message = message,
                  le_Fields = cloneMap flds\<rparr>
     in s\<lparr>ps_logs := retainedLogs (ps_logs s @ [entry]) (NormalizeConfig (ps_cfg s)) now\<rparr>)"

definition RecordLogIfAdmissionCurrent ::
  "time \<Rightarrow> string \<Rightarrow> uint64 \<Rightarrow> string \<Rightarrow> string \<Rightarrow> string \<Rightarrow> (string, go_any) gmap \<Rightarrow> time \<Rightarrow> PluginState
   \<Rightarrow> bool \<times> PluginState" where
  "RecordLogIfAdmissionCurrent clock authID version level event message flds now0 s =
    (let now = or_now clock now0
     in if \<not> admissionCurrentLocked s authID version then (False, s)
        else let entry = \<lparr>le_Time = now, le_Level = level, le_Event = event, le_Message = message,
                           le_Fields = cloneMap flds\<rparr>
             in (True, s\<lparr>ps_logs := retainedLogs (ps_logs s @ [entry]) (NormalizeConfig (ps_cfg s)) now\<rparr>))"

section \<open>Views for the refresh loop and the management page\<close>

definition snapshot_account :: "PluginState \<Rightarrow> time \<Rightarrow> AccountState \<Rightarrow> AccountState" where
  "snapshot_account s now account =
    (let cloned = cloneAccountState account
     in cloned\<lparr>as_Stale := (\<not> IsZero (as_LastSuccessAt cloned)
                 \<and> Sub now (as_LastSuccessAt cloned) > cfg_StaleAfter (ps_cfg s)),
               as_Circuit := effectiveCircuitState (as_Circuit cloned) now\<rparr>)"

definition key_less :: "AccountState \<Rightarrow> AccountState \<Rightarrow> bool" where
  "key_less a b \<longleftrightarrow> accountStateKey a < accountStateKey b"

definition due_less :: "AccountState \<Rightarrow> AccountState \<Rightarrow> bool" where
  "due_less a b =
    (if as_Priority a \<noteq> as_Priority b then as_Priority a > as_Priority b
     else accountStateKey a < accountStateKey b)"

definition state_Snapshot :: "PluginState \<Rightarrow> time \<Rightarrow> StateSnapshot" where
  "state_Snapshot s now = \<lparr>ss_Config = ps_cfg s,
     ss_Accounts = ApplyAnnotations
       (sort_slice key_less (map (\<lambda>(key, account). snapshot_account s now account) (ps_accounts s)))
       (ps_annotations s),
     ss_CPAAdmission = cloneCPAAdmission (ps_cpaAdmission s),
     ss_CPAAdmissionVersion = ps_cpaAdmissionVersion s,
     ss_Annotations = cloneAnnotationState (ps_annotations s),
     ss_Logs = cloneLogs (retainedLogs (ps_logs s) (NormalizeConfig (ps_cfg s)) now),
     ss_LastSelected = ps_lastSelected s, ss_LastReason = ps_lastReason s,
     ss_LastCodexActivityAt = ps_lastCodexActivityAt s, ss_LastAuthScanAt = ps_lastAuthScanAt s,
     ss_CodexAuthCount = ps_codexAuthCount s, ss_Now = now\<rparr>"

definition due_account :: "Config \<Rightarrow> time \<Rightarrow> AccountState \<Rightarrow> AccountState option" where
  "due_account cfg now account =
    (let cloned = cloneAccountState account; (due, reason) = accountRefreshDue cloned cfg now
     in if due then Some (cloned\<lparr>as_Refresh := (as_Refresh cloned)\<lparr>ar_DueReason := reason\<rparr>\<rparr>) else None)"

definition DueAccounts :: "time \<Rightarrow> PluginState \<Rightarrow> time \<Rightarrow> AccountState list" where
  "DueAccounts clock s now0 =
    (let now = or_now clock now0; cfg = NormalizeConfig (ps_cfg s)
     in sort_slice due_less (List.map_filter (\<lambda>(key, account). due_account cfg now account) (ps_accounts s)))"

definition consider_deadline :: "time \<Rightarrow> time \<Rightarrow> time \<Rightarrow> time" where
  "consider_deadline now t nxt =
    (if IsZero t then nxt
     else let t' = (if \<not> After t now then now else t)
          in if IsZero nxt \<or> Before t' nxt then t' else nxt)"

definition reset_triggers :: "Config \<Rightarrow> AccountState \<Rightarrow> time list" where
  \<comment> \<open>the deadlines of an account that is past the failure checks, in source order\<close>
  "reset_triggers cfg account =
    (let ls = as_LastSuccessAt account; delay = cfg_RefreshAfterResetDelay cfg;
         trigger = (\<lambda>resetAt. if \<not> IsZero resetAt \<and> refreshTriggerPending ls (Add resetAt delay)
                               then [Add resetAt delay] else []);
         window = (\<lambda>w. case w of None \<Rightarrow> [] | Some w' \<Rightarrow> trigger (qw_ResetAt w'))
     in (if cfg_EnableResetProbe cfg
         then map (\<lambda>(kind, probe). rp_NextCheckAt probe)
                (filter (\<lambda>(kind, probe). rp_Status probe = ResetProbeStatusPending
                          \<and> \<not> IsZero (rp_NextCheckAt probe)) (as_ResetProbes account))
         else [])
        @ window (pq_FiveHour (as_Quota account)) @ window (pq_LongWindow (as_Quota account))
        @ (if as_TemporaryExhausted account then trigger (as_TemporaryResetAt account) else []))"

definition account_deadlines :: "Config \<Rightarrow> AccountState \<Rightarrow> time list" where
  \<comment> \<open>the calls of \<^verbatim>\<open>consider\<close> made for one account\<close>
  "account_deadlines cfg account =
    (if ar_LastFailureKind (as_Refresh account) = RefreshFailureLocal then []
     else if \<not> IsZero (cb_NextProbeAt (as_Circuit account)) then [cb_NextProbeAt (as_Circuit account)]
     else if \<not> IsZero (ar_NextRetryAt (as_Refresh account)) then [ar_NextRetryAt (as_Refresh account)]
     else if IsZero (as_LastSuccessAt account) then []
     else reset_triggers cfg account)"

definition NextRefreshDueAt :: "time \<Rightarrow> PluginState \<Rightarrow> time \<Rightarrow> time" where
  "NextRefreshDueAt clock s now0 =
    (let now = or_now clock now0; cfg = NormalizeConfig (ps_cfg s)
     in if IsZero (ps_lastCodexActivityAt s)
           \<or> \<not> Before now (Add (ps_lastCodexActivityAt s) (cfg_RefreshActiveWindow cfg))
        then ZeroTime
        else fold (consider_deadline now)
               (concat (map (\<lambda>(key, account). account_deadlines cfg account) (ps_accounts s))) ZeroTime)"

section \<open>The key invariant\<close>

definition state_wf :: "PluginState \<Rightarrow> bool" where
  "state_wf s \<longleftrightarrow> gmap_wf (ps_accounts s)
     \<and> (\<forall>(key, account) \<in> set (ps_accounts s). accountStateKey account = key \<and> key \<noteq> [])
     \<and> config_wf (ps_cfg s)"

lemma accountStateKey_cong:
  assumes "as_AuthID a = as_AuthID b" "as_ChatGPTAccountID a = as_ChatGPTAccountID b"
    "as_Instance a = as_Instance b" "as_Email a = as_Email b" "as_AuthIndex a = as_AuthIndex b"
  shows "accountStateKey a = accountStateKey b"
  using assms by (simp add: accountStateKey_def)

definition same_ids :: "AccountState \<Rightarrow> AccountState \<Rightarrow> bool" where
  "same_ids a b \<longleftrightarrow> as_AuthID a = as_AuthID b \<and> as_ChatGPTAccountID a = as_ChatGPTAccountID b
     \<and> as_Instance a = as_Instance b \<and> as_Email a = as_Email b \<and> as_AuthIndex a = as_AuthIndex b"

lemma same_ids_key: "same_ids a b \<Longrightarrow> accountStateKey a = accountStateKey b"
  by (simp add: same_ids_def accountStateKey_def)

lemma same_ids_trans [trans]: "same_ids a b \<Longrightarrow> same_ids b c \<Longrightarrow> same_ids a c"
  by (simp add: same_ids_def)

lemma same_ids_refl [simp]: "same_ids a a"
  by (simp add: same_ids_def)

lemma same_ids_ops [simp]:
  "same_ids (markTemporaryExhausted a t r) a"
  "same_ids (applyCircuitFailure a cfg r t n) a"
  "same_ids (clear_marker a) a"
  "same_ids (observed_account a q n) a"
  "same_ids (refresh_failed s a k m n) a"
  "same_ids (forget_refresh_failure a) a"
  "same_ids (a\<lparr>as_Priority := p\<rparr>) a"
  "same_ids (a\<lparr>as_Refresh := x\<rparr>) a"
  "same_ids (snapshot_account s n a) a"
  "same_ids (admitted_account v a) a"
  by (simp_all add: same_ids_def markTemporaryExhausted_def applyCircuitFailure_def Let_def
      clear_marker_def observed_account_def refresh_failed_def forget_refresh_failure_def
      snapshot_account_def admitted_account_def split: option.split)

lemma same_ids_success [simp]: "same_ids (applyCircuitSuccess a cfg n) a"
  by (simp add: same_ids_def applyCircuitSuccess_def Let_def)

lemma same_ids_reconcile [simp]: "same_ids (reconcile_marker a n) a"
  by (simp add: same_ids_def reconcile_marker_def clear_marker_def)

lemma state_wf_put:
  assumes "state_wf s" and "accountStateKey a = key" and "key \<noteq> []"
  shows "state_wf (put_account key a s)"
  using assms set_gput_subset [of key a "ps_accounts s"]
  by (auto simp: state_wf_def put_account_def)

lemma findAccountLocked_key:
  assumes "state_wf s" and "findAccountLocked s authID authIndex = Some (key, a)"
  shows "gget (ps_accounts s) key = Some a" and "accountStateKey a = key" and "key \<noteq> []"
proof -
  have m: "(key, a) \<in> set (ps_accounts s)"
    using assms(2) by (auto simp: findAccountLocked_def Let_def
        dest: map_of_SomeD find_SomeD split: if_splits option.splits)
  with assms(1) show "accountStateKey a = key" "key \<noteq> []" by (auto simp: state_wf_def)
  from m assms(1) show "gget (ps_accounts s) key = Some a" by (simp add: state_wf_def gget_in_set)
qed

lemma find_or_new_key:
  assumes "state_wf s" and "find_or_new s authID authIndex = Some (key, a)"
  shows "accountStateKey a = key \<and> key \<noteq> []"
proof (cases "findAccountLocked s authID authIndex")
  case None
  with assms(2) have "authID \<noteq> []" and "(key, a) = (''auth:'' @ authID, zero_AccountState\<lparr>as_AuthID := authID,
      as_AuthIndex := authIndex, as_Provider := ''codex''\<rparr>)"
    by (simp_all only: find_or_new_def option.case option.inject option.distinct not_False_eq_True split: if_splits)
  then show ?thesis by (simp add: accountStateKey_def)
next
  case (Some ka)
  with assms(2) findAccountLocked_key [OF assms(1)] show ?thesis
    by (auto simp: find_or_new_def)
qed

datatype (plugins only: code size) state_event =
    EvReplaceConfig Config
  | EvSetAnnotations AnnotationState
  | EvApplyJournal LegacyEffectJournal
  | EvReplaceCPAAdmission CPAAdmissionState
  | EvUpsertQuota AccountState
  | EvMarkExhausted string time string
  | EvMarkExhaustedByIndex string time string
  | EvAccountFailure string string string time time
  | EvAccountSuccess string string time
  | EvClearExhausted string
  | EvClearAuthFailure string
  | EvObserveQuota string string ParsedQuota time
  | EvSelection string string
  | EvActivity time
  | EvAuthScan int time
  | EvAuthScanIfCurrent uint64 int time
  | EvRefreshFailure string string RefreshFailureKind string time
  | EvRefreshFailureIfCurrent AccountState uint64 RefreshFailureKind string time
  | EvRefreshSuccessIfCurrent AccountState uint64 time
  | EvLog string string string "(string, go_any) gmap" time
  | EvLogIfCurrent string uint64 string string string "(string, go_any) gmap" time

fun state_step :: "time \<Rightarrow> PluginState \<Rightarrow> state_event \<Rightarrow> PluginState" where
  "state_step clock s (EvReplaceConfig cfg) = ReplaceConfig cfg s"
| "state_step clock s (EvSetAnnotations an) = SetAnnotations an s"
| "state_step clock s (EvApplyJournal j) = applyLegacyEffectJournal j s"
| "state_step clock s (EvReplaceCPAAdmission v) = snd (ReplaceCPAAdmission v s)"
| "state_step clock s (EvUpsertQuota a) = UpsertQuota a s"
| "state_step clock s (EvMarkExhausted i t r) = MarkAccountTemporaryExhausted i t r s"
| "state_step clock s (EvMarkExhaustedByIndex i t r) = MarkAccountTemporaryExhaustedByAuthIndex i t r s"
| "state_step clock s (EvAccountFailure i x r t n) = snd (RecordAccountFailure i x r t n s)"
| "state_step clock s (EvAccountSuccess i x n) = snd (RecordAccountSuccess i x n s)"
| "state_step clock s (EvClearExhausted i) = snd (ClearAccountTemporaryExhausted i s)"
| "state_step clock s (EvClearAuthFailure i) = snd (ClearAccountAuthFailure i s)"
| "state_step clock s (EvObserveQuota i x q n) = snd (ObserveAccountQuota clock i x q n s)"
| "state_step clock s (EvSelection i r) = RecordSelection i r s"
| "state_step clock s (EvActivity n) = RecordCodexActivity clock n s"
| "state_step clock s (EvAuthScan c n) = RecordAuthScan clock c n s"
| "state_step clock s (EvAuthScanIfCurrent v c n) = snd (RecordAuthScanIfAdmissionCurrent clock v c n s)"
| "state_step clock s (EvRefreshFailure i x k m n) = snd (RecordRefreshFailure clock i x k m n s)"
| "state_step clock s (EvRefreshFailureIfCurrent a v k m n) =
    snd (ApplyQuotaRefreshFailureIfAdmissionCurrent clock a v k m n s)"
| "state_step clock s (EvRefreshSuccessIfCurrent a v n) =
    snd (ApplyQuotaRefreshSuccessIfAdmissionCurrent clock a v n s)"
| "state_step clock s (EvLog l e m f n) = RecordLog clock l e m f n s"
| "state_step clock s (EvLogIfCurrent i v l e m f n) = snd (RecordLogIfAdmissionCurrent clock i v l e m f n s)"

lemma state_wf_cong:
  "ps_accounts s' = ps_accounts s \<Longrightarrow> ps_cfg s' = ps_cfg s \<Longrightarrow> state_wf s \<Longrightarrow> state_wf s'"
  by (simp add: state_wf_def)

lemma state_wf_put_ids:
  "state_wf s \<Longrightarrow> same_ids b a \<Longrightarrow> accountStateKey a = key \<Longrightarrow> key \<noteq> [] \<Longrightarrow> state_wf (put_account key b s)"
  by (simp add: state_wf_put same_ids_key)

lemma state_wf_journal:
  "state_wf s \<Longrightarrow> state_wf (fold journal_account as s)"
  by (induction "as" arbitrary: s) (simp_all add: journal_account_def Let_def state_wf_put)

lemma gmap_vals_in: "(k, v) \<in> set (gmap_vals f m) \<longleftrightarrow> (\<exists>u. (k, u) \<in> set m \<and> v = f u)"
  by (auto simp: gmap_vals_def)

lemma state_wf_ReplaceCPAAdmission:
  assumes "state_wf s"
  shows "state_wf (snd (ReplaceCPAAdmission v s))"
  using assms same_ids_key [OF same_ids_ops(10)]
  by (fastforce simp: ReplaceCPAAdmission_def Let_def state_wf_def gmap_vals_in)

lemma state_wf_find_put:
  assumes "state_wf s" and "findAccountLocked s i x = Some (key, a)" and "same_ids b a"
  shows "state_wf (put_account key b s)"
  using assms findAccountLocked_key [OF assms(1,2)] by (simp add: state_wf_put_ids)

lemma state_wf_new_put:
  assumes "state_wf s" and "find_or_new s i x = Some (key, a)" and "same_ids b a"
  shows "state_wf (put_account key b s)"
  using assms find_or_new_key [OF assms(1,2)] by (simp add: state_wf_put_ids)

lemma state_wf_MarkAccountTemporaryExhausted:
  assumes "state_wf s"
  shows "state_wf (MarkAccountTemporaryExhausted i t r s)"
proof (cases "i = []")
  case False
  let ?a = "case gget (ps_accounts s) (''auth:'' @ i) of
              Some a \<Rightarrow> a | None \<Rightarrow> zero_AccountState\<lparr>as_AuthID := i\<rparr>"
  have "accountStateKey ?a = ''auth:'' @ i"
  proof (cases "gget (ps_accounts s) (''auth:'' @ i)")
    case None
    with False show ?thesis by (simp add: accountStateKey_def)
  next
    case (Some a)
    with assms have "(''auth:'' @ i, a) \<in> set (ps_accounts s)"
      by (simp add: state_wf_def gget_in_set)
    with assms Some show ?thesis by (auto simp: state_wf_def)
  qed
  with assms False show ?thesis
    by (simp add: MarkAccountTemporaryExhausted_def Let_def state_wf_put_ids [OF assms same_ids_ops(1)])
qed (use assms in \<open>simp add: MarkAccountTemporaryExhausted_def\<close>)

lemma state_wf_MarkByAuthIndex:
  assumes "state_wf s"
  shows "state_wf (MarkAccountTemporaryExhaustedByAuthIndex x t r s)"
proof (cases "find (\<lambda>(key, account). as_AuthIndex account = x) (ps_accounts s)")
  case (Some ka)
  then obtain key a where ka: "ka = (key, a)" "(key, a) \<in> set (ps_accounts s)"
    by (metis find_SomeD surj_pair)
  then have "accountStateKey a = key" "key \<noteq> []" using assms by (auto simp: state_wf_def)
  with Some ka assms show ?thesis
    by (simp add: MarkAccountTemporaryExhaustedByAuthIndex_def state_wf_put_ids [OF assms same_ids_ops(1)])
qed (use assms in \<open>simp add: MarkAccountTemporaryExhaustedByAuthIndex_def\<close>)

lemma same_ids_observe [simp]: "same_ids (reconcile_marker (observed_account a q n) n) a"
  by (rule same_ids_trans [OF same_ids_reconcile]) simp

lemma same_ids_recovered [simp]: "same_ids (applyCircuitSuccess (clear_marker a) cfg n) a"
  by (rule same_ids_trans [OF same_ids_success]) simp

lemma state_wf_put_own:
  "state_wf s \<Longrightarrow> accountStateKey a \<noteq> [] \<Longrightarrow> same_ids b a \<Longrightarrow> state_wf (put_account (accountStateKey a) b s)"
  by (simp add: state_wf_put_ids)

lemmas state_method_defs = UpsertQuota_def RecordAccountFailure_def RecordAccountSuccess_def
  ClearAccountTemporaryExhausted_def ClearAccountAuthFailure_def ObserveAccountQuota_def
  RecordRefreshFailure_def ApplyQuotaRefreshFailureIfAdmissionCurrent_def
  ApplyQuotaRefreshSuccessIfAdmissionCurrent_def

lemma state_wf_account_methods:
  assumes "state_wf s"
  shows "state_wf (UpsertQuota a s)"
    and "state_wf (snd (RecordAccountFailure i x r t n s))"
    and "state_wf (snd (RecordAccountSuccess i x n s))"
    and "state_wf (snd (ClearAccountTemporaryExhausted i s))"
    and "state_wf (snd (ClearAccountAuthFailure i s))"
    and "state_wf (snd (ObserveAccountQuota clock i x q n s))"
    and "state_wf (snd (RecordRefreshFailure clock i x k m n s))"
    and "state_wf (snd (ApplyQuotaRefreshFailureIfAdmissionCurrent clock a v k m n s))"
    and "state_wf (snd (ApplyQuotaRefreshSuccessIfAdmissionCurrent clock a v n s))"
  using assms
  by (simp_all add: state_method_defs Let_def case_prod_unfold state_wf_find_put state_wf_new_put
      state_wf_put_own state_wf_put_ids split: option.split)

lemma state_step_wf:
  assumes "state_wf s"
  shows "state_wf (state_step clock s e)"
proof (cases e)
  case (EvReplaceConfig cfg)
  with assms show ?thesis by (simp add: ReplaceConfig_def state_wf_def NormalizeConfig_wf)
next
  case (EvApplyJournal j)
  with assms show ?thesis
    by (auto simp: applyLegacyEffectJournal_def Let_def intro: state_wf_cong [OF _ _ state_wf_journal])
qed (use assms in \<open>simp_all add: SetAnnotations_def RecordSelection_def RecordCodexActivity_def
    RecordAuthScan_def RecordAuthScanIfAdmissionCurrent_def RecordLog_def
    RecordLogIfAdmissionCurrent_def Let_def state_wf_cong [OF _ _ assms]
    state_wf_account_methods state_wf_ReplaceCPAAdmission state_wf_MarkAccountTemporaryExhausted
    state_wf_MarkByAuthIndex\<close>)

interpretation plugin: invariant_machine "state_step clock" state_wf for clock
  by unfold_locales (rule state_step_wf)

lemma state_wf_NewPluginState [simp]: "state_wf (NewPluginState cfg)"
  by (simp add: state_wf_def NewPluginState_def NormalizeConfig_wf)

section \<open>Sorting contracts\<close>

interpretation by_key: go_less_keyed key_less "\<lambda>a. True" accountStateKey
  using go_less_keyed_key [of accountStateKey] by (simp add: key_less_def [abs_def])

interpretation by_due: go_less_keyed due_less "\<lambda>a. True" accountStateKey
  using go_less_keyed_desc [of as_Priority accountStateKey] by (simp add: due_less_def [abs_def])

lemma inj_on_key:
  assumes "state_wf s"
  shows "inj_on accountStateKey (snd ` set (ps_accounts s))"
proof (rule inj_onI)
  have k: "gget (ps_accounts s) (accountStateKey a) = Some a" if "a \<in> snd ` set (ps_accounts s)" for a
    using assms that by (auto simp: state_wf_def gget_in_set [symmetric])
  fix a b
  assume a: "a \<in> snd ` set (ps_accounts s)" and b: "b \<in> snd ` set (ps_accounts s)"
    and eq: "accountStateKey a = accountStateKey b"
  from k [OF a] k [OF b] show "a = b" unfolding eq by (simp only: option.inject)
qed

lemma inj_on_key_image:
  assumes "state_wf s" and "\<And>a. same_ids (f a) a"
  shows "inj_on accountStateKey (f ` snd ` set (ps_accounts s))"
proof (rule inj_onI)
  fix x y
  assume "x \<in> f ` snd ` set (ps_accounts s)" "y \<in> f ` snd ` set (ps_accounts s)"
    and eq: "accountStateKey x = accountStateKey y"
  then obtain a b where ab: "a \<in> snd ` set (ps_accounts s)" "b \<in> snd ` set (ps_accounts s)"
    "x = f a" "y = f b" by blast
  with eq have "accountStateKey a = accountStateKey b" by (metis assms(2) same_ids_key)
  from inj_onD [OF inj_on_key [OF assms(1)] this ab(1,2)] ab(3,4) show "x = y" by (simp only:)
qed

end
