(* ===== verification/Trial.thy ===== *)
theory Trial
  imports Models
begin

text \<open>
  \<^verbatim>\<open>trial.go\<close>: the registry of trial requests. An account whose quota is unknown or stale is
  used on trial; the registry admits one trial per account at a time and waits for evidence.
  A cell holds an atomic pointer; \<open>TryBegin\<close> and \<open>update\<close> are compare-and-swap loops, so every
  method takes effect atomically at its successful swap and the registry is a machine over
  these methods. A missing cell and a cell holding nil behave alike (\<open>None\<close>).

  Shown: without evidence two trials of an account start at least a minute apart, whatever
  the interleaving of calls; and no account is blocked by a trial for ever.
\<close>

datatype TrialState = TrialNone | TrialActive | TrialUnknown

datatype EvidenceKind =
  EvidenceUnknown | EvidenceUsageFeedback | EvidenceReliableQuotaWriteback | EvidenceRequestSuccess

record trialRecord =
  tc_state :: TrialState
  tc_began :: time
  tc_pending :: bool
  tc_retries :: int
  tc_backoffs :: nat
  tc_nextRetry :: time

type_synonym TrialRegistry = "AuthInstanceID \<Rightarrow> trialRecord option"

definition NewTrialRegistry :: TrialRegistry where
  "NewTrialRegistry = (\<lambda>_. None)"

abbreviation (input) trialEvidencePendingGrace :: duration where
  "trialEvidencePendingGrace \<equiv> 60 * Second"
abbreviation (input) trialEvidenceBudget :: duration where
  "trialEvidenceBudget \<equiv> 5 * Minute"
abbreviation (input) trialEvidenceMaxRetries :: int where
  "trialEvidenceMaxRetries \<equiv> 3"

definition TryBegin :: "AuthInstanceID \<Rightarrow> time \<Rightarrow> TrialRegistry \<Rightarrow> bool \<times> TrialRegistry" where
  "TryBegin i now r =
    (case r i of
       Some old \<Rightarrow>
         if tc_state old = TrialActive \<or> Before now (tc_nextRetry old) then (False, r)
         else (True, r(i \<mapsto> \<lparr>tc_state = TrialActive, tc_began = now, tc_pending = False, tc_retries = 0,
                  tc_backoffs = tc_backoffs old, tc_nextRetry = ZeroTime\<rparr>))
     | None \<Rightarrow> (True, r(i \<mapsto> \<lparr>tc_state = TrialActive, tc_began = now, tc_pending = False,
                  tc_retries = 0, tc_backoffs = 0, tc_nextRetry = ZeroTime\<rparr>)))"

definition ObserveEvidence :: "AuthInstanceID \<Rightarrow> EvidenceKind \<Rightarrow> TrialRegistry \<Rightarrow> TrialRegistry" where
  "ObserveEvidence i kind r =
    (if kind = EvidenceUsageFeedback \<or> kind = EvidenceReliableQuotaWriteback \<or> kind = EvidenceRequestSuccess
     then r(i := None) else r)"

definition trial_update :: "AuthInstanceID \<Rightarrow> (trialRecord \<Rightarrow> trialRecord) \<Rightarrow> TrialRegistry \<Rightarrow> TrialRegistry" where
  "trial_update i f r = (case r i of None \<Rightarrow> r | Some old \<Rightarrow> r(i \<mapsto> f old))"

definition trial_delays :: "duration list" where
  "trial_delays = [Minute, 2 * Minute, 5 * Minute, 10 * Minute, 15 * Minute]"

definition unknownTrial :: "trialRecord \<Rightarrow> time \<Rightarrow> trialRecord" where
  "unknownTrial v now =
    (let index = (if tc_backoffs v \<ge> length trial_delays then length trial_delays - 1 else tc_backoffs v)
     in v\<lparr>tc_state := TrialUnknown, tc_backoffs := tc_backoffs v + 1,
          tc_nextRetry := Add now (trial_delays ! index)\<rparr>)"

definition MarkEvidencePending :: "AuthInstanceID \<Rightarrow> bool \<Rightarrow> TrialRegistry \<Rightarrow> TrialRegistry" where
  "MarkEvidencePending i p r = trial_update i (\<lambda>v. v\<lparr>tc_pending := p\<rparr>) r"

definition ObserveRetry :: "AuthInstanceID \<Rightarrow> time \<Rightarrow> TrialRegistry \<Rightarrow> TrialRegistry" where
  "ObserveRetry i now r = trial_update i
     (\<lambda>v0. let v = v0\<lparr>tc_retries := tc_retries v0 + 1\<rparr>
           in if tc_retries v \<ge> trialEvidenceMaxRetries then unknownTrial v now else v) r"

definition Advance :: "AuthInstanceID \<Rightarrow> time \<Rightarrow> TrialRegistry \<Rightarrow> TrialRegistry" where
  "Advance i now r = trial_update i
     (\<lambda>v. if tc_state v = TrialActive
             \<and> (\<not> Before now (Add (tc_began v) trialEvidenceBudget)
                \<or> \<not> tc_pending v \<and> \<not> Before now (Add (tc_began v) trialEvidencePendingGrace))
          then unknownTrial v now else v) r"

definition trial_State :: "AuthInstanceID \<Rightarrow> time \<Rightarrow> TrialRegistry \<Rightarrow> TrialState" where
  "trial_State i now r =
    (case r i of
       None \<Rightarrow> TrialNone
     | Some v \<Rightarrow> if tc_state v = TrialUnknown \<and> \<not> Before now (tc_nextRetry v) then TrialNone else tc_state v)"

definition NextRetryAt :: "AuthInstanceID \<Rightarrow> TrialRegistry \<Rightarrow> time" where
  "NextRetryAt i r = (case r i of None \<Rightarrow> ZeroTime | Some v \<Rightarrow> tc_nextRetry v)"

section \<open>The registry as a machine\<close>

datatype trial_event =
    TTryBegin AuthInstanceID time
  | TEvidence AuthInstanceID EvidenceKind
  | TPending AuthInstanceID bool
  | TRetry AuthInstanceID time
  | TAdvance AuthInstanceID time

fun trial_step :: "TrialRegistry \<Rightarrow> trial_event \<Rightarrow> TrialRegistry" where
  "trial_step r (TTryBegin i now) = snd (TryBegin i now r)"
| "trial_step r (TEvidence i k) = ObserveEvidence i k r"
| "trial_step r (TPending i p) = MarkEvidencePending i p r"
| "trial_step r (TRetry i now) = ObserveRetry i now r"
| "trial_step r (TAdvance i now) = Advance i now r"

fun trial_time :: "trial_event \<Rightarrow> time option" where
  "trial_time (TTryBegin i now) = Some now"
| "trial_time (TRetry i now) = Some now"
| "trial_time (TAdvance i now) = Some now"
| "trial_time _ = None"

fun is_evidence_for :: "AuthInstanceID \<Rightarrow> trial_event \<Rightarrow> bool" where
  "is_evidence_for i (TEvidence j k) = (i = j)"
| "is_evidence_for i _ = False"

definition registry_ok :: "TrialRegistry \<Rightarrow> bool" where
  \<comment> \<open>records are only ever active or unknown\<close>
  "registry_ok r \<longleftrightarrow> (\<forall>i v. r i = Some v \<longrightarrow> tc_state v \<noteq> TrialNone)"

definition blocked_until :: "AuthInstanceID \<Rightarrow> time \<Rightarrow> TrialRegistry \<Rightarrow> bool" where
  "blocked_until i t r \<longleftrightarrow> (\<exists>v. r i = Some v \<and> (tc_state v = TrialActive \<or> t \<le> tc_nextRetry v))"

lemma trial_delays_bounds: "k < length trial_delays \<Longrightarrow> Minute \<le> trial_delays ! k \<and> trial_delays ! k \<le> 15 * Minute"
  by (auto simp: trial_delays_def less_Suc_eq nth_Cons split: nat.split)

lemma unknownTrial_sel [simp]:
  "tc_state (unknownTrial v now) = TrialUnknown"
  "tc_backoffs (unknownTrial v now) = tc_backoffs v + 1"
  by (simp_all add: unknownTrial_def Let_def)

lemma unknownTrial_nextRetry:
  "now + Minute \<le> tc_nextRetry (unknownTrial v now) \<and> tc_nextRetry (unknownTrial v now) \<le> now + 15 * Minute"
proof -
  let ?i = "if tc_backoffs v \<ge> length trial_delays then length trial_delays - 1 else tc_backoffs v"
  have "?i < length trial_delays" by (simp add: trial_delays_def)
  from trial_delays_bounds [OF this] show ?thesis by (simp add: unknownTrial_def Let_def)
qed

lemma trial_step_ok: "registry_ok r \<Longrightarrow> registry_ok (trial_step r e)"
  by (cases e)
    (auto simp: registry_ok_def TryBegin_def ObserveEvidence_def MarkEvidencePending_def ObserveRetry_def
      Advance_def trial_update_def Let_def split: option.splits if_splits)

interpretation trials: invariant_machine trial_step registry_ok
  by unfold_locales (rule trial_step_ok)

lemma TryBegin_blocked: "blocked_until i t r \<Longrightarrow> now < t \<Longrightarrow> TryBegin i now r = (False, r)"
  by (auto simp: blocked_until_def TryBegin_def)

lemma TryBegin_starts: "fst (TryBegin i now r) \<Longrightarrow> blocked_until i t (snd (TryBegin i now r))"
  by (auto simp: blocked_until_def TryBegin_def split: option.splits if_splits)

lemma blocked_update:
  assumes "blocked_until i t r"
    and "\<And>v. tc_state v = TrialActive \<or> t \<le> tc_nextRetry v \<Longrightarrow>
           tc_state (f v) = TrialActive \<or> t \<le> tc_nextRetry (f v)"
  shows "blocked_until i t (trial_update j f r)"
proof -
  from assms(1) obtain v where v: "r i = Some v" "tc_state v = TrialActive \<or> t \<le> tc_nextRetry v"
    by (auto simp: blocked_until_def)
  with assms(2) [OF v(2)] show ?thesis
    by (cases "i = j") (auto simp: blocked_until_def trial_update_def split: option.splits)
qed

lemma unknownTrial_late: "b \<le> now \<Longrightarrow> b + Minute \<le> tc_nextRetry (unknownTrial v now)"
  using unknownTrial_nextRetry [of now v] by simp

lemma blocked_step:
  assumes "blocked_until i (b + Minute) r" and "\<not> is_evidence_for i e"
    and "\<forall>t. trial_time e = Some t \<longrightarrow> b \<le> t"
  shows "blocked_until i (b + Minute) (trial_step r e)"
proof (cases e)
  case (TTryBegin j now)
  show ?thesis
  proof (cases "fst (TryBegin j now r) \<and> j = i")
    case True
    with TTryBegin TryBegin_starts show ?thesis by auto
  next
    case False
    with assms(1) TTryBegin show ?thesis
      by (auto simp: blocked_until_def TryBegin_def split: option.splits if_splits)
  qed
next
  case (TRetry j now)
  with assms(3) have "b \<le> now" by simp
  with TRetry assms(1) show ?thesis
    by (simp add: ObserveRetry_def) (rule blocked_update, simp_all add: Let_def unknownTrial_late)
next
  case (TAdvance j now)
  with assms(3) have "b \<le> now" by simp
  with TAdvance assms(1) show ?thesis
    by (simp add: Advance_def) (rule blocked_update, simp_all add: unknownTrial_late)
qed (use assms in \<open>auto simp: blocked_until_def ObserveEvidence_def MarkEvidencePending_def
      trial_update_def split: option.splits\<close>)

lemma blocked_run:
  "blocked_until i (b + Minute) r \<Longrightarrow> \<forall>e \<in> set es. \<not> is_evidence_for i e \<and> (\<forall>t. trial_time e = Some t \<longrightarrow> b \<le> t) \<Longrightarrow>
   blocked_until i (b + Minute) (run trial_step r es)"
  by (induction es arbitrary: r) (auto simp: blocked_step)

section \<open>What the scheduler relies on\<close>

locale trial_contract =
  fixes try_begin :: "AuthInstanceID \<Rightarrow> time \<Rightarrow> 'r \<Rightarrow> bool \<times> 'r"
    and advance :: "AuthInstanceID \<Rightarrow> time \<Rightarrow> 'r \<Rightarrow> 'r"
    and st :: "AuthInstanceID \<Rightarrow> time \<Rightarrow> 'r \<Rightarrow> TrialState"
    and wf :: "'r \<Rightarrow> bool"
  assumes free_begins: "wf r \<Longrightarrow> st i now r = TrialNone \<Longrightarrow> fst (try_begin i now r)"
    and begun_active: "fst (try_begin i now r) \<Longrightarrow> st i t (snd (try_begin i now r)) = TrialActive"
    and active_refuses: "st i now r = TrialActive \<Longrightarrow> try_begin i now r = (False, r)"
    and advance_other: "i \<noteq> j \<Longrightarrow> st j t (advance i now r) = st j t r"
    and advance_idem: "advance i now (advance i now r) = advance i now r"
    and advance_commute: "i \<noteq> j \<Longrightarrow> advance i now (advance j now r) = advance j now (advance i now r)"
    and advance_wf: "wf r \<Longrightarrow> wf (advance i now r)"
begin

lemma begins_once:
  assumes "fst (try_begin i now r)"
  shows "\<not> fst (try_begin i t (snd (try_begin i now r)))"
  using active_refuses [OF begun_active [OF assms]] by simp

lemma advance_seen:
  "st i now (advance i now (advance j now r)) = st i now (advance i now r)"
  by (cases "i = j") (simp_all add: advance_idem advance_commute [of i j] advance_other [of j i])

lemma fold_advance_absorb:
  "st i now (advance i now (fold (\<lambda>j. advance j now) is r)) = st i now (advance i now r)"
  by (induction "is" arbitrary: r) (simp_all add: advance_seen)

lemma fold_advance_seen:
  "i \<in> set is \<Longrightarrow> st i now (fold (\<lambda>j. advance j now) is r) = st i now (advance i now r)"
proof (induction "is" rule: rev_induct)
  case (snoc j "is")
  then show ?case
    by (cases "i = j") (simp_all add: fold_advance_absorb advance_other [of j i])
qed simp

lemma fold_advance_wf: "wf r \<Longrightarrow> wf (fold (\<lambda>j. advance j now) is r)"
  by (induction "is" arbitrary: r) (simp_all add: advance_wf)

end

lemma Advance_idem: "Advance i now (Advance i now r) = Advance i now r"
  by (auto simp: Advance_def trial_update_def fun_eq_iff split: option.splits)

lemma Advance_commute: "i \<noteq> j \<Longrightarrow> Advance i now (Advance j now r) = Advance j now (Advance i now r)"
  by (auto simp: Advance_def trial_update_def fun_eq_iff split: option.splits)

lemma Advance_ok: "registry_ok r \<Longrightarrow> registry_ok (Advance i now r)"
  using trial_step_ok [of r "TAdvance i now"] by simp

interpretation registry: trial_contract TryBegin Advance trial_State registry_ok
proof unfold_locales
  fix r i now
  assume "registry_ok r" "trial_State i now r = TrialNone"
  then show "fst (TryBegin i now r)"
    by (auto simp: trial_State_def TryBegin_def registry_ok_def split: option.splits if_splits)
next
  fix i now r t
  assume "fst (TryBegin i now r)"
  then show "trial_State i t (snd (TryBegin i now r)) = TrialActive"
    by (auto simp: trial_State_def TryBegin_def split: option.splits if_splits)
next
  fix i now r
  assume "trial_State i now r = TrialActive"
  then show "TryBegin i now r = (False, r)"
    by (auto simp: trial_State_def TryBegin_def split: option.splits if_splits)
next
  fix i j :: AuthInstanceID and t now r
  assume "i \<noteq> j"
  then show "trial_State j t (Advance i now r) = trial_State j t r"
    by (auto simp: trial_State_def Advance_def trial_update_def split: option.splits)
qed (rule Advance_idem Advance_commute Advance_ok, assumption?)+

lemma blocked_not_free:
  assumes "registry_ok r" and "blocked_until i t r" and "now < t"
  shows "trial_State i now (Advance i now r) \<noteq> TrialNone"
proof -
  from assms(2) obtain v where v: "r i = Some v" "tc_state v = TrialActive \<or> t \<le> tc_nextRetry v"
    by (auto simp: blocked_until_def)
  moreover have "tc_state v \<noteq> TrialNone" using assms(1) v(1) by (auto simp: registry_ok_def)
  moreover have "now < tc_nextRetry (unknownTrial v now)" using unknownTrial_nextRetry [of now v] by simp
  ultimately show ?thesis
    using assms(3) by (auto simp: Advance_def trial_update_def trial_State_def)
qed

section \<open>Properties\<close>

text \<open>
  One trial at a time. Once a trial of an account has begun at time \<open>b\<close>, no other trial of
  it can begin before \<open>b\<close> plus one minute, whatever calls (of any requests, in any
  interleaving, from time \<open>b\<close> on) are made in between, unless evidence about the account is
  observed.
\<close>
theorem trials_exclusive:
  assumes "fst (TryBegin i b r)"
    and "\<forall>e \<in> set es. \<not> is_evidence_for i e \<and> (\<forall>t. trial_time e = Some t \<longrightarrow> b \<le> t)"
    and "now < b + Minute"
  shows "\<not> fst (TryBegin i now (run trial_step (snd (TryBegin i b r)) es))"
proof -
  have "blocked_until i (b + Minute) (run trial_step (snd (TryBegin i b r)) es)"
    by (rule blocked_run [OF TryBegin_starts [OF assms(1)] assms(2)])
  from TryBegin_blocked [OF this assms(3)] show ?thesis by simp
qed

theorem trials_exclusive_witness:
  "\<not> fst (TryBegin 7 20 (run trial_step (snd (TryBegin 7 10 NewTrialRegistry))
       [TRetry 7 11, TRetry 7 12, TAdvance 7 13, TRetry 7 14, TTryBegin 7 15]))"
  by (rule trials_exclusive) (auto simp: TryBegin_def NewTrialRegistry_def)

text \<open>
  C34. No account is stuck in a trial. In every registry the methods can produce, once the
  evidence budget of five minutes has run out, \<open>Advance\<close> ends an active trial, the account
  is released for a new trial at most fifteen minutes later, and then \<open>TryBegin\<close> succeeds.
\<close>
theorem trial_released:
  assumes "r = run trial_step NewTrialRegistry es" and "r i = Some v"
    and "tc_began v + 5 * Minute \<le> now" and "tc_nextRetry v \<le> now"
    and "now + 15 * Minute \<le> later"
  shows "trial_State i later (Advance i now r) = TrialNone
    \<and> fst (TryBegin i later (Advance i now r)) \<and> NextRetryAt i (Advance i now r) \<le> now + 15 * Minute"
proof -
  have "tc_state v \<noteq> TrialNone"
    using trials.run_inv [of NewTrialRegistry es] assms(1,2)
    by (auto simp: registry_ok_def NewTrialRegistry_def)
  then consider "tc_state v = TrialActive" | "tc_state v = TrialUnknown"
    by (cases "tc_state v") auto
  then show ?thesis
  proof cases
    case 1
    with assms(2,3) have "Advance i now r = r(i \<mapsto> unknownTrial v now)"
      by (simp add: Advance_def trial_update_def not_less)
    with unknownTrial_nextRetry [of now v] assms(5) show ?thesis
      by (simp add: trial_State_def TryBegin_def NextRetryAt_def)
  next
    case 2
    with assms(2) have "Advance i now r = r(i \<mapsto> v)"
      by (simp add: Advance_def trial_update_def)
    with 2 assms(2-5) show ?thesis by (simp add: trial_State_def TryBegin_def NextRetryAt_def)
  qed
qed

theorem trial_released_witness:
  "fst (TryBegin 7 (20 * Minute + 1) (Advance 7 (5 * Minute + 1) (run trial_step NewTrialRegistry [TTryBegin 7 1])))"
  using trial_released [OF refl, of "[TTryBegin 7 1]" 7
      "\<lparr>tc_state = TrialActive, tc_began = 1, tc_pending = False, tc_retries = 0, tc_backoffs = 0, tc_nextRetry = 0\<rparr>"
      "5 * Minute + 1" "20 * Minute + 1"]
  by (simp add: TryBegin_def NewTrialRegistry_def)

end
