(* ===== verification/Selection.thy ===== *)
theory Selection
  imports Trial Configuration "HOL-Library.Product_Lexorder"
begin

text \<open>
  \<^verbatim>\<open>selection.go\<close>: the availability class of an account, the comparison of two accounts and the
  selection among the candidates of a request, with the trial registry threaded through the
  loop that advances it.

  Shown: the comparison is a strict weak order that only ties on equal ids, so the sorted
  list is unique; a selected account is eligible, in the best non-empty class and minimal
  there.
\<close>

datatype AvailabilityClass = Preferred | Opportunistic | Excluded

datatype CacheClass = CacheFresh | CacheAging | CacheUnknown | CacheStale

datatype CircuitClass = CircuitClosed | CircuitOpen | CircuitHalfOpen

record AccountView =
  av_ID :: string
  av_AuthIndex :: string
  av_Instance :: AuthInstanceID
  av_PluginPriority :: int
  av_CPAPriority :: int
  av_Family :: AccountFamily
  av_Cache :: CacheClass
  av_LastKnownAvailable :: bool
  av_Exhausted :: bool
  av_ResetAt :: time
  av_AuthBlocked :: bool
  av_Circuit :: CircuitClass
  av_TemporaryUnavailable :: bool
  av_Trial :: TrialState
  av_Expiry :: time
  av_RemainingQuota :: float64
  av_QuotaPressure :: float64

record Candidate =
  ca_ID :: string
  ca_Provider :: string

record SelectionResult =
  sr_AuthID :: string
  sr_Instance :: AuthInstanceID
  sr_Class :: AvailabilityClass
  sr_Trial :: bool
  sr_Fallback :: bool
  sr_EvidenceSource :: string
  sr_Reason :: string
  sr_Ordered :: "AccountView list"

record SchedulerSnapshot =
  sn_HandleEnabled :: bool
  sn_Fallback :: FallbackMode
  sn_MonthlyMode :: MonthlyMode
  sn_Accounts :: "AccountView list"
  sn_ActiveHighestTier :: "string set"
  sn_AdmissionVersion :: uint64
  sn_HasActivity :: bool     \<comment> \<open>whether the hook \<^verbatim>\<open>Activity\<close> is set\<close>
  sn_HasObservation :: bool  \<comment> \<open>whether the hook \<^verbatim>\<open>Observation\<close> is set\<close>

definition ClassifyAccount :: "AccountView \<Rightarrow> time \<Rightarrow> AvailabilityClass" where
  "ClassifyAccount a now =
    (if av_AuthBlocked a \<or> av_Circuit a = CircuitOpen \<or> av_TemporaryUnavailable a \<or> av_Trial a \<noteq> TrialNone
     then Excluded
     else if av_Exhausted a \<and> After (av_ResetAt a) now then Excluded
     else if av_Cache a = CacheFresh \<or> av_Cache a = CacheAging
     then (if \<not> av_Exhausted a then Preferred else Opportunistic)
     else if av_Cache a = CacheUnknown \<or> av_Cache a = CacheStale \<and> av_LastKnownAvailable a
     then Opportunistic
     else Excluded)"

definition accountViewLess :: "AccountView \<Rightarrow> AccountView \<Rightarrow> MonthlyMode \<Rightarrow> bool" where
  "accountViewLess a b mode =
    (if av_CPAPriority a \<noteq> av_CPAPriority b then av_CPAPriority a > av_CPAPriority b
     else if av_PluginPriority a \<noteq> av_PluginPriority b then av_PluginPriority a > av_PluginPriority b
     else if mode = MonthlyModePriority \<and> av_Family a \<noteq> av_Family b then av_Family a = AccountFamilyMonthly
     else if av_QuotaPressure a \<noteq> av_QuotaPressure b then av_QuotaPressure a > av_QuotaPressure b
     else if av_Expiry a \<noteq> av_Expiry b
     then (if IsZero (av_Expiry a) then False
           else if IsZero (av_Expiry b) then True
           else Before (av_Expiry a) (av_Expiry b))
     else if av_RemainingQuota a \<noteq> av_RemainingQuota b then av_RemainingQuota a > av_RemainingQuota b
     else av_ID a < av_ID b)"

definition eligible_ids :: "SchedulerSnapshot \<Rightarrow> Candidate list \<Rightarrow> string set" where
  "eligible_ids snapshot candidates =
    {i. i \<in> ca_ID ` set (filter (\<lambda>c. ca_ID c \<noteq> [] \<and> ca_Provider c = ''codex'') candidates)
        \<and> i \<in> sn_ActiveHighestTier snapshot}"

lemma eligible_ids_code [code]:
  "eligible_ids snapshot candidates =
    set (filter (\<lambda>i. i \<in> sn_ActiveHighestTier snapshot)
      (map ca_ID (filter (\<lambda>c. ca_ID c \<noteq> [] \<and> ca_Provider c = ''codex'') candidates)))"
  by (auto simp: eligible_ids_def)

fun split_accounts ::
  "string set \<Rightarrow> AuthInstanceID set \<Rightarrow> time \<Rightarrow> AccountView list \<Rightarrow> TrialRegistry option
   \<Rightarrow> AccountView list \<times> AccountView list \<times> TrialRegistry option" where
  \<comment> \<open>the loop that fills \<^verbatim>\<open>byClass\<close>: the preferred accounts, the opportunistic ones, the registry\<close>
  "split_accounts eligible skip now [] trials = ([], [], trials)"
| "split_accounts eligible skip now (a # as) trials =
    (if av_Instance a \<in> skip \<or> av_ID a \<notin> eligible then split_accounts eligible skip now as trials
     else let trials1 = map_option (Advance (av_Instance a) now) trials;
              a1 = (case trials1 of None \<Rightarrow> a
                    | Some r \<Rightarrow> a\<lparr>av_Trial := trial_State (av_Instance a) now r\<rparr>);
              (pref, opp, trials2) = split_accounts eligible skip now as trials1
          in case ClassifyAccount a1 now of
               Preferred \<Rightarrow> (a1 # pref, opp, trials2)
             | Opportunistic \<Rightarrow> (pref, a1 # opp, trials2)
             | Excluded \<Rightarrow> (pref, opp, trials2))"

definition class_result :: "AvailabilityClass \<Rightarrow> AccountView list \<Rightarrow> SelectionResult" where
  "class_result class accounts = \<lparr>sr_AuthID = av_ID (hd accounts), sr_Instance = av_Instance (hd accounts),
     sr_Class = class, sr_Trial = (class = Opportunistic), sr_Fallback = False,
     sr_EvidenceSource = (if class = Opportunistic then ''trial_evidence'' else []),
     sr_Reason = ''selected'', sr_Ordered = accounts\<rparr>"

definition selectAccountSkipping ::
  "SchedulerSnapshot \<Rightarrow> Candidate list \<Rightarrow> time \<Rightarrow> AuthInstanceID set \<Rightarrow> TrialRegistry option
   \<Rightarrow> SelectionResult \<times> TrialRegistry option" where
  "selectAccountSkipping snapshot candidates now skip trials =
    (let (pref, opp, trials') =
           split_accounts (eligible_ids snapshot candidates) skip now (sn_Accounts snapshot) trials;
         lt = (\<lambda>a b. accountViewLess a b (sn_MonthlyMode snapshot))
     in if pref \<noteq> [] then (class_result Preferred (sort_slice lt pref), trials')
        else if opp \<noteq> [] then (class_result Opportunistic (sort_slice lt opp), trials')
        else (\<lparr>sr_AuthID = [], sr_Instance = 0, sr_Class = Preferred, sr_Trial = False,
               sr_Fallback = (sn_Fallback snapshot = FallbackFillFirst), sr_EvidenceSource = [],
               sr_Reason = ''no_selectable_account'', sr_Ordered = []\<rparr>, trials'))"

definition SelectAccount :: "SchedulerSnapshot \<Rightarrow> Candidate list \<Rightarrow> time \<Rightarrow> SelectionResult" where
  "SelectAccount snapshot candidates now = fst (selectAccountSkipping snapshot candidates now {} None)"

section \<open>The comparison is a linear order up to equal ids\<close>

definition view_key ::
  "MonthlyMode \<Rightarrow> AccountView \<Rightarrow> int \<times> int \<times> int \<times> float64 \<times> int \<times> int \<times> float64 \<times> string" where
  "view_key mode a = (- av_CPAPriority a, - av_PluginPriority a,
     (if mode = MonthlyModePriority \<and> av_Family a \<noteq> AccountFamilyMonthly then 1 else 0),
     - av_QuotaPressure a, (if av_Expiry a = 0 then 1 else 0), av_Expiry a,
     - av_RemainingQuota a, av_ID a)"

definition view_ok :: "MonthlyMode \<Rightarrow> AccountView \<Rightarrow> bool" where
  \<comment> \<open>in priority mode the accounts compared are weekly or monthly ones\<close>
  "view_ok mode a \<longleftrightarrow> mode = MonthlyModePriority \<longrightarrow>
     av_Family a = AccountFamilyWeekly \<or> av_Family a = AccountFamilyMonthly"

lemma accountViewLess_key:
  assumes "view_ok mode a" and "view_ok mode b"
  shows "accountViewLess a b mode \<longleftrightarrow> view_key mode a < view_key mode b"
  using assms
  by (auto simp: accountViewLess_def view_key_def view_ok_def less_prod_def')

interpretation by_view: go_less_keyed "\<lambda>a b. accountViewLess a b mode" "view_ok mode" av_ID for mode
proof
  show "\<not> accountViewLess a a mode" for a
    by (simp add: accountViewLess_def)
  show "accountViewLess a c mode" if "view_ok mode a" "view_ok mode b" "view_ok mode c"
    "accountViewLess a b mode" "accountViewLess b c mode" for a b c
    using that by (simp add: accountViewLess_key)
  show "\<not> accountViewLess a c mode" if "view_ok mode a" "view_ok mode b" "view_ok mode c"
    "\<not> accountViewLess a b mode" "\<not> accountViewLess b c mode" for a b c
    using that by (simp add: accountViewLess_key not_less)
  show "av_ID a = av_ID b" if "view_ok mode a" "view_ok mode b"
    "\<not> accountViewLess a b mode" "\<not> accountViewLess b a mode" for a b
    using that by (simp add: accountViewLess_key not_less) (simp add: view_key_def)
qed

section \<open>The selection loop\<close>

definition view_now :: "time \<Rightarrow> TrialRegistry option \<Rightarrow> AccountView \<Rightarrow> AccountView" where
  \<comment> \<open>an account as the loop classifies it: with the trial state the registry has for it now\<close>
  "view_now now trials a =
    (case trials of
       None \<Rightarrow> a
     | Some r \<Rightarrow> a\<lparr>av_Trial := trial_State (av_Instance a) now (Advance (av_Instance a) now r)\<rparr>)"

definition considered ::
  "string set \<Rightarrow> AuthInstanceID set \<Rightarrow> AccountView list \<Rightarrow> AccountView list" where
  "considered eligible skip accounts = filter (\<lambda>a. av_Instance a \<notin> skip \<and> av_ID a \<in> eligible) accounts"

lemma view_now_sel [simp]:
  "av_ID (view_now now trials a) = av_ID a" "av_Instance (view_now now trials a) = av_Instance a"
  "av_Family (view_now now trials a) = av_Family a"
  by (simp_all add: view_now_def split: option.split)

lemma view_now_advance: "view_now now (map_option (Advance i now) trials) a = view_now now trials a"
  by (cases trials) (simp_all add: view_now_def registry.advance_seen)

lemma split_accounts_eq:
  "split_accounts eligible skip now as trials =
    (let vs = map (view_now now trials) (considered eligible skip as)
     in (filter (\<lambda>v. ClassifyAccount v now = Preferred) vs,
         filter (\<lambda>v. ClassifyAccount v now = Opportunistic) vs,
         map_option (\<lambda>r. fold (\<lambda>a. Advance (av_Instance a) now) (considered eligible skip as) r) trials))"
proof (induction eligible skip now as trials rule: split_accounts.induct)
  case (1 eligible skip now trials)
  then show ?case by (cases trials) (simp_all add: considered_def)
next
  case (2 eligible skip now a "as" trials)
  show ?case
  proof (cases "av_Instance a \<in> skip \<or> av_ID a \<notin> eligible")
    case True
    with "2.IH"(1) show ?thesis by (auto simp: considered_def)
  next
    case False
    let ?t1 = "map_option (Advance (av_Instance a) now) trials"
    let ?a1 = "case ?t1 of None \<Rightarrow> a | Some r \<Rightarrow> a\<lparr>av_Trial := trial_State (av_Instance a) now r\<rparr>"
    have a1: "?a1 = view_now now trials a" by (cases trials) (simp_all add: view_now_def)
    have IH: "split_accounts eligible skip now as ?t1 =
      (let vs = map (view_now now trials) (considered eligible skip as)
       in (filter (\<lambda>v. ClassifyAccount v now = Preferred) vs,
           filter (\<lambda>v. ClassifyAccount v now = Opportunistic) vs,
           map_option (\<lambda>r. fold (\<lambda>a. Advance (av_Instance a) now) (considered eligible skip as) r) ?t1))"
      using "2.IH"(2) [OF False refl refl] by (simp add: view_now_advance Let_def)
    have con: "considered eligible skip (a # as) = a # considered eligible skip as"
      using False by (simp add: considered_def)
    show ?thesis
      by (cases "ClassifyAccount (view_now now trials a) now")
        (simp_all only: split_accounts.simps False if_False Let_def a1 IH [unfolded Let_def] con
          prod.case list.map filter.simps if_True fold.simps option.map_comp o_def
          AvailabilityClass.case simp_thms AvailabilityClass.distinct)
  qed
qed

definition selectable ::
  "SchedulerSnapshot \<Rightarrow> Candidate list \<Rightarrow> time \<Rightarrow> AuthInstanceID set \<Rightarrow> TrialRegistry option \<Rightarrow> AccountView list" where
  \<comment> \<open>the accounts the selection may choose from, with their current trial state\<close>
  "selectable snapshot candidates now skip trials =
     map (view_now now trials) (considered (eligible_ids snapshot candidates) skip (sn_Accounts snapshot))"

lemma selectAccountSkipping_eq:
  "selectAccountSkipping snapshot candidates now skip trials =
    (let vs = selectable snapshot candidates now skip trials;
         pref = filter (\<lambda>v. ClassifyAccount v now = Preferred) vs;
         opp = filter (\<lambda>v. ClassifyAccount v now = Opportunistic) vs;
         lt = (\<lambda>a b. accountViewLess a b (sn_MonthlyMode snapshot));
         trials' = map_option (\<lambda>r. fold (\<lambda>a. Advance (av_Instance a) now)
           (considered (eligible_ids snapshot candidates) skip (sn_Accounts snapshot)) r) trials
     in if pref \<noteq> [] then (class_result Preferred (sort_slice lt pref), trials')
        else if opp \<noteq> [] then (class_result Opportunistic (sort_slice lt opp), trials')
        else (\<lparr>sr_AuthID = [], sr_Instance = 0, sr_Class = Preferred, sr_Trial = False,
               sr_Fallback = (sn_Fallback snapshot = FallbackFillFirst), sr_EvidenceSource = [],
               sr_Reason = ''no_selectable_account'', sr_Ordered = []\<rparr>, trials'))"
  by (simp add: selectAccountSkipping_def split_accounts_eq selectable_def Let_def)

lemma selectable_view_ok:
  "\<forall>a \<in> set (sn_Accounts snapshot). view_ok mode a \<Longrightarrow>
   \<forall>v \<in> set (selectable snapshot candidates now skip trials). view_ok mode v"
  by (auto simp: selectable_def considered_def view_ok_def)

lemma selectable_eligible:
  "v \<in> set (selectable snapshot candidates now skip trials) \<Longrightarrow>
   av_ID v \<in> eligible_ids snapshot candidates \<and> av_Instance v \<notin> skip \<and> av_ID v \<noteq> []"
  by (auto simp: selectable_def considered_def eligible_ids_def)

lemma class_result_sel [simp]:
  "sr_AuthID (class_result c vs) = av_ID (hd vs)" "sr_Instance (class_result c vs) = av_Instance (hd vs)"
  "sr_Class (class_result c vs) = c" "sr_Reason (class_result c vs) = ''selected''"
  "sr_Ordered (class_result c vs) = vs"
  by (simp_all add: class_result_def)

definition best_choice :: "MonthlyMode \<Rightarrow> time \<Rightarrow> AccountView list \<Rightarrow> AccountView \<Rightarrow> bool" where
  \<comment> \<open>\<open>v\<close> is in the best class that occurs and no account of that class compares less\<close>
  "best_choice mode now vs v \<longleftrightarrow> v \<in> set vs \<and> ClassifyAccount v now \<noteq> Excluded
     \<and> (\<forall>u \<in> set vs. ClassifyAccount u now = Preferred \<longrightarrow> ClassifyAccount v now = Preferred)
     \<and> (\<forall>u \<in> set vs. ClassifyAccount u now = ClassifyAccount v now \<longrightarrow> \<not> accountViewLess u v mode)"

lemma hd_sorted_best:
  assumes "\<forall>v \<in> set vs. view_ok mode v" and "filter (\<lambda>v. ClassifyAccount v now = c) vs \<noteq> []"
    and "c = Preferred \<or> c = Opportunistic \<and> (\<forall>v \<in> set vs. ClassifyAccount v now \<noteq> Preferred)"
  shows "best_choice mode now vs
    (hd (sort_slice (\<lambda>a b. accountViewLess a b mode) (filter (\<lambda>v. ClassifyAccount v now = c) vs)))"
proof -
  let ?xs = "filter (\<lambda>v. ClassifyAccount v now = c) vs"
  let ?h = "hd (sort_slice (\<lambda>a b. accountViewLess a b mode) ?xs)"
  have h: "?h \<in> set vs" "ClassifyAccount ?h now = c"
    using hd_sort_slice_in [OF assms(2)] by auto
  have "\<not> accountViewLess u ?h mode" if "u \<in> set vs" "ClassifyAccount u now = c" for u
    using by_view.hd_sort_slice_least [of ?xs mode u] assms(1) that by auto
  with h assms(3) show ?thesis by (auto simp: best_choice_def)
qed

lemma selection_cases:
  assumes "\<forall>a \<in> set (sn_Accounts snapshot). view_ok (sn_MonthlyMode snapshot) a"
    and "vs = selectable snapshot candidates now skip trials"
    and "result = fst (selectAccountSkipping snapshot candidates now skip trials)"
  shows "(\<exists>v. best_choice (sn_MonthlyMode snapshot) now vs v \<and> sr_AuthID result = av_ID v
            \<and> sr_Instance result = av_Instance v \<and> sr_Class result = ClassifyAccount v now
            \<and> sr_AuthID result \<noteq> [] \<and> sr_Reason result = ''selected'')
    \<or> (\<forall>v \<in> set vs. ClassifyAccount v now = Excluded) \<and> sr_AuthID result = []
        \<and> sr_Reason result = ''no_selectable_account''"
proof -
  let ?mode = "sn_MonthlyMode snapshot"
  let ?sorted = "\<lambda>c. sort_slice (\<lambda>a b. accountViewLess a b ?mode) (filter (\<lambda>v. ClassifyAccount v now = c) vs)"
  have ok: "\<forall>v \<in> set vs. view_ok ?mode v"
    using selectable_view_ok [OF assms(1)] assms(2) by blast
  have sel: ?thesis if c: "filter (\<lambda>v. ClassifyAccount v now = c) vs \<noteq> []"
    "c = Preferred \<or> c = Opportunistic \<and> (\<forall>v \<in> set vs. ClassifyAccount v now \<noteq> Preferred)"
    "result = class_result c (?sorted c)" for c
  proof -
    have "hd (?sorted c) \<in> set vs" "ClassifyAccount (hd (?sorted c)) now = c"
      using hd_sort_slice_in [OF c(1)] by auto
    then show ?thesis
      using hd_sorted_best [OF ok c(1,2)] c(3) selectable_eligible assms(2)
      by (intro disjI1 exI [of _ "hd (?sorted c)"]) auto
  qed
  show ?thesis
  proof (cases "filter (\<lambda>v. ClassifyAccount v now = Preferred) vs = []")
    case False
    with assms(2,3) sel [of Preferred] show ?thesis by (simp add: selectAccountSkipping_eq Let_def)
  next
    case True
    then have no_pref: "\<forall>v \<in> set vs. ClassifyAccount v now \<noteq> Preferred" by (simp add: filter_empty_conv)
    show ?thesis
    proof (cases "filter (\<lambda>v. ClassifyAccount v now = Opportunistic) vs = []")
      case False
      with True no_pref assms(2,3) sel [of Opportunistic] show ?thesis
        by (simp add: selectAccountSkipping_eq Let_def)
    next
      case none: True
      then have "\<forall>v \<in> set vs. ClassifyAccount v now = Excluded"
        using no_pref by (auto simp: filter_empty_conv) (metis AvailabilityClass.exhaust)
      with True none assms(2,3) show ?thesis by (simp add: selectAccountSkipping_eq Let_def)
    qed
  qed
qed

end
