(* ===== verification/Capability.thy ===== *)
theory Capability
  imports Models
begin

text \<open>
  \<^verbatim>\<open>capability.go\<close>: the roster of the host, the highest priority tier of its codex entries and
  the grouping of all entries into tiers. The two are shown to agree: the highest tier is the
  first group, whatever the order and the duplicates of the roster.
\<close>

datatype HostCapability = CapabilityB | CapabilityA

datatype RosterHealth =
  RosterHealthEmpty | RosterWaiting | RosterHealthy | RosterDegraded | RosterFailClosed

record RosterEntry =
  re_ID :: string
  re_AuthIndex :: string
  re_Provider :: string
  re_Priority :: "int option"

record HostRosterSnapshot =
  hr_Capability :: HostCapability
  hr_Confirmed :: bool
  hr_Provisional :: bool
  hr_BackgroundAllowed :: bool
  hr_Health :: RosterHealth
  hr_Generation :: uint64
  hr_LifecycleRevision :: uint64
  hr_Entries :: "RosterEntry list"
  hr_ConfirmedAt :: time
  hr_DegradedSince :: time

record ActiveRoster =
  ac_Capability :: HostCapability
  ac_Confirmed :: bool
  ac_Provisional :: bool
  ac_HighestPriority :: int
  ac_Generation :: uint64
  ac_LifecycleRevision :: uint64
  ac_Instances :: "string list"
  ac_Entries :: "RosterEntry list"
  ac_ConfirmedAt :: time
  ac_LastSyncAt :: time
  ac_DegradedSince :: time
  ac_Health :: RosterHealth
  ac_BackgroundAllowed :: bool

definition hostRosterSnapshotFromActive :: "ActiveRoster \<Rightarrow> HostRosterSnapshot" where
  "hostRosterSnapshotFromActive active = \<lparr>hr_Capability = ac_Capability active,
     hr_Confirmed = ac_Confirmed active, hr_Provisional = ac_Provisional active,
     hr_BackgroundAllowed = ac_BackgroundAllowed active, hr_Health = ac_Health active,
     hr_Generation = ac_Generation active, hr_LifecycleRevision = ac_LifecycleRevision active,
     hr_Entries = ac_Entries active, hr_ConfirmedAt = ac_ConfirmedAt active,
     hr_DegradedSince = ac_DegradedSince active\<rparr>"

definition zero_HostRosterSnapshot :: HostRosterSnapshot where
  "zero_HostRosterSnapshot = \<lparr>hr_Capability = CapabilityB, hr_Confirmed = False, hr_Provisional = False,
     hr_BackgroundAllowed = False, hr_Health = RosterHealthEmpty, hr_Generation = 0,
     hr_LifecycleRevision = 0, hr_Entries = [], hr_ConfirmedAt = ZeroTime, hr_DegradedSince = ZeroTime\<rparr>"

definition normalizeHostRosterLifecycle :: "HostRosterSnapshot \<Rightarrow> HostRosterSnapshot" where
  "normalizeHostRosterLifecycle roster =
    (if hr_Capability roster = CapabilityA \<and> hr_Health roster = RosterHealthEmpty
     then roster\<lparr>hr_Confirmed := True, hr_BackgroundAllowed := True, hr_Health := RosterHealthy\<rparr>
     else roster)"

definition DetectHostRoster :: "RosterEntry list option option \<Rightarrow> time \<Rightarrow> HostRosterSnapshot" where
  \<comment> \<open>\<open>listed\<close> is the outcome of \<^verbatim>\<open>host.ListHostAuths\<close>: \<open>None\<close> without a host, \<open>Some None\<close> on an error\<close>
  "DetectHostRoster listed now =
    (case listed of
       Some (Some entries) \<Rightarrow>
         if entries = [] \<or> list_ex (\<lambda>entry. re_Priority entry = None) entries
         then zero_HostRosterSnapshot
         else zero_HostRosterSnapshot\<lparr>hr_Capability := CapabilityA, hr_Entries := entries, hr_ConfirmedAt := now\<rparr>
     | _ \<Rightarrow> zero_HostRosterSnapshot)"

definition tier_entry :: "RosterEntry \<Rightarrow> (int \<times> string) option" where
  \<comment> \<open>the entries the tier functions count, as priority and id\<close>
  "tier_entry entry =
    (if re_ID entry = [] \<or> re_Provider entry \<noteq> ''codex'' then None
     else map_option (\<lambda>p. (p, re_ID entry)) (re_Priority entry))"

definition highest_step :: "int \<times> string \<Rightarrow> (int \<times> string list) option \<Rightarrow> (int \<times> string list) option" where
  "highest_step e found =
    (let (p, i) = e;
         (priority, ids) =
           (case found of
              None \<Rightarrow> (p, [])
            | Some (q, js) \<Rightarrow> if p > q then (p, []) else (q, js))
     in if p = priority \<and> i \<notin> set ids then Some (priority, ids @ [i]) else Some (priority, ids))"

definition HighestCodexTier :: "RosterEntry list \<Rightarrow> (int \<times> string list) option" where
  "HighestCodexTier entries =
    map_option (\<lambda>(priority, ids). (priority, sort ids))
      (fold highest_step (List.map_filter tier_entry entries) None)"

definition group_step :: "int \<times> string \<Rightarrow> (int, string set) gmap \<times> int list \<Rightarrow> (int, string set) gmap \<times> int list" where
  "group_step e acc =
    (let (p, i) = e; (byPriority, priorities) = acc
     in case gget byPriority p of
          None \<Rightarrow> (gput p {i} byPriority, priorities @ [p])
        | Some tier \<Rightarrow> (gput p (insert i tier) byPriority, priorities))"

definition CodexTierGroups :: "RosterEntry list \<Rightarrow> TierAdmission list option" where
  "CodexTierGroups entries =
    (let (byPriority, priorities) = fold group_step (List.map_filter tier_entry entries) ([], [])
     in if priorities = [] then None
        else Some (map (\<lambda>p. \<lparr>ta_Priority = p, ta_AuthIDs = the (gget byPriority p)\<rparr>) (rev (sort priorities))))"

section \<open>What the loops compute\<close>

lemma highest_fold_snoc: "fold highest_step (es @ [e]) None = highest_step e (fold highest_step es None)"
  by simp

lemma highest_fold:
  "case fold highest_step es None of
     None \<Rightarrow> es = []
   | Some (p, ids) \<Rightarrow> p \<in> fst ` set es \<and> (\<forall>e \<in> set es. fst e \<le> p) \<and> distinct ids
       \<and> set ids = snd ` {e \<in> set es. fst e = p}"
proof (induction es rule: rev_induct)
  case (snoc e es)
  obtain p i where e: "e = (p, i)" by (cases e)
  show ?case
  proof (cases "fold highest_step es None")
    case None
    with snoc.IH have "es = []" by simp
    with e show ?thesis by (auto simp: highest_step_def)
  next
    case (Some qjs)
    obtain q js where qjs: "qjs = (q, js)" by (cases qjs)
    with Some snoc.IH have IH: "q \<in> fst ` set es" "\<forall>e \<in> set es. fst e \<le> q" "distinct js"
      "set js = snd ` {e \<in> set es. fst e = q}" by simp_all
    have step: "fold highest_step (es @ [e]) None =
        (if p > q then Some (p, [i]) else if p = q \<and> i \<notin> set js then Some (q, js @ [i]) else Some (q, js))"
      using Some qjs e by (auto simp: highest_step_def Let_def)
    consider "p > q" | "p = q" | "p < q" by linarith
    then show ?thesis
    proof cases
      case 1
      then have "{e \<in> set (es @ [(p, i)]). fst e = p} = {(p, i)}" using IH(2) by force
      with 1 step e IH(2) show ?thesis by force
    next
      case 2
      have "snd ` {e \<in> set (es @ [(p, i)]). fst e = q} = insert i (set js)" using 2 IH(4) by force
      with 2 step e IH show ?thesis by (auto simp: image_iff)
    next
      case 3
      then have "{e \<in> set (es @ [(p, i)]). fst e = q} = {e \<in> set es. fst e = q}" by auto
      with 3 step e IH show ?thesis by auto
    qed
  qed
qed simp

lemma group_fold:
  assumes "fold group_step es ([], []) = (m, ps)"
  shows "distinct ps \<and> set ps = fst ` set es \<and> gkeys m = set ps
    \<and> (\<forall>p \<in> set ps. gget m p = Some (snd ` {e \<in> set es. fst e = p}))"
  using assms
proof (induction es arbitrary: m ps rule: rev_induct)
  case Nil
  then show ?case by (simp add: gkeys_def)
next
  case (snoc e es)
  obtain p i where e: "e = (p, i)" by (cases e)
  obtain m0 ps0 where f: "fold group_step es ([], []) = (m0, ps0)" by fastforce
  note IH = snoc.IH [OF f]
  have step: "group_step (p, i) (m0, ps0) = (m, ps)" using snoc.prems f e by simp
  have set_p: "snd ` {x \<in> set (es @ [(p, i)]). fst x = p} = insert i (snd ` {x \<in> set es. fst x = p})" by force
  have set_q: "q \<noteq> p \<Longrightarrow> {x \<in> set (es @ [(p, i)]). fst x = q} = {x \<in> set es. fst x = q}" for q by auto
  show ?case
  proof (cases "p \<in> set ps0")
    case True
    with IH have g: "gget m0 p = Some (snd ` {x \<in> set es. fst x = p})" by blast
    with step have "m = gput p (insert i (snd ` {x \<in> set es. fst x = p})) m0" "ps = ps0"
      by (simp_all add: group_step_def)
    with IH True e set_p set_q show ?thesis by (auto simp: update_conv' insert_absorb)
  next
    case False
    with IH have g: "gget m0 p = None" by (simp add: gget_None_iff)
    with step have m: "m = gput p {i} m0" "ps = ps0 @ [p]"
      by (simp_all add: group_step_def)
    from False IH have "snd ` {x \<in> set es. fst x = p} = {}" by force
    with m IH False e set_p set_q show ?thesis by (auto simp: update_conv')
  qed
qed

lemma CodexTierGroups_eq:
  assumes "es = List.map_filter tier_entry entries"
  shows "CodexTierGroups entries = (if es = [] then None
    else Some (map (\<lambda>p. \<lparr>ta_Priority = p, ta_AuthIDs = snd ` {e \<in> set es. fst e = p}\<rparr>)
      (rev (sorted_list_of_set (fst ` set es)))))"
proof -
  obtain m ps where f: "fold group_step es ([], []) = (m, ps)" by fastforce
  note g = group_fold [OF f]
  then have ps: "ps = [] \<longleftrightarrow> es = []" by (metis image_is_empty set_empty)
  have "sort ps = sorted_list_of_set (fst ` set es)"
    using g sorted_list_of_set_sort_remdups [of ps] by (simp add: distinct_remdups_id)
  moreover have "the (gget m p) = snd ` {e \<in> set es. fst e = p}" if "p \<in> fst ` set es" for p
    using g that by auto
  ultimately show ?thesis
    using f ps assms by (auto simp: CodexTierGroups_def Let_def)
qed

lemma HighestCodexTier_eq:
  assumes "es = List.map_filter tier_entry entries" and "es \<noteq> []"
  shows "HighestCodexTier entries =
    Some (Max (fst ` set es), sorted_list_of_set (snd ` {e \<in> set es. fst e = Max (fst ` set es)}))"
proof -
  have h: "case fold highest_step es None of
     None \<Rightarrow> es = []
   | Some (p, ids) \<Rightarrow> p \<in> fst ` set es \<and> (\<forall>e \<in> set es. fst e \<le> p) \<and> distinct ids
       \<and> set ids = snd ` {e \<in> set es. fst e = p}" by (rule highest_fold)
  with assms(2) obtain p ids where f: "fold highest_step es None = Some (p, ids)"
    by (cases "fold highest_step es None") auto
  with h have p: "p \<in> fst ` set es" "\<forall>e \<in> set es. fst e \<le> p" "distinct ids"
    "set ids = snd ` {e \<in> set es. fst e = p}" by simp_all
  then have "p = Max (fst ` set es)" by (intro Max_eqI [symmetric]) auto
  moreover have "sort ids = sorted_list_of_set (set ids)"
    using p(3) sorted_list_of_set_sort_remdups [of ids] by (simp add: distinct_remdups_id)
  ultimately show ?thesis using f p(4) assms(1) by (simp add: HighestCodexTier_def)
qed

lemma hd_rev_sorted:
  assumes "finite A" and "A \<noteq> {}"
  shows "hd (rev (sorted_list_of_set A)) = Max (A :: int set)"
proof -
  let ?xs = "sorted_list_of_set A"
  have ne: "?xs \<noteq> []" using assms by simp
  then have "sorted (butlast ?xs @ [last ?xs])" by simp
  then have "\<forall>x \<in> set ?xs. x \<le> last ?xs"
    using ne by (metis Un_iff append_butlast_last_id order.refl set_ConsD set_append sorted_append
        empty_iff list.set(1) list.set_intros(1))
  with assms ne last_in_set [OF ne] have "Max A = last ?xs"
    by (intro Max_eqI) simp_all
  then show ?thesis by (simp add: hd_rev)
qed

text \<open>
  The highest tier is the first tier. For every host roster, \<open>HighestCodexTier\<close> finds no
  tier exactly if \<open>CodexTierGroups\<close> finds none, and otherwise returns the priority and the
  (sorted) members of the first group of \<open>CodexTierGroups\<close>; the groups are listed by strictly
  descending priority.
\<close>
theorem HighestCodexTier_is_first_group:
  "case CodexTierGroups entries of
     None \<Rightarrow> HighestCodexTier entries = None
   | Some tiers \<Rightarrow> tiers \<noteq> []
       \<and> HighestCodexTier entries = Some (ta_Priority (hd tiers), sorted_list_of_set (ta_AuthIDs (hd tiers)))
       \<and> sorted_wrt (\<lambda>t u. ta_Priority u < ta_Priority t) tiers"
proof (cases "List.map_filter tier_entry entries = []")
  case True
  then show ?thesis by (simp add: CodexTierGroups_eq [OF refl] HighestCodexTier_def)
next
  case False
  let ?es = "List.map_filter tier_entry entries"
  let ?ps = "rev (sorted_list_of_set (fst ` set ?es))"
  have ne: "?ps \<noteq> []" using False by simp
  have "hd ?ps = Max (fst ` set ?es)" using False by (intro hd_rev_sorted) simp_all
  moreover have "sorted_wrt (\<lambda>p q. q < p) ?ps"
    by (simp add: sorted_wrt_rev strict_sorted_list_of_set)
  ultimately show ?thesis
    using False ne
    by (simp add: CodexTierGroups_eq [OF refl] HighestCodexTier_eq [OF refl] hd_map sorted_wrt_map)
qed

end
