(* ===== verification/Scheduler.thy ===== *)
theory Scheduler
  imports Plugin_State Selection Capability
begin

text \<open>
  \<^verbatim>\<open>scheduler.go\<close> and \<^verbatim>\<open>scheduler_snapshot.go\<close>: the admission of a pick request, the view of an
  account the scheduler compares, the published snapshot, the pick itself with its effects on
  the trial registry and on the evidence queue, and the ordered queue of the management page.

  \<open>SchedulerPickRequest\<close> has the fields of the host's request the code reads. The hooks
  \<^verbatim>\<open>Activity\<close> and \<^verbatim>\<open>Observation\<close> enqueue their arguments; the calls made are recorded in the
  world of a pick. \<^verbatim>\<open>EvidenceIntents\<close> is a bounded channel: a send that would block is dropped.
\<close>

record SchedulerAuthCandidate =
  sc_ID :: string
  sc_Provider :: string
  sc_Priority :: int

record SchedulerPickRequest =
  rq_Provider :: string
  rq_Providers :: "string list"
  rq_Candidates :: "SchedulerAuthCandidate list"

datatype DelegateBuiltin = DelegateNone | SchedulerBuiltinFillFirst

datatype QueueStatus =
  QueueStatusAvailable | QueueStatusFiveHourExhausted | QueueStatusLongWindowExhausted | QueueStatusUnavailable

record ScheduledAccount =
  sa_AuthID :: string
  sa_CPAPriority :: int
  sa_SchedulerPriority :: int
  sa_Family :: AccountFamily
  sa_QueueStatus :: QueueStatus
  sa_Available :: bool
  sa_UnavailableReason :: string
  sa_SortTime :: time
  sa_Annotation :: AccountAnnotation
  sa_selectionClass :: AvailabilityClass
  sa_selectionView :: AccountView

record PickDecision =
  pd_AuthID :: string
  pd_Handled :: bool
  pd_DelegateBuiltin :: DelegateBuiltin
  pd_Reason :: string
  pd_Ordered :: "ScheduledAccount list"
  pd_UnavailableSummary :: string

definition decision :: "string \<Rightarrow> PickDecision" where
  "decision reason = \<lparr>pd_AuthID = [], pd_Handled = False, pd_DelegateBuiltin = DelegateNone,
     pd_Reason = reason, pd_Ordered = [], pd_UnavailableSummary = []\<rparr>"

section \<open>Admission from a request\<close>

definition codex_candidates :: "SchedulerPickRequest \<Rightarrow> SchedulerAuthCandidate list" where
  "codex_candidates req = filter (\<lambda>c. \<not> (sc_ID c = [] \<or> sc_Provider c \<noteq> ''codex'')) (rq_Candidates req)"

definition CodexAdmissionFromRequest :: "SchedulerPickRequest \<Rightarrow> bool \<Rightarrow> CPAAdmissionState option" where
  "CodexAdmissionFromRequest req acrossPriorities =
    (let candidates = map (\<lambda>c. \<lparr>re_ID = sc_ID c, re_AuthIndex = [], re_Provider = sc_Provider c,
                                 re_Priority = Some (sc_Priority c)\<rparr>) (codex_candidates req)
     in case CodexTierGroups candidates of
          None \<Rightarrow> None
        | Some tiers0 \<Rightarrow>
            let tiers = (if acrossPriorities then tiers0 else take 1 tiers0)
            in Some \<lparr>ad_Observed = True, ad_Priority = ta_Priority (hd tiers),
                     ad_AuthIDs = \<Union> (ta_AuthIDs ` set tiers), ad_Tiers = tiers\<rparr>)"

definition HighestPriorityCodexAdmission :: "SchedulerPickRequest \<Rightarrow> CPAAdmissionState option" where
  "HighestPriorityCodexAdmission req = CodexAdmissionFromRequest req False"

definition codexCandidateCount :: "SchedulerPickRequest \<Rightarrow> nat" where
  "codexCandidateCount req = card (set (map sc_ID (codex_candidates req)))"

definition requestIncludesCodex :: "SchedulerPickRequest \<Rightarrow> bool" where
  "requestIncludesCodex req =
    (if rq_Provider req = ''codex'' then True
     else list_ex (\<lambda>provider. provider = ''codex'') (rq_Providers req))"

section \<open>The view of an account\<close>

definition windowExhausted :: "QuotaWindow option \<Rightarrow> time \<Rightarrow> bool" where
  "windowExhausted window now =
    (case window of
       None \<Rightarrow> False
     | Some w \<Rightarrow> if \<not> qw_Exhausted w then False else IsZero (qw_ResetAt w) \<or> After (qw_ResetAt w) now)"

definition accountSortTime :: "AccountState \<Rightarrow> time" where
  "accountSortTime account =
    (case pq_LongWindow (as_Quota account) of Some w \<Rightarrow> qw_ResetAt w | None \<Rightarrow> ZeroTime)"

definition accountExhaustion :: "AccountState \<Rightarrow> time \<Rightarrow> bool \<times> time" where
  "accountExhaustion a now =
    (if windowExhausted (pq_LongWindow (as_Quota a)) now
     then (True, (case pq_LongWindow (as_Quota a) of Some w \<Rightarrow> qw_ResetAt w | None \<Rightarrow> ZeroTime))
     else if windowExhausted (pq_FiveHour (as_Quota a)) now
     then (True, (case pq_FiveHour (as_Quota a) of Some w \<Rightarrow> qw_ResetAt w | None \<Rightarrow> ZeroTime))
     else (False, ZeroTime))"

definition remainingQuota :: "AccountState \<Rightarrow> float64" where
  "remainingQuota a =
    (let used = (\<lambda>w. case w of None \<Rightarrow> None | Some x \<Rightarrow> qw_UsedPercent x)
     in case used (pq_LongWindow (as_Quota a)) of
          Some u \<Rightarrow> fsub 100 u
        | None \<Rightarrow> (case used (pq_FiveHour (as_Quota a)) of Some u \<Rightarrow> fsub 100 u | None \<Rightarrow> 0))"

abbreviation (input) minimumQuotaPressureWindow :: duration where
  "minimumQuotaPressureWindow \<equiv> 30 * Minute"

definition quotaPressure :: "AccountState \<Rightarrow> time \<Rightarrow> float64" where
  "quotaPressure a now =
    (case pq_LongWindow (as_Quota a) of
       None \<Rightarrow> 0
     | Some window \<Rightarrow>
         (case qw_UsedPercent window of
            None \<Rightarrow> 0
          | Some used \<Rightarrow>
              if IsZero (qw_ResetAt window) then 0
              else let untilReset = Sub (qw_ResetAt window) now
                   in if untilReset \<le> 0 then 0
                      else let untilReset' = (if untilReset < minimumQuotaPressureWindow
                                              then minimumQuotaPressureWindow else untilReset);
                               remaining = fsub 100 used;
                               remaining' = (if remaining < 0 then 0
                                             else if remaining > 100 then 100 else remaining)
                           in fdiv remaining' (Hours untilReset')))"

definition accountViewFromState :: "AccountState \<Rightarrow> Config \<Rightarrow> time \<Rightarrow> TrialRegistry option \<Rightarrow> AccountView" where
  "accountViewFromState a cfg now trials =
    (let cache = (if IsZero (as_LastSuccessAt a) then CacheUnknown
                  else if as_Stale a then CacheStale
                  else if Sub now (as_LastSuccessAt a) > cfg_QuotaRefreshInterval cfg then CacheAging
                  else CacheFresh);
         (exhausted, reset) = accountExhaustion a now;
         trial = (case trials of None \<Rightarrow> TrialNone | Some r \<Rightarrow> trial_State (as_Instance a) now r);
         circuit = cb_EffectiveState (effectiveCircuitState (as_Circuit a) now);
         circuitClass = (if circuit = CircuitStateOpen then CircuitOpen
                         else if circuit = CircuitStateHalfOpen then CircuitHalfOpen else CircuitClosed)
     in \<lparr>av_ID = as_AuthID a, av_AuthIndex = as_AuthIndex a, av_Instance = as_Instance a,
         av_PluginPriority = aa_SchedulerPriority (as_Annotation a), av_CPAPriority = as_Priority a,
         av_Family = as_Family a, av_Cache = cache, av_LastKnownAvailable = (as_LastError a = []),
         av_Exhausted = exhausted, av_ResetAt = reset, av_AuthBlocked = ar_AuthFailure (as_Refresh a),
         av_Circuit = circuitClass,
         av_TemporaryUnavailable = (as_TemporaryExhausted a \<and> After (as_TemporaryResetAt a) now),
         av_Trial = trial, av_Expiry = accountSortTime a, av_RemainingQuota = remainingQuota a,
         av_QuotaPressure = quotaPressure a now\<rparr>)"

definition schedulerSnapshotFromState :: "bool \<Rightarrow> StateSnapshot \<Rightarrow> TrialRegistry option \<Rightarrow> SchedulerSnapshot" where
  \<comment> \<open>\<open>pump\<close>: whether an activity pump is installed\<close>
  "schedulerSnapshotFromState pump st trials = \<lparr>
     sn_HandleEnabled = cfg_HandleEnabled (ss_Config st), sn_Fallback = cfg_Fallback (ss_Config st),
     sn_MonthlyMode = cfg_MonthlyMode (ss_Config st),
     sn_Accounts = map (\<lambda>a. accountViewFromState a (ss_Config st) (ss_Now st) trials) (ss_Accounts st),
     sn_ActiveHighestTier = ad_AuthIDs (ss_CPAAdmission st), sn_AdmissionVersion = 0,
     sn_HasActivity = pump, sn_HasObservation = pump\<rparr>"

definition publishSchedulerState ::
  "bool \<Rightarrow> PluginState \<Rightarrow> string set option \<Rightarrow> time \<Rightarrow> TrialRegistry option \<Rightarrow> SchedulerSnapshot" where
  \<comment> \<open>the snapshot stored in \<^verbatim>\<open>publishedSchedulerSnapshot\<close>\<close>
  "publishSchedulerState pump state active now trials =
    (let s0 = state_Snapshot state now;
         s = (case active of
                None \<Rightarrow> s0
              | Some ids \<Rightarrow> s0\<lparr>ss_CPAAdmission := zero_CPAAdmissionState\<lparr>ad_Observed := True, ad_AuthIDs := ids\<rparr>\<rparr>)
     in (schedulerSnapshotFromState pump s trials)\<lparr>sn_AdmissionVersion := snd (CPAAdmissionVersioned state)\<rparr>)"

section \<open>Why an account is not selectable\<close>

definition accountExclusionReason :: "AccountView \<Rightarrow> time \<Rightarrow> string" where
  "accountExclusionReason a now =
    (if av_AuthBlocked a then ''auth_failure''
     else if av_Circuit a = CircuitOpen then ''circuit_open''
     else if av_Circuit a = CircuitHalfOpen then ''circuit_half_open''
     else if av_TemporaryUnavailable a then ''temporary_exhausted''
     else if av_Trial a \<noteq> TrialNone then ''trial_pending''
     else if av_Exhausted a \<and> (IsZero (av_ResetAt a) \<or> After (av_ResetAt a) now) then ''window_exhausted''
     else if av_Cache a = CacheStale \<and> \<not> av_LastKnownAvailable a then ''stale_quota''
     else ''available'')"

definition count_reason :: "string \<Rightarrow> (string, nat) gmap \<Rightarrow> (string, nat) gmap" where
  "count_reason reason counts =
    gput reason (case gget counts reason of None \<Rightarrow> 1 | Some n \<Rightarrow> n + 1) counts"

definition fallbackUnavailableSummary :: "SchedulerSnapshot \<Rightarrow> Candidate list \<Rightarrow> time \<Rightarrow> string" where
  "fallbackUnavailableSummary snapshot candidates now =
    (let eligible = eligible_ids snapshot candidates
     in if eligible = {} then ''no ordered candidates''
        else let counts = fold count_reason
                   (map (\<lambda>a. accountExclusionReason a now)
                     (filter (\<lambda>a. av_ID a \<in> eligible) (sn_Accounts snapshot))) [];
                 parts = map (\<lambda>(reason, n). reason @ ''='' @ nat_digits n) counts
             in join_with '','' (sort parts))"

section \<open>The pick\<close>

record EvidenceIntent =
  ei_AuthID :: string
  ei_Instance :: AuthInstanceID
  ei_BeganAt :: time

record PickWorld =
  pw_Snapshot :: "SchedulerSnapshot option"
  pw_Trials :: "TrialRegistry option"
  pw_Intents :: "EvidenceIntent list"
  pw_IntentCap :: "nat option"  \<comment> \<open>capacity of the channel; \<open>None\<close> is a nil channel\<close>
  pw_Activity :: "(SchedulerPickRequest \<times> uint64 \<times> time) list"
  pw_Observations :: "(SchedulerPickRequest \<times> PickDecision \<times> time) list"

definition observeSchedulerDecision ::
  "SchedulerSnapshot \<Rightarrow> SchedulerPickRequest \<Rightarrow> PickDecision \<Rightarrow> time \<Rightarrow> PickWorld \<Rightarrow> PickDecision \<times> PickWorld" where
  "observeSchedulerDecision snapshot req d now w =
    (d, if sn_HasObservation snapshot then w\<lparr>pw_Observations := pw_Observations w @ [(req, d, now)]\<rparr> else w)"

definition begin_trial :: "AuthInstanceID \<Rightarrow> time \<Rightarrow> TrialRegistry option \<Rightarrow> bool \<times> TrialRegistry option" where
  \<comment> \<open>\<^verbatim>\<open>snapshot.Trials != nil && snapshot.Trials.TryBegin(...)\<close>\<close>
  "begin_trial i now trials =
    (case trials of
       None \<Rightarrow> (False, None)
     | Some r \<Rightarrow> let (ok, r') = TryBegin i now r in (ok, Some r'))"

definition unskipped :: "SchedulerSnapshot \<Rightarrow> AuthInstanceID set \<Rightarrow> AuthInstanceID set" where
  "unskipped snapshot skip = av_Instance ` set (sn_Accounts snapshot) - skip"

function pick_loop ::
  "SchedulerSnapshot \<Rightarrow> Candidate list \<Rightarrow> time \<Rightarrow> AuthInstanceID set \<Rightarrow> TrialRegistry option
   \<Rightarrow> SelectionResult \<times> TrialRegistry option" where
  \<comment> \<open>select; as long as the selected trial account cannot begin its trial, skip its instance\<close>
  "pick_loop snapshot candidates now skip trials =
    (let (result, trials1) = selectAccountSkipping snapshot candidates now skip trials
     in if sr_AuthID result \<noteq> [] \<and> sr_Class result = Opportunistic
        then (let (ok, trials2) = begin_trial (sr_Instance result) now trials1
              in if ok then (result, trials2)
                 else pick_loop snapshot candidates now (insert (sr_Instance result) skip) trials2)
        else (result, trials1))"
  by pat_completeness auto

lemma finite_unskipped: "finite (unskipped snapshot skip)"
  by (simp add: unskipped_def)

lemma selected_instance_unskipped:
  assumes "selectAccountSkipping snapshot candidates now skip trials = (result, trials')"
    and "sr_AuthID result \<noteq> []"
  shows "sr_Instance result \<in> unskipped snapshot skip"
proof -
  let ?vs = "selectable snapshot candidates now skip trials"
  have mem: "av_Instance v \<in> unskipped snapshot skip" if "v \<in> set ?vs" for v
    using that by (auto simp: selectable_def considered_def unskipped_def)
  have hd: "hd (sort_slice lt (filter P ?vs)) \<in> set ?vs" if "filter P ?vs \<noteq> []" for lt P
    using hd_sort_slice_in [OF that, of lt] by auto
  from assms show ?thesis
    by (auto simp: selectAccountSkipping_eq Let_def mem hd split: if_splits)
qed

termination pick_loop
proof (relation "measure (\<lambda>(snapshot, candidates, now, skip, trials). card (unskipped snapshot skip))")
  fix snapshot candidates now skip trials x result trials1 y ok trials2
  assume "x = selectAccountSkipping snapshot candidates now skip trials" "(result, trials1) = x"
    and "sr_AuthID result \<noteq> [] \<and> sr_Class result = Opportunistic"
  then have i: "sr_Instance result \<in> unskipped snapshot skip"
    using selected_instance_unskipped by metis
  have "unskipped snapshot (insert (sr_Instance result) skip) = unskipped snapshot skip - {sr_Instance result}"
    by (auto simp: unskipped_def)
  then show "((snapshot, candidates, now, insert (sr_Instance result) skip, trials2),
      (snapshot, candidates, now, skip, trials))
     \<in> measure (\<lambda>(snapshot, candidates, now, skip, trials). card (unskipped snapshot skip))"
    using card_Diff1_less [OF finite_unskipped i] by simp
qed simp

declare pick_loop.simps [simp del]

definition send_evidence :: "EvidenceIntent \<Rightarrow> PickWorld \<Rightarrow> PickWorld" where
  \<comment> \<open>the non-blocking send; when it succeeds the trial is marked as awaiting evidence\<close>
  "send_evidence intent w =
    (case pw_IntentCap w of
       None \<Rightarrow> w
     | Some n \<Rightarrow>
         if length (pw_Intents w) < n
         then w\<lparr>pw_Intents := pw_Intents w @ [intent],
               pw_Trials := map_option (MarkEvidencePending (ei_Instance intent) True) (pw_Trials w)\<rparr>
         else w)"

definition schedulerPickPublished ::
  "SchedulerPickRequest \<Rightarrow> time \<Rightarrow> PickWorld \<Rightarrow> PickDecision \<times> PickWorld" where
  "schedulerPickPublished req now w =
    (case pw_Snapshot w of
       None \<Rightarrow> (decision ''handle_disabled'', w)
     | Some snapshot \<Rightarrow>
         if \<not> requestIncludesCodex req then (decision ''provider_not_codex'', w)
         else if \<not> sn_HandleEnabled snapshot
         then observeSchedulerDecision snapshot req (decision ''handle_disabled'') now w
         else
           let w1 = (if sn_HasActivity snapshot
                     then w\<lparr>pw_Activity := pw_Activity w @ [(req, sn_AdmissionVersion snapshot, now)]\<rparr> else w);
               candidates = map (\<lambda>c. \<lparr>ca_ID = sc_ID c, ca_Provider = sc_Provider c\<rparr>) (rq_Candidates req);
               (result, trials) = pick_loop snapshot candidates now {} (pw_Trials w1);
               w2 = w1\<lparr>pw_Trials := trials\<rparr>;
               w3 = (if sr_AuthID result \<noteq> [] \<and> sr_Class result = Opportunistic
                     then send_evidence \<lparr>ei_AuthID = sr_AuthID result, ei_Instance = sr_Instance result,
                                         ei_BeganAt = now\<rparr> w2
                     else w2)
           in if sr_AuthID result \<noteq> []
              then observeSchedulerDecision snapshot req
                     ((decision ''selected'')\<lparr>pd_AuthID := sr_AuthID result, pd_Handled := True\<rparr>) now w3
              else if sn_Fallback snapshot = FallbackFillFirst
              then observeSchedulerDecision snapshot req
                     ((decision (sr_Reason result))\<lparr>pd_Handled := True,
                        pd_DelegateBuiltin := SchedulerBuiltinFillFirst,
                        pd_UnavailableSummary := fallbackUnavailableSummary snapshot candidates now\<rparr>) now w3
              else observeSchedulerDecision snapshot req (decision (sr_Reason result)) now w3)"

section \<open>The ordered queue\<close>

definition accountQueueState :: "AccountState \<Rightarrow> time \<Rightarrow> QueueStatus \<times> bool \<times> string \<times> time" where
  "accountQueueState account now =
    (let circuit = effectiveCircuitState (as_Circuit account) now;
         temporarily = as_TemporaryExhausted account
           \<and> (IsZero (as_TemporaryResetAt account) \<or> After (as_TemporaryResetAt account) now);
         long_window = (\<lambda>missing_window missing_reset exhausted.
           case pq_LongWindow (as_Quota account) of
             None \<Rightarrow> (QueueStatusUnavailable, False, missing_window, ZeroTime)
           | Some w \<Rightarrow>
               if IsZero (qw_ResetAt w) then (QueueStatusUnavailable, False, missing_reset, ZeroTime)
               else if windowExhausted (Some w) now
               then (QueueStatusLongWindowExhausted, False, exhausted, qw_ResetAt w)
               else if temporarily
               then (QueueStatusFiveHourExhausted, False, ''temporary_exhausted'', as_TemporaryResetAt account)
               else case pq_FiveHour (as_Quota account) of
                 None \<Rightarrow> (QueueStatusAvailable, True, [], qw_ResetAt w)
               | Some f \<Rightarrow>
                   if IsZero (qw_ResetAt f) then (QueueStatusUnavailable, False, ''missing_five_hour_reset'', ZeroTime)
                   else if windowExhausted (Some f) now
                   then (QueueStatusFiveHourExhausted, False, ''five_hour_exhausted'', qw_ResetAt f)
                   else (QueueStatusAvailable, True, [], qw_ResetAt w))
     in if ar_AuthFailure (as_Refresh account) then (QueueStatusUnavailable, False, ''auth_failure'', ZeroTime)
        else if ar_LastFailureKind (as_Refresh account) = RefreshFailureLocal
        then (QueueStatusUnavailable, False, ''local_failure'', ZeroTime)
        else if as_Stale account then (QueueStatusUnavailable, False, ''stale_quota'', ZeroTime)
        else if cb_EffectiveState circuit = CircuitStateOpen
        then (QueueStatusUnavailable, False, ''circuit_open'', cb_NextProbeAt circuit)
        else if cb_EffectiveState circuit = CircuitStateClosed \<and> cb_FailureCount circuit > 0
                \<and> \<not> IsZero (cb_NextProbeAt circuit) \<and> After (cb_NextProbeAt circuit) now
        then (QueueStatusUnavailable, False, ''quota_probe_wait'', cb_NextProbeAt circuit)
        else case as_Family account of
          AccountFamilyWeekly \<Rightarrow> long_window ''missing_weekly_window'' ''missing_weekly_reset'' ''weekly_exhausted''
        | AccountFamilyMonthly \<Rightarrow> long_window ''missing_monthly_window'' ''missing_monthly_reset'' ''monthly_exhausted''
        | _ \<Rightarrow> if temporarily
               then (QueueStatusFiveHourExhausted, False, ''temporary_exhausted'', as_TemporaryResetAt account)
               else (QueueStatusUnavailable, False, ''unknown_family'', ZeroTime))"

definition accountAvailable :: "AccountState \<Rightarrow> time \<Rightarrow> bool \<times> string" where
  "accountAvailable account now =
    (let (status, available, reason, t) = accountQueueState account now in (available, reason))"

definition accountsByAuthID :: "AccountState list \<Rightarrow> (string, AccountState) gmap" where
  "accountsByAuthID accounts =
    fold (\<lambda>account m. if as_AuthID account = [] then m else gput (as_AuthID account) account m) accounts []"

definition highestPriorityByAuthID :: "TierAdmission list \<Rightarrow> string \<Rightarrow> int option" where
  \<comment> \<open>the map of \<^verbatim>\<open>buildOrderedAccounts\<close>: the highest tier wins\<close>
  "highestPriorityByAuthID tiers i =
    fold (\<lambda>tier found. if i \<notin> ta_AuthIDs tier then found
            else case found of
              None \<Rightarrow> Some (ta_Priority tier)
            | Some p \<Rightarrow> if ta_Priority tier > p then Some (ta_Priority tier) else found) tiers None"

definition zero_AccountView :: AccountView where
  "zero_AccountView = \<lparr>av_ID = [], av_AuthIndex = [], av_Instance = 0, av_PluginPriority = 0,
     av_CPAPriority = 0, av_Family = AccountFamilyEmpty, av_Cache = CacheFresh,
     av_LastKnownAvailable = False, av_Exhausted = False, av_ResetAt = ZeroTime,
     av_AuthBlocked = False, av_Circuit = CircuitClosed, av_TemporaryUnavailable = False,
     av_Trial = TrialNone, av_Expiry = ZeroTime, av_RemainingQuota = 0, av_QuotaPressure = 0\<rparr>"

definition unknown_scheduled :: "string \<Rightarrow> int \<Rightarrow> ScheduledAccount" where
  "unknown_scheduled i priority = \<lparr>sa_AuthID = i, sa_CPAPriority = priority, sa_SchedulerPriority = 0,
     sa_Family = AccountFamilyUnknown, sa_QueueStatus = QueueStatusUnavailable, sa_Available = False,
     sa_UnavailableReason = ''unknown_account'', sa_SortTime = ZeroTime,
     sa_Annotation = zero_AccountAnnotation, sa_selectionClass = Excluded,
     sa_selectionView = zero_AccountView\<lparr>av_ID := i\<rparr>\<rparr>"

definition scheduled ::
  "Config \<Rightarrow> time \<Rightarrow> TrialRegistry option \<Rightarrow> string \<Rightarrow> int \<Rightarrow> AccountState \<Rightarrow> ScheduledAccount" where
  "scheduled cfg now trials i priority account =
    (let (status, available, reason, sortTime) = accountQueueState account now;
         view = (accountViewFromState account cfg now trials)\<lparr>av_CPAPriority := priority\<rparr>;
         class = ClassifyAccount view now;
         waiting = (class = Excluded \<and> available \<and> av_Trial view \<noteq> TrialNone)
     in \<lparr>sa_AuthID = i, sa_CPAPriority = priority,
         sa_SchedulerPriority = aa_SchedulerPriority (as_Annotation account),
         sa_Family = as_Family account,
         sa_QueueStatus = (if waiting then QueueStatusUnavailable else status),
         sa_Available = (if waiting then False else available),
         sa_UnavailableReason = (if waiting then ''quota_probe_wait'' else reason),
         sa_SortTime = (if waiting then ZeroTime else sortTime),
         sa_Annotation = as_Annotation account, sa_selectionClass = class, sa_selectionView = view\<rparr>)"

fun first_candidates :: "string set \<Rightarrow> SchedulerAuthCandidate list \<Rightarrow> SchedulerAuthCandidate list" where
  \<comment> \<open>the \<^verbatim>\<open>seen\<close> map: the first candidate with an id wins\<close>
  "first_candidates seen [] = []"
| "first_candidates seen (c # cs) =
    (if sc_ID c \<in> seen then first_candidates seen cs
     else c # first_candidates (insert (sc_ID c) seen) cs)"

primrec class_rank :: "AvailabilityClass \<Rightarrow> nat" where
  "class_rank Preferred = 0"
| "class_rank Opportunistic = 1"
| "class_rank Excluded = 2"

definition scheduledLess :: "MonthlyMode \<Rightarrow> ScheduledAccount \<Rightarrow> ScheduledAccount \<Rightarrow> bool" where
  "scheduledLess mode left right =
    (if sa_selectionClass left \<noteq> sa_selectionClass right
     then class_rank (sa_selectionClass left) < class_rank (sa_selectionClass right)
     else if sa_selectionClass left \<noteq> Excluded
     then (if sa_CPAPriority left \<noteq> sa_CPAPriority right then sa_CPAPriority left > sa_CPAPriority right
           else accountViewLess (sa_selectionView left) (sa_selectionView right) mode)
     else if sa_SortTime left \<noteq> sa_SortTime right
     then (if IsZero (sa_SortTime left) then False
           else if IsZero (sa_SortTime right) then True
           else Before (sa_SortTime left) (sa_SortTime right))
     else sa_AuthID left < sa_AuthID right)"

definition buildOrderedAccounts ::
  "SchedulerPickRequest \<Rightarrow> StateSnapshot \<Rightarrow> time \<Rightarrow> TrialRegistry option \<Rightarrow> ScheduledAccount list" where
  "buildOrderedAccounts req snapshot now trials =
    (let cfg = ss_Config snapshot
     in case CodexAdmissionFromRequest req (cfg_ScheduleAcrossPriorities cfg) of
          None \<Rightarrow> []
        | Some admission \<Rightarrow>
            let byID = accountsByAuthID (ss_Accounts snapshot);
                admitted = first_candidates {} (filter (\<lambda>c. sc_ID c \<in> ad_AuthIDs admission) (codex_candidates req));
                priority = (\<lambda>c. case highestPriorityByAuthID (ad_Tiers admission) (sc_ID c) of
                                  Some p \<Rightarrow> p | None \<Rightarrow> sc_Priority c);
                ordered = map (\<lambda>c. case gget byID (sc_ID c) of
                                 None \<Rightarrow> unknown_scheduled (sc_ID c) (priority c)
                               | Some account \<Rightarrow> scheduled cfg now trials (sc_ID c) (priority c) account) admitted
            in sort_slice (scheduledLess (cfg_MonthlyMode cfg)) ordered)"

definition BuildOrderedAccounts :: "SchedulerPickRequest \<Rightarrow> StateSnapshot \<Rightarrow> time \<Rightarrow> ScheduledAccount list" where
  "BuildOrderedAccounts req snapshot now = buildOrderedAccounts req snapshot now None"

definition PickCodexAccount :: "SchedulerPickRequest \<Rightarrow> StateSnapshot \<Rightarrow> time \<Rightarrow> PickDecision" where
  "PickCodexAccount req snapshot now =
    (if \<not> cfg_HandleEnabled (ss_Config snapshot) then decision ''handle_disabled''
     else if \<not> requestIncludesCodex req then decision ''provider_not_codex''
     else let ordered = BuildOrderedAccounts req snapshot now
          in if ordered = [] then (decision ''no_codex_candidates'')\<lparr>pd_Ordered := ordered\<rparr>
             else case find sa_Available ordered of
               Some account \<Rightarrow> (decision ''selected'')\<lparr>pd_AuthID := sa_AuthID account, pd_Handled := True,
                                  pd_Ordered := ordered\<rparr>
             | None \<Rightarrow>
                 if cfg_Fallback (ss_Config snapshot) = FallbackFillFirst
                 then (decision ''fallback_fill_first'')\<lparr>pd_Handled := True,
                        pd_DelegateBuiltin := SchedulerBuiltinFillFirst, pd_Ordered := ordered\<rparr>
                 else (decision ''no_selectable_account'')\<lparr>pd_Ordered := ordered\<rparr>)"

end
