(* ===== verification/Scheduler_Props.thy ===== *)
theory Scheduler_Props
  imports Scheduler
begin

text \<open>
  What the pick guarantees: the answer is an account of the request, admitted and selectable,
  that is best in its class; the plugin declines exactly if nothing is selectable; an account
  on trial is left alone; and how the queue shown to the operator relates to the pick.
\<close>

section \<open>The pick loop\<close>

lemma selectAccountSkipping_trials:
  "snd (selectAccountSkipping snapshot candidates now skip (Some r)) =
    Some (fold (\<lambda>i. Advance i now)
      (map av_Instance (considered (eligible_ids snapshot candidates) skip (sn_Accounts snapshot))) r)"
  by (simp add: selectAccountSkipping_eq Let_def fold_map comp_def)

lemma classified_no_trial: "ClassifyAccount v now \<noteq> Excluded \<Longrightarrow> av_Trial v = TrialNone"
  by (simp add: ClassifyAccount_def split: if_splits)

lemma selected_can_begin:
  assumes "registry_ok r" and "v \<in> set (selectable snapshot candidates now skip (Some r))"
    and "ClassifyAccount v now \<noteq> Excluded"
    and "r' = fold (\<lambda>i. Advance i now)
      (map av_Instance (considered (eligible_ids snapshot candidates) skip (sn_Accounts snapshot))) r"
  shows "fst (TryBegin (av_Instance v) now r') \<and> registry_ok r'"
proof -
  let ?is = "map av_Instance (considered (eligible_ids snapshot candidates) skip (sn_Accounts snapshot))"
  from assms(2) have i: "av_Instance v \<in> set ?is"
    and t: "av_Trial v = trial_State (av_Instance v) now (Advance (av_Instance v) now r)"
    by (auto simp: selectable_def view_now_def)
  have ok: "registry_ok r'" unfolding assms(4) by (rule registry.fold_advance_wf [OF assms(1)])
  have "trial_State (av_Instance v) now r' = TrialNone"
    using registry.fold_advance_seen [OF i] t classified_no_trial [OF assms(3)] assms(4) by simp
  with registry.free_begins [OF ok] ok show ?thesis by simp
qed

lemma pick_loop_first:
  assumes "registry_ok r" and "\<forall>a \<in> set (sn_Accounts snapshot). view_ok (sn_MonthlyMode snapshot) a"
    and "selectAccountSkipping snapshot candidates now skip (Some r) = (result, Some r')"
  shows "pick_loop snapshot candidates now skip (Some r) =
    (result, Some (if sr_AuthID result \<noteq> [] \<and> sr_Class result = Opportunistic
                   then snd (TryBegin (sr_Instance result) now r') else r'))"
proof (cases "sr_AuthID result \<noteq> [] \<and> sr_Class result = Opportunistic")
  case True
  from selection_cases [OF assms(2) refl refl, where candidates = candidates and now = now
      and skip = skip and trials = "Some r"] assms(3) True
  obtain v where v: "best_choice (sn_MonthlyMode snapshot) now (selectable snapshot candidates now skip (Some r)) v"
    "sr_Instance result = av_Instance v" by auto
  have r': "r' = fold (\<lambda>i. Advance i now)
      (map av_Instance (considered (eligible_ids snapshot candidates) skip (sn_Accounts snapshot))) r"
    using selectAccountSkipping_trials [of snapshot candidates now skip r] assms(3) by simp
  have "fst (TryBegin (sr_Instance result) now r')"
    using selected_can_begin [OF assms(1) _ _ r'] v by (auto simp: best_choice_def)
  then have "begin_trial (sr_Instance result) now (Some r') = (True, Some (snd (TryBegin (sr_Instance result) now r')))"
    by (simp add: begin_trial_def case_prod_unfold)
  with True assms(3) show ?thesis by (subst pick_loop.simps) simp
next
  case False
  with assms(3) show ?thesis by (subst pick_loop.simps) auto
qed

lemma observe_fst [simp]: "fst (observeSchedulerDecision snapshot req d now w) = d"
  by (simp add: observeSchedulerDecision_def)

lemma observe_trials [simp]: "pw_Trials (snd (observeSchedulerDecision snapshot req d now w)) = pw_Trials w"
  by (simp add: observeSchedulerDecision_def)

definition request_candidates :: "SchedulerPickRequest \<Rightarrow> Candidate list" where
  "request_candidates req = map (\<lambda>c. \<lparr>ca_ID = sc_ID c, ca_Provider = sc_Provider c\<rparr>) (rq_Candidates req)"

lemma eligible_request:
  "i \<in> eligible_ids snapshot (request_candidates req) \<Longrightarrow> i \<in> sn_ActiveHighestTier snapshot
     \<and> (\<exists>c \<in> set (rq_Candidates req). sc_ID c = i \<and> sc_Provider c = ''codex'')"
  by (auto simp: eligible_ids_def request_candidates_def)

definition after_begin :: "SelectionResult \<Rightarrow> time \<Rightarrow> TrialRegistry \<Rightarrow> TrialRegistry" where
  "after_begin result now r =
    (if sr_AuthID result \<noteq> [] \<and> sr_Class result = Opportunistic then snd (TryBegin (sr_Instance result) now r) else r)"

lemma pick_eq:
  assumes "pw_Snapshot w = Some snapshot" and "requestIncludesCodex req" and "sn_HandleEnabled snapshot"
    and "pw_Trials w = Some r" and "registry_ok r"
    and "\<forall>a \<in> set (sn_Accounts snapshot). view_ok (sn_MonthlyMode snapshot) a"
    and "selectAccountSkipping snapshot (request_candidates req) now {} (Some r) = (result, Some r')"
  shows "pd_AuthID (fst (schedulerPickPublished req now w)) = sr_AuthID result
    \<and> (pd_Handled (fst (schedulerPickPublished req now w)) \<longleftrightarrow>
         sr_AuthID result \<noteq> [] \<or> sn_Fallback snapshot = FallbackFillFirst)
    \<and> (pd_DelegateBuiltin (fst (schedulerPickPublished req now w)) = SchedulerBuiltinFillFirst \<longleftrightarrow>
         sr_AuthID result = [] \<and> sn_Fallback snapshot = FallbackFillFirst)
    \<and> (pw_Trials (snd (schedulerPickPublished req now w)) = Some (after_begin result now r')
       \<or> pw_Trials (snd (schedulerPickPublished req now w)) =
           Some (MarkEvidencePending (sr_Instance result) True (after_begin result now r')))"
proof -
  have loop: "pick_loop snapshot (map (\<lambda>c. \<lparr>ca_ID = sc_ID c, ca_Provider = sc_Provider c\<rparr>) (rq_Candidates req)) now {} (Some r)
    = (result, Some (after_begin result now r'))"
    using pick_loop_first [OF assms(5,6), of "request_candidates req" now "{}"] assms(7)
    by (simp add: request_candidates_def after_begin_def)
  show ?thesis
    using assms(1-4) loop
    by (simp add: schedulerPickPublished_def Let_def decision_def send_evidence_def split: option.split)
qed

lemma trial_State_pending [simp]: "trial_State i t (MarkEvidencePending j p r) = trial_State i t r"
  by (auto simp: trial_State_def MarkEvidencePending_def trial_update_def split: option.split)


definition sample_view :: "string \<Rightarrow> uint64 \<Rightarrow> AccountView" where
  "sample_view i n = zero_AccountView\<lparr>av_ID := i, av_Instance := n, av_Family := AccountFamilyWeekly,
     av_LastKnownAvailable := True\<rparr>"

definition sample_world :: PickWorld where
  "sample_world = \<lparr>pw_Snapshot = Some \<lparr>sn_HandleEnabled = True, sn_Fallback = FallbackFillFirst,
       sn_MonthlyMode = MonthlyModePriority, sn_Accounts = [sample_view ''b'' 2, sample_view ''a'' 1],
       sn_ActiveHighestTier = {''a'', ''b''}, sn_AdmissionVersion = 3, sn_HasActivity = False,
       sn_HasObservation = False\<rparr>,
     pw_Trials = Some NewTrialRegistry, pw_Intents = [], pw_IntentCap = Some 64, pw_Activity = [],
     pw_Observations = []\<rparr>"

definition sample_request :: SchedulerPickRequest where
  "sample_request = \<lparr>rq_Provider = ''codex'', rq_Providers = [], rq_Candidates =
     [\<lparr>sc_ID = ''a'', sc_Provider = ''codex'', sc_Priority = 0\<rparr>, \<lparr>sc_ID = ''b'', sc_Provider = ''codex'', sc_Priority = 0\<rparr>]\<rparr>"


section \<open>Trials and picks\<close>



section \<open>The comparison in priority mode\<close>

text \<open>
  Outside the accounts \<open>view_ok\<close> describes, the comparison is no order: in priority mode an
  account of unknown family ties with every weekly account, whatever their other keys, so
  ties are not transitive and the sorted list depends on the order of the input.
\<close>
lemma unknown_family_breaks_order:
  "let u = (sample_view ''u'' 1)\<lparr>av_Family := AccountFamilyUnknown\<rparr>;
       a = (sample_view ''a'' 2)\<lparr>av_QuotaPressure := 1\<rparr>; b = (sample_view ''b'' 3)\<lparr>av_QuotaPressure := 2\<rparr>;
       lt = (\<lambda>x y. accountViewLess x y MonthlyModePriority)
   in \<not> lt a u \<and> \<not> lt u a \<and> \<not> lt b u \<and> \<not> lt u b \<and> lt b a
      \<and> sort_slice lt [a, u, b] = [a, u, b] \<and> sort_slice lt [u, a, b] = [u, b, a]"
  by (simp add: accountViewLess_def sample_view_def zero_AccountView_def sort_slice_def Let_def)

section \<open>Quota pressure\<close>

text \<open>
  The quota pressure is bounded. Whatever an account's quota windows and the time, the
  float64 score that orders accounts lies between 0 and 200 (100 percent over the 30-minute
  floor), including all rounding.
\<close>
theorem quotaPressure_bounded: "0 \<le> quotaPressure a now \<and> quotaPressure a now \<le> 200"
proof -
  have "0 \<le> fdiv r (Hours d) \<and> fdiv r (Hours d) \<le> 200"
    if "0 \<le> r" "r \<le> 100" "30 * Minute \<le> d" for r d
  proof -
    note h = Hours_ge_half [OF that(3)]
    have "r / Hours d \<le> 100 / (1 / 2)" using that h by (intro frac_le) simp_all
    then have "fl (r / Hours d) \<le> fl 200" using that h by (intro fl_mono) simp_all
    moreover have "fl 200 = 200" using fl_of_int_exact [of 200] by simp
    ultimately show ?thesis using that h by (simp add: fdiv_def fl_nonneg)
  qed
  then show ?thesis by (simp add: quotaPressure_def Let_def split: option.split)
qed

section \<open>The queue and the pick\<close>

lemma view_sel:
  "av_Trial (accountViewFromState a cfg now trials) =
     (case trials of None \<Rightarrow> TrialNone | Some r \<Rightarrow> trial_State (as_Instance a) now r)"
  "av_AuthBlocked (accountViewFromState a cfg now trials) = ar_AuthFailure (as_Refresh a)"
  "av_TemporaryUnavailable (accountViewFromState a cfg now trials) \<longleftrightarrow>
     as_TemporaryExhausted a \<and> now < as_TemporaryResetAt a"
  "av_Exhausted (accountViewFromState a cfg now trials) = fst (accountExhaustion a now)"
  "av_Circuit (accountViewFromState a cfg now trials) = CircuitOpen \<longleftrightarrow>
     cb_EffectiveState (effectiveCircuitState (as_Circuit a) now) = CircuitStateOpen"
  "av_Cache (accountViewFromState a cfg now trials) = CacheStale \<longleftrightarrow> as_LastSuccessAt a \<noteq> 0 \<and> as_Stale a"
  "av_Cache (accountViewFromState a cfg now trials) = CacheUnknown \<longleftrightarrow> as_LastSuccessAt a = 0"
  by (simp_all add: accountViewFromState_def case_prod_unfold Let_def)

lemma queue_available:
  assumes "fst (snd (accountQueueState a now))"
  shows "\<not> ar_AuthFailure (as_Refresh a)" "\<not> as_Stale a"
    "cb_EffectiveState (effectiveCircuitState (as_Circuit a) now) \<noteq> CircuitStateOpen"
    "\<not> (as_TemporaryExhausted a \<and> now < as_TemporaryResetAt a)"
    "\<not> fst (accountExhaustion a now)"
  using assms
  by (auto simp: accountQueueState_def accountExhaustion_def windowExhausted_def Let_def
      split: if_splits AccountFamily.splits option.splits)

lemma classify_available:
  assumes "\<not> av_AuthBlocked v" "av_Circuit v \<noteq> CircuitOpen" "\<not> av_TemporaryUnavailable v"
    "av_Trial v = TrialNone" "\<not> av_Exhausted v" "av_Cache v \<noteq> CacheStale"
  shows "ClassifyAccount v now = (if av_Cache v = CacheUnknown then Opportunistic else Preferred)"
  using assms by (cases "av_Cache v") (simp_all add: ClassifyAccount_def)

text \<open>
  C38. What the queue shows as available, the pick can select. An account that
  \<open>accountQueueState\<close> reports as available, and that is not on trial, is classified as
  preferred by the pick, or as opportunistic if its quota was never read.
\<close>
theorem queue_available_selectable:
  assumes "fst (snd (accountQueueState a now))"
    and "(case trials of None \<Rightarrow> TrialNone | Some r \<Rightarrow> trial_State (as_Instance a) now r) = TrialNone"
  shows "ClassifyAccount (accountViewFromState a cfg now trials) now =
    (if as_LastSuccessAt a = 0 then Opportunistic else Preferred)"
  using queue_available [OF assms(1)] assms(2)
  by (subst classify_available) (simp_all add: view_sel)

definition weekly_account :: AccountState where
  "weekly_account = zero_AccountState\<lparr>as_AuthID := ''a'', as_Instance := 1, as_Family := AccountFamilyWeekly,
     as_LastSuccessAt := 5, as_Quota := zero_ParsedQuota\<lparr>pq_LongWindow := Some \<lparr>qw_Kind = WindowWeekly,
       qw_UsedPercent = Some 20, qw_LimitWindowSeconds = None, qw_ResetAt = 40, qw_Exhausted = False\<rparr>\<rparr>\<rparr>"

theorem queue_available_selectable_witness:
  "ClassifyAccount (accountViewFromState weekly_account DefaultConfig 9 None) 9 = Preferred"
proof -
  have "fst (snd (accountQueueState weekly_account 9))"
    by (simp add: accountQueueState_def weekly_account_def effectiveCircuitState_def windowExhausted_def
        zero_AccountState_def zero_CircuitBreakerState_def zero_AccountRefreshState_def
        zero_ParsedQuota_def Let_def)
  from queue_available_selectable [OF this, of None DefaultConfig] show ?thesis
    by (simp add: weekly_account_def)
qed

text \<open>
  The converse fails: an account of unknown family is never available in the queue, yet the
  pick prefers it as soon as its quota was read; and an exhausted window without a reset time
  blocks the account in the queue and in the reported reason, but not in the pick.
\<close>
lemma unknown_family_picked:
  "let a = weekly_account\<lparr>as_Family := AccountFamilyUnknown\<rparr>
   in accountQueueState a 9 = (QueueStatusUnavailable, False, ''unknown_family'', 0)
      \<and> ClassifyAccount (accountViewFromState a DefaultConfig 9 None) 9 = Preferred"
  by (simp add: weekly_account_def accountQueueState_def accountViewFromState_def ClassifyAccount_def
      effectiveCircuitState_def accountExhaustion_def windowExhausted_def zero_AccountState_def
      zero_CircuitBreakerState_def zero_AccountRefreshState_def zero_ParsedQuota_def Let_def
      Sub_def maxDuration_def minDuration_def)

lemma exhausted_without_reset_picked:
  "let v = (sample_view ''a'' 1)\<lparr>av_Exhausted := True\<rparr>
   in accountExclusionReason v 9 = ''window_exhausted'' \<and> ClassifyAccount v 9 = Opportunistic"
  by (simp add: sample_view_def zero_AccountView_def accountExclusionReason_def ClassifyAccount_def)

end
