(* ===== verification/State_Props.thy ===== *)
theory State_Props
  imports Plugin_State
begin

text \<open>
  What the methods of the plugin state guarantee: the account map stays keyed under every
  sequence of calls; admission fences out writebacks of an older roster; the refresh loop's
  view is independent of map iteration order and misses no deadline; logs stay bounded.
\<close>

section \<open>Admission\<close>

definition admission_wf :: "CPAAdmissionState \<Rightarrow> bool" where
  "admission_wf v \<longleftrightarrow> finite (ad_AuthIDs v) \<and> (\<forall>t \<in> set (ad_Tiers v). finite (ta_AuthIDs t))"

definition tiers_disjoint :: "TierAdmission list \<Rightarrow> bool" where
  "tiers_disjoint tiers \<longleftrightarrow>
     (\<forall>i < length tiers. \<forall>j < length tiers. i \<noteq> j \<longrightarrow> ta_AuthIDs (tiers ! i) \<inter> ta_AuthIDs (tiers ! j) = {})"

lemma equal_tier_eq: "finite (ta_AuthIDs b) \<Longrightarrow> equal_tier a b \<longleftrightarrow> a = b"
  by (auto simp: equal_tier_def intro!: TierAdmission.equality dest: card_subset_eq)

lemma list_all2_eq_finite:
  "\<forall>t \<in> set ys. finite (ta_AuthIDs t) \<Longrightarrow> list_all2 equal_tier xs ys \<longleftrightarrow> xs = ys"
  by (induction ys arbitrary: xs) (auto simp: list_all2_Cons2 equal_tier_eq)

lemma equalCPAAdmission_eq:
  assumes "admission_wf v"
  shows "equalCPAAdmission u v \<longleftrightarrow> u = v"
proof
  assume e: "equalCPAAdmission u v"
  have "ad_AuthIDs u = ad_AuthIDs v"
    using e assms by (auto simp: equalCPAAdmission_def admission_wf_def dest: card_subset_eq)
  moreover have "ad_Tiers u = ad_Tiers v"
    using e assms list_all2_eq_finite [of "ad_Tiers v" "ad_Tiers u"]
    by (simp add: equalCPAAdmission_def admission_wf_def)
  ultimately show "u = v"
    using e by (auto simp: equalCPAAdmission_def intro!: CPAAdmissionState.equality)
next
  assume "u = v"
  with list_all2_eq_finite [of "ad_Tiers v" "ad_Tiers v"] assms show "equalCPAAdmission u v"
    by (simp add: equalCPAAdmission_def admission_wf_def)
qed

lemma cloneCPAAdmission_id [simp, clone_simps]: "cloneCPAAdmission v = v"
  by (simp add: cloneCPAAdmission_def map_idI)

lemma priorityByAuthID_find:
  "priorityByAuthID tiers i = map_option ta_Priority (find (\<lambda>t. i \<in> ta_AuthIDs t) (rev tiers))"
proof (induction tiers rule: rev_induct)
  case (snoc t tiers)
  then show ?case by (simp add: priorityByAuthID_def)
qed (simp add: priorityByAuthID_def)

lemma find_unique_rev:
  assumes "\<And>x y. x \<in> set xs \<Longrightarrow> y \<in> set xs \<Longrightarrow> P x \<Longrightarrow> P y \<Longrightarrow> x = y"
  shows "find P (rev xs) = find P xs"
proof (cases "find P xs")
  case None
  then have "find P (rev xs) = None" by (simp add: find_None_iff)
  with None show ?thesis by simp
next
  case (Some x)
  then have x: "x \<in> set xs" "P x" using find_SomeD by fast+
  then obtain y where y: "find P (rev xs) = Some y"
    by (cases "find P (rev xs)") (auto simp: find_None_iff)
  then have "y \<in> set xs" "P y" using find_SomeD by fastforce+
  with assms x Some y show ?thesis by metis
qed

lemma tiers_disjoint_unique:
  "tiers_disjoint tiers \<Longrightarrow> t \<in> set tiers \<Longrightarrow> u \<in> set tiers \<Longrightarrow> i \<in> ta_AuthIDs t \<Longrightarrow> i \<in> ta_AuthIDs u \<Longrightarrow> t = u"
  unfolding tiers_disjoint_def in_set_conv_nth by blast

lemma priorityByAuthID_disjoint:
  "tiers_disjoint tiers \<Longrightarrow>
   priorityByAuthID tiers i = map_option ta_Priority (find (\<lambda>t. i \<in> ta_AuthIDs t) tiers)"
  by (subst priorityByAuthID_find, subst find_unique_rev) (auto dest: tiers_disjoint_unique)

lemma ReplaceCPAAdmission_accounts:
  assumes "state_wf s" and "admission_wf v" and "ad_Observed v" and "ps_cpaAdmission s \<noteq> v"
  shows "gget (ps_accounts (snd (ReplaceCPAAdmission v s))) k =
    (case gget (ps_accounts s) k of
       None \<Rightarrow> None
     | Some a \<Rightarrow> if as_AuthID a \<in> ad_AuthIDs v then Some (admitted_account v a) else None)"
  using assms
  by (simp add: ReplaceCPAAdmission_def Let_def equalCPAAdmission_eq go_simps gget_filter_wf
      state_wf_def split: option.split)

lemma ReplaceCPAAdmission_version:
  assumes "admission_wf v" and "ps_cpaAdmission s \<noteq> v"
  shows "ps_cpaAdmissionVersion (snd (ReplaceCPAAdmission v s)) = ps_cpaAdmissionVersion s + 1"
    and "ps_cpaAdmission (snd (ReplaceCPAAdmission v s)) = v"
  using assms by (simp_all add: ReplaceCPAAdmission_def Let_def equalCPAAdmission_eq)

lemma stale_version_blocked:
  "ps_cpaAdmissionVersion s \<noteq> version \<Longrightarrow> \<not> admissionCurrentLocked s i version"
  by (simp add: admissionCurrentLocked_def)

lemma admitted_account_priority:
  assumes "tiers_disjoint (ad_Tiers v)" and "ps_cpaAdmission s = v"
  shows "as_Priority (admitted_account v a) = admissionPriorityLocked s (as_AuthID a)"
  using assms
  by (auto simp: admitted_account_def admissionPriorityLocked_def priorityByAuthID_disjoint
      split: option.split)

text \<open>
  C33. A roster admission takes effect at once. Replacing the admission by a different
  observed one bumps the version, drops exactly the accounts the new admission does not list,
  gives every remaining account the priority that \<open>admissionPriorityLocked\<close> reports for it,
  and from then on no writeback begun under the old version (refresh success, refresh
  failure, log) changes the state.
\<close>
theorem ReplaceCPAAdmission_fences:
  assumes "state_wf s" and "admission_wf v" and "ad_Observed v" and "ps_cpaAdmission s \<noteq> v"
    and "tiers_disjoint (ad_Tiers v)"
    and "s' = snd (ReplaceCPAAdmission v s)" and "old = ps_cpaAdmissionVersion s"
  shows "(\<forall>k a. gget (ps_accounts s') k = Some a \<longleftrightarrow>
            (\<exists>b. gget (ps_accounts s) k = Some b \<and> as_AuthID b \<in> ad_AuthIDs v
                 \<and> a = b\<lparr>as_Priority := admissionPriorityLocked s' (as_AuthID b)\<rparr>))
    \<and> (\<forall>clock a n k m. ApplyQuotaRefreshSuccessIfAdmissionCurrent clock a old n s' = (False, s')
         \<and> ApplyQuotaRefreshFailureIfAdmissionCurrent clock a old k m n s' = (False, s'))
    \<and> (\<forall>clock i l e m f n. RecordLogIfAdmissionCurrent clock i old l e m f n s' = (False, s'))"
proof (intro conjI allI)
  note v = ReplaceCPAAdmission_version [OF assms(2,4), folded assms(6)]
  have adm: "admitted_account v b = b\<lparr>as_Priority := admissionPriorityLocked s' (as_AuthID b)\<rparr>" for b
  proof -
    have "admitted_account v b = b\<lparr>as_Priority := as_Priority (admitted_account v b)\<rparr>"
      by (simp add: admitted_account_def split: option.split)
    with admitted_account_priority [OF assms(5) v(2)] show ?thesis by simp
  qed
  show "gget (ps_accounts s') k = Some a \<longleftrightarrow>
    (\<exists>b. gget (ps_accounts s) k = Some b \<and> as_AuthID b \<in> ad_AuthIDs v
      \<and> a = b\<lparr>as_Priority := admissionPriorityLocked s' (as_AuthID b)\<rparr>)" for k a
    using ReplaceCPAAdmission_accounts [OF assms(1-4), of k] adm
    by (auto simp: assms(6) split: option.splits if_splits)
  have "old \<noteq> ps_cpaAdmissionVersion s'"
    using v(1) assms(7) by simp
  note blocked = stale_version_blocked [OF this [symmetric]]
  show "ApplyQuotaRefreshSuccessIfAdmissionCurrent clock a old n s' = (False, s')"
    "ApplyQuotaRefreshFailureIfAdmissionCurrent clock a old k m n s' = (False, s')"
    "RecordLogIfAdmissionCurrent clock i old l e m f n s' = (False, s')" for clock a n k m i l e f
    by (simp_all add: ApplyQuotaRefreshSuccessIfAdmissionCurrent_def
        ApplyQuotaRefreshFailureIfAdmissionCurrent_def RecordLogIfAdmissionCurrent_def Let_def blocked)
qed

definition sample_account :: "string \<Rightarrow> int \<Rightarrow> AccountState" where
  "sample_account i p = zero_AccountState\<lparr>as_AuthID := i, as_Priority := p\<rparr>"

definition sample_state :: PluginState where
  "sample_state = UpsertQuota (sample_account ''x'' 1) (UpsertQuota (sample_account ''y'' 2) (NewPluginState DefaultConfig))"

definition sample_admission :: CPAAdmissionState where
  "sample_admission = \<lparr>ad_Observed = True, ad_Priority = 5, ad_AuthIDs = {''x''}, ad_Tiers = []\<rparr>"

lemma sample_state_wf: "state_wf sample_state"
  by (simp add: sample_state_def state_wf_account_methods(1))

lemma sample_state_sel [simp]:
  "ps_cpaAdmission sample_state = zero_CPAAdmissionState" "ps_cpaAdmissionVersion sample_state = 0"
  by (simp_all add: sample_state_def UpsertQuota_def put_account_def NewPluginState_def Let_def)

theorem ReplaceCPAAdmission_fences_witness:
  "let s' = snd (ReplaceCPAAdmission sample_admission sample_state)
   in ApplyQuotaRefreshSuccessIfAdmissionCurrent 1 (sample_account ''x'' 1) 0 7 s' = (False, s')"
  using ReplaceCPAAdmission_fences [OF sample_state_wf, of sample_admission _ 0]
  by (simp add: admission_wf_def sample_admission_def tiers_disjoint_def zero_CPAAdmissionState_def Let_def)

text \<open>
  The tiers must be disjoint for the priorities to agree: for an id listed in two tiers
  \<open>ReplaceCPAAdmission\<close> stores the priority of the last tier, the lowest one, while
  \<open>AdmittedCPAPriority\<close> and \<open>admissionPriorityLocked\<close> report that of the first, the highest.
\<close>
lemma overlapping_tiers_disagree:
  "let v = \<lparr>ad_Observed = True, ad_Priority = 10, ad_AuthIDs = {''x''},
             ad_Tiers = [\<lparr>ta_Priority = 10, ta_AuthIDs = {''x''}\<rparr>, \<lparr>ta_Priority = 5, ta_AuthIDs = {''x''}\<rparr>]\<rparr>;
       s' = snd (ReplaceCPAAdmission v sample_state)
   in map_option as_Priority (gget (ps_accounts s') ''auth:x'') = Some 5 \<and> AdmittedCPAPriority s' ''x'' = (10, True)"
  by (simp add: ReplaceCPAAdmission_def equalCPAAdmission_def zero_CPAAdmissionState_def sample_state_def
      UpsertQuota_def put_account_def NewPluginState_def accountStateKey_def sample_account_def
      forget_refresh_failure_def zero_AccountState_def admitted_account_def priorityByAuthID_def
      gmap_vals_def AdmittedCPAPriority_def AdmittedCPAPriorityVersioned_def Let_def)

section \<open>Every sequence of calls\<close>

text \<open>
  C32. The account map stays keyed. Whatever methods of the plugin state are called, in
  whatever order and with whatever arguments (configuration reloads, roster admissions,
  refresh results, usage feedback, observations, journals of transactions), no two
  entries share a key, every entry is stored under its own \<open>accountStateKey\<close>, which is not
  empty, and the configuration stays normalised.
\<close>
theorem plugin_state_stays_keyed:
  "state_wf (run (state_step clock) (NewPluginState cfg) es)"
  by (rule plugin.run_inv) simp

section \<open>The refresh queue\<close>

lemma due_account_ids: "due_account cfg now a = Some b \<Longrightarrow> same_ids b a"
  by (auto simp: due_account_def Let_def same_ids_def split: prod.splits if_splits)

lemma mset_map_filter_cong: "mset xs = mset ys \<Longrightarrow> mset (List.map_filter f xs) = mset (List.map_filter f ys)"
  by (simp add: map_filter_def mset_filter image_mset_filter_mset_swap)

lemma inj_on_key_due:
  assumes "state_wf s"
  shows "inj_on accountStateKey (set (List.map_filter (\<lambda>(k, a). due_account cfg now a) (ps_accounts s)))"
proof (rule inj_onI)
  fix x y
  assume "x \<in> set (List.map_filter (\<lambda>(k, a). due_account cfg now a) (ps_accounts s))"
    "y \<in> set (List.map_filter (\<lambda>(k, a). due_account cfg now a) (ps_accounts s))"
    and eq: "accountStateKey x = accountStateKey y"
  then obtain k a l b where ab: "(k, a) \<in> set (ps_accounts s)" "due_account cfg now a = Some x"
    "(l, b) \<in> set (ps_accounts s)" "due_account cfg now b = Some y"
    by (force simp: map_filter_def)
  then have "accountStateKey a = accountStateKey b"
    using eq same_ids_key [OF due_account_ids] by metis
  moreover have "a \<in> snd ` set (ps_accounts s)" "b \<in> snd ` set (ps_accounts s)"
    using ab(1,3) by (metis image_eqI snd_conv)+
  ultimately have "a = b" by (rule inj_onD [OF inj_on_key [OF assms]])
  with ab(2,4) show "x = y" by (simp only: option.inject)
qed

text \<open>
  The refresh queue does not depend on Go's map iteration order. If two states differ
  only in the order in which the account map is visited, \<open>DueAccounts\<close> returns the same list
  for both: all due accounts, sorted by descending priority and then by key.
\<close>
theorem DueAccounts_order_independent:
  assumes "state_wf s" and "mset (ps_accounts s') = mset (ps_accounts s)" and "ps_cfg s' = ps_cfg s"
  shows "DueAccounts clock s' now = DueAccounts clock s now
    \<and> sorted_wrt (\<lambda>a b. \<not> due_less b a) (DueAccounts clock s now)"
proof -
  let ?f = "\<lambda>(k :: string, a). due_account (NormalizeConfig (ps_cfg s)) (or_now clock now) a"
  let ?xs = "List.map_filter ?f (ps_accounts s)" and ?ys = "List.map_filter ?f (ps_accounts s')"
  have "sort_slice due_less ?ys = sort_slice due_less ?xs"
  proof (rule by_due.sort_slice_unique)
    show "mset (sort_slice due_less ?ys) = mset ?xs"
      using mset_map_filter_cong [OF assms(2), of ?f] by simp
    show "sorted_wrt (\<lambda>a b. \<not> due_less b a) (sort_slice due_less ?ys)"
      by (rule by_due.sorted_sort_slice) simp
  qed (use inj_on_key_due [OF assms(1)] in simp_all)
  then show ?thesis
    by (simp add: DueAccounts_def Let_def assms(3) by_due.sorted_sort_slice)
qed

theorem DueAccounts_order_independent_witness:
  "DueAccounts 1 (sample_state\<lparr>ps_accounts := rev (ps_accounts sample_state)\<rparr>) 9 = DueAccounts 1 sample_state 9"
  using DueAccounts_order_independent [OF sample_state_wf,
      of "sample_state\<lparr>ps_accounts := rev (ps_accounts sample_state)\<rparr>" 1 9]
  by simp

section \<open>The wake-up time of the refresh loop\<close>

lemma consider_step:
  fixes t :: time
  assumes "0 < now" and "nxt = 0 \<or> now \<le> nxt"
  defines "n \<equiv> consider_deadline now t nxt"
  shows "n = 0 \<or> now \<le> n"
    and "nxt \<noteq> 0 \<Longrightarrow> n \<noteq> 0 \<and> n \<le> nxt"
    and "t \<noteq> 0 \<Longrightarrow> n \<noteq> 0 \<and> n \<le> max t now"
    and "n \<noteq> nxt \<Longrightarrow> t \<noteq> 0 \<and> n = max t now"
  using assms(1,2) by (auto simp: n_def consider_deadline_def Let_def max_def split: if_splits)

lemma consider_ge:
  "0 < now \<Longrightarrow> nxt = 0 \<or> now \<le> nxt \<Longrightarrow>
   fold (consider_deadline now) ts nxt = 0 \<or> now \<le> fold (consider_deadline now) ts nxt"
proof (induction ts arbitrary: nxt)
  case (Cons u ts)
  from Cons.IH [OF Cons.prems(1) consider_step(1) [OF Cons.prems]] show ?case by simp
qed simp

lemma consider_le_start:
  "0 < now \<Longrightarrow> nxt \<noteq> 0 \<Longrightarrow> now \<le> nxt \<Longrightarrow>
   fold (consider_deadline now) ts nxt \<noteq> 0 \<and> fold (consider_deadline now) ts nxt \<le> nxt"
proof (induction ts arbitrary: nxt)
  case (Cons u ts)
  have "consider_deadline now u nxt \<noteq> 0" "consider_deadline now u nxt \<le> nxt" "now \<le> consider_deadline now u nxt"
    using consider_step(1,2) [of now nxt u] Cons.prems by auto
  with Cons.IH [of "consider_deadline now u nxt"] Cons.prems(1) show ?case by simp
qed simp

lemma consider_le_element:
  "0 < now \<Longrightarrow> nxt = 0 \<or> now \<le> nxt \<Longrightarrow> t \<in> set ts \<Longrightarrow> t \<noteq> 0 \<Longrightarrow>
   fold (consider_deadline now) ts nxt \<noteq> 0 \<and> fold (consider_deadline now) ts nxt \<le> max t now"
proof (induction ts arbitrary: nxt)
  case (Cons u ts)
  let ?n = "consider_deadline now u nxt"
  note n = consider_step [OF Cons.prems(1,2), of u]
  show ?case
  proof (cases "t = u")
    case True
    with n(1,3) Cons.prems(4) have "?n \<noteq> 0" "now \<le> ?n" "?n \<le> max t now" by auto
    with consider_le_start [OF Cons.prems(1), of ?n ts] show ?thesis by simp
  next
    case False
    with Cons.IH [OF Cons.prems(1) n(1)] Cons.prems(3,4) show ?thesis by simp
  qed
qed simp

lemma consider_origin:
  "0 < now \<Longrightarrow> nxt = 0 \<or> now \<le> nxt \<Longrightarrow> fold (consider_deadline now) ts nxt \<noteq> nxt \<Longrightarrow>
    \<exists>t \<in> set ts. t \<noteq> 0 \<and> fold (consider_deadline now) ts nxt = max t now"
proof (induction ts arbitrary: nxt)
  case (Cons u ts)
  let ?n = "consider_deadline now u nxt"
  note n = consider_step [OF Cons.prems(1,2), of u]
  show ?case
  proof (cases "fold (consider_deadline now) ts ?n = ?n")
    case True
    with Cons.prems(3) have "?n \<noteq> nxt" by simp
    with n(4) True show ?thesis by simp
  next
    case False
    from Cons.IH [OF Cons.prems(1) n(1) False] show ?thesis by auto
  qed
qed simp

definition interval_reasons :: "string list" where
  \<comment> \<open>reasons that depend on the age of the data only; the loop polls for them\<close>
  "interval_reasons = [''never_refreshed'', ''stale'', ''refresh_interval_due'']"

lemma reset_trigger_in:
  assumes "resetDue w (cfg_RefreshAfterResetDelay cfg) (as_LastSuccessAt a) u"
    and "w = pq_FiveHour (as_Quota a) \<or> w = pq_LongWindow (as_Quota a)"
  shows "\<exists>t \<in> set (reset_triggers cfg a). t \<noteq> 0 \<and> t \<le> u"
proof -
  from assms(1) obtain x where x: "w = Some x" "qw_ResetAt x \<noteq> 0"
    "refreshTriggerPending (as_LastSuccessAt a) (qw_ResetAt x + cfg_RefreshAfterResetDelay cfg)"
    "qw_ResetAt x + cfg_RefreshAfterResetDelay cfg \<le> u"
    by (auto simp: resetDue_def Let_def split: option.splits if_splits)
  then have "qw_ResetAt x + cfg_RefreshAfterResetDelay cfg \<in> set (reset_triggers cfg a)"
    using assms(2) by (auto simp: reset_triggers_def Let_def)
  then show ?thesis using x(3,4) unfolding refreshTriggerPending_def by blast
qed

lemma probe_trigger_in:
  assumes "resetProbeDueAny (as_ResetProbes a) u" and "cfg_EnableResetProbe cfg"
  shows "\<exists>t \<in> set (reset_triggers cfg a). t \<noteq> 0 \<and> t \<le> u"
proof -
  from assms(1) obtain k p where "(k, p) \<in> set (as_ResetProbes a)" "resetProbeDue p u"
    by (auto simp: resetProbeDueAny_def list_ex_iff)
  with assms(2) show ?thesis
    by (intro bexI [of _ "rp_NextCheckAt p"]) (auto simp: resetProbeDue_def reset_triggers_def Let_def image_iff)
qed

lemma due_has_deadline:
  assumes "accountRefreshDue a cfg u = (True, reason)" and "reason \<notin> set interval_reasons"
  shows "\<exists>t \<in> set (account_deadlines (NormalizeConfig cfg) a). t \<noteq> 0 \<and> t \<le> u"
proof -
  let ?cfg = "NormalizeConfig cfg"
  let ?ls = "as_LastSuccessAt a" and ?d = "cfg_RefreshAfterResetDelay ?cfg"
  note due = assms(1) [unfolded accountRefreshDue_def Let_def]
  have nl: "ar_LastFailureKind (as_Refresh a) \<noteq> RefreshFailureLocal"
    using due by (auto split: if_splits)
  show ?thesis
  proof (cases "cb_NextProbeAt (as_Circuit a) \<noteq> 0 \<or> ar_NextRetryAt (as_Refresh a) \<noteq> 0")
    case True
    with due nl show ?thesis by (auto simp: account_deadlines_def split: if_splits)
  next
    case False
    with due assms(2) nl have ls: "?ls \<noteq> 0"
      by (auto simp: interval_reasons_def split: if_splits)
    with False nl have dl: "account_deadlines ?cfg a = reset_triggers ?cfg a"
      by (simp add: account_deadlines_def)
    from due assms(2) False nl ls consider
      "cfg_EnableResetProbe ?cfg" "resetProbeDueAny (as_ResetProbes a) u"
      | "resetDue (pq_FiveHour (as_Quota a)) ?d ?ls u"
      | "resetDue (pq_LongWindow (as_Quota a)) ?d ?ls u"
      | "as_TemporaryExhausted a" "as_TemporaryResetAt a \<noteq> 0"
        "refreshTriggerPending ?ls (as_TemporaryResetAt a + ?d)" "as_TemporaryResetAt a + ?d \<le> u"
      by (auto simp: interval_reasons_def split: if_splits)
    then show ?thesis
    proof cases
      case 4
      then show ?thesis unfolding dl
        by (intro bexI [of _ "as_TemporaryResetAt a + ?d"])
          (auto simp: reset_triggers_def Let_def refreshTriggerPending_def)
    qed (use dl probe_trigger_in reset_trigger_in in auto)
  qed
qed

text \<open>
  The refresh loop misses no deadline. While the plugin is active, suppose some account
  becomes due at a time \<open>u\<close>, not before now, for a deadline reason (breaker probe, retry,
  reset of a window, end of a temporary exhaustion, reset-probe check). Then the wake-up
  time \<open>NextRefreshDueAt\<close> computed now is set and is not after \<open>u\<close>.
\<close>
theorem NextRefreshDueAt_no_missed_deadline:
  assumes "RefreshActive clock s now" and "0 < now" and "now \<le> u"
    and "(key, a) \<in> set (ps_accounts s)"
    and "accountRefreshDue a (ps_cfg s) u = (True, reason)" and "reason \<notin> set interval_reasons"
  shows "NextRefreshDueAt clock s now \<noteq> 0 \<and> now \<le> NextRefreshDueAt clock s now
    \<and> NextRefreshDueAt clock s now \<le> u"
proof -
  let ?cfg = "NormalizeConfig (ps_cfg s)"
  let ?ts = "concat (map (\<lambda>(key, account). account_deadlines ?cfg account) (ps_accounts s))"
  have eq: "NextRefreshDueAt clock s now = fold (consider_deadline now) ?ts 0"
    using assms(1,2) by (auto simp: NextRefreshDueAt_def RefreshActive_def or_now_def Let_def)
  from due_has_deadline [OF assms(5,6)] obtain t where t: "t \<in> set (account_deadlines ?cfg a)" "t \<noteq> 0" "t \<le> u"
    by blast
  with assms(4) have "t \<in> set ?ts" by force
  from consider_le_element [OF assms(2) _ this t(2), of 0] consider_ge [OF assms(2), of 0 ?ts] t(3) assms(3)
  show ?thesis unfolding eq by auto
qed

theorem NextRefreshDueAt_no_missed_deadline_witness:
  "NextRefreshDueAt 0 ((NewPluginState DefaultConfig)\<lparr>ps_lastCodexActivityAt := 1,
      ps_accounts := [(''auth:x'', (sample_account ''x'' 1)\<lparr>as_Refresh :=
        zero_AccountRefreshState\<lparr>ar_NextRetryAt := 50\<rparr>\<rparr>)]\<rparr>) 2 \<le> 60"
  using NextRefreshDueAt_no_missed_deadline [of 0 "(NewPluginState DefaultConfig)\<lparr>ps_lastCodexActivityAt := 1,
      ps_accounts := [(''auth:x'', (sample_account ''x'' 1)\<lparr>as_Refresh :=
        zero_AccountRefreshState\<lparr>ar_NextRetryAt := 50\<rparr>\<rparr>)]\<rparr>" 2 60 "''auth:x''"
      "(sample_account ''x'' 1)\<lparr>as_Refresh := zero_AccountRefreshState\<lparr>ar_NextRetryAt := 50\<rparr>\<rparr>" "''retry_due''"]
  by (simp add: RefreshActive_def or_now_def NewPluginState_def NormalizeConfig_id DefaultConfig_wf
      accountRefreshDue_def Let_def zero_AccountRefreshState_def sample_account_def
      zero_AccountState_def zero_CircuitBreakerState_def interval_reasons_def)

lemma trigger_fires:
  assumes "t \<in> set (reset_triggers (NormalizeConfig cfg) a)" and "t \<noteq> 0" and "t \<le> u"
    and "ar_LastFailureKind (as_Refresh a) \<noteq> RefreshFailureLocal"
    and "cb_NextProbeAt (as_Circuit a) = 0" and "ar_NextRetryAt (as_Refresh a) = 0"
  shows "fst (accountRefreshDue a cfg u)"
proof -
  let ?cfg = "NormalizeConfig cfg"
  let ?ls = "as_LastSuccessAt a" and ?d = "cfg_RefreshAfterResetDelay ?cfg"
  from assms(1-3) have
    "cfg_EnableResetProbe ?cfg \<and> resetProbeDueAny (as_ResetProbes a) u
     \<or> resetDue (pq_FiveHour (as_Quota a)) ?d ?ls u \<or> resetDue (pq_LongWindow (as_Quota a)) ?d ?ls u
     \<or> as_TemporaryExhausted a \<and> as_TemporaryResetAt a \<noteq> 0
        \<and> refreshTriggerPending ?ls (as_TemporaryResetAt a + ?d) \<and> as_TemporaryResetAt a + ?d \<le> u"
    unfolding reset_triggers_def Let_def
    by (auto simp del: NormalizeConfig_sel simp: resetDue_def resetProbeDueAny_def list_ex_iff
        resetProbeDue_def Let_def split: option.splits if_splits)
  with assms(4-6) show ?thesis
    by (auto simp del: NormalizeConfig_sel simp: accountRefreshDue_def Let_def not_less)
qed

definition circuit_coherent :: "CircuitBreakerState \<Rightarrow> bool" where
  "circuit_coherent c \<longleftrightarrow> cb_NextProbeAt c \<noteq> 0 \<longrightarrow>
     cb_State c = CircuitStateOpen \<or> cb_EffectiveState c = CircuitStateHalfOpen \<or> 0 < cb_FailureCount c"

lemma deadline_fires:
  assumes "t \<in> set (account_deadlines (NormalizeConfig cfg) a)" and "t \<noteq> 0" and "t \<le> u"
    and "circuit_coherent (as_Circuit a)"
  shows "fst (accountRefreshDue a cfg u)"
proof (cases "cb_NextProbeAt (as_Circuit a) = 0 \<and> ar_NextRetryAt (as_Refresh a) = 0")
  case True
  with assms(1) have "t \<in> set (reset_triggers (NormalizeConfig cfg) a)"
    "ar_LastFailureKind (as_Refresh a) \<noteq> RefreshFailureLocal"
    by (auto simp: account_deadlines_def split: if_splits)
  with trigger_fires assms(2,3) True show ?thesis by blast
next
  case False
  with assms show ?thesis
    by (auto simp: accountRefreshDue_def account_deadlines_def circuit_coherent_def Let_def split: if_splits)
qed

text \<open>
  Wake-ups are productive. When \<open>NextRefreshDueAt\<close> returns a time, it is not in the past,
  and at that time some account of the state really is due for a refresh.
\<close>
theorem NextRefreshDueAt_productive:
  assumes "0 < now" and "NextRefreshDueAt clock s now = t" and "t \<noteq> 0"
    and "\<forall>(key, a) \<in> set (ps_accounts s). circuit_coherent (as_Circuit a)"
  shows "now \<le> t \<and> (\<exists>(key, a) \<in> set (ps_accounts s). fst (accountRefreshDue a (ps_cfg s) t))"
proof -
  let ?cfg = "NormalizeConfig (ps_cfg s)"
  let ?ts = "concat (map (\<lambda>(key, account). account_deadlines ?cfg account) (ps_accounts s))"
  have eq: "t = fold (consider_deadline now) ?ts 0"
    using assms(1-3) by (auto simp: NextRefreshDueAt_def or_now_def Let_def split: if_splits)
  with assms(1,3) consider_ge [OF assms(1), of 0 ?ts] have ge: "now \<le> t" by simp
  from consider_origin [OF assms(1), of 0 ?ts] eq assms(3) obtain d where
    d: "d \<in> set ?ts" "d \<noteq> 0" "t = max d now" by auto
  then obtain key a where a: "(key, a) \<in> set (ps_accounts s)" "d \<in> set (account_deadlines ?cfg a)"
    by auto
  with deadline_fires [OF a(2) d(2), of t] d(3) assms(4) have "fst (accountRefreshDue a (ps_cfg s) t)"
    by (auto simp: max_def)
  with ge a(1) show ?thesis by auto
qed

theorem NextRefreshDueAt_productive_witness:
  "let s = (NewPluginState DefaultConfig)\<lparr>ps_lastCodexActivityAt := 1,
      ps_accounts := [(''auth:x'', (sample_account ''x'' 1)\<lparr>as_Refresh :=
        zero_AccountRefreshState\<lparr>ar_NextRetryAt := 50\<rparr>\<rparr>)]\<rparr>
   in \<exists>(key, a) \<in> set (ps_accounts s). fst (accountRefreshDue a (ps_cfg s) 50)"
proof -
  let ?s = "(NewPluginState DefaultConfig)\<lparr>ps_lastCodexActivityAt := 1,
      ps_accounts := [(''auth:x'', (sample_account ''x'' 1)\<lparr>as_Refresh :=
        zero_AccountRefreshState\<lparr>ar_NextRetryAt := 50\<rparr>\<rparr>)]\<rparr>"
  have t: "NextRefreshDueAt 0 ?s 2 = 50"
    by (simp add: NextRefreshDueAt_def or_now_def NewPluginState_def NormalizeConfig_id DefaultConfig_wf
        account_deadlines_def Let_def zero_AccountRefreshState_def sample_account_def
        zero_AccountState_def zero_CircuitBreakerState_def consider_deadline_def)
  have c: "\<forall>(key, a) \<in> set (ps_accounts ?s). circuit_coherent (as_Circuit a)"
    by (simp add: circuit_coherent_def sample_account_def zero_AccountState_def zero_CircuitBreakerState_def)
  from NextRefreshDueAt_productive [OF _ t _ c] show ?thesis unfolding Let_def by simp
qed

section \<open>Logs\<close>

lemma length_keep_last:
  "0 < m \<Longrightarrow> int (length (if int (length xs) > m then drop (nat (int (length xs) - m)) xs else xs)) \<le> m"
  by auto

lemma retainedLogs_length: "int (length (retainedLogs logs cfg now)) \<le> cfg_MaxLogEntries (NormalizeConfig cfg)"
  unfolding retainedLogs_def Let_def by (rule length_keep_last) simp

lemma retainedLogs_subset:
  "entry \<in> set (retainedLogs logs cfg now) \<Longrightarrow>
   entry \<in> set logs \<and> (le_Time entry = 0 \<or> now - cfg_LogRetention (NormalizeConfig cfg) \<le> le_Time entry)"
  by (auto simp: retainedLogs_def Let_def split: if_splits dest!: in_set_dropD)

lemma keep_last_snoc:
  assumes "0 < m"
  shows "\<exists>kept. (if int (length (xs @ [e])) > m
           then drop (nat (int (length (xs @ [e])) - m)) (xs @ [e]) else xs @ [e]) = kept @ [e]"
proof (cases "int (length (xs @ [e])) > m")
  case True
  with assms have "nat (int (length (xs @ [e])) - m) - length xs = 0" by simp
  with True show ?thesis by simp
qed auto

lemma retainedLogs_snoc:
  assumes "le_Time entry = now"
  shows "\<exists>kept. retainedLogs (logs @ [entry]) cfg now = kept @ [entry]"
proof -
  let ?P = "\<lambda>log. le_Time log = 0 \<or> \<not> le_Time log < now + - cfg_LogRetention (NormalizeConfig cfg)"
  have "\<not> now < now + - cfg_LogRetention (NormalizeConfig cfg)" "0 < cfg_MaxLogEntries (NormalizeConfig cfg)"
    using or_default_pos [of 86400000000000 "cfg_LogRetention cfg"] by (simp_all add: not_less less_imp_le)
  then have "filter ?P (logs @ [entry]) = filter ?P logs @ [entry]" using assms by simp
  then show ?thesis
    using keep_last_snoc [OF \<open>0 < cfg_MaxLogEntries (NormalizeConfig cfg)\<close>, of "filter ?P logs" entry]
    unfolding retainedLogs_def Let_def by (simp only:)
qed


section \<open>The temporary-exhaustion marker\<close>

lemma clear_marker_sel [simp]:
  "as_TemporaryExhausted (clear_marker a) = False" "as_Circuit (clear_marker a) = as_Circuit a"
  "as_Quota (clear_marker a) = as_Quota a"
  by (simp_all add: clear_marker_def)

lemma applyCircuitSuccess_frame [simp]:
  "as_TemporaryExhausted (applyCircuitSuccess a cfg now) = as_TemporaryExhausted a"
  "as_TemporaryResetAt (applyCircuitSuccess a cfg now) = as_TemporaryResetAt a"
  "as_Quota (applyCircuitSuccess a cfg now) = as_Quota a"
  by (simp_all add: applyCircuitSuccess_def Let_def)

lemma forget_refresh_failure_frame [simp]:
  "as_TemporaryExhausted (forget_refresh_failure a) = as_TemporaryExhausted a"
  "as_TemporaryResetAt (forget_refresh_failure a) = as_TemporaryResetAt a"
  "as_Quota (forget_refresh_failure a) = as_Quota a"
  "as_LastSuccessAt (forget_refresh_failure a) = as_LastSuccessAt a"
  "as_AuthID (forget_refresh_failure a) = as_AuthID a"
  by (simp_all add: forget_refresh_failure_def)

lemma reconcile_marker_kept:
  "as_TemporaryExhausted (reconcile_marker a now) \<longleftrightarrow>
     as_TemporaryExhausted a \<and> \<not> quotaRefreshConfirmsReset a now"
  by (auto simp: reconcile_marker_def)

lemma quotaRefreshConfirmsReset_cong:
  "as_LastSuccessAt a = as_LastSuccessAt b \<Longrightarrow> as_Quota a = as_Quota b \<Longrightarrow>
   as_TemporaryResetAt a = as_TemporaryResetAt b \<Longrightarrow>
   quotaRefreshConfirmsReset a now = quotaRefreshConfirmsReset b now"
  by (simp only: quotaRefreshConfirmsReset_def)


definition marked_account :: AccountState where
  "marked_account = (sample_account ''x'' 1)\<lparr>as_TemporaryExhausted := True, as_TemporaryResetAt := 40,
     as_LastSuccessAt := 9, as_Quota := zero_ParsedQuota\<lparr>pq_FiveHour := Some \<lparr>qw_Kind = WindowFiveHour,
       qw_UsedPercent = Some 20, qw_LimitWindowSeconds = None, qw_ResetAt = 40, qw_Exhausted = False\<rparr>\<rparr>\<rparr>"


end
