(* ===== verification/Persistent.thy ===== *)
theory Persistent
  imports Identity
begin

text \<open>
  The durable control state: \<^verbatim>\<open>PersistentState\<close> (\<^verbatim>\<open>state_store.go\<close>) and the types it is made
  of, the runtime binding (\<^verbatim>\<open>binding_registry.go\<close>), the probe attempt (\<^verbatim>\<open>runtime_state.go\<close>),
  the probe window (\<^verbatim>\<open>probe_state.go\<close>, \<^verbatim>\<open>probe_classify.go\<close>) and the ownership record of a
  managed disable (\<^verbatim>\<open>managed_lifecycle.go\<close>).
\<close>

record RuntimeBinding =
  rb_AuthID :: string
  rb_AuthIndex :: string
  rb_AuthName :: string
  rb_Instance :: AuthInstanceID
  rb_Admission :: InstanceAdmissionEpoch
  rb_Generation :: AuthBindingEpoch
  rb_Login :: LoginEpoch
  rb_Token :: TokenEpoch
  rb_Fingerprint :: CredentialFingerprint
  rb_AuthBlocked :: bool

definition zero_RuntimeBinding :: RuntimeBinding where
  "zero_RuntimeBinding = \<lparr>rb_AuthID = [], rb_AuthIndex = [], rb_AuthName = [], rb_Instance = 0,
     rb_Admission = 0, rb_Generation = 0, rb_Login = 0, rb_Token = 0,
     rb_Fingerprint = zero_CredentialFingerprint, rb_AuthBlocked = False\<rparr>"

definition binding_ExecutionToken :: "RuntimeBinding \<Rightarrow> uint64 \<Rightarrow> ExecutionToken" where
  "binding_ExecutionToken b fence = \<lparr>et_Instance = rb_Instance b, et_Admission = rb_Admission b,
     et_Tier = rb_Generation b, et_Fence = fence\<rparr>"

datatype ProbeWindowKind = ProbeWindowFiveHour | ProbeWindowLong

datatype ProbeAttemptPhase =
  ProbeAttemptPhaseEmpty | ProbeAttemptPrepared | ProbeAttemptSending | ProbeAttemptSent | ProbeAttemptSentUnknown

record ProbeAttemptSeam =
  pa_Instance :: AuthInstanceID
  pa_AttemptID :: string
  pa_Windows :: "ProbeWindowKind list"
  pa_Phase :: ProbeAttemptPhase
  pa_SendFenceSeq :: uint64
  pa_CreatedAt :: time
  pa_SentAt :: "time option"
  pa_VerifyNotBefore :: time
  pa_SuppressUntil :: time

datatype ProbeBaselineKind = ProbeBaselineNone | ProbeBaselineReset | ProbeBaselineUsageOnly

record ProbeBaseline =
  pb_Kind :: ProbeBaselineKind
  pb_WindowKind :: WindowKind
  pb_ResetAt :: time
  pb_Usage :: float64
  pb_NextRecheckAt :: time
  pb_WindowLength :: duration
  pb_CandidateLength :: duration
  pb_StableIntervals :: int
  pb_SuspectedLazy :: bool

datatype ProbeWindowState =
  ProbeWindowStateEmpty | ProbeIdle | ProbeWaitingReset | ProbePendingCheck | ProbeSentAwaitingVerify
  | ProbeSentUnknown | ProbeRetryWait | ProbeConfirmed | ProbeAuthBlocked | ProbeAnomalyHold | ProbeWaitingRoster

record ProbeWindow =
  pn_State :: ProbeWindowState
  pn_Baseline :: ProbeBaseline
  pn_Deadline :: time
  pn_RetryCount :: int
  pn_AttemptID :: string
  pn_AuthBlockedAtLogin :: LoginEpoch

record LifecycleEvent =
  lc_Kind :: string
  lc_At :: time
  lc_Detail :: string

record ManagedDisableRecord =
  md_DisabledAt :: time
  md_DisableApplied :: bool
  md_Fingerprint :: CredentialFingerprint
  md_Last429At :: time
  md_ResetAt :: time
  md_LastQuotaCheckAt :: time
  md_NextQuotaCheckAt :: time
  md_Events :: "LifecycleEvent list"

record PersistedRosterEntry =
  pe_ID :: string
  pe_AuthIndex :: string
  pe_Priority :: int
  pe_Fingerprint :: CredentialFingerprint

record PersistedConfirmedRoster =
  pc_Generation :: uint64
  pc_ConfirmedAt :: time
  pc_Entries :: "PersistedRosterEntry list"

record PersistentState =
  st_SchemaVersion :: int
  st_ReservedCeiling :: uint64
  st_NextSaveSeq :: uint64
  st_TierGeneration :: TierGeneration
  st_AdmissionEpochs :: "(AuthInstanceID, InstanceAdmissionEpoch) gmap"
  st_CredentialChains :: "(AuthInstanceID, TransitionChain) gmap"
  st_FenceUnsafe :: bool
  st_Bindings :: "(string, RuntimeBinding) gmap"
  st_ProbeAttempts :: "(AuthInstanceID, ProbeAttemptSeam) gmap"
  st_ProbeAttemptSeq :: uint64
  st_ProbeWindows :: "(AuthInstanceID, (ProbeWindowKind, ProbeWindow) gmap) gmap"
  st_LastConfirmedRoster :: "PersistedConfirmedRoster option"
  st_ManagedLifecycle :: "(string, ManagedDisableRecord) gmap"

abbreviation (input) CurrentStateSchema :: int where "CurrentStateSchema \<equiv> 2"

definition NewPersistentState :: PersistentState where
  "NewPersistentState = \<lparr>st_SchemaVersion = CurrentStateSchema, st_ReservedCeiling = 0, st_NextSaveSeq = 0,
     st_TierGeneration = 0, st_AdmissionEpochs = [], st_CredentialChains = [], st_FenceUnsafe = False,
     st_Bindings = [], st_ProbeAttempts = [], st_ProbeAttemptSeq = 0, st_ProbeWindows = [],
     st_LastConfirmedRoster = None, st_ManagedLifecycle = []\<rparr>"

definition clonePersistentState :: "PersistentState \<Rightarrow> PersistentState" where
  \<comment> \<open>a round trip through the JSON encoding, with \<^verbatim>\<open>FenceUnsafe\<close> copied and nil maps made empty\<close>
  "clonePersistentState s = s\<lparr>st_FenceUnsafe := st_FenceUnsafe s\<rparr>"

lemma clonePersistentState_id [simp, clone_simps]: "clonePersistentState s = s"
  by (simp add: clonePersistentState_def)

end
