(* ===== verification/Store_Props.thy ===== *)
theory Store_Props
  imports State_Store
begin

text \<open>
  What the state store promises: an update is all or nothing across a crash at any point of
  the write path, lost state is never silent, and a file of a newer schema is never written.
\<close>

section \<open>The durable state of a disk\<close>

definition durable :: "Disk \<Rightarrow> PersistentState option" where
  \<comment> \<open>what a restarted process reads when no I/O fails\<close>
  "durable d = (case loadLocked None (\<lambda>_. False) (NewStateStore d) of
     (Inr (st, _), _) \<Rightarrow> Some st | (Inl _, _) \<Rightarrow> None)"

definition migrated :: "PersistentState \<Rightarrow> PersistentState" where
  "migrated st = (if st_SchemaVersion st < CurrentStateSchema then st\<lparr>st_SchemaVersion := CurrentStateSchema\<rparr> else st)"

lemma migrated_written [simp]: "migrated (written st s) = written st s"
  by (simp add: migrated_def written_def)

lemma migrated_frame [simp]:
  "st_ReservedCeiling (migrated st) = st_ReservedCeiling st"
  "st_FenceUnsafe (migrated st) = st_FenceUnsafe st"
  by (simp_all add: migrated_def)

lemma adopt_eq:
  "adopt st report s = ((migrated st,
     report\<lparr>rr_ReadOnly := rr_ReadOnly report \<or> CurrentStateSchema < st_SchemaVersion st,
       rr_Migrated := rr_Migrated report \<or> st_SchemaVersion st < CurrentStateSchema,
       rr_FenceUnsafe := rr_FenceUnsafe report \<or> st_FenceUnsafe st\<rparr>),
     s\<lparr>so_readOnly := so_readOnly s \<or> CurrentStateSchema < st_SchemaVersion st,
       so_state := migrated st, so_loaded := True\<rparr>)"
  by (simp add: adopt_def migrated_def Let_def)

lemmas load_defs = loadLocked_def recover_from_backup_def readPersistentState_def NewStateStore_def adopt_eq Let_def

lemma durable_primary: "dk_primary d = Some (Good st) \<Longrightarrow> durable d = Some (migrated st)"
  by (simp add: durable_def load_defs)

lemma durable_backup: "dk_primary d = None \<Longrightarrow> dk_backup d = Some (Good st) \<Longrightarrow> durable d = Some (migrated st)"
  by (simp add: durable_def load_defs)

lemma disk_eqI:
  "dk_primary (d :: Disk) = dk_primary d' \<Longrightarrow> dk_backup d = dk_backup d' \<Longrightarrow>
   dk_primary_corrupt d = dk_primary_corrupt d' \<Longrightarrow> dk_backup_corrupt d = dk_backup_corrupt d' \<Longrightarrow> d = d'"
  by simp

lemma write_durable:
  assumes "writeLockedMode stop io nxt mirror s = (e, s')" and "dk_primary (so_disk s) \<noteq> Some Corrupt"
  shows "(durable (so_disk s') = durable (so_disk s) \<or> durable (so_disk s') = Some (written nxt s))
    \<and> (e = None \<longrightarrow> durable (so_disk s') = Some (written nxt s))
    \<and> dk_primary (so_disk s') \<noteq> Some Corrupt"
proof -
  note r = writeLockedMode_result [OF assms(1)]
  have new: "dk_primary (so_disk s') = Some (Good (written nxt s)) \<Longrightarrow> durable (so_disk s') = Some (written nxt s)"
    using durable_primary [of "so_disk s'" "written nxt s"] by simp
  show ?thesis
  proof (cases "dk_primary (so_disk s') = Some (Good (written nxt s))")
    case True
    with new show ?thesis by simp
  next
    case False
    with r have same: "dk_primary (so_disk s') = dk_primary (so_disk s)" and e: "e \<noteq> None" by auto
    show ?thesis
    proof (cases "dk_primary (so_disk s)")
      case None
      with r same consider "so_disk s' = so_disk s" | "dk_backup (so_disk s') = Some (Good (written nxt s))"
        using disk_eqI [of "so_disk s'" "so_disk s"] by auto
      then show ?thesis
        using None same e durable_backup [of "so_disk s'" "written nxt s"] by cases auto
    next
      case (Some f)
      with assms(2) obtain st where "dk_primary (so_disk s) = Some (Good st)" by (cases f) auto
      with same e show ?thesis using durable_primary by auto
    qed
  qed
qed

definition undamaged :: "Disk \<Rightarrow> bool" where
  "undamaged d \<longleftrightarrow> dk_primary d \<noteq> Some Corrupt \<and> dk_backup d \<noteq> Some Corrupt"

lemma undamaged_cases:
  assumes "undamaged d"
  obtains st where "dk_primary d = Some (Good st)"
  | st where "dk_primary d = None" "dk_backup d = Some (Good st)"
  | "dk_primary d = None" "dk_backup d = None"
  using assms unfolding undamaged_def by (metis option.exhaust state_file.exhaust)

lemma durable_empty: "dk_primary d = None \<Longrightarrow> dk_backup d = None \<Longrightarrow> durable d = Some NewPersistentState"
  by (simp add: durable_def load_defs) (simp add: migrated_def NewPersistentState_def)

lemma load_undamaged:
  assumes "undamaged (so_disk s)" and "loadLocked stop io s = (r, s')"
  shows "r = Inl ErrIO \<and> s' = s
    \<or> (\<exists>st report. r = Inr (st, report) \<and> durable (so_disk s) = Some st \<and> so_disk s' = so_disk s
         \<and> so_state s' = st \<and> so_loaded s')"
  using assms(1)
proof (cases rule: undamaged_cases)
  case (1 st)
  then show ?thesis using assms(2) durable_primary [OF 1]
    by (cases "io Primary") (auto simp: loadLocked_def readPersistentState_def adopt_eq)
next
  case (2 st)
  then show ?thesis using assms(2) durable_backup [OF 2]
    by (cases "io Primary"; cases "io Backup")
      (auto simp: loadLocked_def recover_from_backup_def readPersistentState_def adopt_eq)
next
  case 3
  then show ?thesis using assms(2) durable_empty [OF 3]
    by (cases "io Primary"; cases "io Backup")
      (auto simp: loadLocked_def readPersistentState_def adopt_eq migrated_def NewPersistentState_def)
qed

lemma update_effect:
  assumes "so_loaded s" and "undamaged (so_disk s)" and "update_mode mirror stop io fn s = (res, s')"
  shows "undamaged (so_disk s') \<and> so_loaded s'
    \<and> ((\<exists>e. res = Inl e) \<and> so_state s' = so_state s
          \<and> (durable (so_disk s') = durable (so_disk s)
             \<or> (\<exists>nxt. fn (so_state s) = Inr nxt \<and> durable (so_disk s') = Some (written nxt s)))
       \<or> (\<exists>nxt. fn (so_state s) = Inr nxt \<and> res = Inr (written nxt s) \<and> so_state s' = written nxt s
            \<and> durable (so_disk s') = Some (written nxt s)))"
  using update_mode_loaded [OF assms(1,3)]
proof (elim disjE exE conjE)
  fix nxt e
  assume w: "writeLockedMode stop io nxt mirror s = (e, s')" and fn: "fn (so_state s) = Inr nxt"
    and res: "res = (case e of None \<Rightarrow> Inr (so_state s') | Some err \<Rightarrow> Inl err)"
  have p: "dk_primary (so_disk s) \<noteq> Some Corrupt" using assms(2) by (simp add: undamaged_def)
  note r = writeLockedMode_result [OF w] and d = write_durable [OF w p]
  have "undamaged (so_disk s')" using r d assms(2) by (auto simp: undamaged_def)
  then show ?thesis using r d assms(1) fn res by (cases e) auto
qed (use assms in auto)

text \<open>
  The contract of the store for its clients: an update runs a function on the state in memory;
  when it fails, memory is unchanged and the disk has the old or the new state, and when it succeeds
  both have the new state. A client proves an invariant of its part of the state once, for the
  functions it passes to the store.
\<close>

locale transactional_store =
  fixes update :: "'f \<Rightarrow> ('st \<Rightarrow> 'e + 'st) \<Rightarrow> 'store \<Rightarrow> ('e + 'st) \<times> 'store"
    and memory :: "'store \<Rightarrow> 'st" and disk :: "'store \<Rightarrow> 'st option"
    and ok :: "'store \<Rightarrow> bool" and stamp :: "'st \<Rightarrow> 'store \<Rightarrow> 'st"
  assumes update_law: "ok s \<Longrightarrow> update f fn s = (res, s') \<Longrightarrow> ok s' \<and>
    ((\<exists>e. res = Inl e) \<and> memory s' = memory s
        \<and> (disk s' = disk s \<or> (\<exists>nxt. fn (memory s) = Inr nxt \<and> disk s' = Some (stamp nxt s)))
     \<or> (\<exists>nxt. fn (memory s) = Inr nxt \<and> res = Inr (stamp nxt s) \<and> memory s' = stamp nxt s \<and> disk s' = Some (stamp nxt s)))"
begin

lemma update_keeps:
  assumes "ok s" and "J (memory s)" and "\<And>st. disk s = Some st \<Longrightarrow> J st"
    and "\<And>nxt. fn (memory s) = Inr nxt \<Longrightarrow> J (stamp nxt s)" and "update f fn s = (res, s')"
  shows "ok s' \<and> J (memory s') \<and> (\<forall>st. disk s' = Some st \<longrightarrow> J st)"
  using update_law [OF assms(1,5)] assms(2-4) by auto

lemma update_committed:
  assumes "ok s" and "update f fn s = (Inr st, s')"
  shows "\<exists>nxt. fn (memory s) = Inr nxt \<and> st = stamp nxt s \<and> memory s' = st \<and> disk s' = Some st"
  using update_law [OF assms] by auto

end

interpretation disk_store: transactional_store "\<lambda>f. store_Update (fst f) (snd f)" so_state "\<lambda>s. durable (so_disk s)"
  "\<lambda>s. so_loaded s \<and> undamaged (so_disk s)" written
  by unfold_locales (use update_effect [of _ False] in \<open>unfold store_Update_def, blast\<close>)

interpretation mirrored_store: transactional_store "\<lambda>f. UpdateMirrored (fst f) (snd f)" so_state "\<lambda>s. durable (so_disk s)"
  "\<lambda>s. so_loaded s \<and> undamaged (so_disk s)" written
  by unfold_locales (use update_effect [of _ True] in \<open>unfold UpdateMirrored_def, blast\<close>)

definition synced :: "StateStore \<Rightarrow> bool" where
  \<comment> \<open>memory and disk agree\<close>
  "synced s \<longleftrightarrow> so_loaded s \<and> undamaged (so_disk s) \<and> durable (so_disk s) = Some (so_state s)"

lemma snapshot_synced: "synced s \<Longrightarrow> PersistentSnapshot stop io s = (Inr (so_state s), s)"
  by (simp add: synced_def PersistentSnapshot_def ensure_loaded_def)

lemma update_unloaded:
  "update_mode mirror stop io fn s =
    (case ensure_loaded stop io s of
       (Some e, s1) \<Rightarrow> (Inl e, s1)
     | (None, s1) \<Rightarrow> if so_loaded s1 then update_mode mirror stop io fn s1 else update_mode mirror stop io fn s)"
  by (auto simp: update_mode_def ensure_loaded_def split: prod.splits option.splits)

text \<open>
  C1. An update is all or nothing. Whatever point of the write path an I/O error, a hook or a
  crash stops it at, a restarted process reads either the state it would have read before or
  the whole new state, and it reads the new state whenever the update reported success. The
  primary file must not have been damaged by someone else while the store was open.
\<close>

theorem update_crash_safe:
  assumes "so_loaded s" and "dk_primary (so_disk s) \<noteq> Some Corrupt"
    and "update_mode mirror stop io fn s = (res, s')"
  shows "(durable (so_disk s') = durable (so_disk s)
       \<or> (\<exists>nxt. fn (so_state s) = Inr nxt \<and> durable (so_disk s') = Some (written nxt s)))
    \<and> (\<forall>st. res = Inr st \<longrightarrow> durable (so_disk s') = Some st \<and> so_state s' = st)
    \<and> (\<forall>e. res = Inl e \<longrightarrow> so_state s' = so_state s)"
  using update_mode_loaded [OF assms(1,3)]
proof (elim disjE exE conjE)
  fix nxt e
  assume w: "writeLockedMode stop io nxt mirror s = (e, s')" and fn: "fn (so_state s) = Inr nxt"
    and res: "res = (case e of None \<Rightarrow> Inr (so_state s') | Some err \<Rightarrow> Inl err)"
  show ?thesis
    using write_durable [OF w assms(2)] writeLockedMode_result [OF w] fn res by (cases e) auto
qed auto

theorem update_crash_safe_witness:
  "let s = \<lparr>so_disk = \<lparr>dk_primary = None, dk_backup = None, dk_primary_corrupt = None, dk_backup_corrupt = None\<rparr>,
            so_readOnly = False, so_loaded = True, so_state = NewPersistentState\<rparr>;
       fn = (\<lambda>st. Inr (st\<lparr>st_NextSaveSeq := 7\<rparr>));
       stop = Some (Primary, PointAfterRename)
   in fst (update_mode False stop (\<lambda>_. False) fn s) = Inl ErrStopped
     \<and> map_option st_NextSaveSeq (durable (so_disk (snd (update_mode False stop (\<lambda>_. False) fn s)))) = Some 7"
proof -
  let ?s = "\<lparr>so_disk = \<lparr>dk_primary = None, dk_backup = None, dk_primary_corrupt = None, dk_backup_corrupt = None\<rparr>,
            so_readOnly = False, so_loaded = True, so_state = NewPersistentState\<rparr>"
  let ?u = "update_mode False (Some (Primary, PointAfterRename)) (\<lambda>_. False) (\<lambda>st. Inr (st\<lparr>st_NextSaveSeq := 7\<rparr>)) ?s"
  have res: "fst ?u = Inl ErrStopped" by code_simp
  have old: "map_option st_NextSaveSeq (durable (so_disk ?s)) = Some 0" by code_simp
  have new: "map_option st_NextSaveSeq (durable (so_disk (snd ?u))) \<noteq> Some 0" by code_simp
  have "durable (so_disk (snd ?u)) = durable (so_disk ?s)
     \<or> (\<exists>nxt. Inr (NewPersistentState\<lparr>st_NextSaveSeq := 7\<rparr>) = (Inr nxt :: store_error + PersistentState)
          \<and> durable (so_disk (snd ?u)) = Some (written nxt ?s))"
    using update_crash_safe [of ?s False "Some (Primary, PointAfterRename)" "\<lambda>_. False"
        "\<lambda>st. Inr (st\<lparr>st_NextSaveSeq := 7\<rparr>)" "fst ?u" "snd ?u"] by simp
  with old new have "durable (so_disk (snd ?u)) = Some (written (NewPersistentState\<lparr>st_NextSaveSeq := 7\<rparr>) ?s)" by auto
  with res show ?thesis by (simp add: written_def Let_def)
qed

section \<open>Lost state\<close>

lemma quarantine_None:
  "quarantine stop t d = (None, d') \<Longrightarrow> get_file t d = Some f \<Longrightarrow> d' = set_aside t f d"
  by (auto simp: quarantine_def split: if_splits)

lemma set_aside_sel [simp]:
  "dk_primary (set_aside t f d) = (if t = Primary then None else dk_primary d)"
  "dk_backup (set_aside t f d) = (if t = Backup then None else dk_backup d)"
  "dk_primary_corrupt (set_aside t f d) = (if t = Primary then Some f else dk_primary_corrupt d)"
  "dk_backup_corrupt (set_aside t f d) = (if t = Backup then Some f else dk_backup_corrupt d)"
  by (cases t; simp)+

lemma quarantine_step:
  assumes "(if c then quarantine stop t d else (None, d)) = (None, d')" and "c \<Longrightarrow> get_file t d = Some Corrupt"
  shows "d' = (if c then set_aside t Corrupt d else d)"
  using assms quarantine_None [of stop t d d' Corrupt] by (cases c) auto

lemma recover_empty_result:
  assumes "recover_empty stop io pc bc s = (Inr (st, report), s')"
    and "pc \<longleftrightarrow> dk_primary (so_disk s) = Some Corrupt" and "bc \<longleftrightarrow> dk_backup (so_disk s) = Some Corrupt"
  shows "st = NewPersistentState\<lparr>st_FenceUnsafe := True\<rparr> \<and> rr_FenceUnsafe report \<and> rr_RecoveredEmpty report
    \<and> so_state s' = st \<and> dk_primary (so_disk s') = Some (Good st)
    \<and> (pc \<longrightarrow> dk_primary_corrupt (so_disk s') = Some Corrupt)
    \<and> (bc \<longrightarrow> dk_backup_corrupt (so_disk s') = Some Corrupt)"
proof -
  let ?st = "NewPersistentState\<lparr>st_FenceUnsafe := True\<rparr>"
  from assms(1) obtain d1 d2 where
      q1: "(if pc then quarantine stop Primary (so_disk s) else (None, so_disk s)) = (None, d1)"
    and q2: "(if bc then quarantine stop Backup d1 else (None, d1)) = (None, d2)"
    and w: "writeLocked stop io ?st (with_disk s d2) = (None, s')" and res: "st = ?st"
      "report = empty_report\<lparr>rr_RecoveredEmpty := True, rr_FenceUnsafe := True\<rparr>"
    by (auto simp: recover_empty_def Let_def split: prod.splits option.splits)
  have d1: "d1 = (if pc then set_aside Primary Corrupt (so_disk s) else so_disk s)"
    using quarantine_step [OF q1] assms(2) by simp
  have d2: "d2 = (if bc then set_aside Backup Corrupt d1 else d1)"
    using quarantine_step [OF q2] assms(3) d1 by simp
  have "written ?st (with_disk s d2) = ?st" by (simp add: written_def NewPersistentState_def)
  moreover note r = writeLockedMode_result [OF w [unfolded writeLocked_def]]
  ultimately show ?thesis using res d1 d2 by (auto simp: with_disk_def)
qed

text \<open>
  C35. Lost state is never silent. When neither the primary nor the backup can be decoded and
  at least one of them exists, a load that succeeds starts from the empty state, marks it
  unsafe for fences in memory, in its report and on disk, and keeps the damaged files aside.
\<close>

theorem lost_state_is_marked:
  assumes "loadLocked stop io s = (Inr (st, report), s')"
    and "dk_primary (so_disk s) \<in> {None, Some Corrupt}" and "dk_backup (so_disk s) \<in> {None, Some Corrupt}"
    and "dk_primary (so_disk s) \<noteq> None \<or> dk_backup (so_disk s) \<noteq> None"
  shows "st = NewPersistentState\<lparr>st_FenceUnsafe := True\<rparr> \<and> rr_FenceUnsafe report \<and> rr_RecoveredEmpty report
    \<and> durable (so_disk s') = Some st \<and> so_state s' = st
    \<and> (dk_primary (so_disk s) = Some Corrupt \<longrightarrow> dk_primary_corrupt (so_disk s') = Some Corrupt)
    \<and> (dk_backup (so_disk s) = Some Corrupt \<longrightarrow> dk_backup_corrupt (so_disk s') = Some Corrupt)"
proof -
  let ?p = "dk_primary (so_disk s) = Some Corrupt" and ?b = "dk_backup (so_disk s) = Some Corrupt"
  have "recover_empty stop io ?p ?b s = (Inr (st, report), s')"
    using assms by (auto simp: loadLocked_def readPersistentState_def split: if_splits)
  note r = recover_empty_result [OF this refl refl]
  then have "durable (so_disk s') = Some (migrated st)" using durable_primary by blast
  moreover have "migrated st = st" using r by (auto simp: migrated_def NewPersistentState_def)
  ultimately show ?thesis using r by auto
qed

theorem lost_state_is_marked_witness:
  "let s = NewStateStore \<lparr>dk_primary = Some Corrupt, dk_backup = None, dk_primary_corrupt = None, dk_backup_corrupt = None\<rparr>
   in case loadLocked None (\<lambda>_. False) s of
        (Inr (st, report), s') \<Rightarrow> st_FenceUnsafe st \<and> dk_primary_corrupt (so_disk s') = Some Corrupt
      | _ \<Rightarrow> False"
proof -
  let ?s = "NewStateStore \<lparr>dk_primary = Some Corrupt, dk_backup = None, dk_primary_corrupt = None, dk_backup_corrupt = None\<rparr>"
  have "case loadLocked None (\<lambda>_. False) ?s of (Inr _, _) \<Rightarrow> True | _ \<Rightarrow> False" by code_simp
  then obtain st report s' where load: "loadLocked None (\<lambda>_. False) ?s = (Inr (st, report), s')"
    by (auto split: sum.splits)
  show ?thesis using lost_state_is_marked [OF load] load by (simp add: NewStateStore_def)
qed

section \<open>Files of a newer version\<close>

datatype store_event =
    SLoad write_stop "target \<Rightarrow> bool"
  | SUpdate bool write_stop "target \<Rightarrow> bool" "PersistentState \<Rightarrow> store_error + PersistentState"
  | SWrite write_stop "target \<Rightarrow> bool" PersistentState

fun store_step :: "StateStore \<Rightarrow> store_event \<Rightarrow> StateStore" where
  "store_step s (SLoad stop io) = snd (store_Load stop io s)"
| "store_step s (SUpdate mirror stop io fn) =
     snd ((if mirror then UpdateMirrored else store_Update) stop io fn s)"
| "store_step s (SWrite stop io st) = snd (WriteThrough stop io st s)"

definition frozen :: "Disk \<Rightarrow> StateStore \<Rightarrow> bool" where
  "frozen d s \<longleftrightarrow> so_disk s = d \<and> so_readOnly s \<and> so_loaded s"

lemma frozen_write: "frozen d s \<Longrightarrow> writeLockedMode stop io st mirror s = (Some ErrStateReadOnly, s)"
  by (simp add: frozen_def writeLockedMode_def)

lemma frozen_update: "frozen d s \<Longrightarrow> snd (update_mode mirror stop io fn s) = s"
  using frozen_write [of d s stop io _ mirror]
  by (auto simp: update_mode_def ensure_loaded_def frozen_def split: sum.split)

lemma frozen_load:
  "frozen d s \<Longrightarrow> dk_primary d = Some (Good st) \<Longrightarrow> frozen d (snd (loadLocked stop io s))"
  by (auto simp: frozen_def loadLocked_def readPersistentState_def adopt_eq)

lemma frozen_machine:
  assumes "dk_primary d = Some (Good st)"
  shows "invariant_machine store_step (frozen d)"
proof
  fix s e assume "frozen d s"
  then show "frozen d (store_step s e)"
    using assms frozen_update [of d s] frozen_write [of d s] frozen_load [of d s]
    by (cases e) (auto simp: store_Load_def UpdateMirrored_def store_Update_def WriteThrough_def writeLocked_def)
qed

text \<open>
  A state file of a newer schema is read but never written: after it has been loaded, no
  sequence of loads, updates and writes changes the disk, whichever of them fail.
\<close>

theorem newer_schema_untouched:
  assumes "dk_primary d = Some (Good st)" and "CurrentStateSchema < st_SchemaVersion st"
  shows "so_disk (run store_step (snd (store_Load stop (\<lambda>_. False) (NewStateStore d))) es) = d"
proof -
  have "frozen d (snd (store_Load stop (\<lambda>_. False) (NewStateStore d)))"
    using assms by (simp add: store_Load_def frozen_def load_defs)
  from invariant_machine.run_inv [OF frozen_machine [OF assms(1)] this] show ?thesis
    by (simp add: frozen_def)
qed

theorem newer_schema_untouched_witness:
  "let d = \<lparr>dk_primary = Some (Good (NewPersistentState\<lparr>st_SchemaVersion := 3\<rparr>)), dk_backup = None,
            dk_primary_corrupt = None, dk_backup_corrupt = None\<rparr>
   in so_disk (run store_step (snd (store_Load None (\<lambda>_. False) (NewStateStore d)))
        [SWrite None (\<lambda>_. False) NewPersistentState]) = d"
  unfolding Let_def by (rule newer_schema_untouched [where st = "NewPersistentState\<lparr>st_SchemaVersion := 3\<rparr>"])
    (simp_all add: NewPersistentState_def)

end
