(* ===== verification/Fence.thy ===== *)
theory Fence
  imports Store_Props
begin

text \<open>
  \<^verbatim>\<open>fence.go\<close>: the allocator of fence numbers. It reserves a block of \<open>2 ^ 20\<close> numbers by writing
  the new ceiling through the state store before it issues the first number of the block.

  Shown: over every interleaving of allocations, updates of the same store by other parts of
  the plugin, failed or crashed writes and restarts, the issued numbers increase strictly and
  stay below the durable ceiling (invariants 38 and 39 of the design document); and how a
  damaged primary file with a lagging backup breaks this.
\<close>

abbreviation FenceBlockSize :: uint64 where "FenceBlockSize \<equiv> 0x100000"

abbreviation ErrFenceOverflow :: store_error where "ErrFenceOverflow \<equiv> ErrApply ''fence sequence overflow''"
abbreviation ErrFenceUnsafe :: store_error where "ErrFenceUnsafe \<equiv> ErrApply ''fence ceiling is not trustworthy''"

record FenceAllocator =
  fa_state :: PersistentState
  fa_next :: uint64
  fa_ceiling :: uint64
  fa_initialized :: bool

definition NewFenceAllocator :: "PersistentState \<Rightarrow> FenceAllocator" where
  "NewFenceAllocator st = \<lparr>fa_state = st, fa_next = 0, fa_ceiling = 0, fa_initialized = False\<rparr>"

record fence_faults =
  \<comment> \<open>what goes wrong during a call: the two crash points and the faults of the store\<close>
  ff_before :: bool
  ff_after :: bool
  ff_stop :: write_stop
  ff_io :: "target \<Rightarrow> bool"

definition reserve_block :: "PersistentState \<Rightarrow> store_error + PersistentState" where
  \<comment> \<open>the function given to \<^verbatim>\<open>Update\<close>\<close>
  "reserve_block s =
    (if st_FenceUnsafe s then Inl ErrFenceUnsafe
     else if - 1 - FenceBlockSize < st_ReservedCeiling s then Inl ErrFenceOverflow
     else Inr (s\<lparr>st_ReservedCeiling := st_ReservedCeiling s + FenceBlockSize\<rparr>))"

definition set_ceiling :: "uint64 \<Rightarrow> FenceAllocator \<Rightarrow> FenceAllocator" where
  "set_ceiling c a = a\<lparr>fa_state := (fa_state a)\<lparr>st_ReservedCeiling := c\<rparr>\<rparr>"

definition grow_ceiling ::
  "bool \<Rightarrow> fence_faults \<Rightarrow> FenceAllocator \<Rightarrow> StateStore \<Rightarrow> store_error option \<times> FenceAllocator \<times> StateStore" where
  \<comment> \<open>the block under \<^verbatim>\<open>a.next > a.ceiling\<close>; \<open>updater\<close>: the store has an \<^verbatim>\<open>Update\<close> method\<close>
  "grow_ceiling updater ff a s =
    (if - 1 - FenceBlockSize < st_ReservedCeiling (fa_state a) then (Some ErrFenceOverflow, a, s)
     else if ff_before ff then (Some ErrStopped, a, s)
     else
       let newCeiling = st_ReservedCeiling (fa_state a) + FenceBlockSize;
           (res, a1, s1) =
             (if updater then
                (case store_Update (ff_stop ff) (ff_io ff) reserve_block s of
                   (Inl e, s1) \<Rightarrow> (Inl e, a, s1)
                 | (Inr committed, s1) \<Rightarrow> (Inr (st_ReservedCeiling committed), a, s1))
              else
                (let a1 = set_ceiling newCeiling a
                 in case WriteThrough (ff_stop ff) (ff_io ff) (clonePersistentState (fa_state a1)) s of
                      (Some e, s1) \<Rightarrow> (Inl e, a1, s1)
                    | (None, s1) \<Rightarrow> (Inr newCeiling, a1, s1)))
       in case res of
            Inl e \<Rightarrow> (Some e, a1, s1)
          | Inr c \<Rightarrow>
              let a2 = set_ceiling c a1
              in if ff_after ff then (Some ErrStopped, a2, s1)
                 else (None, a2\<lparr>fa_ceiling := st_ReservedCeiling (fa_state a2)\<rparr>, s1))"

definition Next ::
  "bool \<Rightarrow> fence_faults \<Rightarrow> FenceAllocator \<Rightarrow> StateStore \<Rightarrow> (store_error + uint64) \<times> FenceAllocator \<times> StateStore" where
  "Next updater ff a s =
    (if \<not> fa_initialized a \<and> st_FenceUnsafe (fa_state a) then (Inl ErrFenceUnsafe, a, s)
     else
       let a0 = (if fa_initialized a then a
                 else a\<lparr>fa_next := st_ReservedCeiling (fa_state a) + 1,
                        fa_ceiling := st_ReservedCeiling (fa_state a), fa_initialized := True\<rparr>);
           (err, a1, s1) = (if fa_ceiling a0 < fa_next a0 then grow_ceiling updater ff a0 s else (None, a0, s))
       in case err of
            Some e \<Rightarrow> (Inl e, a1, s1)
          | None \<Rightarrow> (Inr (fa_next a1), a1\<lparr>fa_next := fa_next a1 + 1\<rparr>, s1))"

section \<open>The allocator in its environment\<close>

record FenceSystem =
  fs_store :: StateStore
  fs_alloc :: "FenceAllocator option"
  fs_issued :: "uint64 list"   \<comment> \<open>every number ever issued, the latest first\<close>

definition other_update ::
  "(PersistentState \<Rightarrow> store_error + PersistentState) \<Rightarrow> PersistentState \<Rightarrow> store_error + PersistentState" where
  \<comment> \<open>an update by another part of the plugin: anything that leaves the ceiling alone\<close>
  "other_update g st = (case g st of Inl e \<Rightarrow> Inl e
     | Inr nxt \<Rightarrow> Inr (nxt\<lparr>st_ReservedCeiling := st_ReservedCeiling st\<rparr>))"

datatype fence_event =
    FNext fence_faults
  | FUpdate bool write_stop "target \<Rightarrow> bool" "PersistentState \<Rightarrow> store_error + PersistentState"
  | FRestart write_stop "target \<Rightarrow> bool"

fun fence_step :: "FenceSystem \<Rightarrow> fence_event \<Rightarrow> FenceSystem" where
  "fence_step fs (FNext ff) =
    (case fs_alloc fs of
       None \<Rightarrow> fs
     | Some a \<Rightarrow>
         (case Next True ff a (fs_store fs) of
            (Inl e, a', s') \<Rightarrow> fs\<lparr>fs_store := s', fs_alloc := Some a'\<rparr>
          | (Inr v, a', s') \<Rightarrow> fs\<lparr>fs_store := s', fs_alloc := Some a', fs_issued := v # fs_issued fs\<rparr>))"
| "fence_step fs (FUpdate mirror stop io g) =
     fs\<lparr>fs_store := snd (update_mode mirror stop io (other_update g) (fs_store fs))\<rparr>"
| "fence_step fs (FRestart stop io) =
    (case PersistentSnapshot stop io (NewStateStore (so_disk (fs_store fs))) of
       (Inl e, s') \<Rightarrow> fs\<lparr>fs_store := s', fs_alloc := None\<rparr>
     | (Inr st, s') \<Rightarrow> fs\<lparr>fs_store := s', fs_alloc := Some (NewFenceAllocator st)\<rparr>)"

definition empty_disk :: Disk where
  "empty_disk = \<lparr>dk_primary = None, dk_backup = None, dk_primary_corrupt = None, dk_backup_corrupt = None\<rparr>"

definition fence_start :: "Disk \<Rightarrow> FenceSystem" where
  "fence_start d = \<lparr>fs_store = NewStateStore d, fs_alloc = None, fs_issued = []\<rparr>"

section \<open>Arithmetic of blocks\<close>

definition block_aligned :: "uint64 \<Rightarrow> bool" where
  "block_aligned c \<longleftrightarrow> 2 ^ 20 dvd unat c"

lemma unat_block: "\<not> - 1 - FenceBlockSize < c \<Longrightarrow> unat (c + FenceBlockSize) = unat c + 2 ^ 20"
  by unat_arith simp

lemma aligned_block: "block_aligned c \<Longrightarrow> \<not> - 1 - FenceBlockSize < c \<Longrightarrow> block_aligned (c + FenceBlockSize)"
  by (simp add: block_aligned_def unat_block)

lemma block_le: "\<not> - 1 - FenceBlockSize < c \<Longrightarrow> c \<le> c + FenceBlockSize"
  by (simp add: word_le_nat_alt unat_block)

lemma aligned_less:
  assumes "block_aligned c"
  shows "unat c + 1 < 2 ^ 64"
proof -
  have "unat c < 2 ^ LENGTH(64)" by (rule unsigned_less)
  then have "unat c < 2 ^ 64" by simp
  moreover have "unat c \<noteq> 2 ^ 64 - 1"
  proof
    assume "unat c = 2 ^ 64 - 1"
    with assms have "(2 ^ 20 :: nat) dvd 2 ^ 64 - 1" by (simp add: block_aligned_def)
    then show False by simp
  qed
  ultimately show ?thesis by linarith
qed

section \<open>The invariant\<close>

definition ceiling_ok :: "uint64 list \<Rightarrow> uint64 \<Rightarrow> bool" where
  "ceiling_ok issued c \<longleftrightarrow> block_aligned c \<and> (\<forall>v \<in> set issued. v \<le> c)"

definition alloc_ok :: "uint64 list \<Rightarrow> uint64 \<Rightarrow> FenceAllocator \<Rightarrow> bool" where
  "alloc_ok issued c a \<longleftrightarrow> st_ReservedCeiling (fa_state a) = c
     \<and> (fa_initialized a \<longrightarrow> (\<forall>v \<in> set issued. v < fa_next a)
          \<and> unat (fa_next a) \<le> unat (fa_ceiling a) + 1 \<and> fa_ceiling a \<le> c)"

definition store_ok :: "uint64 list \<Rightarrow> StateStore \<Rightarrow> bool" where
  "store_ok issued s \<longleftrightarrow> undamaged (so_disk s)
     \<and> (\<exists>st. durable (so_disk s) = Some st \<and> ceiling_ok issued (st_ReservedCeiling st)
          \<and> (so_loaded s \<longrightarrow> ceiling_ok issued (st_ReservedCeiling (so_state s))
               \<and> st_ReservedCeiling (so_state s) \<le> st_ReservedCeiling st))"

definition fence_inv :: "FenceSystem \<Rightarrow> bool" where
  "fence_inv fs \<longleftrightarrow> store_ok (fs_issued fs) (fs_store fs) \<and> sorted_wrt (>) (fs_issued fs)
     \<and> (\<forall>a. fs_alloc fs = Some a \<longrightarrow> so_loaded (fs_store fs)
          \<and> alloc_ok (fs_issued fs) (st_ReservedCeiling (so_state (fs_store fs))) a)"

lemma written_ceiling [simp]: "st_ReservedCeiling (written nxt s) = st_ReservedCeiling nxt"
  by (simp add: written_def)

lemma ceiling_ok_block:
  assumes "ceiling_ok issued c" and "\<not> - 1 - FenceBlockSize < c"
  shows "ceiling_ok issued (c + FenceBlockSize)"
proof -
  have "v \<le> c + FenceBlockSize" if "v \<le> c" for v
    using that block_le [OF assms(2)] by (rule order.trans)
  moreover have "block_aligned (c + FenceBlockSize)"
    using assms(1) by (intro aligned_block [OF _ assms(2)]) (simp add: ceiling_ok_def)
  ultimately show ?thesis using assms(1) unfolding ceiling_ok_def by blast
qed

lemma other_update_ceiling:
  "other_update g st = Inr nxt \<Longrightarrow> st_ReservedCeiling nxt = st_ReservedCeiling st"
  by (auto simp: other_update_def split: sum.splits)

lemma reserve_block_Inr:
  "reserve_block st = Inr nxt \<Longrightarrow> \<not> - 1 - FenceBlockSize < st_ReservedCeiling st
     \<and> st_ReservedCeiling nxt = st_ReservedCeiling st + FenceBlockSize"
  by (auto simp: reserve_block_def split: if_splits)

lemma store_ok_update:
  assumes ok: "store_ok issued s" and ld: "so_loaded s"
    and mono: "\<And>nxt. fn (so_state s) = Inr nxt \<Longrightarrow> ceiling_ok issued (st_ReservedCeiling nxt)
        \<and> st_ReservedCeiling (so_state s) \<le> st_ReservedCeiling nxt"
    and u: "update_mode mirror stop io fn s = (res, s')"
  shows "store_ok issued s' \<and> so_loaded s'
    \<and> ((\<exists>e. res = Inl e) \<and> so_state s' = so_state s
       \<or> (\<exists>nxt. fn (so_state s) = Inr nxt \<and> res = Inr (so_state s')
            \<and> st_ReservedCeiling (so_state s') = st_ReservedCeiling nxt))"
proof -
  from ok have "undamaged (so_disk s)" by (simp add: store_ok_def)
  note eff = update_effect [OF ld this u]
  from eff show ?thesis
  proof (elim conjE disjE exE)
    fix e assume "so_state s' = so_state s" "res = Inl e" "durable (so_disk s') = durable (so_disk s)"
    then show ?thesis using eff ok ld by (auto simp: store_ok_def)
  next
    fix e nxt assume "so_state s' = so_state s" "res = Inl e" "fn (so_state s) = Inr nxt"
      "durable (so_disk s') = Some (written nxt s)"
    then show ?thesis using eff ok ld mono [of nxt] by (auto simp: store_ok_def)
  next
    fix nxt assume "fn (so_state s) = Inr nxt" "res = Inr (written nxt s)" "so_state s' = written nxt s"
      "durable (so_disk s') = Some (written nxt s)"
    then show ?thesis using eff ok ld mono [of nxt] by (auto simp: store_ok_def)
  qed
qed

lemma store_ok_load:
  assumes "store_ok issued s" and "ensure_loaded stop io s = (e, s')"
  shows "store_ok issued s' \<and> (so_loaded s \<longrightarrow> s' = s \<and> e = None) \<and> (e = None \<longrightarrow> so_loaded s')
    \<and> (e \<noteq> None \<longrightarrow> s' = s)"
proof (cases "so_loaded s")
  case True
  with assms show ?thesis by (simp add: ensure_loaded_def)
next
  case False
  obtain r s1 where load: "loadLocked stop io s = (r, s1)" by fastforce
  from assms(1) have "undamaged (so_disk s)" by (simp add: store_ok_def)
  from load_undamaged [OF this load] False assms load show ?thesis
    by (auto simp: ensure_loaded_def store_ok_def)
qed

lemma set_ceiling_sel [simp]:
  "st_ReservedCeiling (fa_state (set_ceiling c a)) = c" "fa_next (set_ceiling c a) = fa_next a"
  "fa_ceiling (set_ceiling c a) = fa_ceiling a" "fa_initialized (set_ceiling c a) = fa_initialized a"
  by (simp_all add: set_ceiling_def)

lemma alloc_ok_mono:
  "alloc_ok issued c a \<Longrightarrow> c \<le> c' \<Longrightarrow> alloc_ok issued c' (set_ceiling c' a)"
  by (auto simp: alloc_ok_def)

lemma reserve_ok:
  assumes "store_ok issued s" "so_loaded s" "reserve_block (so_state s) = Inr nxt"
  shows "ceiling_ok issued (st_ReservedCeiling nxt) \<and> st_ReservedCeiling (so_state s) \<le> st_ReservedCeiling nxt"
proof -
  note r = reserve_block_Inr [OF assms(3)]
  have "ceiling_ok issued (st_ReservedCeiling (so_state s))" using assms by (auto simp: store_ok_def)
  from ceiling_ok_block [OF this conjunct1 [OF r]] block_le [OF conjunct1 [OF r]] r show ?thesis by metis
qed

lemma grow_ceiling_blocked:
  "- 1 - FenceBlockSize < st_ReservedCeiling (fa_state a) \<or> ff_before ff \<Longrightarrow>
   \<exists>e. grow_ceiling updater ff a s = (Some e, a, s)"
  by (auto simp: grow_ceiling_def)

lemma grow_ceiling_failed:
  "\<not> (- 1 - FenceBlockSize < st_ReservedCeiling (fa_state a) \<or> ff_before ff) \<Longrightarrow>
   store_Update (ff_stop ff) (ff_io ff) reserve_block s = (Inl e, s1) \<Longrightarrow>
   grow_ceiling True ff a s = (Some e, a, s1)"
  by (simp add: grow_ceiling_def)

lemma grow_ceiling_grown:
  "\<not> (- 1 - FenceBlockSize < st_ReservedCeiling (fa_state a) \<or> ff_before ff) \<Longrightarrow>
   store_Update (ff_stop ff) (ff_io ff) reserve_block s = (Inr st, s1) \<Longrightarrow>
   grow_ceiling True ff a s =
     (if ff_after ff then (Some ErrStopped, set_ceiling (st_ReservedCeiling st) a, s1)
      else (None, (set_ceiling (st_ReservedCeiling st) a)\<lparr>fa_ceiling := st_ReservedCeiling st\<rparr>, s1))"
  by (simp add: grow_ceiling_def Let_def)

lemma grow_ceiling_ok:
  assumes st: "store_ok issued s" "so_loaded s" and a: "alloc_ok issued (st_ReservedCeiling (so_state s)) a"
    and g: "grow_ceiling True ff a s = (err, a', s')"
  shows "store_ok issued s' \<and> so_loaded s' \<and> alloc_ok issued (st_ReservedCeiling (so_state s')) a'
    \<and> fa_initialized a' = fa_initialized a \<and> fa_next a' = fa_next a
    \<and> (err = None \<longrightarrow> fa_ceiling a' = st_ReservedCeiling (so_state s')
          \<and> unat (fa_ceiling a') = unat (st_ReservedCeiling (so_state s)) + 2 ^ 20)"
proof (cases "- 1 - FenceBlockSize < st_ReservedCeiling (fa_state a) \<or> ff_before ff")
  case True
  with g grow_ceiling_blocked [OF True, of True s] have "err \<noteq> None" "a' = a" "s' = s" by auto
  with assms(1-3) show ?thesis by auto
next
  case False
  obtain res s1 where u: "store_Update (ff_stop ff) (ff_io ff) reserve_block s = (res, s1)" by fastforce
  have eff: "store_ok issued s1 \<and> so_loaded s1
      \<and> ((\<exists>e. res = Inl e) \<and> so_state s1 = so_state s
         \<or> (\<exists>nxt. reserve_block (so_state s) = Inr nxt \<and> res = Inr (so_state s1)
              \<and> st_ReservedCeiling (so_state s1) = st_ReservedCeiling nxt))"
    by (rule store_ok_update [OF st reserve_ok [OF st] u [unfolded store_Update_def]])
  show ?thesis
  proof (cases res)
    case (Inl e)
    with g u grow_ceiling_failed [OF False] have "err \<noteq> None" "a' = a" "s' = s1" by auto
    moreover have "so_state s1 = so_state s" using eff Inl by auto
    ultimately show ?thesis using eff a by auto
  next
    case (Inr committed)
    with eff obtain nxt where n: "reserve_block (so_state s) = Inr nxt" "committed = so_state s1"
      "st_ReservedCeiling (so_state s1) = st_ReservedCeiling nxt" by auto
    let ?c = "st_ReservedCeiling (so_state s1)"
    from n have c: "unat ?c = unat (st_ReservedCeiling (so_state s)) + 2 ^ 20"
      using reserve_block_Inr [OF n(1)] unat_block by metis
    then have "st_ReservedCeiling (so_state s) \<le> ?c" by (simp add: word_le_nat_alt)
    with a have a2: "alloc_ok issued ?c (set_ceiling ?c a)" by (rule alloc_ok_mono)
    then have a3: "alloc_ok issued ?c ((set_ceiling ?c a)\<lparr>fa_ceiling := ?c\<rparr>)"
      by (auto simp: alloc_ok_def word_le_nat_alt)
    show ?thesis
      using grow_ceiling_grown [OF False u [unfolded Inr n(2)]] g eff a2 a3 c by (cases "ff_after ff") auto
  qed
qed

lemma unat_succ: "unat x \<le> unat c \<Longrightarrow> block_aligned c \<Longrightarrow> unat (x + 1 :: uint64) = unat x + 1"
  using aligned_less [of c] by (simp add: unat_word_ariths)

lemma issue_ok:
  assumes st: "store_ok issued s" "so_loaded s" and a: "alloc_ok issued (st_ReservedCeiling (so_state s)) a"
    and i: "fa_initialized a" "fa_next a \<le> fa_ceiling a"
  shows "store_ok (fa_next a # issued) s \<and> (\<forall>w \<in> set issued. w < fa_next a)
    \<and> alloc_ok (fa_next a # issued) (st_ReservedCeiling (so_state s)) (a\<lparr>fa_next := fa_next a + 1\<rparr>)"
proof -
  let ?c = "st_ReservedCeiling (so_state s)"
  have le: "fa_next a \<le> ?c" and less: "\<forall>w \<in> set issued. w < fa_next a"
    using a i by (auto simp: alloc_ok_def)
  then have succ: "unat (fa_next a + 1) = unat (fa_next a) + 1"
    using st by (intro unat_succ [of _ ?c]) (auto simp: store_ok_def ceiling_ok_def word_le_nat_alt)
  have "store_ok (fa_next a # issued) s"
    using st le by (auto simp: store_ok_def ceiling_ok_def)
  moreover have "alloc_ok (fa_next a # issued) ?c (a\<lparr>fa_next := fa_next a + 1\<rparr>)"
    using a i less succ by (auto simp: alloc_ok_def word_le_nat_alt word_less_nat_alt)
  ultimately show ?thesis using less by simp
qed

lemma initialise_ok:
  assumes st: "store_ok issued s" "so_loaded s" and a: "alloc_ok issued (st_ReservedCeiling (so_state s)) a"
  shows "alloc_ok issued (st_ReservedCeiling (so_state s))
    (if fa_initialized a then a
     else a\<lparr>fa_next := st_ReservedCeiling (fa_state a) + 1, fa_ceiling := st_ReservedCeiling (fa_state a),
            fa_initialized := True\<rparr>)"
proof -
  let ?c = "st_ReservedCeiling (so_state s)"
  have ok: "ceiling_ok issued ?c" and fc: "st_ReservedCeiling (fa_state a) = ?c"
    using st a by (auto simp: store_ok_def alloc_ok_def)
  then have "unat (?c + 1) = unat ?c + 1" by (intro unat_succ [of _ ?c]) (auto simp: ceiling_ok_def)
  with ok have "\<forall>v \<in> set issued. v < ?c + 1"
    by (auto simp: ceiling_ok_def word_le_nat_alt word_less_nat_alt)
  with a fc \<open>unat (?c + 1) = unat ?c + 1\<close> show ?thesis by (auto simp: alloc_ok_def)
qed

lemma Next_ok:
  assumes st: "store_ok issued s" "so_loaded s" and a: "alloc_ok issued (st_ReservedCeiling (so_state s)) a"
    and nxt: "Next True ff a s = (res, a', s')"
  shows "so_loaded s' \<and> (case res of
      Inl e \<Rightarrow> store_ok issued s' \<and> alloc_ok issued (st_ReservedCeiling (so_state s')) a'
    | Inr v \<Rightarrow> store_ok (v # issued) s' \<and> (\<forall>w \<in> set issued. w < v)
        \<and> alloc_ok (v # issued) (st_ReservedCeiling (so_state s')) a')"
proof (cases "\<not> fa_initialized a \<and> st_FenceUnsafe (fa_state a)")
  case True
  with assms show ?thesis by (auto simp: Next_def)
next
  case False
  define a0 where "a0 = (if fa_initialized a then a
     else a\<lparr>fa_next := st_ReservedCeiling (fa_state a) + 1, fa_ceiling := st_ReservedCeiling (fa_state a),
            fa_initialized := True\<rparr>)"
  obtain err a1 s1 where g: "(if fa_ceiling a0 < fa_next a0 then grow_ceiling True ff a0 s else (None, a0, s)) = (err, a1, s1)"
    by (metis surj_pair)
  have a0: "alloc_ok issued (st_ReservedCeiling (so_state s)) a0" "fa_initialized a0"
    unfolding a0_def using initialise_ok [OF st a] by auto
  have r: "store_ok issued s1 \<and> so_loaded s1 \<and> alloc_ok issued (st_ReservedCeiling (so_state s1)) a1
      \<and> fa_initialized a1 \<and> (err = None \<longrightarrow> fa_next a1 \<le> fa_ceiling a1)"
  proof (cases "fa_ceiling a0 < fa_next a0")
    case True
    with g have "grow_ceiling True ff a0 s = (err, a1, s1)" by simp
    from grow_ceiling_ok [OF st a0(1) this] a0 show ?thesis
      by (auto simp: alloc_ok_def word_le_nat_alt)
  next
    case False
    with g st a0 show ?thesis by auto
  qed
  have "Next True ff a s = (case err of Some e \<Rightarrow> (Inl e, a1, s1)
      | None \<Rightarrow> (Inr (fa_next a1), a1\<lparr>fa_next := fa_next a1 + 1\<rparr>, s1))"
    unfolding Next_def a0_def [symmetric] using False g by (auto simp: Let_def)
  with nxt r issue_ok [of issued s1 a1] show ?thesis by (cases err) auto
qed

lemma fence_inv_step: "fence_inv fs \<Longrightarrow> fence_inv (fence_step fs e)"
proof (cases e)
  case (FNext ff)
  assume inv: "fence_inv fs"
  show ?thesis
  proof (cases "fs_alloc fs")
    case None
    with inv FNext show ?thesis by simp
  next
    case (Some a)
    obtain res a' s' where n: "Next True ff a (fs_store fs) = (res, a', s')" by (metis surj_pair)
    from inv Some have "store_ok (fs_issued fs) (fs_store fs)" "so_loaded (fs_store fs)"
      "alloc_ok (fs_issued fs) (st_ReservedCeiling (so_state (fs_store fs))) a" by (auto simp: fence_inv_def)
    from Next_ok [OF this n] FNext Some n inv show ?thesis
      by (cases res) (auto simp: fence_inv_def)
  qed
next
  case (FUpdate mirror stop io g)
  assume inv: "fence_inv fs"
  let ?s = "fs_store fs" and ?i = "fs_issued fs"
  obtain err s1 where l: "ensure_loaded stop io ?s = (err, s1)" by fastforce
  obtain res s' where u: "update_mode mirror stop io (other_update g) s1 = (res, s')" by fastforce
  have ok: "store_ok ?i ?s" using inv by (simp add: fence_inv_def)
  note ld = store_ok_load [OF ok l]
  show ?thesis
  proof (cases err)
    case None
    have "store_ok ?i s' \<and> so_loaded s' \<and> st_ReservedCeiling (so_state s') = st_ReservedCeiling (so_state s1)"
      using store_ok_update [of ?i s1 "other_update g" mirror stop io res s'] ld None u
      by (auto simp: other_update_ceiling store_ok_def)
    moreover have "fence_step fs e = fs\<lparr>fs_store := s'\<rparr>"
      using FUpdate l None u ld update_unloaded [of mirror stop io "other_update g" ?s] by simp
    ultimately show ?thesis using inv ld by (auto simp: fence_inv_def)
  next
    case (Some x)
    with FUpdate l ld update_unloaded [of mirror stop io "other_update g" ?s] have "fence_step fs e = fs" by simp
    with inv show ?thesis by simp
  qed
next
  case (FRestart stop io)
  assume inv: "fence_inv fs"
  let ?s = "NewStateStore (so_disk (fs_store fs))"
  have ok: "store_ok (fs_issued fs) ?s"
    using inv by (auto simp: fence_inv_def store_ok_def NewStateStore_def)
  obtain err s1 where l: "ensure_loaded stop io ?s = (err, s1)" by fastforce
  from store_ok_load [OF ok l] FRestart l inv show ?thesis
    by (cases err) (auto simp: fence_inv_def PersistentSnapshot_def alloc_ok_def NewFenceAllocator_def)
qed

interpretation fences: invariant_machine fence_step fence_inv
  by unfold_locales (rule fence_inv_step)

text \<open>
  C2. Fence numbers increase strictly across crashes and restarts and never exceed the
  durable ceiling. The history starts on an empty disk and is any sequence of allocations
  (each with a crash before or after the ceiling is written), updates of the same store by
  other parts of the plugin, and restarts, with every write allowed to fail at any point.
\<close>

theorem fences_strictly_increase:
  "let fs = run fence_step (fence_start empty_disk) es
   in sorted_wrt (>) (fs_issued fs)
    \<and> (case durable (so_disk (fs_store fs)) of None \<Rightarrow> False
       | Some st \<Rightarrow> list_all (\<lambda>v. v \<le> st_ReservedCeiling st) (fs_issued fs))"
proof -
  have "durable empty_disk = Some NewPersistentState" by (simp add: durable_empty empty_disk_def)
  then have "fence_inv (fence_start empty_disk)"
    by (simp add: fence_inv_def store_ok_def fence_start_def NewStateStore_def ceiling_ok_def block_aligned_def
        NewPersistentState_def) (simp add: undamaged_def empty_disk_def)
  from fences.run_inv [OF this, of es] show ?thesis
    by (auto simp: fence_inv_def store_ok_def ceiling_ok_def list_all_iff Let_def)
qed

definition no_faults :: fence_faults where
  "no_faults = \<lparr>ff_before = False, ff_after = False, ff_stop = None, ff_io = (\<lambda>_. False)\<rparr>"

lemma update_without_faults:
  assumes "so_loaded s" "\<not> so_readOnly s" "fn (so_state s) = Inr nxt"
  shows "\<exists>s'. store_Update None (\<lambda>_. False) fn s = (Inr (written nxt s), s')"
  using assms
  by (simp add: store_Update_def update_mode_def ensure_loaded_def writeLockedMode_eq commit_write_def writeAtomic_def)

text \<open>
  Without faults a fence is always available: a loaded store that may be written, whose
  state is not marked unsafe and whose ceiling has room for a block, gives a number.
\<close>

theorem fence_available:
  assumes "so_loaded s" "\<not> so_readOnly s" "\<not> st_FenceUnsafe (so_state s)" "\<not> st_FenceUnsafe (fa_state a)"
    and "st_ReservedCeiling (so_state s) \<le> - 1 - FenceBlockSize"
    and "st_ReservedCeiling (fa_state a) \<le> - 1 - FenceBlockSize"
  shows "\<exists>v a' s'. Next True no_faults a s = (Inr v, a', s')"
proof -
  have "reserve_block (so_state s) = Inr ((so_state s)\<lparr>st_ReservedCeiling := st_ReservedCeiling (so_state s) + FenceBlockSize\<rparr>)"
    using assms by (simp add: reserve_block_def not_less)
  from update_without_faults [where fn = reserve_block, OF assms(1,2) this] obtain st s1 where
    u: "store_Update None (\<lambda>_. False) reserve_block s = (Inr st, s1)" by blast
  have g: "grow_ceiling True no_faults b s = (None, (set_ceiling (st_ReservedCeiling st) b)\<lparr>fa_ceiling := st_ReservedCeiling st\<rparr>, s1)"
    if "fa_state b = fa_state a" for b
    using grow_ceiling_grown [of b no_faults s st s1] u that assms(6) by (simp add: no_faults_def not_less)
  show ?thesis using assms(4) by (auto simp: Next_def g Let_def)
qed

theorem fence_available_witness:
  "let s = snd (loadLocked None (\<lambda>_. False) (NewStateStore empty_disk))
   in \<exists>v a' s'. Next True no_faults (NewFenceAllocator NewPersistentState) s = (Inr v, a', s')"
proof -
  let ?s = "snd (loadLocked None (\<lambda>_. False) (NewStateStore empty_disk))"
  have "so_loaded ?s" "\<not> so_readOnly ?s" "\<not> st_FenceUnsafe (so_state ?s)"
      "st_ReservedCeiling (so_state ?s) \<le> - 1 - FenceBlockSize" by code_simp+
  moreover have "\<not> st_FenceUnsafe (fa_state (NewFenceAllocator NewPersistentState))"
      "st_ReservedCeiling (fa_state (NewFenceAllocator NewPersistentState)) \<le> - 1 - FenceBlockSize" by code_simp+
  ultimately show ?thesis using fence_available [of ?s "NewFenceAllocator NewPersistentState"] by simp
qed

section \<open>A damaged primary\<close>

text \<open>
  The backup holds the state before the last write, so its ceiling is one block behind. When
  the primary alone is damaged, \<^verbatim>\<open>loadLocked\<close> restores the backup without marking it unsafe, and
  the numbers of the last block are issued again.
\<close>

definition damage_primary :: "FenceSystem \<Rightarrow> FenceSystem" where
  "damage_primary fs = fs\<lparr>fs_store := (fs_store fs)\<lparr>so_disk := (so_disk (fs_store fs))\<lparr>dk_primary := Some Corrupt\<rparr>\<rparr>\<rparr>"

lemma lagging_backup_reissues:
  "let restart = FRestart None (\<lambda>_. False); alloc = FNext no_faults;
       fs = run fence_step (fence_start empty_disk) [restart, alloc, restart, alloc]
   in fs_issued (run fence_step (damage_primary fs) [restart, alloc]) = [0x100001, 0x100001, 1]"
  by code_simp

end
