(* ===== verification/Credential_WAL.thy ===== *)
theory Credential_WAL
  imports Store_Props
begin

text \<open>
  \<^verbatim>\<open>credential_wal.go\<close>: the write-ahead log of credential rotations. A rotation is recorded as
  planned before the host is asked to save the credential, and as applied, aborted or of
  unknown outcome afterwards; a later reconciliation compares the chain with the credential
  the host holds.

  The store is the \<^verbatim>\<open>StateStore\<close>, the only implementation of \<^verbatim>\<open>StateWriter\<close>. The host is modelled by
  the credential it holds and by the outcome of a save; every crash point and every fault of
  the store's writes is a parameter. Shown: whatever happens during a save, a restarted
  process recognises the host's credential as its own (invariant 40 of the design document).
\<close>


record HostAuth =
  ha_Name :: string
  ha_Raw :: string
  ha_Fingerprint :: CredentialFingerprint

record CredentialSaveResult =
  cs_Phase :: TransitionPhase
  cs_SaveSeq :: uint64

record CredentialRecoveryReport =
  cr_Ambiguous :: bool
  cr_Phase :: TransitionPhase
  cr_Observation :: CredentialObservation

record CredentialReconcileHooks =
  ch_BeforeCommit :: "CredentialRecoveryReport \<Rightarrow> string option"
  ch_AfterCommit :: "CredentialRecoveryReport \<Rightarrow> PersistentState \<Rightarrow> string option"

datatype wal_error =
    WalStore store_error
  | WalCredential credential_error
  | WalHost string
  | WalHook string
  | WalStopped
  | WalRollbackFailed string store_error

text \<open>The manager's own fields are its cached copy of the durable state.\<close>

record CredentialManager =
  cm_state :: PersistentState

definition NewCredentialManager ::
  "faults \<Rightarrow> StateStore \<Rightarrow> (wal_error + CredentialManager) \<times> StateStore" where
  "NewCredentialManager f s =
    (case PersistentSnapshot (fst f) (snd f) s of
       (Inl e, s') \<Rightarrow> (Inl (WalStore e), s')
     | (Inr st, s') \<Rightarrow> (Inr \<lparr>cm_state = st\<rparr>, s'))"

definition mutate ::
  "faults \<Rightarrow> (PersistentState \<Rightarrow> store_error + PersistentState) \<Rightarrow> CredentialManager \<Rightarrow> StateStore
   \<Rightarrow> store_error option \<times> CredentialManager \<times> StateStore" where
  "mutate f fn m s =
    (case store_Update (fst f) (snd f) fn s of
       (Inl e, s') \<Rightarrow> (Some e, m, s')
     | (Inr committed, s') \<Rightarrow> (None, m\<lparr>cm_state := committed\<rparr>, s'))"

definition put_chain :: "AuthInstanceID \<Rightarrow> TransitionChain \<Rightarrow> PersistentState \<Rightarrow> PersistentState" where
  "put_chain inst c st = st\<lparr>st_CredentialChains := gput inst c (st_CredentialChains st)\<rparr>"

definition setChain ::
  "faults \<Rightarrow> AuthInstanceID \<Rightarrow> TransitionChain \<Rightarrow> CredentialManager \<Rightarrow> StateStore
   \<Rightarrow> store_error option \<times> CredentialManager \<times> StateStore" where
  "setChain f inst c m s = mutate f (\<lambda>st. Inr (put_chain inst c st)) m s"

definition chain_of :: "AuthInstanceID \<Rightarrow> PersistentState \<Rightarrow> TransitionChain" where
  \<comment> \<open>a map read: the zero chain when the key is absent\<close>
  "chain_of inst st = (case gget (st_CredentialChains st) inst of None \<Rightarrow> zero_TransitionChain | Some c \<Rightarrow> c)"

section \<open>Saving a rotated credential\<close>

datatype save_point =
  PlannedWrite | AfterPlanned | BeforeSaveAuth | AfterSaveAuth | BeforeTerminal | TerminalWrite

datatype save_outcome =
    SaveOk
  | SaveRejected         \<comment> \<open>\<^verbatim>\<open>ErrCredentialRejected\<close>: the host kept its credential\<close>
  | SaveFailed bool      \<comment> \<open>any other error; the argument says whether the host took the credential\<close>

fun save_error :: "save_outcome \<Rightarrow> wal_error option" where
  "save_error SaveOk = None"
| "save_error SaveRejected = Some (WalCredential ErrCredentialRejected)"
| "save_error (SaveFailed b) = Some (WalHost ''save failed'')"

fun save_phase :: "save_outcome \<Rightarrow> TransitionPhase" where
  "save_phase SaveOk = TransitionApplied"
| "save_phase SaveRejected = TransitionAborted"
| "save_phase (SaveFailed b) = TransitionOutcomeUnknown"

fun host_after :: "save_outcome \<Rightarrow> HostAuth \<Rightarrow> HostAuth \<Rightarrow> HostAuth" where
  "host_after SaveOk nxt h = nxt"
| "host_after SaveRejected nxt h = h"
| "host_after (SaveFailed b) nxt h = (if b then nxt else h)"

record save_env =
  se_now1 :: time
  se_now2 :: time
  se_snapshot :: faults
  se_planned :: faults
  se_terminal :: faults
  se_crash :: "save_point option"
  se_outcome :: save_outcome

definition plan_transition ::
  "AuthInstanceID \<Rightarrow> CredentialTransition \<Rightarrow> time \<Rightarrow> PersistentState \<Rightarrow> PersistentState" where
  "plan_transition inst tr now st =
    (let seq = st_NextSaveSeq st + 1;
         ch = AppendAt (chain_of inst st) (tr\<lparr>tr_SaveSeq := seq\<rparr>) now
     in put_chain inst ch (st\<lparr>st_NextSaveSeq := seq\<rparr>))"

definition finish_transition ::
  "AuthInstanceID \<Rightarrow> uint64 \<Rightarrow> TransitionPhase \<Rightarrow> PersistentState \<Rightarrow> PersistentState" where
  "finish_transition inst seq phase st =
    (let ch = chain_of inst st
     in put_chain inst (ch\<lparr>ch_Transitions :=
          map (\<lambda>t. if tr_SaveSeq t = seq then t\<lparr>tr_Phase := phase\<rparr> else t) (ch_Transitions ch)\<rparr>) st)"

definition no_result :: CredentialSaveResult where
  "no_result = \<lparr>cs_Phase = TransitionPhaseEmpty, cs_SaveSeq = 0\<rparr>"

definition save_planned ::
  "save_env \<Rightarrow> AuthInstanceID \<Rightarrow> HostAuth \<Rightarrow> uint64 \<Rightarrow> CredentialManager \<Rightarrow> StateStore \<Rightarrow> HostAuth
   \<Rightarrow> (CredentialSaveResult \<times> wal_error option) \<times> CredentialManager \<times> StateStore \<times> HostAuth" where
  \<comment> \<open>from the durable plan on: ask the host, then record the outcome\<close>
  "save_planned env inst nxt seq m s h =
    (let result = (\<lambda>phase. \<lparr>cs_Phase = phase, cs_SaveSeq = seq\<rparr>);
         stopped = (\<lambda>p. se_crash env = Some p)
     in if stopped AfterPlanned \<or> stopped BeforeSaveAuth then ((result TransitionPlanned, Some WalStopped), m, s, h)
        else
          let h1 = host_after (se_outcome env) nxt h; phase = save_phase (se_outcome env)
          in if stopped AfterSaveAuth \<or> stopped BeforeTerminal \<or> stopped TerminalWrite
             then ((result TransitionOutcomeUnknown, Some WalStopped), m, s, h1)
             else case mutate (se_terminal env) (\<lambda>st. Inr (finish_transition inst seq phase st)) m s of
                    (Some e, m2, s2) \<Rightarrow> ((result phase, Some (WalStore e)), m2, s2, h1)
                  | (None, m2, s2) \<Rightarrow> ((result phase, save_error (se_outcome env)), m2, s2, h1))"

definition saveVersionedWithHost ::
  "save_env \<Rightarrow> AuthInstanceID \<Rightarrow> HostAuth \<Rightarrow> ExecutionToken \<Rightarrow> CredentialManager \<Rightarrow> StateStore \<Rightarrow> HostAuth
   \<Rightarrow> (CredentialSaveResult \<times> wal_error option) \<times> CredentialManager \<times> StateStore \<times> HostAuth" where
  "saveVersionedWithHost env inst nxt token m s h =
    (case PersistentSnapshot (fst (se_snapshot env)) (snd (se_snapshot env)) s of
       (Inl e, s0) \<Rightarrow> ((no_result, Some (WalStore e)), m, s0, h)
     | (Inr fresh, s0) \<Rightarrow>
         let m0 = m\<lparr>cm_state := fresh\<rparr>; fail = (\<lambda>e. ((no_result, Some e), m0, s0, h))
         in if et_Instance token \<noteq> inst then fail (WalCredential ErrStaleExecutionToken)
            else case gget (st_CredentialChains fresh) inst of
              None \<Rightarrow> fail (WalCredential ErrCredentialChainMissing)
            | Some chain \<Rightarrow>
                (case SaveTail chain of
                   Inl e \<Rightarrow> fail (WalCredential e)
                 | Inr tail \<Rightarrow>
                     let tr = \<lparr>tr_Prev = tail, tr_Next = ha_Fingerprint nxt, tr_SaveSeq = 0,
                               tr_Phase = TransitionPlanned, tr_CreatedAt = se_now1 env\<rparr>
                     in if se_crash env = Some PlannedWrite then fail WalStopped
                        else case mutate (se_planned env) (\<lambda>st. Inr (plan_transition inst tr (se_now2 env) st)) m0 s0 of
                               (Some e, m1, s1) \<Rightarrow> ((no_result, Some (WalStore e)), m1, s1, h)
                             | (None, m1, s1) \<Rightarrow>
                                 save_planned env inst nxt (st_NextSaveSeq (cm_state m1)) m1 s1 h))"

definition SaveVersioned where "SaveVersioned = saveVersionedWithHost"

section \<open>Reconciliation\<close>

definition no_observation :: CredentialObservation where
  "no_observation = \<lparr>co_Kind = CredentialKindEmpty, co_Advance = 0\<rparr>"

definition empty_recovery :: CredentialRecoveryReport where
  "empty_recovery = \<lparr>cr_Ambiguous = False, cr_Phase = TransitionPhaseEmpty, cr_Observation = no_observation\<rparr>"

definition resolve_last ::
  "TransitionChain \<Rightarrow> CredentialFingerprint \<Rightarrow> (TransitionChain \<times> TransitionPhase) option" where
  \<comment> \<open>the first block: an open last transition is settled by the observation; \<open>None\<close> is ambiguous\<close>
  "resolve_last chain observed =
    (if ch_Transitions chain = [] then Some (chain, TransitionPhaseEmpty)
     else
       let t = last (ch_Transitions chain);
           settle = (\<lambda>phase. Some (chain\<lparr>ch_Transitions := butlast (ch_Transitions chain) @ [t\<lparr>tr_Phase := phase\<rparr>]\<rparr>, phase))
       in if tr_Phase t = TransitionPlanned \<or> tr_Phase t = TransitionOutcomeUnknown
          then (if fp_CompositeHash observed = fp_CompositeHash (tr_Next t) then settle TransitionApplied
                else if fp_CompositeHash observed = fp_CompositeHash (tr_Prev t) then settle TransitionAborted
                else None)
          else Some (chain, tr_Phase t))"

fun drop_aborted :: "CredentialFingerprint \<Rightarrow> CredentialTransition list \<Rightarrow> CredentialTransition list" where
  "drop_aborted cursor [] = []"
| "drop_aborted cursor (t # ts) =
    (if tr_Prev t = cursor \<and> tr_Phase t = TransitionAborted then drop_aborted cursor ts else t # ts)"

definition advance_chain :: "TransitionChain \<Rightarrow> CredentialFingerprint \<Rightarrow> CredentialObservation \<Rightarrow> TransitionChain" where
  "advance_chain chain observed obs =
    (if co_Kind obs = CredentialOwnedRotation
     then \<lparr>ch_Cursor = observed, ch_Transitions = drop (co_Advance obs) (ch_Transitions chain)\<rparr>
     else if co_Kind obs = CredentialExternalLogin then \<lparr>ch_Cursor = observed, ch_Transitions = []\<rparr>
     else chain)"

definition reconcileCredentialObservation ::
  "TransitionChain \<Rightarrow> CredentialFingerprint \<Rightarrow> time \<Rightarrow> TransitionChain \<times> CredentialRecoveryReport" where
  "reconcileCredentialObservation chain observed now =
    (case resolve_last chain observed of
       None \<Rightarrow> (chain, empty_recovery\<lparr>cr_Phase := tr_Phase (last (ch_Transitions chain)), cr_Ambiguous := True\<rparr>)
     | Some (chain1, phase) \<Rightarrow>
         let obs = ClassifyObservedCredentialAt chain1 observed now;
             chain2 = advance_chain chain1 observed obs
         in (chain2\<lparr>ch_Transitions := drop_aborted (ch_Cursor chain2) (ch_Transitions chain2)\<rparr>,
             empty_recovery\<lparr>cr_Phase := phase, cr_Observation := obs\<rparr>))"

definition put_binding :: "string \<Rightarrow> RuntimeBinding \<Rightarrow> PersistentState \<Rightarrow> PersistentState" where
  "put_binding authID b st = st\<lparr>st_Bindings := gput authID b (st_Bindings st)\<rparr>"

definition bump_generation :: "PersistentState \<Rightarrow> PersistentState" where
  "bump_generation st =
    (let g = st_TierGeneration st + 1 in st\<lparr>st_TierGeneration := (if g = 0 then 1 else g)\<rparr>)"

definition reconcile_binding ::
  "AuthInstanceID \<Rightarrow> CredentialObservationKind \<Rightarrow> CredentialFingerprint \<Rightarrow> string \<Rightarrow> PersistentState \<Rightarrow> PersistentState" where
  \<comment> \<open>the body of the loop over the bindings\<close>
  "reconcile_binding inst kind fp authID st =
    (case gget (st_Bindings st) authID of
       None \<Rightarrow> st
     | Some b \<Rightarrow>
         if rb_Instance b \<noteq> inst then st
         else if kind = CredentialOwnedRotation
         then put_binding authID (b\<lparr>rb_Token := rb_Token b + 1, rb_Fingerprint := fp\<rparr>) st
         else if kind = CredentialExternalLogin
         then
           let st1 = bump_generation st; g = st_TierGeneration st1; admission = rb_Admission b + 1;
               b1 = b\<lparr>rb_Login := rb_Login b + 1, rb_Admission := admission, rb_Fingerprint := fp,
                      rb_AuthBlocked := False, rb_Generation := g\<rparr>;
               st2 = st1\<lparr>st_AdmissionEpochs := gput inst admission (st_AdmissionEpochs st1),
                         st_Bindings := gmap_vals (\<lambda>a. a\<lparr>rb_Generation := g\<rparr>) (st_Bindings st1)\<rparr>
           in put_binding authID b1 st2
         else st)"

definition ErrResolutionScope :: store_error where
  "ErrResolutionScope = ErrApply ''credential resolution requires an active roster instance''"

definition commit_reconcile ::
  "bool \<Rightarrow> AuthInstanceID \<Rightarrow> TransitionChain \<Rightarrow> CredentialObservationKind \<Rightarrow> CredentialFingerprint
   \<Rightarrow> PersistentState \<Rightarrow> store_error + PersistentState" where
  "commit_reconcile requireUnresolved inst nextChain kind fp st =
    (if requireUnresolved \<and> \<not> credentialChainUnresolved (chain_of inst st) then Inl ErrResolutionScope
     else Inr (fold (reconcile_binding inst kind fp) (map fst (st_Bindings st)) (put_chain inst nextChain st)))"

definition same_map :: "('k, 'v) gmap \<Rightarrow> ('k, 'v) gmap \<Rightarrow> bool" where
  \<comment> \<open>\<^verbatim>\<open>reflect.DeepEqual\<close> on two maps\<close>
  "same_map a b \<longleftrightarrow> set (map fst a) = set (map fst b) \<and> (\<forall>k \<in> set (map fst a). gget a k = gget b k)"

definition rollback ::
  "PersistentState \<Rightarrow> PersistentState \<Rightarrow> PersistentState \<Rightarrow> store_error + PersistentState" where
  "rollback before committed st =
    (if st_TierGeneration st \<noteq> st_TierGeneration committed
        \<or> \<not> same_map (st_AdmissionEpochs st) (st_AdmissionEpochs committed)
        \<or> \<not> same_map (st_CredentialChains st) (st_CredentialChains committed)
        \<or> \<not> same_map (st_Bindings st) (st_Bindings committed)
     then Inl ErrResolutionScope
     else Inr (st\<lparr>st_TierGeneration := st_TierGeneration before, st_AdmissionEpochs := st_AdmissionEpochs before,
                  st_CredentialChains := st_CredentialChains before, st_Bindings := st_Bindings before\<rparr>))"

record reconcile_env =
  re_now :: time
  re_GetAuth :: "string + HostAuth"
  re_snapshot :: faults
  re_commit :: faults
  re_rollback :: faults

definition reconcile_commit ::
  "reconcile_env \<Rightarrow> AuthInstanceID \<Rightarrow> bool \<Rightarrow> CredentialReconcileHooks \<Rightarrow> TransitionChain \<Rightarrow> HostAuth
   \<Rightarrow> CredentialManager \<Rightarrow> StateStore
   \<Rightarrow> (CredentialRecoveryReport \<times> wal_error option) \<times> CredentialManager \<times> StateStore" where
  \<comment> \<open>from the observation on. The assignment \<^verbatim>\<open>chain.Transitions[i] = transition\<close> writes through the
     slice into the manager's own copy of the chain, before \<^verbatim>\<open>before\<close> is taken from it.\<close>
  "reconcile_commit env inst requireUnresolved hooks chain current m s =
    (case reconcileCredentialObservation chain (ha_Fingerprint current) (re_now env) of
       (nextChain, report) \<Rightarrow>
         if cr_Ambiguous report then ((report, None), m, s)
         else
           let settled = (case resolve_last chain (ha_Fingerprint current) of None \<Rightarrow> chain | Some (c, _) \<Rightarrow> c);
               m1 = m\<lparr>cm_state := put_chain inst settled (cm_state m)\<rparr>
           in case ch_BeforeCommit hooks report of
                Some e \<Rightarrow> ((report, Some (WalHook e)), m1, s)
              | None \<Rightarrow>
                  let before = clonePersistentState (cm_state m1)
                  in case mutate (re_commit env)
                            (commit_reconcile requireUnresolved inst nextChain (co_Kind (cr_Observation report))
                               (ha_Fingerprint current)) m1 s of
                       (Some e, m2, s2) \<Rightarrow> ((report, Some (WalStore e)), m2, s2)
                     | (None, m2, s2) \<Rightarrow>
                         let committed = clonePersistentState (cm_state m2)
                         in case ch_AfterCommit hooks report committed of
                              None \<Rightarrow> ((report, None), m2, s2)
                            | Some e \<Rightarrow>
                                (case mutate (re_rollback env) (rollback before committed) m2 s2 of
                                   (Some e2, m3, s3) \<Rightarrow> ((report, Some (WalRollbackFailed e e2)), m3, s3)
                                 | (None, m3, s3) \<Rightarrow> ((report, Some (WalHook e)), m3, s3)))"

definition wal_reconcile ::
  "reconcile_env \<Rightarrow> AuthInstanceID \<Rightarrow> bool \<Rightarrow> CredentialReconcileHooks \<Rightarrow> CredentialManager \<Rightarrow> StateStore
   \<Rightarrow> (CredentialRecoveryReport \<times> wal_error option) \<times> CredentialManager \<times> StateStore" where
  "wal_reconcile env inst requireUnresolved hooks m s =
    (case PersistentSnapshot (fst (re_snapshot env)) (snd (re_snapshot env)) s of
       (Inl e, s0) \<Rightarrow> ((empty_recovery, Some (WalStore e)), m, s0)
     | (Inr fresh, s0) \<Rightarrow>
         let m0 = m\<lparr>cm_state := fresh\<rparr>; fail = (\<lambda>e. ((empty_recovery, e), m0, s0));
             chain = chain_of inst fresh
         in if gget (st_CredentialChains fresh) inst = None \<or> \<not> ValidHashes (ch_Cursor chain)
            then fail (if requireUnresolved then Some (WalCredential ErrCredentialResolutionScope) else None)
            else if requireUnresolved \<and> \<not> credentialChainUnresolved chain
            then fail (Some (WalCredential ErrCredentialResolutionScope))
            else case re_GetAuth env of
                   Inl e \<Rightarrow> fail (Some (WalHost e))
                 | Inr current \<Rightarrow> reconcile_commit env inst requireUnresolved hooks chain current m0 s0)"

definition no_hooks :: CredentialReconcileHooks where
  "no_hooks = \<lparr>ch_BeforeCommit = (\<lambda>_. None), ch_AfterCommit = (\<lambda>_ _. None)\<rparr>"

definition Reconcile where "Reconcile env inst = wal_reconcile env inst False no_hooks"
definition ReconcileWithHooks where "ReconcileWithHooks env inst hooks = wal_reconcile env inst False hooks"
definition ReconcileUnresolved where "ReconcileUnresolved env inst = wal_reconcile env inst True no_hooks"

section \<open>Reconciliation recognises the plugin's own credentials\<close>

lemma classify_from_prefix:
  "classify_from now observed i f xs = Some obs \<Longrightarrow> classify_from now observed i f (xs @ ys) = Some obs"
  by (induction now observed i f xs rule: classify_from.induct) (auto split: if_splits)

definition applied_chain :: "time \<Rightarrow> TransitionChain \<Rightarrow> bool" where
  \<comment> \<open>a linked chain of applied rotations of the last day that never returns to a credential\<close>
  "applied_chain now c \<longleftrightarrow> linked c
     \<and> (\<forall>t \<in> set (ch_Transitions c). tr_Phase t = TransitionApplied \<and> recent now t)
     \<and> distinct (comp (ch_Cursor c) # map (comp \<circ> tr_Next) (ch_Transitions c))"

lemma applied_tail:
  "applied_chain now c \<Longrightarrow>
    comp (Tail c) = (if ch_Transitions c = [] then comp (ch_Cursor c) else comp (tr_Next (last (ch_Transitions c))))"
proof -
  have "linked_from (comp f) ts \<Longrightarrow> \<forall>t \<in> set ts. tr_Phase t = TransitionApplied \<Longrightarrow> ts \<noteq> [] \<Longrightarrow>
      tail_from f ts = tr_Next (last ts)" for f ts
    by (induction ts arbitrary: f) auto
  then show "applied_chain now c \<Longrightarrow> ?thesis" by (auto simp: applied_chain_def linked_def Tail_def)
qed

lemma observe_tail:
  assumes "applied_chain now c" and "comp observed = comp (Tail c)"
  shows "ClassifyObservedCredentialAt (c\<lparr>ch_Transitions := ch_Transitions c @ ys\<rparr>) observed now
    = (if ch_Transitions c = [] then \<lparr>co_Kind = CredentialSame, co_Advance = 0\<rparr>
       else \<lparr>co_Kind = CredentialOwnedRotation, co_Advance = length (ch_Transitions c)\<rparr>)"
proof (cases "ch_Transitions c = []")
  case True
  with assms applied_tail [OF assms(1)] show ?thesis by (simp add: ClassifyObservedCredentialAt_def)
next
  case False
  let ?ts = "ch_Transitions c"
  have o: "comp observed = comp (tr_Next (last ?ts))" using assms applied_tail [OF assms(1)] False by simp
  have d: "distinct (map (comp \<circ> tr_Next) ?ts)" "\<forall>t \<in> set ?ts. comp (ch_Cursor c) \<noteq> comp (tr_Next t)"
    using assms(1) by (auto simp: applied_chain_def)
  from d(2) last_in_set [OF False] o have n: "comp observed \<noteq> comp (ch_Cursor c)" by metis
  obtain obs where c: "classify_from now observed 0 (ch_Cursor c) ?ts = Some obs" "co_Kind obs = CredentialOwnedRotation"
    using classify_from_complete [of "ch_Cursor c" ?ts now "last ?ts" observed 0] assms(1) o False
    by (auto simp: applied_chain_def linked_def)
  obtain k where k: "k < length ?ts" "co_Advance obs = k + 1" "comp (tr_Next (?ts ! k)) = comp observed"
    using classify_from_owned [OF c] by auto
  have "k = length ?ts - 1"
    using d(1) k(1,3) o False nth_eq_iff_index_eq [of "map (comp \<circ> tr_Next) ?ts" k "length ?ts - 1"]
    by (simp add: last_conv_nth)
  with c(2) k(1,2) have "obs = \<lparr>co_Kind = CredentialOwnedRotation, co_Advance = length ?ts\<rparr>" by simp
  then show ?thesis
    using False n classify_from_prefix [OF c(1), of ys] by (simp add: ClassifyObservedCredentialAt_def)
qed

definition recognised :: "TransitionChain \<Rightarrow> CredentialFingerprint \<Rightarrow> time \<Rightarrow> bool" where
  \<comment> \<open>reconciling \<open>c\<close> with the host's credential \<open>fp\<close> leaves nothing open and ends at \<open>fp\<close>\<close>
  "recognised c fp now = (case reconcileCredentialObservation c fp now of (c', report) \<Rightarrow>
     \<not> cr_Ambiguous report
     \<and> (co_Kind (cr_Observation report) = CredentialSame \<or> co_Kind (cr_Observation report) = CredentialOwnedRotation)
     \<and> (case SaveTail c' of Inl _ \<Rightarrow> False | Inr t \<Rightarrow> comp t = comp fp))"

lemma drop_aborted_tail:
  "\<forall>t \<in> set ts. tr_Phase t = TransitionAborted \<and> comp (tr_Prev t) = comp f \<Longrightarrow>
   save_tail_from f ts = Inr f \<and> save_tail_from f (drop_aborted f ts) = Inr f"
  by (induction ts) auto

lemma recognised_resolved:
  assumes "applied_chain now c" and "comp observed = comp (Tail c)"
    and "ys = [] \<or> ys = [t] \<and> tr_Phase t = TransitionAborted \<and> comp (tr_Prev t) = comp (Tail c)"
    and "resolve_last c0 observed = Some (c\<lparr>ch_Transitions := ch_Transitions c @ ys\<rparr>, phase)"
  shows "recognised c0 observed now"
proof -
  note obs = observe_tail [OF assms(1,2), of ys] and tail = applied_tail [OF assms(1)]
  have y: "\<forall>t \<in> set ys. tr_Phase t = TransitionAborted \<and> comp (tr_Prev t) = comp (Tail c)" using assms(3) by auto
  show ?thesis
  proof (cases "ch_Transitions c = []")
    case True
    with tail y have "\<forall>t \<in> set ys. tr_Phase t = TransitionAborted \<and> comp (tr_Prev t) = comp (ch_Cursor c)" by simp
    from drop_aborted_tail [OF this] True assms(2,4) obs tail show ?thesis
      by (simp add: recognised_def reconcileCredentialObservation_def advance_chain_def SaveTail_def empty_recovery_def Let_def)
  next
    case False
    from y assms(2) have "\<forall>t \<in> set ys. tr_Phase t = TransitionAborted \<and> comp (tr_Prev t) = comp observed" by simp
    from drop_aborted_tail [OF this] False assms(4) obs show ?thesis
      by (simp add: recognised_def reconcileCredentialObservation_def advance_chain_def SaveTail_def empty_recovery_def Let_def)
  qed
qed

section \<open>Appending to a chain of applied rotations\<close>

definition path :: "TransitionChain \<Rightarrow> hash32 list" where
  "path c = comp (ch_Cursor c) # map (comp \<circ> tr_Next) (ch_Transitions c)"

lemma path_eta [simp]: "path \<lparr>ch_Cursor = ch_Cursor c, ch_Transitions = ch_Transitions c\<rparr> = path c"
  by (simp add: path_def)

lemma applied_chain_path:
  "applied_chain now c \<longleftrightarrow> linked c
     \<and> (\<forall>t \<in> set (ch_Transitions c). tr_Phase t = TransitionApplied \<and> recent now t) \<and> distinct (path c)"
  by (simp add: applied_chain_def path_def)

lemma expire_path:
  "linked_from (comp f) ts \<Longrightarrow> \<forall>t \<in> set ts. tr_Phase t = TransitionApplied \<Longrightarrow>
   \<exists>k. ch_Transitions (expire_from now f ts) = drop k ts
     \<and> path (expire_from now f ts) = drop k (path \<lparr>ch_Cursor = f, ch_Transitions = ts\<rparr>)"
proof (induction ts arbitrary: f)
  case Nil
  then show ?case by (intro exI [of _ 0]) (simp add: path_def)
next
  case (Cons t ts)
  from Cons.prems have p: "linked_from (comp (tr_Next t)) ts" "\<forall>t \<in> set ts. tr_Phase t = TransitionApplied" by auto
  obtain k where "ch_Transitions (expire_from now (tr_Next t) ts) = drop k ts"
    "path (expire_from now (tr_Next t) ts) = drop k (path \<lparr>ch_Cursor = tr_Next t, ch_Transitions = ts\<rparr>)"
    using Cons.IH [OF p] by blast
  moreover have "expire_from now f (t # ts) = expire_from now (tr_Next t) ts
      \<or> expire_from now f (t # ts) = \<lparr>ch_Cursor = f, ch_Transitions = t # ts\<rparr>" by simp
  ultimately show ?case
    by (elim disjE) (auto simp: path_def intro: exI [of _ "Suc k"] exI [of _ 0])
qed

lemma linked_prev_path:
  "linked_from (comp f) ts \<Longrightarrow> \<forall>t \<in> set ts. tr_Phase t = TransitionApplied \<Longrightarrow> k < length ts \<Longrightarrow>
   comp (tr_Prev (ts ! k)) = path \<lparr>ch_Cursor = f, ch_Transitions = ts\<rparr> ! k"
proof (induction ts arbitrary: f k)
  case (Cons t ts)
  then show ?case by (cases k) (auto simp: path_def)
qed simp

lemma drop_path:
  assumes "linked c" and "\<forall>t \<in> set (ch_Transitions c). tr_Phase t = TransitionApplied" and "k < length (ch_Transitions c)"
  shows "path \<lparr>ch_Cursor = tr_Prev (hd (drop k (ch_Transitions c))), ch_Transitions = drop k (ch_Transitions c)\<rparr>
    = drop k (path c)"
proof -
  have h: "hd (drop k (ch_Transitions c)) = ch_Transitions c ! k" using assms(3) by (simp add: hd_drop_conv_nth)
  have "comp (tr_Prev (ch_Transitions c ! k)) = path c ! k"
    using linked_prev_path [of "ch_Cursor c" "ch_Transitions c" k] assms by (simp add: linked_def)
  moreover have "drop k (path c) = path c ! k # drop (Suc k) (path c)"
    using assms(3) by (intro Cons_nth_drop_Suc [symmetric]) (simp add: path_def)
  moreover have "drop (Suc k) (path c) = map (comp \<circ> tr_Next) (drop k (ch_Transitions c))"
    by (simp add: path_def drop_map)
  ultimately show ?thesis using h by (simp add: path_def)
qed

lemma AppendAt_applied:
  assumes c: "applied_chain now c" and t: "comp (tr_Prev t) = comp (Tail c)"
  shows "\<exists>c1. AppendAt c t now2 = c1\<lparr>ch_Transitions := ch_Transitions c1 @ [t]\<rparr> \<and> applied_chain now c1
    \<and> comp (Tail c1) = comp (Tail c) \<and> set (path c1) \<subseteq> set (path c) \<and> set (ch_Transitions c1) \<subseteq> set (ch_Transitions c)"
proof -
  let ?e = "expire_from (if IsZero now2 then tr_CreatedAt t else now2) (ch_Cursor c) (ch_Transitions c)"
  have l: "linked c" "\<forall>t \<in> set (ch_Transitions c). tr_Phase t = TransitionApplied" "distinct (path c)"
    "\<forall>t \<in> set (ch_Transitions c). recent now t"
    using c by (auto simp: applied_chain_path)
  obtain k where e: "ch_Transitions ?e = drop k (ch_Transitions c)" "path ?e = drop k (path c)"
    using expire_path [of "ch_Cursor c" "ch_Transitions c" "if IsZero now2 then tr_CreatedAt t else now2"] l(1,2)
    by (auto simp: linked_def)
  have le: "linked ?e" "Tail ?e = Tail c"
    using expire_from_linked [of "ch_Cursor c" "ch_Transitions c"] l(1) by (simp_all add: linked_def Tail_def)
  have in_c: "set (drop j xs) \<subseteq> set xs" for j and xs :: "'z list" by (rule set_drop_subset)
  have ok: "applied_chain now c1 \<and> set (path c1) \<subseteq> set (path c) \<and> set (ch_Transitions c1) \<subseteq> set (ch_Transitions c)"
    if "linked c1" "ch_Transitions c1 = drop j (ch_Transitions c)" "path c1 = drop j (path c)" for c1 j
    using that l set_drop_subset [of j "ch_Transitions c"] set_drop_subset [of j "path c"]
    by (auto simp: applied_chain_path)
  show ?thesis
  proof (cases "length (ch_Transitions ?e @ [t]) > 11")
    case False
    then have "AppendAt c t now2 = ?e\<lparr>ch_Transitions := ch_Transitions ?e @ [t]\<rparr>" by (simp add: AppendAt_def Let_def)
    with ok [OF le(1) e] le(2) show ?thesis by (intro exI [of _ ?e]) simp
  next
    case True
    define j where "j = length (ch_Transitions ?e @ [t]) - 11"
    define c1 where "c1 = \<lparr>ch_Cursor = tr_Prev (hd (drop j (ch_Transitions ?e))), ch_Transitions = drop j (ch_Transitions ?e)\<rparr>"
    have j: "j < length (ch_Transitions ?e)" using True by (simp add: j_def)
    have "\<forall>t \<in> set (ch_Transitions ?e). tr_Phase t = TransitionApplied"
      using l(2) e(1) in_c [of k "ch_Transitions c"] by auto
    from drop_path [OF le(1) this j] have p: "path c1 = drop (j + k) (path c)" by (simp add: c1_def e(2))
    have lk: "linked c1" "comp (Tail c1) = comp (Tail c)"
      using linked_drop [of "ch_Cursor ?e" "ch_Transitions ?e" j] le j by (simp_all add: c1_def linked_def Tail_def)
    have "drop j (ch_Transitions ?e @ [t]) = drop j (ch_Transitions ?e) @ [t]" using j by simp
    with True j have "AppendAt c t now2 = c1\<lparr>ch_Transitions := ch_Transitions c1 @ [t]\<rparr>"
      unfolding AppendAt_def Let_def j_def [symmetric] by (simp add: c1_def)
    moreover have "ch_Transitions c1 = drop (j + k) (ch_Transitions c)" by (simp add: c1_def e(1))
    ultimately show ?thesis using ok [OF lk(1) _ p] lk(2) by blast
  qed
qed

lemma recognised_applied:
  assumes "applied_chain now c" and "comp observed = comp (Tail c)"
  shows "recognised c observed now"
proof -
  have "ch_Transitions c \<noteq> [] \<Longrightarrow> tr_Phase (last (ch_Transitions c)) = TransitionApplied"
    using assms(1) last_in_set [of "ch_Transitions c"] by (auto simp: applied_chain_def)
  then have "\<exists>phase. resolve_last c observed = Some (c, phase)" by (auto simp: resolve_last_def Let_def)
  then show ?thesis using recognised_resolved [OF assms, of "[]"] by fastforce
qed

lemma recognised_last:
  assumes c: "applied_chain now c" and t: "comp (tr_Prev t) = comp (Tail c)" "recent now t" "comp (tr_Next t) \<notin> set (path c)"
    and o: "tr_Phase t = TransitionApplied \<and> comp observed = comp (tr_Next t)
      \<or> tr_Phase t = TransitionAborted \<and> comp observed = comp (tr_Prev t)
      \<or> pending t \<and> (comp observed = comp (tr_Next t) \<or> comp observed = comp (tr_Prev t))"
  shows "recognised (c\<lparr>ch_Transitions := ch_Transitions c @ [t]\<rparr>) observed now" (is "recognised ?c observed now")
proof -
  have tail: "comp (Tail c) \<in> set (path c)" using applied_tail [OF c] by (auto simp: path_def)
  with t(1,3) have ne: "comp (tr_Next t) \<noteq> comp (tr_Prev t)" by metis
  define ta where "ta = t\<lparr>tr_Phase := TransitionApplied\<rparr>"
  have lk: "linked_from (comp (ch_Cursor c)) (ch_Transitions c)" using c by (simp add: applied_chain_def linked_def)
  have a: "applied_chain now (c\<lparr>ch_Transitions := ch_Transitions c @ [ta]\<rparr>)"
    and at: "comp (Tail (c\<lparr>ch_Transitions := ch_Transitions c @ [ta]\<rparr>)) = comp (tr_Next t)"
    using c t lk linked_from_append [of "ch_Cursor c" "ch_Transitions c" "[ta]"]
      linked_tail_append [OF lk, of "[ta]"]
    by (auto simp: applied_chain_def path_def linked_def Tail_def ta_def recent_def)
  show ?thesis
  proof (cases "comp observed = comp (tr_Next t)")
    case True
    have "\<exists>phase. resolve_last ?c observed = Some ((c\<lparr>ch_Transitions := ch_Transitions c @ [ta]\<rparr>), phase)"
      using True o ne by (auto simp: resolve_last_def Let_def ta_def pending_def)
    then show ?thesis using recognised_resolved [OF a, of observed "[]"] True at by fastforce
  next
    case False
    define tb where "tb = t\<lparr>tr_Phase := TransitionAborted\<rparr>"
    have "\<exists>phase. resolve_last ?c observed = Some ((c\<lparr>ch_Transitions := ch_Transitions c @ [tb]\<rparr>), phase)"
      using False o ne by (auto simp: resolve_last_def Let_def tb_def pending_def)
    then show ?thesis
      using recognised_resolved [OF c, of observed "[tb]" tb] False o t(1) by (auto simp: tb_def)
  qed
qed

section \<open>What a save leaves behind\<close>

lemma written_chains [simp]:
  "st_CredentialChains (written st s) = st_CredentialChains st" "st_NextSaveSeq (written st s) = st_NextSaveSeq st"
  by (simp_all add: written_def)

lemma chain_of_put [simp]: "chain_of inst (put_chain inst c st) = c"
  by (simp add: chain_of_def put_chain_def go_simps)

lemma chain_of_written [simp]: "chain_of inst (written st s) = chain_of inst st"
  by (simp add: chain_of_def)

lemma mutate_synced:
  assumes "synced s" and "mutate f (\<lambda>st. Inr (g st)) m s = (e, m', s')"
  shows "(e = None \<longrightarrow> synced s' \<and> so_state s' = written (g (so_state s)) s \<and> cm_state m' = so_state s')
    \<and> (durable (so_disk s') = Some (so_state s) \<or> durable (so_disk s') = Some (written (g (so_state s)) s))"
proof -
  obtain res s1 where u: "update_mode False (fst f) (snd f) (\<lambda>st. Inr (g st)) s = (res, s1)" by fastforce
  from assms(1) have "so_loaded s" "undamaged (so_disk s)" "durable (so_disk s) = Some (so_state s)"
    by (simp_all add: synced_def)
  with update_effect [OF this(1,2) u] assms(2) u show ?thesis
    by (cases res) (auto simp: mutate_def store_Update_def synced_def)
qed

definition planned_tr :: "save_env \<Rightarrow> CredentialFingerprint \<Rightarrow> HostAuth \<Rightarrow> uint64 \<Rightarrow> CredentialTransition" where
  "planned_tr env tail nxt seq = \<lparr>tr_Prev = tail, tr_Next = ha_Fingerprint nxt, tr_SaveSeq = seq,
     tr_Phase = TransitionPlanned, tr_CreatedAt = se_now1 env\<rparr>"

lemma chain_of_finish:
  "chain_of inst (finish_transition inst seq phase st) = (chain_of inst st)\<lparr>ch_Transitions :=
     map (\<lambda>t. if tr_SaveSeq t = seq then t\<lparr>tr_Phase := phase\<rparr> else t) (ch_Transitions (chain_of inst st))\<rparr>"
  by (simp add: finish_transition_def Let_def)

lemma save_planned_leaves:
  assumes "synced s" and "save_planned env inst nxt seq m s h = (r, m', s', h')"
  shows "\<exists>st. durable (so_disk s') = Some st
    \<and> (chain_of inst st = chain_of inst (so_state s) \<and> (h' = h \<or> h' = host_after (se_outcome env) nxt h)
       \<or> chain_of inst st = chain_of inst (finish_transition inst seq (save_phase (se_outcome env)) (so_state s))
         \<and> h' = host_after (se_outcome env) nxt h)"
proof -
  obtain e m2 s2 where mu: "mutate (se_terminal env)
      (\<lambda>st. Inr (finish_transition inst seq (save_phase (se_outcome env)) st)) m s = (e, m2, s2)" by (metis surj_pair)
  have d: "durable (so_disk s) = Some (so_state s)" using assms(1) by (simp add: synced_def)
  from assms(2) mu have "s' = s \<and> (h' = h \<or> h' = host_after (se_outcome env) nxt h)
      \<or> s' = s2 \<and> h' = host_after (se_outcome env) nxt h"
    by (cases e) (auto simp: save_planned_def Let_def split: if_splits)
  with mutate_synced [OF assms(1) mu] d show ?thesis by auto
qed

lemma saveVersioned_leaves:
  assumes sy: "synced s" and c: "gget (st_CredentialChains (so_state s)) inst = Some c" "SaveTail c = Inr tail"
    and sv: "saveVersionedWithHost env inst nxt token m s h = (r, m', s', h')"
  defines "seq \<equiv> st_NextSaveSeq (so_state s) + 1"
  defines "planned \<equiv> AppendAt c (planned_tr env tail nxt seq) (se_now2 env)"
  shows "\<exists>st. durable (so_disk s') = Some st
    \<and> (chain_of inst st = c \<and> h' = h
       \<or> chain_of inst st = planned \<and> (h' = h \<or> h' = host_after (se_outcome env) nxt h)
       \<or> chain_of inst st = planned\<lparr>ch_Transitions := map (\<lambda>t. if tr_SaveSeq t = seq
              then t\<lparr>tr_Phase := save_phase (se_outcome env)\<rparr> else t) (ch_Transitions planned)\<rparr>
         \<and> h' = host_after (se_outcome env) nxt h)"
proof -
  let ?tr = "\<lparr>tr_Prev = tail, tr_Next = ha_Fingerprint nxt, tr_SaveSeq = 0, tr_Phase = TransitionPlanned,
    tr_CreatedAt = se_now1 env\<rparr>"
  let ?m = "m\<lparr>cm_state := so_state s\<rparr>"
  have cc: "chain_of inst (so_state s) = c" by (simp add: chain_of_def c)
  have d: "durable (so_disk s) = Some (so_state s)" using sy by (simp add: synced_def)
  obtain e m1 s1 where mu: "mutate (se_planned env) (\<lambda>st. Inr (plan_transition inst ?tr (se_now2 env) st)) ?m s = (e, m1, s1)"
    by (metis surj_pair)
  note r = mutate_synced [OF sy mu]
  have p: "chain_of inst (plan_transition inst ?tr (se_now2 env) (so_state s)) = planned"
    by (simp add: plan_transition_def Let_def cc planned_def planned_tr_def seq_def)
  have q: "st_NextSaveSeq (plan_transition inst ?tr (se_now2 env) (so_state s)) = seq"
    by (simp add: plan_transition_def put_chain_def Let_def seq_def)
  have cases: "s' = s \<and> h' = h \<or> s' = s1 \<and> h' = h \<or> e = None \<and> save_planned env inst nxt (st_NextSaveSeq (cm_state m1)) m1 s1 h = (r, m', s', h')"
    using sv c mu snapshot_synced [OF sy]
    by (cases e) (auto simp: saveVersionedWithHost_def Let_def split: if_splits)
  then show ?thesis
  proof (elim disjE conjE)
    assume "e = None" and sp: "save_planned env inst nxt (st_NextSaveSeq (cm_state m1)) m1 s1 h = (r, m', s', h')"
    with r have s1: "synced s1" "so_state s1 = written (plan_transition inst ?tr (se_now2 env) (so_state s)) s"
      "cm_state m1 = so_state s1" by auto
    from save_planned_leaves [OF s1(1) sp] show ?thesis by (simp add: s1 p q chain_of_finish) blast
  qed (use r d p cc in auto)
qed

lemma finish_others:
  "\<forall>t \<in> set ts. tr_SaveSeq t \<noteq> seq \<Longrightarrow> map (\<lambda>t. if tr_SaveSeq t = seq then t\<lparr>tr_Phase := phase\<rparr> else t) ts = ts"
  by (induction ts) auto

lemma host_after_cases:
  "save_phase out = TransitionApplied \<and> host_after out nxt h = nxt
   \<or> save_phase out = TransitionAborted \<and> host_after out nxt h = h
   \<or> save_phase out = TransitionOutcomeUnknown \<and> (host_after out nxt h = nxt \<or> host_after out nxt h = h)"
  by (cases out) auto


definition sample_wal_store :: StateStore where
  "sample_wal_store =
    (let st = NewPersistentState\<lparr>st_CredentialChains := [(1, \<lparr>ch_Cursor = sample_fp ''a'', ch_Transitions = []\<rparr>)]\<rparr>
     in \<lparr>so_disk = \<lparr>dk_primary = Some (Good st), dk_backup = None, dk_primary_corrupt = None, dk_backup_corrupt = None\<rparr>,
         so_readOnly = False, so_loaded = True, so_state = st\<rparr>)"

definition sample_env :: save_env where
  "sample_env = \<lparr>se_now1 = 5, se_now2 = 5, se_snapshot = (None, \<lambda>_. False), se_planned = (None, \<lambda>_. False),
     se_terminal = (None, \<lambda>_. False), se_crash = Some AfterSaveAuth, se_outcome = SaveOk\<rparr>"

definition sample_auth :: "string \<Rightarrow> HostAuth" where
  "sample_auth x = \<lparr>ha_Name = [], ha_Raw = [], ha_Fingerprint = sample_fp x\<rparr>"


section \<open>Epochs\<close>

definition epochs :: "RuntimeBinding \<Rightarrow> string \<times> AuthInstanceID \<times> InstanceAdmissionEpoch \<times> AuthBindingEpoch \<times> LoginEpoch \<times> bool" where
  "epochs b = (rb_AuthID b, rb_Instance b, rb_Admission b, rb_Generation b, rb_Login b, rb_AuthBlocked b)"

definition same_epochs :: "PersistentState \<Rightarrow> PersistentState \<Rightarrow> bool" where
  "same_epochs st st' \<longleftrightarrow> st_TierGeneration st' = st_TierGeneration st \<and> st_AdmissionEpochs st' = st_AdmissionEpochs st
     \<and> (\<forall>authID. map_option epochs (gget (st_Bindings st') authID) = map_option epochs (gget (st_Bindings st) authID))"

lemma reconcile_binding_epochs:
  "kind \<noteq> CredentialExternalLogin \<Longrightarrow> same_epochs st (reconcile_binding inst kind fp authID st)"
  by (auto simp: same_epochs_def reconcile_binding_def put_binding_def epochs_def go_simps split: option.splits)

lemma same_epochs_trans: "same_epochs a b \<Longrightarrow> same_epochs b c \<Longrightarrow> same_epochs a c"
  by (simp add: same_epochs_def)

text \<open>
  The plugin's own rotations move no epoch (invariant 33 of the design document):
  whatever reconciliation finds short of an external login, it commits a state in which the
  tier generation, the admission epochs and every binding's login epoch, admission epoch,
  generation and authentication block are what they were.
\<close>

theorem rotation_keeps_epochs:
  assumes "commit_reconcile requireUnresolved inst chain kind fp st = Inr st'" and "kind \<noteq> CredentialExternalLogin"
  shows "same_epochs st st'"
proof -
  have start: "same_epochs st (put_chain inst chain st)" by (simp add: same_epochs_def put_chain_def)
  have "same_epochs st s \<Longrightarrow> same_epochs st (fold (reconcile_binding inst kind fp) ids s)" for ids s
  proof (induction ids arbitrary: s)
    case (Cons a ids)
    show ?case using Cons.IH [OF same_epochs_trans [OF Cons.prems reconcile_binding_epochs [OF assms(2)]]] by simp
  qed simp
  from this [OF start] assms(1) show ?thesis by (auto simp: commit_reconcile_def split: if_splits)
qed

theorem rotation_keeps_epochs_witness:
  "let st = NewPersistentState\<lparr>st_Bindings := [(''x'', zero_RuntimeBinding\<lparr>rb_Instance := 1, rb_AuthBlocked := True\<rparr>)]\<rparr>
   in case commit_reconcile False 1 zero_TransitionChain CredentialOwnedRotation (sample_fp ''b'') st of
        Inl _ \<Rightarrow> False
      | Inr st' \<Rightarrow> same_epochs st st' \<and> map_option rb_Token (gget (st_Bindings st') ''x'') = Some 1"
proof -
  let ?st = "NewPersistentState\<lparr>st_Bindings := [(''x'', zero_RuntimeBinding\<lparr>rb_Instance := 1, rb_AuthBlocked := True\<rparr>)]\<rparr>"
  obtain st' where c: "commit_reconcile False 1 zero_TransitionChain CredentialOwnedRotation (sample_fp ''b'') ?st = Inr st'"
    by (simp add: commit_reconcile_def)
  moreover have "same_epochs ?st st'" using rotation_keeps_epochs [OF c] by simp
  moreover have "(case commit_reconcile False 1 zero_TransitionChain CredentialOwnedRotation (sample_fp ''b'') ?st of
      Inl _ \<Rightarrow> False | Inr st' \<Rightarrow> map_option rb_Token (gget (st_Bindings st') ''x'') = Some 1)" by code_simp
  ultimately show ?thesis by simp
qed

section \<open>A rollback that does not restore\<close>

text \<open>
  When the hook after the commit fails, the reconciliation is rolled back to \<^verbatim>\<open>before\<close>. That copy was
  taken after the open transition had been settled in place, so the rollback leaves it settled:
  the chain is no longer unresolved although the reconciliation failed.
\<close>

lemma rollback_keeps_settled:
  "let c = \<lparr>ch_Cursor = sample_fp ''a'', ch_Transitions = [sample_tr ''a'' ''b'' TransitionOutcomeUnknown 5]\<rparr>;
       st = NewPersistentState\<lparr>st_CredentialChains := [(1, c)]\<rparr>;
       s = sample_wal_store\<lparr>so_state := st\<rparr>;
       env = \<lparr>re_now = 9, re_GetAuth = Inr (sample_auth ''b''), re_snapshot = (None, \<lambda>_. False),
              re_commit = (None, \<lambda>_. False), re_rollback = (None, \<lambda>_. False)\<rparr>;
       hooks = \<lparr>ch_BeforeCommit = (\<lambda>_. None), ch_AfterCommit = (\<lambda>_ _. Some ''failed'')\<rparr>
   in credentialChainUnresolved c
    \<and> (case reconcile_commit env 1 True hooks c (sample_auth ''b'') \<lparr>cm_state = st\<rparr> s of
         ((report, err), m', s') \<Rightarrow> err = Some (WalHook ''failed'')
           \<and> map tr_Phase (ch_Transitions (chain_of 1 (so_state s'))) = [TransitionApplied]
           \<and> \<not> credentialChainUnresolved (chain_of 1 (so_state s')))"
  by code_simp

end
