(* ===== verification/Binding_Registry.thy ===== *)
theory Binding_Registry
  imports Credential_WAL Capability
begin

text \<open>
  \<^verbatim>\<open>binding_registry.go\<close>: the bindings of roster entries to credential instances, their epochs
  and generations.

  The host's \<^verbatim>\<open>GetAuth\<close> is a parameter. Shown: epochs and generations never fall, and an account that
  leaves the roster and comes back, or whose index changes, gets an admission epoch above
  every earlier one of its instance, so no earlier execution token is valid for it.
\<close>

section \<open>The registry\<close>

type_synonym bindings = "(string, RuntimeBinding) gmap"
type_synonym get_auth = "AuthInstanceID \<Rightarrow> string + HostAuth"

datatype registry_error =
    ErrCapabilityB
  | ErrBindingNotRosterConfirmed
  | ErrHost string
  | ErrStore store_error

record RosterReconcileResult =
  rs_Bindings :: bindings
  rs_Removed :: "RuntimeBinding list"
  rs_Generation :: TierGeneration

definition NewBindingRegistry :: "faults \<Rightarrow> StateStore \<Rightarrow> (registry_error + bindings) \<times> StateStore" where
  "NewBindingRegistry f s =
    (case store_Load (fst f) (snd f) s of
       (Inl e, s') \<Rightarrow> (Inl (ErrStore e), s')
     | (Inr (st, _), s') \<Rightarrow> (Inr (st_Bindings st), s'))"

definition registry_Lookup :: "string \<Rightarrow> bindings \<Rightarrow> RuntimeBinding option" where
  "registry_Lookup authID bs = gget bs authID"

definition binding_version :: "RuntimeBinding \<Rightarrow> BindingVersion" where
  "binding_version b = \<lparr>bv_Instance = rb_Instance b, bv_Admission = rb_Admission b, bv_Tier = rb_Generation b,
     bv_Login = rb_Login b, bv_Fingerprint = rb_Fingerprint b\<rparr>"

definition ApplyIfCurrent :: "string \<Rightarrow> WritebackVersion \<Rightarrow> ('s \<Rightarrow> 's) \<Rightarrow> bindings \<Rightarrow> 's \<Rightarrow> bool \<times> 's" where
  "ApplyIfCurrent authID write apply_fn bs s =
    (case gget bs authID of
       None \<Rightarrow> (False, s)
     | Some b \<Rightarrow> if ValidateWriteback (binding_version b) write then (True, apply_fn s) else (False, s))"

definition binding_or_zero :: "bindings \<Rightarrow> string \<Rightarrow> RuntimeBinding" where
  "binding_or_zero bs authID = (case gget bs authID of None \<Rightarrow> zero_RuntimeBinding | Some b \<Rightarrow> b)"

definition commit_binding ::
  "faults \<Rightarrow> string \<Rightarrow> RuntimeBinding \<Rightarrow> bindings \<Rightarrow> StateStore \<Rightarrow> registry_error option \<times> bindings \<times> StateStore" where
  "commit_binding f authID b bs s =
    (case UpdateMirrored (fst f) (snd f) (\<lambda>st. Inr (put_binding authID b st)) s of
       (Inl e, s') \<Rightarrow> (Some (ErrStore e), bs, s')
     | (Inr committed, s') \<Rightarrow> (None, st_Bindings committed, s'))"

definition MarkAuthBlocked ::
  "faults \<Rightarrow> string \<Rightarrow> bindings \<Rightarrow> StateStore \<Rightarrow> registry_error option \<times> bindings \<times> StateStore" where
  "MarkAuthBlocked f authID bs s =
    commit_binding f authID ((binding_or_zero bs authID)\<lparr>rb_AuthID := authID, rb_AuthBlocked := True\<rparr>) bs s"

definition ObserveExternalLogin ::
  "faults \<Rightarrow> string \<Rightarrow> LoginEpoch \<Rightarrow> CredentialFingerprint \<Rightarrow> bindings \<Rightarrow> StateStore
   \<Rightarrow> registry_error option \<times> bindings \<times> StateStore" where
  "ObserveExternalLogin f authID login fp bs s =
    (case gget bs authID of
       None \<Rightarrow> (Some ErrBindingNotRosterConfirmed, bs, s)
     | Some b \<Rightarrow>
         if login \<le> rb_Login b then (None, bs, s)
         else commit_binding f authID (b\<lparr>rb_Login := login, rb_Fingerprint := fp, rb_AuthBlocked := False\<rparr>) bs s)"

section \<open>Reconciling with a roster\<close>

definition epoch_of :: "(AuthInstanceID, InstanceAdmissionEpoch) gmap \<Rightarrow> AuthInstanceID \<Rightarrow> InstanceAdmissionEpoch" where
  "epoch_of es inst = (case gget es inst of None \<Rightarrow> 0 | Some e \<Rightarrow> e)"

fun first_ids :: "string set \<Rightarrow> RosterEntry list \<Rightarrow> string list" where
  "first_ids seen [] = []"
| "first_ids seen (entry # entries) =
    (if tier_entry entry = None \<or> re_ID entry \<in> seen then first_ids seen entries
     else re_ID entry # first_ids (insert (re_ID entry) seen) entries)"

definition roster_ids :: "bool \<Rightarrow> RosterEntry list \<Rightarrow> string list option" where
  "roster_ids allTiers entries =
    (if allTiers then (let ids = first_ids {} entries in if ids = [] then None else Some (sort ids))
     else map_option snd (HighestCodexTier entries))"

definition entry_index :: "RosterEntry list \<Rightarrow> string \<Rightarrow> string" where
  \<comment> \<open>the index of the last entry with this id\<close>
  "entry_index entries i = (case find (\<lambda>e. re_ID e = i) (rev entries) of None \<Rightarrow> [] | Some e \<Rightarrow> re_AuthIndex e)"

definition raise_to_binding :: "string \<times> RuntimeBinding \<Rightarrow> PersistentState \<Rightarrow> PersistentState" where
  "raise_to_binding kb st =
    (let b = snd kb;
         st1 = (if epoch_of (st_AdmissionEpochs st) (rb_Instance b) < rb_Admission b
                then st\<lparr>st_AdmissionEpochs := gput (rb_Instance b) (rb_Admission b) (st_AdmissionEpochs st)\<rparr> else st)
     in if st_TierGeneration st1 < rb_Generation b then st1\<lparr>st_TierGeneration := rb_Generation b\<rparr> else st1)"

definition roster_changed :: "string list \<Rightarrow> RosterEntry list \<Rightarrow> bindings \<Rightarrow> bool" where
  "roster_changed ids entries bs \<longleftrightarrow> length bs \<noteq> length ids
     \<or> list_ex (\<lambda>i. case gget bs i of None \<Rightarrow> True | Some b \<Rightarrow> rb_AuthIndex b \<noteq> entry_index entries i) ids"

definition next_generation :: "bool \<Rightarrow> TierGeneration \<Rightarrow> TierGeneration \<Rightarrow> TierGeneration" where
  "next_generation changed incoming generation =
    (if generation = 0 then (if incoming = 0 then 1 else incoming)
     else if changed then (if generation < incoming then incoming else generation + 1)
     else if generation < incoming then incoming
     else generation)"

record reconcile_acc =
  ra_epochs :: "(AuthInstanceID, InstanceAdmissionEpoch) gmap"
  ra_next :: bindings
  ra_chains :: "(AuthInstanceID, TransitionChain) gmap"

definition keep_binding ::
  "get_auth \<Rightarrow> TierGeneration \<Rightarrow> string \<Rightarrow> string \<Rightarrow> RuntimeBinding \<Rightarrow> reconcile_acc \<Rightarrow> string + reconcile_acc" where
  \<comment> \<open>an id that is already bound\<close>
  "keep_binding getAuth generation i idx existing acc =
    (let inst = rb_Instance existing in
     if rb_AuthIndex existing \<noteq> idx
     then case getAuth inst of
            Inl e \<Rightarrow> Inl e
          | Inr observed \<Rightarrow>
              let recorded = epoch_of (ra_epochs acc) inst;
                  admission = (if recorded < rb_Admission existing then rb_Admission existing else recorded) + 1;
                  b = existing\<lparr>rb_Admission := admission, rb_AuthName := ha_Name observed,
                        rb_Fingerprint := ha_Fingerprint observed, rb_AuthIndex := idx, rb_Generation := generation\<rparr>
              in Inr (acc\<lparr>ra_epochs := gput inst admission (ra_epochs acc), ra_next := gput i b (ra_next acc),
                        ra_chains := gput inst \<lparr>ch_Cursor = ha_Fingerprint observed, ch_Transitions = []\<rparr> (ra_chains acc)\<rparr>)
     else Inr (acc\<lparr>ra_next := gput i (existing\<lparr>rb_AuthIndex := idx, rb_Generation := generation\<rparr>) (ra_next acc)\<rparr>))"

definition new_binding ::
  "get_auth \<Rightarrow> TierGeneration \<Rightarrow> (AuthInstanceID, TransitionChain) gmap \<Rightarrow> string \<Rightarrow> string \<Rightarrow> bool \<Rightarrow> reconcile_acc
   \<Rightarrow> string + reconcile_acc" where
  "new_binding getAuth generation known i idx blocked acc =
    (let inst = legacyAuthInstanceID i in
     case getAuth inst of
       Inl e \<Rightarrow> Inl e
     | Inr observed \<Rightarrow>
         let recorded = epoch_of (ra_epochs acc) inst;
             admission = (if recorded = 0 then (if gget known inst = None then 1 else 2) else recorded + 1);
             b = \<lparr>rb_AuthID = i, rb_AuthIndex = idx, rb_AuthName = ha_Name observed, rb_Instance = inst,
                  rb_Admission = admission, rb_Generation = generation, rb_Login = 1, rb_Token = 1,
                  rb_Fingerprint = ha_Fingerprint observed, rb_AuthBlocked = blocked\<rparr>
         in Inr (acc\<lparr>ra_epochs := gput inst admission (ra_epochs acc), ra_next := gput i b (ra_next acc),
                   ra_chains := gput inst \<lparr>ch_Cursor = ha_Fingerprint observed, ch_Transitions = []\<rparr> (ra_chains acc)\<rparr>))"

fun bind_ids ::
  "get_auth \<Rightarrow> TierGeneration \<Rightarrow> (AuthInstanceID, TransitionChain) gmap \<Rightarrow> RosterEntry list \<Rightarrow> bindings
   \<Rightarrow> string list \<Rightarrow> reconcile_acc \<Rightarrow> string + reconcile_acc" where
  "bind_ids getAuth generation known entries bs [] acc = Inr acc"
| "bind_ids getAuth generation known entries bs (i # ids) acc =
    (let existing = binding_or_zero bs i; idx = entry_index entries i;
         res = (if gget bs i \<noteq> None \<and> rb_Instance existing \<noteq> 0 then keep_binding getAuth generation i idx existing acc
                else new_binding getAuth generation known i idx (rb_AuthBlocked existing) acc)
     in case res of Inl e \<Rightarrow> Inl e | Inr acc' \<Rightarrow> bind_ids getAuth generation known entries bs ids acc')"

definition raise_epoch :: "AuthInstanceID \<times> InstanceAdmissionEpoch \<Rightarrow> (AuthInstanceID, InstanceAdmissionEpoch) gmap
    \<Rightarrow> (AuthInstanceID, InstanceAdmissionEpoch) gmap" where
  "raise_epoch ia es = (if epoch_of es (fst ia) < snd ia then gput (fst ia) (snd ia) es else es)"

definition commit_roster :: "TierGeneration \<Rightarrow> reconcile_acc \<Rightarrow> PersistentState \<Rightarrow> PersistentState" where
  "commit_roster generation acc st =
    st\<lparr>st_TierGeneration := generation,
       st_AdmissionEpochs := fold raise_epoch (ra_epochs acc) (st_AdmissionEpochs st),
       st_Bindings := ra_next acc,
       st_CredentialChains := fold (\<lambda>(inst, c) cs. gput inst c cs) (ra_chains acc) (st_CredentialChains st)\<rparr>"

definition reconcileRosterEntries ::
  "faults \<Rightarrow> faults \<Rightarrow> get_auth \<Rightarrow> HostRosterSnapshot \<Rightarrow> bool \<Rightarrow> bindings \<Rightarrow> StateStore
   \<Rightarrow> (registry_error + RosterReconcileResult) \<times> bindings \<times> StateStore" where
  "reconcileRosterEntries f1 f2 getAuth roster allTiers bs s =
    (if hr_Capability roster \<noteq> CapabilityA then (Inl ErrCapabilityB, bs, s)
     else case roster_ids allTiers (hr_Entries roster) of
       None \<Rightarrow> (Inl ErrBindingNotRosterConfirmed, bs, s)
     | Some ids \<Rightarrow>
         (case PersistentSnapshot (fst f1) (snd f1) s of
            (Inl e, s1) \<Rightarrow> (Inl (ErrStore e), bs, s1)
          | (Inr snap, s1) \<Rightarrow>
              let durable = fold raise_to_binding (st_Bindings snap) snap;
                  generation = next_generation (roster_changed ids (hr_Entries roster) bs) (hr_Generation roster)
                                 (st_TierGeneration durable)
              in case bind_ids getAuth generation (st_CredentialChains durable) (hr_Entries roster) bs ids
                        \<lparr>ra_epochs = st_AdmissionEpochs durable, ra_next = [], ra_chains = []\<rparr> of
                   Inl e \<Rightarrow> (Inl (ErrHost e), bs, s1)
                 | Inr acc \<Rightarrow>
                     let removed = map snd (filter (\<lambda>(i, b). gget (ra_next acc) i = None \<and> rb_Instance b \<noteq> 0) bs)
                     in case UpdateMirrored (fst f2) (snd f2) (\<lambda>st. Inr (commit_roster generation acc st)) s1 of
                          (Inl e, s2) \<Rightarrow> (Inl (ErrStore e), bs, s2)
                        | (Inr committed, s2) \<Rightarrow>
                            (Inr \<lparr>rs_Bindings = st_Bindings committed, rs_Removed = removed, rs_Generation = generation\<rparr>,
                             st_Bindings committed, s2)))"

definition ReconcileRoster where
  "ReconcileRoster f1 f2 getAuth roster = reconcileRosterEntries f1 f2 getAuth roster False"

definition ReconcileRosterTiers where
  "ReconcileRosterTiers f1 f2 getAuth roster = reconcileRosterEntries f1 f2 getAuth roster True"

definition ObserveAuthoritative ::
  "faults \<Rightarrow> get_auth \<Rightarrow> HostRosterSnapshot \<Rightarrow> string \<Rightarrow> bindings \<Rightarrow> StateStore
   \<Rightarrow> (registry_error + RuntimeBinding \<times> bool) \<times> bindings \<times> StateStore" where
  "ObserveAuthoritative f getAuth roster authID bs s =
    (if hr_Capability roster \<noteq> CapabilityA then (Inl ErrCapabilityB, bs, s)
     else case find (\<lambda>e. re_ID e = authID) (hr_Entries roster) of
       None \<Rightarrow> (Inl ErrBindingNotRosterConfirmed, bs, s)
     | Some entry \<Rightarrow>
         if re_AuthIndex entry = [] then (Inl ErrBindingNotRosterConfirmed, bs, s)
         else
           let existing = binding_or_zero bs authID; inst = legacyAuthInstanceID authID
           in if gget bs authID \<noteq> None \<and> rb_Instance existing \<noteq> 0 then (Inr (existing, False), bs, s)
              else case getAuth inst of
                     Inl e \<Rightarrow> (Inl (ErrHost e), bs, s)
                   | Inr observed \<Rightarrow>
                       let b = \<lparr>rb_AuthID = authID, rb_AuthIndex = re_AuthIndex entry, rb_AuthName = ha_Name observed,
                                rb_Instance = inst, rb_Admission = 1, rb_Generation = 1, rb_Login = 1, rb_Token = 1,
                                rb_Fingerprint = ha_Fingerprint observed, rb_AuthBlocked = rb_AuthBlocked existing\<rparr>;
                           fn = (\<lambda>st. let st1 = put_binding authID b st in
                                   Inr (if gget (st_CredentialChains st1) inst = None
                                        then put_chain inst \<lparr>ch_Cursor = ha_Fingerprint observed, ch_Transitions = []\<rparr> st1
                                        else st1))
                       in case store_Update (fst f) (snd f) fn s of
                            (Inl e, s') \<Rightarrow> (Inl (ErrStore e), bs, s')
                          | (Inr committed, s') \<Rightarrow> (Inr (b, True), st_Bindings committed, s'))"

section \<open>Epochs only rise\<close>

lemma epoch_of_gput: "epoch_of (gput k e es) inst = (if inst = k then e else epoch_of es inst)"
  by (simp add: epoch_of_def go_simps)

lemma raise_epoch_mono: "epoch_of es inst \<le> epoch_of (raise_epoch ia es) inst"
  by (auto simp: raise_epoch_def epoch_of_gput)

lemma fold_raise_epoch_mono: "epoch_of es inst \<le> epoch_of (fold raise_epoch xs es) inst"
proof (induction xs arbitrary: es)
  case (Cons x xs)
  show ?case using raise_epoch_mono [of es inst x] Cons.IH [of "raise_epoch x es"] by simp
qed simp

lemma fold_raise_epoch_covers: "(inst, e) \<in> set xs \<Longrightarrow> e \<le> epoch_of (fold raise_epoch xs es) inst"
proof (induction xs arbitrary: es)
  case (Cons x xs)
  have "e \<le> epoch_of (raise_epoch (inst, e) es) inst" by (auto simp: raise_epoch_def epoch_of_gput)
  then have "x = (inst, e) \<Longrightarrow> e \<le> epoch_of (fold raise_epoch xs (raise_epoch x es)) inst"
    using fold_raise_epoch_mono order.trans by blast
  then show ?case using Cons by auto
qed simp

lemma raise_to_binding_frame [simp]:
  "st_Bindings (raise_to_binding kb st) = st_Bindings st"
  "st_CredentialChains (raise_to_binding kb st) = st_CredentialChains st"
  by (simp_all add: raise_to_binding_def Let_def)

lemma raise_to_binding_mono:
  "epoch_of (st_AdmissionEpochs st) inst \<le> epoch_of (st_AdmissionEpochs (raise_to_binding kb st)) inst"
  "st_TierGeneration st \<le> st_TierGeneration (raise_to_binding kb st)"
  "rb_Admission (snd kb) \<le> epoch_of (st_AdmissionEpochs (raise_to_binding kb st)) (rb_Instance (snd kb))"
  by (auto simp: raise_to_binding_def epoch_of_gput Let_def)

lemma fold_raise_mono:
  "epoch_of (st_AdmissionEpochs st) inst \<le> epoch_of (st_AdmissionEpochs (fold raise_to_binding kbs st)) inst
   \<and> st_TierGeneration st \<le> st_TierGeneration (fold raise_to_binding kbs st)"
proof (induction kbs arbitrary: st)
  case (Cons kb kbs)
  show ?case
    using raise_to_binding_mono(1) [of st inst kb] raise_to_binding_mono(2) [of st kb]
      Cons.IH [of "raise_to_binding kb st"] by auto
qed simp

lemma fold_raise_covers:
  "(i, b) \<in> set kbs \<Longrightarrow> rb_Admission b \<le> epoch_of (st_AdmissionEpochs (fold raise_to_binding kbs st)) (rb_Instance b)"
proof (induction kbs arbitrary: st)
  case (Cons kb kbs)
  have "kb = (i, b) \<Longrightarrow> ?case"
    using raise_to_binding_mono(3) [of kb st] fold_raise_mono [of "raise_to_binding kb st" "rb_Instance b" kbs]
    by (auto intro: order.trans)
  then show ?case using Cons by auto
qed simp

definition rebound ::
  "(AuthInstanceID, InstanceAdmissionEpoch) gmap \<Rightarrow> TierGeneration \<Rightarrow> bindings \<Rightarrow> string \<Rightarrow> RuntimeBinding \<Rightarrow> bool" where
  \<comment> \<open>a binding after the reconciliation: the old one with the new generation, or a fresh admission\<close>
  "rebound e0 g bs i b \<longleftrightarrow> rb_Generation b = g
     \<and> ((\<exists>old. gget bs i = Some old \<and> rb_Instance old \<noteq> 0 \<and> rb_AuthIndex b = rb_AuthIndex old \<and> b = old\<lparr>rb_Generation := g\<rparr>)
        \<or> epoch_of e0 (rb_Instance b) < rb_Admission b)"

definition acc_ok ::
  "(AuthInstanceID, InstanceAdmissionEpoch) gmap \<Rightarrow> TierGeneration \<Rightarrow> bindings \<Rightarrow> nat \<Rightarrow> reconcile_acc \<Rightarrow> bool" where
  "acc_ok e0 g bs n acc \<longleftrightarrow>
     (\<forall>inst. unat (epoch_of e0 inst) \<le> unat (epoch_of (ra_epochs acc) inst)
        \<and> unat (epoch_of (ra_epochs acc) inst) \<le> unat (epoch_of e0 inst) + 2 * n)
     \<and> (\<forall>i b. gget (ra_next acc) i = Some b \<longrightarrow> rebound e0 g bs i b
          \<and> rb_Admission b \<le> epoch_of (ra_epochs acc) (rb_Instance b))"

lemma unat_plus_one: "unat (x :: uint64) + 1 < 2 ^ 64 \<Longrightarrow> unat (x + 1) = unat x + 1"
  by (simp add: unat_word_ariths)

lemma acc_ok_epochs:
  "acc_ok e0 g bs n acc \<Longrightarrow> unat (epoch_of e0 inst) \<le> unat (epoch_of (ra_epochs acc) inst)"
  "acc_ok e0 g bs n acc \<Longrightarrow> unat (epoch_of (ra_epochs acc) inst) \<le> unat (epoch_of e0 inst) + 2 * n"
  unfolding acc_ok_def by blast+

lemma acc_ok_next:
  "acc_ok e0 g bs n acc \<Longrightarrow> gget (ra_next acc) i = Some b \<Longrightarrow>
   rebound e0 g bs i b \<and> rb_Admission b \<le> epoch_of (ra_epochs acc) (rb_Instance b)"
  unfolding acc_ok_def by blast

lemma acc_ok_admit:
  assumes ok: "acc_ok e0 g bs n acc" and b: "rb_Generation b = g" "rb_Admission b = a" "rb_Instance b = inst"
    and a: "unat (epoch_of (ra_epochs acc) inst) < unat a" "unat a \<le> unat (epoch_of e0 inst) + 2 * n + 2"
  shows "acc_ok e0 g bs (Suc n) (acc\<lparr>ra_epochs := gput inst a (ra_epochs acc), ra_next := gput i b (ra_next acc), ra_chains := cs\<rparr>)"
proof -
  have "unat (epoch_of e0 inst) < unat a" using acc_ok_epochs(1) [OF ok] a(1) by (rule le_less_trans)
  then have r: "rebound e0 g bs i b" using b by (simp add: rebound_def word_less_nat_alt)
  have up: "rb_Admission c \<le> epoch_of (ra_epochs acc) (rb_Instance c) \<Longrightarrow>
      rb_Admission c \<le> epoch_of (gput inst a (ra_epochs acc)) (rb_Instance c)" for c
    using a(1) by (auto simp: epoch_of_gput word_le_nat_alt)
  have e: "unat (epoch_of e0 j) \<le> unat (epoch_of (gput inst a (ra_epochs acc)) j)
      \<and> unat (epoch_of (gput inst a (ra_epochs acc)) j) \<le> unat (epoch_of e0 j) + 2 * Suc n" for j
    using acc_ok_epochs [OF ok, of j] a \<open>unat (epoch_of e0 inst) < unat a\<close> by (simp add: epoch_of_gput)
  have "rebound e0 g bs j c \<and> rb_Admission c \<le> epoch_of (gput inst a (ra_epochs acc)) (rb_Instance c)"
    if c: "gget (gput i b (ra_next acc)) j = Some c" for j c
  proof (cases "j = i")
    case True
    with c r b show ?thesis by (auto simp: go_simps epoch_of_gput)
  next
    case False
    with c have "gget (ra_next acc) j = Some c" by (simp add: go_simps)
    from acc_ok_next [OF ok this] up [of c] show ?thesis by blast
  qed
  with e show ?thesis unfolding acc_ok_def by simp
qed

lemma keep_binding_ok:
  assumes ok: "acc_ok e0 g bs n acc" and room: "\<forall>inst. unat (epoch_of e0 inst) + 2 * n + 2 < 2 ^ 64"
    and old: "gget bs i = Some old" "rb_Instance old \<noteq> 0" "rb_Admission old \<le> epoch_of e0 (rb_Instance old)"
    and k: "keep_binding getAuth g i idx old acc = Inr acc'"
  shows "acc_ok e0 g bs (Suc n) acc'"
proof (cases "rb_AuthIndex old = idx")
  case True
  then have acc': "acc' = acc\<lparr>ra_next := gput i (old\<lparr>rb_Generation := g\<rparr>) (ra_next acc)\<rparr>"
    using k by (auto simp: keep_binding_def Let_def)
  have r: "rebound e0 g bs i (old\<lparr>rb_Generation := g\<rparr>)" using old by (simp add: rebound_def)
  have le: "rb_Admission old \<le> epoch_of (ra_epochs acc) (rb_Instance old)"
    using old(3) acc_ok_epochs(1) [OF ok, of "rb_Instance old"] unfolding word_le_nat_alt by (rule le_trans)
  have "rebound e0 g bs j c \<and> rb_Admission c \<le> epoch_of (ra_epochs acc) (rb_Instance c)"
    if c: "gget (gput i (old\<lparr>rb_Generation := g\<rparr>) (ra_next acc)) j = Some c" for j c
  proof (cases "j = i")
    case True
    with c r le show ?thesis by (auto simp: go_simps)
  next
    case False
    with c have "gget (ra_next acc) j = Some c" by (simp add: go_simps)
    from acc_ok_next [OF ok this] show ?thesis .
  qed
  moreover have "unat (epoch_of e0 inst) \<le> unat (epoch_of (ra_epochs acc) inst)
      \<and> unat (epoch_of (ra_epochs acc) inst) \<le> unat (epoch_of e0 inst) + 2 * Suc n" for inst
    using acc_ok_epochs [OF ok, of inst] by simp
  ultimately show ?thesis unfolding acc_ok_def acc' by simp
next
  case False
  let ?inst = "rb_Instance old"
  let ?r = "epoch_of (ra_epochs acc) ?inst"
  have "rb_Admission old \<le> ?r"
    using old(3) acc_ok_epochs(1) [OF ok, of ?inst] unfolding word_le_nat_alt by (rule le_trans)
  then have m: "(if ?r < rb_Admission old then rb_Admission old else ?r) = ?r" by auto
  have r: "unat ?r \<le> unat (epoch_of e0 ?inst) + 2 * n" by (rule acc_ok_epochs(2) [OF ok])
  moreover have "unat (epoch_of e0 ?inst) + 2 * n + 2 < 2 ^ 64" using room by blast
  ultimately have s: "unat (?r + 1) = unat ?r + 1" by (intro unat_plus_one) linarith
  from k False obtain observed where o: "getAuth ?inst = Inr observed"
    by (cases "getAuth ?inst") (simp_all add: keep_binding_def)
  have acc': "acc' = acc\<lparr>ra_epochs := gput ?inst (?r + 1) (ra_epochs acc),
      ra_next := gput i (old\<lparr>rb_Admission := ?r + 1, rb_AuthName := ha_Name observed, rb_Fingerprint := ha_Fingerprint observed,
        rb_AuthIndex := idx, rb_Generation := g\<rparr>) (ra_next acc),
      ra_chains := gput ?inst \<lparr>ch_Cursor = ha_Fingerprint observed, ch_Transitions = []\<rparr> (ra_chains acc)\<rparr>"
    using k False o m by (simp add: keep_binding_def Let_def)
  show ?thesis unfolding acc'
    by (rule acc_ok_admit [OF ok]) (use s r in simp_all)
qed

lemma new_binding_ok:
  assumes ok: "acc_ok e0 g bs n acc" and room: "\<forall>inst. unat (epoch_of e0 inst) + 2 * n + 2 < 2 ^ 64"
    and k: "new_binding getAuth g known i idx blocked acc = Inr acc'"
  shows "acc_ok e0 g bs (Suc n) acc'"
proof -
  let ?inst = "legacyAuthInstanceID i"
  let ?r = "epoch_of (ra_epochs acc) ?inst"
  define a where "a = (if ?r = 0 then (if gget known ?inst = None then 1 else 2) else ?r + 1)"
  have r: "unat ?r \<le> unat (epoch_of e0 ?inst) + 2 * n" by (rule acc_ok_epochs(2) [OF ok])
  moreover have "unat (epoch_of e0 ?inst) + 2 * n + 2 < 2 ^ 64" using room by blast
  ultimately have s: "unat (?r + 1) = unat ?r + 1" by (intro unat_plus_one) linarith
  from k obtain observed where o: "getAuth ?inst = Inr observed"
    by (cases "getAuth ?inst") (simp_all add: new_binding_def)
  have acc': "acc' = acc\<lparr>ra_epochs := gput ?inst a (ra_epochs acc),
      ra_next := gput i \<lparr>rb_AuthID = i, rb_AuthIndex = idx, rb_AuthName = ha_Name observed, rb_Instance = ?inst,
        rb_Admission = a, rb_Generation = g, rb_Login = 1, rb_Token = 1, rb_Fingerprint = ha_Fingerprint observed,
        rb_AuthBlocked = blocked\<rparr> (ra_next acc),
      ra_chains := gput ?inst \<lparr>ch_Cursor = ha_Fingerprint observed, ch_Transitions = []\<rparr> (ra_chains acc)\<rparr>"
    using k o unfolding new_binding_def Let_def a_def by simp
  show ?thesis unfolding acc'
    by (rule acc_ok_admit [OF ok]) (use s r in \<open>simp_all add: a_def\<close>)
qed

lemma bind_ids_ok:
  assumes "acc_ok e0 g bs n acc" and "\<forall>inst. unat (epoch_of e0 inst) + 2 * (n + length ids) + 2 < 2 ^ 64"
    and "\<forall>i b. gget bs i = Some b \<longrightarrow> rb_Admission b \<le> epoch_of e0 (rb_Instance b)"
    and "bind_ids getAuth g known entries bs ids acc = Inr acc'"
  shows "\<exists>m. acc_ok e0 g bs m acc'"
  using assms
proof (induction ids arbitrary: n acc)
  case (Cons i ids)
  let ?old = "binding_or_zero bs i"
  have room: "\<forall>inst. unat (epoch_of e0 inst) + 2 * n + 2 < 2 ^ 64"
  proof
    fix inst
    show "unat (epoch_of e0 inst) + 2 * n + 2 < 2 ^ 64" using spec [OF Cons.prems(2), of inst] by simp
  qed
  obtain acc1 where acc1: "(if gget bs i \<noteq> None \<and> rb_Instance ?old \<noteq> 0 then keep_binding getAuth g i (entry_index entries i) ?old acc
        else new_binding getAuth g known i (entry_index entries i) (rb_AuthBlocked ?old) acc) = Inr acc1"
      and rest: "bind_ids getAuth g known entries bs ids acc1 = Inr acc'"
    using Cons.prems(4) by (auto simp: Let_def split: sum.splits)
  have "acc_ok e0 g bs (Suc n) acc1"
  proof (cases "gget bs i \<noteq> None \<and> rb_Instance ?old \<noteq> 0")
    case True
    then obtain old where old: "gget bs i = Some old" "?old = old" by (auto simp: binding_or_zero_def)
    with True acc1 Cons.prems(3) show ?thesis
      by (intro keep_binding_ok [OF Cons.prems(1) room, of i old]) auto
  next
    case False
    then show ?thesis using acc1 by (intro new_binding_ok [OF Cons.prems(1) room]) auto
  qed
  from Cons.IH [OF this _ Cons.prems(3) rest] Cons.prems(2) show ?case by simp
qed auto

lemma unat_max: "unat (- 1 :: uint64) = 18446744073709551615"
  by (simp add: unsigned_minus_1_eq_mask mask_eq_exp_minus_1)

lemma word_le_plus_one: "(x :: uint64) \<noteq> - 1 \<Longrightarrow> x \<le> x + 1"
  by unat_arith (auto simp: unat_max)

lemma next_generation_mono: "generation \<noteq> - 1 \<Longrightarrow> generation \<le> next_generation changed incoming generation"
proof -
  assume "generation \<noteq> - 1"
  then have "generation \<le> generation + 1" by (rule word_le_plus_one)
  then show ?thesis by (auto simp: next_generation_def)
qed

lemma rebound_mono:
  "rebound e0 g bs i b \<Longrightarrow> epoch_of e1 (rb_Instance b) \<le> epoch_of e0 (rb_Instance b) \<Longrightarrow> rebound e1 g bs i b"
  by (auto simp: rebound_def)

lemma written_frame [simp]:
  "st_TierGeneration (written st s) = st_TierGeneration st" "st_AdmissionEpochs (written st s) = st_AdmissionEpochs st"
  "st_Bindings (written st s) = st_Bindings st"
  by (simp_all add: written_def)

definition raised :: "PersistentState \<Rightarrow> PersistentState" where
  "raised st = fold raise_to_binding (st_Bindings st) st"

lemma reconcile_committed:
  assumes ld: "so_loaded s" and ids: "roster_ids allTiers (hr_Entries roster) = Some ids"
    and r: "reconcileRosterEntries f1 f2 getAuth roster allTiers bs s = (Inr res, bs', s')"
  obtains acc where "bind_ids getAuth (rs_Generation res) (st_CredentialChains (raised (so_state s))) (hr_Entries roster) bs ids
        \<lparr>ra_epochs = st_AdmissionEpochs (raised (so_state s)), ra_next = [], ra_chains = []\<rparr> = Inr acc"
    and "rs_Generation res = next_generation (roster_changed ids (hr_Entries roster) bs) (hr_Generation roster)
        (st_TierGeneration (raised (so_state s)))"
    and "so_state s' = written (commit_roster (rs_Generation res) acc (so_state s)) s" and "bs' = st_Bindings (so_state s')"
proof -
  let ?g = "next_generation (roster_changed ids (hr_Entries roster) bs) (hr_Generation roster) (st_TierGeneration (raised (so_state s)))"
  let ?b = "bind_ids getAuth ?g (st_CredentialChains (raised (so_state s))) (hr_Entries roster) bs ids
        \<lparr>ra_epochs = st_AdmissionEpochs (raised (so_state s)), ra_next = [], ra_chains = []\<rparr>"
  have snap: "PersistentSnapshot (fst f1) (snd f1) s = (Inr (so_state s), s)"
    using ld by (simp add: PersistentSnapshot_def ensure_loaded_def)
  have cap: "hr_Capability roster = CapabilityA" using r by (auto simp: reconcileRosterEntries_def split: if_splits)
  obtain acc where acc: "?b = Inr acc"
    using r ids snap cap by (cases ?b) (simp_all add: reconcileRosterEntries_def Let_def raised_def [symmetric])
  obtain u s2 where u: "UpdateMirrored (fst f2) (snd f2) (\<lambda>st. Inr (commit_roster ?g acc st)) s = (u, s2)" by fastforce
  obtain committed where c: "u = Inr committed"
    using r ids snap cap acc u by (cases u) (simp_all add: reconcileRosterEntries_def Let_def raised_def [symmetric])
  have res: "rs_Generation res = ?g" "bs' = st_Bindings committed" "s' = s2"
    using r ids snap cap acc u c by (auto simp: reconcileRosterEntries_def Let_def raised_def [symmetric])
  from update_mode_loaded [OF ld, of True "fst f2" "snd f2" "\<lambda>st. Inr (commit_roster ?g acc st)" u s2] u c
  obtain e where w: "writeLockedMode (fst f2) (snd f2) (commit_roster ?g acc (so_state s)) True s = (e, s2)"
      "Inr committed = (case e of None \<Rightarrow> Inr (so_state s2) | Some err \<Rightarrow> Inl err)"
    by (auto simp: UpdateMirrored_def)
  then have "e = None" "committed = so_state s2" by (auto split: option.splits)
  with writeLockedMode_result [OF w(1)] have "so_state s2 = written (commit_roster ?g acc (so_state s)) s" by simp
  with acc res \<open>committed = so_state s2\<close> show thesis by (intro that [of acc]) simp_all
qed

text \<open>
  C4. Reconciling the bindings with a roster fences everything older (invariant 28 of the
  design document). The tier generation and all admission epochs only rise, no binding is
  above the recorded epoch of its instance, and a write-back whose token carries an epoch
  recorded before the reconciliation is valid afterwards only for a binding that was kept as
  it was: an account that returned to the roster, or whose index changed, rejects it. The
  counters must have room, below \<open>2 ^ 64\<close>, for the ids of the roster.
\<close>

theorem reconcile_fences_old_tokens:
  assumes ld: "so_loaded s" and bs: "bs = st_Bindings (so_state s)"
    and ids: "roster_ids allTiers (hr_Entries roster) = Some ids"
    and r: "reconcileRosterEntries f1 f2 getAuth roster allTiers bs s = (Inr res, bs', s')"
    and room: "\<forall>inst. unat (epoch_of (st_AdmissionEpochs (raised (so_state s))) inst) + 2 * length ids + 2 < 2 ^ 64"
    and gen: "st_TierGeneration (raised (so_state s)) \<noteq> - 1"
  shows "st_TierGeneration (so_state s) \<le> st_TierGeneration (so_state s')
    \<and> (\<forall>inst. epoch_of (st_AdmissionEpochs (so_state s)) inst \<le> epoch_of (st_AdmissionEpochs (so_state s')) inst)
    \<and> (\<forall>i b. gget bs' i = Some b \<longrightarrow> rb_Generation b = rs_Generation res
          \<and> rb_Admission b \<le> epoch_of (st_AdmissionEpochs (so_state s')) (rb_Instance b)
          \<and> (\<forall>w. ValidateWriteback (binding_version b) w
                \<longrightarrow> et_Admission (wv_Token w) \<le> epoch_of (st_AdmissionEpochs (so_state s)) (rb_Instance b)
                \<longrightarrow> (\<exists>old. gget bs i = Some old \<and> b = old\<lparr>rb_Generation := rs_Generation res\<rparr>)))"
proof -
  let ?e0 = "st_AdmissionEpochs (raised (so_state s))" and ?g = "rs_Generation res"
  obtain acc where acc: "bind_ids getAuth ?g (st_CredentialChains (raised (so_state s))) (hr_Entries roster) bs ids
        \<lparr>ra_epochs = ?e0, ra_next = [], ra_chains = []\<rparr> = Inr acc"
    and g: "?g = next_generation (roster_changed ids (hr_Entries roster) bs) (hr_Generation roster) (st_TierGeneration (raised (so_state s)))"
    and st: "so_state s' = written (commit_roster ?g acc (so_state s)) s" "bs' = st_Bindings (so_state s')"
    by (rule reconcile_committed [OF ld ids r])
  have mono: "epoch_of (st_AdmissionEpochs (so_state s)) inst \<le> epoch_of ?e0 inst"
      "st_TierGeneration (so_state s) \<le> st_TierGeneration (raised (so_state s))" for inst
    using fold_raise_mono [of "so_state s" inst "st_Bindings (so_state s)"] by (simp_all add: raised_def)
  have cover: "\<forall>i b. gget bs i = Some b \<longrightarrow> rb_Admission b \<le> epoch_of ?e0 (rb_Instance b)"
    unfolding bs raised_def by (blast intro: fold_raise_covers dest: map_of_SomeD)
  have "acc_ok ?e0 ?g bs 0 \<lparr>ra_epochs = ?e0, ra_next = [], ra_chains = []\<rparr>" by (simp add: acc_ok_def)
  from bind_ids_ok [OF this _ cover acc] room obtain m where ok: "acc_ok ?e0 ?g bs m acc" by auto
  have ep: "st_AdmissionEpochs (so_state s') = fold raise_epoch (ra_epochs acc) (st_AdmissionEpochs (so_state s))"
    and bs': "bs' = ra_next acc" and tg: "st_TierGeneration (so_state s') = ?g"
    using st by (simp_all add: commit_roster_def)
  have le: "epoch_of (ra_epochs acc) inst \<le> epoch_of (st_AdmissionEpochs (so_state s')) inst" for inst
    using fold_raise_epoch_covers map_of_SomeD [of "ra_epochs acc" inst]
    by (cases "gget (ra_epochs acc) inst") (auto simp: ep epoch_of_def [of "ra_epochs acc"])
  have binding: "rb_Generation b = ?g \<and> rb_Admission b \<le> epoch_of (st_AdmissionEpochs (so_state s')) (rb_Instance b)
      \<and> rebound (st_AdmissionEpochs (so_state s)) ?g bs i b" if b: "gget bs' i = Some b" for i b
  proof -
    from b have "gget (ra_next acc) i = Some b" by (simp only: bs')
    note r = acc_ok_next [OF ok this]
    then have "rebound (st_AdmissionEpochs (so_state s)) ?g bs i b" by (blast intro: rebound_mono mono(1))
    moreover have "rb_Admission b \<le> epoch_of (st_AdmissionEpochs (so_state s')) (rb_Instance b)"
      using r le by (blast intro: order.trans)
    ultimately show ?thesis using r by (simp add: rebound_def)
  qed
  have gm: "st_TierGeneration (so_state s) \<le> st_TierGeneration (so_state s')"
    unfolding tg g using mono(2) next_generation_mono [OF gen] by (rule order.trans)
  have em: "epoch_of (st_AdmissionEpochs (so_state s)) inst \<le> epoch_of (st_AdmissionEpochs (so_state s')) inst" for inst
    by (simp add: ep fold_raise_epoch_mono)
  have "\<exists>old. gget bs i = Some old \<and> b = old\<lparr>rb_Generation := ?g\<rparr>"
    if "gget bs' i = Some b" "ValidateWriteback (binding_version b) w"
      "et_Admission (wv_Token w) \<le> epoch_of (st_AdmissionEpochs (so_state s)) (rb_Instance b)" for i b w
    using binding [OF that(1)] that(2,3)
    by (auto simp: rebound_def ValidateWriteback_def ValidFor_def binding_version_def)
  with gm em binding show ?thesis by blast
qed

definition sample_registry_store :: StateStore where
  "sample_registry_store = \<lparr>so_disk = \<lparr>dk_primary = None, dk_backup = None, dk_primary_corrupt = None, dk_backup_corrupt = None\<rparr>,
     so_readOnly = False, so_loaded = True,
     so_state = NewPersistentState\<lparr>st_AdmissionEpochs := [(legacyAuthInstanceID ''a'', 5)]\<rparr>\<rparr>"

definition sample_roster :: HostRosterSnapshot where
  "sample_roster = zero_HostRosterSnapshot\<lparr>hr_Capability := CapabilityA,
     hr_Entries := [\<lparr>re_ID = ''a'', re_AuthIndex = ''1'', re_Provider = ''codex'', re_Priority = Some 0\<rparr>]\<rparr>"

definition sample_reconcile where
  "sample_reconcile = reconcileRosterEntries (None, \<lambda>_. False) (None, \<lambda>_. False) (\<lambda>_. Inr (sample_auth ''k'')) sample_roster True
     [] sample_registry_store"

theorem reconcile_fences_old_tokens_witness:
  "case sample_reconcile of
     (Inl _, _) \<Rightarrow> False
   | (Inr res, bs', s') \<Rightarrow>
       (case gget bs' ''a'' of None \<Rightarrow> False
        | Some b \<Rightarrow> rb_Instance b = legacyAuthInstanceID ''a''
            \<and> \<not> ValidateWriteback (binding_version b) \<lparr>wv_Token = binding_ExecutionToken (b\<lparr>rb_Admission := 5\<rparr>) 9,
                 wv_Login = rb_Login b, wv_Fingerprint = rb_Fingerprint b\<rparr>)"
proof -
  obtain x bs' s' where x: "sample_reconcile = (x, bs', s')" by (cases sample_reconcile)
  have c: "case sample_reconcile of (Inl _, _) \<Rightarrow> False
      | (Inr res, bs', s') \<Rightarrow> map_option rb_Instance (gget bs' ''a'') = Some (legacyAuthInstanceID ''a'')" by code_simp
  obtain res b where "x = Inr res" and b: "gget bs' ''a'' = Some b" "rb_Instance b = legacyAuthInstanceID ''a''"
    using c unfolding x by (cases x) auto
  then have r: "sample_reconcile = (Inr res, bs', s')" using x by simp
  let ?s = sample_registry_store and ?w = "\<lparr>wv_Token = binding_ExecutionToken (b\<lparr>rb_Admission := 5\<rparr>) 9,
     wv_Login = rb_Login b, wv_Fingerprint = rb_Fingerprint b\<rparr>"
  have st: "st_Bindings (so_state ?s) = []" "raised (so_state ?s) = so_state ?s" "so_loaded ?s"
    "st_AdmissionEpochs (so_state ?s) = [(legacyAuthInstanceID ''a'', 5)]" "st_TierGeneration (so_state ?s) = 0"
    by (simp_all add: sample_registry_store_def NewPersistentState_def raised_def)
  have ids: "roster_ids True (hr_Entries sample_roster) = Some [''a'']"
    by (simp add: roster_ids_def sample_roster_def tier_entry_def)
  have ep: "epoch_of [(legacyAuthInstanceID ''a'', 5)] inst = (if inst = legacyAuthInstanceID ''a'' then 5 else 0)" for inst
    by (simp add: epoch_of_def)
  have room: "\<forall>inst. unat (epoch_of (st_AdmissionEpochs (raised (so_state ?s))) inst) + 2 * length [''a''] + 2 < 2 ^ 64"
    by (simp add: st ep)
  have gen: "st_TierGeneration (raised (so_state ?s)) \<noteq> - 1" by (simp add: st)
  note fenced = reconcile_fences_old_tokens [OF st(3) st(1) [symmetric] ids r [unfolded sample_reconcile_def] room gen]
  from fenced b(1) have "ValidateWriteback (binding_version b) ?w
      \<longrightarrow> et_Admission (wv_Token ?w) \<le> epoch_of (st_AdmissionEpochs (so_state ?s)) (rb_Instance b)
      \<longrightarrow> (\<exists>old. gget ([] :: bindings) ''a'' = Some old \<and> b = old\<lparr>rb_Generation := rs_Generation res\<rparr>)" by blast
  then have nv: "\<not> ValidateWriteback (binding_version b) ?w"
    by (simp add: st ep b binding_ExecutionToken_def)
  show ?thesis unfolding r by (simp add: b) (use nv in simp)
qed

end
