(* ===== verification/Coordinator.thy ===== *)
theory Coordinator
  imports Plugin_State Persistent
begin

text \<open>
  \<^verbatim>\<open>coordinator.go\<close>: the command loop that runs at most one operation per credential instance.

  The loop is one goroutine, so a state is what its local variables hold between two commands
  and every command is one function on it. A \<^verbatim>\<open>*coordinatorJob\<close> is an index into \<open>co_jobs\<close>; its
  future and its held lease are fields of the job. What the loop does to its environment
  (starting a goroutine with its lease timer, the callbacks of \<^verbatim>\<open>CoordinatorOptions\<close>, replies)
  is recorded in \<open>co_trace\<close>, the latest first; what the callbacks answer is a parameter of each
  command. Commands may arrive in any order and any number of times, as the goroutines that
  send them may be delayed. \<^verbatim>\<open>SubmitTyped\<close> and its table of running reads sit in front of the loop.
\<close>

section \<open>Decimal numbers\<close>

definition digit :: "nat \<Rightarrow> char" where
  "digit n = char_of (48 + n)"

fun fmt_d :: "nat \<Rightarrow> string" where
  \<comment> \<open>\<^verbatim>\<open>%d\<close> on a natural number\<close>
  "fmt_d n = (if n < 10 then [digit n] else fmt_d (n div 10) @ [digit (n mod 10)])"

declare fmt_d.simps [simp del]

section \<open>Intents and results\<close>

datatype OperationClass =
    OperationClassEmpty
  | OperationLegacyRefresh
  | OperationQuotaRead
  | OperationProbePrecheck
  | OperationProbeVerify
  | OperationProbeSequence
  | OperationProbeSend

definition formal_sources :: "string list" where
  "formal_sources = [''legacy_refresh_txn'', ''scheduler_initial'', ''scheduler_interval'', ''scheduler_stale_recovery'',
     ''manual_refresh'', ''probe_startup'', ''probe_precheck'', ''probe_activation'', ''probe_verify'']"

definition formalSource :: "string \<Rightarrow> bool" where
  "formalSource source \<longleftrightarrow> source \<in> set formal_sources"

abbreviation (input) LegacyEnvelopeSource :: string where "LegacyEnvelopeSource \<equiv> ''legacy_refresh_txn''"
abbreviation (input) SourceProbePrecheck :: string where "SourceProbePrecheck \<equiv> ''probe_precheck''"
abbreviation (input) SourceProbeActivation :: string where "SourceProbeActivation \<equiv> ''probe_activation''"
abbreviation (input) SourceProbeVerify :: string where "SourceProbeVerify \<equiv> ''probe_verify''"

datatype payload =
    PayloadNil
  | PayloadWindows "ProbeWindowKind list"
  | PayloadTyped payload nat   \<comment> \<open>\<^verbatim>\<open>typedPayload\<close> with the index of its entry\<close>
  | PayloadOther go_any        \<comment> \<open>a value the coordinator only passes on\<close>

record Intent =
  in_AuthID :: string
  in_Instance :: AuthInstanceID
  in_Generation :: TierGeneration
  in_Class :: OperationClass
  in_Source :: string
  in_StartedAfter :: uint64
  in_ReadStartSeq :: uint64
  in_AttemptID :: string
  in_Token :: ExecutionToken
  in_Login :: LoginEpoch
  in_Fingerprint :: CredentialFingerprint
  in_Payload :: payload

datatype ResultDisposition = DispositionEmpty | ResultApplied | ResultDiscardedStale | ResultCancelled

datatype op_error =
    ErrCoordinatorClosed
  | ErrCoordinatorDraining
  | ErrContextCanceled
  | ErrDeadlineExceeded
  | ErrCallback string

record OperationResult =
  op_Value :: go_any
  op_Err :: "op_error option"
  op_Token :: ExecutionToken
  op_Admission :: InstanceAdmissionEpoch
  op_Generation :: TierGeneration
  op_Login :: LoginEpoch
  op_Fingerprint :: CredentialFingerprint
  op_ProbeSendPhase :: bool
  op_SuppressUntil :: time
  op_ReadStartSeq :: uint64
  op_Disposition :: ResultDisposition
  op_Journal :: "LegacyEffectJournal option"
  op_CallbackFailed :: bool

definition zero_ExecutionToken :: ExecutionToken where
  "zero_ExecutionToken = \<lparr>et_Instance = 0, et_Admission = 0, et_Tier = 0, et_Fence = 0\<rparr>"

definition zero_OperationResult :: OperationResult where
  "zero_OperationResult = \<lparr>op_Value = ANil, op_Err = None, op_Token = zero_ExecutionToken, op_Admission = 0,
     op_Generation = 0, op_Login = 0, op_Fingerprint = zero_CredentialFingerprint, op_ProbeSendPhase = False,
     op_SuppressUntil = ZeroTime, op_ReadStartSeq = 0, op_Disposition = DispositionEmpty, op_Journal = None,
     op_CallbackFailed = False\<rparr>"

section \<open>The state of the loop\<close>

record operationKey =
  ok_instance :: AuthInstanceID
  ok_class :: OperationClass
  ok_generation :: TierGeneration
  ok_attemptID :: string
  ok_nonce :: uint64

record coordinatorJob =
  jb_key :: operationKey
  jb_intent :: Intent
  jb_future :: "OperationResult option"   \<comment> \<open>\<open>None\<close> until completed\<close>
  jb_started :: bool                      \<comment> \<open>\<^verbatim>\<open>cancel\<close> and \<^verbatim>\<open>held\<close> are set\<close>
  jb_cancelled :: bool                    \<comment> \<open>its context is cancelled\<close>
  jb_probeSent :: bool                    \<comment> \<open>the held lease\<close>
  jb_suppressUntil :: time
  jb_expired :: bool
  jb_invalidated :: bool

record DrainReport =
  dr_Completed :: int
  dr_Cancelled :: int
  dr_Invalidated :: int
  dr_SentUnknown :: int
  dr_TimedOut :: bool
  dr_PersistenceFailures :: int
  dr_HandoffBlocked :: bool

datatype effect =
    EStart nat
  | ECancel nat
  | EApply nat OperationResult
  | EInherit nat time
  | EDispatchLogs nat OperationResult
  | EEnqueueResult nat OperationResult
  | EDrained DrainReport

record Coordinator =
  co_accepting :: bool
  co_jobs :: "coordinatorJob list"
  co_inflight :: "(operationKey, nat) gmap"
  co_leases :: "(AuthInstanceID, nat) gmap"
  co_queue :: "(AuthInstanceID, nat list) gmap"
  co_completedFence :: "(AuthInstanceID, uint64) gmap"
  co_instanceGeneration :: "(AuthInstanceID, TierGeneration) gmap"
  co_cancelledThrough :: "(AuthInstanceID, TierGeneration) gmap"
  co_cancelTokens :: "(AuthInstanceID, uint64) gmap"
  co_cancelNonce :: uint64
  co_drains :: "DrainReport list"
  co_typedNonce :: uint64
  co_stopped :: bool
  co_trace :: "effect list"

definition NewCoordinator :: Coordinator where
  "NewCoordinator = \<lparr>co_accepting = True, co_jobs = [], co_inflight = [], co_leases = [], co_queue = [],
     co_completedFence = [], co_instanceGeneration = [], co_cancelledThrough = [], co_cancelTokens = [],
     co_cancelNonce = 0, co_drains = [], co_typedNonce = 0, co_stopped = False, co_trace = []\<rparr>"

record callbacks =
  \<comment> \<open>the callbacks of \<^verbatim>\<open>CoordinatorOptions\<close> the loop calls; \<open>None\<close> is a nil function\<close>
  cl_Validate :: "(Intent \<Rightarrow> OperationResult \<Rightarrow> bool) option"
  cl_Apply :: "(Intent \<Rightarrow> OperationResult \<Rightarrow> op_error option) option"
  cl_InheritSentUnknown :: "(Intent \<Rightarrow> time \<Rightarrow> op_error option) option"
  cl_DispatchLogs :: bool

definition wget :: "('k, uint64) gmap \<Rightarrow> 'k \<Rightarrow> uint64" where
  \<comment> \<open>reading a Go map of numbers\<close>
  "wget m k = (case gget m k of None \<Rightarrow> 0 | Some v \<Rightarrow> v)"

definition upd_job :: "nat \<Rightarrow> (coordinatorJob \<Rightarrow> coordinatorJob) \<Rightarrow> Coordinator \<Rightarrow> Coordinator" where
  "upd_job j f c = c\<lparr>co_jobs := (co_jobs c)[j := f (co_jobs c ! j)]\<rparr>"

definition emit :: "effect \<Rightarrow> Coordinator \<Rightarrow> Coordinator" where
  "emit e c = c\<lparr>co_trace := e # co_trace c\<rparr>"

abbreviation job :: "Coordinator \<Rightarrow> nat \<Rightarrow> coordinatorJob" where
  "job c j \<equiv> co_jobs c ! j"

abbreviation job_instance :: "Coordinator \<Rightarrow> nat \<Rightarrow> AuthInstanceID" where
  "job_instance c j \<equiv> in_Instance (jb_intent (job c j))"

definition completeFuture :: "OperationResult \<Rightarrow> coordinatorJob \<Rightarrow> coordinatorJob" where
  "completeFuture r jb = (if jb_future jb = None then jb\<lparr>jb_future := Some r\<rparr> else jb)"

definition cancelled_result :: "coordinatorJob \<Rightarrow> OperationResult" where
  "cancelled_result jb = zero_OperationResult\<lparr>op_Token := in_Token (jb_intent jb), op_Err := Some ErrContextCanceled,
     op_Disposition := ResultCancelled\<rparr>"

section \<open>Starting jobs\<close>

definition start :: "nat \<Rightarrow> Coordinator \<Rightarrow> Coordinator" where
  "start j c = emit (EStart j) (upd_job j (\<lambda>jb. jb\<lparr>jb_started := True\<rparr>)
     (c\<lparr>co_leases := gput (job_instance c j) j (co_leases c)\<rparr>))"

definition tryStart :: "AuthInstanceID \<Rightarrow> Coordinator \<Rightarrow> Coordinator" where
  "tryStart i c =
    (if \<not> co_accepting c then c
     else if gget (co_leases c) i \<noteq> None then c
     else case gget (co_queue c) i of
            Some (j # q) \<Rightarrow>
              let intent = jb_intent (job c j)
              in if in_Class intent = OperationLegacyRefresh \<and> wget (co_completedFence c) i < in_StartedAfter intent then c
                 else start j (c\<lparr>co_queue := gput i q (co_queue c)\<rparr>)
          | _ \<Rightarrow> c\<lparr>co_queue := gdel i (co_queue c)\<rparr>)"

definition finishDrains :: "Coordinator \<Rightarrow> Coordinator" where
  "finishDrains c =
    (if co_inflight c \<noteq> [] \<or> co_drains c = [] then c
     else c\<lparr>co_drains := [], co_trace := rev (map EDrained (co_drains c)) @ co_trace c\<rparr>)"

section \<open>The commands\<close>

datatype submit_reply = Completed OperationResult | Pending nat

definition raise_max :: "AuthInstanceID \<Rightarrow> uint64 \<Rightarrow> (AuthInstanceID, uint64) gmap \<Rightarrow> (AuthInstanceID, uint64) gmap" where
  "raise_max i v m = (if wget m i < v then gput i v m else m)"

definition next_nonce :: "Intent \<Rightarrow> Coordinator \<Rightarrow> Coordinator" where
  "next_nonce intent c =
    c\<lparr>co_typedNonce := (if in_Class intent = OperationProbeSend then co_typedNonce c + 1 else co_typedNonce c)\<rparr>"

definition submit_key :: "Intent \<Rightarrow> Coordinator \<Rightarrow> operationKey" where
  "submit_key intent c = \<lparr>ok_instance = in_Instance intent, ok_class = in_Class intent, ok_generation = in_Generation intent,
     ok_attemptID = in_AttemptID intent, ok_nonce = (if in_Class intent = OperationProbeSend then co_typedNonce c else 0)\<rparr>"

definition submit_refused :: "Intent \<Rightarrow> Coordinator \<Rightarrow> bool" where
  "submit_refused intent c \<longleftrightarrow> \<not> co_accepting c \<or> gget (co_cancelledThrough c) (in_Instance intent) \<noteq> None
     \<or> \<not> formalSource (in_Source intent)
     \<or> in_Source intent = LegacyEnvelopeSource \<and> in_Class intent \<noteq> OperationLegacyRefresh"

definition new_job :: "Intent \<Rightarrow> operationKey \<Rightarrow> coordinatorJob" where
  "new_job intent key = \<lparr>jb_key = key, jb_intent = intent, jb_future = None, jb_started = False, jb_cancelled = False,
     jb_probeSent = False, jb_suppressUntil = ZeroTime, jb_expired = False, jb_invalidated = False\<rparr>"

definition add_job :: "Intent \<Rightarrow> operationKey \<Rightarrow> Coordinator \<Rightarrow> Coordinator" where
  "add_job intent key c =
    (let i = in_Instance intent; q = (case gget (co_queue c) i of None \<Rightarrow> [] | Some q \<Rightarrow> q)
     in c\<lparr>co_instanceGeneration := raise_max i (in_Generation intent) (co_instanceGeneration c),
          co_jobs := co_jobs c @ [new_job intent key], co_inflight := gput key (length (co_jobs c)) (co_inflight c),
          co_queue := gput i (q @ [length (co_jobs c)]) (co_queue c)\<rparr>)"

definition handle_submit :: "Intent \<Rightarrow> Coordinator \<Rightarrow> submit_reply \<times> Coordinator" where
  "handle_submit intent c0 =
    (let c = next_nonce intent c0; key = submit_key intent c
     in case gget (co_inflight c) key of
          Some j \<Rightarrow> (Pending j, c)
        | None \<Rightarrow>
            if submit_refused intent c
            then (Completed (zero_OperationResult\<lparr>op_Err := Some ErrCoordinatorDraining, op_Disposition := ResultCancelled\<rparr>), c)
            else (Pending (length (co_jobs c)), tryStart (in_Instance intent) (add_job intent key c)))"

definition release :: "nat \<Rightarrow> Coordinator \<Rightarrow> Coordinator" where
  \<comment> \<open>the job leaves \<^verbatim>\<open>inflight\<close> and gives up its lease\<close>
  "release j c = c\<lparr>co_inflight := gdel (jb_key (job c j)) (co_inflight c),
     co_leases := (if gget (co_leases c) (job_instance c j) = Some j then gdel (job_instance c j) (co_leases c)
                   else co_leases c)\<rparr>"

definition inherit :: "callbacks \<Rightarrow> nat \<Rightarrow> bool \<Rightarrow> time \<Rightarrow> Coordinator \<Rightarrow> op_error option \<times> Coordinator" where
  "inherit cb j probe suppress c =
    (case (probe, cl_InheritSentUnknown cb) of
       (True, Some f) \<Rightarrow> (f (jb_intent (job c j)) suppress, emit (EInherit j suppress) c)
     | _ \<Rightarrow> (None, c))"

definition report_inherit :: "bool \<Rightarrow> op_error option \<Rightarrow> DrainReport \<Rightarrow> DrainReport" where
  "report_inherit probe err d =
    (let d1 = (if probe \<and> err = None then d\<lparr>dr_SentUnknown := dr_SentUnknown d + 1\<rparr> else d)
     in if err \<noteq> None then d1\<lparr>dr_PersistenceFailures := dr_PersistenceFailures d1 + 1, dr_HandoffBlocked := True\<rparr> else d1)"

definition handle_expire :: "callbacks \<Rightarrow> nat \<Rightarrow> Coordinator \<Rightarrow> Coordinator" where
  "handle_expire cb j c =
    (let jb = job c j; i = in_Instance (jb_intent jb); token = in_Token (jb_intent jb)
     in if gget (co_inflight c) (jb_key jb) \<noteq> Some j \<or> jb_expired jb then c
        else
          let c1 = release j (upd_job j (\<lambda>b. b\<lparr>jb_expired := True, jb_cancelled := jb_cancelled b \<or> jb_started b\<rparr>) c);
              (err, c2) = inherit cb j (jb_probeSent jb) (jb_suppressUntil jb) c1;
              r = zero_OperationResult\<lparr>op_Token := token, op_ProbeSendPhase := jb_probeSent jb,
                    op_SuppressUntil := jb_suppressUntil jb,
                    op_Err := Some (case err of None \<Rightarrow> ErrDeadlineExceeded | Some e \<Rightarrow> e),
                    op_Disposition := ResultDiscardedStale\<rparr>;
              c3 = upd_job j (completeFuture r) c2;
              c4 = c3\<lparr>co_completedFence := raise_max i (et_Fence token) (co_completedFence c3),
                     co_drains := map (\<lambda>d. report_inherit (jb_probeSent jb) err
                       (d\<lparr>dr_Completed := dr_Completed d + 1, dr_Invalidated := dr_Invalidated d + 1\<rparr>)) (co_drains c3)\<rparr>
          in finishDrains (tryStart i c4))"

definition has_host_logs :: "OperationResult \<Rightarrow> bool" where
  "has_host_logs r \<longleftrightarrow> (case op_Journal r of None \<Rightarrow> False | Some jn \<Rightarrow> lj_HostLogs jn \<noteq> [])"

definition with_held :: "coordinatorJob \<Rightarrow> OperationResult \<Rightarrow> OperationResult" where
  \<comment> \<open>what the held lease knows about a probe is merged into the result\<close>
  "with_held jb r =
    (let r1 = r\<lparr>op_ProbeSendPhase := op_ProbeSendPhase r \<or> jb_probeSent jb\<rparr>
     in if After (jb_suppressUntil jb) (op_SuppressUntil r1) then r1\<lparr>op_SuppressUntil := jb_suppressUntil jb\<rparr> else r1)"

definition result_valid :: "callbacks \<Rightarrow> coordinatorJob \<Rightarrow> OperationResult \<Rightarrow> bool" where
  "result_valid cb jb r \<longleftrightarrow> \<not> jb_expired jb \<and> \<not> jb_invalidated jb \<and> \<not> op_CallbackFailed r
     \<and> op_Token r = in_Token (jb_intent jb)
     \<and> (case cl_Validate cb of None \<Rightarrow> True | Some f \<Rightarrow> f (jb_intent jb) r)"

definition finish_invalid :: "callbacks \<Rightarrow> nat \<Rightarrow> OperationResult \<Rightarrow> Coordinator \<Rightarrow> OperationResult \<times> Coordinator" where
  "finish_invalid cb j r0 c =
    (let r = r0\<lparr>op_Disposition := ResultDiscardedStale\<rparr>; intent = jb_intent (job c j);
         c1 = c\<lparr>co_completedFence := raise_max (in_Instance intent) (et_Fence (in_Token intent)) (co_completedFence c)\<rparr>;
         (err, c2) = inherit cb j (op_ProbeSendPhase r) (op_SuppressUntil r) c1
     in ((case err of None \<Rightarrow> r | Some e \<Rightarrow> r\<lparr>op_Err := Some e\<rparr>),
         c2\<lparr>co_drains := map (\<lambda>d. report_inherit (op_ProbeSendPhase r) err
              (d\<lparr>dr_Invalidated := dr_Invalidated d + 1\<rparr>)) (co_drains c2)\<rparr>))"

definition finish_valid :: "nat \<Rightarrow> OperationResult \<Rightarrow> Coordinator \<Rightarrow> OperationResult \<times> Coordinator" where
  "finish_valid j r c = (r\<lparr>op_Disposition := ResultApplied\<rparr>,
     c\<lparr>co_completedFence := raise_max (job_instance c j) (et_Fence (op_Token r)) (co_completedFence c)\<rparr>)"

definition apply_result ::
  "callbacks \<Rightarrow> nat \<Rightarrow> bool \<Rightarrow> OperationResult \<Rightarrow> Coordinator \<Rightarrow> bool \<times> OperationResult \<times> Coordinator" where
  "apply_result cb j valid r c =
    (if \<not> valid then (False, r, c)
     else case cl_Apply cb of
            None \<Rightarrow> (True, r, c)
          | Some f \<Rightarrow>
              (case f (jb_intent (job c j)) r of
                 None \<Rightarrow> (True, r, emit (EApply j r) c)
               | Some e \<Rightarrow> (False, r\<lparr>op_Err := Some e\<rparr>, emit (EApply j r) c)))"

definition handle_result :: "callbacks \<Rightarrow> nat \<Rightarrow> OperationResult \<Rightarrow> Coordinator \<Rightarrow> Coordinator" where
  "handle_result cb j r0 c =
    (let jb = job c j; i = in_Instance (jb_intent jb)
     in if gget (co_inflight c) (jb_key jb) \<noteq> Some j then c
        else
          let r1 = with_held jb r0; valid = result_valid cb jb r1
          in if valid \<and> cl_DispatchLogs cb \<and> has_host_logs r1 then emit (EDispatchLogs j r1) c
             else
               let c1 = release j c;
                   (valid2, r2, c2) = apply_result cb j valid r1 c1;
                   (r3, c3) = (if valid2 then finish_valid j r2 c2 else finish_invalid cb j r2 c2);
                   c4 = upd_job j (completeFuture r3) c3;
                   c5 = c4\<lparr>co_drains := map (\<lambda>d. d\<lparr>dr_Completed := dr_Completed d + 1\<rparr>) (co_drains c4)\<rparr>
               in finishDrains (tryStart i c5))"

definition handle_log_callback :: "nat \<Rightarrow> OperationResult \<Rightarrow> op_error option \<Rightarrow> Coordinator \<Rightarrow> Coordinator" where
  \<comment> \<open>sends itself the result again, now without host logs\<close>
  "handle_log_callback j r err c =
    (if gget (co_inflight c) (jb_key (job c j)) \<noteq> Some j then c
     else emit (EEnqueueResult j (r\<lparr>op_CallbackFailed := (err \<noteq> None),
            op_Err := (if err \<noteq> None then err else op_Err r)\<rparr>)) c)"

definition drop_inflight :: "nat \<Rightarrow> Coordinator \<Rightarrow> Coordinator" where
  "drop_inflight j c =
    (if gget (co_inflight c) (jb_key (job c j)) = Some j
     then c\<lparr>co_inflight := gdel (jb_key (job c j)) (co_inflight c)\<rparr> else c)"

definition cancel_queued :: "nat \<Rightarrow> Coordinator \<Rightarrow> Coordinator" where
  "cancel_queued j c = upd_job j (\<lambda>b. completeFuture (cancelled_result b) (b\<lparr>jb_invalidated := True\<rparr>)) (drop_inflight j c)"

definition cancel_running :: "coordinatorJob \<Rightarrow> coordinatorJob" where
  "cancel_running b = completeFuture (cancelled_result b)
     (b\<lparr>jb_invalidated := True, jb_cancelled := jb_cancelled b \<or> jb_started b\<rparr>)"

definition cancel_leased :: "nat \<Rightarrow> Coordinator \<Rightarrow> Coordinator" where
  "cancel_leased j c =
    (let c1 = upd_job j cancel_running (c\<lparr>co_inflight := gdel (jb_key (job c j)) (co_inflight c)\<rparr>)
     in if jb_started (job c j) then emit (ECancel j) c1 else c1)"

definition mark_cancelled :: "AuthInstanceID \<Rightarrow> Coordinator \<Rightarrow> Coordinator" where
  "mark_cancelled i c = c\<lparr>co_cancelNonce := co_cancelNonce c + 1, co_cancelTokens := gput i (co_cancelNonce c + 1) (co_cancelTokens c),
     co_cancelledThrough := gput i (wget (co_instanceGeneration c) i) (co_cancelledThrough c)\<rparr>"

definition cancel_queue :: "AuthInstanceID \<Rightarrow> Coordinator \<Rightarrow> Coordinator" where
  "cancel_queue i c = (fold cancel_queued (case gget (co_queue c) i of None \<Rightarrow> [] | Some q \<Rightarrow> q) c)\<lparr>co_queue := gdel i (co_queue c)\<rparr>"

definition cancel_lease :: "AuthInstanceID \<Rightarrow> Coordinator \<Rightarrow> Coordinator" where
  "cancel_lease i c =
    (case gget (co_leases c) i of
       None \<Rightarrow> c
     | Some j \<Rightarrow> (cancel_leased j c)\<lparr>co_leases := gdel i (co_leases c)\<rparr>)"

definition cancel_instance :: "AuthInstanceID \<Rightarrow> Coordinator \<Rightarrow> Coordinator" where
  "cancel_instance i c = cancel_lease i (cancel_queue i (mark_cancelled i c))"

definition handle_cancel :: "AuthInstanceID list \<Rightarrow> Coordinator \<Rightarrow> (AuthInstanceID, uint64) gmap \<times> Coordinator" where
  "handle_cancel instances c =
    (let (issued, c1) = fold (\<lambda>i (issued, c). (gput i (co_cancelNonce c + 1) issued, cancel_instance i c)) instances ([], c)
     in (issued, finishDrains c1))"

definition activate_instance :: "AuthInstanceID \<times> TierGeneration \<Rightarrow> Coordinator \<Rightarrow> Coordinator" where
  "activate_instance ig c =
    (let (i, generation) = ig; c1 = c\<lparr>co_instanceGeneration := raise_max i generation (co_instanceGeneration c)\<rparr>
     in if wget (co_cancelledThrough c1) i < generation
        then c1\<lparr>co_cancelledThrough := gdel i (co_cancelledThrough c1), co_cancelTokens := gdel i (co_cancelTokens c1)\<rparr>
        else c1)"

definition handle_activate :: "(AuthInstanceID, TierGeneration) gmap \<Rightarrow> Coordinator \<Rightarrow> Coordinator" where
  "handle_activate generations c = fold activate_instance generations c"

definition restore_instance ::
  "(AuthInstanceID, uint64) gmap \<Rightarrow> AuthInstanceID \<times> TierGeneration \<Rightarrow> Coordinator \<Rightarrow> Coordinator" where
  "restore_instance tokens ig c =
    (let (i, generation) = ig
     in if wget (co_cancelledThrough c) i = generation \<and> wget (co_cancelTokens c) i = wget tokens i
        then c\<lparr>co_cancelledThrough := gdel i (co_cancelledThrough c), co_cancelTokens := gdel i (co_cancelTokens c)\<rparr>
        else c)"

definition handle_restore ::
  "(AuthInstanceID, TierGeneration) gmap \<Rightarrow> (AuthInstanceID, uint64) gmap \<Rightarrow> Coordinator \<Rightarrow> Coordinator" where
  "handle_restore generations tokens c = fold (restore_instance tokens) generations c"

definition drain_queued :: "nat \<Rightarrow> Coordinator \<Rightarrow> Coordinator" where
  "drain_queued j c = upd_job j (\<lambda>b. completeFuture (cancelled_result b) b) (drop_inflight j c)"

definition drain_running :: "nat \<Rightarrow> Coordinator \<Rightarrow> Coordinator" where
  "drain_running j c =
    (if jb_started (job c j)
     then emit (ECancel j) (upd_job j (\<lambda>b. b\<lparr>jb_cancelled := True, jb_invalidated := True\<rparr>) c) else c)"

definition handle_drain :: "Coordinator \<Rightarrow> Coordinator" where
  "handle_drain c =
    (let queued = concat (map snd (co_queue c));
         c1 = (fold drain_queued queued (c\<lparr>co_accepting := False\<rparr>))\<lparr>co_queue := []\<rparr>;
         running = map snd (co_inflight c1);
         c2 = fold drain_running running c1;
         report = \<lparr>dr_Completed = int (length queued),
           dr_Cancelled = int (length queued) + int (length (filter (\<lambda>j. jb_started (job c1 j)) running)),
           dr_Invalidated = 0, dr_SentUnknown = 0, dr_TimedOut = False, dr_PersistenceFailures = 0,
           dr_HandoffBlocked = False\<rparr>
     in if co_inflight c2 = [] then emit (EDrained report) c2
        else c2\<lparr>co_drains := co_drains c2 @ [report]\<rparr>)"

definition stop_job :: "nat \<Rightarrow> Coordinator \<Rightarrow> Coordinator" where
  "stop_job j c = upd_job j (\<lambda>b. completeFuture
     (zero_OperationResult\<lparr>op_Err := Some ErrContextCanceled, op_Disposition := ResultCancelled\<rparr>)
     (b\<lparr>jb_cancelled := jb_cancelled b \<or> jb_started b\<rparr>)) c"

definition handle_closed :: "Coordinator \<Rightarrow> Coordinator" where
  \<comment> \<open>the loop ends\<close>
  "handle_closed c = (fold stop_job (map snd (co_inflight c)) c)\<lparr>co_stopped := True\<rparr>"

record CoordinatorSnapshot =
  cs_Accepting :: bool
  cs_InFlight :: nat
  cs_Queued :: nat
  cs_LeasedInstances :: "AuthInstanceID list"

definition coordinator_snapshot :: "Coordinator \<Rightarrow> CoordinatorSnapshot" where
  \<comment> \<open>without the number of HTTP slots in use\<close>
  "coordinator_snapshot c = \<lparr>cs_Accepting = co_accepting c, cs_InFlight = length (co_inflight c),
     cs_Queued = sum_list (map (length \<circ> snd) (co_queue c)), cs_LeasedInstances = map fst (co_leases c)\<rparr>"

definition MarkProbeSent :: "time \<Rightarrow> coordinatorJob \<Rightarrow> coordinatorJob" where
  \<comment> \<open>called by the executor on the lease it holds\<close>
  "MarkProbeSent suppressUntil jb =
    (let b = jb\<lparr>jb_probeSent := True\<rparr>
     in if After suppressUntil (jb_suppressUntil b) then b\<lparr>jb_suppressUntil := suppressUntil\<rparr> else b)"

definition begin_read :: "uint64 \<Rightarrow> coordinatorJob \<Rightarrow> coordinatorJob" where
  \<comment> \<open>the goroutine of a typed read unwraps its payload and stores the sequence number it was given\<close>
  "begin_read seq jb =
    (case in_Payload (jb_intent jb) of
       PayloadTyped value entry \<Rightarrow> jb\<lparr>jb_intent := (jb_intent jb)\<lparr>in_Payload := value, in_ReadStartSeq := seq\<rparr>\<rparr>
     | _ \<Rightarrow> jb)"

section \<open>The loop as a machine\<close>

datatype (plugins only: code size) command =
    CSubmit Intent
  | CExpire callbacks nat
  | CResult callbacks nat OperationResult
  | CLogCallback nat OperationResult "op_error option"
  | CCancel "AuthInstanceID list"
  | CActivate "(AuthInstanceID, TierGeneration) gmap"
  | CRestore "(AuthInstanceID, TierGeneration) gmap" "(AuthInstanceID, uint64) gmap"
  | CDrain
  | CClosed
  | CMarkProbeSent nat time   \<comment> \<open>by the executor, between two commands\<close>
  | CBeginRead nat uint64     \<comment> \<open>likewise\<close>

definition running :: "Coordinator \<Rightarrow> nat \<Rightarrow> bool" where
  \<comment> \<open>a job that has been started; only its own goroutine and timer send commands about it\<close>
  "running c j \<longleftrightarrow> j < length (co_jobs c) \<and> jb_started (job c j)"

fun handle :: "command \<Rightarrow> Coordinator \<Rightarrow> Coordinator" where
  "handle (CSubmit intent) c = snd (handle_submit intent c)"
| "handle (CExpire cb j) c = (if running c j then handle_expire cb j c else c)"
| "handle (CResult cb j r) c = (if running c j then handle_result cb j r c else c)"
| "handle (CLogCallback j r err) c = (if running c j then handle_log_callback j r err c else c)"
| "handle (CCancel is) c = snd (handle_cancel is c)"
| "handle (CActivate gs) c = handle_activate gs c"
| "handle (CRestore gs ts) c = handle_restore gs ts c"
| "handle CDrain c = handle_drain c"
| "handle CClosed c = handle_closed c"
| "handle (CMarkProbeSent j t) c = (if running c j then upd_job j (MarkProbeSent t) c else c)"
| "handle (CBeginRead j seq) c = (if running c j then upd_job j (begin_read seq) c else c)"

definition loop_step :: "Coordinator \<Rightarrow> command \<Rightarrow> Coordinator" where
  "loop_step c cmd = (if co_stopped c then c else handle cmd c)"

end
