(* ===== verification/Coordinator_Tables.thy ===== *)
theory Coordinator_Tables
  imports Coordinator
begin

text \<open>
  The invariant of the coordinator's tables: \<^verbatim>\<open>inflight\<close> holds exactly the jobs whose future is
  open, and each of them either holds the lease of its instance or waits in its queue. The
  handlers are combinations of few table operations (adding a job, starting it, settling a
  running job, withdrawing a queue), and each of them is shown to keep the invariant once.
\<close>

section \<open>Selectors\<close>

lemma upd_job_sel [simp]:
  "length (co_jobs (upd_job j f c)) = length (co_jobs c)" "co_inflight (upd_job j f c) = co_inflight c"
  "co_leases (upd_job j f c) = co_leases c" "co_queue (upd_job j f c) = co_queue c"
  "co_trace (upd_job j f c) = co_trace c" "co_accepting (upd_job j f c) = co_accepting c"
  "co_cancelledThrough (upd_job j f c) = co_cancelledThrough c" "co_stopped (upd_job j f c) = co_stopped c"
  "co_completedFence (upd_job j f c) = co_completedFence c" "co_drains (upd_job j f c) = co_drains c"
  "co_cancelTokens (upd_job j f c) = co_cancelTokens c" "co_instanceGeneration (upd_job j f c) = co_instanceGeneration c"
  by (simp_all add: upd_job_def list_update_beyond not_less)

lemma job_upd [simp]:
  "job (upd_job j f c) k = (if k = j \<and> j < length (co_jobs c) then f (job c j) else job c k)"
  by (cases "j < length (co_jobs c)"; cases "k = j") (simp_all add: upd_job_def list_update_beyond not_less)

lemma emit_sel [simp]:
  "co_jobs (emit e c) = co_jobs c" "co_inflight (emit e c) = co_inflight c" "co_leases (emit e c) = co_leases c"
  "co_queue (emit e c) = co_queue c" "co_trace (emit e c) = e # co_trace c" "co_accepting (emit e c) = co_accepting c"
  "co_cancelledThrough (emit e c) = co_cancelledThrough c" "co_stopped (emit e c) = co_stopped c"
  "co_completedFence (emit e c) = co_completedFence c" "co_drains (emit e c) = co_drains c"
  "co_cancelTokens (emit e c) = co_cancelTokens c" "co_instanceGeneration (emit e c) = co_instanceGeneration c"
  by (simp_all add: emit_def)

lemma completeFuture_sel [simp]:
  "jb_key (completeFuture r b) = jb_key b" "jb_intent (completeFuture r b) = jb_intent b"
  "jb_started (completeFuture r b) = jb_started b" "jb_future (completeFuture r b) \<noteq> None"
  "jb_invalidated (completeFuture r b) = jb_invalidated b" "jb_expired (completeFuture r b) = jb_expired b"
  by (auto simp: completeFuture_def)

section \<open>The invariant of the tables\<close>

definition queued :: "Coordinator \<Rightarrow> AuthInstanceID \<Rightarrow> nat list" where
  "queued c i = (case gget (co_queue c) i of None \<Rightarrow> [] | Some q \<Rightarrow> q)"

definition sig :: "coordinatorJob \<Rightarrow> operationKey \<times> AuthInstanceID \<times> bool \<times> bool \<times> bool" where
  \<comment> \<open>what the invariant needs of a job\<close>
  "sig b = (jb_key b, in_Instance (jb_intent b), jb_started b, jb_future b = None, jb_expired b)"

definition co_ok :: "Coordinator \<Rightarrow> bool" where
  "co_ok c \<longleftrightarrow>
    (\<forall>k j. gget (co_inflight c) k = Some j \<longrightarrow> j < length (co_jobs c) \<and> jb_key (job c j) = k \<and> jb_future (job c j) = None
       \<and> (gget (co_leases c) (job_instance c j) = Some j \<or> j \<in> set (queued c (job_instance c j))))
    \<and> (\<forall>i j. gget (co_leases c) i = Some j \<longrightarrow>
          gget (co_inflight c) (jb_key (job c j)) = Some j \<and> job_instance c j = i \<and> jb_started (job c j))
    \<and> (\<forall>i. distinct (queued c i) \<and> (\<forall>j \<in> set (queued c i).
          gget (co_inflight c) (jb_key (job c j)) = Some j \<and> job_instance c j = i \<and> \<not> jb_started (job c j)))
    \<and> (\<forall>j < length (co_jobs c). jb_future (job c j) = None \<longrightarrow>
          gget (co_inflight c) (jb_key (job c j)) = Some j \<and> \<not> jb_expired (job c j))
    \<and> gmap_wf (co_inflight c) \<and> gmap_wf (co_leases c) \<and> gmap_wf (co_queue c)"

lemma co_okD:
  assumes "co_ok c"
  shows inflightD: "gget (co_inflight c) k = Some j \<Longrightarrow> j < length (co_jobs c) \<and> jb_key (job c j) = k
      \<and> jb_future (job c j) = None \<and> (gget (co_leases c) (job_instance c j) = Some j \<or> j \<in> set (queued c (job_instance c j)))"
    and leaseD: "gget (co_leases c) i = Some j \<Longrightarrow>
      gget (co_inflight c) (jb_key (job c j)) = Some j \<and> job_instance c j = i \<and> jb_started (job c j)"
    and queuedD: "j \<in> set (queued c i) \<Longrightarrow>
      gget (co_inflight c) (jb_key (job c j)) = Some j \<and> job_instance c j = i \<and> \<not> jb_started (job c j)"
    and queued_distinct: "distinct (queued c i)"
    and openD: "j < length (co_jobs c) \<Longrightarrow> jb_future (job c j) = None \<Longrightarrow>
      gget (co_inflight c) (jb_key (job c j)) = Some j \<and> \<not> jb_expired (job c j)"
    and tables_wf: "gmap_wf (co_inflight c)" "gmap_wf (co_leases c)" "gmap_wf (co_queue c)"
  using assms unfolding co_ok_def by blast+

lemma sigD:
  assumes "sig (job c' j) = sig (job c j)"
  shows "jb_key (job c' j) = jb_key (job c j)" "job_instance c' j = job_instance c j"
    "jb_started (job c' j) = jb_started (job c j)" "jb_future (job c' j) = None \<longleftrightarrow> jb_future (job c j) = None"
    "jb_expired (job c' j) = jb_expired (job c j)"
  using assms by (simp_all add: sig_def)

lemma co_ok_leave:
  \<comment> \<open>the jobs of \<open>S\<close> are completed and leave every table\<close>
  assumes ok: "co_ok c" and len: "length (co_jobs c') = length (co_jobs c)"
    and keep: "\<And>j. j < length (co_jobs c) \<Longrightarrow> j \<notin> S \<Longrightarrow> sig (job c' j) = sig (job c j)"
    and gone: "\<And>j. j \<in> S \<Longrightarrow> jb_future (job c' j) \<noteq> None"
    and inf: "\<And>k. gget (co_inflight c') k = (case gget (co_inflight c) k of None \<Rightarrow> None | Some j \<Rightarrow> if j \<in> S then None else Some j)"
    and les: "\<And>i. gget (co_leases c') i = (case gget (co_leases c) i of None \<Rightarrow> None | Some j \<Rightarrow> if j \<in> S then None else Some j)"
    and que: "\<And>i. queued c' i = filter (\<lambda>j. j \<notin> S) (queued c i)"
    and wf: "gmap_wf (co_inflight c')" "gmap_wf (co_leases c')" "gmap_wf (co_queue c')"
  shows "co_ok c'"
proof -
  note s = sigD [OF keep]
  have inf': "gget (co_inflight c') k = Some j \<longleftrightarrow> gget (co_inflight c) k = Some j \<and> j \<notin> S" for k j
    by (auto simp: inf split: option.splits)
  have les': "gget (co_leases c') i = Some j \<longleftrightarrow> gget (co_leases c) i = Some j \<and> j \<notin> S" for i j
    by (auto simp: les split: option.splits)
  have low: "j < length (co_jobs c)" if "gget (co_inflight c) k = Some j" for k j
    using inflightD [OF ok that] by simp
  have 1: "j < length (co_jobs c') \<and> jb_key (job c' j) = k \<and> jb_future (job c' j) = None
      \<and> (gget (co_leases c') (job_instance c' j) = Some j \<or> j \<in> set (queued c' (job_instance c' j)))"
    if "gget (co_inflight c') k = Some j" for k j
    using that inflightD [OF ok, of k j] s [of j] len unfolding inf' les' que by auto
  have 2: "gget (co_inflight c') (jb_key (job c' j)) = Some j \<and> job_instance c' j = i \<and> jb_started (job c' j)"
    if "gget (co_leases c') i = Some j" for i j
    using that leaseD [OF ok, of i j] low [of "jb_key (job c j)" j] s [of j] unfolding inf' les' by auto
  have 3: "gget (co_inflight c') (jb_key (job c' j)) = Some j \<and> job_instance c' j = i \<and> \<not> jb_started (job c' j)"
    if "j \<in> set (queued c' i)" for i j
    using that queuedD [OF ok, of j i] low [of "jb_key (job c j)" j] s [of j] unfolding inf' que by auto
  have 4: "gget (co_inflight c') (jb_key (job c' j)) = Some j \<and> \<not> jb_expired (job c' j)"
    if "j < length (co_jobs c')" "jb_future (job c' j) = None" for j
    using that openD [OF ok, of j] s [of j] gone [of j] len unfolding inf' by (cases "j \<in> S") auto
  have 5: "distinct (queued c' i)" for i unfolding que using queued_distinct [OF ok] by simp
  show ?thesis unfolding co_ok_def using 1 2 3 4 5 wf by blast
qed

lemma co_ok_frame:
  assumes "co_ok c" and "length (co_jobs c') = length (co_jobs c)"
    and "\<And>j. j < length (co_jobs c) \<Longrightarrow> sig (job c' j) = sig (job c j)"
    and "co_inflight c' = co_inflight c" "co_leases c' = co_leases c" "co_queue c' = co_queue c"
  shows "co_ok c'"
proof (rule co_ok_leave [OF assms(1,2), where S = "{}"])
  show "queued c' i = filter (\<lambda>j. j \<notin> {}) (queued c i)" for i by (simp add: queued_def assms)
qed (use assms tables_wf [OF assms(1)] in \<open>simp_all split: option.split\<close>)

lemma co_ok_start:
  assumes ok: "co_ok c" and l: "gget (co_leases c) i = None" and q: "gget (co_queue c) i = Some (j # q)"
  shows "co_ok (start j (c\<lparr>co_queue := gput i q (co_queue c)\<rparr>))" (is "co_ok ?c")
proof -
  have j: "j \<in> set (queued c i)" by (simp add: queued_def q)
  note jq = queuedD [OF ok j]
  have jl: "j < length (co_jobs c)" using jq inflightD [OF ok] by blast
  have q': "queued ?c i' = (if i' = i then q else queued c i')" for i'
    by (simp add: queued_def start_def go_simps)
  have nq: "j \<notin> set q" using queued_distinct [OF ok, of i] by (simp add: queued_def q)
  have sub: "set q \<subseteq> set (queued c i)" by (simp add: queued_def q subset_insertI)
  have l': "gget (co_leases ?c) i' = (if i' = i then Some j else gget (co_leases c) i')" for i'
    using jq by (simp add: start_def go_simps)
  have J: "job ?c k = (if k = j then (job c j)\<lparr>jb_started := True\<rparr> else job c k)" for k
    using jl by (simp add: start_def)
  have len: "length (co_jobs ?c) = length (co_jobs c)" and inf: "co_inflight ?c = co_inflight c" by (simp_all add: start_def)
  have 1: "k < length (co_jobs ?c) \<and> jb_key (job ?c k) = key \<and> jb_future (job ?c k) = None
      \<and> (gget (co_leases ?c) (job_instance ?c k) = Some k \<or> k \<in> set (queued ?c (job_instance ?c k)))"
    if "gget (co_inflight ?c) key = Some k" for key k
    using inflightD [OF ok that [unfolded inf]] jq l q unfolding len J l' q' by (auto simp: queued_def)
  have 2: "gget (co_inflight ?c) (jb_key (job ?c k)) = Some k \<and> job_instance ?c k = i' \<and> jb_started (job ?c k)"
    if "gget (co_leases ?c) i' = Some k" for i' k
    using that leaseD [OF ok, of i' k] jq unfolding l' J inf by (auto split: if_splits)
  have 3: "gget (co_inflight ?c) (jb_key (job ?c k)) = Some k \<and> job_instance ?c k = i' \<and> \<not> jb_started (job ?c k)"
    if "k \<in> set (queued ?c i')" for i' k
    using that queuedD [OF ok, of k i'] sub jq nq unfolding q' J inf by (auto split: if_splits)
  have 4: "gget (co_inflight ?c) (jb_key (job ?c k)) = Some k \<and> \<not> jb_expired (job ?c k)"
    if "k < length (co_jobs ?c)" "jb_future (job ?c k) = None" for k
    using that openD [OF ok, of k] unfolding len J inf by (auto split: if_splits)
  have 5: "distinct (queued ?c i')" for i'
    using queued_distinct [OF ok, of i'] unfolding q' by (cases "i' = i") (simp_all add: queued_def q)
  have 6: "gmap_wf (co_inflight ?c)" "gmap_wf (co_leases ?c)" "gmap_wf (co_queue ?c)"
    using tables_wf [OF ok] by (simp_all add: start_def)
  show ?thesis unfolding co_ok_def using 1 2 3 4 5 6 by blast
qed

lemma co_ok_add:
  assumes ok: "co_ok c" and new: "gget (co_inflight c) key = None"
    and jb: "jb_key jb = key" "in_Instance (jb_intent jb) = i" "jb_future jb = None" "\<not> jb_started jb" "\<not> jb_expired jb"
  shows "co_ok (c\<lparr>co_instanceGeneration := g, co_jobs := co_jobs c @ [jb],
      co_inflight := gput key (length (co_jobs c)) (co_inflight c),
      co_queue := gput i (queued c i @ [length (co_jobs c)]) (co_queue c)\<rparr>)" (is "co_ok ?c")
proof -
  let ?n = "length (co_jobs c)"
  have J: "job ?c k = (if k < ?n then job c k else if k = ?n then jb else job ?c k)" for k
    by (simp add: nth_append)
  have low: "j < ?n" if "gget (co_inflight c) k = Some j" for k j using inflightD [OF ok that] by simp
  have qlow: "j < ?n" if "j \<in> set (queued c i')" for i' j using queuedD [OF ok that] low by blast
  have llow: "j < ?n" if "gget (co_leases c) i' = Some j" for i' j using leaseD [OF ok that] low by blast
  have q': "queued ?c i' = (if i' = i then queued c i @ [?n] else queued c i')" for i'
    by (simp add: queued_def go_simps)
  have inf: "gget (co_inflight ?c) k = (if k = key then Some ?n else gget (co_inflight c) k)" for k by (simp add: go_simps)
  have les: "co_leases ?c = co_leases c" by simp
  have len: "length (co_jobs ?c) = Suc ?n" by simp
  have Jn: "job ?c ?n = jb" and Jl: "\<And>k. k < ?n \<Longrightarrow> job ?c k = job c k" by (simp_all add: nth_append)
  have keys: "jb_key (job c k) \<noteq> key" if "gget (co_inflight c) (jb_key (job c k)) = Some k" for k using that new by auto
  have 1: "k < length (co_jobs ?c) \<and> jb_key (job ?c k) = key' \<and> jb_future (job ?c k) = None
      \<and> (gget (co_leases ?c) (job_instance ?c k) = Some k \<or> k \<in> set (queued ?c (job_instance ?c k)))"
    if "gget (co_inflight ?c) key' = Some k" for key' k
  proof (cases "key' = key")
    case True
    with that inf have "k = ?n" by simp
    with True jb show ?thesis unfolding len Jn q' by (simp add: Jn)
  next
    case False
    with that inf have k: "gget (co_inflight c) key' = Some k" by simp
    show ?thesis unfolding Jl [OF low [OF k]] len q' les using inflightD [OF ok k] by auto
  qed
  have 2: "gget (co_inflight ?c) (jb_key (job ?c k)) = Some k \<and> job_instance ?c k = i' \<and> jb_started (job ?c k)"
    if "gget (co_leases ?c) i' = Some k" for i' k
    using leaseD [OF ok that [unfolded les]] keys [of k] unfolding Jl [OF llow [OF that [unfolded les]]] inf by simp
  have 3: "gget (co_inflight ?c) (jb_key (job ?c k)) = Some k \<and> job_instance ?c k = i' \<and> \<not> jb_started (job ?c k)"
    if "k \<in> set (queued ?c i')" for i' k
  proof (cases "k = ?n")
    case True
    then have "i' = i" using that qlow [of k i'] unfolding q' by (auto split: if_splits)
    with True show ?thesis unfolding True Jn inf using jb by simp
  next
    case False
    then have k: "k \<in> set (queued c i')" using that unfolding q' by (auto split: if_splits)
    show ?thesis using queuedD [OF ok k] keys [of k] unfolding Jl [OF qlow [OF k]] inf by simp
  qed
  have 4: "gget (co_inflight ?c) (jb_key (job ?c k)) = Some k \<and> \<not> jb_expired (job ?c k)"
    if "k < length (co_jobs ?c)" "jb_future (job ?c k) = None" for k
  proof (cases "k = ?n")
    case True
    show ?thesis unfolding True Jn inf using jb by simp
  next
    case False
    then have k: "k < ?n" using that(1) by simp
    show ?thesis using that(2) openD [OF ok k] keys [of k] unfolding Jl [OF k] inf by auto
  qed
  have 5: "distinct (queued ?c i')" for i'
    using queued_distinct [OF ok, of i'] queued_distinct [OF ok, of i] qlow [of ?n i] unfolding q' by auto
  have 6: "gmap_wf (co_inflight ?c)" "gmap_wf (co_leases ?c)" "gmap_wf (co_queue ?c)"
    using tables_wf [OF ok] by simp_all
  show ?thesis unfolding co_ok_def using 1 2 3 4 5 6 by blast
qed

lemma running_leased:
  assumes "co_ok c" and "gget (co_inflight c) (jb_key (job c j)) = Some j" and "jb_started (job c j)"
  shows "gget (co_leases c) (job_instance c j) = Some j" and "j \<notin> set (queued c i)" and "j < length (co_jobs c)"
  using inflightD [OF assms(1,2)] queuedD [OF assms(1)] assms(3) by blast+

lemma co_ok_release:
  assumes ok: "co_ok c" and j: "gget (co_inflight c) (jb_key (job c j)) = Some j" "jb_started (job c j)"
    and len: "length (co_jobs c') = length (co_jobs c)"
    and keep: "\<And>k. k \<noteq> j \<Longrightarrow> sig (job c' k) = sig (job c k)" and gone: "jb_future (job c' j) \<noteq> None"
    and tables: "co_inflight c' = gdel (jb_key (job c j)) (co_inflight c)"
      "co_leases c' = gdel (job_instance c j) (co_leases c)" "co_queue c' = co_queue c"
  shows "co_ok c'"
proof (rule co_ok_leave [OF ok len, where S = "{j}"])
  note r = running_leased [OF ok j]
  show "gget (co_inflight c') k = (case gget (co_inflight c) k of None \<Rightarrow> None | Some j' \<Rightarrow> if j' \<in> {j} then None else Some j')" for k
  proof (cases "gget (co_inflight c) k")
    case (Some j')
    have "jb_key (job c j') = k" using inflightD [OF ok Some] by simp
    with Some j(1) have "k = jb_key (job c j) \<longleftrightarrow> j' = j" by (metis option.inject)
    with Some show ?thesis by (simp add: tables go_simps)
  qed (simp add: tables go_simps)
  show "gget (co_leases c') i = (case gget (co_leases c) i of None \<Rightarrow> None | Some j' \<Rightarrow> if j' \<in> {j} then None else Some j')" for i
  proof (cases "gget (co_leases c) i")
    case (Some j')
    have "job_instance c j' = i" using leaseD [OF ok Some] by simp
    with Some r(1) have "i = job_instance c j \<longleftrightarrow> j' = j" by (metis option.inject)
    with Some show ?thesis by (simp add: tables go_simps)
  qed (simp add: tables go_simps)
  show "queued c' i = filter (\<lambda>k. k \<notin> {j}) (queued c i)" for i
    using r(2) [of i] by (subst filter_True) (auto simp: queued_def tables)
  show "gmap_wf (co_inflight c')" "gmap_wf (co_leases c')" "gmap_wf (co_queue c')"
    using tables_wf [OF ok] unfolding tables by simp_all
  show "sig (job c' k) = sig (job c k)" if "k \<notin> {j}" for k using keep that by simp
  show "jb_future (job c' k) \<noteq> None" if "k \<in> {j}" for k using gone that by simp
qed

lemma tryStart_ok:
  assumes "co_ok c"
  shows "co_ok (tryStart i c)"
proof -
  have del: "co_ok (c\<lparr>co_queue := gdel i (co_queue c)\<rparr>)" if "queued c i = []"
  proof (rule co_ok_leave [OF assms, where S = "{}"])
    show "queued (c\<lparr>co_queue := gdel i (co_queue c)\<rparr>) i' = filter (\<lambda>k. k \<notin> {}) (queued c i')" for i'
      using that by (cases "i' = i") (simp_all add: queued_def go_simps)
  qed (use tables_wf [OF assms] in \<open>auto split: option.splits\<close>)
  show ?thesis
  proof (cases "co_accepting c \<and> gget (co_leases c) i = None")
    case True
    show ?thesis
    proof (cases "gget (co_queue c) i")
      case None
      with True del show ?thesis by (simp add: tryStart_def queued_def)
    next
      case (Some q)
      with True del assms co_ok_start [OF assms, of i] show ?thesis
        by (cases q) (simp_all add: tryStart_def queued_def Let_def)
    qed
  qed (use assms in \<open>auto simp: tryStart_def\<close>)
qed

lemma finishDrains_sel [simp]:
  "co_jobs (finishDrains c) = co_jobs c" "co_inflight (finishDrains c) = co_inflight c"
  "co_leases (finishDrains c) = co_leases c" "co_queue (finishDrains c) = co_queue c"
  "co_accepting (finishDrains c) = co_accepting c" "co_cancelledThrough (finishDrains c) = co_cancelledThrough c"
  "co_completedFence (finishDrains c) = co_completedFence c" "co_stopped (finishDrains c) = co_stopped c"
  by (simp_all add: finishDrains_def)

lemma co_ok_cong:
  assumes "co_ok c" and "co_jobs c' = co_jobs c" "co_inflight c' = co_inflight c" "co_leases c' = co_leases c"
    "co_queue c' = co_queue c"
  shows "co_ok c'"
  using co_ok_frame [OF assms(1)] assms by simp

lemma finishDrains_ok: "co_ok c \<Longrightarrow> co_ok (finishDrains c)"
  by (erule co_ok_cong) simp_all

lemma next_nonce_sel [simp]:
  "co_jobs (next_nonce intent c) = co_jobs c" "co_inflight (next_nonce intent c) = co_inflight c"
  "co_leases (next_nonce intent c) = co_leases c" "co_queue (next_nonce intent c) = co_queue c"
  "co_trace (next_nonce intent c) = co_trace c" "co_accepting (next_nonce intent c) = co_accepting c"
  "co_cancelledThrough (next_nonce intent c) = co_cancelledThrough c" "co_stopped (next_nonce intent c) = co_stopped c"
  "co_completedFence (next_nonce intent c) = co_completedFence c" "co_drains (next_nonce intent c) = co_drains c"
  by (simp_all add: next_nonce_def)

lemma new_job_sel [simp]:
  "jb_key (new_job intent key) = key" "jb_intent (new_job intent key) = intent" "jb_future (new_job intent key) = None"
  "\<not> jb_started (new_job intent key)" "\<not> jb_expired (new_job intent key)"
  by (simp_all add: new_job_def)

lemma add_job_sel [simp]:
  "co_leases (add_job intent key c) = co_leases c" "co_trace (add_job intent key c) = co_trace c"
  "co_accepting (add_job intent key c) = co_accepting c" "co_cancelledThrough (add_job intent key c) = co_cancelledThrough c"
  "co_stopped (add_job intent key c) = co_stopped c" "co_completedFence (add_job intent key c) = co_completedFence c"
  "co_drains (add_job intent key c) = co_drains c" "co_jobs (add_job intent key c) = co_jobs c @ [new_job intent key]"
  "co_inflight (add_job intent key c) = gput key (length (co_jobs c)) (co_inflight c)"
  by (simp_all add: add_job_def Let_def)

lemma submit_cases:
  \<comment> \<open>a submission finds its job in flight, is refused, or adds a job\<close>
  obtains (kept) "snd (handle_submit intent c) = next_nonce intent c"
  | (added) key where "gget (co_inflight c) key = None" "\<not> submit_refused intent (next_nonce intent c)"
      "handle_submit intent c = (Pending (length (co_jobs c)), tryStart (in_Instance intent) (add_job intent key (next_nonce intent c)))"
  by (cases "gget (co_inflight (next_nonce intent c)) (submit_key intent (next_nonce intent c))";
      cases "submit_refused intent (next_nonce intent c)") (auto simp: handle_submit_def Let_def)

lemma submit_ok:
  assumes "co_ok c"
  shows "co_ok (snd (handle_submit intent c))"
proof -
  have ok: "co_ok (next_nonce intent c)" by (rule co_ok_cong [OF assms]) simp_all
  have add: "co_ok (add_job intent key (next_nonce intent c))" if "gget (co_inflight c) key = None" for key
    unfolding add_job_def Let_def queued_def [symmetric] by (rule co_ok_add [OF ok]) (use that in simp_all)
  show ?thesis by (rule submit_cases [of intent c]) (use ok add in \<open>simp_all add: tryStart_ok\<close>)
qed

lemma inherit_sel [simp]:
  assumes "inherit cb j p t c = (err, c')"
  shows "co_jobs c' = co_jobs c" "co_inflight c' = co_inflight c" "co_leases c' = co_leases c"
    "co_queue c' = co_queue c" "co_drains c' = co_drains c" "co_accepting c' = co_accepting c"
    "co_cancelledThrough c' = co_cancelledThrough c" "co_stopped c' = co_stopped c"
    "co_completedFence c' = co_completedFence c"
  using assms by (auto simp: inherit_def split: bool.splits option.splits prod.splits)

lemma inherit_trace:
  assumes "inherit cb j p t c = (err, c')"
  shows "co_trace c' = co_trace c \<or> (\<exists>t. co_trace c' = EInherit j t # co_trace c)"
  using assms by (cases p; cases "cl_InheritSentUnknown cb") (auto simp: inherit_def)

lemma release_sel [simp]:
  "co_jobs (release j c) = co_jobs c" "co_inflight (release j c) = gdel (jb_key (job c j)) (co_inflight c)"
  "co_queue (release j c) = co_queue c" "co_trace (release j c) = co_trace c" "co_accepting (release j c) = co_accepting c"
  "co_drains (release j c) = co_drains c" "co_cancelledThrough (release j c) = co_cancelledThrough c"
  "co_stopped (release j c) = co_stopped c" "co_completedFence (release j c) = co_completedFence c"
  by (simp_all add: release_def)

lemma wget_raise_max [simp]: "i' \<noteq> i \<Longrightarrow> wget (raise_max i v m) i' = wget m i'"
  by (simp add: wget_def raise_max_def go_simps)

lemma release_leases:
  "gget (co_leases c) (job_instance c j) = Some j \<Longrightarrow> co_leases (release j c) = gdel (job_instance c j) (co_leases c)"
  by (simp add: release_def)

fun applied_job :: "effect \<Rightarrow> nat option" where
  "applied_job (EApply j r) = Some j"
| "applied_job _ = None"

definition applied_jobs :: "effect list \<Rightarrow> nat list" where
  "applied_jobs tr = List.map_filter applied_job tr"

lemma applied_jobs_simps [simp]:
  "applied_jobs [] = []" "applied_jobs (EApply j r # tr) = j # applied_jobs tr"
  "applied_jobs (EInherit j t # tr) = applied_jobs tr" "applied_jobs (EStart j # tr) = applied_jobs tr"
  "applied_jobs (ECancel j # tr) = applied_jobs tr" "applied_jobs (EDispatchLogs j r # tr) = applied_jobs tr"
  "applied_jobs (EEnqueueResult j r # tr) = applied_jobs tr" "applied_jobs (EDrained d # tr) = applied_jobs tr"
  "applied_jobs (tr @ tr') = applied_jobs tr @ applied_jobs tr'"
  by (simp_all add: applied_jobs_def List.map_filter_def)

definition settle_trace :: "nat \<Rightarrow> coordinatorJob \<Rightarrow> effect list \<Rightarrow> bool" where
  "settle_trace j b pre \<longleftrightarrow> (applied_jobs pre = []
     \<or> applied_jobs pre = [j] \<and> \<not> jb_expired b \<and> \<not> jb_invalidated b
         \<and> (\<forall>k r. EApply k r \<in> set pre \<longrightarrow> op_Token r = in_Token (jb_intent b)))"

definition settled :: "nat \<Rightarrow> Coordinator \<Rightarrow> Coordinator \<Rightarrow> bool" where
  \<comment> \<open>\<open>c'\<close> is \<open>c\<close> after the running job \<open>j\<close> was released and completed, up to what the tables do not show\<close>
  "settled j c c' \<longleftrightarrow> length (co_jobs c') = length (co_jobs c) \<and> (\<forall>k. k \<noteq> j \<longrightarrow> job c' k = job c k)
     \<and> jb_future (job c' j) \<noteq> None \<and> jb_intent (job c' j) = jb_intent (job c j) \<and> jb_key (job c' j) = jb_key (job c j)
     \<and> jb_started (job c' j) = jb_started (job c j)
     \<and> co_inflight c' = gdel (jb_key (job c j)) (co_inflight c) \<and> co_leases c' = gdel (job_instance c j) (co_leases c)
     \<and> co_queue c' = co_queue c \<and> co_accepting c' = co_accepting c \<and> co_cancelledThrough c' = co_cancelledThrough c
     \<and> co_stopped c' = co_stopped c
     \<and> (\<forall>i. i \<noteq> job_instance c j \<longrightarrow> wget (co_completedFence c') i = wget (co_completedFence c) i)
     \<and> (\<exists>pre. co_trace c' = pre @ co_trace c \<and> settle_trace j (job c' j) pre)"

lemma settled_ok:
  assumes "co_ok c" and "gget (co_inflight c) (jb_key (job c j)) = Some j" "jb_started (job c j)" and "settled j c c'"
  shows "co_ok c'"
  using assms(4) unfolding settled_def by (intro co_ok_release [OF assms(1-3)]) (auto simp: sig_def)

lemma expire_settles:
  assumes ok: "co_ok c" and run: "running c j"
    and True: "gget (co_inflight c) (jb_key (job c j)) = Some j \<and> \<not> jb_expired (job c j)"
  shows "\<exists>c1. settled j c c1 \<and> handle_expire cb j c = finishDrains (tryStart (job_instance c j) c1)"
proof -
  have st: "jb_started (job c j)" "j < length (co_jobs c)" using run by (simp_all add: running_def)
  note l = running_leased [OF ok conjunct1 [OF True] st(1)]
  let ?c = "upd_job j (\<lambda>b. b\<lparr>jb_expired := True, jb_cancelled := jb_cancelled b \<or> jb_started b\<rparr>) c"
  obtain err c2 where inh: "inherit cb j (jb_probeSent (job c j)) (jb_suppressUntil (job c j)) (release j ?c) = (err, c2)"
    by (rule prod.exhaust)
  note s = inherit_sel [OF inh]
  have tr: "\<exists>pre. co_trace c2 = pre @ co_trace c \<and> settle_trace j b pre" for b
    using inherit_trace [OF inh] by (auto simp: settle_trace_def)
  have rl: "co_leases (release j ?c) = gdel (job_instance c j) (co_leases c)"
    using release_leases [of ?c j] l by simp
  show ?thesis
    unfolding handle_expire_def Let_def inh using True st tr
    by (intro conjI exI) (simp_all add: settled_def s rl)
qed

lemma expire_cases:
  assumes "co_ok c" and "running c j"
  shows "handle_expire cb j c = c \<or> gget (co_inflight c) (jb_key (job c j)) = Some j
    \<and> (\<exists>c1. settled j c c1 \<and> handle_expire cb j c = finishDrains (tryStart (job_instance c j) c1))"
proof (cases "gget (co_inflight c) (jb_key (job c j)) = Some j \<and> \<not> jb_expired (job c j)")
  case True
  with expire_settles [OF assms True] show ?thesis by blast
qed (auto simp: handle_expire_def)

lemma expire_ok: "co_ok c \<Longrightarrow> running c j \<Longrightarrow> co_ok (handle_expire cb j c)"
  using expire_cases [of c j cb] settled_ok finishDrains_ok tryStart_ok unfolding running_def by metis

lemma finish_valid_sel:
  assumes "finish_valid j r c = (r', c')"
  shows "co_jobs c' = co_jobs c" "co_inflight c' = co_inflight c" "co_leases c' = co_leases c" "co_queue c' = co_queue c"
    "co_accepting c' = co_accepting c" "co_cancelledThrough c' = co_cancelledThrough c" "co_stopped c' = co_stopped c"
    "co_trace c' = co_trace c" "i \<noteq> job_instance c j \<Longrightarrow> wget (co_completedFence c') i = wget (co_completedFence c) i"
  using assms by (auto simp: finish_valid_def)

lemma finish_invalid_sel:
  assumes "finish_invalid cb j r c = (r', c')"
  shows "co_jobs c' = co_jobs c" "co_inflight c' = co_inflight c" "co_leases c' = co_leases c" "co_queue c' = co_queue c"
    "co_accepting c' = co_accepting c" "co_cancelledThrough c' = co_cancelledThrough c" "co_stopped c' = co_stopped c"
    "co_trace c' = co_trace c \<or> (\<exists>t. co_trace c' = EInherit j t # co_trace c)"
    "i \<noteq> job_instance c j \<Longrightarrow> wget (co_completedFence c') i = wget (co_completedFence c) i"
proof -
  let ?r = "r\<lparr>op_Disposition := ResultDiscardedStale\<rparr>" and ?i = "jb_intent (job c j)"
  obtain err c2 where inh: "inherit cb j (op_ProbeSendPhase ?r) (op_SuppressUntil ?r)
      (c\<lparr>co_completedFence := raise_max (in_Instance ?i) (et_Fence (in_Token ?i)) (co_completedFence c)\<rparr>) = (err, c2)"
    by (rule prod.exhaust)
  note s = inherit_sel [OF inh] inherit_trace [OF inh]
  obtain D where c': "c' = c2\<lparr>co_drains := D\<rparr>"
    using assms unfolding finish_invalid_def Let_def inh by auto
  from s show "co_jobs c' = co_jobs c" "co_inflight c' = co_inflight c" "co_leases c' = co_leases c" "co_queue c' = co_queue c"
    "co_accepting c' = co_accepting c" "co_cancelledThrough c' = co_cancelledThrough c" "co_stopped c' = co_stopped c"
    "co_trace c' = co_trace c \<or> (\<exists>t. co_trace c' = EInherit j t # co_trace c)"
    "i \<noteq> job_instance c j \<Longrightarrow> wget (co_completedFence c') i = wget (co_completedFence c) i"
    by (simp_all add: c')
qed

lemma finish_sel:
  assumes "(if v then finish_valid j r c else finish_invalid cb j r c) = (r', c')"
  shows "co_jobs c' = co_jobs c" "co_inflight c' = co_inflight c" "co_leases c' = co_leases c" "co_queue c' = co_queue c"
    "co_accepting c' = co_accepting c" "co_cancelledThrough c' = co_cancelledThrough c" "co_stopped c' = co_stopped c"
    "co_trace c' = co_trace c \<or> (\<exists>t. co_trace c' = EInherit j t # co_trace c)"
    "i \<noteq> job_instance c j \<Longrightarrow> wget (co_completedFence c') i = wget (co_completedFence c) i"
proof -
  have "finish_valid j r c = (r', c') \<or> finish_invalid cb j r c = (r', c')" using assms by (cases v) simp_all
  then show "co_jobs c' = co_jobs c" "co_inflight c' = co_inflight c" "co_leases c' = co_leases c" "co_queue c' = co_queue c"
    "co_accepting c' = co_accepting c" "co_cancelledThrough c' = co_cancelledThrough c" "co_stopped c' = co_stopped c"
    "co_trace c' = co_trace c \<or> (\<exists>t. co_trace c' = EInherit j t # co_trace c)"
    "i \<noteq> job_instance c j \<Longrightarrow> wget (co_completedFence c') i = wget (co_completedFence c) i"
    using finish_valid_sel finish_invalid_sel by metis+
qed

lemma with_held_token [simp]: "op_Token (with_held b r) = op_Token r"
  by (simp add: with_held_def Let_def)

lemma apply_result_state:
  assumes "apply_result cb j valid r c = (valid', r', c')"
  shows "c' = c \<or> valid \<and> c' = emit (EApply j r) c"
proof (cases "valid \<and> cl_Apply cb \<noteq> None")
  case True
  then obtain f where f: "cl_Apply cb = Some f" by blast
  with True assms show ?thesis by (cases "f (jb_intent (job c j)) r") (simp_all add: apply_result_def, blast+)
next
  case False
  with assms show ?thesis by (cases valid) (simp_all add: apply_result_def)
qed

lemma apply_result_sel:
  assumes "apply_result cb j valid r c = (valid', r', c')"
  shows "co_jobs c' = co_jobs c" "co_inflight c' = co_inflight c" "co_leases c' = co_leases c" "co_queue c' = co_queue c"
    "co_accepting c' = co_accepting c" "co_cancelledThrough c' = co_cancelledThrough c" "co_stopped c' = co_stopped c"
    "co_completedFence c' = co_completedFence c"
    "co_trace c' = co_trace c \<or> valid \<and> co_trace c' = EApply j r # co_trace c"
  using apply_result_state [OF assms] by auto

lemma result_cases:
  assumes ok: "co_ok c" and run: "running c j"
  shows "handle_result cb j r c = c \<or> (\<exists>r'. handle_result cb j r c = emit (EDispatchLogs j r') c)
    \<or> gget (co_inflight c) (jb_key (job c j)) = Some j
      \<and> (\<exists>c1. settled j c c1 \<and> handle_result cb j r c = finishDrains (tryStart (job_instance c j) c1))"
proof (cases "gget (co_inflight c) (jb_key (job c j)) = Some j")
  case True
  have st: "jb_started (job c j)" "j < length (co_jobs c)" using run by (simp_all add: running_def)
  note l = running_leased [OF ok True st(1)]
  define r1 where "r1 = with_held (job c j) r"
  define valid where "valid = result_valid cb (job c j) r1"
  show ?thesis
  proof (cases "valid \<and> cl_DispatchLogs cb \<and> has_host_logs r1")
    case True
    then have "handle_result cb j r c = emit (EDispatchLogs j r1) c"
      using \<open>gget (co_inflight c) (jb_key (job c j)) = Some j\<close> unfolding handle_result_def Let_def valid_def r1_def by simp
    then show ?thesis by blast
  next
    case False
    obtain valid2 r2 c2 where out: "apply_result cb j valid r1 (release j c) = (valid2, r2, c2)" by (rule prod_cases3)
    obtain r3 c3 where fin: "(if valid2 then finish_valid j r2 c2 else finish_invalid cb j r2 c2) = (r3, c3)"
      by (rule prod.exhaust)
    note c2 = apply_result_sel [OF out]
    note c3 = finish_sel [OF fin]
    define c5 where "c5 = (upd_job j (completeFuture r3) c3)\<lparr>co_drains :=
      map (\<lambda>d. d\<lparr>dr_Completed := dr_Completed d + 1\<rparr>) (co_drains (upd_job j (completeFuture r3) c3))\<rparr>"
    have eq: "handle_result cb j r c = finishDrains (tryStart (job_instance c j) c5)"
      using True False fin
      unfolding handle_result_def Let_def valid_def [symmetric] r1_def [symmetric] out c5_def by (simp, blast)
    have valid: "\<not> jb_expired (job c j)" "\<not> jb_invalidated (job c j)" "op_Token r1 = in_Token (jb_intent (job c j))" if valid
      using that by (auto simp: valid_def result_valid_def)
    note c2s = c2(1-8) [unfolded release_sel release_leases [OF l(1)]] and tr2 = c2(9) [unfolded release_sel]
    have J: "job c5 j = completeFuture r3 (job c j)" using st c3(1) c2s(1) by (simp add: c5_def)
    have "\<exists>pre. co_trace c5 = pre @ co_trace c \<and> settle_trace j (job c5 j) pre"
      using tr2 c3(8) valid unfolding J settle_trace_def by (elim disjE exE conjE) (simp_all add: c5_def)
    then have "settled j c c5" using J st unfolding settled_def by (simp add: c5_def c3(1-7,9) c2s)
    with eq True show ?thesis by blast
  qed
qed (simp add: handle_result_def)

lemma result_ok:
  assumes "co_ok c" and "running c j"
  shows "co_ok (handle_result cb j r c)"
  using result_cases [OF assms, of cb r]
proof (elim disjE exE conjE)
  fix r' assume "handle_result cb j r c = emit (EDispatchLogs j r') c"
  with co_ok_cong [OF assms(1)] show ?thesis by simp
next
  fix c1 assume "gget (co_inflight c) (jb_key (job c j)) = Some j" "settled j c c1"
    "handle_result cb j r c = finishDrains (tryStart (job_instance c j) c1)"
  with assms settled_ok show ?thesis by (auto simp: running_def intro!: finishDrains_ok tryStart_ok)
qed (use assms in simp)

section \<open>Cancelling and draining\<close>

lemma drop_inflight_sel [simp]:
  "co_jobs (drop_inflight j c) = co_jobs c" "co_leases (drop_inflight j c) = co_leases c"
  "co_queue (drop_inflight j c) = co_queue c" "co_trace (drop_inflight j c) = co_trace c"
  "co_accepting (drop_inflight j c) = co_accepting c" "co_cancelledThrough (drop_inflight j c) = co_cancelledThrough c"
  "co_stopped (drop_inflight j c) = co_stopped c" "co_drains (drop_inflight j c) = co_drains c"
  "gget (co_inflight (drop_inflight j c)) k =
     (if gget (co_inflight c) k = Some j \<and> jb_key (job c j) = k then None else gget (co_inflight c) k)"
  "gmap_wf (co_inflight c) \<Longrightarrow> gmap_wf (co_inflight (drop_inflight j c))"
  by (auto simp: drop_inflight_def go_simps)

definition withdraw :: "(coordinatorJob \<Rightarrow> coordinatorJob) \<Rightarrow> nat \<Rightarrow> Coordinator \<Rightarrow> Coordinator" where
  "withdraw F j c = upd_job j F (drop_inflight j c)"

lemma fold_withdraw_frame [simp]:
  "length (co_jobs (fold (withdraw F) js c)) = length (co_jobs c)" "co_leases (fold (withdraw F) js c) = co_leases c"
  "co_queue (fold (withdraw F) js c) = co_queue c" "co_trace (fold (withdraw F) js c) = co_trace c"
  "co_accepting (fold (withdraw F) js c) = co_accepting c" "co_stopped (fold (withdraw F) js c) = co_stopped c"
  "co_cancelledThrough (fold (withdraw F) js c) = co_cancelledThrough c" "co_drains (fold (withdraw F) js c) = co_drains c"
  "gmap_wf (co_inflight c) \<Longrightarrow> gmap_wf (co_inflight (fold (withdraw F) js c))"
  by (induction js arbitrary: c) (simp_all add: withdraw_def)

lemma fold_withdraw_jobs:
  assumes "distinct js" and "\<And>b. jb_key (F b) = jb_key b"
  shows "job (fold (withdraw F) js c) k = (if k \<in> set js \<and> k < length (co_jobs c) then F (job c k) else job c k)"
    and "gget (co_inflight (fold (withdraw F) js c)) key =
      (case gget (co_inflight c) key of None \<Rightarrow> None
       | Some j \<Rightarrow> if j \<in> set js \<and> jb_key (job c j) = key then None else Some j)"
proof -
  show "job (fold (withdraw F) js c) k = (if k \<in> set js \<and> k < length (co_jobs c) then F (job c k) else job c k)"
    using assms(1) by (induction js arbitrary: c) (auto simp: withdraw_def)
  have keys: "jb_key (job (withdraw F j c) k) = jb_key (job c k)" for j c k
    using assms(2) by (simp add: withdraw_def)
  show "gget (co_inflight (fold (withdraw F) js c)) key =
      (case gget (co_inflight c) key of None \<Rightarrow> None
       | Some j \<Rightarrow> if j \<in> set js \<and> jb_key (job c j) = key then None else Some j)"
  proof (induction js arbitrary: c)
    case (Cons j js)
    show ?case using Cons.IH [of "withdraw F j c"] unfolding keys
      by (auto simp: withdraw_def split: option.splits if_splits)
  qed (simp split: option.split)
qed

lemma co_ok_withdraw:
  \<comment> \<open>a set of queues is emptied\<close>
  assumes ok: "co_ok c" and js: "distinct js" "\<And>i. set (queued c i) \<subseteq> set js \<or> set (queued c i) \<inter> set js = {}"
    and in_q: "\<And>j. j \<in> set js \<Longrightarrow> \<exists>i. j \<in> set (queued c i)"
    and F: "\<And>b. jb_key (F b) = jb_key b" "\<And>b. jb_future (F b) \<noteq> None"
    and que: "\<And>i. (case gget Q i of None \<Rightarrow> [] | Some q \<Rightarrow> q) = (if set (queued c i) \<inter> set js = {} then queued c i else [])"
      "gmap_wf Q"
  shows "co_ok ((fold (withdraw F) js c)\<lparr>co_queue := Q\<rparr>)" (is "co_ok ?c")
proof (rule co_ok_leave [OF ok, where S = "set js"])
  note J = fold_withdraw_jobs [of js F, OF js(1) F(1)]
  have low: "j < length (co_jobs c)" if "j \<in> set js" for j
    using in_q [OF that] queuedD [OF ok] inflightD [OF ok] by blast
  show "sig (job ?c j) = sig (job c j)" if "j \<notin> set js" for j using that by (simp add: J)
  show "jb_future (job ?c j) \<noteq> None" if "j \<in> set js" for j using that F(2) low by (simp add: J)
  show "gget (co_inflight ?c) k = (case gget (co_inflight c) k of None \<Rightarrow> None | Some j \<Rightarrow> if j \<in> set js then None else Some j)" for k
  proof (cases "gget (co_inflight c) k")
    case (Some j)
    then have "jb_key (job c j) = k" using inflightD [OF ok] by blast
    with Some show ?thesis by (simp add: J)
  qed (simp add: J)
  show "gget (co_leases ?c) i = (case gget (co_leases c) i of None \<Rightarrow> None | Some j \<Rightarrow> if j \<in> set js then None else Some j)" for i
  proof (cases "gget (co_leases c) i")
    case (Some j)
    then have "jb_started (job c j)" using leaseD [OF ok] by blast
    then have "j \<notin> set js" using in_q queuedD [OF ok] by blast
    with Some show ?thesis by simp
  qed simp
  show "queued ?c i = filter (\<lambda>j. j \<notin> set js) (queued c i)" for i
  proof (cases "set (queued c i) \<inter> set js = {}")
    case True
    then have "filter (\<lambda>j. j \<notin> set js) (queued c i) = queued c i" by (subst filter_True) auto
    with True que(1) [of i] show ?thesis by (simp add: queued_def)
  next
    case False
    with js(2) [of i] have "filter (\<lambda>j. j \<notin> set js) (queued c i) = []" by (auto simp: filter_empty_conv)
    with False que(1) [of i] show ?thesis by (simp add: queued_def)
  qed
qed (use tables_wf [OF ok] que(2) in simp_all)

lemma cancel_queued_withdraw:
  "cancel_queued = withdraw (\<lambda>b. completeFuture (cancelled_result b) (b\<lparr>jb_invalidated := True\<rparr>))"
  by (simp add: fun_eq_iff cancel_queued_def withdraw_def)

lemma drain_queued_withdraw: "drain_queued = withdraw (\<lambda>b. completeFuture (cancelled_result b) b)"
  by (simp add: fun_eq_iff drain_queued_def withdraw_def)

section \<open>What a step may not do\<close>

definition done_eq :: "coordinatorJob \<Rightarrow> coordinatorJob \<Rightarrow> bool" where
  "done_eq b b' \<longleftrightarrow> jb_future b' = jb_future b \<and> jb_expired b' = jb_expired b \<and> jb_invalidated b' = jb_invalidated b"

definition grows :: "Coordinator \<Rightarrow> Coordinator \<Rightarrow> bool" where
  \<comment> \<open>no job is dropped or renamed, and completed jobs stay as they are\<close>
  "grows c c' \<longleftrightarrow> length (co_jobs c) \<le> length (co_jobs c')
     \<and> (\<forall>j < length (co_jobs c). in_Token (jb_intent (job c' j)) = in_Token (jb_intent (job c j))
          \<and> job_instance c' j = job_instance c j
          \<and> (jb_future (job c j) \<noteq> None \<longrightarrow> done_eq (job c j) (job c' j)))"

definition quiet :: "Coordinator \<Rightarrow> Coordinator \<Rightarrow> bool" where
  \<comment> \<open>\<open>grows\<close>, and no result is applied\<close>
  "quiet c c' \<longleftrightarrow> grows c c' \<and> (\<exists>pre. co_trace c' = pre @ co_trace c \<and> applied_jobs pre = [])"

lemma quiet_refl [simp]: "quiet c c"
  by (simp add: quiet_def grows_def done_eq_def)

lemma grows_trans: "grows c c' \<Longrightarrow> grows c' c'' \<Longrightarrow> grows c c''"
  unfolding grows_def done_eq_def by (auto dest!: spec split: option.splits)

lemma quiet_trans:
  assumes "quiet c c'" and "quiet c' c''"
  shows "quiet c c''"
proof -
  from assms obtain pre pre' where "co_trace c' = pre @ co_trace c" "applied_jobs pre = []"
    "co_trace c'' = pre' @ co_trace c'" "applied_jobs pre' = []" by (auto simp: quiet_def)
  then have "co_trace c'' = (pre' @ pre) @ co_trace c \<and> applied_jobs (pre' @ pre) = []" by simp
  with assms show ?thesis unfolding quiet_def by (blast intro: grows_trans)
qed

lemma quietI:
  assumes "length (co_jobs c') = length (co_jobs c)" and "co_trace c' = pre @ co_trace c" "applied_jobs pre = []"
    and "\<And>j. j < length (co_jobs c) \<Longrightarrow> jb_intent (job c' j) = jb_intent (job c j)
        \<and> (jb_future (job c j) \<noteq> None \<longrightarrow> done_eq (job c j) (job c' j))"
  shows "quiet c c'"
  using assms unfolding quiet_def grows_def by auto

lemma quiet_cong: "co_jobs c' = co_jobs c \<Longrightarrow> co_trace c' = co_trace c \<Longrightarrow> quiet c c'"
  by (rule quietI [where pre = "[]"]) (simp_all add: done_eq_def)

lemma quiet_start: "quiet c (start j (c\<lparr>co_queue := q\<rparr>))"
  by (rule quietI [where pre = "[EStart j]"]) (simp_all add: start_def done_eq_def)

lemma quiet_tryStart: "quiet c (tryStart i c)"
  unfolding tryStart_def Let_def
  by (auto split: option.split list.split intro: quiet_cong quiet_start)

lemma applied_drained [simp]: "applied_jobs (map EDrained ds) = []"
  by (induction ds) simp_all

lemma quiet_finishDrains: "quiet c (finishDrains c)"
  by (rule quietI [where pre = "if co_inflight c \<noteq> [] then [] else map EDrained (rev (co_drains c))"])
    (simp_all add: finishDrains_def done_eq_def rev_map)

lemma quiet_add: "quiet c (add_job intent key c)"
  by (simp add: quiet_def grows_def nth_append done_eq_def)

lemma quiet_submit: "quiet c (snd (handle_submit intent c))"
proof -
  have n: "quiet c (next_nonce intent c)" by (rule quiet_cong) simp_all
  show ?thesis
    by (rule submit_cases [of intent c]) (use n quiet_trans [OF n quiet_trans [OF quiet_add quiet_tryStart]] in simp_all)
qed

lemma quiet_withdraw:
  assumes "distinct js" and "\<And>b. jb_key (F b) = jb_key b" "\<And>b. jb_intent (F b) = jb_intent b"
    and "\<And>j. j \<in> set js \<Longrightarrow> jb_future (job c j) = None"
  shows "quiet c (fold (withdraw F) js c)"
  by (rule quietI [where pre = "[]"]) (use assms in \<open>auto simp: fold_withdraw_jobs done_eq_def\<close>)

section \<open>Cancelling an instance\<close>

definition others_eq :: "AuthInstanceID set \<Rightarrow> Coordinator \<Rightarrow> Coordinator \<Rightarrow> bool" where
  \<comment> \<open>instances outside \<open>I\<close> keep their lease, their queue and the classes of their queued jobs\<close>
  "others_eq I c c' \<longleftrightarrow> (\<forall>i. i \<notin> I \<longrightarrow> gget (co_leases c') i = gget (co_leases c) i \<and> queued c' i = queued c i
       \<and> (gget (co_cancelledThrough c') i = None \<longleftrightarrow> gget (co_cancelledThrough c) i = None))
     \<and> (\<forall>i. i \<notin> I \<longrightarrow> wget (co_completedFence c') i = wget (co_completedFence c) i)
     \<and> co_accepting c' = co_accepting c \<and> co_stopped c' = co_stopped c
     \<and> (\<forall>j < length (co_jobs c). jb_intent (job c' j) = jb_intent (job c j))"

lemma fold_withdraw_fence [simp]: "co_completedFence (fold (withdraw F) js c) = co_completedFence c"
  by (induction js arbitrary: c) (simp_all add: withdraw_def drop_inflight_def)

lemma cancel_leased_tables [simp]:
  "length (co_jobs (cancel_leased j c)) = length (co_jobs c)" "co_inflight (cancel_leased j c) = gdel (jb_key (job c j)) (co_inflight c)"
  "co_queue (cancel_leased j c) = co_queue c" "co_accepting (cancel_leased j c) = co_accepting c"
  "co_cancelledThrough (cancel_leased j c) = co_cancelledThrough c" "co_stopped (cancel_leased j c) = co_stopped c"
  "co_completedFence (cancel_leased j c) = co_completedFence c"
  by (simp_all add: cancel_leased_def Let_def)

lemma cancel_leased_trace [simp]:
  "co_trace (cancel_leased j c) = (if jb_started (job c j) then [ECancel j] else []) @ co_trace c"
  by (simp add: cancel_leased_def Let_def)

lemma cancel_leased_jobs: "co_jobs (cancel_leased j c) = co_jobs (upd_job j cancel_running c)"
  by (simp add: cancel_leased_def Let_def upd_job_def)

lemma cancel_leased_job [simp]:
  "job (cancel_leased j c) k = (if k = j \<and> j < length (co_jobs c) then cancel_running (job c j) else job c k)"
  unfolding cancel_leased_jobs by (rule job_upd)

lemma cancel_running_sel [simp]:
  "jb_key (cancel_running b) = jb_key b" "jb_intent (cancel_running b) = jb_intent b"
  "jb_started (cancel_running b) = jb_started b" "jb_future (cancel_running b) \<noteq> None"
  by (simp_all add: cancel_running_def)

lemma cancel_queue_ok:
  fixes i i' :: AuthInstanceID
  assumes ok: "co_ok c"
    and F: "\<And>b. jb_key (F b) = jb_key b" "\<And>b. jb_future (F b) \<noteq> None" "\<And>b. jb_intent (F b) = jb_intent b"
  defines "c' \<equiv> (fold (withdraw F) (queued c i) c)\<lparr>co_queue := gdel i (co_queue c)\<rparr>"
  shows "co_ok c'" and "quiet c c'" and "queued c' i = []" and "i' \<noteq> i \<Longrightarrow> queued c' i' = queued c i'"
proof -
  have disj: "set (queued c i') \<inter> set (queued c i) = {}" if "i' \<noteq> i" for i' using queuedD [OF ok] that by blast
  show "co_ok c'"
    unfolding c'_def
  proof (rule co_ok_withdraw [OF ok queued_distinct [OF ok]])
    show "set (queued c i') \<subseteq> set (queued c i) \<or> set (queued c i') \<inter> set (queued c i) = {}" for i'
      using disj by (cases "i' = i") auto
    show "\<exists>i. j \<in> set (queued c i)" if "j \<in> set (queued c i)" for j using that by blast
    show "(case gget (gdel i (co_queue c)) i' of None \<Rightarrow> [] | Some q \<Rightarrow> q) =
        (if set (queued c i') \<inter> set (queued c i) = {} then queued c i' else [])" for i'
      using disj [of i'] by (cases "i' = i") (simp_all add: gget_gdel flip: queued_def)
  qed (use F tables_wf [OF ok] in simp_all)
  have "jb_future (job c j) = None" if "j \<in> set (queued c i)" for j
    using queuedD [OF ok that] inflightD [OF ok] by blast
  then have "quiet c (fold (withdraw F) (queued c i) c)"
    by (rule quiet_withdraw [OF queued_distinct [OF ok] F(1) F(3)])
  moreover have "quiet (fold (withdraw F) (queued c i) c) c'" by (rule quiet_cong) (simp_all add: c'_def)
  ultimately show "quiet c c'" by (rule quiet_trans)
  show "queued c' i = []" by (simp add: c'_def queued_def go_simps)
  show "i' \<noteq> i \<Longrightarrow> queued c' i' = queued c i'" by (simp add: c'_def queued_def go_simps)
qed

lemma cancel_lease_ok:
  assumes ok: "co_ok c" and l: "gget (co_leases c) i = Some j"
  shows "co_ok ((cancel_leased j c)\<lparr>co_leases := gdel i (co_leases c)\<rparr>)"
    and "quiet c ((cancel_leased j c)\<lparr>co_leases := gdel i (co_leases c)\<rparr>)"
proof -
  note j = leaseD [OF ok l]
  have lt: "j < length (co_jobs c)" "jb_future (job c j) = None" using j inflightD [OF ok] by blast+
  show "co_ok ((cancel_leased j c)\<lparr>co_leases := gdel i (co_leases c)\<rparr>)"
    using j lt by (intro co_ok_release [OF ok, where j = j]) simp_all
  show "quiet c ((cancel_leased j c)\<lparr>co_leases := gdel i (co_leases c)\<rparr>)"
    using lt by (intro quietI [where pre = "if jb_started (job c j) then [ECancel j] else []"]) (simp_all add: done_eq_def)
qed

lemma cancel_instance_ok:
  assumes ok: "co_ok c"
  shows "co_ok (cancel_instance i c)" and "quiet c (cancel_instance i c)"
    and "gget (co_leases (cancel_instance i c)) i = None" and "queued (cancel_instance i c) i = []"
    and "gget (co_cancelledThrough (cancel_instance i c)) i \<noteq> None" and "others_eq {i} c (cancel_instance i c)"
proof -
  define c1 where "c1 = mark_cancelled i c"
  define F where "F = (\<lambda>b. completeFuture (cancelled_result b) (b\<lparr>jb_invalidated := True\<rparr>))"
  define c3 where "c3 = (fold (withdraw F) (queued c1 i) c1)\<lparr>co_queue := gdel i (co_queue c1)\<rparr>"
  define c4 where "c4 = cancel_lease i c3"
  have eq: "cancel_instance i c = c4"
    by (simp add: cancel_instance_def c4_def c3_def c1_def cancel_queue_def cancel_queued_withdraw F_def queued_def)
  have ok1: "co_ok c1" using co_ok_cong [OF ok, of c1] by (simp add: c1_def mark_cancelled_def)
  have q1: "quiet c c1" by (rule quiet_cong) (simp_all add: c1_def mark_cancelled_def)
  have F: "\<And>b. jb_key (F b) = jb_key b" "\<And>b. jb_future (F b) \<noteq> None" "\<And>b. jb_intent (F b) = jb_intent b" by (simp_all add: F_def)
  note w = cancel_queue_ok [where F = F and i = i, OF ok1 F, folded c3_def]
  note J3 = fold_withdraw_jobs(1) [of _ F, OF queued_distinct [OF ok1] F(1)]
  have c3: "co_leases c3 = co_leases c" "co_cancelledThrough c3 = gput i (wget (co_instanceGeneration c) i) (co_cancelledThrough c)"
    "co_completedFence c3 = co_completedFence c" "co_accepting c3 = co_accepting c" "co_stopped c3 = co_stopped c"
    "length (co_jobs c3) = length (co_jobs c)"
    by (simp_all add: c3_def) (simp_all add: c1_def mark_cancelled_def)
  have i3: "jb_intent (job c3 j) = jb_intent (job c j)" for j using F(3) by (simp add: c3_def J3) (simp add: c1_def mark_cancelled_def)
  have q3: "queued c3 i' = (if i' = i then [] else queued c i')" for i'
    using w(3) w(4) [of i'] by (simp add: c1_def mark_cancelled_def queued_def)
  have c4: "co_ok c4" "quiet c3 c4" "co_queue c4 = co_queue c3" "co_cancelledThrough c4 = co_cancelledThrough c3"
    "co_completedFence c4 = co_completedFence c3" "co_accepting c4 = co_accepting c3" "co_stopped c4 = co_stopped c3"
    "gget (co_leases c4) i' = (if i' = i then None else gget (co_leases c3) i')"
    "jb_intent (job c4 j) = jb_intent (job c3 j)" for i' j
    using w(1) cancel_lease_ok [OF w(1), of i]
    by (cases "gget (co_leases c3) i"; simp add: c4_def cancel_lease_def go_simps)+
  show "co_ok (cancel_instance i c)" unfolding eq by (rule c4(1))
  show "quiet c (cancel_instance i c)" unfolding eq by (rule quiet_trans [OF q1 quiet_trans [OF w(2) c4(2)]])
  show "gget (co_leases (cancel_instance i c)) i = None" "queued (cancel_instance i c) i = []"
    "gget (co_cancelledThrough (cancel_instance i c)) i \<noteq> None"
    unfolding eq by (simp_all add: c4 c3 go_simps queued_def) (use q3 [of i] in \<open>simp add: queued_def\<close>)
  have "queued c4 i' = queued c3 i'" for i' by (simp add: queued_def c4)
  then show "others_eq {i} c (cancel_instance i c)"
    unfolding others_eq_def eq by (simp add: c4 c3 i3 q3 go_simps)
qed

section \<open>Draining and stopping\<close>

lemma queue_entry: "co_ok c \<Longrightarrow> (i, q) \<in> set (co_queue c) \<Longrightarrow> queued c i = q"
  using tables_wf(3) [of c] by (simp add: gget_in_set queued_def)

lemma distinct_all_queued:
  assumes "co_ok c"
  shows "distinct (concat (map snd (co_queue c)))"
proof -
  have "distinct (concat (map snd xs))" if "set xs \<subseteq> set (co_queue c)" "distinct (map fst xs)" for xs
    using that
  proof (induction xs)
    case (Cons x xs)
    obtain i q where x: "x = (i, q)" by (cases x)
    have q: "queued c i = q" using Cons.prems(1) x queue_entry [OF assms] by auto
    have "set q \<inter> set q' = {}" if "(i', q') \<in> set xs" for i' q'
    proof -
      have "queued c i' = q'" "i' \<noteq> i" using that Cons.prems x queue_entry [OF assms] by force+
      then show ?thesis using q queuedD [OF assms] by blast
    qed
    with Cons x q queued_distinct [OF assms, of i] show ?case by fastforce
  qed simp
  from this [of "co_queue c"] tables_wf(3) [OF assms] show ?thesis by (simp add: gmap_wf_def)
qed

lemma drain_queue_ok:
  assumes ok: "co_ok c"
  defines "c' \<equiv> (fold drain_queued (concat (map snd (co_queue c))) c)\<lparr>co_queue := []\<rparr>"
  shows "co_ok c'" and "quiet c c'" and "queued c' i = []" and "co_accepting c' = co_accepting c" "co_leases c' = co_leases c"
    "co_cancelledThrough c' = co_cancelledThrough c" "co_stopped c' = co_stopped c" "co_drains c' = co_drains c"
proof -
  let ?js = "concat (map snd (co_queue c))" and ?F = "\<lambda>b. completeFuture (cancelled_result b) b"
  have sub: "set (queued c i) \<subseteq> set ?js" for i
    by (cases "gget (co_queue c) i") (auto simp: queued_def dest: map_of_SomeD)
  have js: "\<exists>i. j \<in> set (queued c i)" if "j \<in> set ?js" for j
  proof -
    from that obtain i q where "(i, q) \<in> set (co_queue c)" "j \<in> set q" by auto
    with queue_entry [OF ok] show ?thesis by blast
  qed
  show "co_ok c'"
    unfolding c'_def drain_queued_withdraw
    by (rule co_ok_withdraw [OF ok distinct_all_queued [OF ok]]) (use sub js in \<open>auto simp: Int_absorb2\<close>)
  have "jb_future (job c j) = None" if "j \<in> set ?js" for j
    using js [OF that] queuedD [OF ok] inflightD [OF ok] by blast
  then have "quiet c (fold drain_queued ?js c)"
    unfolding drain_queued_withdraw by (intro quiet_withdraw distinct_all_queued ok) simp_all
  moreover have "quiet (fold drain_queued ?js c) c'" by (rule quiet_cong) (simp_all add: c'_def)
  ultimately show "quiet c c'" by (rule quiet_trans)
  show "queued c' i = []" "co_accepting c' = co_accepting c" "co_leases c' = co_leases c"
    "co_cancelledThrough c' = co_cancelledThrough c" "co_stopped c' = co_stopped c" "co_drains c' = co_drains c"
    by (simp_all add: c'_def queued_def drain_queued_withdraw)
qed

lemma drain_running_frame:
  "length (co_jobs (drain_running j c)) = length (co_jobs c)" "co_inflight (drain_running j c) = co_inflight c"
  "co_leases (drain_running j c) = co_leases c" "co_queue (drain_running j c) = co_queue c"
  "co_accepting (drain_running j c) = co_accepting c" "co_cancelledThrough (drain_running j c) = co_cancelledThrough c"
  "co_stopped (drain_running j c) = co_stopped c" "co_completedFence (drain_running j c) = co_completedFence c"
  "co_drains (drain_running j c) = co_drains c"
  "sig (job (drain_running j c) k) = sig (job c k)"
  by (simp_all add: drain_running_def sig_def)

lemma fold_drain_running [simp]:
  "length (co_jobs (fold drain_running js c)) = length (co_jobs c)" "co_inflight (fold drain_running js c) = co_inflight c"
  "co_leases (fold drain_running js c) = co_leases c" "co_queue (fold drain_running js c) = co_queue c"
  "co_accepting (fold drain_running js c) = co_accepting c" "co_cancelledThrough (fold drain_running js c) = co_cancelledThrough c"
  "co_stopped (fold drain_running js c) = co_stopped c" "co_completedFence (fold drain_running js c) = co_completedFence c"
  "co_drains (fold drain_running js c) = co_drains c"
  "sig (job (fold drain_running js c) k) = sig (job c k)"
  by (induction js arbitrary: c) (simp_all add: drain_running_frame)

lemma quiet_drain_running:
  assumes "\<And>j. j \<in> set js \<Longrightarrow> jb_future (job c j) = None"
  shows "quiet c (fold drain_running js c)"
  using assms
proof (induction js arbitrary: c)
  case (Cons j js)
  have "quiet c (drain_running j c)"
    using Cons.prems [of j] by (intro quietI [where pre = "if jb_started (job c j) then [ECancel j] else []"])
      (simp_all add: drain_running_def done_eq_def)
  moreover have "quiet (drain_running j c) (fold drain_running js (drain_running j c))"
    using Cons.prems sigD(4) [OF drain_running_frame(10)] by (intro Cons.IH) simp
  ultimately show ?case by (simp add: quiet_trans)
qed simp

lemma stop_job_sel [simp]:
  "length (co_jobs (stop_job j c)) = length (co_jobs c)" "co_trace (stop_job j c) = co_trace c"
  "jb_intent (job (stop_job j c) k) = jb_intent (job c k)"
  by (simp_all add: stop_job_def)

lemma quiet_stop: "quiet c (fold stop_job js c)"
proof (induction js arbitrary: c)
  case (Cons j js)
  have "quiet c (stop_job j c)"
    by (rule quietI [where pre = "[]"]) (auto simp: stop_job_def done_eq_def completeFuture_def)
  with Cons.IH [of "stop_job j c"] show ?case by (simp add: quiet_trans)
qed simp

lemma stop_completes:
  "j < length (co_jobs c) \<Longrightarrow> j \<in> set js \<or> jb_future (job c j) \<noteq> None \<Longrightarrow> jb_future (job (fold stop_job js c) j) \<noteq> None"
proof (induction js arbitrary: c)
  case (Cons k js)
  have "jb_future (job (stop_job k c) j) \<noteq> None" if "j = k \<or> jb_future (job c j) \<noteq> None"
    using that Cons.prems(1) by (auto simp: stop_job_def completeFuture_def)
  with Cons.prems Cons.IH [of "stop_job k c"] show ?case by auto
qed simp

end
