(* ===== verification/Coordinator_Props.thy ===== *)
theory Coordinator_Props
  imports Coordinator_Tables
begin

text \<open>
  What the coordinator guarantees, for every sequence of commands: one running job per
  instance, no job and no future lost, at most one application of a result, none after a
  lease has expired or an instance has been cancelled, and a drain that ends.
\<close>

section \<open>The whole invariant\<close>

definition tr_ok :: "Coordinator \<Rightarrow> bool" where
  "tr_ok c \<longleftrightarrow> distinct (applied_jobs (co_trace c)) \<and>
    (\<forall>j r. EApply j r \<in> set (co_trace c) \<longrightarrow> j < length (co_jobs c) \<and> jb_future (job c j) \<noteq> None
       \<and> \<not> jb_expired (job c j) \<and> \<not> jb_invalidated (job c j) \<and> op_Token r = in_Token (jb_intent (job c j)))"

definition idle_ok :: "Coordinator \<Rightarrow> AuthInstanceID \<Rightarrow> bool" where
  \<comment> \<open>a queue does not wait for nothing: only for a running job, or at a legacy refresh that asks for a fence\<close>
  "idle_ok c i \<longleftrightarrow> co_accepting c \<and> queued c i \<noteq> [] \<and> gget (co_leases c) i = None
     \<longrightarrow> (let intent = jb_intent (job c (hd (queued c i)))
          in in_Class intent = OperationLegacyRefresh \<and> wget (co_completedFence c) i < in_StartedAfter intent)"

definition live_except :: "AuthInstanceID set \<Rightarrow> Coordinator \<Rightarrow> bool" where
  "live_except I c \<longleftrightarrow> co_ok c
     \<and> (\<forall>i. gget (co_cancelledThrough c) i \<noteq> None \<longrightarrow> gget (co_leases c) i = None \<and> queued c i = [])
     \<and> (\<not> co_accepting c \<longrightarrow> (\<forall>i. queued c i = [])) \<and> (\<forall>i. i \<notin> I \<longrightarrow> idle_ok c i)"

abbreviation live_ok :: "Coordinator \<Rightarrow> bool" where
  "live_ok \<equiv> live_except {}"

definition drains_ok :: "Coordinator \<Rightarrow> bool" where
  "drains_ok c \<longleftrightarrow> (co_drains c \<noteq> [] \<longrightarrow> \<not> co_accepting c \<and> co_inflight c \<noteq> [])"

definition co_inv :: "Coordinator \<Rightarrow> bool" where
  "co_inv c \<longleftrightarrow> tr_ok c \<and> (if co_stopped c then \<forall>j < length (co_jobs c). jb_future (job c j) \<noteq> None
     else live_ok c \<and> drains_ok c)"

lemma applied_jobs_EApply: "j \<in> set (applied_jobs tr) \<longleftrightarrow> (\<exists>r. EApply j r \<in> set tr)"
proof (induction tr)
  case (Cons e tr)
  then show ?case by (cases e) auto
qed simp

lemma tr_ok_quiet:
  assumes "tr_ok c" and "quiet c c'"
  shows "tr_ok c'"
proof -
  from assms(2) obtain pre where pre: "co_trace c' = pre @ co_trace c" "applied_jobs pre = []" and g: "grows c c'"
    by (auto simp: quiet_def)
  have "EApply j r \<notin> set pre" for j r using pre(2) applied_jobs_EApply [of j pre] by auto
  then have old: "EApply j r \<in> set (co_trace c)" if "EApply j r \<in> set (co_trace c')" for j r using that pre(1) by auto
  have "j < length (co_jobs c') \<and> jb_future (job c' j) \<noteq> None
       \<and> \<not> jb_expired (job c' j) \<and> \<not> jb_invalidated (job c' j) \<and> op_Token r = in_Token (jb_intent (job c' j))"
    if "EApply j r \<in> set (co_trace c')" for j r
    using old [OF that] assms(1) g unfolding tr_ok_def grows_def done_eq_def by fastforce
  with assms(1) pre show ?thesis by (simp add: tr_ok_def)
qed

lemma tr_ok_settled:
  assumes "tr_ok c" and j: "jb_future (job c j) = None" "j < length (co_jobs c)" and s: "settled j c c'"
  shows "tr_ok c'"
proof -
  from s obtain pre where pre: "co_trace c' = pre @ co_trace c" "settle_trace j (job c' j) pre"
    and keep: "length (co_jobs c') = length (co_jobs c)" "\<And>k. k \<noteq> j \<Longrightarrow> job c' k = job c k" "jb_future (job c' j) \<noteq> None"
    unfolding settled_def by blast
  have nj: "EApply j r \<notin> set (co_trace c)" for r using assms(1) j unfolding tr_ok_def by blast
  have mem: "k = j \<and> \<not> jb_expired (job c' j) \<and> \<not> jb_invalidated (job c' j) \<and> op_Token r = in_Token (jb_intent (job c' j))"
    if "EApply k r \<in> set pre" for k r
    using that pre(2) applied_jobs_EApply [of k pre] unfolding settle_trace_def by auto
  have "k < length (co_jobs c') \<and> jb_future (job c' k) \<noteq> None
       \<and> \<not> jb_expired (job c' k) \<and> \<not> jb_invalidated (job c' k) \<and> op_Token r = in_Token (jb_intent (job c' k))"
    if "EApply k r \<in> set (co_trace c')" for k r
  proof (cases "EApply k r \<in> set pre")
    case True
    with mem j keep show ?thesis by auto
  next
    case False
    with that pre(1) have old: "EApply k r \<in> set (co_trace c)" by simp
    with nj have "k \<noteq> j" by auto
    with old assms(1) keep show ?thesis unfolding tr_ok_def by auto
  qed
  moreover have "distinct (applied_jobs (co_trace c'))"
    using assms(1) pre nj applied_jobs_EApply [of j "co_trace c"] by (auto simp: tr_ok_def settle_trace_def)
  ultimately show ?thesis by (simp add: tr_ok_def)
qed

section \<open>Every command keeps it\<close>

lemma idle_ok_cong:
  assumes "co_ok c" and "idle_ok c i" and "gget (co_leases c') i = gget (co_leases c) i" "queued c' i = queued c i"
    and "wget (co_completedFence c') i = wget (co_completedFence c) i" "co_accepting c' = co_accepting c"
    and "\<And>j. j < length (co_jobs c) \<Longrightarrow> in_Class (jb_intent (job c' j)) = in_Class (jb_intent (job c j))
        \<and> in_StartedAfter (jb_intent (job c' j)) = in_StartedAfter (jb_intent (job c j))"
  shows "idle_ok c' i"
proof (cases "queued c i = []")
  case True
  with assms(4) show ?thesis by (simp add: idle_ok_def)
next
  case False
  then have "hd (queued c i) \<in> set (queued c i)" by simp
  from queuedD [OF assms(1) this] have "hd (queued c i) < length (co_jobs c)" using inflightD [OF assms(1)] by blast
  from assms(7) [OF this] assms(2) show ?thesis unfolding idle_ok_def Let_def assms(3-6) by simp
qed

lemma live_exceptD:
  assumes "live_except I c"
  shows "co_ok c" and "gget (co_cancelledThrough c) i \<noteq> None \<Longrightarrow> gget (co_leases c) i = None \<and> queued c i = []"
    and "\<not> co_accepting c \<Longrightarrow> queued c i = []" and "i \<notin> I \<Longrightarrow> idle_ok c i"
  using assms unfolding live_except_def by blast+

lemma live_exceptI:
  assumes "co_ok c" and "\<And>i. gget (co_cancelledThrough c) i \<noteq> None \<Longrightarrow> gget (co_leases c) i = None \<and> queued c i = []"
    and "\<And>i. \<not> co_accepting c \<Longrightarrow> queued c i = []" and "\<And>i. i \<notin> I \<Longrightarrow> idle_ok c i"
  shows "live_except I c"
  using assms unfolding live_except_def by blast

lemma live_except_cong:
  assumes "live_except I c" and "co_jobs c' = co_jobs c" "co_inflight c' = co_inflight c" "co_leases c' = co_leases c"
    "co_queue c' = co_queue c" "co_completedFence c' = co_completedFence c" "co_accepting c' = co_accepting c"
    and "\<And>i. gget (co_cancelledThrough c') i \<noteq> None \<Longrightarrow> gget (co_cancelledThrough c) i \<noteq> None"
  shows "live_except I c'"
proof -
  have q: "queued c' = queued c" by (simp add: fun_eq_iff queued_def assms(5))
  have idle: "idle_ok c' = idle_ok c" unfolding fun_eq_iff idle_ok_def q assms(2,4,6,7) by simp
  note l = live_exceptD [OF assms(1)]
  show ?thesis
  proof (rule live_exceptI)
    show "co_ok c'" by (rule co_ok_cong [OF l(1) assms(2-5)])
    show "gget (co_leases c') i = None \<and> queued c' i = []" if "gget (co_cancelledThrough c') i \<noteq> None" for i
      unfolding q assms(4) by (rule l(2) [OF assms(8) [OF that]])
    show "queued c' i = []" if "\<not> co_accepting c'" for i
      unfolding q by (rule l(3) [OF that [unfolded assms(7)]])
    show "idle_ok c' i" if "i \<notin> I" for i unfolding idle by (rule l(4) [OF that])
  qed
qed

lemma start_sel [simp]:
  "co_queue (start j c) = co_queue c" "co_leases (start j c) = gput (job_instance c j) j (co_leases c)"
  "co_completedFence (start j c) = co_completedFence c" "co_accepting (start j c) = co_accepting c"
  "co_cancelledThrough (start j c) = co_cancelledThrough c" "co_stopped (start j c) = co_stopped c"
  "co_drains (start j c) = co_drains c" "co_inflight (start j c) = co_inflight c"
  "jb_intent (job (start j c) k) = jb_intent (job c k)"
  by (simp_all add: start_def)

lemma live_tryStart:
  assumes live: "live_except {i} c"
  shows "live_ok (tryStart i c)"
proof -
  note l = live_exceptD [OF live]
  have keep: "idle_ok c' i'" if "i' \<noteq> i" "gget (co_leases c') i' = gget (co_leases c) i'" "queued c' i' = queued c i'"
      "co_completedFence c' = co_completedFence c" "co_accepting c' = co_accepting c"
      "\<And>j. jb_intent (job c' j) = jb_intent (job c j)" for c' i'
  proof (rule idle_ok_cong [OF l(1) l(4)])
    show "i' \<notin> {i}" using that(1) by simp
  qed (use that in simp_all)
  show ?thesis
  proof (cases "co_accepting c \<and> gget (co_leases c) i = None")
    case False
    then have idle: "idle_ok c i" and t: "tryStart i c = c" by (auto simp: idle_ok_def tryStart_def)
    show ?thesis unfolding t using l(1,2,3)
    proof (rule live_exceptI)
      show "idle_ok c i'" for i' using idle l(4) [of i'] by (cases "i' = i") simp_all
    qed
  next
    case True
    show ?thesis
    proof (cases "queued c i")
      case Nil
      let ?c = "c\<lparr>co_queue := gdel i (co_queue c)\<rparr>"
      have t: "tryStart i c = ?c"
        using True Nil by (cases "gget (co_queue c) i") (simp_all add: tryStart_def queued_def)
      have q: "queued ?c i' = queued c i'" for i'
        using Nil by (cases "i' = i") (simp_all add: queued_def go_simps)
      show ?thesis unfolding t
      proof (rule live_exceptI)
        show "co_ok ?c" using tryStart_ok [OF l(1), of i] unfolding t .
        show "idle_ok ?c i'" for i'
          using keep [of i' ?c] q Nil by (cases "i' = i") (simp_all add: idle_ok_def)
        show "gget (co_leases ?c) i' = None \<and> queued ?c i' = []" if "gget (co_cancelledThrough ?c) i' \<noteq> None" for i'
          using l(2) [of i'] that unfolding q by simp
        show "queued ?c i' = []" if "\<not> co_accepting ?c" for i' using True that by simp
      qed
    next
      case (Cons j q)
      then have jq: "gget (co_queue c) i = Some (j # q)" by (simp add: queued_def split: option.splits)
      let ?c = "start j (c\<lparr>co_queue := gput i q (co_queue c)\<rparr>)"
      show ?thesis
      proof (cases "in_Class (jb_intent (job c j)) = OperationLegacyRefresh
          \<and> wget (co_completedFence c) i < in_StartedAfter (jb_intent (job c j))")
        case blocked: True
        then have t: "tryStart i c = c" and idle: "idle_ok c i" using True jq Cons by (simp_all add: tryStart_def idle_ok_def)
        show ?thesis unfolding t using l(1,2,3)
        proof (rule live_exceptI)
          show "idle_ok c i'" for i' using idle l(4) [of i'] by (cases "i' = i") simp_all
        qed
      next
        case False
        then have t: "tryStart i c = ?c" using True jq by (auto simp: tryStart_def Let_def)
        have ji: "job_instance c j = i" using queuedD [OF l(1), of j i] Cons by simp
        have q: "queued ?c i' = (if i' = i then q else queued c i')" for i' by (simp add: queued_def go_simps)
        have nc: "gget (co_cancelledThrough c) i = None" using l(2) [of i] Cons by (cases "gget (co_cancelledThrough c) i") auto
        show ?thesis unfolding t
        proof (rule live_exceptI)
          show "co_ok ?c" using tryStart_ok [OF l(1), of i] unfolding t .
          show "idle_ok ?c i'" for i'
          proof (cases "i' = i")
            case True
            then show ?thesis by (simp add: idle_ok_def ji go_simps)
          next
            case False
            then show ?thesis by (rule keep) (simp_all add: False q ji go_simps)
          qed
          show "gget (co_leases ?c) i' = None \<and> queued ?c i' = []" if "gget (co_cancelledThrough ?c) i' \<noteq> None" for i'
            using l(2) [of i'] that nc unfolding q by (cases "i' = i") (simp_all add: ji go_simps)
          show "queued ?c i' = []" if "\<not> co_accepting ?c" for i' using True that by simp
        qed
      qed
    qed
  qed
qed

lemma live_settled:
  assumes live: "live_ok c" and j: "gget (co_inflight c) (jb_key (job c j)) = Some j" "jb_started (job c j)"
    and s: "settled j c c1"
  shows "live_except {job_instance c j} c1"
proof -
  note l = live_exceptD [OF live]
  from s have tables: "co_queue c1 = co_queue c" "co_leases c1 = gdel (job_instance c j) (co_leases c)"
    "co_cancelledThrough c1 = co_cancelledThrough c" "co_accepting c1 = co_accepting c"
    and intents: "\<And>k. jb_intent (job c1 k) = jb_intent (job c k)"
    and fence: "\<And>i. i \<noteq> job_instance c j \<Longrightarrow> wget (co_completedFence c1) i = wget (co_completedFence c) i"
    unfolding settled_def by metis+
  have q: "queued c1 i = queued c i" for i by (simp add: queued_def tables)
  show ?thesis
  proof (rule live_exceptI)
    show "co_ok c1" by (rule settled_ok [OF l(1) j s])
    show "gget (co_leases c1) i = None \<and> queued c1 i = []" if "gget (co_cancelledThrough c1) i \<noteq> None" for i
      using l(2) [of i] that unfolding tables q by (simp add: go_simps)
    show "queued c1 i = []" if "\<not> co_accepting c1" for i unfolding q by (rule l(3) [OF that [unfolded tables]])
    show "idle_ok c1 i" if "i \<notin> {job_instance c j}" for i
      by (rule idle_ok_cong [OF l(1) l(4)]) (use that in \<open>simp_all add: tables q fence intents go_simps\<close>)
  qed
qed

lemma live_finishDrains: "live_except I c \<Longrightarrow> live_except I (finishDrains c)"
  by (erule live_except_cong) simp_all

lemma live_add:
  assumes live: "live_ok c" and new: "gget (co_inflight c) key = None" and take: "\<not> submit_refused intent c"
  shows "live_except {in_Instance intent} (add_job intent key c)" (is "live_except {?i} ?c")
proof (rule live_exceptI)
  note l = live_exceptD [OF live]
  have q: "queued ?c i' = (if i' = ?i then queued c ?i @ [length (co_jobs c)] else queued c i')" for i'
    by (simp add: queued_def add_job_def Let_def go_simps)
  show "co_ok ?c"
    unfolding add_job_def Let_def queued_def [symmetric] by (rule co_ok_add [OF l(1) new]) simp_all
  show "gget (co_leases ?c) i' = None \<and> queued ?c i' = []" if "gget (co_cancelledThrough ?c) i' \<noteq> None" for i'
    using l(2) [of i'] that take unfolding q by (cases "i' = ?i") (simp_all add: submit_refused_def)
  show "queued ?c i' = []" if "\<not> co_accepting ?c" for i' using that take by (simp add: submit_refused_def)
  show "idle_ok ?c i'" if "i' \<notin> {?i}" for i'
    by (rule idle_ok_cong [OF l(1) l(4)]) (use that q in \<open>simp_all add: nth_append\<close>)
qed

lemma live_submit:
  assumes "live_ok c"
  shows "live_ok (snd (handle_submit intent c))"
proof -
  have n: "live_ok (next_nonce intent c)" by (rule live_except_cong [OF assms]) simp_all
  show ?thesis
    by (rule submit_cases [of intent c]) (use n live_tryStart [OF live_add [OF n]] in simp_all)
qed

lemma live_cancel_instance:
  assumes live: "live_ok c"
  shows "live_ok (cancel_instance i c)"
proof -
  note l = live_exceptD [OF live] and k = cancel_instance_ok [OF live_exceptD(1) [OF live], of i]
  from k(6) have o: "\<And>i'. i' \<noteq> i \<Longrightarrow> gget (co_leases (cancel_instance i c)) i' = gget (co_leases c) i'"
    "\<And>i'. i' \<noteq> i \<Longrightarrow> queued (cancel_instance i c) i' = queued c i'"
    "\<And>i'. i' \<noteq> i \<Longrightarrow> gget (co_cancelledThrough (cancel_instance i c)) i' = None \<longleftrightarrow> gget (co_cancelledThrough c) i' = None"
    "\<And>i'. i' \<noteq> i \<Longrightarrow> wget (co_completedFence (cancel_instance i c)) i' = wget (co_completedFence c) i'"
    "co_accepting (cancel_instance i c) = co_accepting c"
    "\<And>j. j < length (co_jobs c) \<Longrightarrow> jb_intent (job (cancel_instance i c) j) = jb_intent (job c j)"
    unfolding others_eq_def by simp_all
  show ?thesis
  proof (rule live_exceptI)
    show "co_ok (cancel_instance i c)" by (rule k(1))
    show "gget (co_leases (cancel_instance i c)) i' = None \<and> queued (cancel_instance i c) i' = []"
      if "gget (co_cancelledThrough (cancel_instance i c)) i' \<noteq> None" for i'
      using that l(2) [of i'] o(1-3) [of i'] k(3,4) by (cases "i' = i") simp_all
    show "queued (cancel_instance i c) i' = []" if "\<not> co_accepting (cancel_instance i c)" for i'
      using that l(3) [of i'] o(2) [of i'] o(5) k(4) by (cases "i' = i") simp_all
    show "idle_ok (cancel_instance i c) i'" for i'
    proof (cases "i' = i")
      case True
      with k(4) show ?thesis by (simp add: idle_ok_def)
    next
      case False
      show ?thesis by (rule idle_ok_cong [OF l(1) l(4)]) (use False o in simp_all)
    qed
  qed
qed

lemma handle_cancel_fold: "snd (handle_cancel is c) = finishDrains (fold cancel_instance is c)"
proof -
  have "snd (fold (\<lambda>i (issued, c). (gput i (co_cancelNonce c + 1) issued, cancel_instance i c)) is (m, c))
      = fold cancel_instance is c" for m
    by (induction "is" arbitrary: m c) simp_all
  then show ?thesis unfolding handle_cancel_def Let_def by (simp add: case_prod_unfold)
qed

lemma live_fold:
  assumes "\<And>x c. live_ok c \<Longrightarrow> live_ok (f x c)" "\<And>x c. live_ok c \<Longrightarrow> quiet c (f x c)" and "live_ok c"
  shows "live_ok (fold f xs c) \<and> quiet c (fold f xs c)"
  using assms(3)
proof (induction xs arbitrary: c)
  case (Cons x xs)
  from Cons.IH [OF assms(1) [OF Cons.prems], of x] quiet_trans [OF assms(2) [OF Cons.prems], of x "fold f xs (f x c)"]
  show ?case by simp
qed simp

lemma cancel_step:
  assumes "live_ok c"
  shows "live_ok (snd (handle_cancel is c))" and "quiet c (snd (handle_cancel is c))"
proof -
  have "live_ok (fold cancel_instance is c) \<and> quiet c (fold cancel_instance is c)"
    by (rule live_fold [OF _ _ assms]) (rule live_cancel_instance cancel_instance_ok(2) [OF live_exceptD(1)], assumption)+
  then show "live_ok (snd (handle_cancel is c))" "quiet c (snd (handle_cancel is c))"
    unfolding handle_cancel_fold by (auto intro: live_finishDrains quiet_trans quiet_finishDrains)
qed

lemma activate_step:
  assumes "live_ok c"
  shows "live_ok (handle_activate gs c)" and "quiet c (handle_activate gs c)"
proof -
  have "live_ok (activate_instance ig c)" "quiet c (activate_instance ig c)" if "live_ok c" for ig c
    by (rule live_except_cong [OF that] quiet_cong;
        simp add: activate_instance_def Let_def case_prod_unfold go_simps split: if_split_asm)+
  then have "live_ok (fold activate_instance gs c) \<and> quiet c (fold activate_instance gs c)"
    by (rule live_fold [OF _ _ assms])
  then show "live_ok (handle_activate gs c)" "quiet c (handle_activate gs c)" by (simp_all add: handle_activate_def)
qed

lemma restore_step:
  assumes "live_ok c"
  shows "live_ok (handle_restore gs ts c)" and "quiet c (handle_restore gs ts c)"
proof -
  have "live_ok (restore_instance ts ig c)" "quiet c (restore_instance ts ig c)" if "live_ok c" for ig c
    by (rule live_except_cong [OF that] quiet_cong;
        simp add: restore_instance_def Let_def case_prod_unfold go_simps split: if_split_asm)+
  then have "live_ok (fold (restore_instance ts) gs c) \<and> quiet c (fold (restore_instance ts) gs c)"
    by (rule live_fold [OF _ _ assms])
  then show "live_ok (handle_restore gs ts c)" "quiet c (handle_restore gs ts c)" by (simp_all add: handle_restore_def)
qed

lemma drain_step:
  assumes "live_ok c"
  shows "live_ok (handle_drain c)" and "quiet c (handle_drain c)"
    and "co_accepting (handle_drain c) = False" and "co_leases (handle_drain c) = co_leases c"
    and "length (co_jobs (handle_drain c)) = length (co_jobs c)" and "co_stopped (handle_drain c) = co_stopped c"
proof -
  note l = live_exceptD [OF assms]
  define c0 where "c0 = c\<lparr>co_accepting := False\<rparr>"
  have ok0: "co_ok c0" using co_ok_cong [OF l(1), of c0] by (simp add: c0_def)
  define c1 where "c1 = (fold drain_queued (concat (map snd (co_queue c))) c0)\<lparr>co_queue := []\<rparr>"
  have "co_queue c0 = co_queue c" by (simp add: c0_def)
  note d = drain_queue_ok [OF ok0, unfolded this, folded c1_def]
  define c2 where "c2 = fold drain_running (map snd (co_inflight c1)) c1"
  have ok2: "co_ok c2" unfolding c2_def by (rule co_ok_frame [OF d(1)]) simp_all
  have q2: "quiet c1 c2" unfolding c2_def
  proof (rule quiet_drain_running)
    fix j assume "j \<in> set (map snd (co_inflight c1))"
    then obtain k where "gget (co_inflight c1) k = Some j" using gget_in_set [OF tables_wf(1) [OF d(1)]] by auto
    then show "jb_future (job c1 j) = None" using inflightD [OF d(1)] by blast
  qed
  obtain e where e: "handle_drain c = e" "co_jobs e = co_jobs c2" "co_inflight e = co_inflight c2" "co_leases e = co_leases c2"
      "co_queue e = co_queue c2" "co_accepting e = co_accepting c2" "co_cancelledThrough e = co_cancelledThrough c2"
      "co_stopped e = co_stopped c2" "quiet c2 e"
  proof
    define r where "r = \<lparr>dr_Completed = int (length (concat (map snd (co_queue c)))),
      dr_Cancelled = int (length (concat (map snd (co_queue c))))
        + int (length (filter (\<lambda>j. jb_started (job c1 j)) (map snd (co_inflight c1)))),
      dr_Invalidated = 0, dr_SentUnknown = 0, dr_TimedOut = False, dr_PersistenceFailures = 0, dr_HandoffBlocked = False\<rparr>"
    have eq: "handle_drain c = (if co_inflight c2 = [] then emit (EDrained r) c2 else c2\<lparr>co_drains := co_drains c2 @ [r]\<rparr>)"
      unfolding handle_drain_def Let_def c0_def [symmetric] c1_def [symmetric] c2_def [symmetric] r_def ..
    show "handle_drain c = handle_drain c" ..
    show "co_jobs (handle_drain c) = co_jobs c2" "co_inflight (handle_drain c) = co_inflight c2"
      "co_leases (handle_drain c) = co_leases c2" "co_queue (handle_drain c) = co_queue c2"
      "co_accepting (handle_drain c) = co_accepting c2" "co_cancelledThrough (handle_drain c) = co_cancelledThrough c2"
      "co_stopped (handle_drain c) = co_stopped c2" unfolding eq by simp_all
    have "quiet c2 (emit (EDrained r) c2)" by (rule quietI [where pre = "[EDrained r]"]) (simp_all add: done_eq_def)
    moreover have "quiet c2 (c2\<lparr>co_drains := co_drains c2 @ [r]\<rparr>)" by (rule quiet_cong) simp_all
    ultimately show "quiet c2 (handle_drain c)" unfolding eq by simp
  qed
  have q: "queued e i = []" for i using d(3) [of i] by (simp add: queued_def e c2_def)
  have acc: "\<not> co_accepting e" by (simp add: e c2_def d(4)) (simp add: c0_def)
  show "live_ok (handle_drain c)" unfolding e(1)
  proof (rule live_exceptI)
    show "co_ok e" by (rule co_ok_cong [OF ok2 e(2-5)])
    show "gget (co_leases e) i = None \<and> queued e i = []" if "gget (co_cancelledThrough e) i \<noteq> None" for i
      using that l(2) [of i] q by (simp add: e c2_def d(5,6)) (simp add: c0_def)
  qed (use q acc in \<open>simp_all add: idle_ok_def\<close>)
  have "quiet c c0" by (rule quiet_cong) (simp_all add: c0_def)
  from quiet_trans [OF quiet_trans [OF this d(2)] quiet_trans [OF q2 e(9)]]
  show "quiet c (handle_drain c)" unfolding e(1) .
  show "co_accepting (handle_drain c) = False" using acc e(1) by simp
  show "co_leases (handle_drain c) = co_leases c" "co_stopped (handle_drain c) = co_stopped c"
    unfolding e(1) by (simp_all add: e c2_def d) (simp_all add: c0_def)
  show "length (co_jobs (handle_drain c)) = length (co_jobs c)"
    unfolding e(1) by (simp add: e c2_def) (simp add: c1_def c0_def drain_queued_withdraw)
qed

lemma settle_step:
  assumes live: "live_ok c" and tr: "tr_ok c" and run: "running c j"
    and j: "gget (co_inflight c) (jb_key (job c j)) = Some j" and s: "settled j c c1"
  shows "live_ok (finishDrains (tryStart (job_instance c j) c1))" and "tr_ok (finishDrains (tryStart (job_instance c j) c1))"
    and "co_stopped c1 = co_stopped c"
proof -
  have st: "jb_started (job c j)" "j < length (co_jobs c)" using run by (simp_all add: running_def)
  have "jb_future (job c j) = None" using inflightD [OF live_exceptD(1) [OF live] j] by simp
  show "live_ok (finishDrains (tryStart (job_instance c j) c1))"
    by (intro live_finishDrains live_tryStart live_settled [OF live j st(1) s])
  show "tr_ok (finishDrains (tryStart (job_instance c j) c1))"
    by (rule tr_ok_quiet [OF tr_ok_settled [OF tr \<open>jb_future (job c j) = None\<close> st(2) s]
        quiet_trans [OF quiet_tryStart quiet_finishDrains]])
  show "co_stopped c1 = co_stopped c" using s by (simp add: settled_def)
qed

lemma tryStart_stopped [simp]: "co_stopped (tryStart i c) = co_stopped c"
  by (auto simp: tryStart_def Let_def split: option.split list.split)

lemma flag_step:
  \<comment> \<open>an update of a job that keeps its key, its instance, its class and its future\<close>
  assumes live: "live_ok c"
    and F: "\<And>b. sig (F b) = sig b" "\<And>b. done_eq b (F b)" "\<And>b. in_Token (jb_intent (F b)) = in_Token (jb_intent b)"
      "\<And>b. in_Class (jb_intent (F b)) = in_Class (jb_intent b)" "\<And>b. in_StartedAfter (jb_intent (F b)) = in_StartedAfter (jb_intent b)"
  shows "live_ok (upd_job j F c)" and "quiet c (upd_job j F c)"
proof -
  note l = live_exceptD [OF live]
  have inst: "in_Instance (jb_intent (F b)) = in_Instance (jb_intent b)" for b using F(1) [of b] by (simp add: sig_def)
  have q: "queued (upd_job j F c) i = queued c i" for i by (simp add: queued_def)
  show "live_ok (upd_job j F c)"
  proof (rule live_exceptI)
    show "co_ok (upd_job j F c)" by (rule co_ok_frame [OF l(1)]) (simp_all add: F)
    show "gget (co_leases (upd_job j F c)) i = None \<and> queued (upd_job j F c) i = []"
      if "gget (co_cancelledThrough (upd_job j F c)) i \<noteq> None" for i using l(2) [of i] that by (simp add: q)
    show "queued (upd_job j F c) i = []" if "\<not> co_accepting (upd_job j F c)" for i using l(3) [of i] that by (simp add: q)
    show "idle_ok (upd_job j F c) i" for i by (rule idle_ok_cong [OF l(1) l(4)]) (simp_all add: q F)
  qed
  show "quiet c (upd_job j F c)"
    using F(2) unfolding quiet_def grows_def by (auto simp: F(3) inst done_eq_def)
qed

section \<open>Pending drains\<close>

lemma drains_finish: "(co_drains c \<noteq> [] \<Longrightarrow> \<not> co_accepting c) \<Longrightarrow> drains_ok (finishDrains c)"
  by (auto simp: drains_ok_def finishDrains_def)

lemma tryStart_sel [simp]:
  "co_drains (tryStart i c) = co_drains c" "co_accepting (tryStart i c) = co_accepting c" "co_inflight (tryStart i c) = co_inflight c"
  by (simp_all add: tryStart_def Let_def split: option.split list.split)

lemma gput_not_Nil [simp]: "gput k v m \<noteq> []"
  by (induction m) auto

lemma submit_frame [simp]:
  "co_drains (snd (handle_submit intent c)) = co_drains c" "co_accepting (snd (handle_submit intent c)) = co_accepting c"
  "co_stopped (snd (handle_submit intent c)) = co_stopped c"
  by (rule submit_cases [of intent c]; simp)+

lemma submit_inflight: "co_inflight c \<noteq> [] \<Longrightarrow> co_inflight (snd (handle_submit intent c)) \<noteq> []"
  by (rule submit_cases [of intent c]) simp_all

lemma drains_submit: "drains_ok c \<Longrightarrow> drains_ok (snd (handle_submit intent c))"
  using submit_inflight by (simp add: drains_ok_def)

lemma fold_keeps:
  assumes "\<And>x c. P (f x c) = P c"
  shows "P (fold f xs c) = P c"
  using assms by (induction xs arbitrary: c) simp_all

lemma cancel_instance_frame [simp]:
  "co_drains (cancel_instance i c) = co_drains c" "co_accepting (cancel_instance i c) = co_accepting c"
  "co_stopped (cancel_instance i c) = co_stopped c"
proof -
  have l: "co_drains (cancel_lease i c) = co_drains c" "co_accepting (cancel_lease i c) = co_accepting c"
    "co_stopped (cancel_lease i c) = co_stopped c" for c
    by (cases "gget (co_leases c) i"; simp add: cancel_lease_def cancel_leased_def Let_def)+
  have q: "co_drains (cancel_queue i c) = co_drains c" "co_accepting (cancel_queue i c) = co_accepting c"
    "co_stopped (cancel_queue i c) = co_stopped c" for c
    by (simp_all add: cancel_queue_def cancel_queued_withdraw)
  show "co_drains (cancel_instance i c) = co_drains c" "co_accepting (cancel_instance i c) = co_accepting c"
    "co_stopped (cancel_instance i c) = co_stopped c"
    by (simp_all add: cancel_instance_def l q) (simp_all add: mark_cancelled_def)
qed

lemma drains_cancel: "drains_ok c \<Longrightarrow> drains_ok (snd (handle_cancel is c))"
  unfolding handle_cancel_fold
  by (rule drains_finish) (auto simp: drains_ok_def fold_keeps [of co_drains] fold_keeps [of co_accepting])

lemma activate_frame [simp]:
  "co_drains (activate_instance ig c) = co_drains c" "co_accepting (activate_instance ig c) = co_accepting c"
  "co_inflight (activate_instance ig c) = co_inflight c" "co_stopped (activate_instance ig c) = co_stopped c"
  by (simp_all add: activate_instance_def Let_def case_prod_unfold)

lemma restore_frame [simp]:
  "co_drains (restore_instance ts ig c) = co_drains c" "co_accepting (restore_instance ts ig c) = co_accepting c"
  "co_inflight (restore_instance ts ig c) = co_inflight c" "co_stopped (restore_instance ts ig c) = co_stopped c"
  by (simp_all add: restore_instance_def Let_def case_prod_unfold)

lemma drains_expire:
  assumes "drains_ok c"
  shows "drains_ok (handle_expire cb j c)"
proof (cases "gget (co_inflight c) (jb_key (job c j)) \<noteq> Some j \<or> jb_expired (job c j)")
  case False
  let ?c = "upd_job j (\<lambda>b. b\<lparr>jb_expired := True, jb_cancelled := jb_cancelled b \<or> jb_started b\<rparr>) c"
  obtain err c2 where inh: "inherit cb j (jb_probeSent (job c j)) (jb_suppressUntil (job c j)) (release j ?c) = (err, c2)"
    by (rule prod.exhaust)
  note s = inherit_sel [OF inh]
  have "\<exists>c4. handle_expire cb j c = finishDrains (tryStart (job_instance c j) c4)
      \<and> (co_drains c4 = [] \<longleftrightarrow> co_drains c = []) \<and> co_accepting c4 = co_accepting c"
    unfolding handle_expire_def Let_def inh if_not_P [OF False] prod.case by (intro exI conjI, rule refl) (simp_all add: s)
  then obtain c4 where c4: "handle_expire cb j c = finishDrains (tryStart (job_instance c j) c4)"
    "co_drains c4 = [] \<longleftrightarrow> co_drains c = []" "co_accepting c4 = co_accepting c" by blast
  show ?thesis unfolding c4(1) by (rule drains_finish) (use c4 assms in \<open>auto simp: drains_ok_def\<close>)
qed (use assms in \<open>simp add: handle_expire_def\<close>)

lemma finish_drains:
  assumes "(if v then finish_valid j r c else finish_invalid cb j r c) = (r', c')"
  shows "co_drains c' = [] \<longleftrightarrow> co_drains c = []"
proof (cases v)
  case True
  with assms show ?thesis by (auto simp: finish_valid_def)
next
  case False
  let ?r = "r\<lparr>op_Disposition := ResultDiscardedStale\<rparr>" and ?i = "jb_intent (job c j)"
  obtain err c2 where inh: "inherit cb j (op_ProbeSendPhase ?r) (op_SuppressUntil ?r)
      (c\<lparr>co_completedFence := raise_max (in_Instance ?i) (et_Fence (in_Token ?i)) (co_completedFence c)\<rparr>) = (err, c2)"
    by (rule prod.exhaust)
  have "finish_invalid cb j r c = (r', c')" using False assms by simp
  then show ?thesis using inherit_sel(5) [OF inh] unfolding finish_invalid_def Let_def inh by auto
qed

lemma drains_result:
  assumes "drains_ok c"
  shows "drains_ok (handle_result cb j r c)"
proof (cases "gget (co_inflight c) (jb_key (job c j)) = Some j")
  case True
  let ?r = "with_held (job c j) r" and ?v = "result_valid cb (job c j) (with_held (job c j) r)"
  obtain v2 r2 c2 where out: "apply_result cb j ?v ?r (release j c) = (v2, r2, c2)" by (rule prod_cases3)
  obtain r3 c3 where fin: "(if v2 then finish_valid j r2 c2 else finish_invalid cb j r2 c2) = (r3, c3)" by (rule prod.exhaust)
  have "co_drains c2 = co_drains c" using apply_result_state [OF out] by auto
  then have d: "co_drains c3 = [] \<longleftrightarrow> co_drains c = []" using finish_drains [OF fin] by simp
  have a: "co_accepting c3 = co_accepting c" using finish_sel(5) [OF fin] apply_result_sel(5) [OF out] by simp
  show ?thesis
  proof (cases "?v \<and> cl_DispatchLogs cb \<and> has_host_logs ?r")
    case logs: True
    then show ?thesis using True assms unfolding handle_result_def Let_def by (simp add: drains_ok_def)
  next
    case False
    have "handle_result cb j r c = finishDrains (tryStart (job_instance c j) ((upd_job j (completeFuture r3) c3)\<lparr>co_drains :=
        map (\<lambda>d. d\<lparr>dr_Completed := dr_Completed d + 1\<rparr>) (co_drains (upd_job j (completeFuture r3) c3))\<rparr>))"
      using True False fin unfolding handle_result_def Let_def out by (simp, blast)
    then show ?thesis by (simp only:) (rule drains_finish, use assms d a in \<open>auto simp: drains_ok_def\<close>)
  qed
qed (use assms in \<open>simp add: handle_result_def\<close>)

section \<open>The machine\<close>

lemma handle_stopped: "cmd \<noteq> CClosed \<Longrightarrow> co_ok c \<Longrightarrow> co_stopped (handle cmd c) = co_stopped c"
proof (cases cmd)
  case (CExpire cb j)
  assume ok: "co_ok c"
  show ?thesis
  proof (cases "running c j")
    case True
    from expire_cases [OF ok True, of cb] show ?thesis
      by (elim disjE exE conjE) (simp_all add: CExpire True settled_def)
  qed (simp add: CExpire)
next
  case (CResult cb j r)
  assume ok: "co_ok c"
  show ?thesis
  proof (cases "running c j")
    case True
    from result_cases [OF ok True, of cb r] show ?thesis
      by (elim disjE exE conjE) (simp_all add: CResult True settled_def)
  qed (simp add: CResult)
qed (simp_all add: handle_cancel_fold handle_activate_def handle_restore_def fold_keeps [of co_stopped]
    handle_log_callback_def handle_drain_def Let_def drain_queued_withdraw)

lemma sig_MarkProbeSent [simp]:
  "sig (MarkProbeSent t b) = sig b" "done_eq b (MarkProbeSent t b)" "jb_intent (MarkProbeSent t b) = jb_intent b"
  by (simp_all add: MarkProbeSent_def sig_def done_eq_def Let_def)

lemma sig_begin_read [simp]:
  "sig (begin_read seq b) = sig b" "done_eq b (begin_read seq b)"
  "in_Token (jb_intent (begin_read seq b)) = in_Token (jb_intent b)"
  "in_Class (jb_intent (begin_read seq b)) = in_Class (jb_intent b)"
  "in_StartedAfter (jb_intent (begin_read seq b)) = in_StartedAfter (jb_intent b)"
  by (simp_all add: begin_read_def sig_def done_eq_def split: payload.split)

lemma live_emit: "live_ok c \<Longrightarrow> live_ok (emit e c)"
  by (erule live_except_cong) simp_all

lemma quiet_emit: "applied_jobs [e] = [] \<Longrightarrow> quiet c (emit e c)"
  by (rule quietI [where pre = "[e]"]) (simp_all add: done_eq_def)

lemma handle_quiet:
  assumes live: "live_ok c" and "cmd \<noteq> CClosed" and "\<And>cb j. cmd \<noteq> CExpire cb j" "\<And>cb j r. cmd \<noteq> CResult cb j r"
  shows "live_ok (handle cmd c) \<and> quiet c (handle cmd c)"
proof (cases cmd)
  case (CLogCallback j r err)
  then show ?thesis using live by (simp add: handle_log_callback_def live_emit quiet_emit)
next
  case (CMarkProbeSent j t)
  with live flag_step [OF live, of "MarkProbeSent t" j] show ?thesis by simp
next
  case (CBeginRead j seq)
  with live flag_step [OF live, of "begin_read seq" j] show ?thesis by simp
qed (use assms in \<open>simp_all add: live_submit quiet_submit cancel_step activate_step restore_step drain_step\<close>)

lemma drains_drain:
  assumes live: "live_ok c" and d: "drains_ok c"
  shows "drains_ok (handle_drain c)"
proof -
  have "co_drains (handle_drain c) = co_drains c \<and> co_inflight (handle_drain c) = [] \<or> co_inflight (handle_drain c) \<noteq> []"
    by (simp add: handle_drain_def Let_def drain_queued_withdraw)
  moreover have "co_inflight (handle_drain c) = co_inflight c" if "co_drains c \<noteq> []"
  proof -
    have e: "concat (map snd (co_queue c)) = []"
      using that d live_exceptD(3) [OF live] queue_entry [OF live_exceptD(1) [OF live]] by (fastforce simp: drains_ok_def)
    show ?thesis unfolding handle_drain_def Let_def e by simp
  qed
  ultimately show ?thesis using d drain_step(3) [OF live] by (auto simp: drains_ok_def)
qed

lemma drains_handle:
  assumes live: "live_ok c" and d: "drains_ok c"
    and "cmd \<noteq> CClosed" and "\<And>cb j. cmd \<noteq> CExpire cb j" "\<And>cb j r. cmd \<noteq> CResult cb j r"
  shows "drains_ok (handle cmd c)"
proof (cases cmd)
  case CDrain
  with drains_drain [OF live d] show ?thesis by simp
qed (use assms(2-) in \<open>simp_all add: drains_submit drains_cancel\<close>,
     simp_all add: drains_ok_def handle_activate_def handle_restore_def handle_log_callback_def
       fold_keeps [of co_drains] fold_keeps [of co_accepting] fold_keeps [of co_inflight])

lemma loop_step_inv:
  assumes inv: "co_inv c"
  shows "co_inv (loop_step c cmd)"
proof (cases "co_stopped c")
  case False
  with inv have live: "live_ok c" and tr: "tr_ok c" and d: "drains_ok c" by (simp_all add: co_inv_def)
  note ok = live_exceptD(1) [OF live]
  have keep: "co_inv (handle cmd c)" if "cmd \<noteq> CClosed" "live_ok (handle cmd c)" "tr_ok (handle cmd c)" "drains_ok (handle cmd c)"
    using that False handle_stopped [OF that(1) ok] by (simp add: co_inv_def)
  have run: "\<not> running c j \<Longrightarrow> co_inv (handle cmd c)" if "cmd = CExpire cb j \<or> cmd = CResult cb j r" for cb j r
    using that inv by auto
  have others: "co_inv (handle cmd c)" if "cmd \<noteq> CClosed" "\<And>cb j. cmd \<noteq> CExpire cb j" "\<And>cb j r. cmd \<noteq> CResult cb j r"
    by (rule keep [OF that(1)]) (use handle_quiet [OF live that] tr_ok_quiet [OF tr] drains_handle [OF live d that] in simp_all)
  have "co_inv (handle cmd c)"
  proof (cases cmd)
    case (CExpire cb j)
    show ?thesis
    proof (cases "running c j")
      case True
      have "live_ok (handle_expire cb j c) \<and> tr_ok (handle_expire cb j c)"
        using expire_cases [OF ok True, of cb] live tr settle_step(1,2) [OF live tr True] by metis
      with True drains_expire [OF d] show ?thesis by (intro keep) (simp_all add: CExpire)
    qed (use run CExpire in blast)
  next
    case (CResult cb j r)
    show ?thesis
    proof (cases "running c j")
      case True
      have "live_ok (emit (EDispatchLogs j r') c)" "tr_ok (emit (EDispatchLogs j r') c)" for r'
        using live_emit [OF live] tr_ok_quiet [OF tr quiet_emit] by simp_all
      then have "live_ok (handle_result cb j r c) \<and> tr_ok (handle_result cb j r c)"
        using result_cases [OF ok True, of cb r] live tr settle_step(1,2) [OF live tr True] by metis
      with True drains_result [OF d] show ?thesis by (intro keep) (simp_all add: CResult)
    qed (use run CResult in blast)
  next
    case CClosed
    have "jb_future (job (handle CClosed c) j) \<noteq> None" if "j < length (co_jobs (handle CClosed c))" for j
    proof -
      have "length (co_jobs (fold stop_job js c)) = length (co_jobs c)" for js by (rule fold_keeps) simp
      then have j: "j < length (co_jobs c)" using that by (simp add: handle_closed_def)
      have "j \<in> set (map snd (co_inflight c)) \<or> jb_future (job c j) \<noteq> None"
        using openD [OF ok j] by (force dest: map_of_SomeD)
      from stop_completes [OF j this] show ?thesis by (simp add: handle_closed_def)
    qed
    moreover have "tr_ok (handle CClosed c)"
      using tr_ok_quiet [OF tr quiet_stop] unfolding handle.simps handle_closed_def tr_ok_def by simp
    ultimately show ?thesis using CClosed by (simp add: co_inv_def handle_closed_def)
  qed (use others in blast)+
  with False show ?thesis by (simp add: loop_step_def)
qed (use inv in \<open>simp add: loop_step_def\<close>)

end
