(* ===== verification/Coordinator_Runs.thy ===== *)
theory Coordinator_Runs
  imports Coordinator_Props
begin

text \<open>
  The coordinator over whole runs: the properties the callers of \<^verbatim>\<open>Submit\<close>, \<^verbatim>\<open>CancelInstances\<close>
  and \<^verbatim>\<open>Drain\<close> rely on, for every sequence of commands.
\<close>

section \<open>Runs\<close>

interpretation command_loop: invariant_machine loop_step co_inv
  by unfold_locales (rule loop_step_inv)

lemma co_inv_init: "co_inv NewCoordinator"
  by (simp add: co_inv_def NewCoordinator_def tr_ok_def live_except_def co_ok_def idle_ok_def drains_ok_def queued_def)

lemma co_inv_run: "co_inv (run loop_step NewCoordinator cmds)"
  by (rule command_loop.run_inv [OF co_inv_init])

definition later :: "Coordinator \<Rightarrow> Coordinator \<Rightarrow> bool" where
  \<comment> \<open>\<open>grows\<close>, and no result of a completed job is applied\<close>
  "later c c' \<longleftrightarrow> grows c c' \<and> (\<forall>j r. j < length (co_jobs c) \<and> jb_future (job c j) \<noteq> None
     \<and> EApply j r \<in> set (co_trace c') \<longrightarrow> EApply j r \<in> set (co_trace c))"

lemma later_refl [simp]: "later c c"
  by (simp add: later_def grows_def done_eq_def)

lemma growsD:
  assumes "grows c c'" and "j < length (co_jobs c)"
  shows "j < length (co_jobs c')" and "job_instance c' j = job_instance c j"
    and "jb_future (job c j) \<noteq> None \<Longrightarrow> jb_future (job c' j) = jb_future (job c j)"
  using assms unfolding grows_def done_eq_def by auto

lemma later_trans:
  assumes "later c c'" and "later c' c''"
  shows "later c c''"
proof -
  have g: "grows c c'" "grows c' c''" using assms by (simp_all add: later_def)
  have "EApply j r \<in> set (co_trace c)"
    if j: "j < length (co_jobs c)" "jb_future (job c j) \<noteq> None" and e: "EApply j r \<in> set (co_trace c'')" for j r
  proof -
    have "j < length (co_jobs c')" "jb_future (job c' j) \<noteq> None" using growsD [OF g(1) j(1)] j(2) by simp_all
    with e assms(2) have "EApply j r \<in> set (co_trace c')" unfolding later_def by blast
    with j assms(1) show ?thesis unfolding later_def by blast
  qed
  with grows_trans [OF g] show ?thesis unfolding later_def by blast
qed

lemma quiet_applied:
  assumes "quiet c c'" and "EApply j r \<in> set (co_trace c')"
  shows "EApply j r \<in> set (co_trace c)"
proof -
  from assms(1) obtain pre where "co_trace c' = pre @ co_trace c" "applied_jobs pre = []" by (auto simp: quiet_def)
  with assms(2) applied_jobs_EApply [of j pre] show ?thesis by auto
qed

lemma later_quiet: "quiet c c' \<Longrightarrow> later c c'"
  using quiet_applied unfolding later_def quiet_def by blast

lemma later_settled:
  assumes "jb_future (job c j) = None" and s: "settled j c c'"
  shows "later c c'"
proof -
  from s obtain pre where pre: "co_trace c' = pre @ co_trace c" "settle_trace j (job c' j) pre"
    and keep: "length (co_jobs c') = length (co_jobs c)" "\<And>k. k \<noteq> j \<Longrightarrow> job c' k = job c k"
      "jb_intent (job c' j) = jb_intent (job c j)"
    unfolding settled_def by blast
  have same: "job c' k = job c k \<or> k = j" for k using keep(2) by blast
  have "grows c c'" unfolding grows_def
  proof (intro conjI allI impI)
    fix k assume "jb_future (job c k) \<noteq> None"
    with assms(1) have "k \<noteq> j" by auto
    with keep(2) show "done_eq (job c k) (job c' k)" by (simp add: done_eq_def)
  qed (use same keep in \<open>simp_all, metis+\<close>)
  moreover have "k = j" if "EApply k r \<in> set pre" for k r
    using that pre(2) applied_jobs_EApply [of k pre] by (auto simp: settle_trace_def)
  ultimately show ?thesis unfolding later_def pre(1) using assms(1) by auto
qed

lemma live_run:
  assumes "co_inv c" and "\<not> co_stopped c"
  shows "live_ok c" "co_ok c" "drains_ok c"
  using assms live_exceptD(1) [of "{}" c] by (simp_all add: co_inv_def)

lemma loop_step_later:
  assumes inv: "co_inv c"
  shows "later c (loop_step c cmd)"
proof (cases "co_stopped c")
  case False
  note l = live_run [OF inv False]
  have settle: "later c (finishDrains (tryStart (job_instance c j) c1))"
    if "gget (co_inflight c) (jb_key (job c j)) = Some j" "settled j c c1" for j c1
  proof -
    have "jb_future (job c j) = None" using inflightD [OF l(2) that(1)] by simp
    from later_trans [OF later_settled [OF this that(2)] later_quiet [OF quiet_trans [OF quiet_tryStart quiet_finishDrains]]]
    show ?thesis .
  qed
  have "later c (handle cmd c)"
  proof (cases cmd)
    case (CExpire cb j)
    show ?thesis
    proof (cases "running c j")
      case True
      from expire_cases [OF l(2) True, of cb] show ?thesis
        by (elim disjE exE conjE) (simp_all add: CExpire True settle)
    qed (simp add: CExpire)
  next
    case (CResult cb j r)
    show ?thesis
    proof (cases "running c j")
      case True
      from result_cases [OF l(2) True, of cb r] show ?thesis
        by (elim disjE exE conjE) (simp_all add: CResult True settle later_quiet quiet_emit)
    qed (simp add: CResult)
  next
    case CClosed
    have "quiet (fold stop_job (map snd (co_inflight c)) c) (handle_closed c)"
      by (rule quiet_cong) (simp_all add: handle_closed_def)
    from later_quiet [OF quiet_trans [OF quiet_stop this]] CClosed show ?thesis by simp
  qed (use handle_quiet [OF l(1), of cmd] later_quiet in blast)+
  with False show ?thesis by (simp add: loop_step_def)
qed (simp add: loop_step_def)

lemma run_later: "co_inv c \<Longrightarrow> later c (run loop_step c cmds)"
proof (induction cmds arbitrary: c)
  case (Cons cmd cmds)
  from later_trans [OF loop_step_later [OF Cons.prems] Cons.IH [OF loop_step_inv [OF Cons.prems]]]
  show ?case by simp
qed simp

section \<open>Cancellation\<close>

fun readmits :: "command \<Rightarrow> bool" where
  "readmits (CActivate gs) = True"
| "readmits (CRestore gs ts) = True"
| "readmits _ = False"

lemma tryStart_cancelled [simp]: "co_cancelledThrough (tryStart i c) = co_cancelledThrough c"
  by (simp add: tryStart_def Let_def split: option.split list.split)

lemma settled_cancelled: "settled j c c1 \<Longrightarrow> co_cancelledThrough c1 = co_cancelledThrough c"
  by (simp add: settled_def)

lemma cancel_instance_cancelled:
  "gget (co_cancelledThrough (cancel_instance i c)) i' \<noteq> None \<longleftrightarrow> i' = i \<or> gget (co_cancelledThrough c) i' \<noteq> None"
proof -
  have l: "co_cancelledThrough (cancel_lease i c) = co_cancelledThrough c" for c
    by (cases "gget (co_leases c) i") (simp_all add: cancel_lease_def)
  show ?thesis
    unfolding cancel_instance_def l cancel_queue_def cancel_queued_withdraw
    by (cases "i' = i") (simp_all add: mark_cancelled_def go_simps)
qed

lemma fold_cancel_cancelled:
  "gget (co_cancelledThrough (fold cancel_instance is c)) i \<noteq> None \<longleftrightarrow> i \<in> set is \<or> gget (co_cancelledThrough c) i \<noteq> None"
  by (induction "is" arbitrary: c) (simp_all only: fold.simps comp_apply id_apply cancel_instance_cancelled list.simps, auto)

lemma drain_cancelled: "co_cancelledThrough (handle_drain c) = co_cancelledThrough c"
  by (simp add: handle_drain_def Let_def drain_queued_withdraw)

lemma stop_cancelled: "co_cancelledThrough (handle_closed c) = co_cancelledThrough c"
  by (simp add: handle_closed_def fold_keeps [of co_cancelledThrough] stop_job_def)

lemma submit_cancelled: "co_cancelledThrough (snd (handle_submit intent c)) = co_cancelledThrough c"
  by (rule submit_cases [of intent c]) simp_all

lemma stays_cancelled:
  assumes "co_inv c" and "gget (co_cancelledThrough c) i \<noteq> None" and "\<not> readmits cmd"
  shows "gget (co_cancelledThrough (loop_step c cmd)) i \<noteq> None"
proof (cases "co_stopped c")
  case False
  note ok = live_run(2) [OF assms(1) False]
  have "gget (co_cancelledThrough (handle cmd c)) i \<noteq> None"
  proof (cases cmd)
    case (CExpire cb j)
    show ?thesis
    proof (cases "running c j")
      case True
      from expire_cases [OF ok True, of cb] assms(2) show ?thesis
        by (elim disjE exE conjE) (simp_all add: CExpire True settled_cancelled)
    qed (use assms CExpire in simp)
  next
    case (CResult cb j r)
    show ?thesis
    proof (cases "running c j")
      case True
      from result_cases [OF ok True, of cb r] assms(2) show ?thesis
        by (elim disjE exE conjE) (simp_all add: CResult True settled_cancelled)
    qed (use assms CResult in simp)
  next
    case (CCancel "is")
    then show ?thesis using assms(2) fold_cancel_cancelled [of "is" c i] by (simp add: handle_cancel_fold)
  qed (use assms in \<open>simp_all add: submit_cancelled drain_cancelled stop_cancelled handle_log_callback_def\<close>)
  with False show ?thesis by (simp add: loop_step_def)
qed (use assms in \<open>simp add: loop_step_def\<close>)

lemma run_stays_cancelled:
  "co_inv c \<Longrightarrow> gget (co_cancelledThrough c) i \<noteq> None \<Longrightarrow> \<forall>cmd \<in> set cmds. \<not> readmits cmd \<Longrightarrow>
    gget (co_cancelledThrough (run loop_step c cmds)) i \<noteq> None"
proof (induction cmds arbitrary: c)
  case (Cons cmd cmds)
  then show ?case using Cons.IH [OF loop_step_inv stays_cancelled, of c cmd] by simp
qed simp

lemma cancelled_idle:
  assumes inv: "co_inv c" and "gget (co_cancelledThrough c) i \<noteq> None" and j: "j < length (co_jobs c)" "job_instance c j = i"
  shows "jb_future (job c j) \<noteq> None"
proof (cases "co_stopped c")
  case True
  with inv j show ?thesis by (simp add: co_inv_def)
next
  case False
  note l = live_run [OF inv False]
  have none: "gget (co_leases c) i = None" "queued c i = []" using live_exceptD(2) [OF l(1) assms(2)] by simp_all
  show ?thesis
  proof
    assume "jb_future (job c j) = None"
    from conjunct1 [OF openD [OF l(2) j(1) this]] inflightD [OF l(2)] none j(2) show False by fastforce
  qed
qed

lemma cancel_marks:
  assumes "co_inv c" and "\<not> co_stopped c" and "i \<in> set is"
  shows "gget (co_cancelledThrough (loop_step c (CCancel is))) i \<noteq> None"
  using assms fold_cancel_cancelled [of "is" c i] by (simp add: loop_step_def handle_cancel_fold)

section \<open>Draining\<close>

lemma expire_completes:
  assumes inv: "co_inv c" and j: "\<not> co_stopped c" "j < length (co_jobs c)" "jb_started (job c j)"
  shows "jb_future (job (loop_step c (CExpire cb j)) j) \<noteq> None"
proof (cases "jb_future (job c j)")
  case None
  note l = live_run [OF inv j(1)]
  have run: "running c j" using j by (simp add: running_def)
  have open_j: "gget (co_inflight c) (jb_key (job c j)) = Some j \<and> \<not> jb_expired (job c j)" by (rule openD [OF l(2) j(2) None])
  have step: "loop_step c (CExpire cb j) = handle_expire cb j c" using j(1) run by (simp add: loop_step_def)
  from expire_settles [OF l(2) run open_j] obtain c1
    where c1: "settled j c c1" "handle_expire cb j c = finishDrains (tryStart (job_instance c j) c1)" by blast
  from c1(1) have "jb_future (job c1 j) \<noteq> None" "length (co_jobs c1) = length (co_jobs c)" by (simp_all add: settled_def)
  with growsD(3) [of c1 "finishDrains (tryStart (job_instance c j) c1)" j] j(2)
    quiet_trans [OF quiet_tryStart quiet_finishDrains, of c1 "job_instance c j"]
  show ?thesis unfolding step c1(2) by (simp add: quiet_def)
next
  case (Some r)
  with growsD(3) [of c "loop_step c (CExpire cb j)" j] loop_step_later [OF inv] j(2) show ?thesis by (simp add: later_def)
qed

lemma tryStart_closed: "\<not> co_accepting c \<Longrightarrow> tryStart i c = c"
  by (simp add: tryStart_def)

lemma expire_closed:
  fixes cb :: callbacks and j :: nat
  assumes inv: "co_inv c" and c: "\<not> co_stopped c" "\<not> co_accepting c"
  defines "c' \<equiv> loop_step c (CExpire cb j)"
  shows "\<not> co_stopped c'" "\<not> co_accepting c'" "length (co_jobs c') = length (co_jobs c)"
    "jb_started (job c' k) = jb_started (job c k)"
proof -
  note l = live_run [OF inv c(1)]
  have eq: "c' = c \<or> (\<exists>c1. settled j c c1 \<and> c' = finishDrains c1)"
  proof (cases "running c j")
    case True
    have acc: "settled j c c1 \<Longrightarrow> \<not> co_accepting c1" for c1 using c(2) by (simp add: settled_def)
    from expire_cases [OF l(2) True, of cb] acc show ?thesis
      unfolding c'_def loop_step_def using c(1) True by (auto simp: tryStart_closed)
  qed (simp add: c'_def loop_step_def)
  have frame: "co_stopped c1 = co_stopped c" "co_accepting c1 = co_accepting c" "length (co_jobs c1) = length (co_jobs c)"
    "jb_started (job c1 k) = jb_started (job c k)" if "settled j c c1" for c1
    using that unfolding settled_def by metis+
  from eq show "\<not> co_stopped c'" "\<not> co_accepting c'" "length (co_jobs c') = length (co_jobs c)"
    "jb_started (job c' k) = jb_started (job c k)"
    using c frame by (elim disjE exE conjE; simp)+
qed

lemma expire_all:
  fixes cb :: callbacks
  assumes "co_inv c" and "\<not> co_stopped c" "\<not> co_accepting c"
  defines "c' \<equiv> \<lambda>js. run loop_step c (map (CExpire cb) js)"
  shows "\<not> co_stopped (c' js) \<and> \<not> co_accepting (c' js) \<and> length (co_jobs (c' js)) = length (co_jobs c)
    \<and> (\<forall>j < length (co_jobs c). j \<in> set js \<and> jb_started (job c j) \<or> jb_future (job c j) \<noteq> None
        \<longrightarrow> jb_future (job (c' js) j) \<noteq> None)"
  unfolding c'_def using assms(1-3)
proof (induction js arbitrary: c)
  case (Cons j js)
  let ?c = "loop_step c (CExpire cb j)"
  note e = expire_closed [OF Cons.prems, of cb j]
  have ih: "\<not> co_stopped (run loop_step ?c (map (CExpire cb) js)) \<and> \<not> co_accepting (run loop_step ?c (map (CExpire cb) js))
      \<and> length (co_jobs (run loop_step ?c (map (CExpire cb) js))) = length (co_jobs ?c)
      \<and> (\<forall>k < length (co_jobs ?c). k \<in> set js \<and> jb_started (job ?c k) \<or> jb_future (job ?c k) \<noteq> None
          \<longrightarrow> jb_future (job (run loop_step ?c (map (CExpire cb) js)) k) \<noteq> None)"
    by (rule Cons.IH [OF loop_step_inv [OF Cons.prems(1)] e(1,2)])
  have "k \<in> set js \<and> jb_started (job ?c k) \<or> jb_future (job ?c k) \<noteq> None"
    if "k < length (co_jobs c)" "k \<in> set (j # js) \<and> jb_started (job c k) \<or> jb_future (job c k) \<noteq> None" for k
    using that e(4) [of k] expire_completes [OF Cons.prems(1,2), of k cb] loop_step_later [OF Cons.prems(1)]
      growsD(3) [of c ?c k] by (cases "k = j") (auto simp: later_def)
  then show ?case using ih unfolding list.map run.simps e(3) by blast
qed simp

lemma inflight_open: "co_ok c \<Longrightarrow> \<forall>j < length (co_jobs c). jb_future (job c j) \<noteq> None \<Longrightarrow> co_inflight c = []"
proof (rule ccontr)
  assume ok: "co_ok c" and fin: "\<forall>j < length (co_jobs c). jb_future (job c j) \<noteq> None" and "co_inflight c \<noteq> []"
  then obtain k j where "(k, j) \<in> set (co_inflight c)" by (cases "co_inflight c") auto
  then have "gget (co_inflight c) k = Some j" using gget_in_set [OF tables_wf(1) [OF ok]] by blast
  with inflightD [OF ok] fin show False by blast
qed

lemma drain_open:
  assumes inv: "co_inv c" and c: "\<not> co_stopped c"
  defines "c' \<equiv> loop_step c CDrain"
  shows "\<not> co_stopped c'" "\<not> co_accepting c'" "length (co_jobs c') = length (co_jobs c)"
    "j < length (co_jobs c) \<Longrightarrow> jb_future (job c' j) = None \<Longrightarrow>
       jb_started (job c' j) \<and> running c j \<and> jb_future (job c j) = None"
proof -
  note l = live_run [OF inv c]
  have c': "c' = handle_drain c" using c by (simp add: c'_def loop_step_def)
  note d = drain_step [OF l(1), folded c']
  show s: "\<not> co_stopped c'" "\<not> co_accepting c'" "length (co_jobs c') = length (co_jobs c)" using c d by simp_all
  assume j: "j < length (co_jobs c)" and none: "jb_future (job c' j) = None"
  have inv': "co_inv c'" unfolding c'_def by (rule loop_step_inv [OF inv])
  note l' = live_run [OF inv' s(1)]
  from openD [OF l'(2) _ none] j s(3) inflightD [OF l'(2)] live_exceptD(3) [OF l'(1) s(2)]
  have les: "gget (co_leases c') (job_instance c' j) = Some j" by fastforce
  then have "gget (co_leases c) (job_instance c' j) = Some j" by (simp add: d(4))
  from leaseD [OF l(2) this] leaseD [OF l'(2) les] inflightD [OF l(2)] j
  show "jb_started (job c' j) \<and> running c j \<and> jb_future (job c j) = None" unfolding running_def by blast
qed

section \<open>What the callers rely on\<close>

definition wit_intent :: "AuthInstanceID \<Rightarrow> string \<Rightarrow> Intent" where
  "wit_intent i attempt = \<lparr>in_AuthID = ''auth'', in_Instance = i, in_Generation = 1, in_Class = OperationQuotaRead,
     in_Source = ''manual_refresh'', in_StartedAfter = 0, in_ReadStartSeq = 0, in_AttemptID = attempt,
     in_Token = zero_ExecutionToken, in_Login = 0, in_Fingerprint = zero_CredentialFingerprint, in_Payload = PayloadNil\<rparr>"

definition wit_callbacks :: callbacks where
  "wit_callbacks = \<lparr>cl_Validate = None, cl_Apply = Some (\<lambda>_ _. None), cl_InheritSentUnknown = None, cl_DispatchLogs = False\<rparr>"

definition wit_submits :: "command list" where
  "wit_submits = [CSubmit (wit_intent 7 ''a''), CSubmit (wit_intent 7 ''b'')]"

lemmas loop_eval = wit_intent_def wit_callbacks_def wit_submits_def loop_step_def handle_submit_def Let_def next_nonce_def
  submit_key_def NewCoordinator_def submit_refused_def formalSource_def formal_sources_def add_job_def tryStart_def start_def
  new_job_def upd_job_def emit_def running_def raise_max_def wget_def handle_expire_def release_def inherit_def
  completeFuture_def finishDrains_def handle_result_def with_held_def result_valid_def has_host_logs_def apply_result_def
  finish_valid_def

lemma zero_OperationResult_sel [simp]:
  "op_Token zero_OperationResult = zero_ExecutionToken" "op_CallbackFailed zero_OperationResult = False"
  "op_Journal zero_OperationResult = None" "op_ProbeSendPhase zero_OperationResult = False"
  "op_SuppressUntil zero_OperationResult = ZeroTime"
  by (simp_all add: zero_OperationResult_def)

text \<open>
  C24. One operation per credential instance: whatever commands the loop has handled, two jobs of
  the same instance that have been started and whose futures are still open are the same job
  (INV-05). A job that was cancelled, expired or answered does not count: its future is complete.
\<close>

theorem coordinator_exclusive:
  assumes "c = run loop_step NewCoordinator cmds"
    and j: "running c j" "jb_future (job c j) = None" and k: "running c k" "jb_future (job c k) = None"
    and "job_instance c j = job_instance c k"
  shows "j = k"
proof -
  have inv: "co_inv c" using co_inv_run assms(1) by simp
  with j have "\<not> co_stopped c" by (auto simp: co_inv_def running_def)
  note ok = live_run(2) [OF inv this]
  have lease: "gget (co_leases c) (job_instance c n) = Some n" if "running c n" "jb_future (job c n) = None" for n
    using running_leased(1) [OF ok] openD [OF ok] that by (auto simp: running_def)
  show ?thesis by (rule option.inject [THEN iffD1, OF trans [OF lease [OF j, unfolded assms(6), symmetric] lease [OF k]]])
qed

theorem coordinator_exclusive_witness: "\<not> running (run loop_step NewCoordinator wit_submits) 1"
proof
  let ?c = "run loop_step NewCoordinator wit_submits"
  assume r1: "running ?c 1"
  have "running ?c 0 \<and> jb_future (job ?c 0) = None \<and> jb_future (job ?c 1) = None \<and> job_instance ?c 0 = job_instance ?c 1"
    by (simp add: loop_eval)
  with coordinator_exclusive [OF refl, of wit_submits 0 1] r1 show False by simp
qed

text \<open>
  C26. No result is applied twice and none is applied late: over any run the jobs whose result
  reached \<^verbatim>\<open>Apply\<close> are pairwise distinct, and each of them is complete, neither expired nor
  invalidated, with a result that carries the job's own execution token (INV-07, INV-25).
\<close>

theorem result_applied_once:
  assumes "c = run loop_step NewCoordinator cmds"
  shows "distinct (applied_jobs (co_trace c)) \<and>
    (\<forall>j r. EApply j r \<in> set (co_trace c) \<longrightarrow> j < length (co_jobs c) \<and> jb_future (job c j) \<noteq> None
      \<and> \<not> jb_expired (job c j) \<and> \<not> jb_invalidated (job c j) \<and> op_Token r = in_Token (jb_intent (job c j)))"
  using co_inv_run [of cmds] unfolding co_inv_def tr_ok_def assms by blast

theorem result_applied_once_witness:
  "\<not> jb_expired (job (run loop_step NewCoordinator [CSubmit (wit_intent 7 ''a''), CResult wit_callbacks 0 zero_OperationResult]) 0)"
proof -
  let ?c = "run loop_step NewCoordinator [CSubmit (wit_intent 7 ''a''), CResult wit_callbacks 0 zero_OperationResult]"
  have "0 \<in> set (applied_jobs (co_trace ?c))" by code_simp
  then obtain r where "EApply 0 r \<in> set (co_trace ?c)" unfolding applied_jobs_EApply ..
  with result_applied_once [OF refl, of "[CSubmit (wit_intent 7 ''a''), CResult wit_callbacks 0 zero_OperationResult]"]
  show ?thesis by blast
qed

text \<open>
  C27. No job is forgotten: in every reachable state of a loop that still runs, a job whose future
  is open has been started, or it waits in the queue of its instance, and that queue waits only
  for a started job with an open future, or at its head for the fence a legacy refresh asks for.
\<close>

theorem no_job_lost:
  assumes "c = run loop_step NewCoordinator cmds" and j: "j < length (co_jobs c)" "jb_future (job c j) = None"
  shows "running c j \<or> (\<exists>q. gget (co_queue c) (job_instance c j) = Some q \<and> j \<in> set q
    \<and> ((\<exists>k. gget (co_leases c) (job_instance c j) = Some k \<and> running c k \<and> jb_future (job c k) = None)
       \<or> in_Class (jb_intent (job c (hd q))) = OperationLegacyRefresh
         \<and> wget (co_completedFence c) (job_instance c j) < in_StartedAfter (jb_intent (job c (hd q)))))"
proof -
  let ?i = "job_instance c j"
  have inv: "co_inv c" using co_inv_run assms(1) by simp
  with j have "\<not> co_stopped c" by (auto simp: co_inv_def)
  note l = live_run [OF inv this]
  from inflightD [OF l(2) conjunct1 [OF openD [OF l(2) j]]]
  consider (lease) "gget (co_leases c) ?i = Some j" | (wait) "j \<in> set (queued c ?i)" by blast
  then show ?thesis
  proof cases
    case lease
    from leaseD [OF l(2) this] j(1) show ?thesis by (simp add: running_def)
  next
    case wait
    then obtain q where q: "gget (co_queue c) ?i = Some q" "j \<in> set q" "queued c ?i = q"
      by (cases "gget (co_queue c) ?i") (simp_all add: queued_def)
    have "co_accepting c" using live_exceptD(3) [OF l(1), of ?i] wait by (cases "co_accepting c") simp_all
    with wait live_exceptD(4) [OF l(1), of ?i] q(2,3)
    have "gget (co_leases c) ?i \<noteq> None \<or> in_Class (jb_intent (job c (hd q))) = OperationLegacyRefresh
         \<and> wget (co_completedFence c) ?i < in_StartedAfter (jb_intent (job c (hd q)))"
      by (auto simp: idle_ok_def Let_def)
    moreover have "running c k \<and> jb_future (job c k) = None" if "gget (co_leases c) ?i = Some k" for k
      using leaseD [OF l(2) that] inflightD [OF l(2)] unfolding running_def by blast
    ultimately show ?thesis using q by blast
  qed
qed

theorem no_job_lost_witness:
  "\<exists>q. gget (co_queue (run loop_step NewCoordinator wit_submits)) 7 = Some q \<and> 1 \<in> set q"
proof -
  let ?c = "run loop_step NewCoordinator wit_submits"
  have "1 < length (co_jobs ?c)" "jb_future (job ?c 1) = None" "\<not> running ?c 1" "job_instance ?c 1 = 7" by (simp_all add: loop_eval)
  with no_job_lost [OF refl, of 1 wit_submits] show ?thesis by auto
qed

text \<open>
  C25. \<^verbatim>\<open>CancelInstances\<close> fences the instances it names (INV-28): after it every job submitted before for
  such an instance has a complete future, and in every continuation no result of it is applied
  that was not applied before. As long as nothing activates or restores the instance again, no
  later job of it is open either: nothing runs for a cancelled instance.
\<close>

theorem cancel_fences_instance:
  assumes "c = run loop_step NewCoordinator cmds" and "\<not> co_stopped c" and "i \<in> set is"
    and "c' = run loop_step c (CCancel is # cmds2)"
  shows "(\<forall>j < length (co_jobs c). job_instance c j = i \<longrightarrow>
      jb_future (job c' j) \<noteq> None \<and> (\<forall>r. EApply j r \<in> set (co_trace c') \<longrightarrow> EApply j r \<in> set (co_trace c)))
    \<and> ((\<forall>cmd \<in> set cmds2. \<not> readmits cmd) \<longrightarrow>
      (\<forall>k < length (co_jobs c'). job_instance c' k = i \<longrightarrow> jb_future (job c' k) \<noteq> None))"
proof (intro conjI allI impI)
  have inv: "co_inv c" using co_inv_run assms(1) by simp
  define d where "d = loop_step c (CCancel is)"
  have d: "co_inv d" "gget (co_cancelledThrough d) i \<noteq> None" "c' = run loop_step d cmds2"
    using loop_step_inv [OF inv] cancel_marks [OF inv assms(2,3)] assms(4) by (simp_all add: d_def)
  have q: "quiet c d" using assms(2) cancel_step(2) [OF live_run(1) [OF inv assms(2)]] by (simp add: d_def loop_step_def)
  have la: "later d c'" unfolding d(3) by (rule run_later [OF d(1)])
  fix j assume "j < length (co_jobs c)" "job_instance c j = i"
  with q growsD(1,2) [of c d j] have j: "j < length (co_jobs d)" "job_instance d j = i" by (simp_all add: quiet_def)
  note fd = cancelled_idle [OF d(1,2) j]
  with la growsD(3) [of d c' j] j(1) show "jb_future (job c' j) \<noteq> None" unfolding later_def by auto
  show "EApply j r \<in> set (co_trace c)" if "EApply j r \<in> set (co_trace c')" for r
    using quiet_applied [OF q] la fd j(1) that unfolding later_def by blast
next
  have inv: "co_inv (loop_step c (CCancel is))" using loop_step_inv co_inv_run assms(1) by blast
  have m: "gget (co_cancelledThrough (loop_step c (CCancel is))) i \<noteq> None"
    using cancel_marks co_inv_run assms(1-3) by blast
  fix k assume "\<forall>cmd \<in> set cmds2. \<not> readmits cmd" "k < length (co_jobs c')" "job_instance c' k = i"
  with cancelled_idle [OF command_loop.run_inv [OF inv] run_stays_cancelled [OF inv m]] assms(4)
  show "jb_future (job c' k) \<noteq> None" by simp
qed

theorem cancel_fences_instance_witness:
  "jb_future (job (run loop_step (run loop_step NewCoordinator wit_submits)
     (CCancel [7] # [CSubmit (wit_intent 7 ''d''), CResult wit_callbacks 0 zero_OperationResult])) 1) \<noteq> None"
proof -
  let ?c = "run loop_step NewCoordinator wit_submits"
  have "\<not> co_stopped ?c" "1 < length (co_jobs ?c)" "job_instance ?c 1 = 7" "(7::AuthInstanceID) \<in> set [7]"
    by (simp_all add: loop_eval)
  with cancel_fences_instance [OF refl this(1,4) refl] show ?thesis by blast
qed

text \<open>
  C28. A drain ends once the leases that are held have run out: after \<^verbatim>\<open>Drain\<close>, when the lease timers of
  all jobs that were running have fired, in any order, every future is complete, nothing is in
  flight and no drain is waiting (INV-08).
\<close>

theorem drain_completes:
  assumes "c = run loop_step NewCoordinator cmds" and "\<not> co_stopped c"
    and "\<And>j. running c j \<Longrightarrow> jb_future (job c j) = None \<Longrightarrow> j \<in> set js"
    and "c' = run loop_step c (CDrain # map (CExpire cb) js)"
  shows "(\<forall>j < length (co_jobs c'). jb_future (job c' j) \<noteq> None) \<and> co_inflight c' = [] \<and> co_drains c' = []"
proof -
  have inv: "co_inv c" using co_inv_run assms(1) by simp
  define d where "d = loop_step c CDrain"
  note dr = drain_open [OF inv assms(2), folded d_def]
  have invd: "co_inv d" unfolding d_def by (rule loop_step_inv [OF inv])
  have c': "c' = run loop_step d (map (CExpire cb) js)" using assms(4) by (simp add: d_def)
  have inv': "co_inv c'" unfolding c' by (rule command_loop.run_inv [OF invd])
  note e = expire_all [OF invd dr(1,2), of cb js, folded c']
  have all: "\<forall>j < length (co_jobs c'). jb_future (job c' j) \<noteq> None"
    using e dr(3,4) assms(3) by metis
  have "\<not> co_stopped c'" using e by blast
  from inflight_open [OF live_run(2) [OF inv' this] all] live_run(3) [OF inv' this] all
  show ?thesis by (simp add: drains_ok_def)
qed


theorem drain_completes_witness:
  "co_inflight (run loop_step (run loop_step NewCoordinator wit_submits) (CDrain # map (CExpire wit_callbacks) [0])) = []"
proof -
  let ?c = "run loop_step NewCoordinator wit_submits"
  have c: "\<not> co_stopped ?c" "length (co_jobs ?c) = 2" "\<not> running ?c 1" by (simp_all add: loop_eval)
  have "j \<in> set [0]" if "running ?c j" for j
    using that c by (cases "j = 1") (auto simp: running_def less_2_cases_iff)
  from drain_completes [OF refl c(1) this refl] show ?thesis by blast
qed

end
