(* ===== verification/Typed_Reads.thy ===== *)
theory Typed_Reads
  imports Coordinator_Runs
begin

text \<open>
  The front of \<^verbatim>\<open>coordinator.go\<close>: \<^verbatim>\<open>Submit\<close> with its lifecycle check, and \<^verbatim>\<open>SubmitTyped\<close>, which lets
  callers share a running quota read when it began after the event they want to see.
  A \<^verbatim>\<open>*typedReadEntry\<close> is an index into \<open>tr_entries\<close>.
\<close>

section \<open>The table of reads\<close>

record typedReadEntry =
  te_future :: submit_reply
  te_seq :: uint64
  te_done :: bool
  te_attemptID :: string
  te_class :: OperationClass

record TypedCoordinator =
  tr_loop :: Coordinator
  tr_closing :: bool
  tr_entries :: "typedReadEntry list"
  tr_reads :: "(AuthInstanceID, nat list) gmap"

definition new_TypedCoordinator :: TypedCoordinator where
  "new_TypedCoordinator = \<lparr>tr_loop = NewCoordinator, tr_closing = False, tr_entries = [], tr_reads = []\<rparr>"

abbreviation entry :: "TypedCoordinator \<Rightarrow> nat \<Rightarrow> typedReadEntry" where
  "entry t e \<equiv> tr_entries t ! e"

definition upd_entry :: "nat \<Rightarrow> (typedReadEntry \<Rightarrow> typedReadEntry) \<Rightarrow> TypedCoordinator \<Rightarrow> TypedCoordinator" where
  "upd_entry e f t = t\<lparr>tr_entries := (tr_entries t)[e := f (entry t e)]\<rparr>"

definition closed_result :: OperationResult where
  "closed_result = zero_OperationResult\<lparr>op_Err := Some ErrCoordinatorClosed, op_Disposition := ResultCancelled\<rparr>"

definition Submit :: "Intent \<Rightarrow> TypedCoordinator \<Rightarrow> submit_reply \<times> TypedCoordinator" where
  "Submit intent t =
    (if tr_closing t \<or> co_stopped (tr_loop t) then (Completed closed_result, t)
     else let (reply, c) = handle_submit intent (tr_loop t) in (reply, t\<lparr>tr_loop := c\<rparr>))"

definition isTypedRead :: "OperationClass \<Rightarrow> bool" where
  "isTypedRead class \<longleftrightarrow> class = OperationQuotaRead \<or> class = OperationProbePrecheck \<or> class = OperationProbeVerify"

definition joins :: "Intent \<Rightarrow> typedReadEntry \<Rightarrow> bool" where
  \<comment> \<open>the caller may share this read\<close>
  "joins intent en \<longleftrightarrow>
    (let attemptOK = (in_Class intent = OperationProbeVerify \<longrightarrow> te_attemptID en = [] \<or> te_attemptID en = in_AttemptID intent);
         queuedSameClass = (te_seq en = 0 \<and> in_StartedAfter intent = 0 \<and> te_class en = in_Class intent)
     in \<not> te_done en \<and> (in_StartedAfter intent < te_seq en \<or> queuedSameClass) \<and> attemptOK)"

definition take_nonce :: "TypedCoordinator \<Rightarrow> uint64 \<times> TypedCoordinator" where
  "take_nonce t = (let n = co_typedNonce (tr_loop t) + 1 in (n, t\<lparr>tr_loop := (tr_loop t)\<lparr>co_typedNonce := n\<rparr>\<rparr>))"

definition open_reads :: "AuthInstanceID \<Rightarrow> TypedCoordinator \<Rightarrow> nat list" where
  "open_reads i t = filter (\<lambda>e. \<not> te_done (entry t e)) (case gget (tr_reads t) i of None \<Rightarrow> [] | Some es \<Rightarrow> es)"

definition join_read :: "Intent \<Rightarrow> nat \<Rightarrow> TypedCoordinator \<Rightarrow> submit_reply \<times> TypedCoordinator" where
  "join_read intent e t =
    (te_future (entry t e),
     if in_Class intent = OperationProbeVerify \<and> te_attemptID (entry t e) = []
     then upd_entry e (\<lambda>en. en\<lparr>te_attemptID := in_AttemptID intent\<rparr>) t else t)"

definition new_read :: "Intent \<Rightarrow> nat list \<Rightarrow> TypedCoordinator \<Rightarrow> submit_reply \<times> TypedCoordinator" where
  "new_read intent entries t =
    (let (n, t1) = take_nonce t; e = length (tr_entries t);
         (reply, t2) = Submit (intent\<lparr>in_AttemptID := ''read-'' @ fmt_d (unat n), in_Payload := PayloadTyped (in_Payload intent) e\<rparr>) t1
     in (reply, t2\<lparr>tr_entries := tr_entries t2 @ [\<lparr>te_future = reply, te_seq = 0, te_done = False,
            te_attemptID = in_AttemptID intent, te_class = in_Class intent\<rparr>],
          tr_reads := gput (in_Instance intent) (entries @ [e]) (tr_reads t2)\<rparr>))"

definition SubmitTyped :: "Intent \<Rightarrow> TypedCoordinator \<Rightarrow> submit_reply \<times> TypedCoordinator" where
  "SubmitTyped intent t =
    (if isTypedRead (in_Class intent) then
       let entries = open_reads (in_Instance intent) t; t1 = t\<lparr>tr_reads := gput (in_Instance intent) entries (tr_reads t)\<rparr>
       in case List.find (\<lambda>e. joins intent (entry t e)) entries of
            Some e \<Rightarrow> join_read intent e t1
          | None \<Rightarrow> new_read intent entries t1
     else if in_Class intent = OperationProbeSend then
       let (n, t1) = take_nonce t in Submit (intent\<lparr>in_AttemptID := in_AttemptID intent @ ''#'' @ fmt_d (unat n)\<rparr>) t1
     else Submit intent t)"

section \<open>The other methods\<close>

definition send :: "command \<Rightarrow> TypedCoordinator \<Rightarrow> TypedCoordinator" where
  \<comment> \<open>a command the loop handles, unless it is closing or has ended\<close>
  "send cmd t = (if tr_closing t then t else t\<lparr>tr_loop := loop_step (tr_loop t) cmd\<rparr>)"

definition clear_instance :: "AuthInstanceID \<Rightarrow> TypedCoordinator \<Rightarrow> TypedCoordinator" where
  "clear_instance i t =
    (let es = (case gget (tr_reads t) i of None \<Rightarrow> [] | Some es \<Rightarrow> es);
         t1 = fold (\<lambda>e. upd_entry e (\<lambda>en. en\<lparr>te_done := True\<rparr>)) es t
     in t1\<lparr>tr_reads := gdel i (tr_reads t1)\<rparr>)"

definition clearTypedReads :: "AuthInstanceID list \<Rightarrow> TypedCoordinator \<Rightarrow> TypedCoordinator" where
  "clearTypedReads ids t = fold clear_instance ids t"

definition CancelInstances :: "AuthInstanceID list \<Rightarrow> TypedCoordinator \<Rightarrow> TypedCoordinator" where
  "CancelInstances instances t =
    (if instances = [] \<or> tr_closing t \<or> co_stopped (tr_loop t) then t
     else clearTypedReads instances (send (CCancel instances) t))"

definition suspendInstancesForRollback ::
  "AuthInstanceID list \<Rightarrow> TypedCoordinator \<Rightarrow> (AuthInstanceID, uint64) gmap \<times> TypedCoordinator" where
  "suspendInstancesForRollback instances t =
    (if instances = [] \<or> tr_closing t \<or> co_stopped (tr_loop t) then ([], t)
     else (fst (handle_cancel instances (tr_loop t)), clearTypedReads instances (send (CCancel instances) t)))"

definition activateInstances :: "(AuthInstanceID, TierGeneration) gmap \<Rightarrow> TypedCoordinator \<Rightarrow> TypedCoordinator" where
  "activateInstances generations t = (if generations = [] then t else send (CActivate generations) t)"

definition restoreCancelledInstances ::
  "(AuthInstanceID, TierGeneration) gmap \<Rightarrow> (AuthInstanceID, uint64) gmap \<Rightarrow> TypedCoordinator \<Rightarrow> TypedCoordinator" where
  "restoreCancelledInstances generations tokens t = (if generations = [] then t else send (CRestore generations tokens) t)"

definition PublishSnapshot :: "TypedCoordinator \<Rightarrow> CoordinatorSnapshot" where
  "PublishSnapshot t =
    (if tr_closing t \<or> co_stopped (tr_loop t)
     then \<lparr>cs_Accepting = False, cs_InFlight = 0, cs_Queued = 0, cs_LeasedInstances = []\<rparr>
     else coordinator_snapshot (tr_loop t))"

definition coordinator_Close :: "TypedCoordinator \<Rightarrow> TypedCoordinator" where
  \<comment> \<open>a drain that does not wait, then the loop ends; the loop may also see the end first, as \<open>CClosed\<close> alone\<close>
  "coordinator_Close t =
    (if tr_closing t then t
     else t\<lparr>tr_closing := True, tr_loop := loop_step (loop_step (tr_loop t) CDrain) CClosed\<rparr>)"

section \<open>The system of callers, reads and loop\<close>

datatype (plugins only: code size) typed_event =
    TSubmit Intent
  | TLoop command
  | TBegin nat uint64      \<comment> \<open>a started job takes its sequence number from \<^verbatim>\<open>AllocateReadSeq\<close>\<close>
  | TEnd nat               \<comment> \<open>its execution ends and the entry is marked done\<close>
  | TCancel "AuthInstanceID list"
  | TClose

definition begin_typed :: "nat \<Rightarrow> uint64 \<Rightarrow> TypedCoordinator \<Rightarrow> TypedCoordinator" where
  "begin_typed j seq t =
    (case in_Payload (jb_intent (job (tr_loop t) j)) of
       PayloadTyped v e \<Rightarrow> upd_entry e (\<lambda>en. en\<lparr>te_seq := seq\<rparr>) (t\<lparr>tr_loop := loop_step (tr_loop t) (CBeginRead j seq)\<rparr>)
     | _ \<Rightarrow> t)"

fun typed_step :: "TypedCoordinator \<times> uint64 \<Rightarrow> typed_event \<Rightarrow> TypedCoordinator \<times> uint64" where
  \<comment> \<open>the number is the largest sequence number issued; \<^verbatim>\<open>AllocateReadSeq\<close> issues larger and larger ones\<close>
  "typed_step (t, issued) (TSubmit intent) = (snd (SubmitTyped intent t), issued)"
| "typed_step (t, issued) (TLoop cmd) = (t\<lparr>tr_loop := loop_step (tr_loop t) cmd\<rparr>, issued)"
| "typed_step (t, issued) (TBegin j seq) =
     (if issued < seq then (if running (tr_loop t) j then begin_typed j seq t else t, seq) else (t, issued))"
| "typed_step (t, issued) (TEnd e) = (upd_entry e (\<lambda>en. en\<lparr>te_done := True\<rparr>) t, issued)"
| "typed_step (t, issued) (TCancel ids) = (CancelInstances ids t, issued)"
| "typed_step (t, issued) TClose = (coordinator_Close t, issued)"

section \<open>Entries only move forward\<close>

definition entry_ok :: "uint64 \<Rightarrow> typedReadEntry \<Rightarrow> typedReadEntry \<Rightarrow> bool" where
  "entry_ok b en en' \<longleftrightarrow> te_future en' = te_future en \<and> (te_seq en' = te_seq en \<or> b < te_seq en')"

definition entries_ok :: "uint64 \<Rightarrow> TypedCoordinator \<Rightarrow> TypedCoordinator \<Rightarrow> bool" where
  "entries_ok b t t' \<longleftrightarrow> length (tr_entries t) \<le> length (tr_entries t')
     \<and> (\<forall>e < length (tr_entries t). entry_ok b (entry t e) (entry t' e))"

definition reads_ok :: "TypedCoordinator \<Rightarrow> bool" where
  "reads_ok t \<longleftrightarrow> (\<forall>i es. gget (tr_reads t) i = Some es \<longrightarrow> (\<forall>e \<in> set es. e < length (tr_entries t)))"

lemma entries_ok_refl: "tr_entries t' = tr_entries t \<Longrightarrow> entries_ok b t t'"
  by (simp add: entries_ok_def entry_ok_def)

lemma entries_ok_trans: "entries_ok b t t' \<Longrightarrow> entries_ok b t' t'' \<Longrightarrow> entries_ok b t t''"
  unfolding entries_ok_def entry_ok_def by (metis order.strict_trans2 order.trans)

lemma upd_entry_sel [simp]:
  "length (tr_entries (upd_entry e f t)) = length (tr_entries t)" "tr_reads (upd_entry e f t) = tr_reads t"
  "tr_loop (upd_entry e f t) = tr_loop t"
  by (simp_all add: upd_entry_def)

lemma upd_entry_ok: "(\<And>en. entry_ok b en (f en)) \<Longrightarrow> entries_ok b t (upd_entry e f t)"
  by (cases "e < length (tr_entries t)")
    (auto simp: entries_ok_def upd_entry_def nth_list_update entry_ok_def list_update_beyond not_less)

lemma fold_upd_entry_ok:
  assumes "\<And>en. entry_ok b en (f en)"
  shows "entries_ok b t (fold (\<lambda>e. upd_entry e f) es t) \<and> tr_reads (fold (\<lambda>e. upd_entry e f) es t) = tr_reads t
    \<and> length (tr_entries (fold (\<lambda>e. upd_entry e f) es t)) = length (tr_entries t)"
proof (induction es arbitrary: t)
  case (Cons e es)
  from Cons [of "upd_entry e f t"] entries_ok_trans [OF upd_entry_ok [OF assms], of e t "fold (\<lambda>e. upd_entry e f) es (upd_entry e f t)"]
  show ?case by simp
qed (simp add: entries_ok_refl)

lemma Submit_sel:
  assumes "Submit intent t = (reply, t')"
  shows "tr_entries t' = tr_entries t" "tr_reads t' = tr_reads t"
  using assms by (auto simp: Submit_def split: if_splits prod.splits)

lemma take_nonce_sel:
  assumes "take_nonce t = (n, t')"
  shows "tr_entries t' = tr_entries t" "tr_reads t' = tr_reads t"
  using assms by (auto simp: take_nonce_def Let_def)

lemma reads_ok_gput:
  "reads_ok t \<Longrightarrow> \<forall>e \<in> set es. e < length (tr_entries t') \<Longrightarrow> length (tr_entries t) \<le> length (tr_entries t') \<Longrightarrow>
    tr_reads t' = gput i es (tr_reads t) \<Longrightarrow> reads_ok t'"
  by (fastforce simp: reads_ok_def go_simps split: if_splits)

lemma open_reads_lt:
  assumes "reads_ok t" and "e \<in> set (open_reads i t)"
  shows "e < length (tr_entries t) \<and> \<not> te_done (entry t e)"
  using assms by (cases "gget (tr_reads t) i") (auto simp: open_reads_def reads_ok_def)

lemma new_read_ok:
  assumes "reads_ok t" and "\<forall>e \<in> set es. e < length (tr_entries t)" and "new_read intent es t = (reply, t')"
  shows "entries_ok b t t'" and "reads_ok t'"
    and "\<exists>e < length (tr_entries t'). te_future (entry t' e) = reply \<and> te_seq (entry t' e) = 0"
proof -
  obtain n t1 where n: "take_nonce t = (n, t1)" by (rule prod.exhaust)
  obtain r t2 where s: "Submit (intent\<lparr>in_AttemptID := ''read-'' @ fmt_d (unat n),
      in_Payload := PayloadTyped (in_Payload intent) (length (tr_entries t))\<rparr>) t1 = (r, t2)" by (rule prod.exhaust)
  have eq: "tr_entries t2 = tr_entries t" "tr_reads t2 = tr_reads t"
    using Submit_sel [OF s] take_nonce_sel [OF n] by simp_all
  from assms(3) n s eq have t': "reply = r" "tr_entries t' = tr_entries t @ [\<lparr>te_future = r, te_seq = 0, te_done = False,
      te_attemptID = in_AttemptID intent, te_class = in_Class intent\<rparr>]"
    "tr_reads t' = gput (in_Instance intent) (es @ [length (tr_entries t)]) (tr_reads t)"
    by (auto simp: new_read_def Let_def)
  show "entries_ok b t t'" by (simp add: entries_ok_def t' nth_append entry_ok_def)
  show "reads_ok t'" by (rule reads_ok_gput [OF assms(1) _ _ t'(3)]) (use assms(2) in \<open>auto simp: t'\<close>)
  show "\<exists>e < length (tr_entries t'). te_future (entry t' e) = reply \<and> te_seq (entry t' e) = 0"
    by (rule exI [of _ "length (tr_entries t)"]) (simp add: t')
qed

lemma join_read_ok:
  assumes "reads_ok t" and "e < length (tr_entries t)" and "join_read intent e t = (reply, t')"
  shows "entries_ok b t t'" and "reads_ok t'" and "te_future (entry t' e) = reply \<and> te_seq (entry t' e) = te_seq (entry t e)"
proof -
  have eq: "t' = t \<or> t' = upd_entry e (\<lambda>en. en\<lparr>te_attemptID := in_AttemptID intent\<rparr>) t" "reply = te_future (entry t e)"
    using assms(3) by (auto simp: join_read_def split: if_splits)
  have "entries_ok b t (upd_entry e (\<lambda>en. en\<lparr>te_attemptID := in_AttemptID intent\<rparr>) t)"
    by (rule upd_entry_ok) (simp add: entry_ok_def)
  with eq(1) show "entries_ok b t t'" by (auto intro: entries_ok_refl)
  show "reads_ok t'" using eq(1) assms(1) by (auto simp: reads_ok_def)
  show "te_future (entry t' e) = reply \<and> te_seq (entry t' e) = te_seq (entry t e)"
    using eq assms(2) by (auto simp: upd_entry_def)
qed

lemma SubmitTyped_read:
  assumes "reads_ok t" and "isTypedRead (in_Class intent)" and "SubmitTyped intent t = (reply, t')"
  shows "entries_ok b t t'" and "reads_ok t'"
    and "\<exists>e < length (tr_entries t'). te_future (entry t' e) = reply
      \<and> (te_seq (entry t' e) = 0 \<or> in_StartedAfter intent < te_seq (entry t' e))"
proof -
  let ?es = "open_reads (in_Instance intent) t"
  let ?t = "t\<lparr>tr_reads := gput (in_Instance intent) ?es (tr_reads t)\<rparr>"
  have lt: "\<forall>e \<in> set ?es. e < length (tr_entries t)" using open_reads_lt [OF assms(1)] by blast
  have ok: "reads_ok ?t" by (rule reads_ok_gput [OF assms(1)]) (use lt in simp_all)
  have "entries_ok b t t' \<and> reads_ok t' \<and> (\<exists>e < length (tr_entries t'). te_future (entry t' e) = reply
      \<and> (te_seq (entry t' e) = 0 \<or> in_StartedAfter intent < te_seq (entry t' e)))"
  proof (cases "List.find (\<lambda>e. joins intent (entry t e)) ?es")
    case None
    then have n: "new_read intent ?es ?t = (reply, t')" using assms(2,3) by (simp add: SubmitTyped_def Let_def)
    have "\<forall>e \<in> set ?es. e < length (tr_entries ?t)" using lt by simp
    from new_read_ok [OF ok this n] show ?thesis by (auto simp: entries_ok_def)
  next
    case (Some e)
    then have j: "join_read intent e ?t = (reply, t')" using assms(2,3) by (simp add: SubmitTyped_def Let_def)
    from Some have e: "e \<in> set ?es" "joins intent (entry t e)" by (auto simp: find_Some_iff)
    with lt have l: "e < length (tr_entries ?t)" by simp
    note r = join_read_ok [OF ok l j]
    from r(1) [of b] l have "e < length (tr_entries t')" by (simp add: entries_ok_def)
    moreover have "te_seq (entry t e) = 0 \<or> in_StartedAfter intent < te_seq (entry t e)" using e(2) by (auto simp: joins_def Let_def)
    ultimately show ?thesis using r(1) [of b] r(2,3) by (auto simp: entries_ok_def)
  qed
  then show "entries_ok b t t'" "reads_ok t'" "\<exists>e < length (tr_entries t'). te_future (entry t' e) = reply
      \<and> (te_seq (entry t' e) = 0 \<or> in_StartedAfter intent < te_seq (entry t' e))" by blast+
qed

lemma SubmitTyped_other:
  assumes "\<not> isTypedRead (in_Class intent)"
  shows "tr_entries (snd (SubmitTyped intent t)) = tr_entries t" "tr_reads (snd (SubmitTyped intent t)) = tr_reads t"
proof -
  obtain n t1 where n: "take_nonce t = (n, t1)" by (rule prod.exhaust)
  have s: "tr_entries (snd (Submit intent t)) = tr_entries t" "tr_reads (snd (Submit intent t)) = tr_reads t" for intent t
    using Submit_sel [of intent t] by (metis prod.collapse)+
  show "tr_entries (snd (SubmitTyped intent t)) = tr_entries t" "tr_reads (snd (SubmitTyped intent t)) = tr_reads t"
    using assms take_nonce_sel [OF n] by (simp_all add: SubmitTyped_def n s)
qed

lemma clear_instance_ok: "entries_ok b t (clear_instance i t)" "reads_ok t \<Longrightarrow> reads_ok (clear_instance i t)"
proof -
  define es where "es = (case gget (tr_reads t) i of None \<Rightarrow> [] | Some es \<Rightarrow> es)"
  have "entry_ok b en (en\<lparr>te_done := True\<rparr>)" for en by (simp add: entry_ok_def)
  note f = fold_upd_entry_ok [OF this, of t es]
  show "entries_ok b t (clear_instance i t)"
    using f by (simp add: clear_instance_def Let_def es_def [symmetric] entries_ok_def)
  show "reads_ok t \<Longrightarrow> reads_ok (clear_instance i t)"
    using f by (simp add: clear_instance_def Let_def es_def [symmetric] reads_ok_def go_simps)
qed

lemma clear_ok: "reads_ok t \<Longrightarrow> entries_ok b t (clearTypedReads is t) \<and> reads_ok (clearTypedReads is t)"
  unfolding clearTypedReads_def
proof (induction "is" arbitrary: t)
  case (Cons i "is")
  from Cons.IH [OF clear_instance_ok(2) [OF Cons.prems], of i]
    entries_ok_trans [OF clear_instance_ok(1), of b i t "fold clear_instance is (clear_instance i t)"]
  show ?case by simp
qed (simp add: entries_ok_refl)

lemma typed_step_ok:
  assumes "reads_ok t" and "b \<le> issued" and "typed_step (t, issued) ev = (t', issued')"
  shows "entries_ok b t t' \<and> reads_ok t' \<and> b \<le> issued'"
proof (cases ev)
  case (TSubmit intent)
  with assms have eq: "t' = snd (SubmitTyped intent t)" "issued' = issued" by simp_all
  show ?thesis
  proof (cases "isTypedRead (in_Class intent)")
    case True
    have "SubmitTyped intent t = (fst (SubmitTyped intent t), t')" by (simp add: eq)
    from SubmitTyped_read(1,2) [OF assms(1) True this] assms(2) eq(2) show ?thesis by simp
  next
    case False
    from SubmitTyped_other [OF False, of t] assms(1,2) eq show ?thesis by (simp add: entries_ok_refl reads_ok_def)
  qed
next
  case (TBegin j seq)
  have "entries_ok b t (begin_typed j seq t) \<and> reads_ok (begin_typed j seq t)" if "b < seq"
  proof (cases "in_Payload (jb_intent (job (tr_loop t) j))")
    case (PayloadTyped v e)
    have "entries_ok b (t\<lparr>tr_loop := c\<rparr>) (upd_entry e (\<lambda>en. en\<lparr>te_seq := seq\<rparr>) (t\<lparr>tr_loop := c\<rparr>))" for c
      by (rule upd_entry_ok) (simp add: entry_ok_def that)
    then show ?thesis using assms(1) by (simp add: begin_typed_def PayloadTyped entries_ok_def reads_ok_def)
  qed (use assms(1) in \<open>simp_all add: begin_typed_def entries_ok_refl\<close>)
  then show ?thesis using TBegin assms by (auto simp: entries_ok_refl split: if_splits)
next
  case (TEnd e)
  have "entries_ok b t (upd_entry e (\<lambda>en. en\<lparr>te_done := True\<rparr>) t)" by (rule upd_entry_ok) (simp add: entry_ok_def)
  with TEnd assms show ?thesis by (auto simp: reads_ok_def)
next
  case (TCancel ids)
  have s: "tr_entries (send cmd t) = tr_entries t" "tr_reads (send cmd t) = tr_reads t" for cmd by (simp_all add: send_def)
  then have "reads_ok (send (CCancel ids) t)" using assms(1) by (simp add: reads_ok_def)
  from clear_ok [OF this, of b ids] s have "entries_ok b t (CancelInstances ids t) \<and> reads_ok (CancelInstances ids t)"
    using assms(1) by (auto simp: CancelInstances_def entries_ok_def entry_ok_def)
  with TCancel assms show ?thesis by auto
qed (use assms in \<open>auto simp: coordinator_Close_def entries_ok_refl reads_ok_def split: if_splits\<close>)

lemma typed_run_ok:
  assumes "reads_ok t" and "b \<le> issued" and "run typed_step (t, issued) evs = (t', issued')"
  shows "entries_ok b t t' \<and> reads_ok t' \<and> b \<le> issued'"
  using assms
proof (induction evs arbitrary: t issued)
  case (Cons ev evs)
  obtain t1 n where s: "typed_step (t, issued) ev = (t1, n)" by (rule prod.exhaust)
  from typed_step_ok [OF Cons.prems(1,2) s] have o: "entries_ok b t t1" "reads_ok t1" "b \<le> n" by simp_all
  from Cons.IH [OF o(2,3)] Cons.prems(3) s entries_ok_trans [OF o(1), of t'] show ?case by simp
qed (simp add: entries_ok_refl)

lemma reads_ok_new: "reads_ok new_TypedCoordinator"
  by (simp add: reads_ok_def new_TypedCoordinator_def)

section \<open>The read barrier\<close>

definition typed_init :: "TypedCoordinator \<times> uint64" where
  "typed_init = (new_TypedCoordinator, 0)"

text \<open>
  C29. The barrier of shared reads: a caller of \<^verbatim>\<open>SubmitTyped\<close> that asks for a quota read started after a
  sequence number that has been issued gets the future of an entry that, at every later moment,
  has not begun or has begun with a larger number. So nobody is handed a read that began before
  the event to be observed, whatever reads run, end or are cancelled around it (INV-06). That
  \<^verbatim>\<open>AllocateReadSeq\<close> issues increasing numbers is what the fence allocator guarantees.
\<close>

theorem shared_read_barrier:
  assumes "run typed_step typed_init evs = (t, issued)" and "in_StartedAfter intent \<le> issued"
    and "isTypedRead (in_Class intent)" and "SubmitTyped intent t = (reply, t')"
    and "run typed_step (t', issued) evs2 = (t2, issued2)"
  shows "\<exists>e < length (tr_entries t2). te_future (entry t2 e) = reply
    \<and> (te_seq (entry t2 e) = 0 \<or> in_StartedAfter intent < te_seq (entry t2 e))"
proof -
  have "reads_ok t" using typed_run_ok [OF reads_ok_new order.refl] assms(1) by (simp add: typed_init_def)
  note r = SubmitTyped_read [OF this assms(3,4)]
  from r(3) obtain e where e: "e < length (tr_entries t')" "te_future (entry t' e) = reply"
    "te_seq (entry t' e) = 0 \<or> in_StartedAfter intent < te_seq (entry t' e)" by blast
  from typed_run_ok [OF r(2) assms(2,5)] have k: "entries_ok (in_StartedAfter intent) t' t2" by blast
  then have "e < length (tr_entries t2)" "entry_ok (in_StartedAfter intent) (entry t' e) (entry t2 e)"
    using e(1) by (simp_all add: entries_ok_def)
  with e(2,3) show ?thesis by (auto simp: entry_ok_def)
qed

definition wit_read :: "uint64 \<Rightarrow> Intent" where
  "wit_read after = (wit_intent 7 [])\<lparr>in_StartedAfter := after\<rparr>"

theorem shared_read_barrier_witness:
  "let (t, issued) = run typed_step typed_init [TSubmit (wit_read 0), TBegin 0 5]; (reply, t') = SubmitTyped (wit_read 3) t
   in \<exists>e < length (tr_entries t'). te_future (entry t' e) = reply \<and> (te_seq (entry t' e) = 0 \<or> 3 < te_seq (entry t' e))"
proof -
  obtain t issued where t: "run typed_step typed_init [TSubmit (wit_read 0), TBegin 0 5] = (t, issued)" by (rule prod.exhaust)
  obtain reply t' where s: "SubmitTyped (wit_read 3) t = (reply, t')" by (rule prod.exhaust)
  have "issued = 5" using t by (auto simp: typed_init_def)
  then have "in_StartedAfter (wit_read 3) \<le> issued" "isTypedRead (in_Class (wit_read 3))" "in_StartedAfter (wit_read 3) = 3"
    by (simp_all add: wit_read_def wit_intent_def isTypedRead_def)
  with shared_read_barrier [OF t this(1,2) s, of "[]"] s t show ?thesis by simp
qed

section \<open>A refused read is handed out again\<close>

lemma refused_read_stays:
  assumes "isTypedRead (in_Class intent)" and "open_reads (in_Instance intent) t = e # es"
    and "te_seq (entry t e) = 0" "\<not> te_done (entry t e)" "te_class (entry t e) = in_Class intent"
    and "in_StartedAfter intent = 0" and "in_Class intent = OperationProbeVerify \<longrightarrow> te_attemptID (entry t e) = in_AttemptID intent"
  shows "fst (SubmitTyped intent t) = te_future (entry t e) \<and> tr_loop (snd (SubmitTyped intent t)) = tr_loop t"
proof -
  have "joins intent (entry t e)" using assms by (auto simp: joins_def)
  with assms(1,2) show ?thesis by (simp add: SubmitTyped_def join_read_def Let_def)
qed

definition refused_history :: TypedCoordinator where
  \<comment> \<open>suspended for a rollback, asked for a read, restored\<close>
  "refused_history =
    (let (tokens, t1) = suspendInstancesForRollback [7] new_TypedCoordinator; (_, t2) = SubmitTyped (wit_read 0) t1
     in restoreCancelledInstances [(7, 0)] tokens t2)"

lemma refused_read_poisons:
  "gget (co_cancelledThrough (tr_loop refused_history)) 7 = None \<and>
   (case fst (SubmitTyped (wit_read 0) refused_history) of
      Completed r \<Rightarrow> op_Err r = Some ErrCoordinatorDraining | Pending j \<Rightarrow> False)"
  by code_simp

end
