(* ===== verification/Probe.thy ===== *)
theory Probe
  imports Coordinator
begin

text \<open>
  The reset probe: the window helpers of \<^verbatim>\<open>probe.go\<close>, the classification of an observed window
  against its baseline (\<^verbatim>\<open>probe_classify.go\<close>) and the state machine of the probe windows
  (\<^verbatim>\<open>probe_state.go\<close>). Iterating over a Go map is iterating over the association list, so every
  statement about \<^verbatim>\<open>Advance\<close> holds for each iteration order.
\<close>

section \<open>Windows\<close>

abbreviation (input) resetProbeAfterResetDelay :: duration where "resetProbeAfterResetDelay \<equiv> 10 * Minute"
abbreviation (input) resetProbeCloseThreshold :: duration where "resetProbeCloseThreshold \<equiv> 3 * Minute"
abbreviation (input) probeSkewTolerance :: duration where "probeSkewTolerance \<equiv> 120 * Second"
abbreviation (input) probeMaxPlausibleWindow :: duration where "probeMaxPlausibleWindow \<equiv> 120 * 24 * Hour"
abbreviation (input) probeUnknownResetRecheck :: duration where "probeUnknownResetRecheck \<equiv> 30 * Minute"
abbreviation (input) probeRefreshAfterResetDelay :: duration where "probeRefreshAfterResetDelay \<equiv> Minute"

definition absDuration :: "duration \<Rightarrow> duration" where
  "absDuration d = (if d < 0 then wrap64 (- d) else d)"

definition probeWindowDuration :: "QuotaWindow \<Rightarrow> duration option" where
  "probeWindowDuration window =
    (let by_kind = (case qw_Kind window of WindowFiveHour \<Rightarrow> Some (5 * Hour) | WindowWeekly \<Rightarrow> Some (7 * 24 * Hour) | _ \<Rightarrow> None)
     in case qw_LimitWindowSeconds window of
          Some s \<Rightarrow> if 0 < s then Some (wrap64 (s * Second)) else by_kind
        | None \<Rightarrow> by_kind)"

definition firstObservationLazyWindow :: "time \<Rightarrow> QuotaWindow \<Rightarrow> duration \<times> bool" where
  "firstObservationLazyWindow now window =
    (if qw_UsedPercent window \<noteq> Some 0 \<or> IsZero (qw_ResetAt window) then (0, False)
     else case probeWindowDuration window of
            None \<Rightarrow> (0, False)
          | Some d \<Rightarrow> if d \<le> 0 then (0, False)
                      else (d, absDuration (Sub (qw_ResetAt window) (Add now d)) \<le> resetProbeCloseThreshold))"

definition resetProbeCandidateWindows :: "ParsedQuota \<Rightarrow> QuotaWindow list" where
  "resetProbeCandidateWindows quota =
    (case pq_FiveHour quota of None \<Rightarrow> [] | Some w \<Rightarrow> [w]) @ (case pq_LongWindow quota of None \<Rightarrow> [] | Some w \<Rightarrow> [w])"

definition schedule_probe ::
  "time \<Rightarrow> QuotaWindow \<Rightarrow> (WindowKind, ResetProbeState) gmap \<Rightarrow> (WindowKind, ResetProbeState) gmap" where
  "schedule_probe now window probes =
    (case probeWindowDuration window of
       None \<Rightarrow> probes
     | Some d \<Rightarrow>
         if d \<le> 0 \<or> IsZero (qw_ResetAt window) \<or> After (qw_ResetAt window) now then probes
         else if (case gget probes (qw_Kind window) of None \<Rightarrow> False | Some existing \<Rightarrow> rp_ResetAt existing = qw_ResetAt window)
         then probes
         else gput (qw_Kind window)
           \<lparr>rp_WindowKind = qw_Kind window, rp_WindowSeconds = d div Second, rp_ResetAt = qw_ResetAt window,
            rp_NextCheckAt = Add (qw_ResetAt window) resetProbeAfterResetDelay, rp_LastProbeAt = ZeroTime,
            rp_VerifiedAt = ZeroTime, rp_Attempts = 0, rp_Status = ResetProbeStatusPending, rp_Error = []\<rparr> probes)"

definition scheduleResetProbesFromPrevious ::
  "AccountState \<Rightarrow> (WindowKind, ResetProbeState) gmap \<Rightarrow> time \<Rightarrow> (WindowKind, ResetProbeState) gmap" where
  "scheduleResetProbesFromPrevious previous current now =
    fold (schedule_probe now) (resetProbeCandidateWindows (as_Quota previous)) (cloneResetProbes current)"

definition matchingProbeWindow :: "ParsedQuota \<Rightarrow> ResetProbeState \<Rightarrow> QuotaWindow option" where
  "matchingProbeWindow quota probe =
    List.find (\<lambda>w. rp_WindowKind probe = WindowKindEmpty \<or> qw_Kind w = rp_WindowKind probe) (resetProbeCandidateWindows quota)"

definition markResetProbeConfirmedActive :: "ResetProbeState \<Rightarrow> ResetProbeState" where
  "markResetProbeConfirmedActive probe = probe\<lparr>rp_Status := ResetProbeStatusConfirmedActive, rp_Error := []\<rparr>"

definition markResetProbeVerified :: "ResetProbeState \<Rightarrow> time \<Rightarrow> ResetProbeState" where
  "markResetProbeVerified probe now =
    probe\<lparr>rp_Status := ResetProbeStatusVerified, rp_LastProbeAt := now, rp_VerifiedAt := now, rp_Error := []\<rparr>"

definition markResetProbeRetry :: "ResetProbeState \<Rightarrow> time \<Rightarrow> string option \<Rightarrow> (string \<Rightarrow> string) \<Rightarrow> Config \<Rightarrow> ResetProbeState" where
  \<comment> \<open>\<open>redact\<close> removes the credentials from an error message\<close>
  "markResetProbeRetry probe0 now err redact cfg =
    (let probe = probe0\<lparr>rp_LastProbeAt := now, rp_Attempts := rp_Attempts probe0 + 1,
           rp_Error := (case err of None \<Rightarrow> [] | Some e \<Rightarrow> redact e)\<rparr>;
         delays = cfg_RefreshRetryDelays (NormalizeConfig cfg)
     in if delays = [] \<or> int (length delays) < rp_Attempts probe
        then probe\<lparr>rp_Status := ResetProbeStatusFailed, rp_NextCheckAt := ZeroTime\<rparr>
        else probe\<lparr>rp_Status := ResetProbeStatusPending,
               rp_NextCheckAt := Add now (delays ! nat (rp_Attempts probe - 1))\<rparr>)"

definition looksLikeLazyReset :: "time \<Rightarrow> QuotaWindow \<Rightarrow> int \<Rightarrow> bool" where
  "looksLikeLazyReset now window windowSeconds \<longleftrightarrow> 0 < windowSeconds \<and> \<not> IsZero (qw_ResetAt window)
     \<and> absDuration (Sub (qw_ResetAt window) (Add now (wrap64 (windowSeconds * Second)))) \<le> resetProbeCloseThreshold"

fun jsonNumberPathPositive :: "go_any \<Rightarrow> string list \<Rightarrow> bool" where
  "jsonNumberPathPositive (AFloat v) [] = (v > 0)"
| "jsonNumberPathPositive _ [] = False"
| "jsonNumberPathPositive (AMap m) (key # path) = (case gget m key of None \<Rightarrow> False | Some v \<Rightarrow> jsonNumberPathPositive v path)"
| "jsonNumberPathPositive _ (key # path) = False"

definition usage_paths :: "string list list" where
  "usage_paths = (let fields = [''total_tokens'', ''prompt_tokens'', ''input_tokens'', ''completion_tokens'', ''output_tokens'']
     in map (\<lambda>f. [''usage'', f]) fields @ map (\<lambda>f. [''response'', ''usage'', f]) fields)"

definition resetProbeUsageEvidence :: "(string, go_any) gmap option \<Rightarrow> bool" where
  \<comment> \<open>the argument is the decoded body, \<open>None\<close> when it is not a JSON object\<close>
  "resetProbeUsageEvidence doc =
    (case doc of None \<Rightarrow> False | Some m \<Rightarrow> list_ex (jsonNumberPathPositive (AMap m)) usage_paths)"

section \<open>Classification\<close>

definition zero_ProbeBaseline :: ProbeBaseline where
  "zero_ProbeBaseline = \<lparr>pb_Kind = ProbeBaselineNone, pb_WindowKind = WindowKindEmpty, pb_ResetAt = ZeroTime, pb_Usage = 0,
     pb_NextRecheckAt = ZeroTime, pb_WindowLength = 0, pb_CandidateLength = 0, pb_StableIntervals = 0, pb_SuspectedLazy = False\<rparr>"

definition ResetProbeBaseline :: "time \<Rightarrow> float64 \<Rightarrow> duration \<Rightarrow> ProbeBaseline" where
  "ResetProbeBaseline reset usage len =
    zero_ProbeBaseline\<lparr>pb_Kind := ProbeBaselineReset, pb_ResetAt := reset, pb_Usage := usage, pb_WindowLength := len\<rparr>"

definition UsageOnlyProbeBaseline :: "float64 \<Rightarrow> time \<Rightarrow> ProbeBaseline" where
  "UsageOnlyProbeBaseline usage nxt =
    zero_ProbeBaseline\<lparr>pb_Kind := ProbeBaselineUsageOnly, pb_Usage := usage, pb_NextRecheckAt := nxt\<rparr>"

record QuotaSnapshot =
  qs_Valid :: bool
  qs_ResetAt :: "time option"
  qs_Usage :: "float64 option"
  qs_WindowKind :: WindowKind
  qs_WindowLength :: duration
  qs_WindowLengthKnown :: bool

datatype ProbeClassificationKind =
    ProbeInvalid
  | ProbeActivatedNew
  | ProbeActivatedInferred
  | ProbeNotDueYet
  | ProbeStillLazy
  | ProbeAmbiguous
  | ProbeAnomaly

record ProbeClassification =
  cp_Kind :: ProbeClassificationKind
  cp_Baseline :: ProbeBaseline
  cp_LengthUnknown :: bool

abbreviation classified :: "ProbeClassificationKind \<Rightarrow> ProbeBaseline \<Rightarrow> ProbeClassification" where
  "classified k b \<equiv> \<lparr>cp_Kind = k, cp_Baseline = b, cp_LengthUnknown = False\<rparr>"

definition usageActivated :: "float64 \<Rightarrow> float64 \<Rightarrow> bool" where
  "usageActivated old new \<longleftrightarrow> old > 0 \<and> new = 0"

definition implausible_jump :: "ProbeBaseline \<Rightarrow> time \<Rightarrow> bool" where
  \<comment> \<open>the reset moved back, or further ahead than two windows\<close>
  "implausible_jump base reset \<longleftrightarrow> Before reset (Add (pb_ResetAt base) (- probeSkewTolerance))
     \<or> (let delta = Sub reset (pb_ResetAt base)
        in pb_WindowLength base > 0 \<and> delta > wrap64 (2 * pb_WindowLength base)
           \<or> pb_WindowLength base = 0 \<and> delta > probeMaxPlausibleWindow)"

definition classify_lazy :: "ProbeBaseline \<Rightarrow> QuotaSnapshot \<Rightarrow> float64 \<Rightarrow> ProbeClassification option" where
  \<comment> \<open>a baseline suspected to be lazy; \<open>None\<close> falls through to the general rules\<close>
  "classify_lazy base snap usage =
    (if (case qs_ResetAt snap of None \<Rightarrow> False | Some r \<Rightarrow> implausible_jump base r) then Some (classified ProbeAnomaly base)
     else if (case qs_ResetAt snap of None \<Rightarrow> False | Some r \<Rightarrow> After r (Add (pb_ResetAt base) probeSkewTolerance))
     then Some (classified ProbeActivatedNew
            (base\<lparr>pb_ResetAt := the (qs_ResetAt snap), pb_Usage := usage, pb_SuspectedLazy := False\<rparr>))
     else if usage > 0 then Some (classified ProbeActivatedInferred (base\<lparr>pb_Usage := usage, pb_SuspectedLazy := False\<rparr>))
     else if (case qs_ResetAt snap of None \<Rightarrow> False | Some r \<Rightarrow> absDuration (Sub r (pb_ResetAt base)) \<le> probeSkewTolerance)
     then Some (classified ProbeStillLazy base)
     else None)"

definition first_baseline :: "QuotaSnapshot \<Rightarrow> time \<Rightarrow> float64 \<Rightarrow> time \<Rightarrow> ProbeClassification" where
  "first_baseline snap reset usage now =
    (let n = (ResetProbeBaseline reset usage 0)\<lparr>pb_WindowKind := qs_WindowKind snap,
               pb_WindowLength := (if qs_WindowLengthKnown snap then qs_WindowLength snap else 0)\<rparr>
     in classified (if After reset now then ProbeNotDueYet else ProbeStillLazy) n)"

definition classify_usage_only :: "ProbeBaseline \<Rightarrow> float64 \<Rightarrow> time \<Rightarrow> ProbeClassification" where
  "classify_usage_only base usage now =
    (if usageActivated (pb_Usage base) usage
     then classified ProbeActivatedInferred (base\<lparr>pb_Usage := usage, pb_NextRecheckAt := Add now probeUnknownResetRecheck,
            pb_SuspectedLazy := False\<rparr>)
     else if Before now (pb_NextRecheckAt base) then classified ProbeNotDueYet base
     else classified ProbeNotDueYet (base\<lparr>pb_NextRecheckAt := Add now probeUnknownResetRecheck\<rparr>))"

definition learn_length :: "ProbeBaseline \<Rightarrow> duration \<Rightarrow> ProbeBaseline" where
  "learn_length n delta =
    (if pb_WindowLength n \<noteq> 0 then n
     else if pb_CandidateLength n > 0 \<and> absDuration (wrap64 (pb_CandidateLength n - delta)) \<le> probeSkewTolerance
     then let n1 = n\<lparr>pb_StableIntervals := pb_StableIntervals n + 1\<rparr>
          in if pb_StableIntervals n1 \<ge> 2 then n1\<lparr>pb_WindowLength := delta\<rparr> else n1
     else n\<lparr>pb_CandidateLength := delta, pb_StableIntervals := 1\<rparr>)"

definition activated_new :: "ProbeBaseline \<Rightarrow> time \<Rightarrow> float64 \<Rightarrow> ProbeClassification" where
  "activated_new base reset usage =
    (let n = learn_length (base\<lparr>pb_ResetAt := reset, pb_Usage := usage, pb_SuspectedLazy := False\<rparr>) (Sub reset (pb_ResetAt base))
     in \<lparr>cp_Kind = ProbeActivatedNew, cp_Baseline = n, cp_LengthUnknown = (pb_WindowLength n = 0)\<rparr>)"

definition classify_reset :: "ProbeBaseline \<Rightarrow> QuotaSnapshot \<Rightarrow> float64 \<Rightarrow> time \<Rightarrow> ProbeClassification" where
  "classify_reset base snap usage now =
    (case qs_ResetAt snap of
       Some reset \<Rightarrow>
         if implausible_jump base reset then classified ProbeAnomaly base
         else if After reset (Add (pb_ResetAt base) probeSkewTolerance) then activated_new base reset usage
         else if Before now (Add (pb_ResetAt base) probeRefreshAfterResetDelay) then classified ProbeNotDueYet base
         else if absDuration (Sub reset (pb_ResetAt base)) \<le> probeSkewTolerance \<and> \<not> usageActivated (pb_Usage base) usage
         then classified ProbeStillLazy base
         else classified ProbeAmbiguous base
     | None \<Rightarrow>
         if Before now (Add (pb_ResetAt base) probeRefreshAfterResetDelay) then classified ProbeNotDueYet base
         else if usageActivated (pb_Usage base) usage
         then classified ProbeActivatedInferred (base\<lparr>pb_Usage := usage, pb_SuspectedLazy := False\<rparr>)
         else classified ProbeAmbiguous base)"

definition ClassifyProbeWindow :: "ProbeBaseline \<Rightarrow> QuotaSnapshot \<Rightarrow> time \<Rightarrow> ProbeClassification" where
  "ClassifyProbeWindow base snap now =
    (case (qs_Valid snap, qs_Usage snap) of
       (True, Some usage) \<Rightarrow>
         (case if pb_SuspectedLazy base then classify_lazy base snap usage else None of
            Some c \<Rightarrow> c
          | None \<Rightarrow>
              (case (pb_Kind base, qs_ResetAt snap) of
                 (ProbeBaselineNone, None) \<Rightarrow>
                   classified ProbeNotDueYet (UsageOnlyProbeBaseline usage (Add now probeUnknownResetRecheck))
               | (ProbeBaselineNone, Some reset) \<Rightarrow> first_baseline snap reset usage now
               | (ProbeBaselineUsageOnly, Some reset) \<Rightarrow> first_baseline snap reset usage now
               | (ProbeBaselineUsageOnly, None) \<Rightarrow> classify_usage_only base usage now
               | (ProbeBaselineReset, _) \<Rightarrow> classify_reset base snap usage now))
     | _ \<Rightarrow> classified ProbeInvalid base)"

definition looksLikeStrictLazyObservation :: "time \<Rightarrow> QuotaWindow \<Rightarrow> duration \<Rightarrow> bool" where
  "looksLikeStrictLazyObservation observedAt window len \<longleftrightarrow> qw_UsedPercent window = Some 0 \<and> \<not> IsZero observedAt
     \<and> \<not> IsZero (qw_ResetAt window) \<and> 0 < len
     \<and> absDuration (Sub (qw_ResetAt window) (Add observedAt len)) \<le> resetProbeCloseThreshold"

section \<open>The state machine\<close>

datatype ProbeEventKind =
    ProbeEventDeadline
  | ProbeEventPrecheckResult
  | ProbeEventVerifyResult
  | ProbeEventAuthFailed
  | ProbeEventExternalLogin
  | ProbeEventRosterConfirmed
  | ProbeEventInstanceRemoved

datatype RefreshMode = RefreshModeEmpty | RefreshModeDormant | RefreshModeActive

record ProbeEvent =
  pv_Kind :: ProbeEventKind
  pv_Window :: "ProbeWindowKind option"   \<comment> \<open>\<open>None\<close> is the empty kind: all windows\<close>
  pv_Now :: time
  pv_Snapshots :: "(ProbeWindowKind, QuotaSnapshot) gmap"
  pv_RefreshMode :: RefreshMode
  pv_ObservationInterval :: duration

type_synonym probe_windows = "(ProbeWindowKind, ProbeWindow) gmap"

record ProbeController =
  pk_now :: time
  pk_windows :: "(AuthInstanceID, probe_windows) gmap"
  pk_seq :: uint64

definition NewProbeController :: "time \<Rightarrow> ProbeController" where
  "NewProbeController now = \<lparr>pk_now = now, pk_windows = [], pk_seq = 0\<rparr>"

definition validPersistentProbeState :: "ProbeWindowState \<Rightarrow> bool" where
  "validPersistentProbeState s \<longleftrightarrow> s \<in> set [ProbeIdle, ProbeWaitingReset, ProbePendingCheck, ProbeSentAwaitingVerify,
     ProbeSentUnknown, ProbeRetryWait, ProbeConfirmed, ProbeAuthBlocked, ProbeAnomalyHold, ProbeWaitingRoster]"

definition probe_Load :: "(AuthInstanceID, probe_windows) gmap \<Rightarrow> ProbeController \<Rightarrow> ProbeController" where
  "probe_Load al c = c\<lparr>pk_windows := map (\<lambda>(i, ws). (i, filter (\<lambda>(k, w). validPersistentProbeState (pn_State w)) ws)) al\<rparr>"

definition probe_Snapshot :: "ProbeController \<Rightarrow> (AuthInstanceID, probe_windows) gmap" where
  "probe_Snapshot c = pk_windows c"

definition waiting :: "ProbeWindow \<Rightarrow> bool" where
  \<comment> \<open>the states a deadline ends\<close>
  "waiting w \<longleftrightarrow> pn_State w = ProbeWaitingReset \<or> pn_State w = ProbeRetryWait \<or> pn_State w = ProbeAnomalyHold"

definition earlier_deadline :: "time \<Rightarrow> ProbeWindow \<Rightarrow> time" where
  "earlier_deadline out w =
    (if waiting w \<and> \<not> IsZero (pn_Deadline w) \<and> (IsZero out \<or> Before (pn_Deadline w) out) then pn_Deadline w else out)"

definition NextDeadline :: "ProbeController \<Rightarrow> time" where
  "NextDeadline c = foldl (\<lambda>out (i, ws). foldl (\<lambda>out (k, w). earlier_deadline out w) out ws) ZeroTime (pk_windows c)"

definition windows_of :: "ProbeController \<Rightarrow> AuthInstanceID \<Rightarrow> probe_windows" where
  "windows_of c i = (case gget (pk_windows c) i of None \<Rightarrow> [] | Some ws \<Rightarrow> ws)"

definition SetWindow :: "AuthInstanceID \<Rightarrow> ProbeWindowKind \<Rightarrow> ProbeWindow \<Rightarrow> ProbeController \<Rightarrow> ProbeController" where
  "SetWindow i k w c = c\<lparr>pk_windows := gput i (gput k w (windows_of c i)) (pk_windows c)\<rparr>"

definition ReplaceInstance :: "AuthInstanceID \<Rightarrow> probe_windows \<Rightarrow> ProbeController \<Rightarrow> ProbeController" where
  "ReplaceInstance i ws c = c\<lparr>pk_windows := (if ws = [] then gdel i (pk_windows c) else gput i ws (pk_windows c))\<rparr>"

definition probe_Window :: "AuthInstanceID \<Rightarrow> ProbeWindowKind \<Rightarrow> ProbeController \<Rightarrow> ProbeWindow option" where
  "probe_Window i k c = gget (windows_of c i) k"

definition RemoveWindow :: "AuthInstanceID \<Rightarrow> ProbeWindowKind \<Rightarrow> ProbeController \<Rightarrow> ProbeController" where
  "RemoveWindow i k c =
    (let ws = gdel k (windows_of c i)
     in c\<lparr>pk_windows := (if ws = [] then gdel i (pk_windows c) else gput i ws (pk_windows c))\<rparr>)"

definition compatibleLegacyProbeWindowKind :: "ProbeWindowKind \<Rightarrow> ProbeBaseline \<Rightarrow> QuotaSnapshot \<Rightarrow> bool" where
  "compatibleLegacyProbeWindowKind slot baseline snap \<longleftrightarrow>
     0 < pb_WindowLength baseline \<and> qs_WindowKind snap \<noteq> WindowKindEmpty \<and> qs_WindowLengthKnown snap \<and> 0 < qs_WindowLength snap
     \<and> absDuration (wrap64 (qs_WindowLength snap - pb_WindowLength baseline)) \<le> probeSkewTolerance
     \<and> (case slot of ProbeWindowFiveHour \<Rightarrow> qs_WindowKind snap = WindowFiveHour
        | ProbeWindowLong \<Rightarrow> qs_WindowKind snap = WindowWeekly \<or> qs_WindowKind snap = WindowMonthly)"

definition deadlineFor :: "ProbeBaseline \<Rightarrow> time \<Rightarrow> duration \<Rightarrow> time" where
  "deadlineFor b now observationInterval =
    (if pb_Kind b = ProbeBaselineUsageOnly then pb_NextRecheckAt b
     else if IsZero (pb_ResetAt b) then now
     else let resetMaturity = Add (pb_ResetAt b) probeRefreshAfterResetDelay
          in if pb_WindowLength b \<le> 0 \<or> observationInterval \<le> 0 then resetMaturity
             else let observation = Add now observationInterval
                  in if Before observation resetMaturity then observation else resetMaturity)"

definition readOnlyObservationDeadline :: "ProbeBaseline \<Rightarrow> time \<Rightarrow> duration \<Rightarrow> time" where
  "readOnlyObservationDeadline b now observationInterval =
    (let deadline = deadlineFor b now observationInterval
     in if After deadline now then deadline
        else Add now (if observationInterval \<le> 0 then probeUnknownResetRecheck else observationInterval))"

definition probeBackoff :: "int \<Rightarrow> duration" where
  "probeBackoff n = (if n \<le> 1 then Minute else if n = 2 then 5 * Minute else 15 * Minute)"

definition strict_window :: "QuotaSnapshot \<Rightarrow> time \<Rightarrow> QuotaWindow" where
  "strict_window snap reset = \<lparr>qw_Kind = qs_WindowKind snap, qw_UsedPercent = qs_Usage snap, qw_LimitWindowSeconds = None,
     qw_ResetAt = reset, qw_Exhausted = False\<rparr>"

definition externalResetRebaseApplies :: "ProbeBaseline \<Rightarrow> QuotaSnapshot \<Rightarrow> time \<Rightarrow> bool" where
  "externalResetRebaseApplies baseline snap now =
    (case qs_ResetAt snap of
       None \<Rightarrow> False
     | Some reset \<Rightarrow>
         pb_Kind baseline = ProbeBaselineReset \<and> qs_Valid snap \<and> qs_Usage snap = Some 0
         \<and> After reset (Add (pb_ResetAt baseline) probeSkewTolerance)
         \<and> (let delta = Sub reset (pb_ResetAt baseline);
                len = (if qs_WindowLengthKnown snap \<and> 0 < qs_WindowLength snap then qs_WindowLength snap else pb_WindowLength baseline)
            in \<not> (0 < pb_WindowLength baseline \<and> delta \<le> wrap64 (2 * pb_WindowLength baseline))
               \<and> \<not> (pb_WindowLength baseline = 0 \<and> delta \<le> probeMaxPlausibleWindow)
               \<and> \<not> (pb_WindowKind baseline \<noteq> WindowKindEmpty \<and> qs_WindowKind snap \<noteq> pb_WindowKind baseline)
               \<and> 0 < len \<and> looksLikeStrictLazyObservation now (strict_window snap reset) len))"

definition precheck_baseline ::
  "ProbeWindowKind \<Rightarrow> ProbeBaseline \<Rightarrow> QuotaSnapshot \<Rightarrow> time \<Rightarrow> ProbeBaseline \<times> bool \<times> bool" where
  \<comment> \<open>the baseline a precheck compares with, whether a shifted window without usage was seen, and
    whether a probe is authorised\<close>
  "precheck_baseline k b snap now =
    (case (qs_ResetAt snap, qs_Usage snap) of
       (Some reset, Some usage) \<Rightarrow>
         if pb_Kind b = ProbeBaselineReset \<and> qs_Valid snap then
           let shifted = After reset (Add (pb_ResetAt b) probeSkewTolerance);
               b1 = (if pb_WindowKind b = WindowKindEmpty \<and> compatibleLegacyProbeWindowKind k b snap
                     then b\<lparr>pb_WindowKind := qs_WindowKind snap\<rparr> else b);
               kindMatches = (pb_WindowKind b1 \<noteq> WindowKindEmpty \<and> qs_WindowKind snap = pb_WindowKind b1)
           in if (shifted \<or> pb_SuspectedLazy b) \<and> kindMatches \<and> qs_WindowLengthKnown snap
                 \<and> looksLikeStrictLazyObservation now (strict_window snap reset) (qs_WindowLength snap)
              then (b1\<lparr>pb_ResetAt := reset, pb_Usage := usage, pb_SuspectedLazy := True\<rparr>, shifted \<and> usage = 0, True)
              else (b1, shifted \<and> usage = 0, False)
         else (b, False, False)
     | _ \<Rightarrow> (b, False, False))"

definition verify_baseline :: "ProbeBaseline \<Rightarrow> QuotaSnapshot \<Rightarrow> time \<Rightarrow> ProbeBaseline" where
  "verify_baseline b snap now =
    (if externalResetRebaseApplies b snap now
     then b\<lparr>pb_ResetAt := the (qs_ResetAt snap), pb_Usage := the (qs_Usage snap), pb_SuspectedLazy := True\<rparr> else b)"

definition retry_wait :: "time \<Rightarrow> ProbeWindow \<Rightarrow> ProbeWindow" where
  "retry_wait now w = w\<lparr>pn_State := ProbeRetryWait, pn_RetryCount := pn_RetryCount w + 1,
     pn_Deadline := Add now (probeBackoff (pn_RetryCount w + 1))\<rparr>"

definition zero_Intent :: Intent where
  "zero_Intent = \<lparr>in_AuthID = [], in_Instance = 0, in_Generation = 0, in_Class = OperationClassEmpty, in_Source = [],
     in_StartedAfter = 0, in_ReadStartSeq = 0, in_AttemptID = [], in_Token = zero_ExecutionToken, in_Login = 0,
     in_Fingerprint = zero_CredentialFingerprint, in_Payload = PayloadNil\<rparr>"

definition precheck_intent :: "AuthInstanceID \<Rightarrow> ProbeWindowKind \<Rightarrow> Intent" where
  "precheck_intent i k = zero_Intent\<lparr>in_Instance := i, in_Class := OperationProbePrecheck, in_Source := SourceProbePrecheck,
     in_Payload := PayloadWindows [k]\<rparr>"

definition send_intent :: "AuthInstanceID \<Rightarrow> ProbeWindowKind \<Rightarrow> Intent" where
  "send_intent i k = zero_Intent\<lparr>in_Instance := i, in_Class := OperationProbeSend, in_Source := SourceProbeActivation,
     in_Payload := PayloadWindows [k]\<rparr>"

definition apply_classification ::
  "AuthInstanceID \<Rightarrow> ProbeEvent \<Rightarrow> ProbeWindowKind \<Rightarrow> ProbeClassificationKind \<Rightarrow> ProbeWindow \<Rightarrow> uint64
    \<Rightarrow> ProbeWindow \<times> uint64 \<times> Intent list" where
  "apply_classification i e k kind w seq =
    (case kind of
       ProbeActivatedNew \<Rightarrow> (w\<lparr>pn_State := ProbeConfirmed, pn_Deadline := ZeroTime\<rparr>, seq, [])
     | ProbeActivatedInferred \<Rightarrow> (w\<lparr>pn_State := ProbeConfirmed, pn_Deadline := ZeroTime\<rparr>, seq, [])
     | ProbeNotDueYet \<Rightarrow>
         (w\<lparr>pn_State := ProbeWaitingReset,
           pn_Deadline := deadlineFor (pn_Baseline w) (pv_Now e) (pv_ObservationInterval e)\<rparr>, seq, [])
     | ProbeAnomaly \<Rightarrow> (w\<lparr>pn_State := ProbeAnomalyHold, pn_Deadline := Add (pv_Now e) probeUnknownResetRecheck\<rparr>, seq, [])
     | ProbeInvalid \<Rightarrow> (retry_wait (pv_Now e) w, seq, [])
     | _ \<Rightarrow>
         if pv_Kind e = ProbeEventPrecheckResult
         then (w\<lparr>pn_State := ProbeSentAwaitingVerify, pn_AttemptID := ''probe-'' @ fmt_d (unat (seq + 1))\<rparr>, seq + 1,
               [send_intent i k])
         else (retry_wait (pv_Now e) w, seq, []))"

definition result_window ::
  "AuthInstanceID \<Rightarrow> ProbeEvent \<Rightarrow> ProbeWindowKind \<Rightarrow> QuotaSnapshot \<Rightarrow> ProbeWindow \<Rightarrow> uint64
    \<Rightarrow> ProbeWindow \<times> uint64 \<times> Intent list" where
  \<comment> \<open>the result of a precheck or of a verification for one window\<close>
  "result_window i e k snap w seq =
    (let pre = (pv_Kind e = ProbeEventPrecheckResult); now = pv_Now e;
         (b, shiftedZero, strict) =
           (if pre then precheck_baseline k (pn_Baseline w) snap now
            else (verify_baseline (pn_Baseline w) snap now, False, False));
         cl = ClassifyProbeWindow b snap now;
         w1 = w\<lparr>pn_Baseline := cp_Baseline cl\<rparr>
     in if pre \<and> \<not> strict
           \<and> (cp_Kind cl = ProbeStillLazy \<or> cp_Kind cl = ProbeAmbiguous \<or> shiftedZero \<and> cp_Kind cl = ProbeActivatedNew)
        then let b1 = (cp_Baseline cl)\<lparr>pb_SuspectedLazy := False\<rparr>
             in (w1\<lparr>pn_Baseline := b1, pn_State := ProbeWaitingReset, pn_AttemptID := [],
                   pn_Deadline := readOnlyObservationDeadline b1 now (pv_ObservationInterval e)\<rparr>, seq, [])
        else apply_classification i e k (cp_Kind cl) w1 seq)"

definition expects_result :: "ProbeEventKind \<Rightarrow> ProbeWindowState \<Rightarrow> bool" where
  "expects_result kind st \<longleftrightarrow> (if kind = ProbeEventPrecheckResult then st = ProbePendingCheck
     else st = ProbeSentAwaitingVerify \<or> st = ProbeSentUnknown)"

definition roster_confirmed :: "ProbeEvent \<Rightarrow> ProbeWindow \<Rightarrow> ProbeWindow" where
  "roster_confirmed e w =
    (if pn_State w \<noteq> ProbeWaitingRoster then w
     else if pb_SuspectedLazy (pn_Baseline w) then w\<lparr>pn_State := ProbePendingCheck, pn_Deadline := ZeroTime\<rparr>
     else w\<lparr>pn_State := ProbeWaitingReset,
            pn_Deadline := deadlineFor (pn_Baseline w) (pv_Now e) (pv_ObservationInterval e)\<rparr>)"

definition advance_window ::
  "AuthInstanceID \<Rightarrow> ProbeEvent \<Rightarrow> ProbeWindowKind \<Rightarrow> ProbeWindow \<Rightarrow> uint64 \<Rightarrow> ProbeWindow \<times> uint64 \<times> Intent list" where
  "advance_window i e k w seq =
    (if pv_Window e \<noteq> None \<and> pv_Window e \<noteq> Some k then (w, seq, [])
     else case pv_Kind e of
            ProbeEventDeadline \<Rightarrow>
              if waiting w \<and> \<not> After (pn_Deadline w) (pv_Now e)
              then (w\<lparr>pn_State := ProbePendingCheck, pn_Deadline := ZeroTime\<rparr>, seq, [precheck_intent i k])
              else (w, seq, [])
          | ProbeEventAuthFailed \<Rightarrow> (if pn_State w \<noteq> ProbeIdle then w\<lparr>pn_State := ProbeAuthBlocked\<rparr> else w, seq, [])
          | ProbeEventExternalLogin \<Rightarrow> (if pn_State w = ProbeAuthBlocked then w\<lparr>pn_State := ProbePendingCheck\<rparr> else w, seq, [])
          | ProbeEventRosterConfirmed \<Rightarrow> (roster_confirmed e w, seq, [])
          | ProbeEventInstanceRemoved \<Rightarrow> (w, seq, [])
          | kind \<Rightarrow>
              if \<not> expects_result kind (pn_State w) then (w, seq, [])
              else case gget (pv_Snapshots e) k of
                     None \<Rightarrow> (w, seq, [])
                   | Some snap \<Rightarrow> result_window i e k snap w seq)"

fun advance_windows ::
  "AuthInstanceID \<Rightarrow> ProbeEvent \<Rightarrow> probe_windows \<Rightarrow> uint64 \<Rightarrow> probe_windows \<times> uint64 \<times> Intent list" where
  "advance_windows i e [] seq = ([], seq, [])"
| "advance_windows i e ((k, w) # ws) seq =
    (let (w1, seq1, out1) = advance_window i e k w seq; (ws2, seq2, out2) = advance_windows i e ws seq1
     in ((k, w1) # ws2, seq2, out1 @ out2))"

definition probe_Advance :: "AuthInstanceID \<Rightarrow> ProbeEvent \<Rightarrow> ProbeController \<Rightarrow> Intent list \<times> ProbeController" where
  "probe_Advance i e c =
    (case gget (pk_windows c) i of
       None \<Rightarrow> ([], c)
     | Some ws \<Rightarrow>
         if pv_Kind e = ProbeEventInstanceRemoved then ([], c\<lparr>pk_windows := gdel i (pk_windows c)\<rparr>)
         else let (ws1, seq, out) = advance_windows i e ws (pk_seq c)
              in (out, c\<lparr>pk_windows := gput i ws1 (pk_windows c), pk_seq := seq\<rparr>))"

end
