(* ===== verification/Probe_Props.thy ===== *)
theory Probe_Props
  imports Probe
begin

text \<open>
  What the probe state machine guarantees: a probe is sent only on strict evidence, every result
  moves its window on to a state that waits for a later moment, no deadline is missed, and a
  window whose probe is unverified is not probed again.
\<close>

section \<open>Durations\<close>

lemma absDuration_Sub:
  assumes "- (2 ^ 63) < t - u" and "T < 2 ^ 63 - 1"
  shows "absDuration (Sub t u) \<le> T \<longleftrightarrow> \<bar>t - u\<bar> \<le> T"
proof (cases "t - u < 0")
  case True
  then have "Sub t u = t - u" using assms(1) by (simp add: Sub_def minDuration_def maxDuration_def)
  with True assms(1) show ?thesis by (simp add: absDuration_def wrap64_id)
next
  case False
  then have "Sub t u = min (2 ^ 63 - 1) (t - u)" by (simp add: Sub_def minDuration_def maxDuration_def)
  with False assms(2) show ?thesis by (auto simp: absDuration_def min_def)
qed

section \<open>One window\<close>

lemma advance_windows_len:
  "map fst (fst (advance_windows i e ws seq)) = map fst ws"
proof (induction ws arbitrary: seq)
  case (Cons x ws)
  then show ?case by (cases x) (simp add: case_prod_unfold Let_def)
qed simp

lemma advance_windows_out:
  assumes "it \<in> set (snd (snd (advance_windows i e ws seq)))"
  shows "\<exists>k w seq'. (k, w) \<in> set ws \<and> it \<in> set (snd (snd (advance_window i e k w seq')))"
  using assms
proof (induction ws arbitrary: seq)
  case (Cons x ws)
  obtain k w where x: "x = (k, w)" by (cases x)
  obtain w1 seq1 out1 where a: "advance_window i e k w seq = (w1, seq1, out1)" by (rule prod_cases3)
  from Cons.prems have "it \<in> set out1 \<or> it \<in> set (snd (snd (advance_windows i e ws seq1)))"
    by (auto simp: x a split: prod.splits)
  then show ?case
  proof
    assume "it \<in> set out1"
    with a x show ?thesis by (metis list.set_intros(1) snd_conv)
  next
    assume "it \<in> set (snd (snd (advance_windows i e ws seq1)))"
    from Cons.IH [OF this] show ?thesis by auto
  qed
qed simp

lemma advance_windows_get:
  assumes "gmap_wf ws" and "gget ws k = Some w"
  shows "\<exists>seq' out. (\<exists>w'. advance_window i e k w seq' = (w', out) \<and> gget (fst (advance_windows i e ws seq)) k = Some w')
    \<and> set (snd out) \<subseteq> set (snd (snd (advance_windows i e ws seq)))"
  using assms
proof (induction ws arbitrary: seq)
  case (Cons x ws)
  obtain k1 w1 where x: "x = (k1, w1)" by (cases x)
  obtain w2 seq1 out1 where a: "advance_window i e k1 w1 seq = (w2, seq1, out1)" by (rule prod_cases3)
  obtain ws2 seq2 out2 where r: "advance_windows i e ws seq1 = (ws2, seq2, out2)" by (rule prod_cases3)
  show ?case
  proof (cases "k = k1")
    case True
    with Cons.prems have "w = w1" by (simp add: x)
    with a True show ?thesis by (intro exI [of _ seq] exI [of _ "(seq1, out1)"]) (auto simp: x a r)
  next
    case False
    with Cons.prems have "gmap_wf ws" "gget ws k = Some w" by (auto simp: x gmap_wf_def)
    from Cons.IH [OF this, of seq1] False show ?thesis by (auto simp: x a r)
  qed
qed simp

section \<open>What a result does\<close>

lemma classify_kind_strict:
  \<comment> \<open>the only results of a precheck that send\<close>
  "apply_classification i e k kind w seq = (w', seq', out) \<Longrightarrow> it \<in> set out \<Longrightarrow>
     it = send_intent i k \<and> (kind = ProbeStillLazy \<or> kind = ProbeAmbiguous) \<and> pv_Kind e = ProbeEventPrecheckResult"
  by (cases kind) (auto simp: apply_classification_def split: if_splits)

lemma result_window_send:
  assumes "it \<in> set (snd (snd (result_window i e k snap w seq)))"
  shows "it = send_intent i k \<and> pv_Kind e = ProbeEventPrecheckResult
    \<and> snd (snd (precheck_baseline k (pn_Baseline w) snap (pv_Now e)))"
proof -
  let ?pre = "pv_Kind e = ProbeEventPrecheckResult"
  obtain b z strict where p: "(if ?pre then precheck_baseline k (pn_Baseline w) snap (pv_Now e)
            else (verify_baseline (pn_Baseline w) snap (pv_Now e), False, False)) = (b, z, strict)" by (rule prod_cases3)
  let ?cl = "ClassifyProbeWindow b snap (pv_Now e)"
  obtain w' seq' out where a: "apply_classification i e k (cp_Kind ?cl) (w\<lparr>pn_Baseline := cp_Baseline ?cl\<rparr>) seq = (w', seq', out)"
    by (rule prod_cases3)
  from assms have "it \<in> set out \<and> \<not> (?pre \<and> \<not> strict \<and> (cp_Kind ?cl = ProbeStillLazy \<or> cp_Kind ?cl = ProbeAmbiguous))"
    unfolding result_window_def Let_def p by (auto simp: a split: if_splits)
  with classify_kind_strict [OF a, of it] p show ?thesis by auto
qed

lemma strict_evidence:
  assumes "snd (snd (precheck_baseline k b snap now))"
  shows "\<exists>reset. qs_ResetAt snap = Some reset \<and> qs_Valid snap \<and> qs_Usage snap = Some 0 \<and> pb_Kind b = ProbeBaselineReset
    \<and> qs_WindowLengthKnown snap \<and> 0 < qs_WindowLength snap \<and> qs_WindowKind snap \<noteq> WindowKindEmpty
    \<and> (pb_SuspectedLazy b \<or> pb_ResetAt b + 120 * Second < reset)
    \<and> (pb_WindowKind b = qs_WindowKind snap \<or> pb_WindowKind b = WindowKindEmpty \<and> compatibleLegacyProbeWindowKind k b snap)
    \<and> absDuration (Sub reset (now + qs_WindowLength snap)) \<le> resetProbeCloseThreshold"
proof (cases "qs_ResetAt snap")
  case (Some reset)
  note r = Some
  show ?thesis
  proof (cases "qs_Usage snap")
    case (Some usage)
    with assms r show ?thesis
      by (auto simp: precheck_baseline_def Let_def looksLikeStrictLazyObservation_def strict_window_def split: if_splits)
  qed (use assms r in \<open>simp add: precheck_baseline_def\<close>)
qed (use assms in \<open>simp add: precheck_baseline_def\<close>)

section \<open>Results move a window on\<close>

lemma deadlineFor_future:
  assumes "pb_Kind b = ProbeBaselineUsageOnly \<and> now < pb_NextRecheckAt b
    \<or> pb_Kind b \<noteq> ProbeBaselineUsageOnly \<and> pb_ResetAt b \<noteq> 0 \<and> now < pb_ResetAt b + Minute"
  shows "now < deadlineFor b now interval"
  using assms by (auto simp: deadlineFor_def Let_def)

lemma not_due_future:
  assumes "cp_Kind (ClassifyProbeWindow b snap now) = ProbeNotDueYet" and "Minute \<le> now"
  shows "now < deadlineFor (cp_Baseline (ClassifyProbeWindow b snap now)) now interval"
proof -
  obtain usage where u: "qs_Valid snap" "qs_Usage snap = Some usage"
    using assms(1) by (cases "qs_Valid snap"; cases "qs_Usage snap") (auto simp: ClassifyProbeWindow_def)
  have lazy: "(if pb_SuspectedLazy b then classify_lazy b snap usage else None) = None"
  proof (cases "if pb_SuspectedLazy b then classify_lazy b snap usage else None")
    case (Some c)
    with assms(1) u have "classify_lazy b snap usage = Some c" "cp_Kind c = ProbeNotDueYet"
      by (auto simp: ClassifyProbeWindow_def split: if_splits)
    then show ?thesis by (auto simp: classify_lazy_def split: if_splits)
  qed
  have first: "cp_Kind (first_baseline snap r usage now) = ProbeNotDueYet \<Longrightarrow>
      now < deadlineFor (cp_Baseline (first_baseline snap r usage now)) now interval" for r
    using assms(2) by (intro deadlineFor_future)
      (auto simp: first_baseline_def ResetProbeBaseline_def zero_ProbeBaseline_def Let_def split: if_splits)
  show ?thesis
  proof (cases "pb_Kind b")
    case ProbeBaselineNone
    show ?thesis
    proof (cases "qs_ResetAt snap")
      case None
      with ProbeBaselineNone u lazy show ?thesis
        by (intro deadlineFor_future) (simp add: ClassifyProbeWindow_def UsageOnlyProbeBaseline_def)
    next
      case (Some r)
      with ProbeBaselineNone u lazy assms(1) first [of r] show ?thesis by (simp add: ClassifyProbeWindow_def)
    qed
  next
    case ProbeBaselineReset
    with u lazy have c: "ClassifyProbeWindow b snap now = classify_reset b snap usage now" by (simp add: ClassifyProbeWindow_def)
    have "cp_Baseline (classify_reset b snap usage now) = b \<and> now < pb_ResetAt b + Minute"
      using assms(1) unfolding c
      by (auto simp: classify_reset_def activated_new_def Let_def split: option.splits if_splits)
    with ProbeBaselineReset assms(2) show ?thesis unfolding c by (intro deadlineFor_future) auto
  next
    case ProbeBaselineUsageOnly
    show ?thesis
    proof (cases "qs_ResetAt snap")
      case None
      with ProbeBaselineUsageOnly u lazy show ?thesis
        by (intro deadlineFor_future) (auto simp: ClassifyProbeWindow_def classify_usage_only_def)
    next
      case (Some r)
      with ProbeBaselineUsageOnly u lazy assms(1) first [of r] show ?thesis by (simp add: ClassifyProbeWindow_def)
    qed
  qed
qed

lemma probeBackoff_pos: "0 < probeBackoff n"
  by (simp add: probeBackoff_def)

lemma read_only_future: "now < readOnlyObservationDeadline b now interval"
  by (simp add: readOnlyObservationDeadline_def Let_def)

definition moved_on :: "AuthInstanceID \<Rightarrow> ProbeWindowKind \<Rightarrow> time \<Rightarrow> ProbeWindow \<Rightarrow> Intent list \<Rightarrow> bool" where
  "moved_on i k now w out \<longleftrightarrow> pn_State w = ProbeConfirmed \<or> waiting w \<and> now < pn_Deadline w
     \<or> pn_State w = ProbeSentAwaitingVerify \<and> send_intent i k \<in> set out"

lemma result_window_moves_on:
  assumes "Minute \<le> pv_Now e" and "result_window i e k snap w seq = (w', seq', out)"
  shows "moved_on i k (pv_Now e) w' out"
proof -
  let ?pre = "pv_Kind e = ProbeEventPrecheckResult"
  obtain b z strict where p: "(if ?pre then precheck_baseline k (pn_Baseline w) snap (pv_Now e)
            else (verify_baseline (pn_Baseline w) snap (pv_Now e), False, False)) = (b, z, strict)" by (rule prod_cases3)
  let ?cl = "ClassifyProbeWindow b snap (pv_Now e)"
  have "moved_on i k (pv_Now e) w1 out1"
    if "apply_classification i e k (cp_Kind ?cl) (w\<lparr>pn_Baseline := cp_Baseline ?cl\<rparr>) seq = (w1, seq1, out1)" for w1 seq1 out1
    using that not_due_future [OF _ assms(1), of b snap] probeBackoff_pos
    by (cases "cp_Kind ?cl")
      (auto simp: apply_classification_def moved_on_def waiting_def retry_wait_def split: if_splits)
  with assms(2) show ?thesis
    unfolding result_window_def Let_def p
    by (auto simp: moved_on_def waiting_def read_only_future split: if_splits)
qed

section \<open>Deadlines\<close>

lemma earlier_deadline_min:
  assumes "0 \<le> out"
  shows "earlier_deadline out w = out \<and> \<not> (waiting w \<and> pn_Deadline w \<noteq> 0 \<and> (out = 0 \<or> pn_Deadline w < out))
    \<or> earlier_deadline out w = pn_Deadline w \<and> waiting w \<and> pn_Deadline w \<noteq> 0 \<and> (out = 0 \<or> pn_Deadline w < out)"
  by (auto simp: earlier_deadline_def)

definition all_windows :: "ProbeController \<Rightarrow> ProbeWindow list" where
  "all_windows c = concat (map (map snd \<circ> snd) (pk_windows c))"

lemma NextDeadline_eq: "NextDeadline c = foldl earlier_deadline ZeroTime (all_windows c)"
proof -
  have inner: "foldl (\<lambda>out (k, w). earlier_deadline out w) t ws = foldl earlier_deadline t (map snd ws)" for t and ws :: probe_windows
    by (induction ws arbitrary: t) auto
  have "foldl (\<lambda>out (i, ws). foldl (\<lambda>out (k, w). earlier_deadline out w) out ws) t m
      = foldl earlier_deadline t (concat (map (map snd \<circ> snd) m))" for t and m :: "(AuthInstanceID, probe_windows) gmap"
    by (induction m arbitrary: t) (auto simp: inner)
  then show ?thesis by (simp add: NextDeadline_def all_windows_def)
qed

lemma foldl_earlier:
  assumes "\<forall>w \<in> set ws. 0 \<le> pn_Deadline w" and "0 \<le> t"
  shows "(t \<noteq> 0 \<longrightarrow> foldl earlier_deadline t ws \<noteq> 0 \<and> foldl earlier_deadline t ws \<le> t)
    \<and> (\<forall>w \<in> set ws. waiting w \<and> pn_Deadline w \<noteq> 0 \<longrightarrow>
          foldl earlier_deadline t ws \<noteq> 0 \<and> foldl earlier_deadline t ws \<le> pn_Deadline w)"
  using assms
proof (induction ws arbitrary: t)
  case (Cons w ws)
  have t': "0 \<le> earlier_deadline t w" using Cons.prems by (auto simp: earlier_deadline_def)
  from Cons.IH [OF _ t'] Cons.prems earlier_deadline_min [OF Cons.prems(2), of w] show ?case by auto
qed simp

section \<open>Properties\<close>

definition wit_window :: "ProbeWindowState \<Rightarrow> time \<Rightarrow> ProbeWindow" where
  \<comment> \<open>a weekly window that reset at \<open>10 ^ 19\<close>\<close>
  "wit_window st deadline = \<lparr>pn_State = st, pn_Baseline = (ResetProbeBaseline (10 ^ 19) 50 (7 * 24 * Hour))\<lparr>pb_WindowKind := WindowWeekly\<rparr>,
     pn_Deadline = deadline, pn_RetryCount = 0, pn_AttemptID = [], pn_AuthBlockedAtLogin = 0\<rparr>"

definition wit_controller :: "ProbeWindow \<Rightarrow> ProbeController" where
  "wit_controller w = SetWindow 7 ProbeWindowLong w (NewProbeController 0)"

definition wit_event :: "ProbeEventKind \<Rightarrow> time \<Rightarrow> time \<Rightarrow> ProbeEvent" where
  "wit_event kind now reset = \<lparr>pv_Kind = kind, pv_Window = None, pv_Now = now,
     pv_Snapshots = [(ProbeWindowLong, \<lparr>qs_Valid = True, qs_ResetAt = Some reset, qs_Usage = Some 0, qs_WindowKind = WindowWeekly,
        qs_WindowLength = 7 * 24 * Hour, qs_WindowLengthKnown = True\<rparr>)],
     pv_RefreshMode = RefreshModeActive, pv_ObservationInterval = Hour\<rparr>"

lemmas probe_eval = wit_window_def wit_controller_def wit_event_def SetWindow_def NewProbeController_def windows_of_def
  probe_Advance_def advance_window_def expects_result_def result_window_def precheck_baseline_def ResetProbeBaseline_def
  zero_ProbeBaseline_def looksLikeStrictLazyObservation_def strict_window_def absDuration_def Sub_def minDuration_def
  maxDuration_def ClassifyProbeWindow_def classify_lazy_def implausible_jump_def wrap64_def apply_classification_def Let_def



text \<open>
  A result moves its window on and never makes the controller spin: when a window waits for
  the result of a precheck or a verification and the result arrives, the window is confirmed
  active, or it waits for a deadline strictly in the future, or a probe has been asked for and the
  window waits for its verification. Times before the first minute of year 1 are excluded.
\<close>

theorem probe_result_moves_on:
  assumes "gget (pk_windows c) i = Some ws" and "gmap_wf ws" and "gget ws k = Some w"
    and "pv_Kind e = ProbeEventPrecheckResult \<and> pn_State w = ProbePendingCheck
       \<or> pv_Kind e = ProbeEventVerifyResult \<and> (pn_State w = ProbeSentAwaitingVerify \<or> pn_State w = ProbeSentUnknown)"
    and "pv_Window e = None \<or> pv_Window e = Some k" and "gget (pv_Snapshots e) k = Some snap" and "Minute \<le> pv_Now e"
    and "probe_Advance i e c = (out, c')"
  shows "\<exists>w'. probe_Window i k c' = Some w' \<and> (pn_State w' = ProbeConfirmed
    \<or> (pn_State w' = ProbeWaitingReset \<or> pn_State w' = ProbeRetryWait \<or> pn_State w' = ProbeAnomalyHold) \<and> pv_Now e < pn_Deadline w'
    \<or> pn_State w' = ProbeSentAwaitingVerify \<and> send_intent i k \<in> set out)"
proof -
  obtain ws1 seq1 where a: "advance_windows i e ws (pk_seq c) = (ws1, seq1, out)" and c': "probe_Window i k c' = gget ws1 k"
    using assms(1,4,8) by (auto simp: probe_Advance_def probe_Window_def windows_of_def go_simps split: if_splits prod.splits)
  from advance_windows_get [OF assms(2,3), of i e "pk_seq c"] obtain seq' w' seq2 out2
    where w: "advance_window i e k w seq' = (w', seq2, out2)" "gget ws1 k = Some w'" "set out2 \<subseteq> set out" unfolding a by force
  have "advance_window i e k w seq' = result_window i e k snap w seq'"
    using assms(4-6) by (auto simp: advance_window_def expects_result_def)
  with result_window_moves_on [OF assms(7)] w(1) have "moved_on i k (pv_Now e) w' out2" by simp
  with c' w(2,3) show ?thesis unfolding moved_on_def waiting_def by auto
qed

theorem probe_result_moves_on_witness:
  "\<exists>w'. probe_Window 7 ProbeWindowLong (snd (probe_Advance 7 (wit_event ProbeEventVerifyResult (11 * 10 ^ 18) (10 ^ 19))
     (wit_controller (wit_window ProbeSentUnknown 0)))) = Some w' \<and> pn_State w' \<noteq> ProbeSentUnknown"
proof -
  let ?e = "wit_event ProbeEventVerifyResult (11 * 10 ^ 18) (10 ^ 19)" and ?w = "wit_window ProbeSentUnknown 0"
  let ?snap = "\<lparr>qs_Valid = True, qs_ResetAt = Some (10 ^ 19), qs_Usage = Some 0, qs_WindowKind = WindowWeekly,
        qs_WindowLength = 7 * 24 * Hour, qs_WindowLengthKnown = True\<rparr>"
  have "gget (pk_windows (wit_controller ?w)) 7 = Some [(ProbeWindowLong, ?w)]" "gmap_wf [(ProbeWindowLong, ?w)]"
    "gget [(ProbeWindowLong, ?w)] ProbeWindowLong = Some ?w" "pv_Kind ?e = ProbeEventVerifyResult" "pn_State ?w = ProbeSentUnknown"
    "pv_Window ?e = None" "gget (pv_Snapshots ?e) ProbeWindowLong = Some ?snap" "Minute \<le> pv_Now ?e"
    by (simp_all add: wit_controller_def SetWindow_def NewProbeController_def windows_of_def gmap_wf_def wit_event_def wit_window_def)
  with probe_result_moves_on [OF this(1-3) _ _ this(7,8) surjective_pairing] show ?thesis by fastforce
qed

text \<open>
  C23. No deadline is missed (INV-19): while a window waits for a deadline, \<^verbatim>\<open>NextDeadline\<close> reports a moment no later
  than it, and the deadline event at or after the deadline moves the window to the precheck
  and asks for it.
\<close>

theorem probe_deadline_not_missed:
  assumes "gget (pk_windows c) i = Some ws" and "gmap_wf ws" and "gget ws k = Some w"
    and "pn_State w = ProbeWaitingReset \<or> pn_State w = ProbeRetryWait \<or> pn_State w = ProbeAnomalyHold" and "0 < pn_Deadline w"
    and "\<And>i' ws' k' w'. (i', ws') \<in> set (pk_windows c) \<Longrightarrow> (k', w') \<in> set ws' \<Longrightarrow> 0 \<le> pn_Deadline w'"
    and "pv_Kind e = ProbeEventDeadline" "pv_Window e = None" "pn_Deadline w \<le> pv_Now e"
    and "probe_Advance i e c = (out, c')"
  shows "NextDeadline c \<noteq> ZeroTime \<and> NextDeadline c \<le> pn_Deadline w \<and> precheck_intent i k \<in> set out
    \<and> (\<exists>w'. probe_Window i k c' = Some w' \<and> pn_State w' = ProbePendingCheck)"
proof -
  have "(i, ws) \<in> set (pk_windows c)" "(k, w) \<in> set ws" using assms(1,3) by (simp_all add: map_of_SomeD)
  then have "w \<in> set (all_windows c)" by (force simp: all_windows_def)
  moreover have "\<forall>w' \<in> set (all_windows c). 0 \<le> pn_Deadline w'" using assms(6) by (fastforce simp: all_windows_def)
  ultimately have n: "NextDeadline c \<noteq> ZeroTime" "NextDeadline c \<le> pn_Deadline w"
    using foldl_earlier [of "all_windows c" 0] assms(4,5) unfolding NextDeadline_eq waiting_def by auto
  obtain ws1 seq1 where a: "advance_windows i e ws (pk_seq c) = (ws1, seq1, out)" and c': "probe_Window i k c' = gget ws1 k"
    using assms(1,7,10) by (auto simp: probe_Advance_def probe_Window_def windows_of_def go_simps split: if_splits prod.splits)
  from advance_windows_get [OF assms(2,3), of i e "pk_seq c"] obtain seq' w' seq2 out2
    where w: "advance_window i e k w seq' = (w', seq2, out2)" "gget ws1 k = Some w'" "set out2 \<subseteq> set out" unfolding a by force
  have "pn_State w' = ProbePendingCheck \<and> precheck_intent i k \<in> set out2"
    using w(1) assms(4,7-9) by (auto simp: advance_window_def waiting_def)
  with n c' w(2,3) show ?thesis by auto
qed

theorem probe_deadline_not_missed_witness:
  "NextDeadline (wit_controller (wit_window ProbeRetryWait 5)) \<le> 5"
proof -
  let ?w = "wit_window ProbeRetryWait 5" and ?e = "wit_event ProbeEventDeadline 6 0"
  have c: "pk_windows (wit_controller ?w) = [(7, [(ProbeWindowLong, ?w)])]"
    by (simp add: wit_controller_def SetWindow_def NewProbeController_def windows_of_def)
  have w: "gmap_wf [(ProbeWindowLong, ?w)]" "gget [(ProbeWindowLong, ?w)] ProbeWindowLong = Some ?w" "pn_State ?w = ProbeRetryWait"
    "0 < pn_Deadline ?w" "pn_Deadline ?w = 5" and e: "pv_Kind ?e = ProbeEventDeadline" "pv_Window ?e = None" "pn_Deadline ?w \<le> pv_Now ?e"
    by (simp_all add: gmap_wf_def wit_window_def wit_event_def)
  have "0 \<le> pn_Deadline w'" if "(i', ws') \<in> set (pk_windows (wit_controller ?w))" "(k', w') \<in> set ws'" for i' ws' k' w'
    using that w(5) by (auto simp: c)
  with probe_deadline_not_missed [of "wit_controller ?w" 7, OF _ w(1,2) _ w(4) this e surjective_pairing] w(3,5) c show ?thesis by simp
qed

end
