(* ===== verification/Probe_WAL.thy ===== *)
theory Probe_WAL
  imports Probe Store_Props
begin

text \<open>
  \<^verbatim>\<open>probe_wal.go\<close>: the write-ahead log of probe attempts, kept in the durable control state. A
  probe request may be sent only after its attempt has been recorded as \<^verbatim>\<open>Sending\<close>, and what was
  perhaps sent is verified and never repeated.

  \<open>faults\<close> are the I/O faults of one store operation and \<open>hit\<close> the answer of a crash point.
\<close>

type_synonym hits = "string \<Rightarrow> store_error option"

abbreviation (input) ErrProbeAttemptChanged :: store_error where
  "ErrProbeAttemptChanged \<equiv> ErrApply ''probe attempt changed''"

section \<open>The log\<close>

definition exactProbeAttempt ::
  "PersistentState \<Rightarrow> AuthInstanceID \<Rightarrow> string \<Rightarrow> ProbeAttemptPhase list \<Rightarrow> store_error + ProbeAttemptSeam" where
  "exactProbeAttempt st i attemptID phases =
    (case gget (st_ProbeAttempts st) i of
       None \<Rightarrow> Inl ErrProbeAttemptChanged
     | Some attempt \<Rightarrow>
         if attemptID = [] \<or> pa_AttemptID attempt \<noteq> attemptID then Inl ErrProbeAttemptChanged
         else if pa_Phase attempt \<in> set phases then Inr attempt
         else Inl ErrProbeAttemptChanged)"

definition put_attempt :: "AuthInstanceID \<Rightarrow> ProbeAttemptSeam \<Rightarrow> PersistentState \<Rightarrow> PersistentState" where
  "put_attempt i a st = st\<lparr>st_ProbeAttempts := gput i a (st_ProbeAttempts st)\<rparr>"

definition drop_attempt :: "AuthInstanceID \<Rightarrow> PersistentState \<Rightarrow> PersistentState" where
  "drop_attempt i st = st\<lparr>st_ProbeAttempts := gdel i (st_ProbeAttempts st)\<rparr>"

definition sent_unknown :: "time \<Rightarrow> ProbeAttemptSeam \<Rightarrow> ProbeAttemptSeam" where
  "sent_unknown suppress a = a\<lparr>pa_Phase := ProbeAttemptSentUnknown,
     pa_SuppressUntil := (if After suppress (pa_SuppressUntil a) then suppress else pa_SuppressUntil a)\<rparr>"

definition persistProbeSentUnknown ::
  "AuthInstanceID \<Rightarrow> string \<Rightarrow> time \<Rightarrow> PersistentState \<Rightarrow> store_error + PersistentState" where
  "persistProbeSentUnknown i attemptID suppress st =
    (case exactProbeAttempt st i attemptID [ProbeAttemptSending, ProbeAttemptSent, ProbeAttemptSentUnknown] of
       Inl e \<Rightarrow> Inl e
     | Inr a \<Rightarrow> Inr (put_attempt i (sent_unknown suppress a) st))"

definition record_sending :: "ProbeAttemptSeam \<Rightarrow> PersistentState \<Rightarrow> store_error + PersistentState" where
  "record_sending a st =
    (case exactProbeAttempt st (pa_Instance a) (pa_AttemptID a) [ProbeAttemptPrepared] of
       Inl e \<Rightarrow> Inl e
     | Inr _ \<Rightarrow> Inr (put_attempt (pa_Instance a) a st))"

definition sending :: "ProbeAttemptSeam \<Rightarrow> ProbeAttemptSeam" where
  "sending a = a\<lparr>pa_Phase := ProbeAttemptSending,
     pa_SuppressUntil := (if IsZero (pa_SuppressUntil a) then Add (pa_CreatedAt a) (10 * Minute) else pa_SuppressUntil a)\<rparr>"

definition PersistSending :: "hits \<Rightarrow> faults \<Rightarrow> ProbeAttemptSeam \<Rightarrow> StateStore \<Rightarrow> store_error option \<times> StateStore" where
  "PersistSending hit f a s =
    (case hit ''K_PROBE_SENDING_WRITE'' of
       Some e \<Rightarrow> (Some e, s)
     | None \<Rightarrow>
         (case store_Update (fst f) (snd f) (record_sending (sending a)) s of
            (Inl e, s') \<Rightarrow> (Some e, s')
          | (Inr _, s') \<Rightarrow> (hit ''K_PROBE_AFTER_SENDING'', s')))"

definition ExecuteSend :: "hits \<Rightarrow> store_error option \<Rightarrow> store_error option \<times> bool" where
  \<comment> \<open>\<open>http\<close> is how the request ends; the flag says whether it was made\<close>
  "ExecuteSend hit http =
    (case hit ''K_PROBE_BEFORE_HTTP'' of
       Some e \<Rightarrow> (Some e, False)
     | None \<Rightarrow> (case http of Some e \<Rightarrow> (Some e, True) | None \<Rightarrow> (hit ''K_PROBE_AFTER_HTTP'', True)))"

definition record_sent :: "AuthInstanceID \<Rightarrow> string \<Rightarrow> time \<Rightarrow> PersistentState \<Rightarrow> store_error + PersistentState" where
  "record_sent i attemptID sentAt st =
    (case exactProbeAttempt st i attemptID [ProbeAttemptSending] of
       Inl e \<Rightarrow> Inl e
     | Inr a \<Rightarrow> Inr (put_attempt i (a\<lparr>pa_Phase := ProbeAttemptSent, pa_SentAt := Some sentAt\<rparr>) st))"

definition err_of :: "(store_error + 'a) \<times> StateStore \<Rightarrow> store_error option \<times> StateStore" where
  "err_of r = (case r of (Inl e, s) \<Rightarrow> (Some e, s) | (Inr _, s) \<Rightarrow> (None, s))"

definition PersistSent ::
  "hits \<Rightarrow> faults \<Rightarrow> AuthInstanceID \<Rightarrow> string \<Rightarrow> time \<Rightarrow> StateStore \<Rightarrow> store_error option \<times> StateStore" where
  "PersistSent hit f i attemptID sentAt s =
    (case hit ''K_PROBE_SENT_WRITE'' of
       Some e \<Rightarrow> (Some e, s)
     | None \<Rightarrow> err_of (store_Update (fst f) (snd f) (record_sent i attemptID sentAt) s))"

definition PersistSentUnknown ::
  "faults \<Rightarrow> AuthInstanceID \<Rightarrow> string \<Rightarrow> time \<Rightarrow> StateStore \<Rightarrow> store_error option \<times> StateStore" where
  "PersistSentUnknown f i attemptID suppress s =
    err_of (store_Update (fst f) (snd f) (persistProbeSentUnknown i attemptID suppress) s)"

definition wal_Complete ::
  "faults \<Rightarrow> AuthInstanceID \<Rightarrow> string \<Rightarrow> ProbeAttemptPhase list \<Rightarrow> StateStore \<Rightarrow> store_error option \<times> StateStore" where
  "wal_Complete f i attemptID phases s =
    err_of (store_Update (fst f) (snd f)
      (\<lambda>st. case exactProbeAttempt st i attemptID phases of Inl e \<Rightarrow> Inl e | Inr _ \<Rightarrow> Inr (drop_attempt i st)) s)"

definition recoverable :: "ProbeAttemptSeam \<Rightarrow> bool" where
  \<comment> \<open>the request may have been made\<close>
  "recoverable a \<longleftrightarrow> pa_Phase a = ProbeAttemptSending \<or> pa_Phase a = ProbeAttemptSent \<or> pa_Phase a = ProbeAttemptSentUnknown"

fun recovery_deadline :: "ProbeAttemptSeam list \<Rightarrow> time \<times> bool \<Rightarrow> time \<times> bool" where
  "recovery_deadline [] found = found"
| "recovery_deadline (a # as) (out, found) =
    (if \<not> recoverable a then recovery_deadline as (out, found)
     else if IsZero (pa_VerifyNotBefore a) then (ZeroTime, True)
     else if \<not> found \<or> Before (pa_VerifyNotBefore a) out then recovery_deadline as (pa_VerifyNotBefore a, True)
     else recovery_deadline as (out, found))"

definition RecoveryDeadline :: "faults \<Rightarrow> StateStore \<Rightarrow> (time \<times> bool) \<times> StateStore" where
  "RecoveryDeadline f s =
    (case PersistentSnapshot (fst f) (snd f) s of
       (Inl e, s') \<Rightarrow> ((ZeroTime, False), s')
     | (Inr st, s') \<Rightarrow> (recovery_deadline (map snd (st_ProbeAttempts st)) (ZeroTime, False), s'))"

definition verify_intent :: "AuthInstanceID \<Rightarrow> ProbeAttemptSeam \<Rightarrow> Intent" where
  "verify_intent i a = zero_Intent\<lparr>in_Instance := i, in_Class := OperationProbeVerify, in_Source := SourceProbeVerify,
     in_StartedAfter := pa_SendFenceSeq a, in_AttemptID := pa_AttemptID a, in_Payload := PayloadWindows (pa_Windows a)\<rparr>"

definition attempt_of :: "PersistentState \<Rightarrow> AuthInstanceID \<Rightarrow> ProbeAttemptSeam \<Rightarrow> ProbeAttemptSeam" where
  "attempt_of st i a = (case gget (st_ProbeAttempts st) i of None \<Rightarrow> a | Some a' \<Rightarrow> a')"

fun recover_loop ::
  "(AuthInstanceID \<Rightarrow> faults) \<Rightarrow> time \<Rightarrow> (AuthInstanceID \<times> ProbeAttemptSeam) list \<Rightarrow> Intent list \<Rightarrow> StateStore
    \<Rightarrow> (store_error + Intent list) \<times> StateStore" where
  \<comment> \<open>the faults may differ from one update to the next\<close>
  "recover_loop f now [] out s = (Inr out, s)"
| "recover_loop f now ((i, a) # as) out s =
    (if \<not> recoverable a \<or> Before now (pa_VerifyNotBefore a) then recover_loop f now as out s
     else if pa_Phase a = ProbeAttemptSending then
       (case store_Update (fst (f i)) (snd (f i)) (persistProbeSentUnknown i (pa_AttemptID a) (pa_SuppressUntil a)) s of
          (Inl e, s') \<Rightarrow> if e = ErrProbeAttemptChanged then recover_loop f now as out s' else (Inl e, s')
        | (Inr committed, s') \<Rightarrow> recover_loop f now as (out @ [verify_intent i (attempt_of committed i a)]) s')
     else recover_loop f now as (out @ [verify_intent i a]) s)"

definition RecoverChecked ::
  "faults \<Rightarrow> (AuthInstanceID \<Rightarrow> faults) \<Rightarrow> time \<Rightarrow> StateStore \<Rightarrow> (store_error + Intent list) \<times> StateStore" where
  "RecoverChecked f0 f now s =
    (case PersistentSnapshot (fst f0) (snd f0) s of
       (Inl e, s') \<Rightarrow> (Inl e, s')
     | (Inr st, s') \<Rightarrow> recover_loop f now (st_ProbeAttempts st) [] s')"

definition wal_Recover :: "faults \<Rightarrow> (AuthInstanceID \<Rightarrow> faults) \<Rightarrow> time \<Rightarrow> StateStore \<Rightarrow> Intent list \<times> StateStore" where
  "wal_Recover f0 f now s = (case RecoverChecked f0 f now s of (Inl _, s') \<Rightarrow> ([], s') | (Inr out, s') \<Rightarrow> (out, s'))"

end
