(* ===== verification/Probe_Runtime.thy ===== *)
theory Probe_Runtime
  imports Probe_WAL Binding_Registry
begin

text \<open>
  \<^verbatim>\<open>probe_runtime.go\<close>: the probe windows and attempts in the durable state, and the sequence that
  checks, sends and verifies a probe. Each function passed to \<^verbatim>\<open>runtimeStore.Update\<close> is a
  definition of its own (\<open>..._tx\<close>) on the durable state; the methods compose them with the controller.
  The clock, the roster, the bindings and the host calls are parameters of the methods.
\<close>

section \<open>Observations\<close>

definition probeObservationInterval :: "Config \<Rightarrow> duration" where
  "probeObservationInterval cfg = (let interval = cfg_QuotaRefreshInterval (NormalizeConfig cfg)
     in if interval < probeUnknownResetRecheck then probeUnknownResetRecheck else interval)"

definition snapshot_of :: "QuotaWindow \<Rightarrow> QuotaSnapshot" where
  "snapshot_of w = \<lparr>qs_Valid = True, qs_ResetAt = Some (qw_ResetAt w), qs_Usage = qw_UsedPercent w, qs_WindowKind = qw_Kind w,
     qs_WindowLength = (case probeWindowDuration w of None \<Rightarrow> 0 | Some d \<Rightarrow> d),
     qs_WindowLengthKnown = (probeWindowDuration w \<noteq> None)\<rparr>"

definition observed_windows :: "ParsedQuota \<Rightarrow> (ProbeWindowKind \<times> QuotaWindow option) list" where
  "observed_windows q = [(ProbeWindowFiveHour, pq_FiveHour q), (ProbeWindowLong, pq_LongWindow q)]"

definition probeSnapshots :: "ParsedQuota \<Rightarrow> (ProbeWindowKind, QuotaSnapshot) gmap" where
  "probeSnapshots q = List.map_filter (\<lambda>(k, w). case w of None \<Rightarrow> None | Some w \<Rightarrow> Some (k, snapshot_of w)) (observed_windows q)"

definition rearmConfirmedProbeWindow ::
  "ProbeWindow \<Rightarrow> time \<Rightarrow> QuotaWindow \<Rightarrow> time \<Rightarrow> duration \<Rightarrow> ProbeWindow option" where
  \<comment> \<open>\<open>None\<close> when the window is left as it is\<close>
  "rearmConfirmedProbeWindow window observedAt observation now observationInterval =
    (case (qw_UsedPercent observation, probeWindowDuration observation) of
       (Some usage, Some d) \<Rightarrow>
         if pn_State window \<noteq> ProbeConfirmed \<or> IsZero (qw_ResetAt observation) \<or> IsZero observedAt \<or> After observedAt now \<or> d \<le> 0
            \<or> pb_Kind (pn_Baseline window) = ProbeBaselineReset \<and> \<not> IsZero (pb_ResetAt (pn_Baseline window))
              \<and> \<not> After (qw_ResetAt observation) (Add (pb_ResetAt (pn_Baseline window)) probeSkewTolerance)
         then None
         else let base = (ResetProbeBaseline (qw_ResetAt observation) usage d)\<lparr>pb_WindowKind := qw_Kind observation\<rparr>;
                  w = window\<lparr>pn_Baseline := base, pn_AttemptID := [], pn_RetryCount := 0\<rparr>
              in Some (if looksLikeStrictLazyObservation observedAt observation d
                       then w\<lparr>pn_Baseline := base\<lparr>pb_SuspectedLazy := True\<rparr>, pn_State := ProbePendingCheck, pn_Deadline := ZeroTime\<rparr>
                       else w\<lparr>pn_State := ProbeWaitingReset, pn_Deadline := deadlineFor base now observationInterval\<rparr>)
     | _ \<Rightarrow> None)"

section \<open>Creating windows from observed quotas\<close>

record probe_time =
  pt_now :: time
  pt_interval :: duration
  pt_capA :: bool   \<comment> \<open>the roster has capability A\<close>

definition wait_for_roster :: "probe_time \<Rightarrow> ProbeWindow \<Rightarrow> ProbeWindow" where
  "wait_for_roster t w = (if pt_capA t then w else w\<lparr>pn_State := ProbeWaitingRoster, pn_Deadline := ZeroTime\<rparr>)"

definition bootstrap_existing :: "probe_time \<Rightarrow> bool \<Rightarrow> time \<Rightarrow> QuotaWindow \<Rightarrow> ProbeWindow \<Rightarrow> ProbeWindow option" where
  "bootstrap_existing t strictObservation observedAt q w =
    (case rearmConfirmedProbeWindow w (if strictObservation then observedAt else ZeroTime) q (pt_now t) (pt_interval t) of
       Some rearmed \<Rightarrow> Some (wait_for_roster t rearmed)
     | None \<Rightarrow>
         (case probeWindowDuration q of
            Some d \<Rightarrow>
              if pb_Kind (pn_Baseline w) = ProbeBaselineReset \<and> pb_WindowLength (pn_Baseline w) = 0 then
                let b = pn_Baseline w;
                    b1 = b\<lparr>pb_WindowLength := d, pb_WindowKind := (if pb_WindowKind b = WindowKindEmpty then qw_Kind q else pb_WindowKind b)\<rparr>;
                    deadline = deadlineFor b1 (pt_now t) (pt_interval t)
                in Some (wait_for_roster t
                     (if strictObservation \<and> looksLikeStrictLazyObservation observedAt q d
                      then w\<lparr>pn_Baseline := b1\<lparr>pb_ResetAt := qw_ResetAt q, pb_Usage := the (qw_UsedPercent q), pb_SuspectedLazy := True\<rparr>,
                             pn_State := ProbePendingCheck, pn_Deadline := ZeroTime\<rparr>
                      else if pn_State w = ProbeWaitingReset
                      then if After deadline (pt_now t) then w\<lparr>pn_Baseline := b1, pn_Deadline := deadline\<rparr>
                           else w\<lparr>pn_Baseline := b1, pn_State := ProbePendingCheck, pn_Deadline := ZeroTime\<rparr>
                      else w\<lparr>pn_Baseline := b1\<rparr>))
              else None
          | None \<Rightarrow> None))"

definition bootstrap_new :: "probe_time \<Rightarrow> bool \<Rightarrow> time \<Rightarrow> QuotaWindow \<Rightarrow> ProbeWindow" where
  "bootstrap_new t strictObservation observedAt q =
    (let usage = (case qw_UsedPercent q of None \<Rightarrow> 0 | Some u \<Rightarrow> u);
         base = (ResetProbeBaseline (qw_ResetAt q) usage (case probeWindowDuration q of None \<Rightarrow> 0 | Some d \<Rightarrow> d))
                  \<lparr>pb_WindowKind := qw_Kind q\<rparr>;
         deadline = deadlineFor base (pt_now t) (pt_interval t);
         lazy = (strictObservation \<and> snd (firstObservationLazyWindow observedAt q));
         w = \<lparr>pn_State = ProbeWaitingReset, pn_Baseline = base, pn_Deadline = deadline, pn_RetryCount = 0, pn_AttemptID = [],
              pn_AuthBlockedAtLogin = 0\<rparr>
     in wait_for_roster t
          (if lazy then w\<lparr>pn_Baseline := base\<lparr>pb_SuspectedLazy := True\<rparr>, pn_State := ProbePendingCheck, pn_Deadline := ZeroTime\<rparr>
           else if \<not> After deadline (pt_now t) then w\<lparr>pn_State := ProbePendingCheck, pn_Deadline := ZeroTime\<rparr>
           else w))"

definition touch :: "AuthInstanceID \<Rightarrow> AuthInstanceID list \<Rightarrow> AuthInstanceID list" where
  "touch i is = List.insert i is"

definition earlier_reset_deadline ::
  "probe_time \<Rightarrow> AuthInstanceID \<times> ProbeWindowKind \<times> ProbeWindow \<Rightarrow> AuthInstanceID list \<times> ProbeController
    \<Rightarrow> AuthInstanceID list \<times> ProbeController" where
  "earlier_reset_deadline t ikw acc =
    (let (i, k, w) = ikw; (touched, c) = acc; deadline = deadlineFor (pn_Baseline w) (pt_now t) (pt_interval t)
     in if pn_State w \<noteq> ProbeWaitingReset \<or> pb_Kind (pn_Baseline w) \<noteq> ProbeBaselineReset \<or> pb_WindowLength (pn_Baseline w) \<le> 0
        then acc
        else if IsZero (pn_Deadline w) \<or> Before deadline (pn_Deadline w)
        then (touch i touched, SetWindow i k (w\<lparr>pn_Deadline := deadline\<rparr>) c) else acc)"

definition bootstrap_pair ::
  "probe_time \<Rightarrow> bool \<Rightarrow> time \<Rightarrow> AuthInstanceID \<Rightarrow> ProbeWindowKind \<times> QuotaWindow option
    \<Rightarrow> AuthInstanceID list \<times> ProbeController \<Rightarrow> AuthInstanceID list \<times> ProbeController" where
  "bootstrap_pair t strictObservation observedAt i pair acc =
    (let (touched, c) = acc
     in case pair of
          (k, None) \<Rightarrow> acc
        | (k, Some q) \<Rightarrow>
            (case probe_Window i k c of
               Some w \<Rightarrow>
                 (case bootstrap_existing t strictObservation observedAt q w of
                    None \<Rightarrow> acc
                  | Some w' \<Rightarrow> (touch i touched, SetWindow i k w' c))
             | None \<Rightarrow> (touch i touched, SetWindow i k (bootstrap_new t strictObservation observedAt q) c)))"

definition bootstrap_account ::
  "probe_time \<Rightarrow> (string, RuntimeBinding) gmap \<Rightarrow> AccountState
    \<Rightarrow> AuthInstanceID list \<times> ProbeController \<Rightarrow> AuthInstanceID list \<times> ProbeController" where
  "bootstrap_account t bindings a acc =
    (let strictObservation = (\<not> IsZero (as_LastSuccessAt a) \<and> \<not> After (as_LastSuccessAt a) (pt_now t));
         observedAt = (if strictObservation then as_LastSuccessAt a else pt_now t)
     in case gget bindings (as_AuthID a) of
          None \<Rightarrow> acc
        | Some b \<Rightarrow> fold (bootstrap_pair t strictObservation observedAt (rb_Instance b)) (observed_windows (as_Quota a)) acc)"

definition all_entries :: "ProbeController \<Rightarrow> (AuthInstanceID \<times> ProbeWindowKind \<times> ProbeWindow) list" where
  "all_entries c = concat (map (\<lambda>(i, ws). map (\<lambda>(k, w). (i, k, w)) ws) (pk_windows c))"

section \<open>The functions given to the store\<close>

definition persist_instances_tx ::
  "AuthInstanceID list \<Rightarrow> (AuthInstanceID, probe_windows) gmap \<Rightarrow> PersistentState \<Rightarrow> store_error + PersistentState" where
  "persist_instances_tx instances snapshot st =
    Inr (fold (\<lambda>i st. st\<lparr>st_ProbeWindows := (case gget snapshot i of
                 Some ws \<Rightarrow> gput i ws (st_ProbeWindows st) | None \<Rightarrow> gdel i (st_ProbeWindows st))\<rparr>) instances st)"

definition persist_windows_tx ::
  "(AuthInstanceID, probe_windows) gmap \<Rightarrow> PersistentState \<Rightarrow> store_error + PersistentState" where
  "persist_windows_tx snapshot st =
    Inr (fold (\<lambda>(i, ws) st. st\<lparr>st_ProbeWindows := gput i ws (st_ProbeWindows st)\<rparr>) snapshot st)"

definition nonterminalProbeAttempt :: "ProbeAttemptSeam \<Rightarrow> bool" where
  "nonterminalProbeAttempt a \<longleftrightarrow> pa_Phase a = ProbeAttemptPrepared \<or> recoverable a"

definition attemptReferencesWindow :: "ProbeAttemptSeam \<Rightarrow> ProbeWindowKind \<Rightarrow> bool" where
  "attemptReferencesWindow a kind \<longleftrightarrow> kind \<in> set (pa_Windows a)"

definition put_windows :: "AuthInstanceID \<Rightarrow> probe_windows \<Rightarrow> PersistentState \<Rightarrow> PersistentState" where
  \<comment> \<open>an empty map is removed\<close>
  "put_windows i ws st = st\<lparr>st_ProbeWindows := (if ws = [] then gdel i (st_ProbeWindows st) else gput i ws (st_ProbeWindows st))\<rparr>"

definition stored_windows :: "AuthInstanceID \<Rightarrow> PersistentState \<Rightarrow> probe_windows" where
  "stored_windows i st = (case gget (st_ProbeWindows st) i of None \<Rightarrow> [] | Some ws \<Rightarrow> ws)"

definition reconcile_kind ::
  "probe_time \<Rightarrow> AuthInstanceID \<Rightarrow> ProbeWindowKind \<times> QuotaWindow option \<Rightarrow> PersistentState \<Rightarrow> PersistentState" where
  "reconcile_kind t i ko st =
    (let (kind, observation) = ko; ws = stored_windows i st
     in case (observation, gget ws kind) of
          (Some q, Some w) \<Rightarrow>
            (case rearmConfirmedProbeWindow w (pt_now t) q (pt_now t) (pt_interval t) of
               None \<Rightarrow> st
             | Some w' \<Rightarrow> st\<lparr>st_ProbeWindows := gput i (gput kind w' ws) (st_ProbeWindows st)\<rparr>)
        | (Some q, None) \<Rightarrow> st
        | (None, w) \<Rightarrow>
            if (case w of None \<Rightarrow> False | Some w \<Rightarrow> pn_State w = ProbeConfirmed)
               \<or> (case gget (st_ProbeAttempts st) i of None \<Rightarrow> False
                  | Some a \<Rightarrow> nonterminalProbeAttempt a \<and> attemptReferencesWindow a kind)
            then st
            else put_windows i (gdel kind ws) st)"

definition reconcile_tx :: "probe_time \<Rightarrow> AuthInstanceID \<Rightarrow> ParsedQuota \<Rightarrow> PersistentState \<Rightarrow> store_error + PersistentState" where
  "reconcile_tx t i quota st = Inr (fold (reconcile_kind t i) (observed_windows quota) st)"

definition terminal_tx ::
  "AuthInstanceID \<Rightarrow> string \<Rightarrow> ProbeAttemptPhase list \<Rightarrow> probe_windows \<Rightarrow> PersistentState \<Rightarrow> store_error + PersistentState" where
  "terminal_tx i attemptID phases ws st =
    (case exactProbeAttempt st i attemptID phases of
       Inl e \<Rightarrow> Inl e
     | Inr _ \<Rightarrow> Inr (drop_attempt i (put_windows i ws st)))"

definition failed_window :: "bool \<Rightarrow> bool \<Rightarrow> LoginEpoch \<Rightarrow> string \<Rightarrow> time \<Rightarrow> ProbeWindow \<Rightarrow> ProbeWindow" where
  "failed_window sent authBlocked login attemptID now w =
    (if authBlocked then w\<lparr>pn_State := ProbeAuthBlocked, pn_AuthBlockedAtLogin := login, pn_Deadline := ZeroTime\<rparr>
     else w\<lparr>pn_State := (if sent then ProbeSentUnknown else ProbeRetryWait), pn_AttemptID := (if sent then attemptID else []),
            pn_RetryCount := pn_RetryCount w + 1, pn_Deadline := Add now (probeBackoff (pn_RetryCount w + 1))\<rparr>)"

definition fail_kind ::
  "(ProbeWindow \<Rightarrow> ProbeWindow) \<Rightarrow> probe_windows \<Rightarrow> ProbeWindowKind \<Rightarrow> probe_windows \<Rightarrow> probe_windows" where
  "fail_kind f controllerWindows kind nxt =
    (case (case gget controllerWindows kind of None \<Rightarrow> gget nxt kind | Some w \<Rightarrow> Some w) of
       None \<Rightarrow> nxt
     | Some w \<Rightarrow> if pn_State w = ProbeWaitingRoster then nxt else gput kind (f w) nxt)"

definition fail_attempt ::
  "AuthInstanceID \<Rightarrow> string \<Rightarrow> bool \<Rightarrow> time \<Rightarrow> PersistentState \<Rightarrow> store_error + PersistentState" where
  "fail_attempt i attemptID sent suppressUntil st =
    (if sent then persistProbeSentUnknown i attemptID suppressUntil st
     else case exactProbeAttempt st i attemptID [ProbeAttemptPrepared, ProbeAttemptSending] of
            Inl e \<Rightarrow> Inl e
          | Inr a \<Rightarrow> Inr (if pa_Phase a = ProbeAttemptPrepared then drop_attempt i st else st))"

definition failure_tx ::
  "AuthInstanceID \<Rightarrow> string \<Rightarrow> ProbeWindowKind list \<Rightarrow> bool \<Rightarrow> bool \<Rightarrow> LoginEpoch \<Rightarrow> time \<Rightarrow> time \<Rightarrow> probe_windows
    \<Rightarrow> PersistentState \<Rightarrow> store_error + PersistentState" where
  "failure_tx i attemptID windows sent authBlocked login suppressUntil now controllerWindows st =
    (case fail_attempt i attemptID sent suppressUntil st of
       Inl e \<Rightarrow> Inl e
     | Inr st1 \<Rightarrow> Inr (put_windows i (fold (fail_kind (failed_window sent authBlocked login attemptID now) controllerWindows)
           windows (stored_windows i st1)) st1))"

definition remove_instance_tx :: "AuthInstanceID list \<Rightarrow> PersistentState \<Rightarrow> store_error + PersistentState" where
  "remove_instance_tx is st =
    Inr (fold (\<lambda>i st. drop_attempt i (st\<lparr>st_ProbeWindows := gdel i (st_ProbeWindows st)\<rparr>)) is st)"

definition held_window :: "ProbeAttemptSeam option \<Rightarrow> ProbeWindowKind \<Rightarrow> ProbeWindow \<Rightarrow> ProbeWindow" where
  "held_window sent kind w =
    (let w1 = w\<lparr>pn_Deadline := ZeroTime\<rparr>
     in case sent of
          Some a \<Rightarrow>
            if kind \<in> set (pa_Windows a) then w1\<lparr>pn_State := ProbeSentUnknown, pn_AttemptID := pa_AttemptID a\<rparr>
            else if pn_State w1 \<noteq> ProbeConfirmed then w1\<lparr>pn_State := ProbeWaitingRoster, pn_AttemptID := []\<rparr> else w1
        | None \<Rightarrow> if pn_State w1 \<noteq> ProbeConfirmed then w1\<lparr>pn_State := ProbeWaitingRoster, pn_AttemptID := []\<rparr> else w1)"

definition hold_instance :: "AuthInstanceID \<times> probe_windows \<Rightarrow> PersistentState \<Rightarrow> PersistentState" where
  "hold_instance iw st =
    (let (i, ws) = iw; attempt = gget (st_ProbeAttempts st) i;
         sent = (case attempt of None \<Rightarrow> None | Some a \<Rightarrow> if recoverable a then Some a else None);
         st1 = (if attempt \<noteq> None \<and> sent = None then drop_attempt i st else st)
     in put_windows i (map (\<lambda>(k, w). (k, held_window sent k w)) ws) st1)"

definition hold_tx :: "(AuthInstanceID, probe_windows) gmap \<Rightarrow> PersistentState \<Rightarrow> store_error + PersistentState" where
  "hold_tx snapshot st = Inr (fold hold_instance snapshot st)"

definition claim_id :: "AuthInstanceID \<Rightarrow> uint64 \<Rightarrow> string" where
  "claim_id i n = ''probe-'' @ fmt_d (unat i) @ ''-'' @ fmt_d (unat n)"

definition claim_new ::
  "AuthInstanceID \<Rightarrow> ProbeWindowKind list \<Rightarrow> time \<Rightarrow> probe_windows option \<Rightarrow> PersistentState \<Rightarrow> PersistentState" where
  "claim_new i due now claimWindows st =
    (let n = st_ProbeAttemptSeq st + 1
     in st\<lparr>st_ProbeAttemptSeq := n,
         st_ProbeAttempts := gput i \<lparr>pa_Instance = i, pa_AttemptID = claim_id i n, pa_Windows = due, pa_Phase = ProbeAttemptPrepared,
             pa_SendFenceSeq = 0, pa_CreatedAt = now, pa_SentAt = None, pa_VerifyNotBefore = now, pa_SuppressUntil = ZeroTime\<rparr>
           (st_ProbeAttempts st),
         st_ProbeWindows := (case claimWindows of Some ws \<Rightarrow> gput i ws (st_ProbeWindows st) | None \<Rightarrow> gdel i (st_ProbeWindows st))\<rparr>)"

definition claim_tx ::
  "AuthInstanceID \<Rightarrow> ProbeWindowKind list \<Rightarrow> time \<Rightarrow> probe_windows option \<Rightarrow> PersistentState \<Rightarrow> store_error + PersistentState" where
  \<comment> \<open>an attempt that exists already is taken over\<close>
  "claim_tx i due now claimWindows st =
    (case gget (st_ProbeAttempts st) i of
       Some existing \<Rightarrow> Inr (if pa_AttemptID existing \<noteq> [] then st else claim_new i due now claimWindows st)
     | None \<Rightarrow> Inr (claim_new i due now claimWindows st))"

definition recover_prepared ::
  "(AuthInstanceID, probe_windows) gmap \<Rightarrow> AuthInstanceID \<times> ProbeAttemptSeam \<Rightarrow> PersistentState \<Rightarrow> PersistentState" where
  "recover_prepared windows ia st =
    (let (i, attempt) = ia;
         st1 = st\<lparr>st_ProbeWindows := (case gget windows i of Some ws \<Rightarrow> gput i ws (st_ProbeWindows st)
                    | None \<Rightarrow> gdel i (st_ProbeWindows st))\<rparr>
     in case gget (st_ProbeAttempts st1) i of
          Some current \<Rightarrow>
            if pa_AttemptID current = pa_AttemptID attempt \<and> pa_Phase current = ProbeAttemptPrepared then drop_attempt i st1 else st1
        | None \<Rightarrow> st1)"

definition recover_prepared_tx ::
  "(AuthInstanceID, ProbeAttemptSeam) gmap \<Rightarrow> (AuthInstanceID, probe_windows) gmap \<Rightarrow> PersistentState \<Rightarrow> store_error + PersistentState" where
  "recover_prepared_tx prepared windows st = Inr (fold (recover_prepared windows) prepared st)"

definition legacy_sent_unknown_tx ::
  "AuthInstanceID \<Rightarrow> uint64 \<Rightarrow> time \<Rightarrow> time \<Rightarrow> PersistentState \<Rightarrow> store_error + PersistentState" where
  "legacy_sent_unknown_tx i fence now suppressUntil st =
    Inr (put_attempt i \<lparr>pa_Instance = i, pa_AttemptID = ''legacy-'' @ fmt_d (unat fence),
      pa_Windows = [ProbeWindowFiveHour, ProbeWindowLong], pa_Phase = ProbeAttemptSentUnknown, pa_SendFenceSeq = fence,
      pa_CreatedAt = now, pa_SentAt = Some now, pa_VerifyNotBefore = now, pa_SuppressUntil = suppressUntil\<rparr> st)"

section \<open>The methods\<close>

record ProbeRuntime =
  pr_store :: StateStore
  pr_ctrl :: ProbeController
  pr_persistPending :: "AuthInstanceID list"
  pr_holdPending :: bool
  pr_roster :: HostRosterSnapshot
  pr_permit :: bool                  \<comment> \<open>\<^verbatim>\<open>provisionalPermit\<close>\<close>
  pr_bindings :: bindings
  pr_sent :: "(AuthInstanceID \<times> string) list"   \<comment> \<open>the activation requests that were made, the latest first\<close>

definition rt_update ::
  "faults \<Rightarrow> (PersistentState \<Rightarrow> store_error + PersistentState) \<Rightarrow> ProbeRuntime \<Rightarrow> (store_error + PersistentState) \<times> ProbeRuntime" where
  "rt_update f tx rt = (let (res, s) = store_Update (fst f) (snd f) tx (pr_store rt) in (res, rt\<lparr>pr_store := s\<rparr>))"

definition rt_error :: "(store_error + 'a) \<times> ProbeRuntime \<Rightarrow> store_error option \<times> ProbeRuntime" where
  "rt_error r = (case r of (Inl e, rt) \<Rightarrow> (Some e, rt) | (Inr _, rt) \<Rightarrow> (None, rt))"

definition persistProbeInstances :: "faults \<Rightarrow> AuthInstanceID list \<Rightarrow> ProbeRuntime \<Rightarrow> store_error option \<times> ProbeRuntime" where
  "persistProbeInstances f instances rt =
    (if instances = [] then (None, rt)
     else rt_error (rt_update f (persist_instances_tx instances (probe_Snapshot (pr_ctrl rt))) rt))"

definition persistProbeWindows :: "faults \<Rightarrow> ProbeRuntime \<Rightarrow> store_error option \<times> ProbeRuntime" where
  "persistProbeWindows f rt = rt_error (rt_update f (persist_windows_tx (probe_Snapshot (pr_ctrl rt))) rt)"

definition bootstrapProbeWindows ::
  "faults \<Rightarrow> bool \<Rightarrow> probe_time \<Rightarrow> AccountState list \<Rightarrow> (string, RuntimeBinding) gmap \<Rightarrow> ProbeRuntime
    \<Rightarrow> store_error option \<times> ProbeRuntime" where
  "bootstrapProbeWindows f enabled t accounts bindings rt =
    (if \<not> enabled then (None, rt)
     else let acc0 = fold (earlier_reset_deadline t) (all_entries (pr_ctrl rt)) (pr_persistPending rt, pr_ctrl rt);
              (touched, c) = fold (bootstrap_account t bindings) accounts acc0
          in case persistProbeInstances f touched (rt\<lparr>pr_ctrl := c\<rparr>) of
               (Some e, rt1) \<Rightarrow> (Some e, rt1\<lparr>pr_persistPending := fold touch touched (pr_persistPending rt1)\<rparr>)
             | (None, rt1) \<Rightarrow> (None, rt1\<lparr>pr_persistPending := filter (\<lambda>i. i \<notin> set touched) (pr_persistPending rt1)\<rparr>))"

definition syncProbeControllerInstance :: "AuthInstanceID \<Rightarrow> PersistentState \<Rightarrow> ProbeController \<Rightarrow> ProbeController" where
  "syncProbeControllerInstance i st c = ReplaceInstance i (stored_windows i st) c"

definition syncProbeControllerInstanceFromStore :: "faults \<Rightarrow> AuthInstanceID \<Rightarrow> ProbeRuntime \<Rightarrow> ProbeRuntime" where
  "syncProbeControllerInstanceFromStore f i rt =
    (case PersistentSnapshot (fst f) (snd f) (pr_store rt) of
       (Inl _, s) \<Rightarrow> rt\<lparr>pr_store := s\<rparr>
     | (Inr st, s) \<Rightarrow> rt\<lparr>pr_store := s, pr_ctrl := syncProbeControllerInstance i st (pr_ctrl rt)\<rparr>)"

definition sync_kind :: "AuthInstanceID \<Rightarrow> PersistentState \<Rightarrow> ProbeWindowKind \<Rightarrow> ProbeController \<Rightarrow> ProbeController" where
  "sync_kind i st kind c =
    (case gget (stored_windows i st) kind of Some w \<Rightarrow> SetWindow i kind w c | None \<Rightarrow> RemoveWindow i kind c)"

definition reconcileObservedProbeWindows ::
  "faults \<Rightarrow> probe_time \<Rightarrow> AuthInstanceID \<Rightarrow> ParsedQuota \<Rightarrow> ProbeRuntime \<Rightarrow> store_error option \<times> ProbeRuntime" where
  "reconcileObservedProbeWindows f t i quota rt =
    (if i = 0 then (None, rt)
     else case rt_update f (reconcile_tx t i quota) rt of
            (Inl e, rt1) \<Rightarrow> (Some e, rt1)
          | (Inr updated, rt1) \<Rightarrow>
              (None, rt1\<lparr>pr_ctrl := fold (sync_kind i updated) (map fst (observed_windows quota)) (pr_ctrl rt1)\<rparr>))"

definition unobserved :: "ParsedQuota \<Rightarrow> ProbeWindowKind list" where
  "unobserved quota = map fst (filter (\<lambda>(k, w). w = None) (observed_windows quota))"

definition persistTerminalProbeCompletionLocked ::
  "faults \<Rightarrow> AuthInstanceID \<Rightarrow> string \<Rightarrow> ParsedQuota \<Rightarrow> ProbeAttemptPhase list \<Rightarrow> ProbeRuntime
    \<Rightarrow> store_error option \<times> ProbeRuntime" where
  "persistTerminalProbeCompletionLocked f i attemptID quota phases rt =
    (let ws = fold gdel (unobserved quota) (windows_of (pr_ctrl rt) i)
     in case rt_update f (terminal_tx i attemptID phases ws) rt of
          (Inl e, rt1) \<Rightarrow> (Some e, syncProbeControllerInstanceFromStore f i rt1)
        | (Inr _, rt1) \<Rightarrow> (None, rt1\<lparr>pr_ctrl := fold (RemoveWindow i) (unobserved quota) (pr_ctrl rt1)\<rparr>))"

definition probe_event :: "ProbeEventKind \<Rightarrow> time \<Rightarrow> (ProbeWindowKind, QuotaSnapshot) gmap \<Rightarrow> duration \<Rightarrow> ProbeEvent" where
  "probe_event kind now snaps interval = \<lparr>pv_Kind = kind, pv_Window = None, pv_Now = now, pv_Snapshots = snaps,
     pv_RefreshMode = RefreshModeEmpty, pv_ObservationInterval = interval\<rparr>"

definition advance_ctrl :: "AuthInstanceID \<Rightarrow> ProbeEvent \<Rightarrow> ProbeRuntime \<Rightarrow> ProbeRuntime" where
  "advance_ctrl i e rt = rt\<lparr>pr_ctrl := snd (probe_Advance i e (pr_ctrl rt))\<rparr>"

definition persistVerifiedProbeCompletion ::
  "faults \<Rightarrow> time \<Rightarrow> AuthInstanceID \<Rightarrow> string \<Rightarrow> ParsedQuota \<Rightarrow> ProbeAttemptPhase list \<Rightarrow> ProbeRuntime
    \<Rightarrow> store_error option \<times> ProbeRuntime" where
  "persistVerifiedProbeCompletion f now i attemptID quota phases rt =
    (if i = 0 then (None, rt)
     else persistTerminalProbeCompletionLocked f i attemptID quota phases
       (advance_ctrl i (probe_event ProbeEventVerifyResult now (probeSnapshots quota) 0) rt))"

definition persistProbeFailure ::
  "faults \<Rightarrow> time \<Rightarrow> AuthInstanceID \<Rightarrow> string \<Rightarrow> ProbeWindowKind list \<Rightarrow> bool \<Rightarrow> bool \<Rightarrow> LoginEpoch \<Rightarrow> time \<Rightarrow> ProbeRuntime
    \<Rightarrow> store_error option \<times> ProbeRuntime" where
  "persistProbeFailure f now i attemptID windows sent authBlocked login suppressUntil rt =
    (if i = 0 then (None, rt)
     else case rt_update f (failure_tx i attemptID windows sent authBlocked login suppressUntil now (windows_of (pr_ctrl rt) i)) rt of
            (Inl e, rt1) \<Rightarrow> (Some e, syncProbeControllerInstanceFromStore f i rt1)
          | (Inr committed, rt1) \<Rightarrow> (None, rt1\<lparr>pr_ctrl := syncProbeControllerInstance i committed (pr_ctrl rt1)\<rparr>))"

definition removed_event :: "time \<Rightarrow> ProbeEvent" where
  "removed_event now = probe_event ProbeEventInstanceRemoved now [] 0"

definition reconcileProbeOrphans ::
  "(AuthInstanceID \<Rightarrow> faults) \<Rightarrow> time \<Rightarrow> PersistentState \<Rightarrow> AuthInstanceID list \<Rightarrow> ProbeRuntime \<Rightarrow> store_error option \<times> ProbeRuntime" where
  "reconcileProbeOrphans f now persisted active rt =
    fold (\<lambda>i (firstErr, rt).
        let (err, rt1) = rt_error (rt_update (f i) (remove_instance_tx [i]) (advance_ctrl i (removed_event now) rt))
        in (if firstErr = None then err else firstErr, rt1))
      (filter (\<lambda>i. i \<notin> set active) (remdups (map fst (st_ProbeWindows persisted) @ map fst (st_ProbeAttempts persisted)))) (None, rt)"

definition holdProbeForRoster :: "faults \<Rightarrow> ProbeRuntime \<Rightarrow> store_error option \<times> ProbeRuntime" where
  "holdProbeForRoster f rt =
    (let snapshot = probe_Snapshot (pr_ctrl rt)
     in case rt_update f (hold_tx snapshot) rt of
          (Inl e, rt1) \<Rightarrow> (Some e, rt1)
        | (Inr committed, rt1) \<Rightarrow>
            (None, rt1\<lparr>pr_ctrl := fold (\<lambda>i. syncProbeControllerInstance i committed) (map fst snapshot) (pr_ctrl rt1)\<rparr>))"

definition persistProbeRosterHold :: "faults \<Rightarrow> ProbeRuntime \<Rightarrow> store_error option \<times> ProbeRuntime" where
  "persistProbeRosterHold f rt = (let (err, rt1) = holdProbeForRoster f rt in (err, rt1\<lparr>pr_holdPending := (err \<noteq> None)\<rparr>))"

definition retryProbeRosterHold :: "faults \<Rightarrow> ProbeRuntime \<Rightarrow> store_error option \<times> ProbeRuntime" where
  "retryProbeRosterHold f rt = (if pr_holdPending rt then persistProbeRosterHold f rt else (None, rt))"

definition pending_check :: "ProbeWindow \<Rightarrow> ProbeWindow" where
  "pending_check w = w\<lparr>pn_State := ProbePendingCheck, pn_Deadline := ZeroTime\<rparr>"

definition map_window :: "(ProbeWindow \<Rightarrow> ProbeWindow option) \<Rightarrow> AuthInstanceID \<Rightarrow> ProbeWindowKind \<Rightarrow> ProbeController \<Rightarrow> ProbeController" where
  "map_window f i k c =
    (case probe_Window i k c of None \<Rightarrow> c | Some w \<Rightarrow> (case f w of None \<Rightarrow> c | Some w' \<Rightarrow> SetWindow i k w' c))"

definition unblock_window :: "RuntimeBinding \<Rightarrow> ProbeWindow \<Rightarrow> ProbeWindow option" where
  "unblock_window b w = (if pn_State w = ProbeAuthBlocked \<and> pn_AuthBlockedAtLogin w < rb_Login b then Some (pending_check w) else None)"

definition probe_kinds :: "ProbeWindowKind list" where
  "probe_kinds = [ProbeWindowFiveHour, ProbeWindowLong]"

definition recover_binding :: "time \<Rightarrow> duration \<Rightarrow> RuntimeBinding \<Rightarrow> ProbeController \<Rightarrow> ProbeController" where
  "recover_binding now interval b c =
    fold (\<lambda>k c. map_window (\<lambda>w. if pn_State w = ProbeWaitingReset \<and> \<not> After (pn_Deadline w) now then Some (pending_check w) else None)
            (rb_Instance b) k (map_window (unblock_window b) (rb_Instance b) k c))
      probe_kinds (snd (probe_Advance (rb_Instance b) (probe_event ProbeEventRosterConfirmed now [] interval) c))"

definition recoverProbeFromRoster ::
  "faults \<Rightarrow> time \<Rightarrow> duration \<Rightarrow> (string, RuntimeBinding) gmap \<Rightarrow> ProbeRuntime \<Rightarrow> store_error option \<times> ProbeRuntime" where
  "recoverProbeFromRoster f now interval bindings rt =
    persistProbeInstances f (remdups (map (rb_Instance \<circ> snd) bindings))
      (rt\<lparr>pr_ctrl := fold (recover_binding now interval \<circ> snd) bindings (pr_ctrl rt)\<rparr>)"

definition highestTierSet :: "HostRosterSnapshot \<Rightarrow> string list" where
  "highestTierSet roster = (case HighestCodexTier (hr_Entries roster) of None \<Rightarrow> [] | Some (_, ids) \<Rightarrow> ids)"

definition activeProbeBindings :: "HostRosterSnapshot \<Rightarrow> (string, RuntimeBinding) gmap \<Rightarrow> (string, RuntimeBinding) gmap \<times> AuthInstanceID list" where
  "activeProbeBindings roster bindings =
    (let byID = filter (\<lambda>(id, b). id \<in> set (highestTierSet roster) \<and> rb_Instance b \<noteq> 0) bindings
     in (byID, remdups (map (rb_Instance \<circ> snd) byID)))"

end
