(* ===== verification/Probe_Sequence.thy ===== *)
theory Probe_Sequence
  imports Probe_Runtime
begin

text \<open>
  \<^verbatim>\<open>probe_runtime.go\<close>: claiming the due windows of an account, the sequence of check, request and verification that
  runs under the lease of the account, and the recovery of an attempt after a restart. What the sequence meets
  outside (fences, quota reads, the request, clocks, faults of the store) is the record \<open>probe_env\<close>.
\<close>

section \<open>Claiming a probe\<close>

record probeSequencePayload =
  sq_AuthID :: string
  sq_Binding :: RuntimeBinding
  sq_Windows :: "ProbeWindowKind list"
  sq_Attempt :: ProbeAttemptSeam
  sq_StartedAfter :: uint64
  sq_Recovery :: bool

definition block_binding :: "RuntimeBinding \<Rightarrow> ProbeController \<Rightarrow> ProbeController" where
  "block_binding b c =
    fold (map_window (\<lambda>w. Some (w\<lparr>pn_State := ProbeAuthBlocked, pn_AuthBlockedAtLogin := rb_Login b\<rparr>)) (rb_Instance b)) probe_kinds c"

definition due_kind :: "time \<Rightarrow> AuthInstanceID \<Rightarrow> ProbeWindowKind \<Rightarrow> ProbeWindowKind list \<times> ProbeController \<Rightarrow> ProbeWindowKind list \<times> ProbeController" where
  "due_kind now i k acc =
    (let (due, c) = acc;
         c1 = (case probe_Window i k c of
                 None \<Rightarrow> c
               | Some w \<Rightarrow>
                   if \<not> IsZero (pn_Deadline w) \<and> \<not> After (pn_Deadline w) now \<and> pn_State w \<noteq> ProbePendingCheck
                   then snd (probe_Advance i ((probe_event ProbeEventDeadline now [] 0)\<lparr>pv_Window := Some k\<rparr>) c) else c)
     in case probe_Window i k c1 of
          None \<Rightarrow> (due, c1)
        | Some w \<Rightarrow> (if pn_State w = ProbePendingCheck then due @ [k] else due, c1))"

definition due_windows :: "time \<Rightarrow> RuntimeBinding \<Rightarrow> ProbeController \<Rightarrow> ProbeWindowKind list \<times> ProbeController" where
  "due_windows now b c =
    fold (due_kind now (rb_Instance b)) probe_kinds ([], fold (map_window (unblock_window b) (rb_Instance b)) probe_kinds c)"

definition claimed_attempt :: "AuthInstanceID \<Rightarrow> ProbeWindowKind list \<Rightarrow> time \<Rightarrow> PersistentState \<Rightarrow> ProbeAttemptSeam option" where
  \<comment> \<open>the attempt the function given to \<^verbatim>\<open>Update\<close> assigns: the existing one or the new one\<close>
  "claimed_attempt i due now st =
    (case claim_tx i due now None st of Inl _ \<Rightarrow> None | Inr st' \<Rightarrow> gget (st_ProbeAttempts st') i)"

definition due_binding ::
  "faults \<Rightarrow> time \<Rightarrow> PersistentState \<Rightarrow> string \<times> RuntimeBinding \<Rightarrow> ProbeRuntime
    \<Rightarrow> (store_error + probeSequencePayload option) \<times> ProbeRuntime" where
  \<comment> \<open>one binding of the pass: the operation to submit, if any\<close>
  "due_binding f now persisted ib rt =
    (let (authID, b) = ib; i = rb_Instance b
     in if (case gget (st_ProbeAttempts persisted) i of None \<Rightarrow> False | Some a \<Rightarrow> recoverable a) then (Inr None, rt)
        else if rb_AuthBlocked b then (Inr None, rt\<lparr>pr_ctrl := block_binding b (pr_ctrl rt)\<rparr>)
        else
          let (due, c) = due_windows now b (pr_ctrl rt); rt1 = rt\<lparr>pr_ctrl := c\<rparr>
          in if due = [] then (Inr None, rt1)
             else case rt_update f (claim_tx i due now (gget (pk_windows c) i)) rt1 of
                    (Inl e, rt2) \<Rightarrow> (Inl e, rt2)
                  | (Inr claimed, rt2) \<Rightarrow>
                      (case (claimed_attempt i due now (so_state (pr_store rt1)), gget (st_ProbeAttempts claimed) i) of
                         (Some a, Some a') \<Rightarrow>
                           if pa_AttemptID a' \<noteq> pa_AttemptID a \<or> pa_Phase a \<noteq> ProbeAttemptPrepared then (Inr None, rt2)
                           else (Inr (Some \<lparr>sq_AuthID = authID, sq_Binding = b, sq_Windows = due, sq_Attempt = a, sq_StartedAfter = 0,
                                   sq_Recovery = False\<rparr>), rt2)
                       | _ \<Rightarrow> (Inr None, rt2)))"

definition due_pass ::
  "(AuthInstanceID \<Rightarrow> faults) \<Rightarrow> time \<Rightarrow> PersistentState \<Rightarrow> (string, RuntimeBinding) gmap
    \<Rightarrow> (probeSequencePayload \<Rightarrow> ProbeRuntime \<Rightarrow> bool \<times> ProbeRuntime) \<Rightarrow> ProbeRuntime \<Rightarrow> bool \<times> ProbeRuntime" where
  \<comment> \<open>the loop of \<^verbatim>\<open>runProbeDuePass\<close> over the bindings; \<open>submit\<close> is the coordinator's run of the sequence, \<open>True\<close> without error\<close>
  "due_pass f now persisted bindings submit rt =
    fold (\<lambda>ib (ok, rt).
        case due_binding (f (rb_Instance (snd ib))) now persisted ib rt of
          (Inl _, rt1) \<Rightarrow> (False, rt1)
        | (Inr None, rt1) \<Rightarrow> (ok, rt1)
        | (Inr (Some p), rt1) \<Rightarrow> (let (ok1, rt2) = submit p rt1 in (ok \<and> ok1, rt2)))
      bindings (True, rt)"

definition recover_prepared_ctrl :: "time \<Rightarrow> AuthInstanceID \<times> ProbeAttemptSeam \<Rightarrow> ProbeController \<Rightarrow> ProbeController" where
  "recover_prepared_ctrl now ia c =
    fold (map_window (\<lambda>w. Some (w\<lparr>pn_State := ProbeRetryWait, pn_AttemptID := [], pn_RetryCount := pn_RetryCount w + 1,
        pn_Deadline := now\<rparr>)) (fst ia)) (pa_Windows (snd ia)) c"

definition recoverPreparedProbeAttempts :: "faults \<Rightarrow> faults \<Rightarrow> time \<Rightarrow> ProbeRuntime \<Rightarrow> store_error option \<times> ProbeRuntime" where
  "recoverPreparedProbeAttempts f0 f now rt =
    (case PersistentSnapshot (fst f0) (snd f0) (pr_store rt) of
       (Inl e, s) \<Rightarrow> (Some e, rt\<lparr>pr_store := s\<rparr>)
     | (Inr st, s) \<Rightarrow>
         let prepared = filter (\<lambda>(i, a). pa_Phase a = ProbeAttemptPrepared) (st_ProbeAttempts st);
             c = fold (recover_prepared_ctrl now) prepared (pr_ctrl rt); rt1 = rt\<lparr>pr_store := s, pr_ctrl := c\<rparr>
         in if prepared = [] then (None, rt1)
            else rt_error (rt_update f (recover_prepared_tx prepared (probe_Snapshot c)) rt1))"

section \<open>The probe sequence\<close>

datatype seq_error =
    SeqUnauthorized        \<comment> \<open>a quota read answered 401\<close>
  | SeqNotProvisional      \<comment> \<open>\<^verbatim>\<open>ErrProvisionalFingerprintMismatch\<close> or \<^verbatim>\<open>ErrCapabilityB\<close>\<close>
  | SeqStore store_error
  | SeqOther

record probe_env =
  \<comment> \<open>what the sequence meets: fences, quota reads, clocks, the request, crash points and faults\<close>
  en_fence1 :: "store_error + uint64"
  en_fence2 :: "store_error + uint64"
  en_fence3 :: "store_error + uint64"
  en_read1 :: "seq_error + ParsedQuota"
  en_read2 :: "seq_error + ParsedQuota"
  en_http :: "store_error option"
  en_wait :: bool
  en_hit :: hits
  en_interval :: duration
  en_nowPrecheck :: time
  en_nowCreated :: time
  en_nowSent :: time
  en_nowVerify :: time
  en_nowFail :: time
  en_fSending :: faults
  en_fSent :: faults
  en_fDone :: faults
  en_fFail :: faults
  en_fBlock :: faults

definition close_provisional :: "HostRosterSnapshot \<Rightarrow> HostRosterSnapshot" where
  "close_provisional roster = (if hr_Provisional roster then roster\<lparr>hr_BackgroundAllowed := False, hr_Health := RosterWaiting\<rparr> else roster)"

definition block_account :: "faults \<Rightarrow> string \<Rightarrow> ProbeRuntime \<Rightarrow> ProbeRuntime" where
  "block_account f authID rt =
    (let (err, bs, s) = MarkAuthBlocked f authID (pr_bindings rt) (pr_store rt) in rt\<lparr>pr_bindings := bs, pr_store := s\<rparr>)"

definition seq_fail :: "probe_env \<Rightarrow> probeSequencePayload \<Rightarrow> time \<Rightarrow> seq_error \<Rightarrow> bool \<Rightarrow> ProbeRuntime \<Rightarrow> ProbeRuntime" where
  "seq_fail env p suppressUntil err sent rt =
    (if hr_Provisional (pr_roster rt) \<and> err = SeqNotProvisional
     then snd (persistProbeRosterHold (en_fFail env) (rt\<lparr>pr_permit := False, pr_roster := close_provisional (pr_roster rt)\<rparr>))
     else if hr_Health (pr_roster rt) = RosterFailClosed then rt
     else case persistProbeFailure (en_fFail env) (en_nowFail env) (rb_Instance (sq_Binding p)) (pa_AttemptID (sq_Attempt p))
            (sq_Windows p) sent (err = SeqUnauthorized) (rb_Login (sq_Binding p)) suppressUntil rt of
            (None, rt1) \<Rightarrow> if err = SeqUnauthorized then block_account (en_fBlock env) (sq_AuthID p) rt1 else rt1
          | (Some _, rt1) \<Rightarrow> rt1)"

definition lazy_kind :: "AuthInstanceID \<Rightarrow> string \<Rightarrow> ProbeWindowKind \<Rightarrow> ProbeWindowKind list \<times> ProbeController \<Rightarrow> ProbeWindowKind list \<times> ProbeController" where
  "lazy_kind i attemptID k acc =
    (let (lazy, c) = acc
     in case probe_Window i k c of
          Some w \<Rightarrow> if pn_State w = ProbeSentAwaitingVerify
                     then (lazy @ [k], SetWindow i k (w\<lparr>pn_AttemptID := attemptID\<rparr>) c) else acc
        | None \<Rightarrow> acc)"

definition suppress_kind :: "AuthInstanceID \<Rightarrow> time \<Rightarrow> ProbeWindowKind \<Rightarrow> ProbeController \<Rightarrow> ProbeController" where
  "suppress_kind i suppressUntil k c =
    map_window (\<lambda>w. if pn_State w = ProbeRetryWait \<and> Before (pn_Deadline w) suppressUntil
                     then Some (w\<lparr>pn_Deadline := suppressUntil\<rparr>) else None) i k c"

definition seq_verify ::
  "probe_env \<Rightarrow> probeSequencePayload \<Rightarrow> ProbeAttemptSeam \<Rightarrow> ProbeWindowKind list \<Rightarrow> ProbeRuntime \<Rightarrow> bool \<times> ProbeRuntime" where
  \<comment> \<open>after the request: wait, take a later fence, read again, settle\<close>
  "seq_verify env p attempt lazy rt =
    (let i = rb_Instance (sq_Binding p); fail = (\<lambda>err. (False, seq_fail env p (pa_SuppressUntil attempt) err True rt))
     in if \<not> en_wait env then fail SeqOther
        else case en_fence3 env of
               Inl e \<Rightarrow> fail (SeqStore e)
             | Inr seq \<Rightarrow>
                 if seq \<le> pa_SendFenceSeq attempt then fail SeqOther
                 else case en_read2 env of
                        Inl e \<Rightarrow> fail e
                      | Inr quota \<Rightarrow>
                          let rt1 = advance_ctrl i (probe_event ProbeEventVerifyResult (en_nowVerify env) (probeSnapshots quota) 0) rt;
                              rt2 = rt1\<lparr>pr_ctrl := fold (suppress_kind i (pa_SuppressUntil attempt)) lazy (pr_ctrl rt1)\<rparr>;
                              (err, rt3) = persistTerminalProbeCompletionLocked (en_fDone env) i (pa_AttemptID attempt) quota
                                [ProbeAttemptSent] rt2
                          in (err = None, rt3))"

definition stamp_attempt :: "ProbeWindowKind list \<Rightarrow> uint64 \<Rightarrow> time \<Rightarrow> ProbeAttemptSeam \<Rightarrow> ProbeAttemptSeam" where
  "stamp_attempt lazy fence now attempt = attempt\<lparr>pa_Windows := lazy, pa_SendFenceSeq := fence, pa_CreatedAt := now,
     pa_VerifyNotBefore := Add now (3 * Second), pa_SuppressUntil := Add now (10 * Minute)\<rparr>"

definition seq_sent ::
  "probe_env \<Rightarrow> probeSequencePayload \<Rightarrow> ProbeAttemptSeam \<Rightarrow> ProbeWindowKind list \<Rightarrow> store_error option \<Rightarrow> ProbeRuntime
    \<Rightarrow> bool \<times> ProbeRuntime" where
  \<comment> \<open>\<open>err\<close> is how the request ended; an attempt that was perhaps sent is recorded as sent and verified\<close>
  "seq_sent env p attempt lazy err rt =
    (let fail = (\<lambda>err rt. (False, seq_fail env p (pa_SuppressUntil attempt) (SeqStore err) True rt))
     in case err of
          Some e \<Rightarrow> fail e rt
        | None \<Rightarrow>
            (case PersistSent (en_hit env) (en_fSent env) (rb_Instance (sq_Binding p)) (pa_AttemptID attempt) (en_nowSent env) (pr_store rt) of
               (Some e, s) \<Rightarrow> fail e (rt\<lparr>pr_store := s\<rparr>)
             | (None, s) \<Rightarrow> seq_verify env p attempt lazy (rt\<lparr>pr_store := s\<rparr>)))"

definition note_request :: "bool \<Rightarrow> AuthInstanceID \<times> string \<Rightarrow> ProbeRuntime \<Rightarrow> ProbeRuntime" where
  "note_request made r rt = (if made then rt\<lparr>pr_sent := r # pr_sent rt\<rparr> else rt)"

definition seq_send ::
  "probe_env \<Rightarrow> probeSequencePayload \<Rightarrow> ProbeWindowKind list \<Rightarrow> ProbeRuntime \<Rightarrow> bool \<times> ProbeRuntime" where
  \<comment> \<open>record the attempt as being sent, then send\<close>
  "seq_send env p lazy rt =
    (case en_fence2 env of
       Inl e \<Rightarrow> (False, seq_fail env p (pa_SuppressUntil (sq_Attempt p)) (SeqStore e) False rt)
     | Inr fence \<Rightarrow>
         let attempt = stamp_attempt lazy fence (en_nowCreated env) (sq_Attempt p)
         in case PersistSending (en_hit env) (en_fSending env) attempt (pr_store rt) of
              (Some e, s) \<Rightarrow> (False, seq_fail env p (pa_SuppressUntil attempt) (SeqStore e) False (rt\<lparr>pr_store := s\<rparr>))
            | (None, s) \<Rightarrow>
                let (err, made) = ExecuteSend (en_hit env) (en_http env)
                in seq_sent env p attempt lazy err
                     (note_request made (rb_Instance (sq_Binding p), pa_AttemptID attempt) (rt\<lparr>pr_store := s\<rparr>)))"

definition seq_precheck :: "probe_env \<Rightarrow> probeSequencePayload \<Rightarrow> ProbeRuntime \<Rightarrow> bool \<times> ProbeRuntime" where
  "seq_precheck env p rt =
    (let i = rb_Instance (sq_Binding p); id = pa_AttemptID (sq_Attempt p);
         fail = (\<lambda>err. (False, seq_fail env p (pa_SuppressUntil (sq_Attempt p)) err False rt))
     in case en_fence1 env of
          Inl e \<Rightarrow> fail (SeqStore e)
        | Inr _ \<Rightarrow>
            (case en_read1 env of
               Inl e \<Rightarrow> fail e
             | Inr quota \<Rightarrow>
                 let rt1 = advance_ctrl i (probe_event ProbeEventPrecheckResult (en_nowPrecheck env) (probeSnapshots quota) (en_interval env)) rt;
                     (lazy, c) = fold (lazy_kind i id) (sq_Windows p) ([], pr_ctrl rt1);
                     rt2 = rt1\<lparr>pr_ctrl := c\<rparr>
                 in if lazy = []
                    then (let (err, rt3) = persistTerminalProbeCompletionLocked (en_fDone env) i id quota [ProbeAttemptPrepared] rt2
                          in (err = None, rt3))
                    else seq_send env p lazy rt2))"

definition seq_recovery :: "probe_env \<Rightarrow> probeSequencePayload \<Rightarrow> ProbeRuntime \<Rightarrow> bool \<times> ProbeRuntime" where
  \<comment> \<open>a recovered attempt is verified; nothing is sent\<close>
  "seq_recovery env p rt =
    (let i = rb_Instance (sq_Binding p); id = pa_AttemptID (sq_Attempt p);
         fence = (if pa_SendFenceSeq (sq_Attempt p) = 0 then sq_StartedAfter p else pa_SendFenceSeq (sq_Attempt p));
         fail = (\<lambda>err. (False, seq_fail env p (pa_SuppressUntil (sq_Attempt p)) err True rt))
     in if fence = 0 then fail SeqOther
        else case en_fence1 env of
               Inl e \<Rightarrow> fail (SeqStore e)
             | Inr seq \<Rightarrow>
                 if seq \<le> fence then fail SeqOther
                 else case en_read1 env of
                        Inl e \<Rightarrow> fail e
                      | Inr quota \<Rightarrow>
                          let (err, rt1) = persistVerifiedProbeCompletion (en_fDone env) (en_nowVerify env) i id quota
                                [ProbeAttemptSending, ProbeAttemptSent, ProbeAttemptSentUnknown] rt
                          in (err = None, rt1))"

definition run_probe_sequence :: "probe_env \<Rightarrow> probeSequencePayload \<Rightarrow> ProbeRuntime \<Rightarrow> bool \<times> ProbeRuntime" where
  "run_probe_sequence env p rt = (if sq_Recovery p then seq_recovery env p rt else seq_precheck env p rt)"

section \<open>Recovery\<close>

definition recover_window :: "ProbeAttemptSeam \<Rightarrow> AuthInstanceID \<Rightarrow> ProbeController \<Rightarrow> ProbeController" where
  "recover_window a i c =
    fold (map_window (\<lambda>w. Some (w\<lparr>pn_State := ProbeSentUnknown, pn_AttemptID := pa_AttemptID a, pn_Deadline := ZeroTime\<rparr>)) i) (pa_Windows a) c"

definition zero_ProbeAttempt :: ProbeAttemptSeam where
  "zero_ProbeAttempt = \<lparr>pa_Instance = 0, pa_AttemptID = [], pa_Windows = [], pa_Phase = ProbeAttemptPhaseEmpty, pa_SendFenceSeq = 0,
     pa_CreatedAt = ZeroTime, pa_SentAt = None, pa_VerifyNotBefore = ZeroTime, pa_SuppressUntil = ZeroTime\<rparr>"

definition recover_intent ::
  "(string, RuntimeBinding) gmap \<Rightarrow> Intent \<Rightarrow> ProbeRuntime \<Rightarrow> probeSequencePayload option \<times> ProbeRuntime" where
  \<comment> \<open>a verify intent of the log becomes a recovery sequence of the bound account\<close>
  "recover_intent bindings it rt =
    (case List.find (\<lambda>(id, b). rb_Instance b = in_Instance it) bindings of
       None \<Rightarrow> (None, rt)
     | Some (authID, b) \<Rightarrow>
         if rb_AuthBlocked b \<or> authID = [] then (None, rt)
         else let a = attempt_of (so_state (pr_store rt)) (in_Instance it) zero_ProbeAttempt
              in (Some \<lparr>sq_AuthID = authID, sq_Binding = b,
                    sq_Windows = (case in_Payload it of PayloadWindows ws \<Rightarrow> ws | _ \<Rightarrow> []), sq_Attempt = a,
                    sq_StartedAfter = in_StartedAfter it, sq_Recovery = True\<rparr>,
                  rt\<lparr>pr_ctrl := recover_window a (in_Instance it) (pr_ctrl rt)\<rparr>))"

end
