(* ===== verification/Probe_Safety.thy ===== *)
theory Probe_Safety
  imports Probe_Sequence
begin

text \<open>
  The write-ahead log of the probe under concurrency and crashes. Any number of goroutines run
  the functions of \<open>Probe_Runtime\<close> and \<open>Probe_Sequence\<close> on the store, in any order and with any fault; a request may leave
  the process long after its attempt was recorded; the process may stop at any moment and start
  again from the disk. Shown: no attempt is ever sent twice, and what was sent and is still in the log
  is recovered by a verification.
\<close>

section \<open>Numbers in identifiers\<close>

lemma digit_inj: "m < 10 \<Longrightarrow> n < 10 \<Longrightarrow> digit m = digit n \<longleftrightarrow> m = n"
  by (auto simp: digit_def dest!: arg_cong [where f = "of_char :: char \<Rightarrow> nat"])

lemma fmt_d_inj: "fmt_d m = fmt_d n \<longleftrightarrow> m = n"
proof (induction m arbitrary: n rule: fmt_d.induct)
  case (1 m)
  have len: "length (fmt_d k) = 1 \<longleftrightarrow> k < 10" for k
    by (cases "k < 10") (simp_all add: fmt_d.simps [of k] fmt_d.simps [of "k div 10"])
  show ?case
  proof (cases "m < 10")
    case True
    with len [of n] len [of m] show ?thesis
      by (cases "n < 10") (auto simp: fmt_d.simps [of m] fmt_d.simps [of n] digit_inj)
  next
    case False
    show ?thesis
    proof (cases "n < 10")
      case True
      with len [of n] len [of m] False show ?thesis by auto
    next
      case n: False
      have "fmt_d m = fmt_d n \<longleftrightarrow> m div 10 = n div 10 \<and> m mod 10 = n mod 10"
        using False n "1.IH" [OF False, of "n div 10"] by (simp add: fmt_d.simps [of m] fmt_d.simps [of n] digit_inj)
      then show ?thesis by (metis div_mult_mod_eq)
    qed
  qed
qed

lemma claim_id_inj: "claim_id i m = claim_id i n \<longleftrightarrow> m = n"
  by (simp add: claim_id_def fmt_d_inj word_unat_eq_iff)

section \<open>Who writes the log\<close>

definition leaves_log :: "(PersistentState \<Rightarrow> store_error + PersistentState) \<Rightarrow> bool" where
  \<comment> \<open>the functions that other parts give to the store\<close>
  "leaves_log fn \<longleftrightarrow> (\<forall>st st'. fn st = Inr st' \<longrightarrow> st_ProbeAttempts st' = st_ProbeAttempts st
     \<and> st_ProbeAttemptSeq st' = st_ProbeAttemptSeq st)"

inductive probe_tx :: "(PersistentState \<Rightarrow> store_error + PersistentState) \<Rightarrow> bool" where
  sent: "probe_tx (record_sent i attemptID t)"
| unknown: "probe_tx (persistProbeSentUnknown i attemptID suppress)"
| terminal: "probe_tx (terminal_tx i attemptID phases ws)"
| failure: "probe_tx (failure_tx i attemptID kinds sent authBlocked login suppress now ws)"
| remove: "probe_tx (remove_instance_tx is)"
| hold: "probe_tx (hold_tx snapshot)"
| recover: "probe_tx (recover_prepared_tx prepared snapshot)"
| legacy: "probe_tx (legacy_sent_unknown_tx i fence now suppress)"
| other: "leaves_log fn \<Longrightarrow> probe_tx fn"

type_synonym requests = "(AuthInstanceID \<times> string) list"

inductive probe_sys :: "StateStore \<times> requests \<times> requests \<Rightarrow> StateStore \<times> requests \<times> requests \<Rightarrow> bool" where
  \<comment> \<open>the store, the requests that may be made now, and those that were made\<close>
  claim: "store_Update (fst f) (snd f) (claim_tx i due now ws) s = (res, s') \<Longrightarrow> st_ProbeAttemptSeq (so_state s) \<noteq> - 1
    \<Longrightarrow> probe_sys (s, cleared, made) (s', cleared, made)"
| update: "probe_tx fn \<Longrightarrow> store_Update (fst f) (snd f) fn s = (res, s') \<Longrightarrow> probe_sys (s, cleared, made) (s', cleared, made)"
| mirrored: "leaves_log fn \<Longrightarrow> UpdateMirrored (fst f) (snd f) fn s = (res, s') \<Longrightarrow> probe_sys (s, cleared, made) (s', cleared, made)"
| cleared: "PersistSending hit f a s = (None, s') \<Longrightarrow>
    probe_sys (s, cleared, made) (s', (pa_Instance a, pa_AttemptID a) # cleared, made)"
| not_cleared: "PersistSending hit f a s = (Some e, s') \<Longrightarrow> probe_sys (s, cleared, made) (s', cleared, made)"
| request: "r \<in> set cleared \<Longrightarrow> probe_sys (s, cleared, made) (s, remove1 r cleared, r # made)"
| restart: "loadLocked None (\<lambda>_. False) (NewStateStore (so_disk s)) = (Inr (st, report), s') \<Longrightarrow>
    probe_sys (s, cleared, made) (s', [], made)"

inductive_cases probe_sysE: "probe_sys (s, cleared, made) x"

section \<open>The invariant of the log\<close>

abbreviation prepared :: "ProbeAttemptSeam \<Rightarrow> bool" where
  "prepared a \<equiv> pa_Phase a = ProbeAttemptPrepared"

definition log_ok :: "(AuthInstanceID \<times> string) set \<Rightarrow> PersistentState \<Rightarrow> bool" where
  "log_ok A st \<longleftrightarrow> (\<forall>i id. (i, id) \<in> A \<longrightarrow> (\<exists>n \<le> st_ProbeAttemptSeq st. id = claim_id i n))
     \<and> (\<forall>i a. gget (st_ProbeAttempts st) i = Some a \<longrightarrow> (prepared a \<or> recoverable a) \<and> pa_AttemptID a \<noteq> [])
     \<and> gmap_wf (st_ProbeAttempts st)
     \<and> (\<forall>i a. gget (st_ProbeAttempts st) i = Some a \<and> prepared a \<longrightarrow>
          (i, pa_AttemptID a) \<notin> A \<and> (\<exists>n \<le> st_ProbeAttemptSeq st. pa_AttemptID a = claim_id i n))"

definition calm :: "PersistentState \<Rightarrow> PersistentState \<Rightarrow> bool" where
  \<comment> \<open>no attempt becomes prepared\<close>
  "calm st st' \<longleftrightarrow> st_ProbeAttemptSeq st' = st_ProbeAttemptSeq st
     \<and> (gmap_wf (st_ProbeAttempts st) \<longrightarrow> gmap_wf (st_ProbeAttempts st'))
     \<and> (\<forall>i a. gget (st_ProbeAttempts st') i = Some a \<longrightarrow>
          gget (st_ProbeAttempts st) i = Some a \<or> recoverable a \<and> pa_AttemptID a \<noteq> [])"

lemma log_ok_calm:
  assumes "log_ok A st" and "calm st st'"
  shows "log_ok A st'"
proof -
  have p: "gget (st_ProbeAttempts st) i = Some a" if "gget (st_ProbeAttempts st') i = Some a" "prepared a" for i a
    using assms(2) that unfolding calm_def recoverable_def by fastforce
  have "(prepared a \<or> recoverable a) \<and> pa_AttemptID a \<noteq> []" if "gget (st_ProbeAttempts st') i = Some a" for i a
    using assms that unfolding calm_def log_ok_def by blast
  moreover have "st_ProbeAttemptSeq st' = st_ProbeAttemptSeq st" "gmap_wf (st_ProbeAttempts st')"
    using assms by (simp_all add: calm_def log_ok_def)
  ultimately show ?thesis using assms(1) p unfolding log_ok_def by fastforce
qed

lemma calm_refl [simp]: "calm st st"
  by (simp add: calm_def)

lemma calm_trans: "calm st st' \<Longrightarrow> calm st' st'' \<Longrightarrow> calm st st''"
  unfolding calm_def by metis

lemma calm_fold: "(\<And>x st. calm st (f x st)) \<Longrightarrow> calm st (fold f xs st)"
  by (induction xs arbitrary: st) (auto intro: calm_trans)

lemma calm_frame: "st_ProbeAttempts st' = st_ProbeAttempts st \<Longrightarrow> st_ProbeAttemptSeq st' = st_ProbeAttemptSeq st \<Longrightarrow> calm st st'"
  by (simp add: calm_def)

lemma calm_drop: "calm st st' \<Longrightarrow> calm st (drop_attempt i st')"
  by (simp add: calm_def drop_attempt_def go_simps)

lemma calm_put: "recoverable a \<Longrightarrow> pa_AttemptID a \<noteq> [] \<Longrightarrow> calm st (put_attempt i a st)"
  by (simp add: calm_def put_attempt_def go_simps)

lemma calm_windows: "calm st st' \<Longrightarrow> calm st (put_windows i ws st')"
  by (erule calm_trans, rule calm_frame) (simp_all add: put_windows_def)

lemmas calm_intros = calm_drop calm_windows calm_put

lemma recoverable_phases [simp]:
  "recoverable (sent_unknown t a)" "recoverable (a\<lparr>pa_Phase := ProbeAttemptSent, pa_SentAt := x\<rparr>)" "recoverable (sending a)"
  by (simp_all add: recoverable_def sent_unknown_def sending_def)

lemma exact_id: "exactProbeAttempt st i attemptID phases = Inr a \<Longrightarrow> pa_AttemptID a \<noteq> []"
  by (auto simp: exactProbeAttempt_def split: option.splits if_splits)

lemma calm_unknown: "persistProbeSentUnknown i attemptID suppress st = Inr st' \<Longrightarrow> calm st st'"
  by (auto simp: persistProbeSentUnknown_def sent_unknown_def recoverable_def intro!: calm_put dest: exact_id split: sum.splits)

lemma calm_failure:
  assumes "failure_tx i attemptID kinds sent authBlocked login suppress now ws st = Inr st'"
  shows "calm st st'"
proof -
  from assms obtain st1 ws1 where st1: "fail_attempt i attemptID sent suppress st = Inr st1" "st' = put_windows i ws1 st1"
    by (auto simp: failure_tx_def split: sum.splits)
  have "calm st st1"
    using st1(1) by (auto simp: fail_attempt_def calm_unknown calm_drop split: if_splits sum.splits)
  with st1(2) show ?thesis by (simp add: calm_windows)
qed

lemma calm_hold: "calm st (hold_instance iw st)"
  unfolding hold_instance_def Let_def case_prod_unfold by (simp add: calm_intros)

lemma calm_recover: "calm st (recover_prepared ws ia st)"
proof -
  obtain i a where ia: "ia = (i, a)" by (cases ia)
  define st1 where "st1 = st\<lparr>st_ProbeWindows := (case gget ws i of Some w \<Rightarrow> gput i w (st_ProbeWindows st)
                    | None \<Rightarrow> gdel i (st_ProbeWindows st))\<rparr>"
  have "calm st st1" by (rule calm_frame) (simp_all add: st1_def)
  moreover have "recover_prepared ws ia st = st1 \<or> recover_prepared ws ia st = drop_attempt i st1"
    by (cases "gget (st_ProbeAttempts st) i") (simp_all add: recover_prepared_def ia st1_def [symmetric])
  ultimately show ?thesis by (auto intro: calm_intros)
qed

lemma claim_cases:
  "claim_tx i due now ws st = Inr st' \<Longrightarrow> st' = st \<or> st' = claim_new i due now ws st"
  by (auto simp: claim_tx_def split: option.splits if_splits)

lemma log_ok_claim:
  assumes ok: "log_ok A st" and "st_ProbeAttemptSeq st \<noteq> - 1"
  shows "log_ok A (claim_new i due now ws st)"
proof -
  let ?n = "st_ProbeAttemptSeq st + 1" and ?st = "claim_new i due now ws st"
  have lt: "st_ProbeAttemptSeq st < ?n" 
    using assms(2) by (rule word_succ_greater)
  have seq: "st_ProbeAttemptSeq ?st = ?n" by (simp add: claim_new_def Let_def)
  have get: "gget (st_ProbeAttempts ?st) i' = (if i' = i then Some \<lparr>pa_Instance = i, pa_AttemptID = claim_id i ?n, pa_Windows = due,
      pa_Phase = ProbeAttemptPrepared, pa_SendFenceSeq = 0, pa_CreatedAt = now, pa_SentAt = None, pa_VerifyNotBefore = now,
      pa_SuppressUntil = ZeroTime\<rparr> else gget (st_ProbeAttempts st) i')" for i'
    by (simp add: claim_new_def Let_def go_simps)
  have fresh: "(i, claim_id i ?n) \<notin> A"
  proof
    assume "(i, claim_id i ?n) \<in> A"
    with ok obtain m where "m \<le> st_ProbeAttemptSeq st" "claim_id i ?n = claim_id i m" unfolding log_ok_def by blast
    with lt show False by (simp add: claim_id_inj)
  qed
  have mono: "\<exists>m \<le> ?n. id = claim_id j m" if "\<exists>m \<le> st_ProbeAttemptSeq st. id = claim_id j m" for id j
    using that order.trans [OF _ less_imp_le [OF lt]] by blast
  have wf: "gmap_wf (st_ProbeAttempts ?st)" "claim_id i ?n \<noteq> []"
    using ok by (simp_all add: claim_new_def Let_def log_ok_def claim_id_def)
  show ?thesis
    unfolding log_ok_def seq get using ok fresh mono wf unfolding log_ok_def by (auto split: if_splits)
qed

lemma tx_log_ok:
  assumes "probe_tx fn" and "log_ok A st" and "fn st = Inr st'"
  shows "log_ok A st'"
  using assms(1,3)
proof cases
  case (sent i attemptID t)
  with assms(3) have "calm st st'" by (auto simp: record_sent_def recoverable_def intro!: calm_put dest: exact_id split: sum.splits)
  with log_ok_calm [OF assms(2)] show ?thesis .
next
  case (unknown i attemptID suppress)
  with assms(3) log_ok_calm [OF assms(2)] calm_unknown show ?thesis by blast
next
  case (terminal i attemptID phases ws)
  with assms(3) have "calm st st'" by (auto simp: terminal_tx_def intro!: calm_intros split: sum.splits)
  with log_ok_calm [OF assms(2)] show ?thesis .
next
  case (failure i attemptID kinds sent authBlocked login suppress now ws)
  with assms(3) log_ok_calm [OF assms(2)] calm_failure show ?thesis by blast
next
  case (remove "is")
  have "calm st (fold (\<lambda>i st. drop_attempt i (st\<lparr>st_ProbeWindows := gdel i (st_ProbeWindows st)\<rparr>)) is st)"
    by (rule calm_fold) (simp add: calm_def drop_attempt_def go_simps)
  with remove assms(3) log_ok_calm [OF assms(2)] show ?thesis by (auto simp: remove_instance_tx_def)
next
  case (hold snapshot)
  with assms(3) log_ok_calm [OF assms(2) calm_fold [OF calm_hold]] show ?thesis by (auto simp: hold_tx_def)
next
  case (recover prepared snapshot)
  with assms(3) log_ok_calm [OF assms(2) calm_fold [OF calm_recover]] show ?thesis by (auto simp: recover_prepared_tx_def)
next
  case (legacy i fence now suppress)
  with assms(3) have "calm st st'" by (auto simp: legacy_sent_unknown_tx_def recoverable_def intro!: calm_put)
  with log_ok_calm [OF assms(2)] show ?thesis .
next
  case other
  with assms(3) have "calm st st'" unfolding leaves_log_def by (intro calm_frame) blast+
  with log_ok_calm [OF assms(2)] show ?thesis .
qed

lemma log_ok_frame: "st_ProbeAttempts st' = st_ProbeAttempts st \<Longrightarrow> st_ProbeAttemptSeq st' = st_ProbeAttemptSeq st \<Longrightarrow>
    log_ok A st' = log_ok A st"
  by (simp add: log_ok_def)

lemma log_ok_written [simp]: "log_ok A (written st s) = log_ok A st"
  by (rule log_ok_frame) (simp_all add: written_def)

lemma log_ok_subset: "log_ok A st \<Longrightarrow> B \<subseteq> A \<Longrightarrow> log_ok B st"
  unfolding log_ok_def by blast

lemma record_sending_ok:
  assumes "log_ok A st" and "record_sending a st = Inr st'" and "recoverable a"
  shows "(pa_Instance a, pa_AttemptID a) \<notin> A" and "log_ok (insert (pa_Instance a, pa_AttemptID a) A) st'"
proof -
  from assms(2) obtain a0 where a0: "gget (st_ProbeAttempts st) (pa_Instance a) = Some a0" "pa_AttemptID a0 = pa_AttemptID a" "prepared a0"
    and st': "st' = put_attempt (pa_Instance a) a st"
    by (auto simp: record_sending_def exactProbeAttempt_def split: sum.splits option.splits if_splits)
  show new: "(pa_Instance a, pa_AttemptID a) \<notin> A" using assms(1) a0 unfolding log_ok_def by metis
  from assms(1) a0 have "\<exists>n \<le> st_ProbeAttemptSeq st. pa_AttemptID a = claim_id (pa_Instance a) n" unfolding log_ok_def by metis
  moreover have "\<not> prepared a" using assms(3) by (auto simp: recoverable_def)
  ultimately show "log_ok (insert (pa_Instance a, pa_AttemptID a) A) st'"
    using assms(1,3) a0 unfolding log_ok_def st' put_attempt_def by (auto simp: go_simps split: if_splits)
qed

section \<open>The invariant of the system\<close>

fun probe_inv :: "StateStore \<times> requests \<times> requests \<Rightarrow> bool" where
  "probe_inv (s, cleared, made) \<longleftrightarrow> so_loaded s \<and> undamaged (so_disk s) \<and> distinct (cleared @ made)
     \<and> log_ok (set cleared \<union> set made) (so_state s)
     \<and> (\<forall>st. durable (so_disk s) = Some st \<longrightarrow> log_ok (set cleared \<union> set made) st)"

lemma sending_ids [simp]: "pa_Instance (sending a) = pa_Instance a" "pa_AttemptID (sending a) = pa_AttemptID a"
  by (simp_all add: sending_def)

lemma inv_cleared:
  assumes inv: "probe_inv (s, cleared, made)" and p: "PersistSending hit f a s = (None, s')"
  shows "probe_inv (s', (pa_Instance a, pa_AttemptID a) # cleared, made)"
proof -
  from p obtain st where u: "store_Update (fst f) (snd f) (record_sending (sending a)) s = (Inr st, s')"
    by (auto simp: PersistSending_def split: option.splits prod.splits sum.splits)
  have ok: "so_loaded s \<and> undamaged (so_disk s)" using inv by simp
  from disk_store.update_committed [OF ok u] obtain nxt
    where n: "record_sending (sending a) (so_state s) = Inr nxt" "st = written nxt s" "so_state s' = st" "durable (so_disk s') = Some st"
    by blast
  have J: "log_ok (set cleared \<union> set made) (so_state s)" using inv by simp
  note r = record_sending_ok [OF J n(1), simplified]
  have "so_loaded s' \<and> undamaged (so_disk s')" using disk_store.update_law [OF ok u] by blast
  with inv r n(2-4) show ?thesis by simp
qed

lemma inv_update:
  assumes inv: "probe_inv (s, cleared, made)" and u: "store_Update (fst f) (snd f) fn s = (res, s')"
    and fn: "\<And>nxt. fn (so_state s) = Inr nxt \<Longrightarrow> log_ok (set cleared \<union> set made) nxt"
  shows "probe_inv (s', cleared, made)"
proof -
  have "(so_loaded s' \<and> undamaged (so_disk s')) \<and> log_ok (set cleared \<union> set made) (so_state s')
      \<and> (\<forall>st. durable (so_disk s') = Some st \<longrightarrow> log_ok (set cleared \<union> set made) st)"
    by (rule disk_store.update_keeps [OF _ _ _ _ u]) (use inv fn in auto)
  with inv show ?thesis by simp
qed

lemma inv_mirrored:
  assumes inv: "probe_inv (s, cleared, made)" and u: "UpdateMirrored (fst f) (snd f) fn s = (res, s')" and fn: "leaves_log fn"
  shows "probe_inv (s', cleared, made)"
proof -
  have J: "log_ok (set cleared \<union> set made) (so_state s)" using inv by simp
  have "log_ok (set cleared \<union> set made) nxt" if "fn (so_state s) = Inr nxt" for nxt
    by (rule tx_log_ok [OF probe_tx.other [OF fn] J that])
  then have "(so_loaded s' \<and> undamaged (so_disk s')) \<and> log_ok (set cleared \<union> set made) (so_state s')
      \<and> (\<forall>st. durable (so_disk s') = Some st \<longrightarrow> log_ok (set cleared \<union> set made) st)"
    by (intro mirrored_store.update_keeps [OF _ _ _ _ u]) (use inv in auto)
  with inv show ?thesis by simp
qed

lemma inv_not_cleared:
  assumes inv: "probe_inv (s, cleared, made)" and p: "PersistSending hit f a s = (Some e, s')"
  shows "probe_inv (s', cleared, made)"
proof (cases "s' = s")
  case False
  with p obtain res where u: "store_Update (fst f) (snd f) (record_sending (sending a)) s = (res, s')"
    by (auto simp: PersistSending_def split: option.splits prod.splits sum.splits)
  have J: "log_ok (set cleared \<union> set made) (so_state s)" using inv by simp
  show ?thesis
  proof (rule inv_update [OF inv u])
    fix nxt assume "record_sending (sending a) (so_state s) = Inr nxt"
    from log_ok_subset [OF record_sending_ok(2) [OF J this]] show "log_ok (set cleared \<union> set made) nxt" by (simp add: subset_insertI)
  qed
qed (use inv in simp)

lemma probe_sys_inv:
  assumes "probe_sys x y" and "probe_inv x"
  shows "probe_inv y"
  using assms
proof (induction rule: probe_sys.induct)
  case (claim f i due now ws s res s' cleared made)
  then have J: "log_ok (set cleared \<union> set made) (so_state s)" by simp
  show ?case
  proof (rule inv_update [OF claim(3,1)])
    fix nxt assume "claim_tx i due now ws (so_state s) = Inr nxt"
    with claim_cases [of i due now ws "so_state s" nxt] log_ok_claim [OF J claim(2)] J
    show "log_ok (set cleared \<union> set made) nxt" by blast
  qed
next
  case (update fn f s res s' cleared made)
  then have J: "log_ok (set cleared \<union> set made) (so_state s)" by simp
  show ?case by (rule inv_update [OF update(3,2)]) (rule tx_log_ok [OF update(1) J])
next
  case (mirrored fn f s res s' cleared made)
  show ?case by (rule inv_mirrored [OF mirrored(3,2,1)])
next
  case (cleared hit f a s s' cleared made)
  show ?case by (rule inv_cleared [OF cleared(2,1)])
next
  case (not_cleared hit f a s e s' cleared made)
  show ?case by (rule inv_not_cleared [OF not_cleared(2,1)])
next
  case (request r cleared s made)
  then have "set (remove1 r cleared) \<union> set (r # made) = set cleared \<union> set made" by (auto simp: set_remove1_eq)
  with request show ?case by (auto simp: distinct_remove1)
next
  case (restart s st report s' cleared made)
  have "undamaged (so_disk (NewStateStore (so_disk s)))" using restart by (simp add: NewStateStore_def)
  from load_undamaged [OF this restart(1)] have l: "durable (so_disk s) = Some st" "so_disk s' = so_disk s" "so_state s' = st" "so_loaded s'"
    by (auto simp: NewStateStore_def)
  with restart(2) have "log_ok (set made) st" using log_ok_subset [of "set cleared \<union> set made" st "set made"] by simp
  with l restart(2) show ?case by simp
qed

section \<open>Recovery\<close>

lemma exact_self:
  "gget (st_ProbeAttempts st) i = Some a \<Longrightarrow> pa_AttemptID a \<noteq> [] \<Longrightarrow> pa_Phase a \<in> set phases \<Longrightarrow>
    exactProbeAttempt st i (pa_AttemptID a) phases = Inr a"
  by (simp add: exactProbeAttempt_def)

lemma update_fine:
  assumes "so_loaded s" "\<not> so_readOnly s" and "fn (so_state s) = Inr nxt"
  shows "\<exists>s'. store_Update None (\<lambda>_. False) fn s = (Inr (written nxt s), s') \<and> so_state s' = written nxt s \<and> so_loaded s' \<and> \<not> so_readOnly s'
    \<and> dk_primary (so_disk s') = Some (Good (written nxt s))"
  using assms
  by (simp add: store_Update_def update_mode_def ensure_loaded_def writeLockedMode_eq commit_write_def writeAtomic_def)

definition verifies :: "AuthInstanceID \<Rightarrow> ProbeAttemptSeam \<Rightarrow> Intent \<Rightarrow> bool" where
  "verifies i a it \<longleftrightarrow> in_Instance it = i \<and> in_Class it = OperationProbeVerify \<and> in_StartedAfter it = pa_SendFenceSeq a
     \<and> in_AttemptID it = pa_AttemptID a \<and> in_Payload it = PayloadWindows (pa_Windows a)"

lemma verifies_intent: "pa_SendFenceSeq b = pa_SendFenceSeq a \<Longrightarrow> pa_AttemptID b = pa_AttemptID a \<Longrightarrow> pa_Windows b = pa_Windows a \<Longrightarrow>
    verifies i a (verify_intent i b)"
  by (simp add: verifies_def verify_intent_def)

lemma recover_loop_complete:
  assumes "so_loaded s" "\<not> so_readOnly s" and "distinct (map fst as)"
    and "\<And>i a. (i, a) \<in> set as \<Longrightarrow> gget (st_ProbeAttempts (so_state s)) i = Some a \<and> pa_AttemptID a \<noteq> []"
  shows "\<exists>out' s'. recover_loop (\<lambda>_. (None, \<lambda>_. False)) now as out s = (Inr out', s') \<and> set out \<subseteq> set out'
    \<and> (\<forall>(i, a) \<in> set as. recoverable a \<and> pa_VerifyNotBefore a \<le> now \<longrightarrow> (\<exists>it \<in> set out'. verifies i a it))"
  using assms
proof (induction as arbitrary: out s)
  case (Cons x as)
  obtain i a where x: "x = (i, a)" by (cases x)
  have a: "gget (st_ProbeAttempts (so_state s)) i = Some a" "pa_AttemptID a \<noteq> []" using Cons.prems(4) [of i a] by (auto simp: x)
  have rest0: "gget (st_ProbeAttempts (so_state s)) j = Some b \<and> pa_AttemptID b \<noteq> []" if "(j, b) \<in> set as" for j b
    using Cons.prems(4) [of j b] that by simp
  have dis: "distinct (map fst as)" using Cons.prems(3) by simp
  note ih = Cons.IH [OF Cons.prems(1,2) dis rest0]
  show ?case
  proof (cases "\<not> recoverable a \<or> now < pa_VerifyNotBefore a")
    case True
    with ih [of out] show ?thesis by (auto simp: x)
  next
    case due: False
    show ?thesis
    proof (cases "pa_Phase a = ProbeAttemptSending")
      case False
      with ih [of "out @ [verify_intent i a]"] due verifies_intent [of a a i] show ?thesis by (auto simp: x)
    next
      case True
      let ?fn = "persistProbeSentUnknown i (pa_AttemptID a) (pa_SuppressUntil a)"
      let ?a = "sent_unknown (pa_SuppressUntil a) a" and ?st = "put_attempt i (sent_unknown (pa_SuppressUntil a) a) (so_state s)"
      have "?fn (so_state s) = Inr ?st" using True by (simp add: persistProbeSentUnknown_def exact_self [OF a])
      from update_fine [OF Cons.prems(1,2), of ?fn, OF this] obtain s1
        where s1: "store_Update None (\<lambda>_. False) ?fn s = (Inr (written ?st s), s1)" "so_state s1 = written ?st s"
          "so_loaded s1" "\<not> so_readOnly s1" by blast
      have at: "st_ProbeAttempts (written ?st s) = gput i ?a (st_ProbeAttempts (so_state s))" by (simp add: written_def put_attempt_def)
      then have a': "attempt_of (written ?st s) i a = ?a" by (simp add: attempt_of_def go_simps)
      have rest: "gget (st_ProbeAttempts (so_state s1)) j = Some b \<and> pa_AttemptID b \<noteq> []" if "(j, b) \<in> set as" for j b
        using that rest0 [OF that] Cons.prems(3) by (auto simp: x s1(2) at go_simps image_iff)
      from Cons.IH [OF s1(3,4) dis rest, of "out @ [verify_intent i ?a]"]
      obtain out' s' where o: "recover_loop (\<lambda>_. (None, \<lambda>_. False)) now as (out @ [verify_intent i ?a]) s1 = (Inr out', s')"
        "set (out @ [verify_intent i ?a]) \<subseteq> set out'"
        "\<forall>(i, a) \<in> set as. recoverable a \<and> pa_VerifyNotBefore a \<le> now \<longrightarrow> (\<exists>it \<in> set out'. verifies i a it)" by auto
      have "verifies i a (verify_intent i ?a)" by (rule verifies_intent) (simp_all add: sent_unknown_def)
      with o due True show ?thesis by (auto simp: x s1(1) a')
    qed
  qed
qed simp

section \<open>Properties\<close>

lemma probe_reach_inv:
  assumes "probe_sys\<^sup>*\<^sup>* x y" and "probe_inv x"
  shows "probe_inv y"
  using assms by (induction rule: rtranclp_induct) (auto intro: probe_sys_inv)

definition new_probe_store :: StateStore where
  \<comment> \<open>a store opened on an empty disk\<close>
  "new_probe_store = snd (loadLocked None (\<lambda>_. False) (NewStateStore \<lparr>dk_primary = None, dk_backup = None,
     dk_primary_corrupt = None, dk_backup_corrupt = None\<rparr>))"

lemma new_probe_store_inv: "probe_inv (new_probe_store, [], [])"
proof -
  let ?d = "\<lparr>dk_primary = None, dk_backup = None, dk_primary_corrupt = None, dk_backup_corrupt = None\<rparr>"
  have "so_disk new_probe_store = ?d \<and> so_loaded new_probe_store \<and> so_state new_probe_store = NewPersistentState"
    by (simp add: new_probe_store_def loadLocked_def readPersistentState_def adopt_eq migrated_def NewStateStore_def NewPersistentState_def)
  then show ?thesis by (simp add: undamaged_def durable_empty log_ok_def NewPersistentState_def gmap_wf_def)
qed

text \<open>
  C5. No probe is sent twice (INV-27, INV-36): in every history of updates, sends, failures, crashes and restarts that
  begins with an empty disk, no attempt makes more than one activation request, also when several
  goroutines work on the same attempt or a request leaves long after it was recorded. An attempt
  whose request was made and that is still in the log, in memory or on disk, is in a phase that is
  recovered by a verification, never in the phase that allows a request.
\<close>

theorem probe_sent_once:
  assumes "probe_sys\<^sup>*\<^sup>* (new_probe_store, [], []) (s, cleared, made)"
  shows "distinct made \<and> (\<forall>i a. (i, pa_AttemptID a) \<in> set made
    \<and> (gget (st_ProbeAttempts (so_state s)) i = Some a \<or> (\<exists>st. durable (so_disk s) = Some st \<and> gget (st_ProbeAttempts st) i = Some a))
    \<longrightarrow> pa_Phase a = ProbeAttemptSending \<or> pa_Phase a = ProbeAttemptSent \<or> pa_Phase a = ProbeAttemptSentUnknown)"
proof -
  from probe_reach_inv [OF assms new_probe_store_inv] have inv: "distinct (cleared @ made)"
    "log_ok (set cleared \<union> set made) (so_state s)" "\<And>st. durable (so_disk s) = Some st \<Longrightarrow> log_ok (set cleared \<union> set made) st" by simp_all
  have "recoverable a" if "log_ok (set cleared \<union> set made) st" "gget (st_ProbeAttempts st) i = Some a" "(i, pa_AttemptID a) \<in> set made"
    for st i a using that unfolding log_ok_def by blast
  with inv show ?thesis unfolding recoverable_def [symmetric] by auto
qed

definition wit_attempt :: ProbeAttemptSeam where
  "wit_attempt = \<lparr>pa_Instance = 7, pa_AttemptID = claim_id 7 1, pa_Windows = [ProbeWindowLong], pa_Phase = ProbeAttemptPrepared,
     pa_SendFenceSeq = 5, pa_CreatedAt = 10, pa_SentAt = None, pa_VerifyNotBefore = 20, pa_SuppressUntil = 30\<rparr>"

lemma new_probe_store_sel:
  "so_loaded new_probe_store" "\<not> so_readOnly new_probe_store" "so_state new_probe_store = NewPersistentState"
  by (simp_all add: new_probe_store_def loadLocked_def readPersistentState_def adopt_eq migrated_def NewStateStore_def NewPersistentState_def)

lemma wit_run:
  \<comment> \<open>an attempt is claimed, recorded and its request made\<close>
  "\<exists>s. probe_sys\<^sup>*\<^sup>* (new_probe_store, [], []) (s, [], [(7, claim_id 7 1)])
    \<and> (\<exists>st. dk_primary (so_disk s) = Some (Good st) \<and> st_SchemaVersion st = CurrentStateSchema
         \<and> gget (st_ProbeAttempts st) 7 = Some (sending wit_attempt))"
proof -
  let ?claim = "claim_tx 7 [ProbeWindowLong] 10 None" and ?st = "claim_new 7 [ProbeWindowLong] 10 None NewPersistentState"
  have "?claim (so_state new_probe_store) = Inr ?st" by (simp add: claim_tx_def new_probe_store_sel NewPersistentState_def)
  from update_fine [OF new_probe_store_sel(1,2), of ?claim, OF this] obtain s1
    where s1: "store_Update None (\<lambda>_. False) ?claim new_probe_store = (Inr (written ?st new_probe_store), s1)"
      "so_state s1 = written ?st new_probe_store" "so_loaded s1" "\<not> so_readOnly s1" by blast
  have a: "st_ProbeAttempts (so_state s1) = [(7, wit_attempt\<lparr>pa_SendFenceSeq := 0, pa_VerifyNotBefore := 10, pa_SuppressUntil := 0\<rparr>)]"
    by (simp add: s1(2) written_def claim_new_def NewPersistentState_def wit_attempt_def Let_def)
  let ?next = "put_attempt 7 (sending wit_attempt) (so_state s1)"
  have "record_sending (sending wit_attempt) (so_state s1) = Inr ?next"
    by (simp add: record_sending_def exactProbeAttempt_def a) (simp add: wit_attempt_def claim_id_def)
  from update_fine [OF s1(3,4), of "record_sending (sending wit_attempt)", OF this] obtain s2
    where s2: "store_Update None (\<lambda>_. False) (record_sending (sending wit_attempt)) s1 = (Inr (written ?next s1), s2)"
      "dk_primary (so_disk s2) = Some (Good (written ?next s1))" by blast
  have "probe_sys (new_probe_store, [], []) (s1, [], [])"
    using probe_sys.claim [where f = "(None, \<lambda>_. False)"] s1(1)
    by (fastforce simp: new_probe_store_sel NewPersistentState_def)
  moreover have "probe_sys (s1, [], []) (s2, [(7, claim_id 7 1)], [])"
    using probe_sys.cleared [of "\<lambda>_. None" "(None, \<lambda>_. False)" wit_attempt s1 s2 "[]" "[]"] s2(1)
    by (simp add: PersistSending_def wit_attempt_def)
  moreover have "probe_sys (s2, [(7, claim_id 7 1)], []) (s2, [], [(7, claim_id 7 1)])"
    using probe_sys.request [of "(7, claim_id 7 1)" "[(7, claim_id 7 1)]" s2 "[]"] by simp
  ultimately have "probe_sys\<^sup>*\<^sup>* (new_probe_store, [], []) (s2, [], [(7, claim_id 7 1)])" by (meson converse_rtranclp_into_rtranclp rtranclp.rtrancl_refl)
  moreover have "st_SchemaVersion (written ?next s1) = CurrentStateSchema \<and> gget (st_ProbeAttempts (written ?next s1)) 7 = Some (sending wit_attempt)"
    by (simp add: written_def put_attempt_def go_simps)
  ultimately show ?thesis using s2(2) by blast
qed

theorem probe_sent_once_witness:
  "\<exists>s. probe_sys\<^sup>*\<^sup>* (new_probe_store, [], []) (s, [], [(7, claim_id 7 1)]) \<and> distinct [(7 :: AuthInstanceID, claim_id 7 1)]"
  using wit_run probe_sent_once by blast

text \<open>
  C7. What was perhaps sent is verified after a restart: for every attempt in the log of a disk reached by
  such a history whose request was made, loading the disk and recovering, once the verification time
  has come, gives an intent that verifies this attempt with a read started after its send fence.
\<close>

theorem sent_probe_recovered:
  assumes "probe_sys\<^sup>*\<^sup>* (new_probe_store, [], []) (s, cleared, made)"
    and "loadLocked None (\<lambda>_. False) (NewStateStore (so_disk s)) = (Inr (st, report), s')" and "\<not> so_readOnly s'"
    and "gget (st_ProbeAttempts st) i = Some a" and "(i, pa_AttemptID a) \<in> set made" and "pa_VerifyNotBefore a \<le> now"
  shows "\<exists>out s2. RecoverChecked (None, \<lambda>_. False) (\<lambda>_. (None, \<lambda>_. False)) now s' = (Inr out, s2)
    \<and> (\<exists>it \<in> set out. in_Instance it = i \<and> in_Class it = OperationProbeVerify \<and> in_AttemptID it = pa_AttemptID a
         \<and> in_StartedAfter it = pa_SendFenceSeq a)"
proof -
  from probe_reach_inv [OF assms(1) new_probe_store_inv] have inv: "undamaged (so_disk s)"
    "\<And>st. durable (so_disk s) = Some st \<Longrightarrow> log_ok (set cleared \<union> set made) st" by simp_all
  have "undamaged (so_disk (NewStateStore (so_disk s)))" using inv(1) by (simp add: NewStateStore_def)
  from load_undamaged [OF this assms(2)] have l: "durable (so_disk s) = Some st" "so_state s' = st" "so_loaded s'"
    by (auto simp: NewStateStore_def)
  note ok = inv(2) [OF l(1)]
  have wf: "gmap_wf (st_ProbeAttempts st)" using ok by (simp add: log_ok_def)
  have rec: "recoverable a" using ok assms(4,5) unfolding log_ok_def by blast
  have ids: "gget (st_ProbeAttempts (so_state s')) j = Some b \<and> pa_AttemptID b \<noteq> []" if "(j, b) \<in> set (st_ProbeAttempts st)" for j b
    using that ok wf l(2) by (auto simp: log_ok_def gget_in_set)
  have snap: "PersistentSnapshot None (\<lambda>_. False) s' = (Inr st, s')" using l by (simp add: PersistentSnapshot_def ensure_loaded_def)
  from recover_loop_complete [OF l(3) assms(3) wf [unfolded gmap_wf_def] ids, where now = now and out = "[]"] obtain out s2
    where o: "recover_loop (\<lambda>_. (None, \<lambda>_. False)) now (st_ProbeAttempts st) [] s' = (Inr out, s2)"
      "\<forall>(i, a) \<in> set (st_ProbeAttempts st). recoverable a \<and> pa_VerifyNotBefore a \<le> now \<longrightarrow> (\<exists>it \<in> set out. verifies i a it)"
    by blast
  have "(i, a) \<in> set (st_ProbeAttempts st)" using assms(4) by (simp add: map_of_SomeD)
  with o(2) rec assms(6) obtain it where "it \<in> set out" "verifies i a it" by blast
  with o(1) snap show ?thesis by (auto simp: RecoverChecked_def verifies_def)
qed

theorem sent_probe_recovered_witness:
  "\<exists>s' out s2. RecoverChecked (None, \<lambda>_. False) (\<lambda>_. (None, \<lambda>_. False)) 20 s' = (Inr out, s2)
    \<and> (\<exists>it \<in> set out. in_AttemptID it = claim_id 7 1 \<and> in_StartedAfter it = 5)"
proof -
  from wit_run obtain s st where s: "probe_sys\<^sup>*\<^sup>* (new_probe_store, [], []) (s, [], [(7, claim_id 7 1)])"
    "dk_primary (so_disk s) = Some (Good st)" "st_SchemaVersion st = CurrentStateSchema"
    "gget (st_ProbeAttempts st) 7 = Some (sending wit_attempt)" by blast
  from s(2,3) obtain report s' where l: "loadLocked None (\<lambda>_. False) (NewStateStore (so_disk s)) = (Inr (st, report), s')"
    "\<not> so_readOnly s'" by (simp add: loadLocked_def readPersistentState_def NewStateStore_def adopt_eq migrated_def)
  have "(7, pa_AttemptID (sending wit_attempt)) \<in> set [(7, claim_id 7 1)]" "pa_VerifyNotBefore (sending wit_attempt) \<le> 20"
    "pa_AttemptID (sending wit_attempt) = claim_id 7 1" "pa_SendFenceSeq (sending wit_attempt) = 5"
    by (simp_all add: sending_def wit_attempt_def)
  with sent_probe_recovered [OF s(1) l s(4) this(1,2)] show ?thesis by auto
qed

end
