(* ===== verification/Probe_Refines.thy ===== *)
theory Probe_Refines
  imports Probe_Safety
begin

text \<open>
  The sequence of \<open>Probe_Sequence\<close> is an implementation of the log machine of \<open>Probe_Safety\<close>: whatever its fences,
  reads, request, clocks and faults are, what it does to the store and the requests it makes are steps
  of that machine, so the properties of the machine hold for it.
\<close>

definition log_run :: "ProbeRuntime \<Rightarrow> ProbeRuntime \<Rightarrow> bool" where
  \<comment> \<open>the store moved by steps of the machine and no request was made\<close>
  "log_run rt rt' \<longleftrightarrow> pr_sent rt' = pr_sent rt \<and> (so_loaded (pr_store rt) \<longrightarrow> so_loaded (pr_store rt')
     \<and> (\<forall>cl made. probe_sys\<^sup>*\<^sup>* (pr_store rt, cl, made) (pr_store rt', cl, made)))"

lemma log_run_refl [simp]: "log_run rt rt"
  by (simp add: log_run_def)

lemma log_runD:
  assumes "log_run a b" and "so_loaded (pr_store a)"
  shows "so_loaded (pr_store b)" and "probe_sys\<^sup>*\<^sup>* (pr_store a, cl, made) (pr_store b, cl, made)"
  using assms by (simp_all add: log_run_def)

lemma log_run_trans:
  assumes "log_run a b" and "log_run b c"
  shows "log_run a c"
  using assms log_runD [OF assms(1)] log_runD [OF assms(2)] rtranclp_trans [OF log_runD(2) [OF assms(1)] log_runD(2) [OF assms(2)]]
  by (simp add: log_run_def)

lemma log_run_ctrl [simp]:
  "log_run a (b\<lparr>pr_ctrl := c\<rparr>) = log_run a b" "log_run (a\<lparr>pr_ctrl := c\<rparr>) b = log_run a b"
  "log_run a (b\<lparr>pr_holdPending := h\<rparr>) = log_run a b"
  "log_run (a\<lparr>pr_permit := p, pr_roster := r\<rparr>) b = log_run a b"
  by (simp_all add: log_run_def)

lemma update_loaded: "so_loaded s \<Longrightarrow> update_mode m stop io fn s = (res, s') \<Longrightarrow> so_loaded s'"
  using update_mode_loaded [of s m stop io fn res s'] writeLockedMode_result [of stop io _ m s _ s'] by (metis not_None_eq)

lemma log_run_update:
  assumes "probe_tx fn" and "rt_update f fn rt = (res, rt')"
  shows "log_run rt rt'"
proof -
  obtain s' where u: "store_Update (fst f) (snd f) fn (pr_store rt) = (res, s')" and rt': "rt' = rt\<lparr>pr_store := s'\<rparr>"
    using assms(2) by (auto simp: rt_update_def split: prod.splits)
  have "probe_sys (pr_store rt, cl, made) (s', cl, made)" for cl made by (rule probe_sys.update [OF assms(1) u])
  with update_loaded [OF _ u [unfolded store_Update_def]] show ?thesis by (auto simp: log_run_def rt')
qed

lemma log_run_sync: "log_run rt (syncProbeControllerInstanceFromStore f i rt)"
  by (auto simp: log_run_def syncProbeControllerInstanceFromStore_def PersistentSnapshot_def ensure_loaded_def
      split: prod.splits option.splits sum.splits)

lemma log_run_terminal: "log_run rt (snd (persistTerminalProbeCompletionLocked f i attemptID quota phases rt))"
  by (auto simp: persistTerminalProbeCompletionLocked_def Let_def split: prod.splits sum.splits
      intro: log_run_trans log_run_update [OF probe_tx.terminal] log_run_sync)

lemma log_run_advance [simp]: "log_run a (advance_ctrl i e b) = log_run a b" "log_run (advance_ctrl i e a) b = log_run a b"
  by (simp_all add: advance_ctrl_def)

lemma log_run_verified: "log_run rt (snd (persistVerifiedProbeCompletion f now i attemptID quota phases rt))"
  using log_run_terminal [of "advance_ctrl i e rt" for e] by (simp add: persistVerifiedProbeCompletion_def)

lemma log_run_failure: "log_run rt (snd (persistProbeFailure f now i attemptID ws sent authBlocked login suppress rt))"
  by (auto simp: persistProbeFailure_def split: prod.splits sum.splits
      intro: log_run_trans log_run_update [OF probe_tx.failure] log_run_sync)

lemma log_run_hold: "log_run rt (snd (persistProbeRosterHold f rt))"
  by (auto simp: persistProbeRosterHold_def holdProbeForRoster_def Let_def split: prod.splits sum.splits
      intro: log_run_update [OF probe_tx.hold])

lemma put_binding_leaves_log: "leaves_log (\<lambda>st. Inr (put_binding authID b st))"
  by (simp add: leaves_log_def put_binding_def)

lemma log_run_mirrored:
  assumes "leaves_log fn" and "UpdateMirrored (fst f) (snd f) fn (pr_store rt) = (res, s')"
  shows "log_run rt (rt\<lparr>pr_bindings := bs, pr_store := s'\<rparr>)"
proof -
  have "probe_sys (pr_store rt, cl, made) (s', cl, made)" for cl made by (rule probe_sys.mirrored [OF assms])
  with update_loaded [OF _ assms(2) [unfolded UpdateMirrored_def]] show ?thesis by (auto simp: log_run_def)
qed

lemma log_run_block: "log_run rt (block_account f authID rt)"
proof (cases "UpdateMirrored (fst f) (snd f) (\<lambda>st. Inr (put_binding authID ((binding_or_zero (pr_bindings rt) authID)
    \<lparr>rb_AuthID := authID, rb_AuthBlocked := True\<rparr>) st)) (pr_store rt)")
  case (Pair res s')
  from log_run_mirrored [OF put_binding_leaves_log Pair] Pair show ?thesis
    by (cases res) (simp_all add: block_account_def MarkAuthBlocked_def commit_binding_def log_run_def)
qed

lemma log_run_fail: "log_run rt (seq_fail env p suppress err sent rt)"
proof -
  have hold: "log_run rt (snd (persistProbeRosterHold f (rt\<lparr>pr_permit := q, pr_roster := r\<rparr>)))" for f q r
    using log_run_hold [of "rt\<lparr>pr_permit := q, pr_roster := r\<rparr>"] by simp
  obtain e rt1 where pf: "persistProbeFailure (en_fFail env) (en_nowFail env) (rb_Instance (sq_Binding p)) (pa_AttemptID (sq_Attempt p))
            (sq_Windows p) sent (err = SeqUnauthorized) (rb_Login (sq_Binding p)) suppress rt = (e, rt1)" by fastforce
  have f: "log_run rt rt1" using log_run_failure [where rt = rt] pf by (metis snd_conv)
  show ?thesis
  proof (cases "hr_Provisional (pr_roster rt) \<and> err = SeqNotProvisional \<or> hr_Health (pr_roster rt) = RosterFailClosed")
    case True
    with hold show ?thesis by (auto simp: seq_fail_def)
  next
    case False
    then have "seq_fail env p suppress err sent rt = (case e of None \<Rightarrow>
        if err = SeqUnauthorized then block_account (en_fBlock env) (sq_AuthID p) rt1 else rt1 | Some _ \<Rightarrow> rt1)"
      using pf by (auto simp: seq_fail_def split: option.splits)
    then show ?thesis using f log_run_trans [OF f log_run_block] by (simp split: option.splits)
  qed
qed

lemma snd_settled [simp]: "snd (case x of (e, r) \<Rightarrow> (e = None, r)) = snd x"
  by (cases x) simp

section \<open>Runs that may make a request\<close>

definition log_refines :: "ProbeRuntime \<Rightarrow> ProbeRuntime \<Rightarrow> bool" where
  "log_refines rt rt' \<longleftrightarrow> (so_loaded (pr_store rt) \<longrightarrow> so_loaded (pr_store rt')
     \<and> (\<exists>cl. probe_sys\<^sup>*\<^sup>* (pr_store rt, [], pr_sent rt) (pr_store rt', cl, pr_sent rt')))"

lemma log_refines_run: "log_run rt rt' \<Longrightarrow> log_refines rt rt'"
  by (auto simp: log_run_def log_refines_def)

lemma log_refines_ctrl [simp]: "log_refines (a\<lparr>pr_ctrl := c\<rparr>) b = log_refines a b"
  by (simp add: log_refines_def)

lemma log_refines_trans:
  assumes "log_refines a b" and "log_run b c"
  shows "log_refines a c"
  unfolding log_refines_def
proof
  assume "so_loaded (pr_store a)"
  with assms(1) obtain cl where b: "so_loaded (pr_store b)" "probe_sys\<^sup>*\<^sup>* (pr_store a, [], pr_sent a) (pr_store b, cl, pr_sent b)"
    by (auto simp: log_refines_def)
  from rtranclp_trans [OF b(2) log_runD(2) [OF assms(2) b(1)]] log_runD(1) [OF assms(2) b(1)] assms(2)
  show "so_loaded (pr_store c) \<and> (\<exists>cl. probe_sys\<^sup>*\<^sup>* (pr_store a, [], pr_sent a) (pr_store c, cl, pr_sent c))"
    by (auto simp: log_run_def)
qed

lemma log_run_verify: "log_run rt (snd (seq_verify env p attempt lazy rt))"
proof -
  have "log_run rt (snd (persistTerminalProbeCompletionLocked f i attemptID quota phases ((advance_ctrl j e rt)\<lparr>pr_ctrl := c\<rparr>)))"
    for f i attemptID quota phases j e c
    using log_run_terminal [of "(advance_ctrl j e rt)\<lparr>pr_ctrl := c\<rparr>"] by simp
  then show ?thesis using log_run_fail by (simp add: seq_verify_def Let_def split: sum.splits)
qed

lemma log_run_sent:
  assumes "PersistSent hit f i attemptID t (pr_store rt) = (e, s)"
  shows "log_run rt (rt\<lparr>pr_store := s\<rparr>)"
proof (cases "s = pr_store rt")
  case False
  with assms obtain res where "rt_update f (record_sent i attemptID t) rt = (res, rt\<lparr>pr_store := s\<rparr>)"
    by (auto simp: PersistSent_def err_of_def rt_update_def split: option.splits prod.splits sum.splits)
  then show ?thesis by (rule log_run_update [OF probe_tx.sent])
qed simp

lemma log_refines_not_cleared:
  assumes "PersistSending hit f a (pr_store rt) = (Some e, s)"
  shows "log_refines rt (rt\<lparr>pr_store := s\<rparr>)"
proof -
  have "so_loaded s" if "so_loaded (pr_store rt)"
    using assms that update_loaded [of "pr_store rt" False]
    by (auto simp: PersistSending_def store_Update_def split: option.splits prod.splits sum.splits)
  with probe_sys.not_cleared [OF assms, of "[]" "pr_sent rt"] show ?thesis by (auto simp: log_refines_def)
qed

lemma log_refines_cleared:
  assumes "PersistSending hit f a (pr_store rt) = (None, s)"
  shows "log_refines rt (note_request made (pa_Instance a, pa_AttemptID a) (rt\<lparr>pr_store := s\<rparr>))"
proof -
  have l: "so_loaded s" if "so_loaded (pr_store rt)"
    using assms that update_loaded [of "pr_store rt" False]
    by (auto simp: PersistSending_def store_Update_def split: option.splits prod.splits sum.splits)
  let ?r = "(pa_Instance a, pa_AttemptID a)"
  note c = probe_sys.cleared [OF assms, of "[]" "pr_sent rt"]
  moreover have "probe_sys (s, [?r], pr_sent rt) (s, [], ?r # pr_sent rt)"
    using probe_sys.request [of ?r "[?r]" s "pr_sent rt"] by simp
  ultimately have "probe_sys\<^sup>*\<^sup>* (pr_store rt, [], pr_sent rt) (s, [], ?r # pr_sent rt)" by (meson converse_rtranclp_into_rtranclp r_into_rtranclp)
  with c l show ?thesis by (auto simp: log_refines_def note_request_def)
qed

lemma log_run_after: "log_run rt (snd (seq_sent env p attempt lazy err rt))"
proof -
  obtain e s where sent: "PersistSent (en_hit env) (en_fSent env) (rb_Instance (sq_Binding p)) (pa_AttemptID attempt) (en_nowSent env)
    (pr_store rt) = (e, s)" by fastforce
  note run = log_run_trans [OF log_run_sent [OF sent]]
  show ?thesis using sent log_run_fail run [OF log_run_fail] run [OF log_run_verify]
    by (cases err; cases e) (simp_all add: seq_sent_def)
qed

lemma log_refines_send:
  assumes "pa_Instance (sq_Attempt p) = rb_Instance (sq_Binding p)"
  shows "log_refines rt (snd (seq_send env p lazy rt))"
proof (cases "en_fence2 env")
  case (Inl e)
  then show ?thesis by (simp add: seq_send_def log_refines_run [OF log_run_fail])
next
  case (Inr fence)
  define a where "a = stamp_attempt lazy fence (en_nowCreated env) (sq_Attempt p)"
  have i: "pa_Instance a = rb_Instance (sq_Binding p)" using assms by (simp add: a_def stamp_attempt_def)
  obtain e s where ps: "PersistSending (en_hit env) (en_fSending env) a (pr_store rt) = (e, s)" by fastforce
  obtain err made where ex: "ExecuteSend (en_hit env) (en_http env) = (err, made)" by fastforce
  show ?thesis
  proof (cases e)
    case (Some x)
    from log_refines_trans [OF log_refines_not_cleared [OF ps [unfolded Some]] log_run_fail] Inr ps Some
    show ?thesis by (simp add: seq_send_def a_def [symmetric])
  next
    case None
    from log_refines_trans [OF log_refines_cleared [OF ps [unfolded None]] log_run_after] Inr ps None ex i
    show ?thesis by (simp add: seq_send_def a_def [symmetric])
  qed
qed


definition wit_env :: probe_env where
  \<comment> \<open>the first fence cannot be allocated\<close>
  "wit_env = \<lparr>en_fence1 = Inl ErrStopped, en_fence2 = Inr 1, en_fence3 = Inr 2, en_read1 = Inl SeqOther, en_read2 = Inl SeqOther,
     en_http = None, en_wait = True, en_hit = (\<lambda>_. None), en_interval = 0, en_nowPrecheck = 1, en_nowCreated = 2, en_nowSent = 3,
     en_nowVerify = 4, en_nowFail = 5, en_fSending = (None, \<lambda>_. False), en_fSent = (None, \<lambda>_. False), en_fDone = (None, \<lambda>_. False),
     en_fFail = (None, \<lambda>_. False), en_fBlock = (None, \<lambda>_. False)\<rparr>"

definition wit_payload :: probeSequencePayload where
  "wit_payload = \<lparr>sq_AuthID = ''a'', sq_Binding = zero_RuntimeBinding\<lparr>rb_Instance := 7\<rparr>, sq_Windows = [ProbeWindowLong],
     sq_Attempt = wit_attempt, sq_StartedAfter = 0, sq_Recovery = False\<rparr>"

definition wit_runtime :: ProbeRuntime where
  "wit_runtime = \<lparr>pr_store = new_probe_store, pr_ctrl = NewProbeController 0, pr_persistPending = [], pr_holdPending = False,
     pr_roster = zero_HostRosterSnapshot, pr_permit = False, pr_bindings = [], pr_sent = []\<rparr>"


end
