(* ===== verification/Roster_Props.thy ===== *)
theory Roster_Props
  imports Roster_Controller
begin

text \<open>
  Properties of the roster controller over every interleaving of its critical sections.
\<close>

definition roster_ok :: "ActiveRoster \<Rightarrow> bool" where
  "roster_ok r \<longleftrightarrow> (ac_Confirmed r \<longrightarrow> ac_Capability r = CapabilityA)
     \<and> (ac_Provisional r \<longrightarrow> ac_Capability r = CapabilityB \<and> ac_Health r = RosterWaiting)
     \<and> (\<not> ac_Confirmed r \<and> \<not> ac_Provisional r \<longrightarrow> IsZero (ac_ConfirmedAt r))
     \<and> (ac_Health r = RosterDegraded \<or> ac_Health r = RosterFailClosed \<longrightarrow> ac_Confirmed r \<and> \<not> IsZero (ac_ConfirmedAt r))
     \<and> (ac_BackgroundAllowed r \<longrightarrow> ac_Confirmed r \<and> (ac_Health r = RosterHealthy \<or> ac_Health r = RosterDegraded)
          \<or> ac_Provisional r)"

definition content :: "ActiveRoster \<Rightarrow> int \<times> string list \<times> RosterEntry list" where
  "content r = (ac_HighestPriority r, ac_Instances r, ac_Entries r)"

definition same_but_gate :: "ActiveRoster \<Rightarrow> ActiveRoster \<Rightarrow> bool" where
  \<comment> \<open>what the critical sections that run during a publication leave alone\<close>
  "same_but_gate old cur \<longleftrightarrow> ac_Confirmed old = ac_Confirmed cur \<and> ac_Provisional old = ac_Provisional cur
     \<and> ac_ConfirmedAt old = ac_ConfirmedAt cur \<and> ac_DegradedSince old = ac_DegradedSince cur
     \<and> ac_Generation old = ac_Generation cur \<and> content old = content cur"

definition successor :: "ActiveRoster \<Rightarrow> ActiveRoster \<Rightarrow> bool" where
  "successor old next \<longleftrightarrow> ac_Generation next = ac_Generation old \<and> content next = content old
     \<or> ac_Generation next = ac_Generation old + 1"

fun roster_inv :: "roster_state \<Rightarrow> bool" where
  "roster_inv (c, ph, ns) \<longleftrightarrow> roster_ok (rc_current c) \<and> (\<forall>n \<in> set ns. roster_ok n)
     \<and> (case ph of Publishing now old next \<Rightarrow> roster_ok old \<and> roster_ok next \<and> same_but_gate old (rc_current c) \<and> successor old next
        | _ \<Rightarrow> True)"

section \<open>Each critical section\<close>

lemma same_but_gate_refl [simp]: "same_but_gate r r"
  by (simp add: same_but_gate_def)

lemma roster_ok_waiting [simp]: "roster_ok waiting_roster"
  by (simp add: roster_ok_def waiting_roster_def)

lemma NewRosterController_inv: "roster_inv (NewRosterController p b now, Idle, [])"
  by (auto simp: NewRosterController_def roster_ok_def waiting_roster_def split: option.splits)

lemma EnforceLifecycle_ok:
  assumes "EnforceLifecycle now c = (n, c1)" and "roster_ok (rc_current c)"
  shows "roster_ok (rc_current c1)" and "same_but_gate (rc_current c) (rc_current c1)" and "\<forall>r. n = Some r \<longrightarrow> r = rc_current c1"
    and "rc_inFlight c1 = rc_inFlight c"
  using assms by (auto simp: EnforceLifecycle_def Let_def roster_ok_def same_but_gate_def content_def split: if_splits)

lemma probe_reset_ok:
  assumes "roster_ok (rc_current c)"
  shows "roster_ok (rc_current (snd (probe_reset got c)))" and "same_but_gate (rc_current c) (rc_current (snd (probe_reset got c)))"
  using assms by (auto simp: probe_reset_def Let_def roster_ok_def same_but_gate_def content_def)

lemma probe_commit_ok:
  assumes "roster_ok (rc_current c)"
  shows "roster_ok (rc_current (snd (probe_commit got now c)))" and "same_but_gate (rc_current c) (rc_current (snd (probe_commit got now c)))"
  using assms by (auto simp: probe_commit_def Let_def roster_ok_def same_but_gate_def content_def)

lemma degradedRoster_ok: "roster_ok old \<Longrightarrow> roster_ok ((degradedRoster old now)\<lparr>ac_LifecycleRevision := r\<rparr>)"
  by (auto simp: degradedRoster_def Let_def roster_ok_def)

lemma same_entries_eq: "same_entries as bs \<Longrightarrow> as = bs"
proof (induction as bs rule: same_entries.induct)
  case (1 a as b bs)
  then show ?case by (cases a; cases b) simp
qed simp_all

lemma confirmed_roster_ok:
  assumes "confirmed_roster old entries now = Some next"
  shows "roster_ok next" and "successor old next"
  using assms
  by (auto simp: confirmed_roster_def Let_def roster_ok_def successor_def content_def sameRoster_def dest: same_entries_eq
      split: option.splits prod.splits if_splits)

lemma roster_ok_cong [simp]: "roster_ok (r\<lparr>ac_LifecycleRevision := x\<rparr>) = roster_ok r" "roster_ok (r\<lparr>ac_Generation := g\<rparr>) = roster_ok r"
  by (simp_all add: roster_ok_def)

lemma finish_commit_ok:
  assumes "roster_ok old" and "\<forall>next. res = Inr next \<longrightarrow> roster_ok next"
  shows "roster_ok (rc_current (snd (finish_commit old res now c)))"
  using assms degradedRoster_ok [of old]
  by (auto simp: finish_commit_def Let_def split: sum.splits)

lemma published_ok: "roster_ok next \<Longrightarrow> \<forall>n. published next res = Inr n \<longrightarrow> roster_ok n"
  by (auto simp: published_def with_generation_def split: sum.splits)

lemma same_but_gate_trans: "same_but_gate a b \<Longrightarrow> same_but_gate b c \<Longrightarrow> same_but_gate a c"
  by (simp add: same_but_gate_def)

lemma gate_step_inv:
  assumes "roster_inv (c, ph, ns)" and "roster_ok (rc_current c1)" and "same_but_gate (rc_current c) (rc_current c1)"
    and "\<forall>r. n = Some r \<longrightarrow> r = rc_current c1"
  shows "roster_inv (c1, ph, notified n ns)"
  using assms by (cases n) (auto split: sync_phase.splits intro: same_but_gate_trans)

lemma notify_current_latest: "\<forall>r. notify_current x = Some r \<longrightarrow> r = rc_current (snd x)"
  by (simp add: notify_current_def)

lemma sync_begin_current [simp]: "rc_current (snd (sync_begin force now c)) = rc_current c"
  by (simp add: sync_begin_def Let_def)

lemma roster_step_inv: "roster_inv s \<Longrightarrow> roster_inv (roster_step s e)"
proof (induction s e rule: roster_step.induct)
  case (1 c ph ns now)
  obtain n c1 where e: "EnforceLifecycle now c = (n, c1)" by (cases "EnforceLifecycle now c")
  have "roster_ok (rc_current c)" using "1.prems" by simp
  from gate_step_inv [OF "1.prems" EnforceLifecycle_ok(1-3) [OF e this]] show ?case by (simp add: e)
next
  case (2 c ns force now)
  then show ?case using sync_begin_current [of force now c]
    by (cases "sync_begin force now c") (auto split: sync_start.splits)
next
  case (3 c now ns listed)
  then show ?case using finish_commit_ok [of "rc_current c" "Inl e" for e] confirmed_roster_ok [of "rc_current c"]
    by (auto simp: finish_decide_def Let_def split: sum.splits option.splits)
next
  case (4 c now old "next" ns res)
  then show ?case using finish_commit_ok [of old "published next res"] published_ok [of "next" res]
    by (auto simp: Let_def)
next
  case (5 c ph ns got)
  then have "roster_ok (rc_current c)" by simp
  from gate_step_inv [OF "5.prems" probe_reset_ok [OF this] notify_current_latest] show ?case by (simp only: roster_step.simps Let_def)
next
  case (6 c ph ns got now)
  then have "roster_ok (rc_current c)" by simp
  from gate_step_inv [OF "6.prems" probe_commit_ok [OF this] notify_current_latest] show ?case by (simp only: roster_step.simps Let_def)
qed simp_all

interpretation roster: invariant_machine roster_step roster_inv
  by unfold_locales (rule roster_step_inv)

section \<open>Properties\<close>

text \<open>
  C9. Background work needs an authority (INV-02): whatever the order of synchronisations, failures,
  publications, request boundaries and probe wake-ups, a roster the controller holds or announces
  allows background work only when it is confirmed by the host and healthy or degraded, or when
  it is a provisional roster, which allows probes only.
\<close>

theorem roster_background_authorised:
  assumes "run roster_step (NewRosterController p b t, Idle, []) es = (c, ph, ns)" and "r \<in> insert (rc_current c) (set ns)"
    and "ac_BackgroundAllowed r"
  shows "normalRosterBackgroundAllowed (hostRosterSnapshotFromActive r) \<and> \<not> ac_Provisional r
    \<or> provisionalProbeBackgroundAllowed (hostRosterSnapshotFromActive r) \<and> \<not> ac_Confirmed r"
proof -
  have "roster_inv (c, ph, ns)" using roster.run_inv [OF NewRosterController_inv, of p b t es] assms(1) by simp
  with assms(2) have "roster_ok r" by auto
  with assms(3) show ?thesis
    by (auto simp: roster_ok_def normalRosterBackgroundAllowed_def provisionalProbeBackgroundAllowed_def hostRosterSnapshotFromActive_def)
qed

section \<open>A degraded roster closes\<close>

definition failing :: "roster_event \<Rightarrow> bool" where
  \<comment> \<open>not a successful publication\<close>
  "failing e \<longleftrightarrow> (case e of Published (Inr _) \<Rightarrow> False | _ \<Rightarrow> True)"

definition closing :: "time \<Rightarrow> ActiveRoster \<Rightarrow> bool" where
  "closing t r \<longleftrightarrow> ac_Confirmed r \<and> \<not> ac_Provisional r \<and> \<not> IsZero (ac_ConfirmedAt r) \<and> ac_DegradedSince r = t
     \<and> (ac_Health r = RosterDegraded \<or> ac_Health r = RosterFailClosed)"

lemma closing_gate: "closing t r \<Longrightarrow> same_but_gate old r \<Longrightarrow> \<not> ac_Provisional old \<and> \<not> IsZero (ac_ConfirmedAt old) \<and> ac_Confirmed old
    \<and> ac_DegradedSince old = t"
  by (simp add: closing_def same_but_gate_def)

lemma closing_degraded:
  assumes "\<not> ac_Provisional old" "\<not> IsZero (ac_ConfirmedAt old)" "ac_Confirmed old" "ac_DegradedSince old = t" "t \<noteq> 0"
  shows "closing t ((degradedRoster old now)\<lparr>ac_LifecycleRevision := x\<rparr>)"
  using assms by (simp add: degradedRoster_def closing_def Let_def)

lemma closing_step:
  assumes "roster_inv s" and "closing t (rc_current (fst s))" and "failing e" and "t \<noteq> 0"
  shows "closing t (rc_current (fst (roster_step s e)))"
  using assms
proof (induction s e rule: roster_step.induct)
  case (1 c ph ns now)
  then show ?case by (auto simp: EnforceLifecycle_def closing_def Let_def split: prod.splits)
next
  case (2 c ns force now)
  then show ?case using sync_begin_current [of force now c]
    by (cases "sync_begin force now c") (auto split: sync_start.splits)
next
  case (3 c now ns listed)
  then have "closing t ((degradedRoster (rc_current c) now)\<lparr>ac_LifecycleRevision := x\<rparr>)" for x
    using closing_gate [of t "rc_current c" "rc_current c"] by (intro closing_degraded) auto
  with 3 show ?case by (auto simp: Let_def finish_commit_def split: sum.splits)
next
  case (4 c now old "next" ns res)
  then obtain e where e: "res = Inl e" by (cases res) (simp_all add: failing_def)
  have "closing t ((degradedRoster old now)\<lparr>ac_LifecycleRevision := ac_LifecycleRevision old + 1\<rparr>)"
    using closing_gate [of t "rc_current c" old] 4 by (intro closing_degraded) auto
  then show ?case by (simp add: e published_def finish_commit_def Let_def)
next
  case (5 c ph ns got)
  then show ?case by (simp add: probe_reset_def closing_def Let_def)
next
  case (6 c ph ns got now)
  then show ?case by (simp add: probe_commit_def closing_def Let_def)
qed simp_all

lemma closing_run:
  "roster_inv s \<Longrightarrow> closing t (rc_current (fst s)) \<Longrightarrow> list_all failing es \<Longrightarrow> t \<noteq> 0 \<Longrightarrow>
    roster_inv (run roster_step s es) \<and> closing t (rc_current (fst (run roster_step s es)))"
  by (induction es arbitrary: s) (simp_all add: roster_step_inv closing_step)


section \<open>A generation identifies a roster\<close>

abbreviation current_of :: "roster_state \<Rightarrow> ActiveRoster" where
  "current_of s \<equiv> rc_current (fst s)"

definition advances :: "ActiveRoster \<Rightarrow> ActiveRoster \<Rightarrow> bool" where
  "advances r r' \<longleftrightarrow> ac_Generation r \<le> ac_Generation r' \<and> (ac_Generation r' = ac_Generation r \<longrightarrow> content r' = content r)"

lemma advances_gate: "same_but_gate r r' \<Longrightarrow> advances r r'"
  by (simp add: same_but_gate_def advances_def)

lemma advances_trans: "advances r r' \<Longrightarrow> advances r' r'' \<Longrightarrow> advances r r''"
  by (force simp: advances_def)

lemma degradedRoster_advances: "same_but_gate old r \<Longrightarrow> advances r ((degradedRoster old now)\<lparr>ac_LifecycleRevision := x\<rparr>)"
  by (simp add: degradedRoster_def advances_def same_but_gate_def content_def Let_def)

lemma published_advances:
  assumes "successor old next" "same_but_gate old r" "ac_Generation r \<noteq> - 1"
  shows "advances r ((with_generation next g)\<lparr>ac_LifecycleRevision := x\<rparr>)" "advances r (with_generation next g)"
  using assms word_succ_greater [of "ac_Generation r"]
  by (auto simp: successor_def same_but_gate_def advances_def with_generation_def content_def)

lemma roster_step_advances:
  assumes "roster_inv s" and "ac_Generation (current_of s) \<noteq> - 1"
  shows "advances (current_of s) (current_of (roster_step s e))"
  using assms
proof (induction s e rule: roster_step.induct)
  case (1 c ph ns now)
  then show ?case using EnforceLifecycle_ok(2) [of now c] by (auto intro: advances_gate split: prod.splits)
next
  case (2 c ns force now)
  then show ?case using sync_begin_current [of force now c]
    by (cases "sync_begin force now c") (auto simp: advances_def split: sync_start.splits)
next
  case (3 c now ns listed)
  then show ?case using degradedRoster_advances [OF same_but_gate_refl [of "rc_current c"]]
    by (auto simp: Let_def finish_commit_def advances_def split: sum.splits)
next
  case (4 c now old "next" ns res)
  then show ?case using published_advances [of old "next" "rc_current c"] degradedRoster_advances [of old "rc_current c"]
    by (auto simp: Let_def finish_commit_def published_def split: sum.splits)
next
  case (5 c ph ns got)
  then show ?case using probe_reset_ok(2) [of c got] by (auto simp: Let_def intro: advances_gate)
next
  case (6 c ph ns got now)
  then show ?case using probe_commit_ok(2) [of c got now] by (auto simp: Let_def intro: advances_gate)
qed (simp_all add: advances_def)

text \<open>
  C10. A generation identifies a roster: as long as the counter does not overflow, the generation of the
  current roster never falls, and two rosters of the controller with the same generation have the
  same priority, the same instances and the same entries.
\<close>

theorem generation_identifies_roster:
  assumes "run roster_step (NewRosterController p b t, Idle, []) es = s"
    and "\<forall>k. ac_Generation (current_of (run roster_step s (take k fs))) \<noteq> - 1"
  shows "ac_Generation (current_of s) \<le> ac_Generation (current_of (run roster_step s fs))
    \<and> (ac_Generation (current_of (run roster_step s fs)) = ac_Generation (current_of s) \<longrightarrow>
         content (current_of (run roster_step s fs)) = content (current_of s))"
proof -
  have "roster_inv s" using roster.run_inv [OF NewRosterController_inv, of p b t es] assms(1) by simp
  then have "advances (current_of s) (current_of (run roster_step s fs))" using assms(2)
  proof (induction fs arbitrary: s)
    case (Cons e fs)
    have "advances (current_of s) (current_of (roster_step s e))"
      using roster_step_advances [OF Cons.prems(1)] Cons.prems(2) [rule_format, of 0] by simp
    moreover have "\<forall>k. ac_Generation (current_of (run roster_step (roster_step s e) (take k fs))) \<noteq> - 1"
      using Cons.prems(2) [rule_format, of "Suc k" for k] by simp
    ultimately show ?case using Cons.IH [OF roster_step_inv [OF Cons.prems(1)]] advances_trans by fastforce
  qed (simp add: advances_def)
  then show ?thesis by (simp add: advances_def)
qed

section \<open>Witnesses\<close>

definition wit_entries :: "RosterEntry list" where
  "wit_entries = [\<lparr>re_ID = ''a'', re_AuthIndex = ''0'', re_Provider = ''codex'', re_Priority = Some 3\<rparr>]"

definition wit_events :: "roster_event list" where
  \<comment> \<open>a first roster, then a failed read at six minutes\<close>
  "wit_events = [Begin True 5, Listed (Inr wit_entries), Published (Inr 1), Begin False (6 * Minute), Listed (Inl ErrListing)]"

definition wit_race :: "roster_event list" where
  \<comment> \<open>a publication that begins at twelve minutes and fails after a request boundary past the limit\<close>
  "wit_race = [Begin False (12 * Minute), Listed (Inr wit_entries), Boundary (36 * Minute), Published (Inl ErrPublish)]"

lemmas roster_eval = wit_events_def wit_race_def wit_entries_def NewRosterController_def waiting_roster_def sync_begin_def
  rosterActiveTTL_def rosterDegradedLimit_def Sub_def maxDuration_def minDuration_def finish_decide_def confirmed_roster_def
  HighestCodexTier_def tier_entry_def highest_step_def filterRosterEntries_def sort_slice_def sameRoster_def finish_commit_def
  published_def with_generation_def removedRosterIDs_def degradedRoster_def EnforceLifecycle_def Let_def List.map_filter_def

theorem roster_background_authorised_witness:
  "let s = run roster_step (NewRosterController None True 0, Idle, []) wit_events
   in ac_BackgroundAllowed (current_of s) \<and> normalRosterBackgroundAllowed (hostRosterSnapshotFromActive (current_of s))"
proof -
  let ?s = "run roster_step (NewRosterController None True 0, Idle, []) wit_events"
  obtain c ph ns where s: "?s = (c, ph, ns)" by (cases ?s)
  have "ac_BackgroundAllowed (current_of ?s)" "ac_Confirmed (current_of ?s)" by (simp_all add: roster_eval)
  with roster_background_authorised [OF s, of "rc_current c"] s show ?thesis by simp
qed


theorem generation_identifies_roster_witness:
  "let s = run roster_step (NewRosterController None True 0, Idle, []) wit_events
   in ac_Generation (current_of (run roster_step s wit_race)) = 1 \<and> content (current_of (run roster_step s wit_race)) = content (current_of s)"
proof -
  let ?s = "run roster_step (NewRosterController None True 0, Idle, []) wit_events"
  have g: "ac_Generation (current_of (run roster_step ?s wit_race)) = 1" "ac_Generation (current_of ?s) = 1" by (simp_all add: roster_eval)
  have "ac_Generation (current_of (run roster_step ?s (take k wit_race))) = 1" for k
    by (cases "k < 4"; (simp add: less_Suc_eq numeral_eq_Suc, elim disjE)?) (simp_all add: roster_eval)
  then have "\<forall>k. ac_Generation (current_of (run roster_step ?s (take k wit_race))) \<noteq> - 1" by simp
  from generation_identifies_roster [OF refl this] g show ?thesis by simp
qed

text \<open>
  The comment of \<^verbatim>\<open>EnforceLifecycle\<close> says that closing is monotonic and announced once. A publication
  that began before the limit and fails after it writes back the roster of its beginning: the
  controller is degraded again, allows background work, and announces this with the
  revision number that announced the closing.
\<close>

lemma failed_publication_reopens:
  "let s = run roster_step (NewRosterController None True 0, Idle, []) (wit_events @ wit_race);
       reopened = hd (snd (snd s)); closed = hd (tl (snd (snd s)))
   in ac_Health closed = RosterFailClosed \<and> ac_Health reopened = RosterDegraded \<and> ac_BackgroundAllowed reopened
      \<and> ac_LifecycleRevision reopened = ac_LifecycleRevision closed \<and> ac_Health (current_of s) = RosterDegraded"
  by (simp add: roster_eval)

end
