(* ===== verification/Go_Text.thy ===== *)
theory Go_Text
  imports Go_Base
begin

text \<open>
  Searching in text: \<^verbatim>\<open>strings.Index\<close>, \<^verbatim>\<open>strings.Contains\<close>, \<^verbatim>\<open>strings.HasPrefix\<close>, \<^verbatim>\<open>strings.HasSuffix\<close>,
  \<^verbatim>\<open>strings.LastIndex\<close> for one byte and \<^verbatim>\<open>bytes.Count\<close>, over lists of bytes, and the entry points of
  \<^verbatim>\<open>encoding/json\<close> the retry chain uses. A decoder of JSON text is an argument of the model
  (\<open>json_lib\<close>): \<open>jl_valid\<close> is \<^verbatim>\<open>json.Valid\<close>, \<open>jl_any\<close> decodes into \<^verbatim>\<open>any\<close>, \<open>jl_object\<close> into
  \<^verbatim>\<open>map[string]json.RawMessage\<close> (\<open>Some None\<close> is the nil map the text \<^verbatim>\<open>null\<close> leaves), \<open>jl_array\<close> into
  \<^verbatim>\<open>[]json.RawMessage\<close>, \<open>jl_string\<close> into \<^verbatim>\<open>string\<close>; the \<open>jl_marshal\<close> fields are \<^verbatim>\<open>json.Marshal\<close> on
  those types, which does not fail on them.
\<close>

section \<open>Substrings\<close>

fun Index :: "string \<Rightarrow> string \<Rightarrow> nat option" where
  "Index sub [] = (if sub = [] then Some 0 else None)"
| "Index sub (c # s) =
    (if take (length sub) (c # s) = sub then Some 0 else map_option Suc (Index sub s))"

definition Contains :: "string \<Rightarrow> string \<Rightarrow> bool" where
  "Contains s sub \<longleftrightarrow> Index sub s \<noteq> None"

definition HasPrefix :: "string \<Rightarrow> string \<Rightarrow> bool" where
  "HasPrefix s p \<longleftrightarrow> take (length p) s = p"

definition HasSuffix :: "string \<Rightarrow> string \<Rightarrow> bool" where
  "HasSuffix s p \<longleftrightarrow> HasPrefix (rev s) (rev p)"

definition LastIndexByte :: "char \<Rightarrow> string \<Rightarrow> nat option" where
  "LastIndexByte c s = map_option (\<lambda>i. length s - Suc i) (Index [c] (rev s))"

definition cut_at :: "string \<Rightarrow> string \<Rightarrow> (string \<times> string) option" where
  \<comment> \<open>the text before and after the first occurrence\<close>
  "cut_at sep s = map_option (\<lambda>i. (take i s, drop (i + length sep) s)) (Index sep s)"

lemma Index_Some:
  "Index sub s = Some i \<Longrightarrow> take (length sub) (drop i s) = sub \<and> i + length sub \<le> length s"
proof (induction s arbitrary: i)
  case Nil
  then show ?case by (simp split: if_splits)
next
  case (Cons c s)
  show ?case
  proof (cases "take (length sub) (c # s) = sub")
    case True
    with Cons.prems show ?thesis by (metis Index.simps(2) drop0 length_take min.cobounded1 option.inject plus_nat.add_0)
  next
    case False
    with Cons.prems obtain j where "Index sub s = Some j" "i = Suc j" by auto
    with Cons.IH show ?thesis by simp
  qed
qed

lemma cut_at_Some:
  assumes "cut_at sep s = Some (a, b)"
  shows "s = a @ sep @ b"
proof -
  from assms obtain i where i: "Index sep s = Some i" "a = take i s" "b = drop (i + length sep) s"
    by (auto simp: cut_at_def)
  from Index_Some [OF i(1)] have "drop i s = sep @ drop (length sep) (drop i s)"
    by (metis append_take_drop_id)
  then show ?thesis using i by (metis add.commute append_take_drop_id drop_drop)
qed

lemma cut_at_shorter:
  "cut_at sep s = Some (a, b) \<Longrightarrow> sep \<noteq> [] \<Longrightarrow> length b < length s"
  by (auto dest!: cut_at_Some)

section \<open>JSON\<close>

record json_lib =
  jl_valid :: "string \<Rightarrow> bool"
  jl_any :: "string \<Rightarrow> go_any option"
  jl_object :: "string \<Rightarrow> (string, string) gmap option option"
  jl_array :: "string \<Rightarrow> string list option"
  jl_string :: "string \<Rightarrow> string option"
  jl_marshal_string :: "string \<Rightarrow> string"
  jl_marshal_array :: "string list \<Rightarrow> string"
  jl_marshal_object :: "(string, string) gmap \<Rightarrow> string"

definition any_field :: "go_any \<Rightarrow> string \<Rightarrow> go_any option" where
  \<comment> \<open>\<^verbatim>\<open>object, ok := v.(map[string]any)\<close> followed by \<^verbatim>\<open>object[key]\<close>\<close>
  "any_field v key = (case v of AMap m \<Rightarrow> map_of m key | _ \<Rightarrow> None)"

definition any_string :: "go_any option \<Rightarrow> string option" where
  \<comment> \<open>\<^verbatim>\<open>text, ok := v.(string)\<close>, of a key that may be missing\<close>
  "any_string v = (case v of Some (AString s) \<Rightarrow> Some s | _ \<Rightarrow> None)"

definition the_default :: "'a \<Rightarrow> 'a option \<Rightarrow> 'a" where
  "the_default d v = (case v of Some x \<Rightarrow> x | None \<Rightarrow> d)"

definition any_objects :: "go_any option \<Rightarrow> go_any list option" where
  \<comment> \<open>decoding into \<^verbatim>\<open>[]map[string]any\<close>: an element \<^verbatim>\<open>null\<close> is the nil map\<close>
  "any_objects v = (case v of
      Some ANil \<Rightarrow> Some []
    | Some (ASlice xs) \<Rightarrow>
        if list_all (\<lambda>x. case x of AMap _ \<Rightarrow> True | ANil \<Rightarrow> True | _ \<Rightarrow> False) xs then Some xs else None
    | _ \<Rightarrow> None)"

end
