(* ===== verification/Retry_Classify.thy ===== *)
theory Retry_Classify
  imports Go_Text
begin

text \<open>
  \<^verbatim>\<open>retry_classify.go\<close>: what a failure text or a status means for the retry chain. The text is
  searched for a JSON error object, the fields of the object and the text itself are
  compared with the shapes the chain was taught; everything else is not retryable.
  \<^verbatim>\<open>unicode.IsDigit\<close> is taken on the ASCII digits, \<^verbatim>\<open>int\<close> is 64 bits wide.
\<close>

section \<open>Verdicts\<close>

datatype retryFailureKind =
    retryKindNone \<comment> \<open>the empty string of a zero value\<close>
  | retryKindCapacity | retryKindOverload | retryKindRateLimit | retryKindStatus | retryKindTransport

record RetryClassification =
  rcl_Retryable :: bool
  rcl_Kind :: retryFailureKind
  rcl_Reason :: string
  rcl_Status :: int

definition zero_RetryClassification :: RetryClassification where
  "zero_RetryClassification =
    \<lparr>rcl_Retryable = False, rcl_Kind = retryKindNone, rcl_Reason = [], rcl_Status = 0\<rparr>"

definition retryableStatuses :: "int set" where
  "retryableStatuses = {429, 500, 502, 503, 504, 529}"

definition retryTransportMarkers :: "string list" where
  "retryTransportMarkers = [''connection reset'', ''connection refused'', ''broken pipe'',
     ''unexpected eof'', ''i/o timeout'', ''deadline exceeded'', ''context deadline'',
     ''no such host'', ''tls handshake'', ''transport failure'', ''stream closed before'',
     ''upstream stream closed'']"

section \<open>Numbers in text\<close>

fun digits_loop :: "int \<Rightarrow> string \<Rightarrow> string" where
  \<comment> \<open>\<^verbatim>\<open>for value > 0\<close>, filling the buffer from its end\<close>
  "digits_loop v acc =
    (if v > 0 then digits_loop (v div 10) (char_of (nat (48 + v mod 10)) # acc) else acc)"

declare digits_loop.simps [simp del]

definition formatInt :: "int \<Rightarrow> string" where
  "formatInt value =
    (if value = 0 then ''0''
     else let negative = value < 0;
              v = (if negative then wrap64 (- value) else value);
              ds = digits_loop v []
          in if negative then CHR ''-'' # ds else ds)"

definition is_digit :: "char \<Rightarrow> bool" where
  "is_digit c \<longleftrightarrow> CHR ''0'' \<le> c \<and> c \<le> CHR ''9''"

fun tokens_loop :: "string \<Rightarrow> string \<Rightarrow> string list" where
  \<comment> \<open>the token being built, then the rest of the text\<close>
  "tokens_loop current [] = (if current = [] then [] else [current])"
| "tokens_loop current (r # text) =
    (if is_digit r then tokens_loop (current @ [r]) text
     else (if current = [] then [] else [current]) @ tokens_loop [] text)"

definition numericTokens :: "string \<Rightarrow> string list" where
  "numericTokens text = tokens_loop [] text"

definition token_status :: "string \<Rightarrow> int" where
  "token_status token =
    fold (\<lambda>digit status. wrap64 (status * 10 + (int (of_char digit) - 48))) token 0"

definition retryableStatusInText :: "string \<Rightarrow> int option" where
  "retryableStatusInText text =
    find (\<lambda>status. status \<in> retryableStatuses) (map token_status (numericTokens text))"

section \<open>Fields of a JSON body\<close>

fun object_end :: "nat \<Rightarrow> bool \<Rightarrow> bool \<Rightarrow> string \<Rightarrow> nat option" where
  \<comment> \<open>the scan of \<open>extractJSONErrorObject\<close>: the number of bytes up to the closing brace\<close>
  "object_end depth inString escaped [] = None"
| "object_end depth inString escaped (ch # s) = map_option Suc
    (if inString then
       if escaped then object_end depth True False s
       else if ch = CHR 0x5C then object_end depth True True s
       else object_end depth (ch \<noteq> CHR 0x22) False s
     else if ch = CHR 0x22 then object_end depth True escaped s
     else if ch = CHR ''{'' then object_end (Suc depth) False escaped s
     else if ch = CHR ''}'' then
       if depth = 1 then Some 0 else object_end (depth - 1) False escaped s
     else object_end depth False escaped s)"

definition extractJSONErrorObject :: "json_lib \<Rightarrow> string \<Rightarrow> string" where
  \<comment> \<open>the empty list is \<^verbatim>\<open>nil\<close>\<close>
  "extractJSONErrorObject J text =
    (let trimmed = TrimSpace text
     in if trimmed = [] then []
        else if HasPrefix trimmed ''{'' \<and> jl_valid J trimmed then trimmed
        else case Index ''{'' trimmed of
            None \<Rightarrow> []
          | Some start \<Rightarrow>
              (case object_end 0 False False (drop start trimmed) of
                 None \<Rightarrow> []
               | Some n \<Rightarrow> let candidate = take n (drop start trimmed)
                           in if jl_valid J candidate then candidate else []))"

fun any_path :: "go_any \<Rightarrow> string list \<Rightarrow> go_any option" where
  "any_path current [] = Some current"
| "any_path current (key # path) =
    (case any_field current key of None \<Rightarrow> None | Some v \<Rightarrow> any_path v path)"

definition jsonStringField :: "json_lib \<Rightarrow> string \<Rightarrow> string list \<Rightarrow> string" where
  "jsonStringField J body path =
    (if body = [] \<or> path = [] then []
     else case jl_any J body of None \<Rightarrow> []
     | Some current \<Rightarrow>
         (case any_path current path of
            Some (AString value) \<Rightarrow> value
          | Some (AFloat value) \<Rightarrow>
              if value = fl (of_int (float_to_int64 value)) then formatInt (float_to_int64 value) else []
          | _ \<Rightarrow> []))"

section \<open>Classification\<close>

definition firstNonEmpty :: "string list \<Rightarrow> string" where
  "firstNonEmpty values =
    (case find (\<lambda>value. TrimSpace value \<noteq> []) values of Some value \<Rightarrow> value | None \<Rightarrow> [])"

definition isModelCapacityText :: "string \<Rightarrow> bool" where
  "isModelCapacityText text \<longleftrightarrow> text \<noteq> []
     \<and> (Contains text ''model is at capacity'' \<or> Contains text ''model_at_capacity''
        \<or> Contains text ''model_is_at_capacity'' \<or> Contains text ''at capacity''
        \<or> (Contains text ''model'' \<and> Contains text ''capacity''))"

definition transportMarkerInText :: "string \<Rightarrow> string option" where
  "transportMarkerInText text = find (Contains text) retryTransportMarkers"

abbreviation retry_as :: "retryFailureKind \<Rightarrow> string \<Rightarrow> int \<Rightarrow> RetryClassification" where
  "retry_as kind reason status \<equiv>
    \<lparr>rcl_Retryable = True, rcl_Kind = kind, rcl_Reason = reason, rcl_Status = status\<rparr>"

abbreviation no_retry :: "string \<Rightarrow> int \<Rightarrow> RetryClassification" where
  "no_retry reason status \<equiv>
    \<lparr>rcl_Retryable = False, rcl_Kind = retryKindNone, rcl_Reason = reason, rcl_Status = status\<rparr>"

definition error_field :: "json_lib \<Rightarrow> string \<Rightarrow> string \<Rightarrow> string" where
  "error_field J body key = ToLower (TrimSpace (firstNonEmpty
     [jsonStringField J body [''error'', key], jsonStringField J body [''response'', ''error'', key]]))"

definition classifyRetryFailure :: "json_lib \<Rightarrow> string \<Rightarrow> RetryClassification" where
  "classifyRetryFailure J text =
    (let trimmed = TrimSpace text
     in if trimmed = [] then no_retry ''empty failure text'' 0
     else let
       body = extractJSONErrorObject J trimmed;
       errorType = error_field J body ''type'';
       errorCode = error_field J body ''code'';
       errorMessage0 = error_field J body ''message'';
       errorMessage = (if errorMessage0 = []
         then ToLower (TrimSpace (jsonStringField J body [''message''])) else errorMessage0);
       topType = ToLower (TrimSpace (jsonStringField J body [''type'']));
       topCode = ToLower (TrimSpace (jsonStringField J body [''code'']));
       lower = ToLower trimmed
     in if isModelCapacityText errorMessage \<or> isModelCapacityText lower
          then retry_as retryKindCapacity ''model at capacity'' 0
        else if errorType = ''service_unavailable_error'' \<or> errorCode = ''server_is_overloaded''
          then retry_as retryKindOverload ''server overloaded'' 0
        else if errorType = ''rate_limit_error'' \<or> errorCode = ''rate_limit_exceeded''
          then retry_as retryKindRateLimit ''rate limited'' 0
        else if (errorType = ''server_error'' \<or> errorCode = ''server_error'')
            \<and> Contains errorMessage ''you can retry your request''
          then retry_as retryKindOverload ''server error with retry hint'' 0
        else if errorType = ''overloaded_error'' \<or> topType = ''overloaded_error''
            \<or> errorCode = ''overloaded_error''
          then retry_as retryKindOverload ''overloaded'' 0
        else if errorCode = ''resource_exhausted'' \<or> topCode = ''resource_exhausted''
          then retry_as retryKindOverload ''resource exhausted'' 0
        else case retryableStatusInText lower of
            Some status \<Rightarrow> retry_as retryKindStatus ''upstream status'' status
          | None \<Rightarrow> (case transportMarkerInText lower of
                Some marker \<Rightarrow> retry_as retryKindTransport marker 0
              | None \<Rightarrow> no_retry ''unrecognized failure'' 0))"

definition classifyRetryStatus :: "int \<Rightarrow> RetryClassification" where
  "classifyRetryStatus status =
    (if status \<in> retryableStatuses
     then retry_as (if status = 429 then retryKindRateLimit
            else if status \<in> {500, 502, 503, 504, 529} then retryKindOverload
            else retryKindStatus)
          (''upstream status '' @ formatInt status) status
     else no_retry (''upstream status '' @ formatInt status) status)"

definition retryErrorMessageText :: "string \<Rightarrow> string" where
  "retryErrorMessageText frame = TrimSpace frame"

end
