(* ===== verification/Retry_Frames.thy ===== *)
theory Retry_Frames
  imports Retry_Classify
begin

text \<open>
  \<^verbatim>\<open>retry_frames.go\<close>: what the frames of a stream mean for the retry decision. A frame that shows
  nothing to the client is a handshake and may be held back, the first other frame decides
  the attempt. A protocol name is the string the code compares it with.
\<close>

section \<open>Dispositions\<close>

datatype frameDisposition = frameHandshake | frameContent | frameTerminal | frameFailure

record frameVerdict =
  fv_Disposition :: frameDisposition
  fv_Failure :: RetryClassification

abbreviation verdict_of :: "frameDisposition \<Rightarrow> frameVerdict" where
  "verdict_of d \<equiv> \<lparr>fv_Disposition = d, fv_Failure = zero_RetryClassification\<rparr>"

abbreviation failure_of :: "RetryClassification \<Rightarrow> frameVerdict" where
  "failure_of c \<equiv> \<lparr>fv_Disposition = frameFailure, fv_Failure = c\<rparr>"

abbreviation (input) "protocolClaude \<equiv> ''claude''"
abbreviation (input) "protocolOpenAI \<equiv> ''openai''"
abbreviation (input) "protocolOpenAIResp \<equiv> ''openai-response''"
abbreviation (input) "protocolCodex \<equiv> ''codex''"
abbreviation (input) newline :: char where "newline \<equiv> CHR 0x0A"
abbreviation (input) frame_end :: string where "frame_end \<equiv> [CHR 0x0A, CHR 0x0A]"

section \<open>Lines of a frame\<close>

definition trim_right_cr :: "string \<Rightarrow> string" where
  "trim_right_cr line = rev (dropWhile (\<lambda>c. c = CHR 0x0D) (rev line))"

definition sse_line :: "string \<Rightarrow> string \<times> string \<times> bool \<Rightarrow> string \<times> string \<times> bool" where
  \<comment> \<open>the body of the loop of \<open>splitSSEFrame\<close>\<close>
  "sse_line line0 st = (case st of (event, data, found) \<Rightarrow>
     let line = trim_right_cr line0
     in if line = [] then (event, data, found)
        else if HasPrefix line ''event:'' then (TrimSpace (drop 6 line), data, found)
        else if HasPrefix line ''data:''
          then (event, (if data = [] then [] else data @ [newline]) @ TrimSpace (drop 5 line), True)
        else (event, data, found))"

definition splitSSEFrame :: "string \<Rightarrow> string \<times> string \<times> bool" where
  "splitSSEFrame frame = fold sse_line (split_on newline frame) ([], [], False)"

definition control_line :: "string \<Rightarrow> bool" where
  "control_line line \<longleftrightarrow> HasPrefix line '':'' \<or> HasPrefix line ''event:'' \<or> HasPrefix line ''id:''
     \<or> HasPrefix line ''retry:'' \<or> HasPrefix line ''comment:''"

definition isSSEControlFrame :: "string \<Rightarrow> bool" where
  "isSSEControlFrame frame =
    (let lines = filter (\<lambda>line. line \<noteq> [])
           (map (\<lambda>line. TrimSpace (trim_right_cr line)) (split_on newline frame))
     in lines \<noteq> [] \<and> list_all control_line lines)"

function frames_tail :: "string \<Rightarrow> nat \<times> string" where
  \<comment> \<open>the terminators of a payload, counted as \<^verbatim>\<open>bytes.Count\<close> does, and what follows the last one\<close>
  "frames_tail s = (case cut_at frame_end s of
     None \<Rightarrow> (0, s)
   | Some (frame, rest) \<Rightarrow> (case frames_tail rest of (n, tail) \<Rightarrow> (Suc n, tail)))"
  by pat_completeness auto
termination
  by (relation "measure length") (auto dest: cut_at_shorter)

declare frames_tail.simps [simp del]

definition countSSEFrames :: "string \<Rightarrow> nat" where
  "countSSEFrames payload =
    (if payload = [] then 0
     else case frames_tail payload of (n, tail) \<Rightarrow>
       if TrimSpace tail = [] then n else n + 1)"

definition looksLikeIncompleteFrame :: "string \<Rightarrow> bool" where
  "looksLikeIncompleteFrame frame =
    (let trimmed = TrimSpace frame
     in trimmed = [] \<or> hd trimmed \<in> {CHR ''{'', CHR ''['', CHR '':''}
        \<or> list_ex (HasPrefix trimmed) [''data:'', ''event:'', ''id:'', ''retry:'', ''comment:''])"

section \<open>Fields\<close>

definition jsonField :: "json_lib \<Rightarrow> string \<Rightarrow> string \<Rightarrow> string" where
  \<comment> \<open>the raw value; the empty list where there is none\<close>
  "jsonField J data field =
    (if data = [] \<or> field = [] then []
     else case jl_object J data of
         Some (Some object) \<Rightarrow> (case gget object field of Some raw \<Rightarrow> raw | None \<Rightarrow> [])
       | _ \<Rightarrow> [])"

definition empty_entry :: "go_any \<Rightarrow> bool" where
  "empty_entry entry =
    (let entryType = the_default [] (any_string (any_field entry ''type''))
     in if entryType \<in> {''output_text'', ''summary_text'', ''text'', ''reasoning_text''}
          then the_default [] (any_string (any_field entry ''text'')) = []
        else if entryType = ''refusal''
          then the_default [] (any_string (any_field entry ''refusal'')) = []
        else False)"

definition isEmptyContentList :: "json_lib \<Rightarrow> string \<Rightarrow> bool" where
  "isEmptyContentList J raw =
    (if raw = [] then True
     else case any_objects (jl_any J raw) of None \<Rightarrow> False | Some entries \<Rightarrow> list_all empty_entry entries)"

definition isBufferableOutputItem :: "json_lib \<Rightarrow> string \<Rightarrow> bool" where
  "isBufferableOutputItem J data =
    (let item = jsonField J data ''item'';
         itemType = TrimSpace (jsonStringField J item [''type''])
     in if item = [] then False
        else if itemType = ''message'' then isEmptyContentList J (jsonField J item ''content'')
        else if itemType = ''reasoning'' then
          if TrimSpace (jsonStringField J item [''encrypted_content'']) \<noteq> [] then False
          else isEmptyContentList J (jsonField J item ''summary'')
             \<and> isEmptyContentList J (jsonField J item ''content'')
        else if itemType = ''function_call'' then TrimSpace (jsonStringField J item [''arguments'']) = []
        else if itemType = ''custom_tool_call'' then TrimSpace (jsonStringField J item [''input'']) = []
        else False)"

definition isBufferablePart :: "json_lib \<Rightarrow> string \<Rightarrow> bool" where
  "isBufferablePart J data =
    (let part = jsonField J data ''part'';
         partType = TrimSpace (jsonStringField J part [''type''])
     in if part = [] then False
        else if partType \<in> {''output_text'', ''summary_text'', ''text'', ''reasoning_text''}
          then TrimSpace (jsonStringField J part [''text'']) = []
        else if partType = ''refusal'' then TrimSpace (jsonStringField J part [''refusal'']) = []
        else False)"

section \<open>Frames by protocol\<close>

definition isResponsesEventBody :: "json_lib \<Rightarrow> string \<Rightarrow> bool" where
  "isResponsesEventBody J data =
    (let eventType = TrimSpace (jsonStringField J data [''type''])
     in eventType \<noteq> [] \<and> (HasPrefix eventType ''response.'' \<or> HasPrefix eventType ''codex.''))"

definition responsesFailure :: "json_lib \<Rightarrow> string \<Rightarrow> RetryClassification option" where
  "responsesFailure J data =
    (if EqualFold (TrimSpace (jsonStringField J data [''type''])) ''response.failed''
       then Some (classifyRetryFailure J data)
     else if jsonField J data ''error'' \<noteq> [] then Some (classifyRetryFailure J data)
     else None)"

definition classifyResponsesFrame :: "json_lib \<Rightarrow> string \<Rightarrow> frameVerdict" where
  "classifyResponsesFrame J data =
    (case responsesFailure J data of
       Some failure \<Rightarrow> failure_of failure
     | None \<Rightarrow>
         let eventType = TrimSpace (jsonStringField J data [''type''])
         in if eventType \<in> {''response.created'', ''response.in_progress'', ''response.queued'',
                ''keepalive'', ''codex.rate_limits''} then verdict_of frameHandshake
            else if eventType = ''response.output_item.added'' then
              if isBufferableOutputItem J data then verdict_of frameHandshake else verdict_of frameContent
            else if eventType \<in> {''response.content_part.added'', ''response.reasoning_summary_part.added''} then
              if isBufferablePart J data then verdict_of frameHandshake else verdict_of frameContent
            else if eventType \<in> {''response.completed'', ''response.incomplete''} then verdict_of frameTerminal
            else verdict_of frameContent)"

definition classifyClaudeFrame :: "json_lib \<Rightarrow> string \<Rightarrow> string \<Rightarrow> frameVerdict" where
  "classifyClaudeFrame J eventName data =
    (let eventType0 = TrimSpace (jsonStringField J data [''type'']);
         eventType = (if eventType0 = [] then eventName else eventType0)
     in if eventType = ''error'' then failure_of (classifyRetryFailure J data)
        else if eventType \<in> {''ping'', ''message_start'', ''content_block_start'',
               ''content_block_stop'', ''message_delta''} then
          if jsonField J data ''error'' \<noteq> [] then failure_of (classifyRetryFailure J data)
          else verdict_of frameHandshake
        else if eventType = ''message_stop'' then verdict_of frameTerminal
        else verdict_of frameContent)"

definition choice_has_content :: "go_any \<Rightarrow> bool" where
  \<comment> \<open>the body of the loop of \<open>hasChatCompletionContent\<close>\<close>
  "choice_has_content choice =
    ((case any_string (any_field choice ''finish_reason'') of
        Some finish \<Rightarrow> TrimSpace finish \<noteq> [] | None \<Rightarrow> False)
     \<or> (case (case any_field choice ''message'' of
                 Some (AMap m) \<Rightarrow> Some (AMap m)
               | _ \<Rightarrow> (case any_field choice ''delta'' of Some (AMap m) \<Rightarrow> Some (AMap m) | _ \<Rightarrow> None)) of
          None \<Rightarrow> False
        | Some message \<Rightarrow>
            the_default [] (any_string (any_field message ''content'')) \<noteq> []
            \<or> (case any_field message ''tool_calls'' of Some (ASlice calls) \<Rightarrow> calls \<noteq> [] | _ \<Rightarrow> False)
            \<or> (case any_field message ''function_call'' of Some (AMap calls) \<Rightarrow> calls \<noteq> [] | _ \<Rightarrow> False)
            \<or> the_default [] (any_string (any_field message ''refusal'')) \<noteq> []))"

definition hasChatCompletionContent :: "json_lib \<Rightarrow> string \<Rightarrow> bool" where
  "hasChatCompletionContent J choices =
    (case any_objects (jl_any J choices) of None \<Rightarrow> True | Some parsed \<Rightarrow> list_ex choice_has_content parsed)"

definition classifyChatCompletionFrame :: "json_lib \<Rightarrow> string \<Rightarrow> frameVerdict" where
  "classifyChatCompletionFrame J data =
    (if jsonField J data ''error'' \<noteq> [] then failure_of (classifyRetryFailure J data)
     else let choices = jsonField J data ''choices''
          in if choices \<noteq> [] then
               if hasChatCompletionContent J choices then verdict_of frameContent
               else verdict_of frameHandshake
             else verdict_of frameContent)"

definition classifyFrame :: "json_lib \<Rightarrow> string \<Rightarrow> string \<Rightarrow> frameVerdict" where
  "classifyFrame J frame protocol =
    (case splitSSEFrame frame of (eventName, data0, found) \<Rightarrow>
     if \<not> found \<and> isSSEControlFrame frame then verdict_of frameHandshake
     else let trimmedData = TrimSpace (if found then data0 else frame)
       in if trimmedData = [] then verdict_of frameHandshake
          else if trimmedData = ''[DONE]'' then verdict_of frameTerminal
          else if \<not> jl_valid J trimmedData then verdict_of frameContent
          else if isResponsesEventBody J trimmedData then classifyResponsesFrame J trimmedData
          else if protocol = protocolClaude then classifyClaudeFrame J eventName trimmedData
          else if protocol = protocolOpenAI then classifyChatCompletionFrame J trimmedData
          else classifyResponsesFrame J trimmedData)"

section \<open>Payloads\<close>

definition classifyFrameFragment :: "json_lib \<Rightarrow> string \<Rightarrow> string \<Rightarrow> frameVerdict" where
  "classifyFrameFragment J frame protocol =
    (let verdict = classifyFrame J frame protocol
     in if fv_Disposition verdict \<noteq> frameContent then verdict
        else if jl_valid J (TrimSpace frame) then verdict
        else if (case splitSSEFrame frame of (_, data, found) \<Rightarrow> found \<and> jl_valid J (TrimSpace data))
          then verdict
        else if \<not> looksLikeIncompleteFrame frame then verdict
        else verdict_of frameHandshake)"

function buffer_loop :: "json_lib \<Rightarrow> string \<Rightarrow> bool \<Rightarrow> bool \<Rightarrow> string \<Rightarrow> frameVerdict" where
  \<comment> \<open>the loop of \<open>classifyStreamBuffer\<close>\<close>
  "buffer_loop J protocol completeOnly sawFrame remaining =
    (case cut_at frame_end remaining of
       None \<Rightarrow>
         if \<not> completeOnly \<and> \<not> sawFrame \<and> TrimSpace remaining \<noteq> []
           then classifyFrameFragment J remaining protocol
         else if \<not> sawFrame then classifyFrameFragment J remaining protocol
         else verdict_of frameHandshake
     | Some (frame, rest) \<Rightarrow>
         let verdict = classifyFrame J frame protocol
         in if fv_Disposition verdict \<noteq> frameHandshake then verdict
            else if TrimSpace rest = [] then verdict_of frameHandshake
            else buffer_loop J protocol completeOnly True rest)"
  by pat_completeness auto
termination
  by (relation "measure (\<lambda>(J, p, c, s, r). length r)") (auto dest: cut_at_shorter)

declare buffer_loop.simps [simp del]

definition classifyStreamBuffer :: "json_lib \<Rightarrow> string \<Rightarrow> string \<Rightarrow> bool \<Rightarrow> frameVerdict" where
  "classifyStreamBuffer J buffer protocol completeOnly =
    (if TrimSpace buffer = [] then verdict_of frameHandshake
     else buffer_loop J protocol completeOnly False buffer)"

definition classifyStreamPayload :: "json_lib \<Rightarrow> string \<Rightarrow> string \<Rightarrow> frameVerdict" where
  "classifyStreamPayload J payload protocol = classifyStreamBuffer J payload protocol False"

end
