(* ===== verification/Retry_Runtime.thy ===== *)
theory Retry_Runtime
  imports Retry_Frames Configuration
begin

text \<open>
  \<^verbatim>\<open>retry_runtime.go\<close>: the retry chain of one streaming request. The chain opens nested
  executions through the host, holds the first frames of each back until a frame decides the
  attempt, forwards a committed attempt to the client and closes the client's stream.

  The host is not part of the repository: \<open>retry_env\<close> gives its answers. The answer to opening
  carries the nested stream as the list of its future read answers, each with the time it
  takes; after the last one the host stays silent. Every call of \<^verbatim>\<open>callHostModel\<close> is an entry of
  \<open>rs_calls\<close> and the clock advances by the duration the host takes (closing takes none). A read
  that times out leaves its goroutine behind (\<^verbatim>\<open>readNestedChunk\<close>): the answer it was waiting
  for is delivered to that goroutine and dropped, so it is consumed here as well. A run that
  waits for a host which never answers ends in \<open>Blocked\<close>, a panic in \<open>Panicked\<close>.

  \<open>ctx\<close> is \<^verbatim>\<open>context.Background()\<close>, whose \<^verbatim>\<open>Err()\<close> is nil, so the tests of it are left out. A log
  entry keeps its level, event and fields without the human-readable message.
\<close>

section \<open>Requests and answers\<close>

record ExecutorRequest =
  ex_Model :: string
  ex_Payload :: string
  ex_OriginalRequest :: string
  ex_SourceFormat :: string
  ex_Format :: string
  ex_Metadata :: "(string, go_any) gmap"
  ex_Headers :: "(string, string list) gmap"
  ex_Query :: "(string, string list) gmap"
  ex_Alt :: string

record rpcExecutorRequest =
  xr_Exec :: ExecutorRequest
  xr_StreamID :: string
  xr_HostCallbackID :: string

record hostModelExecutionRequest =
  hm_EntryProtocol :: string
  hm_ExitProtocol :: string
  hm_Model :: string
  hm_Stream :: bool
  hm_Body :: string
  hm_Headers :: "(string, string list) gmap"
  hm_Query :: "(string, string list) gmap"
  hm_Alt :: string
  hm_ForcedProvider :: string
  hm_HostCallbackID :: string

datatype host_error =
    hostCallError string string int \<comment> \<open>code, message, status\<close>
  | OtherError string

fun error_text :: "host_error \<Rightarrow> string" where
  \<comment> \<open>\<^verbatim>\<open>Error()\<close>\<close>
  "error_text (hostCallError code message _) =
    (if code = [] then message else if message = [] then code else code @ '': '' @ message)"
| "error_text (OtherError text) = text"

record HostModelStreamReadResponse =
  ck_Payload :: string
  ck_Error :: string
  ck_Done :: bool

type_synonym read_answer = "host_error + HostModelStreamReadResponse"
type_synonym nested_stream = "(nat \<times> read_answer) list"

datatype open_answer =
    OpenFailed host_error
  | OpenUndecodable string
  | Opened int string nested_stream \<comment> \<open>status code, stream id, what reads will answer\<close>

record retry_env =
  re_json :: json_lib
  re_open :: "nat \<Rightarrow> hostModelExecutionRequest \<Rightarrow> nat \<times> open_answer"
  re_emit :: "nat \<Rightarrow> string \<Rightarrow> nat \<times> host_error option"
  re_durationString :: "duration \<Rightarrow> string"

datatype host_call =
    CallOpen hostModelExecutionRequest
  | CallEmit string string
  | CallClose string string
  | CallNestedRead string
  | CallNestedClose string

section \<open>Statistics\<close>

record RetryEvent =
  ev_At :: time
  ev_Model :: string
  ev_Attempt :: int
  ev_Target :: string
  ev_Outcome :: string
  ev_Kind :: string
  ev_Reason :: string
  ev_NextTarge :: string

abbreviation (input) "zero_RetryEvent \<equiv> \<lparr>ev_At = 0, ev_Model = [], ev_Attempt = 0, ev_Target = [],
  ev_Outcome = [], ev_Kind = [], ev_Reason = [], ev_NextTarge = []\<rparr>"

record retryStats =
  st_requests :: int
  st_retries :: int
  st_succeeded :: int
  st_failed :: int
  st_shadowHits :: int
  st_events :: "RetryEvent list"

abbreviation (input) retryEventHistory :: nat where "retryEventHistory \<equiv> 40"

record retry_state =
  rs_clock :: time
  rs_calls :: "host_call list"
  rs_stats :: retryStats
  rs_logs :: "(string \<times> string \<times> (string, go_any) gmap) list"

definition stats_record :: "RetryEvent \<Rightarrow> retry_state \<Rightarrow> retry_state" where
  "stats_record event s =
    (let event' = (if IsZero (ev_At event) then event\<lparr>ev_At := rs_clock s\<rparr> else event);
         events = st_events (rs_stats s) @ [event'];
         kept = (if length events > retryEventHistory
                 then drop (length events - retryEventHistory) events else events)
     in s\<lparr>rs_stats := (rs_stats s)\<lparr>st_events := kept\<rparr>\<rparr>)"

definition requestStarted :: "string \<Rightarrow> int \<Rightarrow> retry_state \<Rightarrow> retry_state" where
  "requestStarted model attempts s =
    stats_record (zero_RetryEvent\<lparr>ev_Model := model, ev_Attempt := attempts, ev_Outcome := ''request''\<rparr>)
      (s\<lparr>rs_stats := (rs_stats s)\<lparr>st_requests := st_requests (rs_stats s) + 1\<rparr>\<rparr>)"

definition attemptStarted :: "string \<Rightarrow> int \<Rightarrow> string \<Rightarrow> retry_state \<Rightarrow> retry_state" where
  "attemptStarted model index target s =
    stats_record (zero_RetryEvent\<lparr>ev_Model := model, ev_Attempt := index + 1, ev_Target := target,
      ev_Outcome := ''attempt''\<rparr>) s"

definition retryScheduled :: "string \<Rightarrow> int \<Rightarrow> string \<Rightarrow> string \<Rightarrow> string \<Rightarrow> retry_state \<Rightarrow> retry_state" where
  "retryScheduled model index target kind reason s =
    stats_record (zero_RetryEvent\<lparr>ev_Model := model, ev_Attempt := index + 1, ev_Target := target,
      ev_Outcome := ''retry'', ev_Kind := kind, ev_Reason := reason\<rparr>)
      (s\<lparr>rs_stats := (rs_stats s)\<lparr>st_retries := st_retries (rs_stats s) + 1\<rparr>\<rparr>)"

definition requestFinished :: "string \<Rightarrow> bool \<Rightarrow> string \<Rightarrow> retry_state \<Rightarrow> retry_state" where
  "requestFinished model ok reason s =
    stats_record (zero_RetryEvent\<lparr>ev_Model := model,
      ev_Outcome := (if ok then ''succeeded'' else ''failed''), ev_Reason := reason\<rparr>)
      (s\<lparr>rs_stats := (if ok
          then (rs_stats s)\<lparr>st_succeeded := st_succeeded (rs_stats s) + 1\<rparr>
          else (rs_stats s)\<lparr>st_failed := st_failed (rs_stats s) + 1\<rparr>)\<rparr>)"

definition shadowWouldRetry :: "string \<Rightarrow> string \<Rightarrow> string \<Rightarrow> string \<Rightarrow> retry_state \<Rightarrow> retry_state" where
  "shadowWouldRetry model kind reason nextTarget s =
    stats_record (zero_RetryEvent\<lparr>ev_Model := model, ev_Outcome := ''shadow'', ev_Kind := kind,
      ev_Reason := reason, ev_NextTarge := nextTarget\<rparr>)
      (s\<lparr>rs_stats := (rs_stats s)\<lparr>st_shadowHits := st_shadowHits (rs_stats s) + 1\<rparr>\<rparr>)"

record RetryStatusPayload =
  sp_Mode :: string
  sp_Enabled :: bool
  sp_Chain :: "string list"
  sp_stats :: retryStats

definition retryStatusSnapshot :: "Config \<Rightarrow> retryStats \<Rightarrow> RetryStatusPayload" where
  "retryStatusSnapshot cfg stats =
    \<lparr>sp_Mode =
       (if cfg_RetryEnabled cfg \<and> cfg_RetryChain cfg \<noteq> []
        then if cfg_RetryAlways cfg then ''always''
             else if cfg_RetryShadow cfg then ''shadow'' else ''live''
        else if cfg_RetryEnabled cfg \<and> cfg_RetryAlways cfg then ''always''
        else ''off''),
     sp_Enabled = cfg_RetryEnabled cfg,
     sp_Chain = map (\<lambda>row. join_with [CHR 0x20, CHR 0xE2, CHR 0x86, CHR 0x92, CHR 0x20]
       (TrimSpace (rr_Model row) # map FormatRetryTarget (rr_Fallbacks row))) (cfg_RetryChain cfg),
     sp_stats = stats\<rparr>"

fun kind_text :: "retryFailureKind \<Rightarrow> string" where
  "kind_text retryKindNone = []"
| "kind_text retryKindCapacity = ''capacity''"
| "kind_text retryKindOverload = ''overload''"
| "kind_text retryKindRateLimit = ''rate_limit''"
| "kind_text retryKindStatus = ''http_status''"
| "kind_text retryKindTransport = ''transport''"

definition recordRetryLog :: "string \<Rightarrow> string \<Rightarrow> (string, go_any) gmap \<Rightarrow> retry_state \<Rightarrow> retry_state" where
  "recordRetryLog level event flds s = s\<lparr>rs_logs := rs_logs s @ [(level, event, flds)]\<rparr>"

section \<open>Routing\<close>

definition splitRetryModelSuffix :: "string \<Rightarrow> (string \<times> string) option" where
  "splitRetryModelSuffix model =
    (let trimmed = TrimSpace model
     in case LastIndexByte CHR ''('' trimmed of
          None \<Rightarrow> None
        | Some lastOpen \<Rightarrow>
            if \<not> HasSuffix trimmed '')'' then None
            else let base = TrimSpace (take lastOpen trimmed)
              in if base = [] then None
                 else Some (base, take (length trimmed - lastOpen - 2) (drop (lastOpen + 1) trimmed)))"

definition retryPlanForRequest :: "Config \<Rightarrow> string \<Rightarrow> RetryPlan option" where
  "retryPlanForRequest cfg model =
    (case RetryPlanFor cfg model of Some plan \<Rightarrow> Some plan
     | None \<Rightarrow> (case splitRetryModelSuffix model of None \<Rightarrow> None
                | Some (base, _) \<Rightarrow> RetryPlanFor cfg base))"

datatype ModelRouteResponse = RouteSelf string | RouteNotHandled string

definition routeRetryChain :: "Config \<Rightarrow> bool \<Rightarrow> string \<Rightarrow> ModelRouteResponse" where
  \<comment> \<open>of the decoded request: is it a stream, and the model it asks for\<close>
  "routeRetryChain cfg stream requestedModel =
    (if \<not> RetryActive cfg then RouteNotHandled ''retry chain disabled''
     else if \<not> stream then RouteNotHandled ''retry chain handles streaming requests only''
     else if retryPlanForRequest cfg requestedModel = None then RouteNotHandled ''no retry chain for model''
     else RouteSelf ''retry chain'')"

section \<open>The plugin stream and the nested streams\<close>

definition call_host :: "host_call \<Rightarrow> nat \<Rightarrow> retry_state \<Rightarrow> retry_state" where
  "call_host c d s = s\<lparr>rs_calls := rs_calls s @ [c], rs_clock := Add (rs_clock s) (int d)\<rparr>"

definition emitPluginStream ::
  "retry_env \<Rightarrow> string \<Rightarrow> string \<Rightarrow> retry_state \<Rightarrow> host_error option \<times> retry_state" where
  "emitPluginStream env streamID payload s =
    (if TrimSpace streamID = [] then (Some (OtherError ''plugin stream id is required''), s)
     else if payload = [] then (None, s)
     else case re_emit env (length (rs_calls s)) payload of (d, err) \<Rightarrow>
       (err, call_host (CallEmit streamID payload) d s))"

definition closePluginStream :: "string \<Rightarrow> string \<Rightarrow> retry_state \<Rightarrow> retry_state" where
  "closePluginStream streamID errMsg s =
    (if TrimSpace streamID = [] then s else call_host (CallClose streamID (TrimSpace errMsg)) 0 s)"

definition closeNestedStream :: "string \<Rightarrow> retry_state \<Rightarrow> retry_state" where
  "closeNestedStream streamID s =
    (if TrimSpace streamID = [] then s else call_host (CallNestedClose streamID) 0 s)"

datatype read_outcome =
    ReadAnswer read_answer
  | ReadTimedOut

definition readNestedChunk ::
  "string \<Rightarrow> duration \<Rightarrow> nested_stream \<Rightarrow> retry_state \<Rightarrow> (read_outcome \<times> nested_stream) option \<times> retry_state" where
  \<comment> \<open>\<open>None\<close>: the host never answers a read without a deadline\<close>
  "readNestedChunk streamID timeout stream s =
    (case stream of
       [] \<Rightarrow> if timeout \<le> 0 then (None, call_host (CallNestedRead streamID) 0 s)
             else (Some (ReadTimedOut, []), call_host (CallNestedRead streamID) (nat timeout) s)
     | (d, answer) # rest \<Rightarrow>
         if timeout \<le> 0 \<or> int d < timeout
         then (Some (ReadAnswer answer, rest), call_host (CallNestedRead streamID) d s)
         else (Some (ReadTimedOut, rest), call_host (CallNestedRead streamID) (nat timeout) s))"

section \<open>The request of an attempt\<close>

record retryAttemptState =
  as_index :: int
  as_target :: RetryTarget
  as_requested :: RetryTarget

definition retryAttemptModel :: "ExecutorRequest \<Rightarrow> retryAttemptState \<Rightarrow> string" where
  "retryAttemptModel exec state =
    (if as_index state = 0 then TrimSpace (ex_Model exec)
     else if TrimSpace (rt_Model (as_target state)) \<noteq> [] then TrimSpace (rt_Model (as_target state))
     else TrimSpace (ex_Model exec))"

definition retryItemIsEncryptedReasoning :: "json_lib \<Rightarrow> string \<Rightarrow> bool" where
  \<comment> \<open>a missing field is the empty text, which does not decode\<close>
  "retryItemIsEncryptedReasoning J item =
    (case jl_object J item of
       None \<Rightarrow> False
     | Some object \<Rightarrow>
         let field = (\<lambda>key. the_default [] (case object of None \<Rightarrow> None | Some m \<Rightarrow> gget m key))
         in case jl_string J (field ''type'') of
              None \<Rightarrow> False
            | Some itemType \<Rightarrow>
                EqualFold (TrimSpace itemType) ''reasoning''
                \<and> (case jl_string J (field ''encrypted_content'') of
                     None \<Rightarrow> False | Some encrypted \<Rightarrow> TrimSpace encrypted \<noteq> []))"

definition stripEncryptedReasoning :: "json_lib \<Rightarrow> string \<Rightarrow> string option" where
  "stripEncryptedReasoning J raw =
    (if raw = [] then None
     else case jl_array J raw of None \<Rightarrow> None
     | Some items \<Rightarrow>
         let kept = filter (\<lambda>item. \<not> retryItemIsEncryptedReasoning J item) items
         in if list_ex (retryItemIsEncryptedReasoning J) items
            then Some (jl_marshal_array J kept) else None)"

definition retryAttemptBody ::
  "json_lib \<Rightarrow> Config \<Rightarrow> ExecutorRequest \<Rightarrow> retryAttemptState \<Rightarrow> string option" where
  \<comment> \<open>\<open>None\<close>: the assignment into the nil map of a \<^verbatim>\<open>null\<close> body panics\<close>
  "retryAttemptBody J cfg exec state =
    (let body = (if ex_Payload exec = [] then ex_OriginalRequest exec else ex_Payload exec)
     in if as_index state = 0 \<or> body = [] then Some body
     else let model = retryAttemptModel exec state;
              changed = (model \<noteq> [] \<and> \<not> EqualFold model (TrimSpace (ex_Model exec)))
     in if \<not> changed then Some body
     else case jl_object J body of
         None \<Rightarrow> Some body
       | Some None \<Rightarrow> None
       | Some (Some object) \<Rightarrow>
           let object1 = gput ''model'' (jl_marshal_string J model) object;
               object2 = (if cfg_RetryStripReasoning cfg
                 then case stripEncryptedReasoning J (the_default [] (gget object1 ''input'')) of
                        Some filtered \<Rightarrow> gput ''input'' filtered object1
                      | None \<Rightarrow> object1
                 else object1)
           in Some (jl_marshal_object J object2))"

definition retryRequestedModel :: "ExecutorRequest \<Rightarrow> string" where
  "retryRequestedModel exec =
    (let model = TrimSpace (ex_Model exec)
     in if model \<noteq> [] then model
        else case gget (ex_Metadata exec) ''requested_model'' of
               Some (AString text) \<Rightarrow> TrimSpace text | _ \<Rightarrow> [])"

definition retryProtocol :: "ExecutorRequest \<Rightarrow> string" where
  "retryProtocol exec =
    the_default [] (find (\<lambda>p. p \<noteq> [])
      (map (\<lambda>candidate. ToLower (TrimSpace candidate)) [ex_SourceFormat exec, ex_Format exec]))"

definition retrySingleTargetPlan :: "string \<Rightarrow> RetryPlan" where
  "retrySingleTargetPlan model =
    \<lparr>pl_Key = model, pl_Requested = NormalizeRetryTarget \<lparr>rt_Provider = [], rt_Model = model\<rparr>,
     pl_Fallbacks = [], pl_MaxAttempts = 1\<rparr>"

section \<open>The outcome of an attempt\<close>

record attemptResult =
  ar_committed :: bool
  ar_retryable :: bool
  ar_reason :: string
  ar_kind :: retryFailureKind
  ar_status :: int
  ar_held :: "string list"
  ar_heldFailure :: bool

definition zero_attemptResult :: attemptResult where
  "zero_attemptResult = \<lparr>ar_committed = False, ar_retryable = False, ar_reason = [],
     ar_kind = retryKindNone, ar_status = 0, ar_held = [], ar_heldFailure = False\<rparr>"

abbreviation committed_with :: "string \<Rightarrow> attemptResult" where
  "committed_with reason \<equiv> zero_attemptResult\<lparr>ar_committed := True, ar_reason := reason\<rparr>"

datatype 'a outcome =
    Returned 'a retry_state
  | Blocked retry_state
  | Panicked string retry_state

fun final_state :: "'a outcome \<Rightarrow> retry_state" where
  "final_state (Returned _ s) = s"
| "final_state (Blocked s) = s"
| "final_state (Panicked _ s) = s"

definition classifyAttemptError :: "json_lib \<Rightarrow> host_error \<Rightarrow> RetryClassification" where
  "classifyAttemptError J err =
    (case err of
       hostCallError _ _ status \<Rightarrow>
         if status > 0 then classifyRetryStatus status else classifyRetryFailure J (error_text err)
     | OtherError text \<Rightarrow> classifyRetryFailure J text)"

definition retryFailureText :: "string \<Rightarrow> RetryClassification \<Rightarrow> string" where
  "retryFailureText raw classification =
    (let text0 = TrimSpace raw;
         text = (if text0 = [] then ''upstream failure'' else text0)
     in if rcl_Reason classification = [] then text
        else if Contains (ToLower text) (ToLower (rcl_Reason classification)) then text
        else text @ '' ('' @ rcl_Reason classification @ '')'')"

definition failed_with :: "string \<Rightarrow> RetryClassification \<Rightarrow> string list \<Rightarrow> attemptResult" where
  "failed_with text classified held = zero_attemptResult\<lparr>ar_retryable := rcl_Retryable classified,
     ar_reason := retryFailureText text classified, ar_kind := rcl_Kind classified,
     ar_status := rcl_Status classified, ar_held := held\<rparr>"

section \<open>The frame assembler and the hold buffer\<close>

record retryFrameAssembler =
  fa_protocol :: string
  fa_pending :: string

function absorb_loop :: "json_lib \<Rightarrow> string \<Rightarrow> string \<Rightarrow> frameVerdict option \<times> string" where
  \<comment> \<open>the loop over complete frames; what is left is the new \<open>pending\<close>\<close>
  "absorb_loop J protocol pending =
    (case cut_at frame_end pending of
       None \<Rightarrow> (None, pending)
     | Some (frame, rest) \<Rightarrow>
         let verdict = classifyFrame J frame protocol
         in if fv_Disposition verdict \<noteq> frameHandshake then (Some verdict, rest)
            else absorb_loop J protocol rest)"
  by pat_completeness auto
termination
  by (relation "measure (\<lambda>(J, p, r). length r)") (auto dest: cut_at_shorter)

declare absorb_loop.simps [simp del]

definition absorb ::
  "json_lib \<Rightarrow> string \<Rightarrow> retryFrameAssembler \<Rightarrow> frameVerdict option \<times> retryFrameAssembler" where
  \<comment> \<open>\<open>None\<close> is the handshake verdict that decides nothing\<close>
  "absorb J payload a =
    (if payload = [] then (None, a)
     else case absorb_loop J (fa_protocol a) (fa_pending a @ payload) of
         (Some verdict, rest) \<Rightarrow> (Some verdict, a\<lparr>fa_pending := rest\<rparr>)
       | (None, rest) \<Rightarrow>
           let trimmed = TrimSpace rest
           in if trimmed \<noteq> [] \<and> jl_valid J trimmed then
                let verdict = classifyFrame J trimmed (fa_protocol a)
                in if fv_Disposition verdict \<noteq> frameHandshake then (Some verdict, a\<lparr>fa_pending := rest\<rparr>)
                   else (None, a\<lparr>fa_pending := []\<rparr>)
              else (None, a\<lparr>fa_pending := rest\<rparr>))"

record retryHoldBuffer =
  hb_payloads :: "string list"
  hb_bytes :: int
  hb_frames :: int
  hb_limitFrames :: int
  hb_limitBytes :: int

definition hold_add :: "string \<Rightarrow> retryHoldBuffer \<Rightarrow> retryHoldBuffer" where
  "hold_add payload b = b\<lparr>hb_payloads := hb_payloads b @ [payload],
     hb_bytes := hb_bytes b + int (length payload), hb_frames := hb_frames b + int (countSSEFrames payload)\<rparr>"

definition overBudget :: "retryHoldBuffer \<Rightarrow> bool" where
  "overBudget b \<longleftrightarrow> (hb_limitFrames b > 0 \<and> hb_frames b > hb_limitFrames b)
     \<or> (hb_limitBytes b > 0 \<and> hb_bytes b > hb_limitBytes b)"

section \<open>One attempt\<close>

fun emit_all :: "retry_env \<Rightarrow> string \<Rightarrow> string list \<Rightarrow> retry_state \<Rightarrow> host_error option \<times> retry_state" where
  \<comment> \<open>a loop of \<open>emitPluginStream\<close> that stops at the first error\<close>
  "emit_all env sid [] s = (None, s)"
| "emit_all env sid (payload # payloads) s =
    (case emitPluginStream env sid payload s of
       (Some err, s1) \<Rightarrow> (Some err, s1)
     | (None, s1) \<Rightarrow> emit_all env sid payloads s1)"

fun forward_loop :: "retry_env \<Rightarrow> string \<Rightarrow> string \<Rightarrow> nested_stream \<Rightarrow> retry_state \<Rightarrow> attemptResult outcome" where
  \<comment> \<open>the reads of \<open>forwardCommitted\<close> have no deadline\<close>
  "forward_loop env sid nestedID [] s = Blocked (snd (readNestedChunk nestedID 0 [] s))"
| "forward_loop env sid nestedID ((d, answer) # stream) s =
    (let s1 = snd (readNestedChunk nestedID 0 ((d, answer) # stream) s)
     in case answer of
         Inl err \<Rightarrow> Returned (committed_with (error_text err)) (closeNestedStream nestedID s1)
       | Inr chunk \<Rightarrow>
           if ck_Error chunk \<noteq> [] then Returned (committed_with (ck_Error chunk)) (closeNestedStream nestedID s1)
           else (case (if ck_Payload chunk = [] then (None, s1) else emitPluginStream env sid (ck_Payload chunk) s1) of
               (Some err, s2) \<Rightarrow> Returned (committed_with (error_text err)) (closeNestedStream nestedID s2)
             | (None, s2) \<Rightarrow>
                 if ck_Done chunk then Returned (committed_with []) (closeNestedStream nestedID s2)
                 else forward_loop env sid nestedID stream s2))"

definition forwardCommitted ::
  "retry_env \<Rightarrow> string \<Rightarrow> string \<Rightarrow> retryHoldBuffer \<Rightarrow> nested_stream \<Rightarrow> retry_state \<Rightarrow> attemptResult outcome" where
  "forwardCommitted env sid nestedID hold stream s =
    (case emit_all env sid (hb_payloads hold) s of
       (Some err, s1) \<Rightarrow> Returned (committed_with (error_text err)) (closeNestedStream nestedID s1)
     | (None, s1) \<Rightarrow> forward_loop env sid nestedID stream s1)"

definition chunk_step ::
  "retry_env \<Rightarrow> HostModelStreamReadResponse \<Rightarrow> retryHoldBuffer \<Rightarrow> retryFrameAssembler
   \<Rightarrow> attemptResult option \<times> bool \<times> retryHoldBuffer \<times> retryFrameAssembler" where
  \<comment> \<open>the chunk of one turn of the loop of \<open>runRetryAttempt\<close>: the failure it ends the attempt
    with, whether the attempt is committed, the buffers\<close>
  "chunk_step env chunk hold a =
    (if ck_Error chunk \<noteq> []
     then (Some (failed_with (ck_Error chunk) (classifyRetryFailure (re_json env) (ck_Error chunk)) (hb_payloads hold)),
           False, hold, a)
     else if ck_Payload chunk = [] then (None, ck_Done chunk, hold, a)
     else let hold' = hold_add (ck_Payload chunk) hold
          in case absorb (re_json env) (ck_Payload chunk) a of
               (Some verdict, a') \<Rightarrow>
                 if fv_Disposition verdict = frameFailure
                 then (Some ((failed_with (ck_Payload chunk) (fv_Failure verdict) (hb_payloads hold'))
                         \<lparr>ar_heldFailure := True\<rparr>), False, hold', a')
                 else (None, True, hold', a')
             | (None, a') \<Rightarrow> (None, overBudget hold' \<or> ck_Done chunk, hold', a'))"

definition stalled ::
  "retry_env \<Rightarrow> Config \<Rightarrow> string \<Rightarrow> string \<Rightarrow> nested_stream \<Rightarrow> retryHoldBuffer \<Rightarrow> retry_state \<Rightarrow> attemptResult outcome" where
  \<comment> \<open>the read timed out\<close>
  "stalled env cfg sid nestedID stream hold s =
    (if hb_payloads hold = []
     then Returned (zero_attemptResult\<lparr>ar_retryable := True, ar_kind := retryKindTransport,
            ar_reason := ''no upstream output within the ''
              @ re_durationString env (cfg_RetryStallTimeout cfg) @ '' stall timeout''\<rparr>)
            (closeNestedStream nestedID s)
     else forwardCommitted env sid nestedID hold stream s)"

fun attempt_loop ::
  "retry_env \<Rightarrow> Config \<Rightarrow> string \<Rightarrow> string \<Rightarrow> time \<Rightarrow> nested_stream \<Rightarrow> retryHoldBuffer \<Rightarrow> retryFrameAssembler
   \<Rightarrow> retry_state \<Rightarrow> attemptResult outcome" where
  "attempt_loop env cfg sid nestedID holdDeadline [] hold a s =
    (let wait = min (cfg_RetryStallTimeout cfg) (Sub holdDeadline (rs_clock s))
     in if wait \<le> 0 then forwardCommitted env sid nestedID hold [] s
        else stalled env cfg sid nestedID [] hold (snd (readNestedChunk nestedID wait [] s)))"
| "attempt_loop env cfg sid nestedID holdDeadline (x # stream) hold a s =
    (let wait = min (cfg_RetryStallTimeout cfg) (Sub holdDeadline (rs_clock s))
     in if wait \<le> 0 then forwardCommitted env sid nestedID hold (x # stream) s
     else case readNestedChunk nestedID wait (x # stream) s of
         (Some (ReadAnswer (Inl err), _), s1) \<Rightarrow>
           Returned (failed_with (error_text err) (classifyAttemptError (re_json env) err) (hb_payloads hold))
             (closeNestedStream nestedID s1)
       | (Some (ReadAnswer (Inr chunk), _), s1) \<Rightarrow>
           (case chunk_step env chunk hold a of
              (Some result, _, hold', a') \<Rightarrow> Returned result (closeNestedStream nestedID s1)
            | (None, commit, hold', a') \<Rightarrow>
                if commit then forwardCommitted env sid nestedID hold' stream s1
                else attempt_loop env cfg sid nestedID holdDeadline stream hold' a' s1)
       | (_, s1) \<Rightarrow> stalled env cfg sid nestedID stream hold s1)"

datatype opened = NotReady attemptResult | Ready string nested_stream

definition openNestedStream ::
  "retry_env \<Rightarrow> Config \<Rightarrow> ExecutorRequest \<Rightarrow> string \<Rightarrow> retryAttemptState \<Rightarrow> string \<Rightarrow> retry_state \<Rightarrow> opened outcome" where
  "openNestedStream env cfg exec hostCallbackID state protocol s =
    (case retryAttemptBody (re_json env) cfg exec state of
       None \<Rightarrow> Panicked ''assignment to entry in nil map'' s
     | Some body \<Rightarrow>
         let request = \<lparr>hm_EntryProtocol = protocol, hm_ExitProtocol = protocol,
               hm_Model = retryAttemptModel exec state, hm_Stream = True, hm_Body = body,
               hm_Headers = ex_Headers exec, hm_Query = ex_Query exec, hm_Alt = ex_Alt exec,
               hm_ForcedProvider = rt_Provider (as_target state), hm_HostCallbackID = hostCallbackID\<rparr>
         in case re_open env (length (rs_calls s)) request of (d, answer) \<Rightarrow>
           Returned (case answer of
               OpenFailed err \<Rightarrow>
                 NotReady (failed_with (error_text err) (classifyAttemptError (re_json env) err) [])
             | OpenUndecodable err \<Rightarrow>
                 NotReady (zero_attemptResult\<lparr>ar_kind := retryKindTransport,
                   ar_reason := ''decode host model stream response: '' @ err\<rparr>)
             | Opened statusCode streamID stream \<Rightarrow>
                 if statusCode \<ge> 400
                 then NotReady (zero_attemptResult
                   \<lparr>ar_retryable := rcl_Retryable (classifyRetryStatus statusCode),
                    ar_reason := ''upstream status '' @ nat_digits (nat statusCode),
                    ar_kind := rcl_Kind (classifyRetryStatus statusCode), ar_status := statusCode\<rparr>)
                 else if TrimSpace streamID = []
                 then NotReady (zero_attemptResult\<lparr>ar_retryable := True, ar_kind := retryKindTransport,
                   ar_reason := ''host model stream bridge returned an empty stream id''\<rparr>)
                 else Ready (TrimSpace streamID) stream)
           (call_host (CallOpen request) d s))"

definition runRetryAttempt ::
  "retry_env \<Rightarrow> Config \<Rightarrow> ExecutorRequest \<Rightarrow> string \<Rightarrow> retryAttemptState \<Rightarrow> string \<Rightarrow> string \<Rightarrow> time \<Rightarrow> retry_state
   \<Rightarrow> attemptResult outcome" where
  "runRetryAttempt env cfg exec hostCallbackID state protocol sid deadline s =
    (case openNestedStream env cfg exec hostCallbackID state protocol s of
       Returned (NotReady result) s1 \<Rightarrow> Returned result s1
     | Returned (Ready nestedID stream) s1 \<Rightarrow>
         attempt_loop env cfg sid nestedID
           (min deadline (Add (rs_clock s1) (cfg_RetryHoldTimeout cfg))) stream
           \<lparr>hb_payloads = [], hb_bytes = 0, hb_frames = 0, hb_limitFrames = cfg_RetryMaxFrames cfg,
            hb_limitBytes = cfg_RetryMaxBytes cfg\<rparr>
           \<lparr>fa_protocol = protocol, fa_pending = []\<rparr> s1
     | Blocked s1 \<Rightarrow> Blocked s1
     | Panicked message s1 \<Rightarrow> Panicked message s1)"

section \<open>The shadow run\<close>

fun shadow_loop ::
  "retry_env \<Rightarrow> Config \<Rightarrow> string \<Rightarrow> string \<Rightarrow> nested_stream \<Rightarrow> retryFrameAssembler \<Rightarrow> RetryClassification
   \<Rightarrow> retry_state \<Rightarrow> (attemptResult \<times> RetryClassification) outcome" where
  \<comment> \<open>a stall timeout that is not positive waits for ever\<close>
  "shadow_loop env cfg sid nestedID [] a sniff s =
    (case readNestedChunk nestedID (cfg_RetryStallTimeout cfg) [] s of
       (None, s1) \<Rightarrow> Blocked s1
     | (Some _, s1) \<Rightarrow>
         Returned (committed_with (''upstream stalled for '' @ re_durationString env (cfg_RetryStallTimeout cfg)), sniff)
           (closeNestedStream nestedID s1))"
| "shadow_loop env cfg sid nestedID (x # stream) a sniff s =
    (case readNestedChunk nestedID (cfg_RetryStallTimeout cfg) (x # stream) s of
       (Some (ReadAnswer (Inl err), _), s1) \<Rightarrow>
         Returned (committed_with (error_text err), sniff) (closeNestedStream nestedID s1)
     | (Some (ReadAnswer (Inr chunk), _), s1) \<Rightarrow>
         if ck_Error chunk \<noteq> [] then Returned (committed_with (ck_Error chunk), sniff) (closeNestedStream nestedID s1)
         else
           (case (if ck_Payload chunk = [] then (None, a) else absorb (re_json env) (ck_Payload chunk) a) of
              (verdict, a') \<Rightarrow>
            (case (case verdict of
                Some v \<Rightarrow> if fv_Disposition v = frameFailure \<and> \<not> rcl_Retryable sniff then fv_Failure v else sniff
              | None \<Rightarrow> sniff) of sniff' \<Rightarrow>
            (case (if ck_Payload chunk = [] then (None, s1) else emitPluginStream env sid (ck_Payload chunk) s1) of
                (Some err, s2) \<Rightarrow> Returned (committed_with (error_text err), sniff') (closeNestedStream nestedID s2)
              | (None, s2) \<Rightarrow>
                  if ck_Done chunk then Returned (committed_with [], sniff') (closeNestedStream nestedID s2)
                  else shadow_loop env cfg sid nestedID stream a' sniff' s2)))
     | (_, s1) \<Rightarrow>
         Returned (committed_with (''upstream stalled for '' @ re_durationString env (cfg_RetryStallTimeout cfg)), sniff)
           (closeNestedStream nestedID s1))"

definition runRetryShadowAttempt ::
  "retry_env \<Rightarrow> Config \<Rightarrow> ExecutorRequest \<Rightarrow> string \<Rightarrow> retryAttemptState \<Rightarrow> string \<Rightarrow> string \<Rightarrow> retry_state
   \<Rightarrow> (attemptResult \<times> RetryClassification) outcome" where
  "runRetryShadowAttempt env cfg exec hostCallbackID state protocol sid s =
    (case openNestedStream env cfg exec hostCallbackID state protocol s of
       Returned (NotReady result) s1 \<Rightarrow> Returned (result, zero_RetryClassification) s1
     | Returned (Ready nestedID stream) s1 \<Rightarrow>
         shadow_loop env cfg sid nestedID stream \<lparr>fa_protocol = protocol, fa_pending = []\<rparr>
           zero_RetryClassification s1
     | Blocked s1 \<Rightarrow> Blocked s1
     | Panicked message s1 \<Rightarrow> Panicked message s1)"

definition runRetryShadow ::
  "retry_env \<Rightarrow> Config \<Rightarrow> rpcExecutorRequest \<Rightarrow> string \<Rightarrow> RetryPlan \<Rightarrow> string \<Rightarrow> retry_state \<Rightarrow> unit outcome" where
  "runRetryShadow env cfg req sid plan protocol s =
    (case runRetryShadowAttempt env cfg (xr_Exec req) (xr_HostCallbackID req)
        \<lparr>as_index = 0, as_target = pl_Requested plan, as_requested = pl_Requested plan\<rparr> protocol sid s of
       Returned (result, sniff) s1 \<Rightarrow>
         if ar_reason result \<noteq> [] then Returned () (closePluginStream sid (ar_reason result) s1)
         else if \<not> rcl_Retryable sniff then Returned () (closePluginStream sid [] s1)
         else
           (let nextLabel = (case Target plan 1 of Some target \<Rightarrow> FormatRetryTarget target | None \<Rightarrow> []);
                s2 = shadowWouldRetry (pl_Key plan) (kind_text (rcl_Kind sniff)) (rcl_Reason sniff) nextLabel s1;
                s3 = recordRetryLog ''info'' ''retry.shadow_would_retry''
                  [(''requested_model'', AString (pl_Key plan)), (''kind'', AString (kind_text (rcl_Kind sniff))),
                   (''reason'', AString (rcl_Reason sniff)), (''next_target'', AString nextLabel)] s2
            in Returned () (closePluginStream sid [] s3))
     | Blocked s1 \<Rightarrow> Blocked s1
     | Panicked message s1 \<Rightarrow> Panicked message s1)"

section \<open>The chain\<close>

definition finishFailedAttempt ::
  "retry_env \<Rightarrow> string \<Rightarrow> attemptResult \<Rightarrow> retry_state \<Rightarrow> retry_state" where
  "finishFailedAttempt env sid result s =
    (case emit_all env sid (ar_held result) s of
       (Some err, s1) \<Rightarrow> closePluginStream sid (error_text err) s1
     | (None, s1) \<Rightarrow>
         if ar_held result \<noteq> [] \<and> ar_heldFailure result then closePluginStream sid [] s1
         else closePluginStream sid (ar_reason result) s1)"

definition chain_exhausted ::
  "retry_env \<Rightarrow> string \<Rightarrow> string \<Rightarrow> int \<Rightarrow> string \<Rightarrow> attemptResult \<Rightarrow> retry_state \<Rightarrow> retry_state" where
  \<comment> \<open>after the loop of \<open>runRetryChain\<close>\<close>
  "chain_exhausted env sid requested attempts lastReason lastAttempt s =
    (let reason = (if lastReason = [] then ''retry chain exhausted without an upstream response'' else lastReason);
         s1 = requestFinished requested False reason s;
         s2 = recordRetryLog ''warn'' ''retry.exhausted''
           [(''requested_model'', AString requested), (''attempts'', AInt attempts),
            (''kind'', AString (kind_text (ar_kind lastAttempt))), (''reason'', AString reason)] s1
     in finishFailedAttempt env sid lastAttempt s2)"

definition attempt_opened :: "string \<Rightarrow> int \<Rightarrow> int \<Rightarrow> RetryTarget \<Rightarrow> retry_state \<Rightarrow> retry_state" where
  "attempt_opened requested index attempts target s =
    recordRetryLog ''info'' ''retry.attempt_started''
      [(''requested_model'', AString requested), (''attempt'', AInt (index + 1)),
       (''attempt_count'', AInt attempts), (''target'', AString (FormatRetryTarget target))]
      (attemptStarted requested index (FormatRetryTarget target) s)"

definition attempt_failed ::
  "string \<Rightarrow> int \<Rightarrow> RetryPlan \<Rightarrow> RetryTarget \<Rightarrow> attemptResult \<Rightarrow> retry_state \<Rightarrow> retry_state" where
  \<comment> \<open>the case \<^verbatim>\<open>result.retryable\<close>\<close>
  "attempt_failed requested index plan target result s =
    recordRetryLog ''warn'' ''retry.retry_scheduled''
      [(''requested_model'', AString requested), (''attempt'', AInt (index + 1)),
       (''target'', AString (FormatRetryTarget target)), (''kind'', AString (kind_text (ar_kind result))),
       (''reason'', AString (ar_reason result)),
       (''remaining'', AInt (int (length (Remaining plan index))))]
      (retryScheduled requested index (FormatRetryTarget target) (kind_text (ar_kind result)) (ar_reason result) s)"

definition chain_finished ::
  "retry_env \<Rightarrow> string \<Rightarrow> string \<Rightarrow> int \<Rightarrow> RetryTarget \<Rightarrow> attemptResult \<Rightarrow> retry_state \<Rightarrow> retry_state" where
  \<comment> \<open>the cases \<^verbatim>\<open>result.committed\<close> and \<^verbatim>\<open>default\<close>\<close>
  "chain_finished env sid requested index target result s =
    (if ar_committed result then
       if ar_reason result \<noteq> []
       then requestFinished requested False (ar_reason result) (closePluginStream sid (ar_reason result) s)
       else closePluginStream sid [] (requestFinished requested True [] s)
     else recordRetryLog ''warn'' ''retry.aborted''
       [(''requested_model'', AString requested), (''attempt'', AInt (index + 1)),
        (''target'', AString (FormatRetryTarget target)), (''reason'', AString (ar_reason result))]
       (finishFailedAttempt env sid result (requestFinished requested False (ar_reason result) s)))"

function chain_loop ::
  "retry_env \<Rightarrow> Config \<Rightarrow> rpcExecutorRequest \<Rightarrow> string \<Rightarrow> RetryPlan \<Rightarrow> string \<Rightarrow> string \<Rightarrow> time \<Rightarrow> int \<Rightarrow> string
   \<Rightarrow> attemptResult \<Rightarrow> retry_state \<Rightarrow> unit outcome" where
  \<comment> \<open>the loop of \<open>runRetryChain\<close>, carrying \<^verbatim>\<open>lastReason\<close> and \<^verbatim>\<open>lastAttempt\<close>\<close>
  "chain_loop env cfg req sid plan protocol requested deadline index lastReason lastAttempt s =
    (if index \<ge> TargetCount plan
     then Returned () (chain_exhausted env sid requested (TargetCount plan) lastReason lastAttempt s)
     else case Target plan index of
         None \<Rightarrow> Returned () (chain_exhausted env sid requested (TargetCount plan) lastReason lastAttempt s)
       | Some target \<Rightarrow>
     if Sub deadline (rs_clock s) \<le> 0
     then Returned () (chain_exhausted env sid requested (TargetCount plan)
            ''retry chain deadline exceeded before the next attempt'' lastAttempt s)
     else case runRetryAttempt env cfg (xr_Exec req) (xr_HostCallbackID req)
          \<lparr>as_index = index, as_target = target, as_requested = pl_Requested plan\<rparr> protocol sid deadline
          (attempt_opened requested index (TargetCount plan) target s) of
         Blocked s2 \<Rightarrow> Blocked s2
       | Panicked message s2 \<Rightarrow> Panicked message s2
       | Returned result s2 \<Rightarrow>
           if \<not> ar_committed result \<and> ar_retryable result
           then chain_loop env cfg req sid plan protocol requested deadline (index + 1) (ar_reason result) result
                  (attempt_failed requested index plan target result s2)
           else Returned () (chain_finished env sid requested index target result s2))"
  by pat_completeness auto
termination
  by (relation "measure (\<lambda>(_, _, _, _, plan, _, _, _, index, _). nat (TargetCount plan - index))") auto

declare chain_loop.simps [simp del]

definition runRetryChain ::
  "retry_env \<Rightarrow> Config \<Rightarrow> rpcExecutorRequest \<Rightarrow> string \<Rightarrow> retry_state \<Rightarrow> unit outcome" where
  "runRetryChain env cfg req sid s =
    (let requested = retryRequestedModel (xr_Exec req);
         plan = (case RetryPlanFor cfg requested of Some plan \<Rightarrow> plan | None \<Rightarrow> retrySingleTargetPlan requested);
         protocol = retryProtocol (xr_Exec req)
     in if protocol = []
        then Returned () (closePluginStream sid ''retry chain: request has no source protocol'' s)
        else if cfg_RetryShadow cfg then runRetryShadow env cfg req sid plan protocol s
        else chain_loop env cfg req sid plan protocol requested
          (Add (rs_clock s) (cfg_RetryChainDeadline cfg)) 0 [] zero_attemptResult
          (requestStarted requested (TargetCount plan) s))"

definition executeRetryChainStream ::
  "retry_env \<Rightarrow> Config \<Rightarrow> rpcExecutorRequest \<Rightarrow> retry_state \<Rightarrow> (string + unit) outcome" where
  \<comment> \<open>the goroutine with its \<^verbatim>\<open>recover\<close>; \<open>Inl\<close> is the error envelope\<close>
  "executeRetryChainStream env cfg req s =
    (let streamID = TrimSpace (xr_StreamID req)
     in if streamID = [] then Returned (Inl ''stream_id is required for executor.execute_stream'') s
        else case runRetryChain env cfg req streamID s of
            Returned _ s1 \<Rightarrow> Returned (Inr ()) s1
          | Blocked s1 \<Rightarrow> Blocked s1
          | Panicked message s1 \<Rightarrow>
              Returned (Inr ()) (closePluginStream streamID (''retry chain panic: '' @ message) s1))"

end
