(* ===== verification/Retry_Props.thy ===== *)
theory Retry_Props
  imports Retry_Runtime
begin

text \<open>
  Properties of the retry chain. The calls to the host are the observable behaviour:
  \<open>adds P s s'\<close> says that a run appends calls to the log of \<open>s\<close>, each of which satisfies \<open>P\<close>.
\<close>

section \<open>Calls to the host\<close>

fun is_open :: "host_call \<Rightarrow> bool" where
  "is_open (CallOpen _) = True"
| "is_open _ = False"

fun is_emit :: "host_call \<Rightarrow> bool" where
  "is_emit (CallEmit _ _) = True"
| "is_emit _ = False"

fun is_close :: "host_call \<Rightarrow> bool" where
  "is_close (CallClose _ _) = True"
| "is_close _ = False"

definition nested_call :: "host_call \<Rightarrow> bool" where
  \<comment> \<open>what an attempt does after its stream was opened\<close>
  "nested_call c \<longleftrightarrow> \<not> is_open c \<and> \<not> is_close c"

definition silent_call :: "host_call \<Rightarrow> bool" where
  \<comment> \<open>a call the client sees nothing of\<close>
  "silent_call c \<longleftrightarrow> nested_call c \<and> \<not> is_emit c"

lemmas call_kinds = nested_call_def silent_call_def

definition adds :: "(host_call \<Rightarrow> bool) \<Rightarrow> retry_state \<Rightarrow> retry_state \<Rightarrow> bool" where
  "adds P s s' \<longleftrightarrow> (\<exists>xs. rs_calls s' = rs_calls s @ xs \<and> list_all P xs)"

lemma adds_refl [simp, intro]: "adds P s s"
  by (simp add: adds_def)

lemma adds_same: "rs_calls s' = rs_calls s \<Longrightarrow> adds P s s'"
  by (simp add: adds_def)

lemma adds_trans: "adds P s s' \<Longrightarrow> adds P s' s'' \<Longrightarrow> adds P s s''"
  by (force simp: adds_def)

lemma adds_mono: "adds P s s' \<Longrightarrow> (\<And>c. P c \<Longrightarrow> Q c) \<Longrightarrow> adds Q s s'"
  by (auto simp: adds_def list_all_iff)

lemma adds_call: "P c \<Longrightarrow> adds P s (call_host c d s)"
  by (simp add: adds_def call_host_def)

lemma rs_calls_book [simp]:
  "rs_calls (stats_record e s) = rs_calls s"
  "rs_calls (requestStarted m n s) = rs_calls s"
  "rs_calls (attemptStarted m i t s) = rs_calls s"
  "rs_calls (retryScheduled m i t k r s) = rs_calls s"
  "rs_calls (requestFinished m ok r s) = rs_calls s"
  "rs_calls (shadowWouldRetry m k r t s) = rs_calls s"
  "rs_calls (recordRetryLog l m f s) = rs_calls s"
  by (simp_all add: stats_record_def requestStarted_def attemptStarted_def retryScheduled_def
      requestFinished_def shadowWouldRetry_def recordRetryLog_def Let_def)

lemma adds_emit:
  "emitPluginStream env sid payload s = (err, s') \<Longrightarrow> adds nested_call s s'"
  by (auto simp: emitPluginStream_def nested_call_def intro!: adds_call split: if_splits prod.splits)

lemma adds_emit_all:
  "emit_all env sid payloads s = (err, s') \<Longrightarrow> adds nested_call s s'"
  by (induction payloads arbitrary: s)
    (auto split: prod.splits option.splits dest: adds_emit intro: adds_trans)

lemma adds_closeNested: "adds silent_call s (closeNestedStream n s)"
  by (auto simp: closeNestedStream_def call_kinds intro: adds_call)

lemma adds_read: "readNestedChunk n t stream s = (r, s') \<Longrightarrow> adds silent_call s s'"
  by (auto simp: readNestedChunk_def call_kinds intro!: adds_call split: list.splits if_splits prod.splits)

lemma adds_read_snd: "adds silent_call s (snd (readNestedChunk n t stream s))"
  using adds_read by (metis prod.collapse)

lemma read_cases:
  obtains (answer) chunk rest where "r = Some (ReadAnswer (Inr chunk), rest)"
    | (failed) err rest where "r = Some (ReadAnswer (Inl err), rest)"
    | (silent) "r = None \<or> (\<exists>rest. r = Some (ReadTimedOut, rest))"
  by (metis option.exhaust read_outcome.exhaust sum.exhaust surj_pair)

lemma silent_nested: "adds silent_call s s' \<Longrightarrow> adds nested_call s s'"
  by (erule adds_mono) (simp add: silent_call_def)

section \<open>One attempt\<close>

lemma adds_forward_loop: "adds nested_call s (final_state (forward_loop env sid n stream s))"
proof (induction stream arbitrary: s)
  case Nil
  show ?case using adds_read_snd silent_nested by simp
next
  case (Cons x stream)
  obtain d answer where x: "x = (d, answer)" by force
  let ?s1 = "snd (readNestedChunk n 0 ((d, answer) # stream) s)"
  have s1: "adds nested_call s ?s1" by (rule silent_nested [OF adds_read_snd])
  have cl: "adds nested_call s (closeNestedStream n t)" if "adds nested_call s t" for t
    using that adds_closeNested silent_nested adds_trans by blast
  show ?case
  proof (cases answer)
    case (Inl err)
    then show ?thesis using cl [OF s1] by (simp add: x Let_def)
  next
    case (Inr chunk)
    obtain err s2 where e: "(if ck_Payload chunk = [] then (None, ?s1)
        else emitPluginStream env sid (ck_Payload chunk) ?s1) = (err, s2)" by force
    then have "adds nested_call ?s1 s2" by (auto dest: adds_emit split: if_splits)
    with s1 have s2: "adds nested_call s s2" by (rule adds_trans)
    show ?thesis
      using Inr e cl [OF s1] cl [OF s2] adds_trans [OF s2 Cons.IH]
      by (cases "ck_Payload chunk = []") (simp_all add: x Let_def split: option.split)
  qed
qed

lemma adds_forwardCommitted: "adds nested_call s (final_state (forwardCommitted env sid n hold stream s))"
proof -
  obtain err s1 where e: "emit_all env sid (hb_payloads hold) s = (err, s1)" by force
  have s1: "adds nested_call s s1" by (rule adds_emit_all [OF e])
  show ?thesis
    using e adds_trans [OF s1 adds_forward_loop] adds_trans [OF s1 silent_nested [OF adds_closeNested]]
    by (simp add: forwardCommitted_def split: option.split)
qed

lemma forward_loop_committed:
  "forward_loop env sid n stream s = Returned result s' \<Longrightarrow> ar_committed result"
proof (induction stream arbitrary: s)
  case (Cons x stream)
  then show ?case
    by (cases x) (auto simp: Let_def split: sum.splits if_splits prod.splits option.splits)
qed simp

lemma forwardCommitted_committed:
  "forwardCommitted env sid n hold stream s = Returned result s' \<Longrightarrow> ar_committed result"
  by (auto simp: forwardCommitted_def dest: forward_loop_committed split: prod.splits option.splits)

lemma final_state_Returned: "out = Returned r s \<Longrightarrow> final_state out = s"
  by simp

definition attempt_ok :: "retry_state \<Rightarrow> attemptResult outcome \<Rightarrow> bool" where
  \<comment> \<open>an attempt only reads, emits and closes its own stream, and one that is not committed
    has emitted nothing\<close>
  "attempt_ok s out \<longleftrightarrow> adds nested_call s (final_state out)
     \<and> (case out of Returned result s' \<Rightarrow> ar_committed result \<or> adds silent_call s s'
        | Blocked _ \<Rightarrow> True | Panicked _ _ \<Rightarrow> False)"

lemma attempt_ok_after: "adds silent_call s s1 \<Longrightarrow> attempt_ok s1 out \<Longrightarrow> attempt_ok s out"
  unfolding attempt_ok_def
  by (cases out) (auto intro: adds_trans silent_nested)

lemma forward_loop_no_panic: "forward_loop env sid n stream s \<noteq> Panicked m s'"
proof (induction stream arbitrary: s)
  case (Cons x stream)
  then show ?case by (cases x) (auto simp: Let_def split: sum.split prod.splits option.split)
qed simp

lemma attempt_ok_forward: "attempt_ok s (forwardCommitted env sid n hold stream s)"
  using adds_forwardCommitted [of s env sid n hold stream] forwardCommitted_committed [of env sid n hold stream s]
  by (auto simp: attempt_ok_def forwardCommitted_def forward_loop_no_panic split: outcome.splits prod.splits option.splits)

lemma attempt_ok_closed: "attempt_ok s (Returned result (closeNestedStream n s))"
  using adds_closeNested silent_nested by (simp add: attempt_ok_def)

lemma attempt_ok_stalled: "attempt_ok s (stalled env cfg sid n stream hold s)"
  by (simp add: stalled_def attempt_ok_closed attempt_ok_forward)

lemma attempt_ok_loop: "attempt_ok s (attempt_loop env cfg sid n dl stream hold a s)"
proof (induction stream arbitrary: hold a s)
  case Nil
  show ?case
    using attempt_ok_after [OF adds_read_snd attempt_ok_stalled] attempt_ok_forward by (simp add: Let_def)
next
  case (Cons x stream)
  let ?wait = "min (cfg_RetryStallTimeout cfg) (Sub dl (rs_clock s))"
  obtain r s1 where r: "readNestedChunk n ?wait (x # stream) s = (r, s1)" by force
  note after = attempt_ok_after [OF adds_read [OF r]]
  show ?case
  proof (cases r rule: read_cases)
    case (answer chunk rest)
    obtain res commit hold' a' where "chunk_step env chunk hold a = (res, commit, hold', a')"
      by (metis prod_cases4)
    then show ?thesis
      using answer r after [OF attempt_ok_closed] after [OF attempt_ok_forward] after [OF Cons.IH] attempt_ok_forward
      by (simp add: Let_def split: option.split)
  next
    case failed
    then show ?thesis using r after [OF attempt_ok_closed] attempt_ok_forward by (simp add: Let_def)
  next
    case silent
    then show ?thesis using r after [OF attempt_ok_stalled] attempt_ok_forward by (auto simp: Let_def)
  qed
qed

lemma openNestedStream_calls:
  "openNestedStream env cfg exec cb state protocol s = Returned r s' \<Longrightarrow>
   \<exists>request. rs_calls s' = rs_calls s @ [CallOpen request] \<and> hm_Model request = retryAttemptModel exec state
     \<and> hm_ForcedProvider request = rt_Provider (as_target state)"
  "openNestedStream env cfg exec cb state protocol s \<noteq> Blocked s'"
  "openNestedStream env cfg exec cb state protocol s = Panicked m s' \<Longrightarrow> s' = s"
  by (auto simp: openNestedStream_def call_host_def Let_def split: option.splits prod.splits)

definition opens_with :: "ExecutorRequest \<Rightarrow> retryAttemptState \<Rightarrow> hostModelExecutionRequest \<Rightarrow> bool" where
  "opens_with exec state request \<longleftrightarrow> hm_Model request = retryAttemptModel exec state
     \<and> hm_ForcedProvider request = rt_Provider (as_target state)"

lemma runRetryAttempt_calls:
  assumes "runRetryAttempt env cfg exec cb state protocol sid deadline s = out"
  obtains (panic) m where "out = Panicked m s"
  | (opened) request xs where "rs_calls (final_state out) = rs_calls s @ CallOpen request # xs"
      "opens_with exec state request" "list_all nested_call xs"
      "case out of Returned result _ \<Rightarrow> ar_committed result \<or> list_all silent_call xs
       | Blocked _ \<Rightarrow> True | Panicked _ _ \<Rightarrow> False"
proof (cases "openNestedStream env cfg exec cb state protocol s")
  case (Returned r s1)
  from openNestedStream_calls(1) [OF this] obtain request where
    s1: "rs_calls s1 = rs_calls s @ [CallOpen request]" and req: "opens_with exec state request"
    by (auto simp: opens_with_def)
  have "attempt_ok s1 out"
  proof (cases r)
    case (NotReady result)
    with Returned assms show ?thesis by (auto simp: runRetryAttempt_def attempt_ok_def)
  next
    case (Ready n stream)
    with Returned assms show ?thesis by (auto simp: runRetryAttempt_def attempt_ok_loop)
  qed
  then obtain xs where "rs_calls (final_state out) = rs_calls s1 @ xs" "list_all nested_call xs"
      "case out of Returned result _ \<Rightarrow> ar_committed result \<or> list_all silent_call xs
       | Blocked _ \<Rightarrow> True | Panicked _ _ \<Rightarrow> False"
    by (cases out) (auto simp: attempt_ok_def adds_def)
  with s1 req opened show ?thesis by simp
next
  case (Blocked s1)
  then show ?thesis using openNestedStream_calls(2) by metis
next
  case (Panicked m s1)
  then show ?thesis
    using assms openNestedStream_calls(3) [OF Panicked] panic by (auto simp: runRetryAttempt_def)
qed

section \<open>The whole request\<close>

definition sealed :: "host_call list \<Rightarrow> bool" where
  \<comment> \<open>nothing is opened after the first output\<close>
  "sealed xs \<longleftrightarrow> list_all (\<lambda>c. \<not> is_open c) (dropWhile (\<lambda>c. \<not> is_emit c) xs)"

definition closed_once :: "host_call list \<Rightarrow> bool" where
  \<comment> \<open>the client's stream is closed once, by the last call\<close>
  "closed_once xs \<longleftrightarrow> xs \<noteq> [] \<and> is_close (last xs) \<and> list_all (\<lambda>c. \<not> is_close c) (butlast xs)"

definition run_ok :: "retry_state \<Rightarrow> 'a outcome \<Rightarrow> bool" where
  "run_ok s out \<longleftrightarrow> (\<exists>xs. rs_calls (final_state out) = rs_calls s @ xs \<and> sealed xs
     \<and> (case out of Returned _ _ \<Rightarrow> closed_once xs | _ \<Rightarrow> list_all (\<lambda>c. \<not> is_close c) xs)
     \<and> (case out of Panicked _ _ \<Rightarrow> list_all (\<lambda>c. \<not> is_emit c) xs | _ \<Rightarrow> True))"

lemma sealed_quiet: "list_all (\<lambda>c. \<not> is_emit c) xs \<Longrightarrow> sealed (xs @ ys) \<longleftrightarrow> sealed ys"
  by (induction xs) (auto simp: sealed_def)

lemma sealed_no_open: "list_all (\<lambda>c. \<not> is_open c) xs \<Longrightarrow> sealed xs"
  by (auto simp: sealed_def list_all_iff dest: set_dropWhileD)

lemma sealed_opened: "list_all (\<lambda>c. \<not> is_open c) xs \<Longrightarrow> sealed (CallOpen r # xs)"
  using sealed_no_open [of xs] by (simp add: sealed_def)

lemma nested_lists:
  "list_all nested_call xs \<Longrightarrow> list_all (\<lambda>c. \<not> is_open c) xs \<and> list_all (\<lambda>c. \<not> is_close c) xs"
  "list_all silent_call xs \<Longrightarrow> list_all (\<lambda>c. \<not> is_emit c) xs"
  by (auto simp: list_all_iff call_kinds)

lemma closed_once_snoc: "list_all (\<lambda>c. \<not> is_close c) xs \<Longrightarrow> closed_once (xs @ [CallClose sid m])"
  by (simp add: closed_once_def)

lemma closed_once_append: "list_all (\<lambda>c. \<not> is_close c) xs \<Longrightarrow> closed_once ys \<Longrightarrow> closed_once (xs @ ys)"
  by (auto simp: closed_once_def butlast_append)

lemma rs_calls_closePlugin:
  "TrimSpace sid \<noteq> [] \<Longrightarrow> rs_calls (closePluginStream sid m s) = rs_calls s @ [CallClose sid (TrimSpace m)]"
  by (simp add: closePluginStream_def call_host_def)

lemma finishFailedAttempt_calls:
  assumes "TrimSpace sid \<noteq> []"
  obtains xs m where "rs_calls (finishFailedAttempt env sid result s) = rs_calls s @ xs @ [CallClose sid m]"
    "list_all nested_call xs"
proof -
  obtain err s1 where e: "emit_all env sid (ar_held result) s = (err, s1)" by force
  from adds_emit_all [OF this] obtain xs where "rs_calls s1 = rs_calls s @ xs" "list_all nested_call xs"
    by (auto simp: adds_def)
  moreover from e have "\<exists>m. finishFailedAttempt env sid result s = closePluginStream sid m s1"
    by (cases err) (auto simp: finishFailedAttempt_def)
  ultimately show ?thesis using that assms by (auto simp: rs_calls_closePlugin)
qed

lemma run_ok_close:
  assumes "TrimSpace sid \<noteq> []" "list_all nested_call xs"
    "rs_calls s' = rs_calls s @ xs @ [CallClose sid m]"
  shows "run_ok s (Returned r s')"
  using assms nested_lists(1) [OF assms(2)]
  by (auto simp: run_ok_def intro!: sealed_no_open closed_once_append closed_once_snoc)

lemma run_ok_finish:
  assumes "TrimSpace sid \<noteq> []" "rs_calls s1 = rs_calls s"
    "rs_calls s' = rs_calls (finishFailedAttempt env sid result s1)"
  shows "run_ok s (Returned r s')"
  using finishFailedAttempt_calls [OF assms(1), of env result s1] assms
  by (metis run_ok_close)

lemma run_ok_exhausted:
  assumes "TrimSpace sid \<noteq> []"
  shows "run_ok s (Returned r (chain_exhausted env sid requested n reason attempt s))"
  unfolding chain_exhausted_def Let_def by (rule run_ok_finish [OF assms _ refl]) simp

lemma run_ok_after:
  assumes "rs_calls s' = rs_calls s @ xs" "list_all (\<lambda>c. \<not> is_emit c) xs" "list_all (\<lambda>c. \<not> is_close c) xs"
    "run_ok s' out"
  shows "run_ok s out"
proof -
  from assms(4) obtain ys where ys: "rs_calls (final_state out) = rs_calls s' @ ys" "sealed ys"
    "case out of Returned _ _ \<Rightarrow> closed_once ys | _ \<Rightarrow> list_all (\<lambda>c. \<not> is_close c) ys"
    "case out of Panicked _ _ \<Rightarrow> list_all (\<lambda>c. \<not> is_emit c) ys | _ \<Rightarrow> True"
    by (auto simp: run_ok_def)
  show ?thesis
    unfolding run_ok_def
  proof (intro exI conjI)
    show "rs_calls (final_state out) = rs_calls s @ xs @ ys" using ys assms(1) by simp
    show "sealed (xs @ ys)" using ys(2) assms(2) by (simp add: sealed_quiet)
    show "case out of Returned _ _ \<Rightarrow> closed_once (xs @ ys) | _ \<Rightarrow> list_all (\<lambda>c. \<not> is_close c) (xs @ ys)"
      using ys(3) assms(3) by (cases out) (simp_all add: closed_once_append)
    show "case out of Panicked _ _ \<Rightarrow> list_all (\<lambda>c. \<not> is_emit c) (xs @ ys) | _ \<Rightarrow> True"
      using ys(4) assms(2) by (cases out) simp_all
  qed
qed


lemma attempt_book_calls [simp]:
  "rs_calls (attempt_opened requested index n target s) = rs_calls s"
  "rs_calls (attempt_failed requested index plan target result s) = rs_calls s"
  by (simp_all add: attempt_opened_def attempt_failed_def)

lemma run_ok_finished:
  assumes sid: "TrimSpace sid \<noteq> []"
    and calls: "rs_calls s1 = rs_calls s @ CallOpen request # xs" "list_all nested_call xs"
      "ar_committed result \<or> list_all silent_call xs"
  shows "run_ok s (Returned r (chain_finished env sid requested index target result s1))"
proof (cases "ar_committed result")
  case True
  then have "\<exists>m. rs_calls (chain_finished env sid requested index target result s1)
      = rs_calls s @ (CallOpen request # xs) @ [CallClose sid m]"
    using sid calls(1) by (auto simp: chain_finished_def rs_calls_closePlugin)
  then obtain m where "rs_calls (chain_finished env sid requested index target result s1)
      = rs_calls s @ (CallOpen request # xs) @ [CallClose sid m]" ..
  then show ?thesis
    unfolding run_ok_def
    using nested_lists(1) [OF calls(2)] sealed_opened [of "xs @ [CallClose sid m]" request]
      closed_once_snoc [of "CallOpen request # xs" sid m]
    by auto
next
  case False
  let ?s2 = "requestFinished requested False (ar_reason result) s1"
  have "run_ok s1 (Returned r (chain_finished env sid requested index target result s1))"
    using False by (simp add: chain_finished_def run_ok_finish [OF sid, of ?s2 s1])
  then show ?thesis
    by (rule run_ok_after [OF calls(1), rotated 2])
      (use False calls(2,3) in \<open>auto simp: nested_lists\<close>)
qed

text \<open>
  The rule for the loop of \<^verbatim>\<open>runRetryChain\<close>: a relation between the state before an attempt and
  the outcome of the request holds if the end of the loop establishes it and every attempt
  passes it on.
\<close>

lemma chain_loop_rule:
  fixes Q :: "int \<Rightarrow> retry_state \<Rightarrow> unit outcome \<Rightarrow> bool"
  assumes exhausted: "\<And>index reason attempt s.
      Q index s (Returned () (chain_exhausted env sid requested (TargetCount plan) reason attempt s))"
    and attempt: "\<And>index target s. Target plan index = Some target \<Longrightarrow>
      (case runRetryAttempt env cfg (xr_Exec req) (xr_HostCallbackID req)
          \<lparr>as_index = index, as_target = target, as_requested = pl_Requested plan\<rparr> protocol sid deadline
          (attempt_opened requested index (TargetCount plan) target s) of
         Blocked s2 \<Rightarrow> Q index s (Blocked s2)
       | Panicked m s2 \<Rightarrow> Q index s (Panicked m s2)
       | Returned result s2 \<Rightarrow>
           if \<not> ar_committed result \<and> ar_retryable result
           then (\<forall>out. Q (index + 1) (attempt_failed requested index plan target result s2) out \<longrightarrow> Q index s out)
           else Q index s (Returned () (chain_finished env sid requested index target result s2)))"
  shows "Q index s (chain_loop env cfg req sid plan protocol requested deadline index lastReason lastAttempt s)"
proof (induction "nat (TargetCount plan - index)" arbitrary: index lastReason lastAttempt s rule: less_induct)
  case less
  note unfold = chain_loop.simps [of env cfg req sid plan protocol requested deadline index lastReason lastAttempt s]
  show ?case
  proof (cases "index \<ge> TargetCount plan \<or> Target plan index = None \<or> Sub deadline (rs_clock s) \<le> 0")
    case True
    then show ?thesis using exhausted by (subst unfold) (auto split: option.split)
  next
    case False
    then obtain target where target: "Target plan index = Some target" by auto
    from False have IH: "Q (index + 1) s' (chain_loop env cfg req sid plan protocol requested deadline
        (index + 1) reason result s')" for reason result s'
      by (intro less) simp
    show ?thesis
      using False target attempt [OF target, of s] IH
      by (subst unfold) (auto split: outcome.splits if_splits)
  qed
qed

lemma chain_loop_ok:
  assumes sid: "TrimSpace sid \<noteq> []"
  shows "run_ok s (chain_loop env cfg req sid plan protocol requested deadline index lastReason lastAttempt s)"
proof (rule chain_loop_rule [where Q = "\<lambda>_. run_ok"])
  show "run_ok s (Returned () (chain_exhausted env sid requested (TargetCount plan) reason attempt s))"
    for reason attempt s by (rule run_ok_exhausted [OF sid])
next
  fix index target s
  let ?s1 = "attempt_opened requested index (TargetCount plan) target s"
  define out where "out = runRetryAttempt env cfg (xr_Exec req) (xr_HostCallbackID req)
      \<lparr>as_index = index, as_target = target, as_requested = pl_Requested plan\<rparr> protocol sid deadline ?s1"
  show "case out of
         Blocked s2 \<Rightarrow> run_ok s (Blocked s2)
       | Panicked m s2 \<Rightarrow> run_ok s (Panicked m s2)
       | Returned result s2 \<Rightarrow>
           if \<not> ar_committed result \<and> ar_retryable result
           then (\<forall>out. run_ok (attempt_failed requested index plan target result s2) out \<longrightarrow> run_ok s out)
           else run_ok s (Returned () (chain_finished env sid requested index target result s2))"
    using out_def [symmetric]
  proof (cases rule: runRetryAttempt_calls)
    case (panic m)
    then show ?thesis by (simp add: run_ok_def sealed_def)
  next
    case (opened request xs)
    then have calls: "rs_calls (final_state out) = rs_calls s @ CallOpen request # xs" by simp
    note lists = nested_lists(1) [OF opened(3)] nested_lists(2) [of xs]
    show ?thesis
    proof (cases out)
      case (Returned result s2)
      then have "rs_calls (attempt_failed requested index plan target result s2) = rs_calls s @ CallOpen request # xs"
        using calls by simp
      note go_on = run_ok_after [OF this]
      from Returned opened(4) have quiet: "ar_committed result \<or> list_all silent_call xs" by simp
      from Returned calls have "rs_calls s2 = rs_calls s @ CallOpen request # xs" by simp
      note finished = run_ok_finished [OF sid this opened(3) quiet]
      show ?thesis using Returned go_on lists quiet finished by auto
    next
      case (Blocked s2)
      then show ?thesis
        using calls lists sealed_opened [of xs request] by (auto simp: run_ok_def)
    qed (use opened in simp)
  qed
qed

lemma shadow_loop_ok:
  "adds nested_call s (final_state (shadow_loop env cfg sid n stream a sniff s))
   \<and> (\<forall>m s'. shadow_loop env cfg sid n stream a sniff s \<noteq> Panicked m s')"
proof (induction stream arbitrary: a sniff s)
  case Nil
  obtain r s1 where r: "readNestedChunk n (cfg_RetryStallTimeout cfg) [] s = (r, s1)" by force
  have "adds nested_call s s1" by (rule silent_nested [OF adds_read [OF r]])
  then show ?case
    using r adds_trans silent_nested [OF adds_closeNested] by (auto split: option.split)
next
  case (Cons x stream)
  obtain r s1 where r: "readNestedChunk n (cfg_RetryStallTimeout cfg) (x # stream) s = (r, s1)" by force
  have s1: "adds nested_call s s1" by (rule silent_nested [OF adds_read [OF r]])
  have cl: "adds nested_call s (closeNestedStream n t)" if "adds nested_call s t" for t
    using that adds_closeNested silent_nested adds_trans by blast
  show ?case
  proof (cases r rule: read_cases)
    case (answer chunk rest)
    obtain v a' where v: "(if ck_Payload chunk = [] then (None, a)
        else absorb (re_json env) (ck_Payload chunk) a) = (v, a')" by force
    obtain err s2 where e: "(if ck_Payload chunk = [] then (None, s1)
        else emitPluginStream env sid (ck_Payload chunk) s1) = (err, s2)" by force
    then have "adds nested_call s1 s2" by (auto dest: adds_emit split: if_splits)
    with s1 have s2: "adds nested_call s s2" by (rule adds_trans)
    show ?thesis
      using answer r v e cl [OF s1] cl [OF s2] Cons.IH adds_trans [OF s2]
      by (cases "ck_Payload chunk = []") (auto split: option.split)
  qed (use r cl [OF s1] in auto)
qed

lemma run_ok_shadow:
  assumes sid: "TrimSpace sid \<noteq> []"
  shows "run_ok s (runRetryShadow env cfg req sid plan protocol s)"
proof (cases "openNestedStream env cfg (xr_Exec req) (xr_HostCallbackID req)
    \<lparr>as_index = 0, as_target = pl_Requested plan, as_requested = pl_Requested plan\<rparr> protocol s")
  case (Returned r s1)
  define out where "out = runRetryShadowAttempt env cfg (xr_Exec req) (xr_HostCallbackID req)
    \<lparr>as_index = 0, as_target = pl_Requested plan, as_requested = pl_Requested plan\<rparr> protocol sid s"
  from openNestedStream_calls(1) [OF Returned] obtain request where
    s1: "rs_calls s1 = rs_calls s @ [CallOpen request]" by auto
  have "adds nested_call s1 (final_state out) \<and> (\<forall>m s'. out \<noteq> Panicked m s')"
    using Returned shadow_loop_ok by (cases r) (auto simp: out_def runRetryShadowAttempt_def)
  then obtain xs where xs: "rs_calls (final_state out) = rs_calls s @ CallOpen request # xs"
      "list_all nested_call xs" "\<forall>m s'. out \<noteq> Panicked m s'"
    using s1 by (auto simp: adds_def)
  note lists = nested_lists(1) [OF xs(2)]
  show ?thesis
  proof (cases out)
    case (Returned rs s2)
    obtain result sniff where "rs = (result, sniff)" by force
    with Returned xs sid have "\<exists>m s3. runRetryShadow env cfg req sid plan protocol s = Returned () s3
        \<and> rs_calls s3 = rs_calls s @ (CallOpen request # xs) @ [CallClose sid m]"
      by (auto simp: runRetryShadow_def out_def [symmetric] rs_calls_closePlugin Let_def)
    then show ?thesis
      using lists sealed_opened [of "xs @ _" request] closed_once_snoc [of "CallOpen request # xs" sid]
      by (auto simp: run_ok_def)
  next
    case (Blocked s2)
    then show ?thesis
      using xs lists sealed_opened [of xs request] by (auto simp: run_ok_def runRetryShadow_def out_def [symmetric])
  qed (use xs in simp)
next
  case (Panicked m s1)
  then show ?thesis
    using openNestedStream_calls(3) [OF Panicked]
    by (simp add: runRetryShadow_def runRetryShadowAttempt_def run_ok_def sealed_def)
qed (use openNestedStream_calls(2) in metis)

lemma run_ok_chain:
  assumes sid: "TrimSpace sid \<noteq> []"
  shows "run_ok s (runRetryChain env cfg req sid s)"
proof -
  have "run_ok s (Returned () (closePluginStream sid m s))" for m
    by (rule run_ok_close [OF sid, where xs = "[]"]) (use sid in \<open>simp_all add: rs_calls_closePlugin\<close>)
  moreover have "run_ok s (chain_loop env cfg req sid plan protocol requested deadline 0 [] zero_attemptResult
      (requestStarted requested n s))" for plan protocol requested deadline n
    by (rule run_ok_after [OF _ _ _ chain_loop_ok [OF sid], where xs = "[]"]) simp_all
  ultimately show ?thesis
    using run_ok_shadow [OF sid] by (simp add: runRetryChain_def Let_def)
qed

lemma run_ok_execute:
  "(\<exists>m. executeRetryChainStream env cfg req s = Returned (Inl m) s)
   \<or> (run_ok s (executeRetryChainStream env cfg req s)
      \<and> (\<forall>m s'. executeRetryChainStream env cfg req s \<noteq> Panicked m s'))"
proof (cases "TrimSpace (xr_StreamID req) = []")
  case False
  let ?sid = "TrimSpace (xr_StreamID req)"
  have ok: "run_ok s (runRetryChain env cfg req ?sid s)" using False by (simp add: run_ok_chain)
  show ?thesis
  proof (cases "runRetryChain env cfg req ?sid s")
    case (Panicked m s1)
    with ok obtain xs where "rs_calls s1 = rs_calls s @ xs" "list_all (\<lambda>c. \<not> is_close c) xs"
      "list_all (\<lambda>c. \<not> is_emit c) xs" by (auto simp: run_ok_def)
    moreover have "sealed [CallClose ?sid t]" for t by (simp add: sealed_def)
    ultimately show ?thesis
      using False Panicked
      by (auto simp: executeRetryChainStream_def run_ok_def rs_calls_closePlugin closed_once_snoc sealed_quiet)
  qed (use ok False in \<open>auto simp: executeRetryChainStream_def run_ok_def\<close>)
qed (simp add: executeRetryChainStream_def)

text \<open>
  C15. Once a byte of an attempt has reached the client, the chain opens no further nested
  execution: in every run, blocked and panicking ones included, no opening follows the first
  emission. The client never sees the output of two attempts mixed.
\<close>

theorem no_retry_after_output:
  "\<exists>xs. rs_calls (final_state (executeRetryChainStream env cfg req s)) = rs_calls s @ xs \<and> sealed xs"
  using run_ok_execute [of env cfg req s] by (auto simp: run_ok_def sealed_def)


end
