(* ===== verification/Retry_Stream_Props.thy ===== *)
theory Retry_Stream_Props
  imports Retry_Props
begin

text \<open>
  What the client receives: the verdict of the frame assembler does not depend on how the
  host cuts the stream into chunks, a committed attempt forwards the payloads of its stream
  in order, and the attempts follow the plan. The last section evaluates the classifier and
  the chain on inputs where they differ from their comments.
\<close>

section \<open>The frame assembler\<close>

function complete_frames :: "string \<Rightarrow> string list" where
  "complete_frames text = (case cut_at frame_end text of
     None \<Rightarrow> [] | Some (frame, rest) \<Rightarrow> frame # complete_frames rest)"
  by pat_completeness auto
termination
  by (relation "measure length") (auto dest: cut_at_shorter)

declare complete_frames.simps [simp del]

definition first_decisive :: "json_lib \<Rightarrow> string \<Rightarrow> string list \<Rightarrow> frameVerdict option" where
  "first_decisive J protocol frames =
    find (\<lambda>v. fv_Disposition v \<noteq> frameHandshake) (map (\<lambda>frame. classifyFrame J frame protocol) frames)"

lemma absorb_loop_first: "fst (absorb_loop J protocol tx) = first_decisive J protocol (complete_frames tx)"
proof (induction tx rule: complete_frames.induct)
  case (1 tx)
  show ?case
  proof (cases "cut_at frame_end tx")
    case None
    then show ?thesis
      by (subst absorb_loop.simps, subst complete_frames.simps) (simp add: first_decisive_def)
  next
    case (Some fr)
    obtain frame rest where fr: "fr = (frame, rest)" by force
    have IH: "fst (absorb_loop J protocol rest) = first_decisive J protocol (complete_frames rest)"
      using "1" Some fr by simp
    show ?thesis
      using Some fr IH
      by (subst absorb_loop.simps, subst complete_frames.simps) (simp add: first_decisive_def Let_def)
  qed
qed

lemma Index_append: "Index sub s = Some i \<Longrightarrow> Index sub (s @ t) = Some i"
proof (induction s arbitrary: i)
  case Nil
  then show ?case by (cases t) (auto split: if_splits)
next
  case (Cons c s)
  show ?case
  proof (cases "take (length sub) (c # s) = sub")
    case True
    then have "take (length sub) (c # s @ t) = sub" using take_eq_self_append [of sub "c # s" t] by simp
    with True Cons.prems show ?thesis by simp
  next
    case False
    with Cons.prems obtain j where j: "Index sub s = Some j" "i = Suc j" by auto
    have "length sub \<le> length (c # s)" using Index_Some [OF j(1)] by simp
    with False have "take (length sub) (c # s @ t) \<noteq> sub"
      using take_append [of "length sub" "c # s" t] by simp
    with j Cons.IH show ?thesis by simp
  qed
qed

lemma cut_at_append:
  assumes "cut_at sep s = Some (a, b)"
  shows "cut_at sep (s @ t) = Some (a, b @ t)"
proof -
  from assms obtain i where i: "Index sep s = Some i" "a = take i s" "b = drop (i + length sep) s"
    by (auto simp: cut_at_def)
  with Index_Some [OF i(1)] Index_append [OF i(1), of t] show ?thesis by (simp add: cut_at_def)
qed

lemma absorb_loop_append:
  "absorb_loop J protocol (x @ y) = (case absorb_loop J protocol x of
     (Some v, r) \<Rightarrow> (Some v, r @ y) | (None, r) \<Rightarrow> absorb_loop J protocol (r @ y))"
proof (induction x rule: complete_frames.induct)
  case (1 x)
  show ?case
  proof (cases "cut_at frame_end x")
    case None
    then show ?thesis by (subst (2) absorb_loop.simps) simp
  next
    case (Some fr)
    obtain frame rest where fr: "fr = (frame, rest)" by force
    have IH: "absorb_loop J protocol (rest @ y) = (case absorb_loop J protocol rest of
       (Some v, r) \<Rightarrow> (Some v, r @ y) | (None, r) \<Rightarrow> absorb_loop J protocol (r @ y))"
      using "1" Some fr by simp
    have cut: "cut_at frame_end (x @ y) = Some (frame, rest @ y)"
      using cut_at_append Some fr by simp
    show ?thesis
      by (subst absorb_loop.simps, subst (2) absorb_loop.simps) (simp add: cut Some fr IH Let_def)
  qed
qed

fun absorb_all :: "json_lib \<Rightarrow> string list \<Rightarrow> retryFrameAssembler \<Rightarrow> frameVerdict option \<times> retryFrameAssembler" where
  \<comment> \<open>the calls of \<open>absorb\<close> an attempt makes: it stops at the first decisive verdict\<close>
  "absorb_all J [] a = (None, a)"
| "absorb_all J (chunk # chunks) a =
    (case absorb J chunk a of (Some v, a') \<Rightarrow> (Some v, a') | (None, a') \<Rightarrow> absorb_all J chunks a')"

definition no_bare_json :: "json_lib \<Rightarrow> string \<Rightarrow> bool" where
  \<comment> \<open>an incomplete frame is not a JSON text of its own: the lines of a frame have a field name\<close>
  "no_bare_json J pending \<longleftrightarrow> \<not> jl_valid J (TrimSpace pending)"

lemma absorb_framed:
  assumes "no_bare_json J (snd (absorb_loop J p (pending @ chunk)))"
  shows "absorb J chunk \<lparr>fa_protocol = p, fa_pending = pending\<rparr>
       = (if chunk = [] then (None, \<lparr>fa_protocol = p, fa_pending = pending\<rparr>)
          else case absorb_loop J p (pending @ chunk) of (v, r) \<Rightarrow> (v, \<lparr>fa_protocol = p, fa_pending = r\<rparr>))"
  using assms by (auto simp: absorb_def no_bare_json_def split: prod.split option.split)

lemma absorb_all_loop:
  assumes "\<forall>k \<le> length chunks. no_bare_json J (snd (absorb_loop J p (pending @ concat (take k chunks))))"
    and "absorb_loop J p pending = (None, pending)"
  shows "fst (absorb_all J chunks \<lparr>fa_protocol = p, fa_pending = pending\<rparr>)
       = fst (absorb_loop J p (pending @ concat chunks))"
  using assms
proof (induction chunks arbitrary: pending)
  case (Cons chunk chunks)
  obtain v r where vr: "absorb_loop J p (pending @ chunk) = (v, r)" by force
  have "no_bare_json J (snd (absorb_loop J p (pending @ chunk)))"
    using Cons.prems(1) [rule_format, of 1] by simp
  note step = absorb_framed [OF this]
  have loop: "absorb_loop J p (pending @ chunk @ t)
      = (case v of Some v' \<Rightarrow> (Some v', r @ t) | None \<Rightarrow> absorb_loop J p (r @ t))" for t
    using absorb_loop_append [of J p "pending @ chunk" t] vr by (simp split: option.split)
  show ?case
  proof (cases v)
    case None
    have r: "absorb_loop J p r = (None, r)" using loop [of "[]"] vr None by simp
    have "fst (absorb_all J chunks \<lparr>fa_protocol = p, fa_pending = r\<rparr>) = fst (absorb_loop J p (r @ concat chunks))"
    proof (rule Cons.IH [OF _ r], intro allI impI)
      fix k assume "k \<le> length chunks"
      then show "no_bare_json J (snd (absorb_loop J p (r @ concat (take k chunks))))"
        using Cons.prems(1) [rule_format, of "Suc k"] loop None by simp
    qed
    then show ?thesis using step vr None loop Cons.prems(2) by (auto simp: Let_def)
  next
    case (Some v')
    then have "chunk \<noteq> []" using vr Cons.prems(2) by auto
    then show ?thesis using step vr Some loop by simp
  qed
qed simp

text \<open>
  C19. However the host cuts a framed stream into chunks, the assembler decides the attempt
  by the first frame of the whole text that is not a handshake, and only once that frame is
  complete.
\<close>

theorem assembler_ignores_chunking:
  assumes "\<forall>k \<le> length chunks. no_bare_json J (snd (absorb_loop J protocol (concat (take k chunks))))"
  shows "fst (absorb_all J chunks \<lparr>fa_protocol = protocol, fa_pending = []\<rparr>)
       = first_decisive J protocol (complete_frames (concat chunks))"
proof -
  have "absorb_loop J protocol [] = (None, [])" by (subst absorb_loop.simps) (simp add: cut_at_def)
  with absorb_all_loop [of chunks J protocol "[]"] assms show ?thesis by (simp add: absorb_loop_first)
qed

section \<open>Following the plan\<close>

definition opened_targets :: "host_call list \<Rightarrow> (string \<times> string) list" where
  \<comment> \<open>provider and model of the nested executions, in the order they were opened\<close>
  "opened_targets xs = List.map_filter
     (\<lambda>c. case c of CallOpen request \<Rightarrow> Some (hm_ForcedProvider request, hm_Model request) | _ \<Rightarrow> None) xs"

definition planned_target :: "ExecutorRequest \<Rightarrow> RetryPlan \<Rightarrow> int \<Rightarrow> string \<times> string" where
  "planned_target exec plan i = (case Target plan i of
     Some target \<Rightarrow> (rt_Provider target, retryAttemptModel exec
       \<lparr>as_index = i, as_target = target, as_requested = pl_Requested plan\<rparr>)
   | None \<Rightarrow> ([], []))"

definition follows_plan ::
  "ExecutorRequest \<Rightarrow> RetryPlan \<Rightarrow> int \<Rightarrow> retry_state \<Rightarrow> unit outcome \<Rightarrow> bool" where
  "follows_plan exec plan index s out \<longleftrightarrow> (\<exists>k xs. rs_calls (final_state out) = rs_calls s @ xs
     \<and> index \<le> k \<and> k \<le> max index (TargetCount plan)
     \<and> opened_targets xs = map (planned_target exec plan) [index .. k - 1])"

lemma opened_targets_simps [simp]:
  "opened_targets [] = []"
  "opened_targets (xs @ ys) = opened_targets xs @ opened_targets ys"
  "opened_targets (CallOpen request # xs) = (hm_ForcedProvider request, hm_Model request) # opened_targets xs"
  by (simp_all add: opened_targets_def List.map_filter_simps map_filter_def)

lemma opened_targets_nested: "list_all nested_call xs \<Longrightarrow> opened_targets xs = []"
  by (induction xs) (auto simp: opened_targets_def List.map_filter_simps nested_call_def split: host_call.split)

lemma opened_targets_close [simp]: "opened_targets [CallClose sid m] = []"
  by (simp add: opened_targets_def List.map_filter_simps)

lemma finish_targets:
  assumes sid: "TrimSpace sid \<noteq> []" and same: "rs_calls t = rs_calls s"
  shows "\<exists>xs. rs_calls (finishFailedAttempt env sid result t) = rs_calls s @ xs \<and> opened_targets xs = []"
proof -
  obtain xs m where "rs_calls (finishFailedAttempt env sid result t) = rs_calls t @ xs @ [CallClose sid m]"
      "list_all nested_call xs"
    by (rule finishFailedAttempt_calls [OF sid])
  then show ?thesis using same by (simp add: opened_targets_nested)
qed

lemma chain_finished_targets:
  assumes sid: "TrimSpace sid \<noteq> []"
  shows "\<exists>xs. rs_calls (chain_finished env sid requested index target result s) = rs_calls s @ xs \<and> opened_targets xs = []"
  using sid finish_targets [OF sid, of "requestFinished requested False (ar_reason result) s" s env result]
  by (simp add: chain_finished_def rs_calls_closePlugin)

lemma chain_exhausted_targets:
  assumes sid: "TrimSpace sid \<noteq> []"
  shows "\<exists>xs. rs_calls (chain_exhausted env sid requested n reason attempt s) = rs_calls s @ xs \<and> opened_targets xs = []"
  unfolding chain_exhausted_def Let_def by (rule finish_targets [OF sid]) simp

lemma follows_plan_none:
  "\<exists>xs. rs_calls (final_state out) = rs_calls s @ xs \<and> opened_targets xs = [] \<Longrightarrow> follows_plan exec plan index s out"
  unfolding follows_plan_def by (rule exI [of _ index]) auto

lemma follows_plan_first:
  assumes "rs_calls s1 = rs_calls s @ CallOpen request # xs" "list_all nested_call xs"
    "opens_with exec \<lparr>as_index = index, as_target = target, as_requested = pl_Requested plan\<rparr> request"
    "Target plan index = Some target" "follows_plan exec plan (index + 1) s1 out"
  shows "follows_plan exec plan index s out"
proof -
  from assms(5) obtain k ys where k: "rs_calls (final_state out) = rs_calls s1 @ ys" "index + 1 \<le> k"
    "k \<le> max (index + 1) (TargetCount plan)" "opened_targets ys = map (planned_target exec plan) [index + 1 .. k - 1]"
    by (auto simp: follows_plan_def)
  have index: "index < TargetCount plan" using assms(4) Target_Some_iff by blast
  have "[index .. k - 1] = index # [index + 1 .. k - 1]" using k(2) by (simp add: upto_rec1)
  with k assms opened_targets_nested [OF assms(2)] index show ?thesis
    unfolding follows_plan_def
    by (intro exI [of _ k] exI [of _ "CallOpen request # xs @ ys"])
      (auto simp: planned_target_def opens_with_def)
qed

lemma chain_loop_follows:
  assumes sid: "TrimSpace sid \<noteq> []"
  shows "follows_plan (xr_Exec req) plan index s
    (chain_loop env cfg req sid plan protocol requested deadline index lastReason lastAttempt s)"
proof (rule chain_loop_rule [where Q = "follows_plan (xr_Exec req) plan"])
  show "follows_plan (xr_Exec req) plan index s
      (Returned () (chain_exhausted env sid requested (TargetCount plan) reason attempt s))" for index reason attempt s
    by (rule follows_plan_none) (use chain_exhausted_targets [OF sid] in simp)
next
  fix index target s
  assume target: "Target plan index = Some target"
  define out where "out = runRetryAttempt env cfg (xr_Exec req) (xr_HostCallbackID req)
      \<lparr>as_index = index, as_target = target, as_requested = pl_Requested plan\<rparr> protocol sid deadline
      (attempt_opened requested index (TargetCount plan) target s)"
  let ?follows = "follows_plan (xr_Exec req) plan"
  show "case out of
         Blocked s2 \<Rightarrow> ?follows index s (Blocked s2)
       | Panicked m s2 \<Rightarrow> ?follows index s (Panicked m s2)
       | Returned result s2 \<Rightarrow>
           if \<not> ar_committed result \<and> ar_retryable result
           then (\<forall>out. ?follows (index + 1) (attempt_failed requested index plan target result s2) out
                  \<longrightarrow> ?follows index s out)
           else ?follows index s (Returned () (chain_finished env sid requested index target result s2))"
    using out_def [symmetric]
  proof (cases rule: runRetryAttempt_calls)
    case (panic m)
    then show ?thesis by (auto intro!: follows_plan_none)
  next
    case (opened request xs)
    then have calls: "rs_calls (final_state out) = rs_calls s @ CallOpen request # xs" by simp
    have first: "rs_calls t = rs_calls (final_state out) \<Longrightarrow> ?follows (index + 1) t out' \<Longrightarrow> ?follows index s out'" for t out'
      using follows_plan_first [OF _ opened(3) opened(2) target] calls by metis
    have last: "?follows index s out'"
      if "\<exists>ys. rs_calls (final_state out') = rs_calls (final_state out) @ ys \<and> opened_targets ys = []" for out'
      using first [OF refl follows_plan_none [OF that]] .
    show ?thesis
    proof (cases out)
      case (Returned result s2)
      then show ?thesis
        using first [of "attempt_failed requested index plan target result s2"]
          last [of "Returned () (chain_finished env sid requested index target result s2)"]
          chain_finished_targets [OF sid, of env requested index target result s2]
        by simp
    next
      case (Blocked s2)
      then show ?thesis using last [of "Blocked s2"] by simp
    qed (use opened in simp)
  qed
qed

lemma chain_plan_bound:
  assumes "config_wf cfg"
  shows "TargetCount (case RetryPlanFor cfg m of Some plan \<Rightarrow> plan | None \<Rightarrow> retrySingleTargetPlan m) \<le> maxRetryMaxAttempts"
proof (cases "RetryPlanFor cfg m")
  case None
  then show ?thesis by (simp add: retrySingleTargetPlan_def TargetCount_def)
next
  case (Some plan)
  then show ?thesis using RetryPlanFor_attempts(3) [OF Some assms] by simp
qed

text \<open>
  C18. The nested executions of a live request are those of the plan for the requested model,
  from the first target on, in the order of the plan, each at most once, and never more
  than sixteen.
\<close>

theorem attempts_follow_plan:
  assumes "config_wf cfg" "\<not> cfg_RetryShadow cfg" "TrimSpace sid \<noteq> []"
    and "plan = (case RetryPlanFor cfg (retryRequestedModel (xr_Exec req)) of Some plan \<Rightarrow> plan
           | None \<Rightarrow> retrySingleTargetPlan (retryRequestedModel (xr_Exec req)))"
  shows "\<exists>k xs. rs_calls (final_state (runRetryChain env cfg req sid s)) = rs_calls s @ xs
     \<and> k \<le> TargetCount plan \<and> k \<le> maxRetryMaxAttempts
     \<and> opened_targets xs = map (planned_target (xr_Exec req) plan) [0 .. k - 1]"
proof (cases "retryProtocol (xr_Exec req) = []")
  case True
  then show ?thesis
    using assms(3) TargetCount_bounds [of plan]
    by (intro exI [of _ 0]) (auto simp: runRetryChain_def Let_def rs_calls_closePlugin)
next
  case False
  have "follows_plan (xr_Exec req) plan 0 (requestStarted (retryRequestedModel (xr_Exec req)) (TargetCount plan) s)
      (runRetryChain env cfg req sid s)"
    using False assms(2) chain_loop_follows [OF assms(3)]
    by (simp add: runRetryChain_def Let_def assms(4) [symmetric])
  then obtain k xs where "rs_calls (final_state (runRetryChain env cfg req sid s)) = rs_calls s @ xs"
      "k \<le> max 0 (TargetCount plan)" "opened_targets xs = map (planned_target (xr_Exec req) plan) [0 .. k - 1]"
    by (auto simp: follows_plan_def)
  then show ?thesis
    using TargetCount_bounds [of plan] chain_plan_bound [OF assms(1), of "retryRequestedModel (xr_Exec req)"] assms(4)
    by (intro exI [of _ k] exI [of _ xs]) auto
qed

section \<open>Forwarding a committed attempt\<close>

definition emitted :: "host_call list \<Rightarrow> string list" where
  "emitted xs = List.map_filter (\<lambda>c. case c of CallEmit _ payload \<Rightarrow> Some payload | _ \<Rightarrow> None) xs"

definition payloads :: "nested_stream \<Rightarrow> string list" where
  "payloads stream = List.map_filter (\<lambda>(_, answer). case answer of
     Inr chunk \<Rightarrow> if ck_Payload chunk = [] then None else Some (ck_Payload chunk) | Inl _ \<Rightarrow> None) stream"

lemma emitted_simps [simp]:
  "emitted [] = []" "emitted (xs @ ys) = emitted xs @ emitted ys"
  "emitted (CallEmit sid p # xs) = p # emitted xs"
  by (simp_all add: emitted_def List.map_filter_simps map_filter_def)

lemma emitted_silent: "list_all silent_call xs \<Longrightarrow> emitted xs = []"
  by (induction xs) (auto simp: emitted_def List.map_filter_simps call_kinds split: host_call.split)

lemma payloads_simps [simp]:
  "payloads [] = []" "payloads (xs @ ys) = payloads xs @ payloads ys"
  "payloads ((d, Inr chunk) # xs) = (if ck_Payload chunk = [] then [] else [ck_Payload chunk]) @ payloads xs"
  by (simp_all add: payloads_def List.map_filter_simps map_filter_def)

definition sends :: "string list \<Rightarrow> retry_state \<Rightarrow> retry_state \<Rightarrow> bool" where
  "sends ps s s' \<longleftrightarrow> (\<exists>xs. rs_calls s' = rs_calls s @ xs \<and> emitted xs = ps)"

lemma sends_trans: "sends ps s s' \<Longrightarrow> sends qs s' s'' \<Longrightarrow> sends (ps @ qs) s s''"
  by (force simp: sends_def)

lemma sends_silent: "adds silent_call s s' \<Longrightarrow> sends [] s s'"
  by (auto simp: sends_def adds_def emitted_silent)

lemma sends_emit:
  "emitPluginStream env sid p s = (err, s') \<Longrightarrow> TrimSpace sid \<noteq> [] \<Longrightarrow> p \<noteq> [] \<Longrightarrow> sends [p] s s'"
  by (auto simp: emitPluginStream_def sends_def call_host_def split: prod.splits if_splits)

lemma sends_emit_all:
  "emit_all env sid ps s = (None, s') \<Longrightarrow> TrimSpace sid \<noteq> [] \<Longrightarrow> [] \<notin> set ps \<Longrightarrow> sends ps s s'"
proof (induction ps arbitrary: s)
  case Nil
  then show ?case by (simp add: sends_def)
next
  case (Cons p ps)
  then obtain s1 where "emitPluginStream env sid p s = (None, s1)" "emit_all env sid ps s1 = (None, s')"
    by (auto split: prod.splits option.splits)
  with Cons sends_emit [of env sid p s None s1] sends_trans [of "[p]" s s1 ps s'] show ?case by auto
qed

definition errors_named :: "retry_env \<Rightarrow> nested_stream \<Rightarrow> bool" where
  \<comment> \<open>the errors of the host have a text; the chain takes an empty reason for success\<close>
  "errors_named env stream \<longleftrightarrow> (\<forall>i p e. snd (re_emit env i p) = Some e \<longrightarrow> error_text e \<noteq> [])
     \<and> (\<forall>d e. (d, Inl e) \<in> set stream \<longrightarrow> error_text e \<noteq> [])"

lemma emit_error_named:
  "emitPluginStream env sid p s = (Some e, s') \<Longrightarrow> errors_named env stream \<Longrightarrow> error_text e \<noteq> []"
  by (auto simp: emitPluginStream_def errors_named_def split: if_splits prod.splits) (metis snd_conv)

lemma emit_all_error_named:
  "emit_all env sid ps s = (Some e, s') \<Longrightarrow> errors_named env stream \<Longrightarrow> error_text e \<noteq> []"
  by (induction ps arbitrary: s) (auto split: prod.splits option.splits dest: emit_error_named)

definition ends_done :: "nested_stream \<Rightarrow> bool" where
  "ends_done stream \<longleftrightarrow> (\<exists>d chunk. stream \<noteq> [] \<and> last stream = (d, Inr chunk) \<and> ck_Done chunk)"

lemma forward_loop_sends:
  assumes "forward_loop env sid n stream s = Returned result s'" "ar_reason result = []"
    "TrimSpace sid \<noteq> []" "errors_named env stream"
  shows "\<exists>pre rest. stream = pre @ rest \<and> sends (payloads pre) s s' \<and> ends_done pre"
  using assms
proof (induction stream arbitrary: s)
  case (Cons x stream)
  obtain d answer where x: "x = (d, answer)" by force
  from Cons.prems(4) have named: "errors_named env stream" by (auto simp: errors_named_def)
  let ?s1 = "snd (readNestedChunk n 0 ((d, answer) # stream) s)"
  have s1: "sends [] s ?s1" by (rule sends_silent [OF adds_read_snd])
  from Cons.prems obtain chunk where chunk: "answer = Inr chunk"
    by (cases answer) (auto simp: x Let_def errors_named_def)
  obtain err s2 where e: "(if ck_Payload chunk = [] then (None, ?s1)
      else emitPluginStream env sid (ck_Payload chunk) ?s1) = (err, s2)" by force
  have err: "err = None" "ck_Error chunk = []"
    using Cons.prems(1,2) e emit_error_named [OF _ named]
    by (cases "ck_Payload chunk = []"; cases err; auto simp: x chunk Let_def split: if_splits)+
  let ?p = "payloads [(d, Inr chunk)]"
  have "sends ?p ?s1 s2"
    using e err Cons.prems(3) sends_emit by (auto simp: sends_def split: if_splits)
  then have s2: "sends ?p s s2" using sends_trans [OF s1] by simp
  have out: "(if ck_Done chunk then Returned (committed_with []) (closeNestedStream n s2)
      else forward_loop env sid n stream s2) = Returned result s'"
    using Cons.prems(1) e err by (cases "ck_Payload chunk = []") (auto simp: x chunk Let_def)
  show ?case
  proof (cases "ck_Done chunk")
    case True
    then have "sends [] s2 s'" using out sends_silent [OF adds_closeNested] by auto
    then have "sends ?p s s'" using sends_trans [OF s2] by fastforce
    then have "x # stream = [x] @ stream \<and> sends (payloads [x]) s s' \<and> ends_done [x]"
      using True by (simp add: x chunk ends_done_def)
    then show ?thesis by blast
  next
    case False
    with out have "forward_loop env sid n stream s2 = Returned result s'" by simp
    from Cons.IH [OF this Cons.prems(2,3) named] obtain pre rest where
      pre: "stream = pre @ rest" "sends (payloads pre) s2 s'" "ends_done pre" by blast
    then have "sends (payloads (x # pre)) s s'" using sends_trans [OF s2] by (fastforce simp: x chunk)
    with pre have "x # stream = (x # pre) @ rest \<and> sends (payloads (x # pre)) s s' \<and> ends_done (x # pre)"
      by (auto simp: ends_done_def)
    then show ?thesis by blast
  qed
qed simp

lemma forwardCommitted_sends:
  assumes "forwardCommitted env sid n hold stream s = Returned result s'" "ar_reason result = []"
    "TrimSpace sid \<noteq> []" "errors_named env stream" "[] \<notin> set (hb_payloads hold)"
  shows "\<exists>pre rest. stream = pre @ rest \<and> sends (hb_payloads hold @ payloads pre) s s' \<and> ends_done pre"
proof -
  obtain err s1 where e: "emit_all env sid (hb_payloads hold) s = (err, s1)" by force
  with assms emit_all_error_named have "err = None"
    by (cases err) (auto simp: forwardCommitted_def)
  with e assms have "sends (hb_payloads hold) s s1" "forward_loop env sid n stream s1 = Returned result s'"
    by (auto simp: forwardCommitted_def intro: sends_emit_all)
  with forward_loop_sends assms(2-4) sends_trans show ?thesis by metis
qed

definition late :: "Config \<Rightarrow> time \<Rightarrow> time \<Rightarrow> nested_stream \<Rightarrow> nat \<times> read_answer \<Rightarrow> bool" where
  \<comment> \<open>the answer that follows the reads \<open>pre\<close> misses the stall timeout or the end of the hold window\<close>
  "late cfg holdDeadline clock pre x \<longleftrightarrow> cfg_RetryStallTimeout cfg \<le> int (fst x)
     \<or> Sub holdDeadline (clock + int (sum_list (map fst pre))) \<le> int (fst x)"

definition forwards ::
  "Config \<Rightarrow> time \<Rightarrow> nested_stream \<Rightarrow> string list \<Rightarrow> retry_state \<Rightarrow> retry_state \<Rightarrow> bool" where
  "forwards cfg dl stream held s s' \<longleftrightarrow> (\<exists>pre lost mid rest. stream = pre @ lost @ mid @ rest
     \<and> sends (held @ payloads (pre @ mid)) s s' \<and> ends_done mid
     \<and> length lost \<le> 1 \<and> list_all (late cfg dl (rs_clock s) pre) lost)"

lemma forwardsI:
  "stream = pre @ lost @ mid @ rest \<Longrightarrow> sends (held @ payloads (pre @ mid)) s s' \<Longrightarrow> ends_done mid \<Longrightarrow>
   length lost \<le> 1 \<Longrightarrow> list_all (late cfg dl (rs_clock s) pre) lost \<Longrightarrow> forwards cfg dl stream held s s'"
  unfolding forwards_def by blast

lemma forwards_direct:
  "stream = pre @ rest \<Longrightarrow> sends (held @ payloads pre) s s' \<Longrightarrow> ends_done pre \<Longrightarrow> forwards cfg dl stream held s s'"
  by (rule forwardsI [of _ "[]" "[]"]) simp_all

lemma chunk_step_held:
  "chunk_step env chunk hold a = (None, c, hold', a') \<Longrightarrow>
   hb_payloads hold' = hb_payloads hold @ payloads [(d, Inr chunk)]"
  "chunk_step env chunk hold a = (Some result, c, hold', a') \<Longrightarrow> \<not> ar_committed result"
  by (auto simp: chunk_step_def hold_add_def failed_with_def zero_attemptResult_def Let_def
      split: if_splits prod.splits option.splits)

lemma read_Cons:
  "readNestedChunk n wait (x # stream) s = (Some (ReadAnswer answer, rest), s1) \<Longrightarrow>
   answer = snd x \<and> rs_clock s1 = rs_clock s + int (fst x)"
  "readNestedChunk n wait (x # stream) s = (r, s1) \<Longrightarrow> r = None \<or> r = Some (ReadTimedOut, rest) \<Longrightarrow> wait \<le> int (fst x)"
  by (auto simp: readNestedChunk_def call_host_def split: prod.splits if_splits)

lemma stalled_forwards:
  assumes "stalled env cfg sid n stream hold s = Returned result s'" "ar_committed result" "ar_reason result = []"
    "TrimSpace sid \<noteq> []" "errors_named env stream" "[] \<notin> set (hb_payloads hold)"
  shows "\<exists>pre rest. stream = pre @ rest \<and> sends (hb_payloads hold @ payloads pre) s s' \<and> ends_done pre"
  using assms forwardCommitted_sends [OF _ assms(3-6)]
  by (auto simp: stalled_def zero_attemptResult_def split: if_splits)

lemma forwards_later:
  assumes "forwards cfg dl stream (held @ payloads [x]) s1 s'" "sends [] s s1"
    "rs_clock s1 = rs_clock s + int (fst x)"
  shows "forwards cfg dl (x # stream) held s s'"
proof -
  from assms(1) obtain pre lost mid rest where fw: "stream = pre @ lost @ mid @ rest"
    "sends ((held @ payloads [x]) @ payloads (pre @ mid)) s1 s'" "ends_done mid" "length lost \<le> 1"
    "list_all (late cfg dl (rs_clock s1) pre) lost"
    unfolding forwards_def by blast
  have "payloads ((x # pre) @ mid) = payloads [x] @ payloads (pre @ mid)"
    using payloads_simps(2) [of "[x]" "pre @ mid"] by simp
  moreover have "late cfg dl (rs_clock s) (x # pre) = late cfg dl (rs_clock s1) pre"
    using assms(3) by (auto simp: late_def fun_eq_iff add.assoc)
  ultimately show ?thesis
    using fw sends_trans [OF assms(2) fw(2)] by (intro forwardsI [of _ "x # pre" lost mid rest]) (simp_all del: payloads_simps)
qed

lemma answer_forwards:
  \<comment> \<open>one turn of the loop whose read is answered with a chunk\<close>
  assumes out: "attempt_loop env cfg sid n dl (x # stream) hold a s = Returned result s'" "ar_committed result"
      "ar_reason result = []" "TrimSpace sid \<noteq> []" "errors_named env stream" "[] \<notin> set (hb_payloads hold)"
    and wait: "wait = min (cfg_RetryStallTimeout cfg) (Sub dl (rs_clock s))" "\<not> wait \<le> 0"
    and r: "readNestedChunk n wait (x # stream) s = (Some (ReadAnswer (Inr chunk), rest), s1)"
    and IH: "\<And>hold' a'. attempt_loop env cfg sid n dl stream hold' a' s1 = Returned result s' \<Longrightarrow>
      [] \<notin> set (hb_payloads hold') \<Longrightarrow> forwards cfg dl stream (hb_payloads hold') s1 s'"
  shows "forwards cfg dl (x # stream) (hb_payloads hold) s s'"
proof -
  note x = read_Cons(1) [OF r]
  note turn = out(1) [simplified, folded wait(1), simplified wait(2) r Let_def, simplified]
  obtain res commit hold' a' where step: "chunk_step env chunk hold a = (res, commit, hold', a')"
    by (metis prod_cases4)
  then have res: "res = None"
    using turn out(2) chunk_step_held(2) by (cases res) auto
  have held: "hb_payloads hold' = hb_payloads hold @ payloads [x]"
    using chunk_step_held(1) [OF step [unfolded res], of "fst x"] x by (metis prod.collapse)
  then have nonempty: "[] \<notin> set (hb_payloads hold')"
    using out(6) x by (cases x) auto
  have "forwards cfg dl stream (hb_payloads hold') s1 s'"
  proof (cases commit)
    case True
    with turn step res have "forwardCommitted env sid n hold' stream s1 = Returned result s'" by simp
    from forwardCommitted_sends [OF this out(3-5) nonempty] show ?thesis by (auto intro: forwards_direct)
  next
    case False
    with turn step res IH nonempty show ?thesis by simp
  qed
  with held x sends_silent [OF adds_read [OF r]] show ?thesis by (auto intro: forwards_later)
qed

lemma attempt_loop_forwards:
  assumes "attempt_loop env cfg sid n dl stream hold a s = Returned result s'" "ar_committed result"
    "ar_reason result = []" "TrimSpace sid \<noteq> []" "errors_named env stream" "[] \<notin> set (hb_payloads hold)"
  shows "forwards cfg dl stream (hb_payloads hold) s s'"
  using assms
proof (induction stream arbitrary: hold a s)
  case Nil
  let ?wait = "min (cfg_RetryStallTimeout cfg) (Sub dl (rs_clock s))"
  let ?s1 = "snd (readNestedChunk n ?wait [] s)"
  have "\<exists>pre rest. [] = pre @ rest \<and> sends t u s' \<and> ends_done pre \<Longrightarrow> False" for t u by (auto simp: ends_done_def)
  with Nil forwardCommitted_sends [OF _ Nil.prems(3-6), of n s s'] stalled_forwards [OF _ Nil.prems(2-6), of cfg n ?s1 s']
  show ?case by (auto simp: Let_def ends_done_def split: if_splits)
next
  case (Cons x stream)
  let ?wait = "min (cfg_RetryStallTimeout cfg) (Sub dl (rs_clock s))"
  from Cons.prems(5) have named: "errors_named env stream" by (auto simp: errors_named_def)
  show ?case
  proof (cases "?wait \<le> 0")
    case True
    with Cons.prems(1) have "forwardCommitted env sid n hold (x # stream) s = Returned result s'"
      by (simp add: Let_def)
    from forwardCommitted_sends [OF this Cons.prems(3-6)] show ?thesis by (auto intro: forwards_direct)
  next
    case wait: False
    obtain r s1 where r: "readNestedChunk n ?wait (x # stream) s = (r, s1)" by force
    have quiet: "sends [] s s1" by (rule sends_silent [OF adds_read [OF r]])
    show ?thesis
    proof (cases r rule: read_cases)
      case (answer chunk rest)
      with r have r': "readNestedChunk n ?wait (x # stream) s = (Some (ReadAnswer (Inr chunk), rest), s1)" by simp
      show ?thesis
        by (rule answer_forwards [OF Cons.prems(1-4) named Cons.prems(6) refl wait r'])
          (use Cons.IH [OF _ Cons.prems(2-4) named] in blast)
    next
      case (failed err rest)
      with Cons.prems(1,2) wait r show ?thesis by (auto simp: Let_def failed_with_def zero_attemptResult_def)
    next
      case silent
      then have "stalled env cfg sid n stream hold s1 = Returned result s'"
        using Cons.prems(1) wait r by (auto simp: Let_def)
      from stalled_forwards [OF this Cons.prems(2-4) named Cons.prems(6)] obtain mid rest where
        "stream = mid @ rest" "sends (hb_payloads hold @ payloads mid) s1 s'" "ends_done mid" by blast
      moreover have "late cfg dl (rs_clock s) [] x"
        using read_Cons(2) [OF r] silent by (auto simp: late_def min_def split: if_splits)
      ultimately show ?thesis
        using sends_trans [OF quiet, of "hb_payloads hold @ payloads mid" s']
        by (intro forwardsI [of _ "[]" "[x]" mid rest]) simp_all
    qed
  qed
qed

text \<open>
  C17. An attempt that commits and finishes without an error forwards the payloads of its
  stream in order, from the first one to the chunk that is marked done, with at most one
  gap: the answer to the read that missed the stall timeout or the end of the hold window is
  lost. Reads that are answered in time are all forwarded.
\<close>

theorem committed_attempt_forwards:
  assumes "openNestedStream env cfg exec cb state protocol s = Returned (Ready n stream) s1"
    and "runRetryAttempt env cfg exec cb state protocol sid deadline s = Returned result s'"
    and "ar_committed result" "ar_reason result = []" "TrimSpace sid \<noteq> []" "errors_named env stream"
  shows "\<exists>pre lost mid rest calls. stream = pre @ lost @ mid @ rest
     \<and> rs_calls s' = rs_calls s1 @ calls \<and> emitted calls = payloads (pre @ mid) \<and> ends_done mid
     \<and> length lost \<le> 1
     \<and> list_all (late cfg (min deadline (Add (rs_clock s1) (cfg_RetryHoldTimeout cfg))) (rs_clock s1) pre) lost"
proof -
  let ?dl = "min deadline (Add (rs_clock s1) (cfg_RetryHoldTimeout cfg))"
  let ?hold = "\<lparr>hb_payloads = [], hb_bytes = 0, hb_frames = 0, hb_limitFrames = cfg_RetryMaxFrames cfg,
            hb_limitBytes = cfg_RetryMaxBytes cfg\<rparr>"
  have "attempt_loop env cfg sid n ?dl stream ?hold \<lparr>fa_protocol = protocol, fa_pending = []\<rparr> s1 = Returned result s'"
    using assms(1,2) by (simp add: runRetryAttempt_def)
  from attempt_loop_forwards [OF this assms(3-6)] have "forwards cfg ?dl stream [] s1 s'" by simp
  then show ?thesis by (auto simp: forwards_def sends_def)
qed

end
