(* ===== verification/Retry_Runs.thy ===== *)
theory Retry_Runs
  imports Retry_Stream_Props
begin

text \<open>
  Runs of the retry chain on concrete streams: the witnesses of the properties of
  \<open>Retry_Props\<close> and \<open>Retry_Stream_Props\<close>, and the inputs on which the code does not do what its
  comments say. The budgets are a few nanoseconds so that the runs evaluate.
\<close>

section \<open>Runs on concrete streams\<close>

definition no_json :: json_lib where
  \<comment> \<open>a decoder that accepts nothing\<close>
  "no_json = \<lparr>jl_valid = (\<lambda>_. False), jl_any = (\<lambda>_. None), jl_object = (\<lambda>_. None), jl_array = (\<lambda>_. None),
     jl_string = (\<lambda>_. None), jl_marshal_string = id, jl_marshal_array = concat, jl_marshal_object = (\<lambda>_. [])\<rparr>"

definition text_chunk :: "string \<Rightarrow> read_answer" where
  "text_chunk payload = Inr \<lparr>ck_Payload = payload, ck_Error = [], ck_Done = False\<rparr>"

definition done_chunk :: read_answer where
  "done_chunk = Inr \<lparr>ck_Payload = [], ck_Error = [], ck_Done = True\<rparr>"

definition stream_env :: "nested_stream \<Rightarrow> retry_env" where
  \<comment> \<open>every opening succeeds with the given stream, every emission succeeds\<close>
  "stream_env stream = \<lparr>re_json = no_json, re_open = (\<lambda>_ _. (1, Opened 200 ''n1'' stream)),
     re_emit = (\<lambda>_ _. (1, None)), re_durationString = (\<lambda>_. ''1m0s'')\<rparr>"

definition demo_exec :: ExecutorRequest where
  "demo_exec = \<lparr>ex_Model = ''gpt'', ex_Payload = ''{}'', ex_OriginalRequest = [], ex_SourceFormat = ''codex'',
     ex_Format = [], ex_Metadata = [], ex_Headers = [], ex_Query = [], ex_Alt = []\<rparr>"

definition demo_cfg :: Config where
  \<comment> \<open>budgets in nanoseconds\<close>
  "demo_cfg = DefaultConfig\<lparr>cfg_RetryStallTimeout := 60, cfg_RetryHoldTimeout := 90, cfg_RetryChainDeadline := 240\<rparr>"

definition demo_request :: rpcExecutorRequest where
  "demo_request = \<lparr>xr_Exec = demo_exec, xr_StreamID = ''c1'', xr_HostCallbackID = ''cb''\<rparr>"

definition demo_start :: retry_state where
  "demo_start = \<lparr>rs_clock = 1000, rs_calls = [], rs_stats = \<lparr>st_requests = 0, st_retries = 0, st_succeeded = 0,
     st_failed = 0, st_shadowHits = 0, st_events = []\<rparr>, rs_logs = []\<rparr>"

definition heartbeat :: string where
  "heartbeat = [CHR '':'', CHR ''p'', CHR 0x0A, CHR 0x0A]"

definition hello :: string where
  "hello = [CHR ''d'', CHR ''a'', CHR ''t'', CHR ''a'', CHR '':'', CHR ''h'', CHR 0x0A, CHR 0x0A]"

definition prompt_stream :: nested_stream where
  "prompt_stream = [(5, text_chunk heartbeat), (5, text_chunk hello), (5, done_chunk)]"

definition stalling_stream :: nested_stream where
  "stalling_stream = [(5, text_chunk heartbeat), (70, text_chunk hello), (5, done_chunk)]"

lemmas demo_defs = no_json_def text_chunk_def done_chunk_def stream_env_def demo_exec_def demo_request_def
  demo_start_def heartbeat_def hello_def prompt_stream_def stalling_stream_def

definition sent_to_client :: "nested_stream \<Rightarrow> bool \<times> host_call list" where
  \<comment> \<open>did the request end, and the calls the client sees\<close>
  "sent_to_client stream =
    (case executeRetryChainStream (stream_env stream) demo_cfg demo_request demo_start of
       Returned (Inr _) s \<Rightarrow> (True, filter (\<lambda>c. is_emit c \<or> is_close c) (rs_calls s))
     | out \<Rightarrow> (False, filter (\<lambda>c. is_emit c \<or> is_close c) (rs_calls (final_state out))))"

lemma prompt_run: "sent_to_client prompt_stream
    = (True, [CallEmit ''c1'' heartbeat, CallEmit ''c1'' hello, CallClose ''c1'' []])"
  by code_simp

text \<open>
  A chunk that answers a read after its stall timeout is dropped although the attempt goes
  on (\<^verbatim>\<open>readNestedChunk\<close> abandons the goroutine, \<^verbatim>\<open>forwardCommitted\<close> reads on): the client receives
  the heartbeat, not the output, and the stream is closed as a success.
\<close>

lemma stalled_chunk_lost: "sent_to_client stalling_stream
    = (True, [CallEmit ''c1'' heartbeat, CallClose ''c1'' []])"
  by code_simp

text \<open>
  After the chunk marked done the chain reads once more, without a deadline
  (\<^verbatim>\<open>forwardCommitted\<close> ignores the mark of the chunk that led to it): if the host has nothing more
  to say, the client's stream is never closed.
\<close>

lemma read_after_done: "sent_to_client [(5, text_chunk heartbeat), (5, done_chunk)]
    = (False, [CallEmit ''c1'' heartbeat])"
  by code_simp


theorem attempts_follow_plan_witness:
  "\<exists>k xs. rs_calls (final_state (runRetryChain (stream_env prompt_stream) demo_cfg demo_request ''c1'' demo_start)) = rs_calls demo_start @ xs
     \<and> k \<le> TargetCount (retrySingleTargetPlan ''gpt'') \<and> k \<le> maxRetryMaxAttempts
     \<and> opened_targets xs = map (planned_target demo_exec (retrySingleTargetPlan ''gpt'')) [0 .. k - 1]"
proof -
  have wf: "config_wf demo_cfg" using DefaultConfig_wf by (simp add: demo_cfg_def config_wf_def)
  have live: "\<not> cfg_RetryShadow demo_cfg" by (simp add: demo_cfg_def)
  have sid: "TrimSpace ''c1'' \<noteq> []" by code_simp
  have "retrySingleTargetPlan ''gpt'' = (case RetryPlanFor demo_cfg (retryRequestedModel (xr_Exec demo_request)) of
      Some plan \<Rightarrow> plan | None \<Rightarrow> retrySingleTargetPlan (retryRequestedModel (xr_Exec demo_request)))"
    by code_simp
  from attempts_follow_plan [OF wf live sid this, of "stream_env prompt_stream" demo_start]
  show ?thesis by (simp add: demo_request_def)
qed

theorem assembler_ignores_chunking_witness:
  "fst (absorb_all no_json [heartbeat @ ''da'', ''ta:h'' @ frame_end] \<lparr>fa_protocol = protocolCodex, fa_pending = []\<rparr>)
   = first_decisive no_json protocolCodex (complete_frames (heartbeat @ ''data:h'' @ frame_end))"
  using assembler_ignores_chunking [of "[heartbeat @ ''da'', ''ta:h'' @ frame_end]" no_json protocolCodex]
  by (simp add: no_bare_json_def no_json_def)

section \<open>An attempt with a stall\<close>

definition demo_state :: retryAttemptState where
  "demo_state = \<lparr>as_index = 0, as_target = \<lparr>rt_Provider = [], rt_Model = ''gpt''\<rparr>,
     as_requested = \<lparr>rt_Provider = [], rt_Model = ''gpt''\<rparr>\<rparr>"

definition demo_opened :: retry_state where
  "demo_opened = call_host (CallOpen \<lparr>hm_EntryProtocol = ''codex'', hm_ExitProtocol = ''codex'', hm_Model = ''gpt'',
     hm_Stream = True, hm_Body = ''{}'', hm_Headers = [], hm_Query = [], hm_Alt = [], hm_ForcedProvider = [],
     hm_HostCallbackID = ''cb''\<rparr>) 1 demo_start"

lemma demo_open: "openNestedStream (stream_env stalling_stream) demo_cfg demo_exec ''cb'' demo_state ''codex'' demo_start
    = Returned (Ready ''n1'' stalling_stream) demo_opened"
  by code_simp

definition demo_end :: retry_state where
  "demo_end = demo_opened\<lparr>rs_clock := 1072, rs_calls := rs_calls demo_opened @ [CallNestedRead ''n1'', CallNestedRead ''n1'',
     CallEmit ''c1'' heartbeat, CallNestedRead ''n1'', CallNestedClose ''n1'']\<rparr>"

lemma demo_attempt: "runRetryAttempt (stream_env stalling_stream) demo_cfg demo_exec ''cb'' demo_state ''codex'' ''c1'' 1240 demo_start
    = Returned (committed_with []) demo_end"
  by code_simp

theorem committed_attempt_forwards_witness:
  "\<exists>pre lost mid rest calls. stalling_stream = pre @ lost @ mid @ rest
     \<and> rs_calls demo_end = rs_calls demo_opened @ calls \<and> emitted calls = payloads (pre @ mid) \<and> ends_done mid
     \<and> length lost \<le> 1 \<and> list_all (late demo_cfg (min 1240 (Add (rs_clock demo_opened) (cfg_RetryHoldTimeout demo_cfg)))
          (rs_clock demo_opened) pre) lost"
proof -
  have "errors_named (stream_env stalling_stream) stalling_stream"
    by (simp add: errors_named_def stream_env_def stalling_stream_def text_chunk_def done_chunk_def)
  moreover have "TrimSpace ''c1'' \<noteq> []" by code_simp
  ultimately show ?thesis
    using committed_attempt_forwards [OF demo_open demo_attempt] by simp
qed

section \<open>Comments and code\<close>

text \<open>
  \<^verbatim>\<open>retryableStatusInText\<close> is meant to match a status used as a standalone number, not one inside an
  identifier or a duration. Any other byte than a digit ends a token, so both match; and a
  long number wraps around to a status.
\<close>

lemma status_in_duration: "retryableStatusInText ''waited 500ms'' = Some 500"
  by code_simp

lemma status_in_identifier: "retryableStatusInText ''req_429abc'' = Some 429"
  by code_simp

lemma status_wraps: "retryableStatusInText ''18446744073709552045'' = Some 429"
  by code_simp

text \<open>The magnitude of the least 64-bit integer wraps, and its digits are lost.\<close>

lemma formatInt_least: "formatInt (- (2 ^ 63)) = ''-''"
  by code_simp

text \<open>\<^verbatim>\<open>completeOnly\<close> has no effect: both branches hand the fragment to the frame classifier.\<close>

lemma buffer_loop_completeOnly: "buffer_loop J protocol c sawFrame tx = buffer_loop J protocol c' sawFrame tx"
proof (induction J protocol c sawFrame tx rule: buffer_loop.induct)
  case (1 J protocol c sawFrame tx)
  show ?case
  proof (cases "cut_at frame_end tx")
    case None
    then show ?thesis by (subst buffer_loop.simps, subst (2) buffer_loop.simps) simp
  next
    case (Some fr)
    obtain frame rest where fr: "fr = (frame, rest)" by force
    show ?thesis
      using "1" [OF Some fr [symmetric] refl] Some fr
      by (subst buffer_loop.simps, subst (2) buffer_loop.simps) (simp add: Let_def)
  qed
qed

lemma completeOnly_no_effect: "classifyStreamBuffer J buffer protocol True = classifyStreamBuffer J buffer protocol False"
  unfolding classifyStreamBuffer_def using buffer_loop_completeOnly by simp

text \<open>A field \<^verbatim>\<open>error\<close> whose value is \<^verbatim>\<open>null\<close> is four bytes long, so it makes a frame a failure.\<close>

lemma null_error_is_failure:
  "jl_object J data = Some (Some object) \<Longrightarrow> gget object ''error'' = Some ''null'' \<Longrightarrow> data \<noteq> [] \<Longrightarrow>
   fv_Disposition (classifyChatCompletionFrame J data) = frameFailure"
  by (simp add: classifyChatCompletionFrame_def jsonField_def)

text \<open>
  Lines may end in a carriage return, frames may not: after a blank line of CR LF the frame is
  still pending and decides nothing.
\<close>

lemma crlf_frame_pending:
  "fst (absorb no_json (''data:h'' @ [CHR 0x0D, CHR 0x0A, CHR 0x0D, CHR 0x0A]) \<lparr>fa_protocol = protocolCodex, fa_pending = []\<rparr>) = None"
  "fst (absorb no_json (''data:h'' @ [CHR 0x0A, CHR 0x0A]) \<lparr>fa_protocol = protocolCodex, fa_pending = []\<rparr>) = Some (verdict_of frameContent)"
  by code_simp+

text \<open>
  A request for a model with a thinking suffix is claimed by the route through the row of the
  base model, but the executor looks the full name up and runs without any fallback.
\<close>

definition suffix_cfg :: Config where
  "suffix_cfg = DefaultConfig\<lparr>cfg_RetryEnabled := True,
     cfg_RetryChain := [\<lparr>rr_Model = ''gpt'', rr_Fallbacks = [\<lparr>rt_Provider = [], rt_Model = ''alt''\<rparr>]\<rparr>]\<rparr>"

lemma suffix_routed_without_fallback:
  "routeRetryChain suffix_cfg True ''gpt(high)'' = RouteSelf ''retry chain''"
  "map_option TargetCount (retryPlanForRequest suffix_cfg ''gpt(high)'') = Some 2"
  "RetryPlanFor suffix_cfg ''gpt(high)'' = None"
  by code_simp+

end
