(* ===== verification/Retry_Body.thy ===== *)
theory Retry_Body
  imports Retry_Runtime
begin

text \<open>
  The body of an attempt that switches models (\<open>retryAttemptBody\<close>). What the rewriting relies on is
  that \<^verbatim>\<open>encoding/json\<close> decodes what it encoded (\<open>json_ok\<close>); the witness uses a small self-delimiting
  encoding that has this property.
\<close>

section \<open>Rewriting the body\<close>

definition json_ok :: "json_lib \<Rightarrow> bool" where
  \<comment> \<open>encoding then decoding gives the value back\<close>
  "json_ok J \<longleftrightarrow> (\<forall>m. gmap_wf m \<longrightarrow> jl_object J (jl_marshal_object J m) = Some (Some m))
     \<and> (\<forall>xs. jl_array J (jl_marshal_array J xs) = Some xs) \<and> (\<forall>t. jl_string J (jl_marshal_string J t) = Some t)
     \<and> (\<forall>xs. jl_marshal_array J xs \<noteq> [])"

lemma strip_removes:
  assumes "json_ok J" "stripEncryptedReasoning J raw = Some filtered"
  shows "\<exists>items. jl_array J raw = Some items
     \<and> jl_array J filtered = Some (filter (\<lambda>item. \<not> retryItemIsEncryptedReasoning J item) items)"
  using assms by (auto simp: stripEncryptedReasoning_def json_ok_def Let_def split: if_splits option.splits)

lemma strip_none:
  assumes "stripEncryptedReasoning J raw = None" "jl_array J raw = Some items" "raw \<noteq> []"
  shows "\<not> list_ex (retryItemIsEncryptedReasoning J) items"
  using assms by (auto simp: stripEncryptedReasoning_def Let_def split: if_splits)



section \<open>An encoding that decodes\<close>

definition enc_item :: "string \<Rightarrow> string" where
  \<comment> \<open>every byte behind a mark, the item behind a terminator\<close>
  "enc_item t = concat (map (\<lambda>c. [CHR ''x'', c]) t) @ '';''"

fun dec_items :: "string \<Rightarrow> string \<Rightarrow> string list option" where
  "dec_items cur [] = (if cur = [] then Some [] else None)"
| "dec_items cur [c] = (if c = CHR '';'' then Some [cur] else None)"
| "dec_items cur (c # d # s) =
    (if c = CHR '';'' then map_option ((#) cur) (dec_items [] (d # s))
     else if c = CHR ''x'' then dec_items (cur @ [d]) s else None)"

lemma dec_items_bytes: "dec_items cur (concat (map (\<lambda>c. [CHR ''x'', c]) t) @ s) = dec_items (cur @ t) s"
  by (induction t arbitrary: cur) auto

lemma dec_items_sep: "dec_items cur (CHR '';'' # s) = map_option ((#) cur) (dec_items [] s)"
  by (cases s) auto

lemma dec_enc: "dec_items [] (concat (map enc_item ts)) = Some ts"
proof (induction ts)
  case (Cons t ts)
  then show ?case by (simp add: enc_item_def dec_items_bytes dec_items_sep)
qed simp

fun pair_up :: "string list \<Rightarrow> (string, string) gmap option" where
  "pair_up [] = Some []"
| "pair_up [k] = None"
| "pair_up (k # v # ts) = map_option ((#) (k, v)) (pair_up ts)"

lemma pair_up_flat: "pair_up (concat (map (\<lambda>(k, v). [k, v]) m)) = Some m"
  by (induction m) auto

definition item_json :: json_lib where
  "item_json = \<lparr>jl_valid = (\<lambda>_. True), jl_any = (\<lambda>_. None),
     jl_object = (\<lambda>s. case s of c # s' \<Rightarrow> if c = CHR ''{''
       then map_option Some (Option.bind (dec_items [] s') pair_up) else None | [] \<Rightarrow> None),
     jl_array = (\<lambda>s. case s of c # s' \<Rightarrow> if c = CHR ''['' then dec_items [] s' else None | [] \<Rightarrow> None),
     jl_string = (\<lambda>s. case s of c # s' \<Rightarrow> if c = CHR ''s'' then Some s' else None | [] \<Rightarrow> None),
     jl_marshal_string = (\<lambda>t. CHR ''s'' # t),
     jl_marshal_array = (\<lambda>ts. CHR ''['' # concat (map enc_item ts)),
     jl_marshal_object = (\<lambda>m. CHR ''{'' # concat (map enc_item (concat (map (\<lambda>(k, v). [k, v]) m))))\<rparr>"

lemma item_json_ok: "json_ok item_json"
  by (simp add: json_ok_def item_json_def dec_enc pair_up_flat)

definition reasoning_item :: string where
  "reasoning_item = jl_marshal_object item_json [(''type'', ''sreasoning''), (''encrypted_content'', ''sabc'')]"

definition demo_object :: "(string, string) gmap" where
  "demo_object = [(''model'', ''sgpt''), (''input'', jl_marshal_array item_json [reasoning_item, ''shi''])]"

definition switching_exec :: ExecutorRequest where
  "switching_exec = \<lparr>ex_Model = ''gpt'', ex_Payload = jl_marshal_object item_json demo_object, ex_OriginalRequest = [],
     ex_SourceFormat = ''codex'', ex_Format = [], ex_Metadata = [], ex_Headers = [], ex_Query = [], ex_Alt = []\<rparr>"

definition switching_state :: retryAttemptState where
  "switching_state = \<lparr>as_index = 1, as_target = \<lparr>rt_Provider = [], rt_Model = ''alt''\<rparr>,
     as_requested = \<lparr>rt_Provider = [], rt_Model = ''gpt''\<rparr>\<rparr>"

definition switched :: string where
  "switched = jl_marshal_object item_json
     [(''model'', ''salt''), (''input'', jl_marshal_array item_json [''shi''])]"

lemma switched_run: "retryAttemptBody item_json DefaultConfig switching_exec switching_state = Some switched"
  by code_simp


end
