(* ===== verification/Retry_Classify_Props.thy ===== *)
theory Retry_Classify_Props
  imports Retry_Classify
begin

text \<open>
  The two ways a status reaches the retry chain agree: the status the host attached to a
  failure (\<open>classifyRetryStatus\<close>) and the text of a failure that only prints it
  (\<open>classifyRetryFailure\<close>). On the way, \<open>formatInt\<close> is the decimal notation and reading the
  digits back gives the number.
\<close>

section \<open>Decimal notation\<close>

lemma digits_loop_eq: "0 < v \<Longrightarrow> digits_loop v acc = nat_digits (nat v) @ acc"
proof (induction v acc rule: digits_loop.induct)
  case (1 v acc)
  let ?c = "char_of (nat (48 + v mod 10)) :: char"
  have c: "?c = char_of (48 + nat v mod 10)"
    using "1.prems" by (simp add: nat_add_distrib nat_mod_distrib)
  have unfold: "digits_loop v acc = digits_loop (v div 10) (?c # acc)"
    using "1.prems" by (subst digits_loop.simps) simp
  show ?case
  proof (cases "v < 10")
    case True
    then have "v div 10 = 0" using "1.prems" by simp
    then have "digits_loop (v div 10) (?c # acc) = ?c # acc" by (simp add: digits_loop.simps)
    moreover have "nat_digits (nat v) = [?c]"
      using True c nat_less_iff [of v 10] "1.prems" by (simp add: nat_digits.simps [of "nat v"])
    ultimately show ?thesis using unfold by simp
  next
    case False
    then have "digits_loop (v div 10) (?c # acc) = nat_digits (nat (v div 10)) @ ?c # acc"
      using "1.IH" "1.prems" by simp
    moreover have "nat_digits (nat v) = nat_digits (nat v div 10) @ [?c]"
      using False c nat_less_iff [of v 10] "1.prems" by (simp add: nat_digits.simps [of "nat v"])
    moreover have "nat (v div 10) = nat v div 10" using "1.prems" by (simp add: nat_div_distrib)
    ultimately show ?thesis using unfold by simp
  qed
qed

lemma formatInt_nonneg: "0 \<le> v \<Longrightarrow> formatInt v = nat_digits (nat v)"
proof (cases "v = 0")
  case True
  have "nat_digits 0 = ''0''" by code_simp
  with True show ?thesis by (simp add: formatInt_def)
next
  case False
  moreover assume "0 \<le> v"
  ultimately show ?thesis using digits_loop_eq [of v "[]"] by (simp add: formatInt_def Let_def)
qed

lemma formatInt_negative: "- (2 ^ 63) < v \<Longrightarrow> v < 0 \<Longrightarrow> formatInt v = CHR ''-'' # nat_digits (nat (- v))"
  using digits_loop_eq [of "- v" "[]"] by (simp add: formatInt_def Let_def wrap64_id)

lemma digit_char: "d < 10 \<Longrightarrow> is_digit (char_of (48 + d :: nat)) \<and> of_char (char_of (48 + d) :: char) = (48 + d :: nat)"
  by (auto simp: is_digit_def less_eq_char_def)

lemma nat_digits_digits: "list_all is_digit (nat_digits n) \<and> nat_digits n \<noteq> []"
proof (induction n rule: nat_digits.induct)
  case (1 n)
  then show ?case by (subst (1 2) nat_digits.simps) (auto simp: digit_char)
qed

lemma token_status_digits: "n < 2 ^ 63 \<Longrightarrow> token_status (nat_digits n) = int n"
proof (induction n rule: nat_digits.induct)
  case (1 n)
  show ?case
  proof (cases "n < 10")
    case True
    then show ?thesis
      using digit_char [of n] by (subst nat_digits.simps) (simp add: token_status_def wrap64_id)
  next
    case False
    then have "token_status (nat_digits (n div 10)) = int (n div 10)" using "1" by simp
    moreover have "int (n div 10) * 10 + int (n mod 10) = int n" by presburger
    ultimately show ?thesis
      using False digit_char [of "n mod 10"] "1.prems"
      by (subst nat_digits.simps) (simp add: token_status_def wrap64_id)
  qed
qed

lemma tokens_loop_digits: "list_all is_digit ds \<Longrightarrow> cur @ ds \<noteq> [] \<Longrightarrow> tokens_loop cur ds = [cur @ ds]"
  by (induction ds arbitrary: cur) auto

lemma tokens_loop_skip: "list_all (\<lambda>c. \<not> is_digit c) a \<Longrightarrow> tokens_loop [] (a @ ds) = tokens_loop [] ds"
  by (induction a) auto

section \<open>The text that names a status\<close>

abbreviation (input) status_text :: "int \<Rightarrow> string" where
  "status_text status \<equiv> ''upstream status '' @ formatInt status"

lemma Index_set: "Index sub s = Some i \<Longrightarrow> set sub \<subseteq> set s"
  using Index_Some by (metis in_set_dropD in_set_takeD subsetI)

lemma Contains_digits:
  assumes "set sub \<inter> set ds = {}" "sub \<noteq> []"
  shows "Contains (a @ ds) sub = Contains a sub"
  using assms
proof (induction a)
  case Nil
  have "Index sub ds = None"
  proof (rule ccontr)
    assume "Index sub ds \<noteq> None"
    then obtain i where "Index sub ds = Some i" by auto
    with Index_set Nil show False by (metis inf.absorb1 set_empty)
  qed
  with Nil show ?case by (simp add: Contains_def)
next
  case (Cons c a)
  have "take (length sub) (c # a @ ds) = sub \<longleftrightarrow> take (length sub) (c # a) = sub"
  proof (cases "length sub \<le> length (c # a)")
    case True
    then show ?thesis using take_append [of "length sub" "c # a" ds] by simp
  next
    case False
    then have "take (length sub) (c # a) \<noteq> sub" by (metis length_take linorder_le_cases min.absorb1 nle_le)
    moreover have "take (length sub) (c # a @ ds) \<noteq> sub"
    proof
      assume eq: "take (length sub) (c # a @ ds) = sub"
      with False have sub: "sub = c # a @ take (length sub - length (c # a)) ds"
        using take_append [of "length sub" "c # a" ds] by simp
      with False have "take (length sub - length (c # a)) ds \<noteq> []"
        by (metis append_Nil2 eq length_Cons linorder_not_le order_refl)
      then obtain e where "e \<in> set ds" "e \<in> set sub" using sub
        by (metis Un_iff hd_in_set in_set_takeD set_ConsD set_append append_Cons)
      with Cons.prems show False by blast
    qed
    ultimately show ?thesis by simp
  qed
  with Cons show ?case by (auto simp: Contains_def)
qed

lemma leading_space_None: "\<forall>r \<in> set runes. r \<noteq> [] \<longrightarrow> hd r \<noteq> c \<Longrightarrow> leading_space runes (c # s) = None"
  by (auto simp: leading_space_def find_None_iff) (metis hd_take length_greater_0_conv list.sel(1))

lemma TrimSpace_word:
  assumes "\<forall>r \<in> set space_runes. hd r \<noteq> c" "\<forall>r \<in> set space_runes. last r \<noteq> d"
  shows "TrimSpace (c # s @ [d]) = c # s @ [d]"
proof -
  have "leading_space space_runes (c # s @ [d]) = None" using assms(1) by (intro leading_space_None) simp
  moreover have "leading_space (map rev space_runes) (d # rev s @ [c]) = None"
    using assms(2) space_runes_nonempty by (intro leading_space_None) (auto simp: hd_rev)
  ultimately show ?thesis by (simp add: TrimSpace_def trim_left_by_id)
qed

lemma digit_not_space: "is_digit d \<Longrightarrow> r \<in> set space_runes \<Longrightarrow> last r \<noteq> d \<and> d \<noteq> CHR ''{''"
  by (auto simp: space_runes_def is_digit_def less_eq_char_def)

lemma Index_single_None: "c \<notin> set s \<Longrightarrow> Index [c] s = None"
  by (induction s) auto

lemma status_text_trim:
  assumes "list_all is_digit ds" "ds \<noteq> []"
  shows "TrimSpace (''upstream status '' @ ds) = ''upstream status '' @ ds"
proof -
  obtain es d where ds: "ds = es @ [d]" using assms(2) by (metis append_butlast_last_id)
  with assms(1) have "is_digit d" by simp
  then show ?thesis
    using TrimSpace_word [of "CHR ''u''" d "''pstream status '' @ es"] digit_not_space ds
    by (simp add: space_runes_def)
qed

lemma digits_lower: "list_all is_digit ds \<Longrightarrow> ToLower ds = ds"
  by (induction ds) (auto simp: ToLower_def lower_char_def is_digit_def less_eq_char_def)

lemma letters_not_digits:
  "list_all is_digit ds \<Longrightarrow> list_all (\<lambda>c. \<not> is_digit c) sub \<Longrightarrow> set sub \<inter> set ds = {}"
  by (auto simp: list_all_iff)

lemma status_text_markers:
  "list_all (\<lambda>m. list_all (\<lambda>c. \<not> is_digit c) m \<and> m \<noteq> [] \<and> \<not> Contains ''upstream status '' m)
     (retryTransportMarkers @ [''model is at capacity'', ''model_at_capacity'', ''model_is_at_capacity'',
        ''at capacity'', ''capacity''])"
  by code_simp

lemma status_text_plain:
  assumes "list_all is_digit ds"
  shows "\<not> isModelCapacityText (''upstream status '' @ ds)" "transportMarkerInText (''upstream status '' @ ds) = None"
proof -
  have no: "\<not> Contains (''upstream status '' @ ds) m" if "m \<in> set (retryTransportMarkers @
      [''model is at capacity'', ''model_at_capacity'', ''model_is_at_capacity'', ''at capacity'', ''capacity''])" for m
    using that status_text_markers Contains_digits [of m ds] letters_not_digits [OF assms, of m]
    unfolding list_all_iff by blast
  show "transportMarkerInText (''upstream status '' @ ds) = None"
    unfolding transportMarkerInText_def find_None_iff using no by auto
  show "\<not> isModelCapacityText (''upstream status '' @ ds)"
    unfolding isModelCapacityText_def using no [of "''capacity''"] no [of "''at capacity''"]
      no [of "''model is at capacity''"] no [of "''model_at_capacity''"] no [of "''model_is_at_capacity''"] by simp
qed

text \<open>
  A status is judged the same way whether the host reports it as a number or only the
  text of the failure names it: the text \<^verbatim>\<open>upstream status N\<close> is retryable for exactly the
  statuses that are, and the status is read back from it.
\<close>

theorem status_and_text_agree:
  assumes "0 \<le> status" "status < 2 ^ 63"
  shows "let c = classifyRetryStatus status; t = classifyRetryFailure J (rcl_Reason c)
         in rcl_Retryable t = rcl_Retryable c \<and> (rcl_Retryable c \<longrightarrow> rcl_Status t = rcl_Status c)"
proof -
  define ds where "ds = formatInt status"
  let ?t = "''upstream status '' @ ds"
  have digits: "list_all is_digit ds" "ds \<noteq> []"
    using nat_digits_digits [of "nat status"] assms by (simp_all add: ds_def formatInt_nonneg)
  note trim = status_text_trim [OF digits]
  have lower: "ToLower ?t = ?t" using digits_lower [OF digits(1)] by (simp add: ToLower_def lower_char_def less_eq_char_def)
  have "CHR ''{'' \<notin> set ds" using digits(1) by (auto simp: list_all_iff is_digit_def less_eq_char_def)
  then have body: "extractJSONErrorObject J ?t = []"
    using trim Index_single_None [of "CHR ''{''" ?t] by (simp add: extractJSONErrorObject_def HasPrefix_def)
  have fields: "jsonStringField J [] path = []" "error_field J [] key = []" for path key
    by (simp_all add: jsonStringField_def error_field_def firstNonEmpty_def ToLower_def)
  note plain = status_text_plain [OF digits(1)]
  have empty: "\<not> isModelCapacityText []" "ToLower [] = []" by (simp_all add: isModelCapacityText_def ToLower_def)
  have "numericTokens ?t = [ds]"
    using tokens_loop_skip [of "''upstream status ''" ds] tokens_loop_digits [OF digits(1), of "[]"] digits(2)
    by (simp add: numericTokens_def is_digit_def less_eq_char_def)
  moreover have "token_status ds = status"
    using token_status_digits [of "nat status"] assms by (simp add: ds_def formatInt_nonneg)
  ultimately have found: "retryableStatusInText ?t = (if status \<in> retryableStatuses then Some status else None)"
    by (simp add: retryableStatusInText_def)
  show ?thesis
    using trim lower body fields plain empty found
    by (simp add: classifyRetryFailure_def classifyRetryStatus_def ds_def [symmetric] Let_def)
qed

theorem status_and_text_agree_witness:
  "\<forall>J. let c = classifyRetryStatus 503; t = classifyRetryFailure J (rcl_Reason c)
   in rcl_Retryable t = rcl_Retryable c \<and> rcl_Status t = 503"
  using status_and_text_agree [of 503] by (simp add: Let_def classifyRetryStatus_def retryableStatuses_def)

end
