(* ===== verification/Usage.thy ===== *)
theory Usage
  imports Scheduler Retry_Frames
begin

text \<open>
  Feedback from real traffic. \<^verbatim>\<open>stream_observer.go\<close>: the framer that looks for \<^verbatim>\<open>codex.rate_limits\<close> events in
  the chunks of a stream, and the quota windows read from an event or from response headers.
  \<^verbatim>\<open>usage.go\<close>: the usage record of a finished request, which reports success or an exhausted quota.
  \<^verbatim>\<open>request_complete.go\<close>: the terminal event of a request. \<^verbatim>\<open>dispatch.go\<close>: \<^verbatim>\<open>handleUsageHandle\<close>, which feeds a
  usage record to the plugin state, the trial registry and the published snapshot.

  The typed decodings of \<^verbatim>\<open>encoding/json\<close>, \<^verbatim>\<open>time.Parse(RFC3339)\<close>, \<^verbatim>\<open>strconv.ParseFloat\<close>, \<^verbatim>\<open>formatTime\<close> and \<^verbatim>\<open>redactSecrets\<close> are
  fields of \<open>usage_env\<close>. Log messages are their UTF-8 bytes.
\<close>

section \<open>What the host reports\<close>

record codexRateLimitWindow =
  cw_UsedPercent :: "float64 option"
  cw_WindowMinutes :: "float64 option"
  cw_ResetAfterSeconds :: "float64 option"
  cw_ResetAt :: "float64 option"

record codexRateLimitsPayload =
  cp_Allowed :: "bool option"
  cp_LimitReached :: "bool option"
  cp_Primary :: "codexRateLimitWindow option"
  cp_Secondary :: "codexRateLimitWindow option"

record quotaFailureDetails =
  qd_Type :: string
  qd_ResetsAt :: string
  qd_ResetsInSeconds :: string

record quotaFailureBody =
  qb_Top :: quotaFailureDetails
  qb_Error :: "quotaFailureDetails option"

record UsageRecord =
  ur_Provider :: string
  ur_AuthID :: string
  ur_AuthIndex :: string
  ur_Failed :: bool
  ur_StatusCode :: int
  ur_Body :: string
  ur_ResponseHeaders :: "(string, string list) gmap"

record QuotaFailureEvent =
  qe_AuthID :: string
  qe_AuthIndex :: string
  qe_ResetAt :: time
  qe_Reason :: string

datatype RequestOutcome = OutcomeRejected | OutcomeCanceled | OutcomeSucceeded | OutcomeOther

record RequestCompletion =
  cm_RequestID :: string
  cm_RequestedModel :: string
  cm_Outcome :: RequestOutcome
  cm_OutcomeText :: string
  cm_StatusCode :: int
  cm_Error :: string
  cm_Metadata :: "(string, go_any) gmap"

record StreamChunkInterceptRequest =
  sq_RequestID :: string
  sq_HeaderInit :: bool \<comment> \<open>\<^verbatim>\<open>ChunkIndex == StreamChunkHeaderInitIndex\<close>\<close>
  sq_Body :: string
  sq_HasHistory :: bool
  sq_Metadata :: "(string, go_any) gmap"

record usage_env =
  ue_event :: "string \<Rightarrow> codexRateLimitsPayload option" \<comment> \<open>\<^verbatim>\<open>None\<close>: an error or no \<^verbatim>\<open>rate_limits\<close>\<close>
  ue_failure :: "string \<Rightarrow> quotaFailureBody option"
  ue_string :: "string \<Rightarrow> string option"
  ue_number :: "string \<Rightarrow> string option"
  ue_rfc3339 :: "string \<Rightarrow> time option"
  ue_float :: "string \<Rightarrow> float64 option"
  ue_formatTime :: "time \<Rightarrow> string"
  ue_redact :: "string \<Rightarrow> string"
  ue_clock :: time
  ue_pump :: bool
  ue_tier :: "string set option" \<comment> \<open>the highest tier of the refresher's roster, if there is a refresher\<close>

record feedback_world =
  fw_state :: PluginState
  fw_pick :: PickWorld
  fw_observers :: "(string, string) gmap"
  fw_disables :: "QuotaFailureEvent list" \<comment> \<open>the managed disables that were started\<close>

section \<open>Log messages\<close>

definition msg_success :: string where
  "msg_success = [CHR 0xE8, CHR 0xB4, CHR 0xA6, CHR 0xE5, CHR 0x8F, CHR 0xB7, CHR 0xE8, CHR 0xAF, CHR 0xB7, CHR
     0xE6, CHR 0xB1, CHR 0x82, CHR 0xE6, CHR 0x88, CHR 0x90, CHR 0xE5, CHR 0x8A, CHR 0x9F, CHR 0xEF,
     CHR 0xBC, CHR 0x8C, CHR 0xE7, CHR 0x86, CHR 0x94, CHR 0xE6, CHR 0x96, CHR 0xAD, CHR 0xE7, CHR
     0x8A, CHR 0xB6, CHR 0xE6, CHR 0x80, CHR 0x81, CHR 0xE5, CHR 0xB7, CHR 0xB2, CHR 0xE6, CHR 0x9B,
     CHR 0xB4, CHR 0xE6, CHR 0x96, CHR 0xB0]"

definition msg_exhausted :: string where
  "msg_exhausted = [CHR 0xE8, CHR 0xB4, CHR 0xA6, CHR 0xE5, CHR 0x8F, CHR 0xB7, CHR 0xE9, CHR 0xA2, CHR 0x9D, CHR
     0xE5, CHR 0xBA, CHR 0xA6, CHR 0xE5, CHR 0xB7, CHR 0xB2, CHR 0xE7, CHR 0x94, CHR 0xA8, CHR 0xE5,
     CHR 0xB0, CHR 0xBD, CHR 0xEF, CHR 0xBC, CHR 0x8C, CHR 0xE7, CHR 0xAD, CHR 0x89, CHR 0xE5, CHR
     0xBE, CHR 0x85, CHR 0xE9, CHR 0x87, CHR 0x8D, CHR 0xE7, CHR 0xBD, CHR 0xAE]"

definition msg_terminal :: string where
  "msg_terminal = [CHR 0xE8, CHR 0xAF, CHR 0xB7, CHR 0xE6, CHR 0xB1, CHR 0x82, CHR 0xE5, CHR 0x9C, CHR 0xA8, CHR
     0xE6, CHR 0x89, CHR 0xA7, CHR 0xE8, CHR 0xA1, CHR 0x8C, CHR 0xE5, CHR 0x89, CHR 0x8D, CHR 0xE8,
     CHR 0xA2, CHR 0xAB, CHR 0xE7, CHR 0xBB, CHR 0x88, CHR 0xE6, CHR 0xAD, CHR 0xA2]"

section \<open>Numbers\<close>

definition ParseInt :: "string \<Rightarrow> int option" where
  \<comment> \<open>\<^verbatim>\<open>strconv.ParseInt(s, 10, 64)\<close>\<close>
  "ParseInt s =
    (let negative = HasPrefix s ''-'';
         ds = (if negative \<or> HasPrefix s ''+'' then tl s else s);
         n = fold (\<lambda>c m. m * 10 + (int (of_char c) - 48)) ds 0;
         v = (if negative then - n else n)
     in if ds = [] \<or> \<not> list_all is_digit ds \<or> v < - (2 ^ 63) \<or> v \<ge> 2 ^ 63 then None else Some v)"

section \<open>The framer\<close>

definition rateLimitsEventMarker :: string where
  "rateLimitsEventMarker = ''codex.rate_limits''"

abbreviation (input) maxObserverBufferBytes :: nat where
  "maxObserverBufferBytes \<equiv> 1048576"

definition frameLooksLikeRateLimits :: "string \<Rightarrow> bool" where
  "frameLooksLikeRateLimits frame \<longleftrightarrow> Contains (take 256 frame) rateLimitsEventMarker"

function observe_frames :: "string \<Rightarrow> string list \<times> string" where
  \<comment> \<open>the loop of \<^verbatim>\<open>streamQuotaObserver.absorb\<close>: the frames handled and the remainder\<close>
  "observe_frames buffer = (case cut_at frame_end buffer of
     None \<Rightarrow> ([], buffer)
   | Some (frame, rest) \<Rightarrow> (case observe_frames rest of (handled, remainder) \<Rightarrow>
       ((if frameLooksLikeRateLimits frame then [frame] else []) @ handled, remainder)))"
  by pat_completeness auto
termination
  by (relation "measure length") (auto dest: cut_at_shorter)

declare observe_frames.simps [simp del]

definition observer_absorb :: "string \<Rightarrow> string \<Rightarrow> string list \<times> string" where
  "observer_absorb chunk buffer =
    (let buffer1 = (if chunk = [] then buffer
           else (if length buffer + length chunk > maxObserverBufferBytes then [] else buffer) @ chunk);
         (handled, remainder) = observe_frames buffer1;
         n = length rateLimitsEventMarker
     in (handled, if \<not> Contains remainder rateLimitsEventMarker \<and> length remainder > n
                  then drop (length remainder - n) remainder else remainder))"

section \<open>Windows from an event\<close>

definition sseEventData :: "string \<Rightarrow> string" where
  "sseEventData frame =
    (case find (\<lambda>line. HasPrefix line ''data:'') (map TrimSpace (split_on newline frame)) of
       Some line \<Rightarrow> TrimSpace (drop 5 line) | None \<Rightarrow> [])"

definition observedQuotaWindow ::
  "codexRateLimitWindow option \<Rightarrow> codexRateLimitsPayload \<Rightarrow> time \<Rightarrow> QuotaWindow option" where
  "observedQuotaWindow window limits now =
    (case window of None \<Rightarrow> None
     | Some w \<Rightarrow>
    (case cw_UsedPercent w of None \<Rightarrow> None
     | Some used \<Rightarrow>
         let seconds = (case cw_WindowMinutes w of
               Some m \<Rightarrow> if m > 0 then Some (float_to_int64 (fmul m 60)) else None | None \<Rightarrow> None);
             after = (case cw_ResetAfterSeconds w of
               Some a \<Rightarrow> if a \<ge> 0 then Add now (float_to_int64 (fmul a (of_int Second))) else ZeroTime
             | None \<Rightarrow> ZeroTime);
             resetAt = (case cw_ResetAt w of
               Some t \<Rightarrow> if t > 0 then time_Unix (float_to_int64 t) else after
             | None \<Rightarrow> after)
         in if IsZero resetAt then None
            else Some \<lparr>qw_Kind = WindowKindEmpty, qw_UsedPercent = Some used, qw_LimitWindowSeconds = seconds,
              qw_ResetAt = resetAt,
              qw_Exhausted = (cp_Allowed limits = Some False \<or> cp_LimitReached limits = Some True \<or> used \<ge> 100)\<rparr>))"

definition familyForWindowMinutes :: "int option \<Rightarrow> AccountFamily" where
  "familyForWindowMinutes seconds = (case seconds of None \<Rightarrow> AccountFamilyEmpty
     | Some s \<Rightarrow> if s \<le> 604800 then AccountFamilyWeekly else AccountFamilyMonthly)"

definition observed_quota :: "QuotaWindow option \<Rightarrow> QuotaWindow option \<Rightarrow> ParsedQuota" where
  "observed_quota primary secondary = zero_ParsedQuota\<lparr>pq_FiveHour := primary, pq_LongWindow := secondary,
     pq_Family := (case secondary of None \<Rightarrow> AccountFamilyEmpty
       | Some w \<Rightarrow> familyForWindowMinutes (qw_LimitWindowSeconds w))\<rparr>"

definition publishObservedSchedulerState :: "usage_env \<Rightarrow> feedback_world \<Rightarrow> feedback_world" where
  "publishObservedSchedulerState env w = (case ue_tier env of None \<Rightarrow> w
     | Some tier \<Rightarrow> w\<lparr>fw_pick := (fw_pick w)\<lparr>pw_Snapshot := Some (publishSchedulerState (ue_pump env) (fw_state w)
         (Some tier) (ue_clock env) (pw_Trials (fw_pick w)))\<rparr>\<rparr>)"

definition applyObservedRateLimits ::
  "usage_env \<Rightarrow> string \<Rightarrow> string \<Rightarrow> time \<Rightarrow> string \<Rightarrow> feedback_world \<Rightarrow> feedback_world" where
  "applyObservedRateLimits env authID authIndex now frame w =
    (if authID = [] \<and> authIndex = [] then w
     else let payload = sseEventData frame
     in if payload = [] then w
     else case ue_event env payload of None \<Rightarrow> w
     | Some limits \<Rightarrow>
         let quota = observed_quota (observedQuotaWindow (cp_Primary limits) limits now)
                       (observedQuotaWindow (cp_Secondary limits) limits now)
         in if pq_FiveHour quota = None \<and> pq_LongWindow quota = None then w
            else publishObservedSchedulerState env
              (w\<lparr>fw_state := snd (ObserveAccountQuota (ue_clock env) authID authIndex quota now (fw_state w))\<rparr>))"

definition metadataString :: "(string, go_any) gmap \<Rightarrow> string \<Rightarrow> string" where
  "metadataString metadata key = (case gget metadata key of Some (AString t) \<Rightarrow> TrimSpace t | _ \<Rightarrow> [])"

definition observeStreamChunk ::
  "usage_env \<Rightarrow> StreamChunkInterceptRequest \<Rightarrow> time \<Rightarrow> feedback_world \<Rightarrow> feedback_world" where
  "observeStreamChunk env req now w =
    (if sq_RequestID req = [] \<or> sq_HeaderInit req \<or> (sq_Body req = [] \<and> \<not> sq_HasHistory req) then w
     else let buffer = the_default [] (gget (fw_observers w) (sq_RequestID req));
              (handled, buffer') = observer_absorb (sq_Body req) buffer;
              w1 = fold (applyObservedRateLimits env (metadataString (sq_Metadata req) ''selected_auth_id'')
                     (metadataString (sq_Metadata req) ''selected_auth_index'') now) handled w
          in w1\<lparr>fw_observers := (if handled = [] then gput (sq_RequestID req) buffer' (fw_observers w1)
                              else gdel (sq_RequestID req) (fw_observers w1))\<rparr>)"

section \<open>Windows from headers\<close>

definition header_get :: "(string, string list) gmap \<Rightarrow> string \<Rightarrow> string" where
  "header_get headers name =
    the_default [] (find (\<lambda>v. v \<noteq> [])
      (concat (map (\<lambda>(key, values). if EqualFold key name then map TrimSpace values else []) headers)))"

definition quotaWindowFromHeaders ::
  "usage_env \<Rightarrow> (string \<Rightarrow> string) \<Rightarrow> string \<Rightarrow> bool \<Rightarrow> time \<Rightarrow> QuotaWindow option" where
  "quotaWindowFromHeaders env get prefix limited now =
    (let number = (\<lambda>suffix. let t = get (prefix @ suffix) in if t = [] then None else ue_float env t)
     in case number ''-Used-Percent'' of
          None \<Rightarrow> None
        | Some used \<Rightarrow>
            if used < 0 \<or> used > 100 then None
            else let seconds = (case number ''-Window-Minutes'' of
                       Some m \<Rightarrow> if m > 0 then Some (float_to_int64 (fmul m 60)) else None | None \<Rightarrow> None);
                     at_reset = (case number ''-Reset-At'' of
                       Some t \<Rightarrow> if t > 0 then time_Unix (float_to_int64 t) else ZeroTime | None \<Rightarrow> ZeroTime);
                     resetAt = (if \<not> IsZero at_reset then at_reset
                       else case number ''-Reset-After-Seconds'' of
                         Some a \<Rightarrow> if a \<ge> 0 then Add now (float_to_int64 (fmul a (of_int Second))) else ZeroTime
                       | None \<Rightarrow> ZeroTime)
                 in if IsZero resetAt then None
                    else Some \<lparr>qw_Kind = WindowKindEmpty, qw_UsedPercent = Some used,
                      qw_LimitWindowSeconds = seconds, qw_ResetAt = resetAt,
                      qw_Exhausted = (limited \<or> used \<ge> 100)\<rparr>)"

definition codexQuotaFromHeaders :: "usage_env \<Rightarrow> (string, string list) gmap \<Rightarrow> time \<Rightarrow> ParsedQuota option" where
  "codexQuotaFromHeaders env headers now =
    (if headers = [] then None
     else let get = header_get headers;
              limited = (get ''X-Codex-Allowed'' = ''false'' \<or> get ''X-Codex-Limit-Reached'' = ''true'');
              quota = observed_quota (quotaWindowFromHeaders env get ''X-Codex-Primary'' limited now)
                        (quotaWindowFromHeaders env get ''X-Codex-Secondary'' limited now)
          in if pq_FiveHour quota = None \<and> pq_LongWindow quota = None then None else Some quota)"

definition applyObservedCodexHeaders :: "usage_env \<Rightarrow> UsageRecord \<Rightarrow> time \<Rightarrow> feedback_world \<Rightarrow> feedback_world" where
  "applyObservedCodexHeaders env record now w =
    (if \<not> EqualFold (ur_Provider record) ''codex'' \<or> ur_Failed record then w
     else case codexQuotaFromHeaders env (ur_ResponseHeaders record) now of None \<Rightarrow> w
     | Some quota \<Rightarrow>
         (case ObserveAccountQuota (ue_clock env) (ur_AuthID record) (ur_AuthIndex record) quota now (fw_state w) of
            (None, s) \<Rightarrow> w\<lparr>fw_state := s\<rparr>
          | (Some _, s) \<Rightarrow> publishObservedSchedulerState env (w\<lparr>fw_state := s\<rparr>)))"

section \<open>Usage records\<close>

definition parseJSONScalar :: "usage_env \<Rightarrow> string \<Rightarrow> string option" where
  "parseJSONScalar env raw =
    (if raw = [] \<or> raw = ''null'' then None
     else case ue_string env raw of
       Some t \<Rightarrow> if TrimSpace t = [] then None else Some (TrimSpace t)
     | None \<Rightarrow> ue_number env raw)"

definition parseResetAt :: "usage_env \<Rightarrow> string \<Rightarrow> time option" where
  "parseResetAt env raw =
    (case parseJSONScalar env raw of None \<Rightarrow> None
     | Some value \<Rightarrow> (case ue_rfc3339 env value of
         Some t \<Rightarrow> Some t | None \<Rightarrow> map_option time_Unix (ParseInt value)))"

definition parseResetSeconds :: "usage_env \<Rightarrow> string \<Rightarrow> duration option" where
  "parseResetSeconds env raw =
    (case parseJSONScalar env raw of None \<Rightarrow> None
     | Some value \<Rightarrow> map_option (\<lambda>seconds. wrap64 (seconds * Second)) (ParseInt value))"

definition isUsageLimitReached :: "quotaFailureBody \<Rightarrow> bool" where
  "isUsageLimitReached body \<longleftrightarrow>
     EqualFold (TrimSpace (qd_Type (qb_Top body))) ''usage_limit_reached''
     \<or> (case qb_Error body of None \<Rightarrow> False
        | Some e \<Rightarrow> EqualFold (TrimSpace (qd_Type e)) ''usage_limit_reached'')"

definition details_reset :: "usage_env \<Rightarrow> quotaFailureDetails \<Rightarrow> time \<Rightarrow> time option" where
  "details_reset env d now = (case parseResetAt env (qd_ResetsAt d) of
     Some t \<Rightarrow> Some t | None \<Rightarrow> map_option (Add now) (parseResetSeconds env (qd_ResetsInSeconds d)))"

definition quotaFailureResetAt :: "usage_env \<Rightarrow> quotaFailureBody \<Rightarrow> time \<Rightarrow> time option" where
  "quotaFailureResetAt env body now =
    (case Option.bind (qb_Error body) (\<lambda>e. details_reset env e now) of
       Some t \<Rightarrow> Some t | None \<Rightarrow> details_reset env (qb_Top body) now)"

definition DetectQuotaFailure :: "usage_env \<Rightarrow> UsageRecord \<Rightarrow> time \<Rightarrow> QuotaFailureEvent option" where
  "DetectQuotaFailure env record now =
    (if ur_Provider record \<noteq> ''codex'' \<or> \<not> ur_Failed record \<or> ur_StatusCode record \<noteq> 429 then None
     else case ue_failure env (ur_Body record) of None \<Rightarrow> None
     | Some body \<Rightarrow>
         if \<not> isUsageLimitReached body then None
         else Some (case quotaFailureResetAt env body now of
             Some resetAt \<Rightarrow> \<lparr>qe_AuthID = ur_AuthID record, qe_AuthIndex = ur_AuthIndex record,
               qe_ResetAt = resetAt, qe_Reason = ''usage_limit_reached''\<rparr>
           | None \<Rightarrow> \<lparr>qe_AuthID = ur_AuthID record, qe_AuthIndex = ur_AuthIndex record,
               qe_ResetAt = Add now (2 * Minute), qe_Reason = ''usage_limit_reached_no_reset''\<rparr>))"

definition shouldRecordCircuitSuccess :: "PluginState \<Rightarrow> UsageRecord \<Rightarrow> time \<Rightarrow> bool \<times> bool" where
  "shouldRecordCircuitSuccess state record now =
    (case find (\<lambda>a. \<not> (ur_AuthID record \<noteq> [] \<and> as_AuthID a \<noteq> ur_AuthID record)
          \<and> \<not> (ur_AuthID record = [] \<and> ur_AuthIndex record \<noteq> [] \<and> as_AuthIndex a \<noteq> ur_AuthIndex record))
        (ss_Accounts (state_Snapshot state now)) of
       None \<Rightarrow> (False, False)
     | Some a \<Rightarrow>
         let circuit = effectiveCircuitState (as_Circuit a) now
         in (cb_EffectiveState circuit \<noteq> CircuitStateClosed \<or> cb_FailureCount circuit > 0
             \<or> cb_SuccessCount circuit > 0 \<or> as_TemporaryExhausted a, as_TemporaryExhausted a))"

fun circuit_text :: "CircuitState \<Rightarrow> string" where
  "circuit_text CircuitStateEmpty = []"
| "circuit_text CircuitStateClosed = ''closed''"
| "circuit_text CircuitStateOpen = ''open''"
| "circuit_text CircuitStateHalfOpen = ''half_open''"

definition usage_succeeded :: "usage_env \<Rightarrow> UsageRecord \<Rightarrow> time \<Rightarrow> feedback_world \<Rightarrow> feedback_world" where
  \<comment> \<open>the branch of \<open>HandleUsageFeedback\<close> for a request that did not fail\<close>
  "usage_succeeded env record now w0 =
    (let w = applyObservedCodexHeaders env record now w0;
         (recordSuccess, temporaryActive) = shouldRecordCircuitSuccess (fw_state w) record now
     in if \<not> recordSuccess then w
        else case RecordAccountSuccess (ur_AuthID record) (ur_AuthIndex record) now (fw_state w) of
            (None, s) \<Rightarrow> w\<lparr>fw_state := s\<rparr>
          | (Some account, s) \<Rightarrow>
              let flds = [(''auth_id'', AString (as_AuthID account)), (''auth_index'', AString (as_AuthIndex account)),
                    (''circuit_state'', AString (circuit_text (cb_EffectiveState (as_Circuit account)))),
                    (''success_count'', AInt (cb_SuccessCount (as_Circuit account))),
                    (''failure_count'', AInt (cb_FailureCount (as_Circuit account)))]
                    @ (if temporaryActive then [(''temporary_exhausted_cleared'', ABool True)] else [])
              in w\<lparr>fw_state := RecordLog (ue_clock env) ''info'' ''circuit.success'' msg_success flds now s\<rparr>)"

definition HandleUsageFeedback :: "usage_env \<Rightarrow> UsageRecord \<Rightarrow> time \<Rightarrow> feedback_world \<Rightarrow> feedback_world" where
  "HandleUsageFeedback env record now w =
    (if \<not> cfg_EnableUsageFeedback (ps_cfg (fw_state w)) then w
     else if ur_Provider record = ''codex'' \<and> \<not> ur_Failed record then usage_succeeded env record now w
     else case DetectQuotaFailure env record now of None \<Rightarrow> w
     | Some event \<Rightarrow>
         let s1 = (if qe_AuthID event \<noteq> []
               then MarkAccountTemporaryExhausted (qe_AuthID event) (qe_ResetAt event) (qe_Reason event) (fw_state w)
               else MarkAccountTemporaryExhaustedByAuthIndex (qe_AuthIndex event) (qe_ResetAt event) (qe_Reason event) (fw_state w));
             s2 = RecordLog (ue_clock env) ''warn'' ''quota.temporary_exhausted'' msg_exhausted
               [(''auth_id'', AString (qe_AuthID event)), (''auth_index'', AString (qe_AuthIndex event)),
                (''reason'', AString (qe_Reason event)), (''reset_at'', AString (ue_formatTime env (qe_ResetAt event)))]
               now s1
         in w\<lparr>fw_state := s2\<rparr>)"

definition observe_usage_evidence :: "UsageRecord \<Rightarrow> EvidenceKind \<Rightarrow> feedback_world \<Rightarrow> feedback_world" where
  \<comment> \<open>the loop over the published accounts\<close>
  "observe_usage_evidence record kind w =
    (case (pw_Snapshot (fw_pick w), pw_Trials (fw_pick w)) of
       (Some snapshot, Some trials) \<Rightarrow>
         (case find (\<lambda>a. kind \<noteq> EvidenceUnknown \<and>
              (if ur_AuthID record = [] \<and> ur_AuthIndex record \<noteq> [] then av_AuthIndex a = ur_AuthIndex record
               else ur_AuthID record \<noteq> [] \<and> av_ID a = ur_AuthID record)) (sn_Accounts snapshot) of
            Some a \<Rightarrow> w\<lparr>fw_pick := (fw_pick w)\<lparr>pw_Trials := Some (ObserveEvidence (av_Instance a) kind trials)\<rparr>\<rparr>
          | None \<Rightarrow> w)
     | _ \<Rightarrow> w)"

definition handleUsageHandle :: "usage_env \<Rightarrow> UsageRecord \<Rightarrow> time \<Rightarrow> feedback_world \<Rightarrow> feedback_world" where
  \<comment> \<open>the wake-up of the roster controller is a goroutine of its own\<close>
  "handleUsageHandle env record now w =
    (let w1 = HandleUsageFeedback env record now w;
         event = DetectQuotaFailure env record now;
         kind = (if ur_Provider record = ''codex'' \<and> \<not> ur_Failed record then EvidenceRequestSuccess
                 else if event \<noteq> None then EvidenceUsageFeedback else EvidenceUnknown);
         limited = (kind = EvidenceUsageFeedback);
         w2 = observe_usage_evidence record kind w1;
         w3 = (case pw_Snapshot (fw_pick w1) of
                 Some snapshot \<Rightarrow> if limited
                   then w2\<lparr>fw_pick := (fw_pick w2)\<lparr>pw_Snapshot := Some (publishSchedulerState (ue_pump env) (fw_state w2)
                          (Some (sn_ActiveHighestTier snapshot)) now (pw_Trials (fw_pick w2)))\<rparr>\<rparr>
                   else w2
               | None \<Rightarrow> w2)
     in case event of
          Some e \<Rightarrow> if limited \<and> ue_tier env \<noteq> None then w3\<lparr>fw_disables := fw_disables w3 @ [e]\<rparr> else w3
        | None \<Rightarrow> w3)"

section \<open>Terminal events\<close>

definition handleRequestCompletionEvent ::
  "usage_env \<Rightarrow> RequestCompletion \<Rightarrow> time \<Rightarrow> feedback_world \<Rightarrow> feedback_world" where
  "handleRequestCompletionEvent env completion now0 w0 =
    (if cm_RequestID completion = [] then w0
     else let w = w0\<lparr>fw_observers := gdel (cm_RequestID completion) (fw_observers w0)\<rparr>;
              now = or_now (ue_clock env) now0
     in case cm_Outcome completion of
          OutcomeOther \<Rightarrow> w
        | OutcomeSucceeded \<Rightarrow>
            let authID = metadataString (cm_Metadata completion) ''selected_auth_id''
            in if authID = [] then w
               else w\<lparr>fw_state := snd (RecordAccountSuccess authID [] now (fw_state w))\<rparr>
        | _ \<Rightarrow> w\<lparr>fw_state := RecordLog (ue_clock env) ''info'' ''request.terminal'' msg_terminal
            [(''request_id'', AString (cm_RequestID completion)), (''model'', AString (cm_RequestedModel completion)),
             (''outcome'', AString (cm_OutcomeText completion)), (''status_code'', AInt (cm_StatusCode completion)),
             (''error'', AString (ue_redact env (cm_Error completion)))] now (fw_state w)\<rparr>)"

end
