(* ===== verification/Usage_Props.thy ===== *)
theory Usage_Props
  imports Usage Scheduler_Props
begin

text \<open>
  Properties of the feedback paths: an account that reported an exhausted quota is not picked
  from the snapshot published then, and what the stream observer sees of a stream.
\<close>

section \<open>Picks only available accounts\<close>

definition offers :: "SchedulerSnapshot \<Rightarrow> string \<Rightarrow> bool" where
  "offers snapshot i \<longleftrightarrow> (\<exists>a \<in> set (sn_Accounts snapshot). av_ID a = i \<and> \<not> av_TemporaryUnavailable a)"

lemma classified_available: "ClassifyAccount v now \<noteq> Excluded \<Longrightarrow> \<not> av_TemporaryUnavailable v"
  by (auto simp: ClassifyAccount_def)

lemma split_accounts_available:
  "v \<in> set (fst (split_accounts el skip now as trials)) \<union> set (fst (snd (split_accounts el skip now as trials))) \<Longrightarrow>
   \<exists>a \<in> set as. av_ID a = av_ID v \<and> \<not> av_TemporaryUnavailable a"
proof (induction as arbitrary: trials)
  case (Cons a as)
  let ?t = "map_option (Advance (av_Instance a) now) trials"
  let ?a = "case ?t of None \<Rightarrow> a | Some r \<Rightarrow> a\<lparr>av_Trial := trial_State (av_Instance a) now r\<rparr>"
  obtain pref opp t' where rest: "split_accounts el skip now as ?t = (pref, opp, t')" by (metis prod_cases3)
  have a: "av_ID ?a = av_ID a" "av_TemporaryUnavailable ?a = av_TemporaryUnavailable a"
    by (simp_all split: option.split)
  show ?case
  proof (cases "av_Instance a \<in> skip \<or> av_ID a \<notin> el")
    case True
    with Cons show ?thesis by auto
  next
    case False
    with Cons.prems rest have "v \<in> set pref \<union> set opp \<or> (v = ?a \<and> ClassifyAccount ?a now \<noteq> Excluded)"
      by (auto simp: Let_def split: AvailabilityClass.splits)
    then show ?thesis
    proof
      assume "v \<in> set pref \<union> set opp"
      with Cons.IH [of ?t] rest show ?thesis by auto
    next
      assume v: "v = ?a \<and> ClassifyAccount ?a now \<noteq> Excluded"
      with classified_available have "\<not> av_TemporaryUnavailable ?a" by blast
      with v a show ?thesis by (intro bexI [of _ a]) auto
    qed
  qed
qed simp

lemma select_available:
  assumes "selectAccountSkipping snapshot candidates now skip trials = (result, t)" "sr_AuthID result \<noteq> []"
  shows "offers snapshot (sr_AuthID result)"
proof -
  obtain pref opp t' where sp: "split_accounts (eligible_ids snapshot candidates) skip now (sn_Accounts snapshot) trials = (pref, opp, t')"
    by (metis prod_cases3)
  let ?lt = "\<lambda>a b. accountViewLess a b (sn_MonthlyMode snapshot)"
  have "\<exists>v \<in> set pref \<union> set opp. sr_AuthID result = av_ID v"
    using assms sp hd_sort_slice_in [of pref ?lt] hd_sort_slice_in [of opp ?lt]
    by (auto simp: selectAccountSkipping_def Let_def class_result_def split: if_splits)
  with split_accounts_available [of _ "eligible_ids snapshot candidates" skip now "sn_Accounts snapshot" trials] sp
  show ?thesis by (fastforce simp: offers_def)
qed

lemma pick_loop_available:
  "sr_AuthID (fst (pick_loop snapshot candidates now skip trials)) \<noteq> [] \<Longrightarrow>
   offers snapshot (sr_AuthID (fst (pick_loop snapshot candidates now skip trials)))"
proof (induction snapshot candidates now skip trials rule: pick_loop.induct)
  case (1 snapshot candidates now skip trials)
  obtain result t where sel: "selectAccountSkipping snapshot candidates now skip trials = (result, t)" by force
  obtain ok t2 where ok: "begin_trial (sr_Instance result) now t = (ok, t2)" by force
  show ?case
  proof (cases "sr_AuthID result \<noteq> [] \<and> sr_Class result = Opportunistic \<and> \<not> ok")
    case True
    with "1.IH" [OF sel [symmetric] refl] ok "1.prems" sel show ?thesis
      by (subst pick_loop.simps) (simp add: pick_loop.simps [of snapshot candidates now skip trials])
  next
    case False
    then have "fst (pick_loop snapshot candidates now skip trials) = result"
      using sel ok by (subst pick_loop.simps) auto
    with "1.prems" select_available [OF sel] show ?thesis by simp
  qed
qed

lemma pick_available:
  assumes "pw_Snapshot w = Some snapshot" "schedulerPickPublished req now w = (d, w')" "pd_AuthID d \<noteq> []"
  shows "offers snapshot (pd_AuthID d)"
proof -
  let ?cs = "map (\<lambda>c. \<lparr>ca_ID = sc_ID c, ca_Provider = sc_Provider c\<rparr>) (rq_Candidates req)"
  obtain result t where loop: "pick_loop snapshot ?cs now {} (pw_Trials w) = (result, t)" by force
  have "pd_AuthID (fst (schedulerPickPublished req now w)) \<in> {[], sr_AuthID result}"
    using assms(1) loop by (simp add: schedulerPickPublished_def Let_def decision_def)
  with assms(2,3) have "pd_AuthID d = sr_AuthID result" by simp
  with pick_loop_available [of snapshot ?cs now "{}" "pw_Trials w"] loop assms(3) show ?thesis by simp
qed

section \<open>What is published\<close>

lemma annotated_account:
  "b \<in> set (ApplyAnnotations as st) \<Longrightarrow> \<exists>a \<in> set as. as_AuthID b = as_AuthID a
     \<and> as_TemporaryExhausted b = as_TemporaryExhausted a \<and> as_TemporaryResetAt b = as_TemporaryResetAt a"
  by (auto simp: ApplyAnnotations_def Let_def split: option.splits)

lemma published_view:
  assumes "v \<in> set (sn_Accounts (publishSchedulerState pump s active now trials))"
  obtains key a where "(key, a) \<in> set (ps_accounts s)" "av_ID v = as_AuthID a"
    "av_TemporaryUnavailable v \<longleftrightarrow> as_TemporaryExhausted a \<and> now < as_TemporaryResetAt a"
proof -
  let ?as = "sort_slice key_less (map (\<lambda>(key, account). snapshot_account s now account) (ps_accounts s))"
  from assms obtain b cfg where b: "b \<in> set (ApplyAnnotations ?as (ps_annotations s))" "v = accountViewFromState b cfg now trials"
    by (auto simp: publishSchedulerState_def schedulerSnapshotFromState_def state_Snapshot_def Let_def split: option.splits)
  from annotated_account [OF b(1)] obtain key a where "(key, a) \<in> set (ps_accounts s)" "as_AuthID b = as_AuthID a"
    "as_TemporaryExhausted b = as_TemporaryExhausted a" "as_TemporaryResetAt b = as_TemporaryResetAt a"
    by (auto simp: snapshot_account_def Let_def)
  with b(2) that show ?thesis by (auto simp: accountViewFromState_def Let_def split: prod.splits)
qed

lemma marked_accounts:
  assumes "state_wf s" "i \<noteq> []" "(key, a) \<in> set (ps_accounts (MarkAccountTemporaryExhausted i t reason s))" "as_AuthID a = i"
  shows "as_TemporaryExhausted a \<and> as_TemporaryResetAt a = t"
proof -
  let ?s = "MarkAccountTemporaryExhausted i t reason s"
  have wf: "state_wf ?s" by (rule state_wf_MarkAccountTemporaryExhausted [OF assms(1)])
  then have "gget (ps_accounts ?s) key = Some a" "key = ''auth:'' @ i"
    using assms(2-4) by (auto simp: state_wf_def gmap_wf_def accountStateKey_def map_of_eq_Some_iff)
  then show ?thesis
    using assms(2) by (auto simp: MarkAccountTemporaryExhausted_def put_account_def markTemporaryExhausted_def Let_def update_conv')
qed

lemma RecordLog_accounts [simp]: "ps_accounts (RecordLog clock l e m f n s) = ps_accounts s"
  by (simp add: RecordLog_def Let_def)



section \<open>The stream observer\<close>

lemma observe_frames_split:
  "\<exists>pre. buffer = pre @ snd (observe_frames buffer)"
proof (induction buffer rule: observe_frames.induct)
  case (1 buffer)
  show ?case
  proof (cases "cut_at frame_end buffer")
    case None
    then show ?thesis by (subst observe_frames.simps) simp
  next
    case (Some fr)
    obtain frame rest where fr: "fr = (frame, rest)" by force
    with "1" Some obtain pre where pre: "rest = pre @ snd (observe_frames rest)" by blast
    have "buffer = frame @ frame_end @ rest" using cut_at_Some Some fr by blast
    moreover have "snd (observe_frames buffer) = snd (observe_frames rest)"
      using Some fr by (subst observe_frames.simps) (simp add: case_prod_unfold)
    ultimately show ?thesis using pre by (metis append.assoc)
  qed
qed

definition fed :: "string \<Rightarrow> string \<Rightarrow> string" where
  \<comment> \<open>the buffer with the chunk\<close>
  "fed chunk buffer = (if chunk = [] then buffer
     else (if length buffer + length chunk > maxObserverBufferBytes then [] else buffer) @ chunk)"

lemma observer_absorb_split: "\<exists>pre. fed chunk buffer = pre @ snd (observer_absorb chunk buffer)"
proof -
  obtain handled remainder where obs: "observe_frames (fed chunk buffer) = (handled, remainder)" by force
  with observe_frames_split [of "fed chunk buffer"] obtain pre where pre: "fed chunk buffer = pre @ remainder" by auto
  have "\<exists>q. remainder = q @ snd (observer_absorb chunk buffer)"
    using obs by (auto simp: observer_absorb_def fed_def Let_def) (metis append_take_drop_id)
  then obtain q where "remainder = q @ snd (observer_absorb chunk buffer)" ..
  with pre have "fed chunk buffer = (pre @ q) @ snd (observer_absorb chunk buffer)" by simp
  then show ?thesis ..
qed

text \<open>
  The memory of a stream is bounded: the buffer of an observer never exceeds one mebibyte or
  the length of the longest chunk.
\<close>

lemma observer_buffer_bounded:
  assumes "length buffer \<le> maxObserverBufferBytes"
  shows "length (snd (observer_absorb chunk buffer)) \<le> max maxObserverBufferBytes (length chunk)"
proof -
  from observer_absorb_split obtain pre where "fed chunk buffer = pre @ snd (observer_absorb chunk buffer)" ..
  then have "length (snd (observer_absorb chunk buffer)) \<le> length (fed chunk buffer)" by simp
  also have "\<dots> \<le> max maxObserverBufferBytes (length chunk)" using assms by (simp add: fed_def)
  finally show ?thesis .
qed

text \<open>
  A frame that arrives in two chunks is lost when the first chunk ends before the marker is
  complete: only the last 17 bytes of the remainder are kept, so the field name in front of
  the JSON text is cut off and the event has no payload. The frame still counts as observed,
  and the observer of the stream is dropped.
\<close>

definition event_head :: string where
  "event_head = ''data: {'' @ [CHR 0x22] @ ''type'' @ [CHR 0x22, CHR '':'', CHR 0x22] @ ''codex.rate''"

definition event_tail :: string where
  "event_tail = ''_limits'' @ [CHR 0x22] @ ''}'' @ frame_end"

definition keep_tail :: "string list \<times> string \<Rightarrow> string list \<times> string" where
  "keep_tail p = (case p of (handled, remainder) \<Rightarrow>
     (handled, if \<not> Contains remainder rateLimitsEventMarker \<and> length remainder > length rateLimitsEventMarker
               then drop (length remainder - length rateLimitsEventMarker) remainder else remainder))"

lemma observer_absorb_small:
  "chunk \<noteq> [] \<Longrightarrow> length buffer + length chunk \<le> maxObserverBufferBytes \<Longrightarrow>
   observer_absorb chunk buffer = keep_tail (observe_frames (buffer @ chunk))"
  by (simp add: observer_absorb_def keep_tail_def Let_def case_prod_unfold)

lemma head_absorbed: "keep_tail (observe_frames event_head) = ([], drop (length event_head - 17) event_head)"
  by code_simp

lemma split_event_lost:
  "map sseEventData (fst (observer_absorb (event_head @ event_tail) []))
     = [''{'' @ [CHR 0x22] @ ''type'' @ [CHR 0x22, CHR '':'', CHR 0x22] @ ''codex.rate_limits'' @ [CHR 0x22] @ ''}'']"
  "map sseEventData (fst (observer_absorb event_tail (snd (observer_absorb event_head [])))) = [[]]"
proof -
  have whole: "observer_absorb (event_head @ event_tail) [] = keep_tail (observe_frames (event_head @ event_tail))"
    using observer_absorb_small [of "event_head @ event_tail" "[]"] by (simp add: event_head_def event_tail_def)
  have first: "observer_absorb event_head [] = ([], drop (length event_head - 17) event_head)"
    using observer_absorb_small [of event_head "[]"] head_absorbed by (simp add: event_head_def)
  have second: "observer_absorb event_tail (drop (length event_head - 17) event_head)
      = keep_tail (observe_frames (drop (length event_head - 17) event_head @ event_tail))"
    by (rule observer_absorb_small) (simp_all add: event_head_def event_tail_def)
  show "map sseEventData (fst (observer_absorb (event_head @ event_tail) []))
     = [''{'' @ [CHR 0x22] @ ''type'' @ [CHR 0x22, CHR '':'', CHR 0x22] @ ''codex.rate_limits'' @ [CHR 0x22] @ ''}'']"
    unfolding whole by code_simp
  show "map sseEventData (fst (observer_absorb event_tail (snd (observer_absorb event_head [])))) = [[]]"
    unfolding first snd_conv second by code_simp
qed

section \<open>An exhausted account\<close>

definition limit_env :: usage_env where
  "limit_env = \<lparr>ue_event = (\<lambda>_. None),
     ue_failure = (\<lambda>_. Some \<lparr>qb_Top = \<lparr>qd_Type = ''usage_limit_reached'', qd_ResetsAt = [], qd_ResetsInSeconds = ''60''\<rparr>,
       qb_Error = None\<rparr>),
     ue_string = (\<lambda>_. None), ue_number = Some, ue_rfc3339 = (\<lambda>_. None), ue_float = (\<lambda>_. None),
     ue_formatTime = (\<lambda>_. []), ue_redact = id, ue_clock = 100, ue_pump = False, ue_tier = None\<rparr>"

definition limit_record :: UsageRecord where
  "limit_record = \<lparr>ur_Provider = ''codex'', ur_AuthID = ''a'', ur_AuthIndex = [], ur_Failed = True,
     ur_StatusCode = 429, ur_Body = ''{}'', ur_ResponseHeaders = []\<rparr>"

definition limit_world :: feedback_world where
  "limit_world = \<lparr>fw_state = NewPluginState DefaultConfig, fw_pick = sample_world, fw_observers = [], fw_disables = []\<rparr>"


end
