(* ===== verification/Refresh_Lifecycle.thy ===== *)
theory Refresh_Lifecycle
  imports Probe_Runtime Roster_Controller Codex_Auth
begin

text \<open>
  \<^verbatim>\<open>refresh.go\<close>, lines 295 to 560 and \<^verbatim>\<open>doBackgroundHTTPRequest\<close>: the roster the refresher works with, the
  provisional roster of a restart, and the gate in front of every background request.

  The refresher's roster, permit, bindings and store are those of \<open>ProbeRuntime\<close>. \<open>gate\<close> is the function
  installed by \<^verbatim>\<open>SetRosterLifecycleAuthority\<close>, which may change all of them; \<open>mid\<close> is what other goroutines
  do between the release of the read lock and the write lock. Shown: a background request leaves
  only under an authorised roster that has not been degraded for its limit, and a provisional
  roster is permitted only when every credential of the host matches the one it was confirmed with.
\<close>

section \<open>The roster that was confirmed before a restart\<close>

definition persisted_entry_ok :: "PersistedRosterEntry list \<Rightarrow> nat \<Rightarrow> bool" where
  "persisted_entry_ok entries i \<longleftrightarrow>
    (let e = entries ! i
     in pe_ID e \<noteq> [] \<and> pe_AuthIndex e \<noteq> [] \<and> ValidHashes (pe_Fingerprint e)
        \<and> pe_Priority e = pe_Priority (entries ! 0) \<and> pe_ID e \<notin> pe_ID ` set (take i entries))"

definition roster_entry_of :: "PersistedRosterEntry \<Rightarrow> RosterEntry" where
  "roster_entry_of e = \<lparr>re_ID = pe_ID e, re_AuthIndex = pe_AuthIndex e, re_Provider = ''codex'', re_Priority = Some (pe_Priority e)\<rparr>"

definition ProvisionalRoster :: "faults \<Rightarrow> time \<Rightarrow> StateStore \<Rightarrow> ActiveRoster option \<times> StateStore" where
  "ProvisionalRoster f now s =
    (case PersistentSnapshot (fst f) (snd f) s of
       (Inl _, s') \<Rightarrow> (None, s')
     | (Inr state, s') \<Rightarrow>
         (case st_LastConfirmedRoster state of None \<Rightarrow> (None, s')
          | Some persisted \<Rightarrow>
              let entries = pc_Entries persisted
              in if pc_Generation persisted = 0 \<or> \<not> provisionalAgeValid now (pc_ConfirmedAt persisted) \<or> entries = []
                    \<or> list_ex (\<lambda>i. \<not> persisted_entry_ok entries i) [0..<length entries]
                 then (None, s')
                 else (Some (waiting_roster\<lparr>ac_Provisional := True, ac_Generation := pc_Generation persisted,
                         ac_ConfirmedAt := pc_ConfirmedAt persisted, ac_Entries := map roster_entry_of entries,
                         ac_Instances := sort (map pe_ID entries), ac_HighestPriority := pe_Priority (last entries)\<rparr>), s')))"

definition clearProvisionalPermit :: "ProbeRuntime \<Rightarrow> ProbeRuntime" where
  "clearProvisionalPermit rt = rt\<lparr>pr_permit := False\<rparr>"

definition consumeProvisionalPermit :: "ProbeRuntime \<Rightarrow> bool \<times> ProbeRuntime" where
  "consumeProvisionalPermit rt = (pr_permit rt, rt\<lparr>pr_permit := False\<rparr>)"

record verify_env =
  ve_lib :: auth_lib
  ve_remarshal :: "string \<Rightarrow> string option"      \<comment> \<open>see \<open>NewCredentialFingerprint\<close>\<close>
  ve_getAuth :: "string \<Rightarrow> string option"        \<comment> \<open>the host's file of an auth index, \<open>None\<close> on an error\<close>
  ve_cancelled :: "string \<Rightarrow> bool"               \<comment> \<open>whether the context is done before the entry\<close>
  ve_faults :: faults
  ve_now1 :: time
  ve_now2 :: time

definition credential_matches :: "verify_env \<Rightarrow> PersistedRosterEntry \<Rightarrow> bool" where
  "credential_matches env e \<longleftrightarrow>
    (case ve_getAuth env (pe_AuthIndex e) of None \<Rightarrow> False
     | Some raw \<Rightarrow> (case ExtractCodexCredentials (ve_lib env) raw of Inl _ \<Rightarrow> False
        | Inr c \<Rightarrow> NewCredentialFingerprint (ve_remarshal env) (cc_ChatGPTAccountID c) (cc_RefreshToken c) (pe_AuthIndex e)
            = pe_Fingerprint e))"

definition entry_verified :: "verify_env \<Rightarrow> ActiveRoster \<Rightarrow> bindings \<Rightarrow> PersistedRosterEntry \<Rightarrow> bool" where
  \<comment> \<open>\<^verbatim>\<open>want\<close> keeps the last entry of an id\<close>
  "entry_verified env roster bs e \<longleftrightarrow>
    (case find (\<lambda>r. re_ID r = pe_ID e) (rev (ac_Entries roster)) of None \<Rightarrow> False
     | Some r \<Rightarrow> re_AuthIndex r = pe_AuthIndex e \<and> re_Priority r = Some (pe_Priority e)
        \<and> (case registry_Lookup (pe_ID e) bs of None \<Rightarrow> False
           | Some b \<Rightarrow> rb_AuthID b = pe_ID e \<and> rb_Instance b \<noteq> 0 \<and> rb_Instance b = legacyAuthInstanceID (pe_ID e)
               \<and> rb_Generation b = ac_Generation roster \<and> rb_AuthIndex b = pe_AuthIndex e \<and> rb_Fingerprint b = pe_Fingerprint e)
        \<and> \<not> ve_cancelled env (pe_ID e) \<and> credential_matches env e)"

definition VerifyProvisionalRoster :: "verify_env \<Rightarrow> ActiveRoster \<Rightarrow> ProbeRuntime \<Rightarrow> bool \<times> ProbeRuntime" where
  "VerifyProvisionalRoster env roster rt =
    (let refuse = (\<lambda>rt. (False, clearProvisionalPermit rt))
     in if \<not> ac_Provisional roster \<or> ac_Confirmed roster \<or> ac_Capability roster \<noteq> CapabilityB
           \<or> \<not> provisionalAgeValid (ve_now1 env) (ac_ConfirmedAt roster) then refuse rt
        else let (res, s) = PersistentSnapshot (fst (ve_faults env)) (snd (ve_faults env)) (pr_store rt); rt1 = rt\<lparr>pr_store := s\<rparr>
        in case res of Inl _ \<Rightarrow> refuse rt1
         | Inr state \<Rightarrow>
            (case st_LastConfirmedRoster state of None \<Rightarrow> refuse rt1
             | Some persisted \<Rightarrow>
                 if pc_Generation persisted \<noteq> ac_Generation roster \<or> pc_ConfirmedAt persisted \<noteq> ac_ConfirmedAt roster
                    \<or> length (pc_Entries persisted) \<noteq> length (ac_Entries roster)
                    \<or> \<not> list_all (entry_verified env roster (pr_bindings rt)) (pc_Entries persisted)
                    \<or> \<not> provisionalAgeValid (ve_now2 env) (ac_ConfirmedAt roster)
                 then refuse rt1 else (True, rt1\<lparr>pr_permit := True\<rparr>)))"

definition VerifyConfiguredProvisionalRoster ::
  "verify_env \<Rightarrow> Config \<Rightarrow> Config \<Rightarrow> time \<Rightarrow> ActiveRoster \<Rightarrow> ProbeRuntime \<Rightarrow> bool \<times> ProbeRuntime" where
  \<comment> \<open>the configuration before and after the verification, and the clock after it\<close>
  "VerifyConfiguredProvisionalRoster env cfg1 cfg2 now roster rt =
    (if \<not> cfg_ProbeOnProvisionalRoster cfg1 then (False, clearProvisionalPermit rt)
     else let (ok, rt1) = VerifyProvisionalRoster env roster rt
     in if \<not> ok then (False, rt1)
        else if \<not> cfg_ProbeOnProvisionalRoster cfg2 \<or> \<not> provisionalAgeValid now (ac_ConfirmedAt roster)
        then (False, clearProvisionalPermit rt1) else (True, rt1))"

section \<open>The lifecycle of the roster\<close>

definition failClosedRosterAt :: "HostRosterSnapshot \<Rightarrow> time \<Rightarrow> HostRosterSnapshot \<times> bool" where
  "failClosedRosterAt roster0 now =
    (let roster = normalizeHostRosterLifecycle roster0
     in if hr_Capability roster \<noteq> CapabilityA \<or> \<not> hr_Confirmed roster \<or> hr_Health roster \<noteq> RosterDegraded
           \<or> IsZero (hr_DegradedSince roster) \<or> Before now (Add (hr_DegradedSince roster) rosterDegradedLimit)
        then (roster, False)
        else (roster\<lparr>hr_Health := RosterFailClosed, hr_BackgroundAllowed := False,
                hr_LifecycleRevision := hr_LifecycleRevision roster + 1\<rparr>, True))"

record lifecycle_env =
  le_gate :: "time \<Rightarrow> ProbeRuntime \<Rightarrow> ProbeRuntime"  \<comment> \<open>the identity when no gate is installed\<close>
  le_mid :: "ProbeRuntime \<Rightarrow> ProbeRuntime"
  le_faults :: faults
  le_now :: time                                \<comment> \<open>the clock when the roster is read\<close>
  le_now2 :: time                               \<comment> \<open>and on its next readings\<close>
  le_now3 :: time

definition enforceRosterLifecycle :: "lifecycle_env \<Rightarrow> ProbeRuntime \<Rightarrow> HostRosterSnapshot \<times> ProbeRuntime" where
  "enforceRosterLifecycle env rt0 =
    (let now = le_now env; rt = le_gate env now rt0; out = pr_roster rt
     in if \<not> snd (failClosedRosterAt out now) then (out, rt)
        else let rt1 = le_mid env rt
             in case failClosedRosterAt (pr_roster rt1) now of
                  (nxt, True) \<Rightarrow>
                    (nxt, snd (persistProbeRosterHold (le_faults env) (rt1\<lparr>pr_roster := nxt\<rparr>)))
                | (_, False) \<Rightarrow> (pr_roster rt1, rt1))"

definition ObserveRosterLifecycle :: "faults \<Rightarrow> time \<Rightarrow> Config \<Rightarrow> ActiveRoster \<Rightarrow> ProbeRuntime \<Rightarrow> ProbeRuntime" where
  "ObserveRosterLifecycle f now cfg active rt =
    (let n0 = hostRosterSnapshotFromActive active;
         n1 = (if hr_Provisional n0 \<and> (\<not> provisionalAgeValid now (hr_ConfirmedAt n0) \<or> \<not> cfg_ProbeOnProvisionalRoster cfg)
               then n0\<lparr>hr_BackgroundAllowed := False\<rparr> else n0);
         n2 = (if hr_LifecycleRevision n1 = 0
               then n1\<lparr>hr_LifecycleRevision := hr_LifecycleRevision (pr_roster rt) + 1\<rparr> else n1)
     in if hr_LifecycleRevision n2 \<le> hr_LifecycleRevision (pr_roster rt) then rt
        else let rt1 = rt\<lparr>pr_roster := n2\<rparr>
             in if hr_Health n2 = RosterFailClosed then snd (persistProbeRosterHold f rt1) else rt1)"

definition normalBackgroundAllowed :: "lifecycle_env \<Rightarrow> ProbeRuntime \<Rightarrow> bool \<times> ProbeRuntime" where
  "normalBackgroundAllowed env rt =
    (let (roster, rt1) = enforceRosterLifecycle env rt
     in (normalRosterBackgroundAllowed (normalizeHostRosterLifecycle roster), rt1))"

definition probeBackgroundAllowed ::
  "lifecycle_env \<Rightarrow> lifecycle_env \<Rightarrow> time \<Rightarrow> Config \<Rightarrow> ProbeRuntime \<Rightarrow> bool \<times> ProbeRuntime" where
  "probeBackgroundAllowed env env2 now cfg rt =
    (if \<not> cfg_EnableResetProbe cfg then (False, rt)
     else let (ok, rt1) = normalBackgroundAllowed env rt
     in if ok then (True, rt1)
        else let (roster0, rt2) = enforceRosterLifecycle env2 rt1; roster = normalizeHostRosterLifecycle roster0
             in (provisionalProbeBackgroundAllowed roster \<and> cfg_ProbeOnProvisionalRoster cfg
                  \<and> provisionalAgeValid now (hr_ConfirmedAt roster), rt2))"

definition provisionalProbeRiskConfigured :: "time \<Rightarrow> Config \<Rightarrow> ProbeRuntime \<Rightarrow> bool" where
  "provisionalProbeRiskConfigured now cfg rt \<longleftrightarrow>
    (let roster = normalizeHostRosterLifecycle (pr_roster rt)
     in cfg_ProbeOnProvisionalRoster cfg \<and> hr_Capability roster = CapabilityB \<and> hr_Provisional roster \<and> \<not> hr_Confirmed roster
        \<and> provisionalAgeValid now (hr_ConfirmedAt roster))"

section \<open>The gate of a background request\<close>

record HTTPRequest =
  hq_Method :: string
  hq_URL :: string
  hq_Headers :: "(string, string list) gmap"
  hq_Body :: string

definition request_allowed :: "Config \<Rightarrow> time \<Rightarrow> bool \<Rightarrow> HostRosterSnapshot \<Rightarrow> bool" where
  "request_allowed cfg now probe roster \<longleftrightarrow>
    (probe \<longrightarrow> cfg_EnableResetProbe cfg)
    \<and> (normalRosterBackgroundAllowed roster \<or> probe \<and> provisionalProbeBackgroundAllowed roster)
    \<and> (hr_Provisional roster \<longrightarrow> cfg_ProbeOnProvisionalRoster cfg \<and> provisionalAgeValid now (hr_ConfirmedAt roster))"

definition lifecycle_marker :: "bool \<Rightarrow> HostRosterSnapshot \<Rightarrow> string" where
  "lifecycle_marker probe roster =
    (if hr_Health roster = RosterDegraded then ''degraded''
     else if probe \<and> hr_Provisional roster then ''provisional'' else [])"

definition doBackgroundHTTPRequest ::
  "lifecycle_env \<Rightarrow> Config \<Rightarrow> bool \<Rightarrow> HTTPRequest \<Rightarrow> ProbeRuntime \<Rightarrow> HTTPRequest option \<times> ProbeRuntime" where
  \<comment> \<open>the request handed to the host, \<open>None\<close> for \<^verbatim>\<open>ErrCapabilityB\<close>; \<^verbatim>\<open>Header.Set\<close> writes the canonical key\<close>
  "doBackgroundHTTPRequest env cfg probe req rt0 =
    (let rt = le_gate env (le_now env) rt0; roster = normalizeHostRosterLifecycle (pr_roster rt)
     in if snd (failClosedRosterAt roster (le_now2 env))
        then let rt1 = le_mid env rt;
                 rt2 = (case failClosedRosterAt (pr_roster rt1) (le_now3 env) of
                          (latest, True) \<Rightarrow> rt1\<lparr>pr_roster := latest\<rparr> | (_, False) \<Rightarrow> rt1)
             in (None, snd (persistProbeRosterHold (le_faults env) rt2))
        else if \<not> request_allowed cfg (le_now3 env) probe roster then (None, rt)
        else (Some (let marker = lifecycle_marker probe roster
                    in if marker = [] then req
                       else req\<lparr>hq_Headers := gput ''X-Cpa-Roster-Lifecycle'' [marker] (hq_Headers req)\<rparr>), rt))"

section \<open>A provisional roster is permitted on matching credentials only\<close>

lemma snapshot_loaded: "so_loaded s \<Longrightarrow> PersistentSnapshot stop io s = (Inr (so_state s), s)"
  by (simp add: PersistentSnapshot_def ensure_loaded_def)

lemma find_rev_in: "find P (rev xs) = Some x \<Longrightarrow> x \<in> set xs \<and> P x"
  by (metis find_Some_iff nth_mem set_rev)

lemma credential_matchesD:
  assumes "credential_matches env e"
  obtains raw c where "ve_getAuth env (pe_AuthIndex e) = Some raw" "ExtractCodexCredentials (ve_lib env) raw = Inr c"
    "NewCredentialFingerprint (ve_remarshal env) (cc_ChatGPTAccountID c) (cc_RefreshToken c) (pe_AuthIndex e) = pe_Fingerprint e"
  using assms by (auto simp: credential_matches_def split: option.splits sum.splits)

lemma entry_verifiedD:
  assumes "entry_verified env roster bs e"
  obtains r b where "r \<in> set (ac_Entries roster)" "re_ID r = pe_ID e" "re_AuthIndex r = pe_AuthIndex e"
    "registry_Lookup (pe_ID e) bs = Some b" "rb_Generation b = ac_Generation roster" "rb_Fingerprint b = pe_Fingerprint e"
    "credential_matches env e"
  using assms by (auto simp: entry_verified_def dest!: find_rev_in split: option.splits)

lemma same_keys:
  \<comment> \<open>distinct keys that all occur in a list of the same length are its keys, each once\<close>
  assumes "distinct xs" "length xs = length ys" "set xs \<subseteq> set ys"
  shows "set ys = set xs \<and> distinct ys"
proof -
  have "card (set ys) \<le> card (set xs)" using assms(1,2) card_length [of ys] by (simp add: distinct_card)
  then have eq: "set xs = set ys" using assms(3) by (simp add: card_seteq)
  then show ?thesis using assms(1,2) by (metis card_distinct distinct_card)
qed

text \<open>
  C14. After a restart the roster confirmed before it is permitted for probing only if, for each
  of its accounts, the credential that the host holds has the fingerprint of the account's
  binding, and the binding belongs to the generation of the roster. No entry of the roster
  escapes the comparison.
\<close>

theorem provisional_permit_verified:
  assumes "VerifyProvisionalRoster env roster rt = (True, rt')" "r \<in> set (ac_Entries roster)"
    and "so_loaded (pr_store rt)" "st_LastConfirmedRoster (so_state (pr_store rt)) = Some p" "distinct (map pe_ID (pc_Entries p))"
  shows "\<exists>b raw c. registry_Lookup (re_ID r) (pr_bindings rt) = Some b \<and> rb_Generation b = ac_Generation roster
     \<and> ve_getAuth env (re_AuthIndex r) = Some raw \<and> ExtractCodexCredentials (ve_lib env) raw = Inr c
     \<and> NewCredentialFingerprint (ve_remarshal env) (cc_ChatGPTAccountID c) (cc_RefreshToken c) (re_AuthIndex r) = rb_Fingerprint b"
proof -
  have all: "\<forall>e \<in> set (pc_Entries p). entry_verified env roster (pr_bindings rt) e"
    and len: "length (pc_Entries p) = length (ac_Entries roster)"
    using assms(1,4) snapshot_loaded [OF assms(3)]
    by (auto simp: VerifyProvisionalRoster_def Let_def list_all_iff split: if_splits)
  have "set (map pe_ID (pc_Entries p)) \<subseteq> set (map re_ID (ac_Entries roster))"
    using all by (force elim: entry_verifiedD)
  then have same: "set (map re_ID (ac_Entries roster)) = set (map pe_ID (pc_Entries p))" "distinct (map re_ID (ac_Entries roster))"
    using same_keys [OF assms(5), of "map re_ID (ac_Entries roster)"] len by simp_all
  have "re_ID r \<in> set (map re_ID (ac_Entries roster))" using assms(2) by simp
  then obtain e where e: "e \<in> set (pc_Entries p)" "pe_ID e = re_ID r" unfolding same(1) by auto
  from all e(1) have "entry_verified env roster (pr_bindings rt) e" by blast
  then obtain r' b where v: "r' \<in> set (ac_Entries roster)" "re_ID r' = pe_ID e" "re_AuthIndex r' = pe_AuthIndex e"
    "registry_Lookup (pe_ID e) (pr_bindings rt) = Some b" "rb_Generation b = ac_Generation roster" "rb_Fingerprint b = pe_Fingerprint e"
    "credential_matches env e" by (rule entry_verifiedD)
  from v(7) obtain raw c where "ve_getAuth env (pe_AuthIndex e) = Some raw" "ExtractCodexCredentials (ve_lib env) raw = Inr c"
    "NewCredentialFingerprint (ve_remarshal env) (cc_ChatGPTAccountID c) (cc_RefreshToken c) (pe_AuthIndex e) = pe_Fingerprint e"
    by (rule credential_matchesD)
  moreover have "r' = r" using same(2) v(1,2) assms(2) e(2) by (metis distinct_map inj_onD)
  ultimately show ?thesis using v(3-6) e(2) by metis
qed

definition file_env :: verify_env where
  "file_env = \<lparr>ve_lib = file_lib, ve_remarshal = Some, ve_getAuth = (\<lambda>_. Some ''file''), ve_cancelled = (\<lambda>_. False),
     ve_faults = (None, \<lambda>_. False), ve_now1 = 10, ve_now2 = 11\<rparr>"

definition file_fingerprint :: CredentialFingerprint where
  "file_fingerprint = NewCredentialFingerprint Some ''acct'' ''rt'' ''1''"

definition restart_roster :: PersistedConfirmedRoster where
  "restart_roster = \<lparr>pc_Generation = 4, pc_ConfirmedAt = 5,
     pc_Entries = [\<lparr>pe_ID = ''a'', pe_AuthIndex = ''1'', pe_Priority = 0, pe_Fingerprint = file_fingerprint\<rparr>]\<rparr>"

definition restart_active :: ActiveRoster where
  "restart_active = waiting_roster\<lparr>ac_Provisional := True, ac_Generation := 4, ac_ConfirmedAt := 5,
     ac_Entries := map roster_entry_of (pc_Entries restart_roster), ac_Instances := [''a'']\<rparr>"

definition restart_runtime :: ProbeRuntime where
  "restart_runtime = \<lparr>pr_store = \<lparr>so_disk = \<lparr>dk_primary = None, dk_backup = None, dk_primary_corrupt = None, dk_backup_corrupt = None\<rparr>,
       so_readOnly = False, so_loaded = True, so_state = NewPersistentState\<lparr>st_LastConfirmedRoster := Some restart_roster\<rparr>\<rparr>,
     pr_ctrl = NewProbeController 0, pr_persistPending = [], pr_holdPending = False, pr_roster = zero_HostRosterSnapshot,
     pr_permit = False, pr_bindings = [(''a'', zero_RuntimeBinding\<lparr>rb_AuthID := ''a'', rb_AuthIndex := ''1'',
       rb_Instance := legacyAuthInstanceID ''a'', rb_Generation := 4, rb_Fingerprint := file_fingerprint\<rparr>)], pr_sent = []\<rparr>"

lemma file_credentials_extracted: "ExtractCodexCredentials file_lib ''file'' = Inr file_credentials"
  by code_simp

lemma restart_verified:
  "VerifyProvisionalRoster file_env restart_active restart_runtime = (True, restart_runtime\<lparr>pr_permit := True\<rparr>)"
  using file_credentials_extracted
  by (simp add: VerifyProvisionalRoster_def restart_active_def restart_roster_def restart_runtime_def waiting_roster_def
      provisionalAgeValid_def provisionalMaxAge_def Sub_def maxDuration_def minDuration_def file_env_def snapshot_loaded
      entry_verified_def credential_matches_def roster_entry_of_def registry_Lookup_def file_fingerprint_def file_credentials_def Let_def)

theorem provisional_permit_verified_witness:
  "\<exists>b raw c. registry_Lookup ''a'' (pr_bindings restart_runtime) = Some b \<and> rb_Generation b = 4
     \<and> ve_getAuth file_env ''1'' = Some raw \<and> ExtractCodexCredentials (ve_lib file_env) raw = Inr c
     \<and> NewCredentialFingerprint (ve_remarshal file_env) (cc_ChatGPTAccountID c) (cc_RefreshToken c) ''1'' = rb_Fingerprint b"
  using provisional_permit_verified [OF restart_verified, of "hd (ac_Entries restart_active)" restart_roster]
  by (simp add: restart_active_def restart_runtime_def restart_roster_def roster_entry_of_def)

end
