(* ===== verification/Quota_Refresh.thy ===== *)
theory Quota_Refresh
  imports Refresh_Lifecycle Refresh_Controller Credential_WAL Scheduler Quota
begin

text \<open>
  \<^verbatim>\<open>refresh.go\<close>, lines 1867 to 2384, and \<^verbatim>\<open>auth_transaction.go\<close>: the refresh of one account under the
  lease of the coordinator.

  The transaction works on a copy of the plugin state (\<open>tx_state\<close>) and hands a journal back. Everything
  else is shared with other goroutines (\<open>refresh_world\<close>): whenever the transaction waits for a slot of
  the host, \<open>rq_others\<close> changes the shared part in an arbitrary way, only the roster stays as it is
  while its read lock is held. The k-th wait uses the k-th clock reading, slot error and answer. The calls to the
  host are recorded with the shared state at the moment they are made. The save of a credential
  is one step, as its manager holds its mutex. Library code is an argument: JSON, time formats, the
  form encoder, the redaction by regular expressions, the texts of library errors. The refresher is the one of
  production, with a credential manager and a binding registry.
\<close>

section \<open>State\<close>

record refresh_world =
  rw_runtime :: ProbeRuntime
  rw_state :: PluginState
  rw_credentials :: CredentialManager
  rw_host :: HostAuth
  rw_trials :: TrialRegistry
  rw_snapshot :: "SchedulerSnapshot option"

datatype refresh_call = CallGetAuth string | CallDo HTTPRequest | CallSaveAuth HostAuth

record refresh_txn =
  tx_world :: refresh_world
  tx_state :: PluginState
  tx_step :: nat
  tx_calls :: "(refresh_call \<times> nat \<times> refresh_world) list"

record HostAuthFileEntry =
  hf_ID :: string
  hf_AuthIndex :: string
  hf_Provider :: string
  hf_Label :: string
  hf_Email :: string
  hf_Priority :: int
  hf_Disabled :: bool
  hf_Unavailable :: bool

record token_response =
  tr_AccessToken :: string
  tr_RefreshToken :: string
  tr_IDToken :: string
  tr_ExpiresIn :: int
  tr_AccountID :: string

record refresh_env =
  rq_lib :: auth_lib
  rq_remarshal :: "string \<Rightarrow> string option"
  rq_redact :: "string \<Rightarrow> string"                    \<comment> \<open>\<^verbatim>\<open>redactSecrets\<close>\<close>
  rq_form :: "(string \<times> string) list \<Rightarrow> string"       \<comment> \<open>\<^verbatim>\<open>url.Values.Encode\<close>\<close>
  rq_usage :: "string \<Rightarrow> json_error + doc"
  rq_token :: "string \<Rightarrow> json_error + token_response"
  rq_rfc3339 :: "string \<Rightarrow> time option"
  rq_walText :: "wal_error \<Rightarrow> string"
  rq_others :: "nat \<Rightarrow> refresh_world \<Rightarrow> refresh_world"
  rq_clock :: "nat \<Rightarrow> time"
  rq_slot :: "nat \<Rightarrow> string option"                  \<comment> \<open>the context ended before the call\<close>
  rq_late :: "nat \<Rightarrow> string option"                  \<comment> \<open>the context ended during the call\<close>
  rq_getAuth :: "nat \<Rightarrow> string \<Rightarrow> string + string \<times> string"  \<comment> \<open>the name and the JSON text of a file\<close>
  rq_do :: "nat \<Rightarrow> HTTPRequest \<Rightarrow> string + int \<times> string"
  rq_save :: "nat \<Rightarrow> save_env"
  rq_gate :: "time \<Rightarrow> ProbeRuntime \<Rightarrow> ProbeRuntime"
  rq_mid :: "ProbeRuntime \<Rightarrow> ProbeRuntime"
  rq_faults :: "nat \<Rightarrow> faults"
  rq_pump :: bool

section \<open>Errors\<close>

datatype refresh_error =
    ErrCPAAdmissionChanged
  | ErrCapabilityBUnavailable
  | ErrStaleToken
  | ErrBindingNotConfirmed
  | ErrText string
  | ErrSave wal_error
  | QuotaStatusError int string
  | TokenRefreshStatusError int string
  | Wrapped string refresh_error

definition fmt_int :: "int \<Rightarrow> string" where
  "fmt_int n = (if n < 0 then ''-'' @ fmt_d (nat (- n)) else fmt_d (nat n))"

fun join_fields :: "string list \<Rightarrow> string" where
  "join_fields [] = []"
| "join_fields [x] = x"
| "join_fields (x # xs) = x @ '' '' @ join_fields xs"

fun go_fields :: "string \<Rightarrow> string \<Rightarrow> string list" where
  \<comment> \<open>\<^verbatim>\<open>strings.Fields\<close>, with the field collected so far\<close>
  "go_fields w [] = (if w = [] then [] else [w])"
| "go_fields w (c # s) =
    (if TrimSpace [c] = [] then (if w = [] then go_fields [] s else w # go_fields [] s) else go_fields (w @ [c]) s)"

definition sanitizedBodySummary :: "refresh_env \<Rightarrow> string \<Rightarrow> string" where
  "sanitizedBodySummary env body =
    (if body = [] then ''<empty>''
     else let summary = join_fields (go_fields [] (rq_redact env body))
          in if length summary > 220 then take 220 summary @ ''...'' else summary)"

fun refresh_text :: "refresh_env \<Rightarrow> refresh_error \<Rightarrow> string" where
  "refresh_text env ErrCPAAdmissionChanged = ''CPA admission changed during refresh''"
| "refresh_text env ErrCapabilityBUnavailable = ''authoritative host roster unavailable''"
| "refresh_text env ErrStaleToken = ''stale execution token''"
| "refresh_text env ErrBindingNotConfirmed = ''binding is not roster-confirmed''"
| "refresh_text env (ErrText t) = t"
| "refresh_text env (ErrSave e) = rq_walText env e"
| "refresh_text env (QuotaStatusError status body) =
    ''quota request returned status '' @ fmt_int status @ '': response body: '' @ sanitizedBodySummary env body"
| "refresh_text env (TokenRefreshStatusError status msg) = msg"
| "refresh_text env (Wrapped prefix e) = prefix @ '': '' @ refresh_text env e"

fun admission_changed :: "refresh_error \<Rightarrow> bool" where
  \<comment> \<open>\<^verbatim>\<open>errors.Is(err, errCPAAdmissionChanged)\<close>\<close>
  "admission_changed ErrCPAAdmissionChanged = True"
| "admission_changed (Wrapped _ e) = admission_changed e"
| "admission_changed _ = False"

fun token_status_of :: "refresh_error \<Rightarrow> (int \<times> string) option" where
  \<comment> \<open>\<^verbatim>\<open>errors.As\<close>\<close>
  "token_status_of (TokenRefreshStatusError status msg) = Some (status, msg)"
| "token_status_of (Wrapped _ e) = token_status_of e"
| "token_status_of _ = None"

fun quota_status_of :: "refresh_error \<Rightarrow> int option" where
  "quota_status_of (QuotaStatusError status _) = Some status"
| "quota_status_of (Wrapped _ e) = quota_status_of e"
| "quota_status_of _ = None"

definition refreshFailureKind :: "int \<Rightarrow> RefreshFailureKind" where
  "refreshFailureKind status = (if status = 401 then RefreshFailureAuth else RefreshFailureTransient)"

definition refreshTokenFailureKind :: "refresh_env \<Rightarrow> refresh_error \<Rightarrow> RefreshFailureKind" where
  "refreshTokenFailureKind env err =
    (case token_status_of err of
       Some (status, msg) \<Rightarrow>
         if status = 400 \<or> status = 401 \<or> Contains (ToLower msg) ''invalid_grant'' then RefreshFailureAuth
         else refreshFailureKind status
     | None \<Rightarrow>
         let t = refresh_text env err
         in if Contains t ''refresh_token is missing'' \<or> Contains t ''auth file name is required''
               \<or> Contains t ''refresh response did not include access_token''
            then RefreshFailureLocal else RefreshFailureTransient)"

fun replace_all :: "nat \<Rightarrow> string \<Rightarrow> string \<Rightarrow> string \<Rightarrow> string" where
  \<comment> \<open>\<^verbatim>\<open>strings.ReplaceAll\<close> of a text that is not empty; as many steps as bytes are enough\<close>
  "replace_all 0 secret new s = s"
| "replace_all (Suc n) secret new s =
    (case cut_at secret s of None \<Rightarrow> s | Some (a, b) \<Rightarrow> a @ new @ replace_all n secret new b)"

definition redactWithCredentials :: "refresh_env \<Rightarrow> string \<Rightarrow> CodexCredentials \<Rightarrow> string" where
  "redactWithCredentials env message credentials =
    fold (\<lambda>secret m. if secret = [] then m else replace_all (length m) secret ''[redacted]'' m)
      [cc_AccessToken credentials, cc_IDToken credentials] (rq_redact env message)"

section \<open>Log messages\<close>

definition msg_credits_failed :: string where
  "msg_credits_failed = [CHR 0xE4, CHR 0xB8, CHR 0xBB, CHR 0xE5, CHR 0x8A, CHR 0xA8, CHR 0xE9, CHR 0x87, CHR 0x8D, CHR 0xE7,
     CHR 0xBD, CHR 0xAE, CHR 0xE6, CHR 0xAC, CHR 0xA1, CHR 0xE6, CHR 0x95, CHR 0xB0, CHR 0xE5, CHR 0x88,
     CHR 0xB7, CHR 0xE6, CHR 0x96, CHR 0xB0, CHR 0xE5, CHR 0xA4, CHR 0xB1, CHR 0xE8, CHR 0xB4, CHR 0xA5]"

definition msg_refresh_ok :: string where
  "msg_refresh_ok = [CHR 0xE8, CHR 0xB4, CHR 0xA6, CHR 0xE5, CHR 0x8F, CHR 0xB7, CHR 0xE9, CHR 0xA2, CHR 0x9D, CHR 0xE5,
     CHR 0xBA, CHR 0xA6, CHR 0xE5, CHR 0x88, CHR 0xB7, CHR 0xE6, CHR 0x96, CHR 0xB0, CHR 0xE6, CHR 0x88,
     CHR 0x90, CHR 0xE5, CHR 0x8A, CHR 0x9F]"

definition msg_refresh_failed :: string where
  "msg_refresh_failed = [CHR 0xE8, CHR 0xB4, CHR 0xA6, CHR 0xE5, CHR 0x8F, CHR 0xB7, CHR 0xE9, CHR 0xA2, CHR 0x9D, CHR 0xE5,
     CHR 0xBA, CHR 0xA6, CHR 0xE5, CHR 0x88, CHR 0xB7, CHR 0xE6, CHR 0x96, CHR 0xB0, CHR 0xE5, CHR 0xA4,
     CHR 0xB1, CHR 0xE8, CHR 0xB4, CHR 0xA5]"

section \<open>Calls to the host\<close>

definition write_version :: "Intent \<Rightarrow> WritebackVersion" where
  "write_version intent = \<lparr>wv_Token = in_Token intent, wv_Login = in_Login intent, wv_Fingerprint = in_Fingerprint intent\<rparr>"

definition txn_permit :: "Intent \<Rightarrow> uint64 \<Rightarrow> refresh_world \<Rightarrow> bool" where
  \<comment> \<open>\<^verbatim>\<open>permit\<close> of \<open>RunHeld\<close>\<close>
  "txn_permit intent version w \<longleftrightarrow> CPAAdmissionVersionCurrent (rw_state w) version
     \<and> (case registry_Lookup (in_AuthID intent) (pr_bindings (rw_runtime w)) of None \<Rightarrow> False
        | Some b \<Rightarrow> ValidateWriteback (binding_version b) (write_version intent))"

definition others :: "refresh_env \<Rightarrow> refresh_txn \<Rightarrow> refresh_txn" where
  "others env tx = tx\<lparr>tx_world := rq_others env (tx_step tx) (tx_world tx), tx_step := tx_step tx + 1\<rparr>"

definition others_reading :: "refresh_env \<Rightarrow> refresh_txn \<Rightarrow> refresh_txn" where
  \<comment> \<open>the transaction holds the read lock of the roster\<close>
  "others_reading env tx =
    (let tx1 = others env tx; w = tx_world tx1
     in tx1\<lparr>tx_world := w\<lparr>rw_runtime := (rw_runtime w)\<lparr>pr_roster := pr_roster (rw_runtime (tx_world tx))\<rparr>\<rparr>\<rparr>)"

definition tx_now :: "refresh_env \<Rightarrow> refresh_txn \<Rightarrow> time" where
  "tx_now env tx = rq_clock env (tx_step tx)"

definition note_call :: "refresh_call \<Rightarrow> nat \<Rightarrow> refresh_txn \<Rightarrow> refresh_txn" where
  "note_call c k tx = tx\<lparr>tx_calls := tx_calls tx @ [(c, k, tx_world tx)]\<rparr>"

definition held_call ::
  "refresh_env \<Rightarrow> Intent \<Rightarrow> uint64 \<Rightarrow> refresh_call \<Rightarrow> (nat \<Rightarrow> string + 'a) \<Rightarrow> nat \<Rightarrow> refresh_txn \<Rightarrow> (refresh_error + 'a) \<times> refresh_txn" where
  \<comment> \<open>the methods of \<^verbatim>\<open>heldHostClient\<close> once the slot is there: \<^verbatim>\<open>DoHTTP\<close> around permit and call\<close>
  "held_call env intent version c answer k tx =
    (case rq_slot env k of Some err \<Rightarrow> (Inl (ErrText err), tx)
     | None \<Rightarrow>
         if \<not> txn_permit intent version (tx_world tx) then (Inl ErrCPAAdmissionChanged, tx)
         else let tx1 = note_call c k tx
              in case answer k of Inl err \<Rightarrow> (Inl (ErrText err), tx1)
               | Inr v \<Rightarrow> (case rq_late env k of Some err \<Rightarrow> (Inl (ErrText err), tx1) | None \<Rightarrow> (Inr v, tx1)))"

definition getAuthWithAdmissionPermit ::
  "refresh_env \<Rightarrow> Intent \<Rightarrow> string \<Rightarrow> uint64 \<Rightarrow> string \<Rightarrow> refresh_txn \<Rightarrow> (refresh_error + string \<times> string) \<times> refresh_txn" where
  "getAuthWithAdmissionPermit env intent authID version authIndex tx =
    (if \<not> BeginCPAAdmissionCall (tx_state tx) authID version then (Inl ErrCPAAdmissionChanged, tx)
     else held_call env intent version (CallGetAuth authIndex) (\<lambda>k. rq_getAuth env k authIndex) (tx_step tx) (others env tx))"

definition lifecycle_of :: "refresh_env \<Rightarrow> refresh_txn \<Rightarrow> lifecycle_env" where
  "lifecycle_of env tx = \<lparr>le_gate = rq_gate env, le_mid = rq_mid env, le_faults = rq_faults env (tx_step tx),
     le_now = tx_now env tx, le_now2 = tx_now env tx, le_now3 = tx_now env tx\<rparr>"

definition doWithAdmissionPermit ::
  "refresh_env \<Rightarrow> Intent \<Rightarrow> string \<Rightarrow> uint64 \<Rightarrow> HTTPRequest \<Rightarrow> refresh_txn \<Rightarrow> (refresh_error + int \<times> string) \<times> refresh_txn" where
  "doWithAdmissionPermit env intent authID version req tx =
    (if \<not> BeginCPAAdmissionCall (tx_state tx) authID version then (Inl ErrCPAAdmissionChanged, tx)
     else let w = tx_world tx;
              (gated, rt) = doBackgroundHTTPRequest (lifecycle_of env tx) (ps_cfg (rw_state w)) False req (rw_runtime w);
              tx1 = tx\<lparr>tx_world := w\<lparr>rw_runtime := rt\<rparr>\<rparr>
          in case gated of None \<Rightarrow> (Inl ErrCapabilityBUnavailable, tx1)
           | Some req' \<Rightarrow> held_call env intent version (CallDo req') (\<lambda>k. rq_do env k req') (tx_step tx1) (others_reading env tx1))"

section \<open>Requests\<close>

definition account_headers :: "CodexCredentials \<Rightarrow> (string, string list) gmap" where
  "account_headers credentials = [(''Authorization'', [''Bearer '' @ cc_AccessToken credentials]),
     (''Chatgpt-Account-Id'', [cc_ChatGPTAccountID credentials]), (''Content-Type'', [''application/json'']),
     (''User-Agent'', [''codex_cli_rs/0.76.0 (Debian 13.0.0; x86_64) WindowsTerminal''])]"

definition http_ok :: "int \<Rightarrow> bool" where
  "http_ok status \<longleftrightarrow> 200 \<le> status \<and> status < 300"

definition fetchQuota ::
  "refresh_env \<Rightarrow> Intent \<Rightarrow> CodexCredentials \<Rightarrow> string \<Rightarrow> uint64 \<Rightarrow> refresh_txn \<Rightarrow> (refresh_error + ParsedQuota) \<times> refresh_txn" where
  "fetchQuota env intent credentials authID version tx =
    (let req = \<lparr>hq_Method = ''GET'', hq_URL = cfg_QuotaEndpoint (ps_cfg (tx_state tx)),
                hq_Headers = account_headers credentials, hq_Body = []\<rparr>
     in case doWithAdmissionPermit env intent authID version req tx of
          (Inl err, tx1) \<Rightarrow> (Inl (Wrapped ''quota request'' err), tx1)
        | (Inr (status, body), tx1) \<Rightarrow>
            if \<not> http_ok status then (Inl (QuotaStatusError status body), tx1)
            else (case ParseCodexUsagePayload (rq_rfc3339 env) (rq_usage env body) (tx_now env tx1) of
                Inl err \<Rightarrow> (Inl (Wrapped ''parse quota'' (ErrText err)), tx1)
              | Inr quota \<Rightarrow> (Inr quota, tx1)))"

definition refreshResetCredits ::
  "refresh_env \<Rightarrow> Intent \<Rightarrow> CodexCredentials \<Rightarrow> string \<Rightarrow> uint64 \<Rightarrow> refresh_txn \<Rightarrow> (refresh_error + ParsedQuota) \<times> refresh_txn" where
  "refreshResetCredits env intent credentials authID version tx =
    (let req = \<lparr>hq_Method = ''GET'', hq_URL = ''https://chatgpt.com/backend-api/wham/rate-limit-reset-credits'',
                hq_Headers = account_headers credentials, hq_Body = []\<rparr>
     in case doWithAdmissionPermit env intent authID version req tx of
          (Inl err, tx1) \<Rightarrow> (Inl (Wrapped ''reset credits request'' err), tx1)
        | (Inr (status, body), tx1) \<Rightarrow>
            if \<not> http_ok status
            then (Inl (ErrText (''reset credits request returned status '' @ fmt_int status @ '': response body: ''
                     @ sanitizedBodySummary env body)), tx1)
            else (case ParseResetCreditsPayload (rq_rfc3339 env) (rq_usage env body) of
                Inl err \<Rightarrow> (Inl (Wrapped ''parse reset credits'' (ErrText err)), tx1)
              | Inr quota \<Rightarrow> (Inr quota, tx1)))"

definition mergeResetCredits :: "ParsedQuota \<Rightarrow> ParsedQuota \<Rightarrow> ParsedQuota" where
  "mergeResetCredits quota resetCredits =
    (let q1 = (if pq_ResetCreditsAvailableCount resetCredits = None then quota
               else quota\<lparr>pq_ResetCreditsAvailableCount := pq_ResetCreditsAvailableCount resetCredits\<rparr>);
         q2 = (if pq_ResetCreditsTotalEarnedCount resetCredits = None then q1
               else q1\<lparr>pq_ResetCreditsTotalEarnedCount := pq_ResetCreditsTotalEarnedCount resetCredits\<rparr>)
     in if pq_ResetCredits resetCredits = [] then q2 else q2\<lparr>pq_ResetCredits := pq_ResetCredits resetCredits\<rparr>)"

section \<open>Refreshing the access token\<close>

definition token_credentials :: "refresh_env \<Rightarrow> time \<Rightarrow> token_response \<Rightarrow> CodexCredentials" where
  \<comment> \<open>\<^verbatim>\<open>int\<close> has 64 bits\<close>
  "token_credentials env now resp =
    (let idToken = TrimSpace (tr_IDToken resp); account = TrimSpace (tr_AccountID resp)
     in \<lparr>cc_AccessToken = TrimSpace (tr_AccessToken resp), cc_RefreshToken = TrimSpace (tr_RefreshToken resp),
         cc_IDToken = idToken,
         cc_ChatGPTAccountID = (if account = [] \<and> idToken \<noteq> []
           then (case extractChatGPTAccountID (rq_lib env) idToken of Inr accountID \<Rightarrow> accountID | Inl _ \<Rightarrow> []) else account),
         cc_ExpiresAt = (if tr_ExpiresIn resp > 0 then Add now (wrap64 (tr_ExpiresIn resp * Second)) else ZeroTime)\<rparr>)"

definition refreshCodexAccessToken ::
  "refresh_env \<Rightarrow> Intent \<Rightarrow> string \<Rightarrow> string \<Rightarrow> uint64 \<Rightarrow> refresh_txn \<Rightarrow> (refresh_error + CodexCredentials) \<times> refresh_txn" where
  "refreshCodexAccessToken env intent refreshToken authID version tx =
    (let form = [(''client_id'', ''app_EMoamEEZ73f0CkXaXp7hrann''), (''grant_type'', ''refresh_token''),
           (''refresh_token'', refreshToken), (''scope'', ''openid profile email'')];
         req = \<lparr>hq_Method = ''POST'', hq_URL = ''https://auth.openai.com/oauth/token'',
           hq_Headers = [(''Accept'', [''application/json'']), (''Content-Type'', [''application/x-www-form-urlencoded''])],
           hq_Body = rq_form env form\<rparr>
     in case doWithAdmissionPermit env intent authID version req tx of
          (Inl err, tx1) \<Rightarrow> (Inl (Wrapped ''token refresh request'' err), tx1)
        | (Inr (status, body), tx1) \<Rightarrow>
            if \<not> http_ok status
            then (Inl (TokenRefreshStatusError status (''token refresh returned status '' @ fmt_int status
                     @ '': response body: '' @ sanitizedBodySummary env body)), tx1)
            else (case rq_token env body of
                Inl err \<Rightarrow> (Inl (Wrapped ''parse token refresh response'' (ErrText err)), tx1)
              | Inr resp \<Rightarrow> (Inr (token_credentials env (tx_now env tx1) resp), tx1)))"

definition complete_credentials :: "CodexCredentials \<Rightarrow> CodexCredentials \<Rightarrow> CodexCredentials" where
  \<comment> \<open>what the response left out is taken from the file\<close>
  "complete_credentials current refreshed = refreshed\<lparr>
     cc_RefreshToken := (if cc_RefreshToken refreshed = [] then cc_RefreshToken current else cc_RefreshToken refreshed),
     cc_ChatGPTAccountID := (if cc_ChatGPTAccountID refreshed = [] then cc_ChatGPTAccountID current else cc_ChatGPTAccountID refreshed),
     cc_IDToken := (if cc_IDToken refreshed = [] then cc_IDToken current else cc_IDToken refreshed)\<rparr>"

definition recordAdmissionLog ::
  "refresh_env \<Rightarrow> string \<Rightarrow> uint64 \<Rightarrow> string \<Rightarrow> string \<Rightarrow> string \<Rightarrow> (string, go_any) gmap \<Rightarrow> refresh_txn \<Rightarrow> refresh_txn" where
  "recordAdmissionLog env authID version level event message flds tx =
    tx\<lparr>tx_state := snd (RecordLogIfAdmissionCurrent (tx_now env tx) authID version level event message flds (tx_now env tx) (tx_state tx))\<rparr>"

definition save_credentials ::
  "refresh_env \<Rightarrow> Intent \<Rightarrow> uint64 \<Rightarrow> RuntimeBinding \<Rightarrow> HostAuth \<Rightarrow> refresh_txn \<Rightarrow> refresh_error option \<times> refresh_txn" where
  \<comment> \<open>\<^verbatim>\<open>SaveVersionedWithHost\<close> over \<^verbatim>\<open>heldCredentialHost\<close>: without a slot or a permit the host is not asked\<close>
  "save_credentials env intent version binding nxt tx0 =
    (let k = tx_step tx0; tx = others env tx0; w = tx_world tx;
         ok = (rq_slot env k = None \<and> txn_permit intent version w);
         senv = (if ok then rq_save env k else (rq_save env k)\<lparr>se_outcome := SaveFailed False\<rparr>);
         ((result, err), m, s, h) = saveVersionedWithHost senv (rb_Instance binding) nxt (in_Token intent)
           (rw_credentials w) (pr_store (rw_runtime w)) (rw_host w);
         tx1 = (if ok \<and> cs_Phase result \<noteq> TransitionPhaseEmpty then note_call (CallSaveAuth nxt) k tx else tx)
     in (map_option ErrSave err,
         tx1\<lparr>tx_world := w\<lparr>rw_credentials := m, rw_runtime := (rw_runtime w)\<lparr>pr_store := s\<rparr>, rw_host := h\<rparr>\<rparr>))"

definition binding_current :: "Intent \<Rightarrow> string \<Rightarrow> RuntimeBinding \<Rightarrow> refresh_txn \<Rightarrow> bool" where
  "binding_current intent authID binding tx =
    fst (ApplyIfCurrent authID \<lparr>wv_Token = in_Token intent, wv_Login = rb_Login binding, wv_Fingerprint = rb_Fingerprint binding\<rparr>
      id (pr_bindings (rw_runtime (tx_world tx))) ())"

definition refreshAndSaveCredentials ::
  "refresh_env \<Rightarrow> Intent \<Rightarrow> string \<times> string \<Rightarrow> CodexCredentials \<Rightarrow> string \<Rightarrow> uint64 \<Rightarrow> refresh_txn
   \<Rightarrow> (refresh_error + CodexCredentials) \<times> refresh_txn" where
  "refreshAndSaveCredentials env intent authResp current authID version tx =
    (if TrimSpace (cc_RefreshToken current) = []
     then (Inl (ErrText ''access_token expired and refresh_token is missing''), tx)
     else case refreshCodexAccessToken env intent (cc_RefreshToken current) authID version tx of
       (Inl err, tx1) \<Rightarrow> (Inl err, tx1)
     | (Inr response, tx1) \<Rightarrow>
         let refreshed = complete_credentials current response; name = TrimSpace (fst authResp)
         in if cc_AccessToken refreshed = [] then (Inl (ErrText ''refresh response did not include access_token''), tx1)
         else case updateCodexAuthJSON (rq_lib env) (snd authResp) refreshed (tx_now env tx1) of
           Inl err \<Rightarrow> (Inl (ErrText err), tx1)
         | Inr updated \<Rightarrow>
             if name = [] then (Inl (ErrText ''auth file name is required to save refreshed token''), tx1)
             else (case registry_Lookup authID (pr_bindings (rw_runtime (tx_world tx1))) of
                 None \<Rightarrow> (Inl ErrBindingNotConfirmed, tx1)
               | Some binding \<Rightarrow>
                   let nxt = \<lparr>ha_Name = name, ha_Raw = updated,
                         ha_Fingerprint = NewCredentialFingerprint (rq_remarshal env) (cc_ChatGPTAccountID refreshed)
                           (cc_RefreshToken refreshed) (rb_AuthIndex binding)\<rparr>
                   in if \<not> binding_current intent authID binding tx1 then (Inl ErrStaleToken, tx1)
                      else (case save_credentials env intent version binding nxt tx1 of
                          (Some err, tx2) \<Rightarrow> (Inl err, tx2)
                        | (None, tx2) \<Rightarrow>
                            if \<not> binding_current intent authID binding tx2 then (Inl ErrStaleToken, tx2)
                            else (Inr refreshed, recordAdmissionLog env authID version ''info'' ''quota.token_refreshed''
                                   ''Codex access token refreshed and saved'' [(''auth_file'', AString name)] tx2))))"

section \<open>Recording the outcome\<close>

definition accountStateFromAuth :: "HostAuthFileEntry \<Rightarrow> time \<Rightarrow> AccountState" where
  "accountStateFromAuth auth now = zero_AccountState\<lparr>as_AuthID := hf_ID auth, as_AuthIndex := hf_AuthIndex auth,
     as_DisplayName := hf_Label auth, as_Email := hf_Email auth, as_Provider := hf_Provider auth,
     as_Priority := hf_Priority auth, as_LastRefreshAt := now\<rparr>"

definition merge_account :: "AccountState \<Rightarrow> AccountState \<Rightarrow> AccountState" where
  "merge_account existing account = existing\<lparr>as_AuthID := as_AuthID account, as_AuthIndex := as_AuthIndex account,
     as_DisplayName := as_DisplayName account, as_Email := as_Email account, as_Provider := as_Provider account,
     as_Priority := as_Priority account,
     as_ChatGPTAccountID := (if as_ChatGPTAccountID account \<noteq> [] then as_ChatGPTAccountID account else as_ChatGPTAccountID existing)\<rparr>"

definition mergeExistingAccount :: "PluginState \<Rightarrow> time \<Rightarrow> AccountState \<Rightarrow> AccountState" where
  "mergeExistingAccount state now account =
    (let key = accountStateKey account
     in if key = [] then account
        else case find (\<lambda>existing. accountStateKey existing = key) (ss_Accounts (state_Snapshot state now)) of
               Some existing \<Rightarrow> merge_account existing account | None \<Rightarrow> account)"

definition active_set :: "HostRosterSnapshot \<Rightarrow> string set option" where
  \<comment> \<open>\<open>highestTierSet\<close>, \<open>None\<close> for the nil map\<close>
  "active_set roster = map_option (\<lambda>(_, ids). set ids) (HighestCodexTier (hr_Entries roster))"

definition publish_overlay :: "refresh_env \<Rightarrow> refresh_txn \<Rightarrow> refresh_txn" where
  \<comment> \<open>\<^verbatim>\<open>publishSchedulerState(r.state, ...)\<close>, where \<^verbatim>\<open>r.state\<close> is the transaction's copy\<close>
  "publish_overlay env tx =
    (let w = tx_world tx
     in tx\<lparr>tx_world := w\<lparr>rw_snapshot := Some (publishSchedulerState (rq_pump env) (tx_state tx)
          (active_set (pr_roster (rw_runtime w))) (tx_now env tx) (Some (rw_trials w)))\<rparr>\<rparr>)"

definition upsertRefreshFailure ::
  "refresh_env \<Rightarrow> AccountState \<Rightarrow> uint64 \<Rightarrow> string \<Rightarrow> RefreshFailureKind \<Rightarrow> refresh_txn \<Rightarrow> refresh_txn" where
  "upsertRefreshFailure env account version message kind tx =
    (let now = tx_now env tx;
         merged = (mergeExistingAccount (tx_state tx) now account)\<lparr>as_LastRefreshAt := as_LastRefreshAt account, as_LastError := message\<rparr>;
         (ok, st) = ApplyQuotaRefreshFailureIfAdmissionCurrent now merged version kind message now (tx_state tx);
         tx1 = tx\<lparr>tx_state := st\<rparr>; w = tx_world tx1
     in if \<not> ok then tx1
        else recordAdmissionLog env (as_AuthID merged) version ''warn'' ''quota.refresh_failed'' msg_refresh_failed
          [(''auth_id'', AString (as_AuthID merged)), (''error'', AString message)]
          (publish_overlay env (tx1\<lparr>tx_world := w\<lparr>rw_trials := ObserveRetry (as_Instance merged) now (rw_trials w)\<rparr>\<rparr>)))"

definition refresh_succeeded :: "refresh_env \<Rightarrow> AccountState \<Rightarrow> uint64 \<Rightarrow> ParsedQuota \<Rightarrow> refresh_txn \<Rightarrow> refresh_txn" where
  \<comment> \<open>lines 1933 to 1941\<close>
  "refresh_succeeded env account0 version quota tx =
    (let now = tx_now env tx;
         account = account0\<lparr>as_Quota := quota, as_Family := pq_Family quota, as_LastError := [], as_LastSuccessAt := now\<rparr>;
         (ok, st) = ApplyQuotaRefreshSuccessIfAdmissionCurrent now account version now (tx_state tx);
         tx1 = tx\<lparr>tx_state := st\<rparr>; w = tx_world tx1
     in if \<not> ok then tx1
        else recordAdmissionLog env (as_AuthID account) version ''info'' ''quota.refresh_success'' msg_refresh_ok
          [(''auth_id'', AString (as_AuthID account))]
          (publish_overlay env (tx1\<lparr>tx_world :=
             w\<lparr>rw_trials := ObserveEvidence (as_Instance account) EvidenceReliableQuotaWriteback (rw_trials w)\<rparr>\<rparr>)))"

definition refresh_without_account :: "refresh_env \<Rightarrow> AccountState \<Rightarrow> uint64 \<Rightarrow> refresh_txn \<Rightarrow> refresh_txn" where
  \<comment> \<open>lines 1901 to 1908\<close>
  "refresh_without_account env account version tx =
    (let now = tx_now env tx;
         (ok, st) = ApplyQuotaRefreshSuccessIfAdmissionCurrent now
            (account\<lparr>as_LastError := [], as_Refresh := zero_AccountRefreshState\<rparr>) version now (tx_state tx);
         tx1 = tx\<lparr>tx_state := st\<rparr>
     in if ok then publish_overlay env tx1 else tx1)"

section \<open>The refresh of one account\<close>

definition read_quota ::
  "refresh_env \<Rightarrow> Intent \<Rightarrow> AccountState \<Rightarrow> CodexCredentials \<Rightarrow> uint64 \<Rightarrow> refresh_txn \<Rightarrow> refresh_txn" where
  \<comment> \<open>from line 1899 on: the credentials are usable\<close>
  "read_quota env intent account0 credentials version tx =
    (let account = (mergeExistingAccount (tx_state tx) (tx_now env tx) account0)\<lparr>as_ChatGPTAccountID := cc_ChatGPTAccountID credentials\<rparr>
     in if cc_ChatGPTAccountID credentials = [] then refresh_without_account env account version tx
        else case fetchQuota env intent credentials (as_AuthID account) version tx of
          (Inl err, tx1) \<Rightarrow>
            if admission_changed err then tx1
            else upsertRefreshFailure env account version (redactWithCredentials env (refresh_text env err) credentials)
                   (case quota_status_of err of Some status \<Rightarrow> refreshFailureKind status | None \<Rightarrow> RefreshFailureTransient) tx1
        | (Inr quota, tx1) \<Rightarrow>
            (case refreshResetCredits env intent credentials (as_AuthID account) version tx1 of
               (Inl err, tx2) \<Rightarrow>
                 if admission_changed err then tx2
                 else refresh_succeeded env account version quota
                   (recordAdmissionLog env (as_AuthID account) version ''warn'' ''quota.reset_credits_failed'' msg_credits_failed
                     [(''auth_id'', AString (as_AuthID account)),
                      (''error'', AString (redactWithCredentials env (refresh_text env err) credentials))] tx2)
             | (Inr resetCredits, tx2) \<Rightarrow> refresh_succeeded env account version (mergeResetCredits quota resetCredits) tx2))"

definition refreshAuthVersionedHeld :: "refresh_env \<Rightarrow> Intent \<Rightarrow> HostAuthFileEntry \<Rightarrow> uint64 \<Rightarrow> refresh_txn \<Rightarrow> refresh_txn" where
  "refreshAuthVersionedHeld env intent auth version tx =
    (let (priority, currentVersion, admitted) = AdmittedCPAPriorityVersioned (tx_state tx) (hf_ID auth);
         account = (accountStateFromAuth auth (tx_now env tx))\<lparr>as_Priority := priority\<rparr>
     in if \<not> admitted \<or> currentVersion \<noteq> version then tx
        else case getAuthWithAdmissionPermit env intent (as_AuthID account) version (hf_AuthIndex auth) tx of
          (Inl err, tx1) \<Rightarrow>
            if admission_changed err then tx1
            else upsertRefreshFailure env account version (rq_redact env (''get auth: '' @ refresh_text env err)) RefreshFailureTransient tx1
        | (Inr authResp, tx1) \<Rightarrow>
            (case ExtractCodexCredentials (rq_lib env) (snd authResp) of
               Inl err \<Rightarrow> upsertRefreshFailure env account version
                 (redactWithCredentials env (''extract credentials: '' @ err) zero_CodexCredentials) RefreshFailureLocal tx1
             | Inr credentials \<Rightarrow>
                 if \<not> accessTokenExpired (tx_now env tx1) credentials (tx_now env tx1)
                 then read_quota env intent account credentials version tx1
                 else (case refreshAndSaveCredentials env intent authResp credentials (as_AuthID account) version tx1 of
                     (Inl err, tx2) \<Rightarrow>
                       if admission_changed err then tx2
                       else upsertRefreshFailure env account version
                         (redactWithCredentials env (''refresh access token: '' @ refresh_text env err) zero_CodexCredentials)
                         (refreshTokenFailureKind env err) tx2
                   | (Inr refreshed, tx2) \<Rightarrow> read_quota env intent account refreshed version tx2)))"

section \<open>The transaction around it\<close>

definition begin_txn :: "refresh_world \<Rightarrow> refresh_txn" where
  "begin_txn w = \<lparr>tx_world = w, tx_state = cloneForLegacyTransaction (rw_state w), tx_step = 0, tx_calls = []\<rparr>"

definition RunHeld :: "refresh_env \<Rightarrow> Intent \<Rightarrow> HostAuthFileEntry \<Rightarrow> uint64 \<Rightarrow> refresh_world \<Rightarrow> LegacyEffectJournal \<times> refresh_txn" where
  \<comment> \<open>on a live context, with the payload of a legacy refresh\<close>
  "RunHeld env intent auth version w =
    (let tx0 = begin_txn w;
         baselineLogs = length (ss_Logs (state_Snapshot (tx_state tx0) (tx_now env tx0)));
         tx = refreshAuthVersionedHeld env intent auth version tx0
     in (legacyEffectJournal (tx_state tx) (hf_ID auth) baselineLogs, tx))"

definition apply_result_journal :: "bool \<Rightarrow> Intent \<Rightarrow> LegacyEffectJournal \<Rightarrow> refresh_world \<Rightarrow> bool \<times> refresh_world" where
  \<comment> \<open>the coordinator's \<^verbatim>\<open>Apply\<close>: the journal is written back under the lock of the binding, unless the reconciliation
    of the probe windows before it fails (\<open>reconciled\<close>; see \<open>Probe_Runtime\<close>)\<close>
  "apply_result_journal reconciled intent journal w =
    (let (ok, st) = ApplyIfCurrent (in_AuthID intent) (write_version intent)
           (\<lambda>s. if reconciled then applyLegacyEffectJournal journal s else s) (pr_bindings (rw_runtime w)) (rw_state w)
     in (ok \<and> reconciled, w\<lparr>rw_state := st\<rparr>))"

end
