(* ===== verification/Refresh_Props.thy ===== *)
theory Refresh_Props
  imports Quota_Refresh
begin

text \<open>
  Properties of the refresh of one account: every call to the host is made under a current
  admission, a current binding and, for a request to the provider, a roster that allows it, whatever other
  goroutines do in between; and the write-back changes the refreshed account only.
\<close>

section \<open>What a call to the host relies on\<close>

definition call_permitted :: "refresh_env \<Rightarrow> Intent \<Rightarrow> uint64 \<Rightarrow> refresh_call \<times> nat \<times> refresh_world \<Rightarrow> bool" where
  \<comment> \<open>the call, the index of its wait and the shared state at the moment it is made\<close>
  "call_permitted env intent version call =
    (let (c, k, w) = call; roster = normalizeHostRosterLifecycle (pr_roster (rw_runtime w))
     in txn_permit intent version w
        \<and> (case c of CallDo _ \<Rightarrow> normalRosterBackgroundAllowed roster \<and> \<not> snd (failClosedRosterAt roster (rq_clock env k))
           | _ \<Rightarrow> True))"

definition calls_ok :: "refresh_env \<Rightarrow> Intent \<Rightarrow> uint64 \<Rightarrow> refresh_txn \<Rightarrow> bool" where
  "calls_ok env intent version tx \<longleftrightarrow> list_all (call_permitted env intent version) (tx_calls tx)"

lemma calls_ok_update [simp]:
  "calls_ok env intent version (tx\<lparr>tx_world := w\<rparr>) = calls_ok env intent version tx"
  "calls_ok env intent version (tx\<lparr>tx_state := st\<rparr>) = calls_ok env intent version tx"
  "calls_ok env intent version (others env' tx) = calls_ok env intent version tx"
  "calls_ok env intent version (others_reading env' tx) = calls_ok env intent version tx"
  "calls_ok env intent version (recordAdmissionLog env' authID v level event message flds tx) = calls_ok env intent version tx"
  "calls_ok env intent version (publish_overlay env' tx) = calls_ok env intent version tx"
  by (simp_all add: calls_ok_def others_def others_reading_def recordAdmissionLog_def publish_overlay_def Let_def)

lemma calls_ok_note:
  "calls_ok env intent version (note_call c k tx)
     \<longleftrightarrow> calls_ok env intent version tx \<and> call_permitted env intent version (c, k, tx_world tx)"
  by (simp add: calls_ok_def note_call_def)

lemma held_call_ok:
  assumes "calls_ok env intent version tx"
    and "txn_permit intent version (tx_world tx) \<Longrightarrow> call_permitted env intent version (c, k, tx_world tx)"
  shows "calls_ok env intent version (snd (held_call env intent version c answer k tx))"
  using assms by (simp add: held_call_def calls_ok_note Let_def split: option.split sum.split)

lemma getAuth_ok:
  "calls_ok env intent version tx \<Longrightarrow>
     calls_ok env intent version (snd (getAuthWithAdmissionPermit env intent authID version authIndex tx))"
  by (simp add: getAuthWithAdmissionPermit_def held_call_ok call_permitted_def)

lemma gated_roster:
  assumes "doBackgroundHTTPRequest lenv cfg False req rt = (Some req', rt')"
  shows "normalRosterBackgroundAllowed (normalizeHostRosterLifecycle (pr_roster rt'))
     \<and> \<not> snd (failClosedRosterAt (normalizeHostRosterLifecycle (pr_roster rt')) (le_now2 lenv))"
  using assms by (auto simp: doBackgroundHTTPRequest_def request_allowed_def Let_def split: if_splits)

lemma do_ok:
  assumes "calls_ok env intent version tx"
  shows "calls_ok env intent version (snd (doWithAdmissionPermit env intent authID version req tx))"
proof (cases "doBackgroundHTTPRequest (lifecycle_of env tx) (ps_cfg (rw_state (tx_world tx))) False req (rw_runtime (tx_world tx))")
  case (Pair gated rt)
  let ?tx1 = "tx\<lparr>tx_world := (tx_world tx)\<lparr>rw_runtime := rt\<rparr>\<rparr>"
  have "calls_ok env intent version (snd (held_call env intent version (CallDo req') (\<lambda>k. rq_do env k req') (tx_step tx)
      (others_reading env ?tx1)))" if "gated = Some req'" for req'
  proof (rule held_call_ok)
    show "calls_ok env intent version (others_reading env ?tx1)" using assms by simp
    have "pr_roster (rw_runtime (tx_world (others_reading env ?tx1))) = pr_roster rt"
      by (simp add: others_reading_def Let_def)
    moreover have "le_now2 (lifecycle_of env tx) = rq_clock env (tx_step tx)" by (simp add: lifecycle_of_def tx_now_def)
    moreover note gated_roster [OF Pair [unfolded that]]
    moreover assume "txn_permit intent version (tx_world (others_reading env ?tx1))"
    ultimately show "call_permitted env intent version (CallDo req', tx_step tx, tx_world (others_reading env ?tx1))"
      by (simp add: call_permitted_def Let_def)
  qed
  then show ?thesis using Pair assms by (cases gated) (simp_all add: doWithAdmissionPermit_def Let_def)
qed

section \<open>The parts of a refresh\<close>

lemma fetch_ok:
  "calls_ok env intent version tx \<Longrightarrow> calls_ok env intent version (snd (fetchQuota env intent c authID version tx))"
  using do_ok [of env intent version tx authID]
  by (auto simp: fetchQuota_def Let_def split: prod.split sum.split) (metis snd_conv)+

lemma credits_ok:
  "calls_ok env intent version tx \<Longrightarrow> calls_ok env intent version (snd (refreshResetCredits env intent c authID version tx))"
  using do_ok [of env intent version tx authID]
  by (auto simp: refreshResetCredits_def Let_def split: prod.split sum.split) (metis snd_conv)+

lemma token_ok:
  "calls_ok env intent version tx \<Longrightarrow> calls_ok env intent version (snd (refreshCodexAccessToken env intent t authID version tx))"
  using do_ok [of env intent version tx authID]
  by (auto simp: refreshCodexAccessToken_def Let_def split: prod.split sum.split) (metis snd_conv)+

lemma save_ok:
  "calls_ok env intent version tx \<Longrightarrow> calls_ok env intent version (snd (save_credentials env intent version b nxt tx))"
  by (auto simp: save_credentials_def calls_ok_note call_permitted_def Let_def split: prod.split)

lemma upsert_ok:
  "calls_ok env intent version tx \<Longrightarrow> calls_ok env intent version (upsertRefreshFailure env account v message kind tx)"
  by (simp add: upsertRefreshFailure_def Let_def split: prod.split)

lemma outcome_ok:
  assumes "calls_ok env intent version tx"
  shows "calls_ok env intent version (refresh_succeeded env account v quota tx)"
    "calls_ok env intent version (refresh_without_account env account v tx)"
  using assms by (simp_all add: refresh_succeeded_def refresh_without_account_def Let_def split: prod.split)

lemma refresh_and_save_ok:
  assumes "calls_ok env intent version tx"
  shows "calls_ok env intent version (snd (refreshAndSaveCredentials env intent authResp current authID version tx))"
proof (cases "refreshCodexAccessToken env intent (cc_RefreshToken current) authID version tx")
  case (Pair res tx1)
  have tx1: "calls_ok env intent version tx1" using token_ok [OF assms] Pair by (metis snd_conv)
  have "calls_ok env intent version tx2" if "save_credentials env intent version b nxt tx1 = (err, tx2)" for b nxt err tx2
    using save_ok [OF tx1] that by (metis snd_conv)
  then show ?thesis using Pair tx1 assms
    by (auto simp: refreshAndSaveCredentials_def Let_def split: prod.split sum.split option.split)
qed

lemma read_quota_ok:
  assumes "calls_ok env intent version tx"
  shows "calls_ok env intent version (read_quota env intent account credentials version tx)"
proof -
  have fetch: "calls_ok env intent version tx1" if "fetchQuota env intent credentials authID version tx = (res, tx1)" for authID res tx1
    using fetch_ok [OF assms] that by (metis snd_conv)
  have credits: "calls_ok env intent version tx2"
    if "calls_ok env intent version tx1" "refreshResetCredits env intent credentials authID version tx1 = (res, tx2)" for authID res tx1 tx2
    using credits_ok [OF that(1)] that(2) by (metis snd_conv)
  show ?thesis
    using assms
    by (auto simp: read_quota_def Let_def split: prod.split sum.split intro!: upsert_ok outcome_ok intro: fetch credits)
      (meson fetch credits)
qed

lemma refresh_ok_calls:
  assumes "calls_ok env intent version tx"
  shows "calls_ok env intent version (refreshAuthVersionedHeld env intent auth version tx)"
proof -
  have get: "calls_ok env intent version tx1"
    if "getAuthWithAdmissionPermit env intent authID version index tx = (res, tx1)" for authID index res tx1
    using getAuth_ok [OF assms] that by (metis snd_conv)
  have save: "calls_ok env intent version tx2"
    if "calls_ok env intent version tx1" "refreshAndSaveCredentials env intent authResp c authID version tx1 = (res, tx2)"
    for authResp c authID res tx1 tx2
    using refresh_and_save_ok [OF that(1)] that(2) by (metis snd_conv)
  show ?thesis
    using assms
    by (auto simp: refreshAuthVersionedHeld_def Let_def split: prod.split sum.split intro!: upsert_ok read_quota_ok intro: get save)
qed


section \<open>The write-back\<close>

lemma journal_key: "as_AuthID a \<noteq> [] \<Longrightarrow> accountStateKey a = ''auth:'' @ as_AuthID a"
  by (simp add: accountStateKey_def)

lemma journal_accounts_other:
  assumes "\<forall>a \<in> set accounts. accountStateKey a \<noteq> key"
  shows "gget (ps_accounts (fold journal_account accounts s)) key = gget (ps_accounts s) key"
  using assms
  by (induction accounts arbitrary: s) (auto simp: journal_account_def put_account_def update_conv' Let_def)

lemma journal_keeps_others:
  assumes "authID \<noteq> []" "key \<noteq> ''auth:'' @ authID"
  shows "gget (ps_accounts (applyLegacyEffectJournal (legacyEffectJournal st authID n) s)) key = gget (ps_accounts s) key"
proof -
  have "\<forall>a \<in> set (lj_Accounts (legacyEffectJournal st authID n)). accountStateKey a \<noteq> key"
    using assms by (auto simp: legacyEffectJournal_def journal_key)
  from journal_accounts_other [OF this] show ?thesis by (simp add: applyLegacyEffectJournal_def Let_def)
qed

lemma refresh_writes_own_account:
  assumes "hf_ID auth \<noteq> []" "key \<noteq> ''auth:'' @ hf_ID auth"
    and "apply_result_journal reconciled intent (fst (RunHeld env intent auth version w)) w' = (ok, w'')"
  shows "gget (ps_accounts (rw_state w'')) key = gget (ps_accounts (rw_state w')) key"
  using assms
  by (auto simp: apply_result_journal_def ApplyIfCurrent_def RunHeld_def journal_keeps_others Let_def
      split: option.splits if_splits)

lemma refused_result_changes_nothing:
  "apply_result_journal reconciled intent journal w = (False, w') \<Longrightarrow> rw_state w' = rw_state w"
  by (auto simp: apply_result_journal_def ApplyIfCurrent_def Let_def split: option.splits if_splits)

lemma write_back_replaces_account:
  \<comment> \<open>whatever was recorded for the account since the copy was taken is lost\<close>
  assumes "lj_Accounts journal = [a]" "as_AuthID a \<noteq> []"
  shows "gget (ps_accounts (applyLegacyEffectJournal journal s)) (accountStateKey a) = Some (cloneAccountState a)"
  using assms
  by (simp add: applyLegacyEffectJournal_def journal_account_def put_account_def update_conv' journal_key Let_def)

section \<open>A run\<close>

definition calm_env :: refresh_env where
  "calm_env = \<lparr>rq_lib = file_lib\<lparr>al_parseNano := \<lambda>_. None\<rparr>, rq_remarshal = Some, rq_redact = id, rq_form = (\<lambda>_. []),
     rq_usage = (\<lambda>_. Inr []), rq_token = (\<lambda>_. Inl []), rq_rfc3339 = (\<lambda>_. None), rq_walText = (\<lambda>_. []),
     rq_others = (\<lambda>_ w. w), rq_clock = (\<lambda>_. 10), rq_slot = (\<lambda>_. None), rq_late = (\<lambda>_. None),
     rq_getAuth = (\<lambda>_ _. Inr (''a.json'', ''file'')), rq_do = (\<lambda>_ _. Inr (200, [])),
     rq_save = (\<lambda>_. sample_env), rq_gate = (\<lambda>_ rt. rt), rq_mid = id, rq_faults = (\<lambda>_. (None, \<lambda>_. False)), rq_pump = False\<rparr>"

definition calm_world :: refresh_world where
  "calm_world = \<lparr>rw_runtime = \<lparr>pr_store = NewStateStore \<lparr>dk_primary = None, dk_backup = None, dk_primary_corrupt = None, dk_backup_corrupt = None\<rparr>,
       pr_ctrl = NewProbeController 0, pr_persistPending = [], pr_holdPending = False, pr_roster = sample_roster, pr_permit = False,
       pr_bindings = [(''a'', zero_RuntimeBinding\<lparr>rb_AuthID := ''a'', rb_AuthIndex := ''1'', rb_Instance := 7\<rparr>)], pr_sent = []\<rparr>,
     rw_state = (NewPluginState DefaultConfig)\<lparr>ps_cpaAdmission := zero_CPAAdmissionState\<lparr>ad_Observed := True, ad_AuthIDs := {''a''}\<rparr>,
       ps_cpaAdmissionVersion := 3\<rparr>,
     rw_credentials = \<lparr>cm_state = NewPersistentState\<rparr>, rw_host = \<lparr>ha_Name = [], ha_Raw = [], ha_Fingerprint = zero_CredentialFingerprint\<rparr>,
     rw_trials = NewTrialRegistry, rw_snapshot = None\<rparr>"

definition calm_intent :: Intent where
  "calm_intent = zero_Intent\<lparr>in_AuthID := ''a'', in_Instance := 7, in_Token := zero_ExecutionToken\<lparr>et_Instance := 7\<rparr>\<rparr>"

definition calm_auth :: HostAuthFileEntry where
  "calm_auth = \<lparr>hf_ID = ''a'', hf_AuthIndex = ''1'', hf_Provider = ''codex'', hf_Label = [], hf_Email = [], hf_Priority = 0,
     hf_Disabled = False, hf_Unavailable = False\<rparr>"

lemma calm_run:
  "map (\<lambda>(c, k, w). case c of CallGetAuth i \<Rightarrow> i | CallDo req \<Rightarrow> hq_Method req | CallSaveAuth h \<Rightarrow> ha_Name h)
     (tx_calls (snd (RunHeld calm_env calm_intent calm_auth 3 calm_world))) = [''1'', ''GET'', ''GET'']"
  by code_simp

end
