(* ===== verification/Managed_Lifecycle.thy ===== *)
theory Managed_Lifecycle
  imports Quota_Refresh Usage
begin

text \<open>
  \<^verbatim>\<open>managed_lifecycle.go\<close>: the plugin disables the auth file of an account after a confirmed quota
  failure and enables it again once its quota is usable.

  The state is the durable store with its ownership records and the auth files of the host,
  which anyone may change between two operations. \<^verbatim>\<open>GetAuth\<close> finds a file by its index, \<^verbatim>\<open>SaveAuth\<close>
  writes it by its name. JSON is an argument as in the other theories; the raw text of a field is
  the text of its value, so that the flag \<^verbatim>\<open>disabled\<close> is set when that text is \<^verbatim>\<open>true\<close>. Every
  failure of the host, of the store and of the context is an input.
\<close>

section \<open>State\<close>

datatype managed_error = MgCancelled | MgHost | MgJSON string | MgStore store_error | MgPanic

record managed_env =
  me_json :: json_lib
  me_lib :: auth_lib
  me_remarshal :: "string \<Rightarrow> string option"
  me_cancelled :: bool
  me_getFails :: bool
  me_saveFails :: bool
  me_now :: time
  me_now2 :: time
  me_faults :: "nat \<Rightarrow> faults"            \<comment> \<open>of the snapshot and of each update\<close>
  me_lifecycle :: lifecycle_env
  me_do :: "HTTPRequest \<Rightarrow> (int \<times> string) option"
  me_usage :: "string \<Rightarrow> json_error + doc"
  me_rfc3339 :: "string \<Rightarrow> time option"

record managed_world =
  mw_runtime :: ProbeRuntime
  mw_state :: PluginState
  mw_files :: "(string, string \<times> string) gmap"      \<comment> \<open>index to name and JSON text\<close>
  mw_writes :: "(string \<times> string) list"

definition zero_ManagedDisableRecord :: ManagedDisableRecord where
  "zero_ManagedDisableRecord = \<lparr>md_DisabledAt = ZeroTime, md_DisableApplied = False, md_Fingerprint = zero_CredentialFingerprint,
     md_Last429At = ZeroTime, md_ResetAt = ZeroTime, md_LastQuotaCheckAt = ZeroTime, md_NextQuotaCheckAt = ZeroTime, md_Events = []\<rparr>"

definition msg_reenabled :: string where
  "msg_reenabled = [CHR 0xE9, CHR 0xA2, CHR 0x9D, CHR 0xE5, CHR 0xBA, CHR 0xA6, CHR 0xE6, CHR 0x81, CHR 0xA2, CHR 0xE5,
     CHR 0xA4, CHR 0x8D, CHR 0xEF, CHR 0xBC, CHR 0x8C, CHR 0xE5, CHR 0xB7, CHR 0xB2, CHR 0xE8, CHR 0x87,
     CHR 0xAA, CHR 0xE5, CHR 0x8A, CHR 0xA8, CHR 0xE9, CHR 0x87, CHR 0x8D, CHR 0xE6, CHR 0x96, CHR 0xB0,
     CHR 0xE5, CHR 0x90, CHR 0xAF, CHR 0xE7, CHR 0x94, CHR 0xA8, CHR 0xE8, CHR 0xB4, CHR 0xA6, CHR 0xE5,
     CHR 0x8F, CHR 0xB7]"

definition msg_rotation :: string where
  "msg_rotation = [CHR 0xE5, CHR 0x87, CHR 0xAD, CHR 0xE6, CHR 0x8D, CHR 0xAE, CHR 0xE8, CHR 0xBD, CHR 0xAE, CHR 0xE6,
     CHR 0x8D, CHR 0xA2, CHR 0xE5, CHR 0x90, CHR 0x8E, CHR 0xE6, CHR 0x94, CHR 0xBE, CHR 0xE5, CHR 0xBC,
     CHR 0x83, CHR 0xE6, CHR 0x89, CHR 0x98, CHR 0xE7, CHR 0xAE, CHR 0xA1, CHR 0xE5, CHR 0x81, CHR 0x9C,
     CHR 0xE7, CHR 0x94, CHR 0xA8, CHR 0xE6, CHR 0x89, CHR 0x80, CHR 0xE6, CHR 0x9C, CHR 0x89, CHR 0xE6,
     CHR 0x9D, CHR 0x83, CHR 0xEF, CHR 0xBC, CHR 0x8C, CHR 0xE4, CHR 0xBA, CHR 0xA4, CHR 0xE7, CHR 0x94,
     CHR 0xB1, CHR 0xE6, CHR 0x93, CHR 0x8D, CHR 0xE4, CHR 0xBD, CHR 0x9C, CHR 0xE5, CHR 0x91, CHR 0x98,
     CHR 0xE5, CHR 0xA4, CHR 0x84, CHR 0xE7, CHR 0x90, CHR 0x86]"

definition mg_snapshot :: "faults \<Rightarrow> managed_world \<Rightarrow> (store_error + PersistentState) \<times> managed_world" where
  "mg_snapshot f w =
    (let (res, s) = PersistentSnapshot (fst f) (snd f) (pr_store (mw_runtime w))
     in (res, w\<lparr>mw_runtime := (mw_runtime w)\<lparr>pr_store := s\<rparr>\<rparr>))"

definition mg_update :: "faults \<Rightarrow> (PersistentState \<Rightarrow> PersistentState) \<Rightarrow> managed_world \<Rightarrow> managed_error option \<times> managed_world" where
  "mg_update f tx w =
    (let (err, rt) = rt_error (rt_update f (\<lambda>st. Inr (tx st)) (mw_runtime w))
     in (map_option MgStore err, w\<lparr>mw_runtime := rt\<rparr>))"

definition file_GetAuth :: "managed_env \<Rightarrow> string \<Rightarrow> managed_world \<Rightarrow> (string \<times> string) option" where
  "file_GetAuth env index w = (if me_getFails env then None else gget (mw_files w) index)"

definition write_file :: "string \<Rightarrow> string \<Rightarrow> (string, string \<times> string) gmap \<Rightarrow> (string, string \<times> string) gmap" where
  "write_file name raw files = gmap_vals (\<lambda>(n, r). if n = name then (n, raw) else (n, r)) files"

definition file_SaveAuth :: "managed_env \<Rightarrow> string \<Rightarrow> string \<Rightarrow> managed_world \<Rightarrow> managed_error option \<times> managed_world" where
  "file_SaveAuth env name raw w =
    (if me_saveFails env then (Some MgHost, w)
     else (None, w\<lparr>mw_files := write_file name raw (mw_files w), mw_writes := mw_writes w @ [(name, raw)]\<rparr>))"

definition disabled_flag :: "(string, string) gmap option \<Rightarrow> bool" where
  \<comment> \<open>\<open>None\<close> is the nil map that the text \<^verbatim>\<open>null\<close> leaves\<close>
  "disabled_flag raw \<longleftrightarrow> (case raw of Some object \<Rightarrow> gget object ''disabled'' = Some ''true'' | None \<Rightarrow> False)"

definition decode_file :: "managed_env \<Rightarrow> string \<Rightarrow> (string, string) gmap option option" where
  \<comment> \<open>\<^verbatim>\<open>json.Valid\<close> and \<^verbatim>\<open>json.Unmarshal\<close>\<close>
  "decode_file env json = (if jl_valid (me_json env) json then jl_object (me_json env) json else None)"

definition set_disabled :: "managed_env \<Rightarrow> bool \<Rightarrow> (string, string) gmap \<Rightarrow> string" where
  "set_disabled env b object = jl_marshal_object (me_json env) (gput ''disabled'' (if b then ''true'' else ''false'') object)"

definition file_name :: "string \<Rightarrow> string \<Rightarrow> string" where
  "file_name index name = (if name = [] then index else name)"

section \<open>Records\<close>

definition managedAuthFingerprint :: "managed_env \<Rightarrow> string \<Rightarrow> CodexCredentials \<Rightarrow> CredentialFingerprint" where
  "managedAuthFingerprint env authIndex credentials =
    NewCredentialFingerprint (me_remarshal env) (cc_ChatGPTAccountID credentials) (cc_RefreshToken credentials) authIndex"

definition appendLifecycleEvent :: "ManagedDisableRecord \<Rightarrow> LifecycleEvent \<Rightarrow> int \<Rightarrow> ManagedDisableRecord" where
  "appendLifecycleEvent record event limit =
    (if limit \<le> 0 then record
     else let events = md_Events record @ [event]; overflow = int (length events) - limit
          in record\<lparr>md_Events := (if overflow > 0 then drop (nat overflow) events else events)\<rparr>)"

definition managedQuotaUsable :: "ParsedQuota \<Rightarrow> time \<Rightarrow> time \<Rightarrow> duration \<Rightarrow> bool" where
  "managedQuotaUsable quota observedAt now staleAfter =
    (case pq_LongWindow quota of None \<Rightarrow> False
     | Some window \<Rightarrow>
         if IsZero observedAt \<or> After observedAt now \<or> staleAfter \<le> 0 \<or> Sub now observedAt > staleAfter then False
         else if windowExhausted (Some window) now then False
         else if (case qw_UsedPercent window of Some used \<Rightarrow> used \<ge> 100 | None \<Rightarrow> False) then False
         else \<not> (pq_FiveHour quota \<noteq> None \<and> windowExhausted (pq_FiveHour quota) now))"

definition drop_record :: "string \<Rightarrow> PersistentState \<Rightarrow> PersistentState" where
  "drop_record index st = st\<lparr>st_ManagedLifecycle := gdel index (st_ManagedLifecycle st)\<rparr>"

definition put_record :: "string \<Rightarrow> ManagedDisableRecord \<Rightarrow> PersistentState \<Rightarrow> PersistentState" where
  "put_record index record st = st\<lparr>st_ManagedLifecycle := gput index record (st_ManagedLifecycle st)\<rparr>"

definition record_or_zero :: "string \<Rightarrow> PersistentState \<Rightarrow> ManagedDisableRecord" where
  "record_or_zero index st = the_default zero_ManagedDisableRecord (gget (st_ManagedLifecycle st) index)"

definition lifecycle_event :: "string \<Rightarrow> time \<Rightarrow> string \<Rightarrow> LifecycleEvent" where
  "lifecycle_event kind t detail = \<lparr>lc_Kind = kind, lc_At = t, lc_Detail = detail\<rparr>"

definition plan_disable :: "Config \<Rightarrow> QuotaFailureEvent \<Rightarrow> time \<Rightarrow> CredentialFingerprint \<Rightarrow> PersistentState \<Rightarrow> PersistentState" where
  "plan_disable cfg event now fingerprint st =
    (let index = qe_AuthIndex event; r0 = record_or_zero index st;
         r1 = r0\<lparr>md_DisabledAt := (if IsZero (md_DisabledAt r0) then now else md_DisabledAt r0), md_Last429At := now,
                md_ResetAt := qe_ResetAt event, md_NextQuotaCheckAt := qe_ResetAt event,
                md_Fingerprint := (if ValidHashes fingerprint then fingerprint else md_Fingerprint r0)\<rparr>
     in put_record index (appendLifecycleEvent r1 (lifecycle_event ''quota_429'' now (qe_Reason event)) (cfg_LifecycleEventLimit cfg)) st)"

definition confirm_disable :: "Config \<Rightarrow> string \<Rightarrow> time \<Rightarrow> string \<Rightarrow> PersistentState \<Rightarrow> PersistentState" where
  "confirm_disable cfg kind now index st =
    put_record index (appendLifecycleEvent ((record_or_zero index st)\<lparr>md_DisableApplied := True\<rparr>) (lifecycle_event kind now [])
      (cfg_LifecycleEventLimit cfg)) st"

section \<open>Disabling\<close>

definition disable_planned ::
  "managed_env \<Rightarrow> QuotaFailureEvent \<Rightarrow> string \<Rightarrow> (string, string) gmap option \<Rightarrow> CredentialFingerprint \<Rightarrow> managed_world
   \<Rightarrow> managed_error option \<times> managed_world" where
  \<comment> \<open>lines 109 to 150: record the ownership, write the flag, record that it was written\<close>
  "disable_planned env event name raw fingerprint w =
    (let cfg = ps_cfg (mw_state w); index = qe_AuthIndex event
     in case mg_update (me_faults env 1) (plan_disable cfg event (me_now env) fingerprint) w of
          (Some err, w1) \<Rightarrow> (Some err, w1)
        | (None, w1) \<Rightarrow>
            if disabled_flag raw then (None, w1)
            else (case raw of None \<Rightarrow> (Some MgPanic, w1)
              | Some object \<Rightarrow>
                  (case file_SaveAuth env (file_name index name) (set_disabled env True object) w1 of
                     (Some err, w2) \<Rightarrow> (Some err, w2)
                   | (None, w2) \<Rightarrow> mg_update (me_faults env 2) (confirm_disable cfg ''disabled'' (me_now2 env) index) w2)))"

definition ApplyManagedQuotaDisable :: "managed_env \<Rightarrow> QuotaFailureEvent \<Rightarrow> managed_world \<Rightarrow> managed_error option \<times> managed_world" where
  "ApplyManagedQuotaDisable env event w =
    (let index = qe_AuthIndex event
     in if \<not> cfg_EnableManagedQuotaDisable (ps_cfg (mw_state w)) \<or> index = [] then (None, w)
     else if me_cancelled env then (Some MgCancelled, w)
     else case file_GetAuth env index w of None \<Rightarrow> (Some MgHost, w)
     | Some (name, json) \<Rightarrow>
       (case decode_file env json of None \<Rightarrow> (Some (MgJSON ''managed quota disable requires valid auth JSON''), w)
        | Some raw \<Rightarrow>
          (case mg_snapshot (me_faults env 0) w of (Inl e, w1) \<Rightarrow> (Some (MgStore e), w1)
           | (Inr persisted, w1) \<Rightarrow>
               let owned = gget (st_ManagedLifecycle persisted) index;
                   current = (case ExtractCodexCredentials (me_lib env) json of Inl _ \<Rightarrow> None
                      | Inr c \<Rightarrow> Some (managedAuthFingerprint env index c));
                   fingerprint = (case (current, owned) of (Some fp, _) \<Rightarrow> fp | (None, Some record) \<Rightarrow> md_Fingerprint record
                      | _ \<Rightarrow> zero_CredentialFingerprint);
                   rotated = (case (owned, current) of
                       (Some record, Some fp) \<Rightarrow> ValidHashes (md_Fingerprint record) \<and> md_Fingerprint record \<noteq> fp | _ \<Rightarrow> False)
               in if disabled_flag raw \<and> owned = None then (None, w1)
                  else if rotated then mg_update (me_faults env 1) (drop_record index) w1
                  else disable_planned env event name raw fingerprint w1)))"

section \<open>Recovery\<close>

definition recordManagedQuotaCheck :: "managed_env \<Rightarrow> string \<Rightarrow> time \<Rightarrow> managed_world \<Rightarrow> managed_error option \<times> managed_world" where
  "recordManagedQuotaCheck env index at_time w =
    (let cfg = ps_cfg (mw_state w)
     in mg_update (me_faults env 1) (\<lambda>st. case gget (st_ManagedLifecycle st) index of None \<Rightarrow> st
          | Some record \<Rightarrow> put_record index (appendLifecycleEvent
              (record\<lparr>md_LastQuotaCheckAt := at_time, md_NextQuotaCheckAt := Add at_time (cfg_QuotaRefreshInterval cfg)\<rparr>)
              (lifecycle_event ''quota_checked'' at_time []) (cfg_LifecycleEventLimit cfg)) st) w)"

definition managed_log :: "managed_env \<Rightarrow> string \<Rightarrow> string \<Rightarrow> string \<Rightarrow> string \<Rightarrow> managed_world \<Rightarrow> managed_world" where
  "managed_log env level event message index w =
    w\<lparr>mw_state := RecordLog (me_now2 env) level event message [(''auth_index'', AString index)] (me_now2 env) (mw_state w)\<rparr>"

definition managed_quota_read :: "managed_env \<Rightarrow> CodexCredentials \<Rightarrow> managed_world \<Rightarrow> ParsedQuota option \<times> managed_world" where
  \<comment> \<open>a quota that allows the account to be enabled\<close>
  "managed_quota_read env credentials w =
    (let cfg = ps_cfg (mw_state w);
         (gated, rt) = doBackgroundHTTPRequest (me_lifecycle env) cfg False
           \<lparr>hq_Method = ''GET'', hq_URL = cfg_QuotaEndpoint cfg, hq_Headers = account_headers credentials, hq_Body = []\<rparr> (mw_runtime w);
         w1 = w\<lparr>mw_runtime := rt\<rparr>
     in case gated of None \<Rightarrow> (None, w1)
      | Some req \<Rightarrow> (case me_do env req of None \<Rightarrow> (None, w1)
         | Some (status, body) \<Rightarrow>
             if \<not> http_ok status then (None, w1)
             else (case ParseCodexUsagePayload (me_rfc3339 env) (me_usage env body) (me_now env) of Inl _ \<Rightarrow> (None, w1)
               | Inr quota \<Rightarrow> if managedQuotaUsable quota (me_now env) (me_now env) (cfg_QuotaRefreshInterval cfg)
                                then (Some quota, w1) else (None, w1))))"

definition enable_file ::
  "managed_env \<Rightarrow> string \<Rightarrow> string \<Rightarrow> (string, string) gmap option \<Rightarrow> managed_world \<Rightarrow> managed_error option \<times> managed_world" where
  "enable_file env index name raw w =
    (case raw of None \<Rightarrow> (Some MgPanic, w)
     | Some object \<Rightarrow>
         (case file_SaveAuth env (file_name index name) (set_disabled env False object) w of
            (Some err, w1) \<Rightarrow> (Some err, w1)
          | (None, w1) \<Rightarrow>
              (case mg_update (me_faults env 2) (drop_record index) w1 of
                 (Some err, w2) \<Rightarrow> (Some err, w2)
               | (None, w2) \<Rightarrow> (None, managed_log env ''info'' ''managed.reenabled'' msg_reenabled index w2))))"

definition recoverManagedQuotaAccount :: "managed_env \<Rightarrow> string \<Rightarrow> managed_world \<Rightarrow> managed_error option \<times> managed_world" where
  "recoverManagedQuotaAccount env index w =
    (case file_GetAuth env index w of None \<Rightarrow> (Some MgHost, w)
     | Some (name, json) \<Rightarrow>
       (case decode_file env json of None \<Rightarrow> (Some (MgJSON ''managed quota recovery requires valid auth JSON''), w)
        | Some raw \<Rightarrow>
          (case mg_snapshot (me_faults env 0) w of (Inl e, w1) \<Rightarrow> (Some (MgStore e), w1)
           | (Inr persisted, w1) \<Rightarrow>
               if \<not> disabled_flag raw then mg_update (me_faults env 1) (drop_record index) w1
               else case ExtractCodexCredentials (me_lib env) json of
                 Inl _ \<Rightarrow> recordManagedQuotaCheck env index (me_now env) w1
               | Inr credentials \<Rightarrow>
                   if cc_ChatGPTAccountID credentials = [] then recordManagedQuotaCheck env index (me_now env) w1
                   else if (case gget (st_ManagedLifecycle persisted) index of None \<Rightarrow> False
                       | Some record \<Rightarrow> ValidHashes (md_Fingerprint record)
                           \<and> md_Fingerprint record \<noteq> managedAuthFingerprint env index credentials)
                   then (case mg_update (me_faults env 1) (drop_record index) w1 of
                       (Some err, w2) \<Rightarrow> (Some err, w2)
                     | (None, w2) \<Rightarrow> (None, managed_log env ''warn'' ''managed.fingerprint_rotation'' msg_rotation index w2))
                   else (case managed_quota_read env credentials w1 of
                       (None, w2) \<Rightarrow> recordManagedQuotaCheck env index (me_now env) w2
                     | (Some quota, w2) \<Rightarrow> enable_file env index name raw w2))))"

definition reconcile_record :: "managed_env \<Rightarrow> string \<Rightarrow> managed_world \<Rightarrow> managed_error option \<times> managed_world" where
  \<comment> \<open>the body of the loop of \<open>reconcilePlannedManagedRecords\<close>\<close>
  "reconcile_record env index w =
    (if me_cancelled env then (Some MgCancelled, w)
     else case file_GetAuth env index w of None \<Rightarrow> (None, w)
     | Some (name, json) \<Rightarrow>
       (case decode_file env json of None \<Rightarrow> (None, w)
        | Some raw \<Rightarrow> mg_update (me_faults env 1) (\<lambda>st.
            if gget (st_ManagedLifecycle st) index = None then st
            else if disabled_flag raw then confirm_disable (ps_cfg (mw_state w)) ''disable_confirmed'' (me_now2 env) index st
            else drop_record index st) w))"

fun each_index :: "(string \<Rightarrow> managed_world \<Rightarrow> managed_error option \<times> managed_world) \<Rightarrow> string list \<Rightarrow> managed_world
    \<Rightarrow> managed_error option \<times> managed_world" where
  \<comment> \<open>a loop that returns at the first error\<close>
  "each_index f [] w = (None, w)"
| "each_index f (index # rest) w = (case f index w of (Some err, w1) \<Rightarrow> (Some err, w1) | (None, w1) \<Rightarrow> each_index f rest w1)"

definition reconcilePlannedManagedRecords ::
  "faults \<Rightarrow> (string \<Rightarrow> managed_env) \<Rightarrow> managed_world \<Rightarrow> managed_error option \<times> managed_world" where
  "reconcilePlannedManagedRecords f env w =
    (case mg_snapshot f w of (Inl e, w1) \<Rightarrow> (Some (MgStore e), w1)
     | (Inr persisted, w1) \<Rightarrow>
         each_index (\<lambda>index. reconcile_record (env index) index)
           (map fst (filter (\<lambda>(_, record). \<not> md_DisableApplied record) (st_ManagedLifecycle persisted))) w1)"

definition recovery_due :: "time \<Rightarrow> ManagedDisableRecord \<Rightarrow> bool" where
  "recovery_due now record \<longleftrightarrow> md_DisableApplied record
     \<and> (IsZero (md_NextQuotaCheckAt record) \<or> \<not> After (md_NextQuotaCheckAt record) now)"

definition RecoverManagedQuotaAccounts ::
  "faults \<Rightarrow> faults \<Rightarrow> time \<Rightarrow> (string \<Rightarrow> managed_env) \<Rightarrow> (string \<Rightarrow> managed_env) \<Rightarrow> managed_world
   \<Rightarrow> managed_error option \<times> managed_world" where
  "RecoverManagedQuotaAccounts f1 f2 now planned env w =
    (if \<not> cfg_EnableManagedQuotaDisable (ps_cfg (mw_state w)) then (None, w)
     else case reconcilePlannedManagedRecords f1 planned w of (Some err, w1) \<Rightarrow> (Some err, w1)
     | (None, w1) \<Rightarrow>
       (case mg_snapshot f2 w1 of (Inl e, w2) \<Rightarrow> (Some (MgStore e), w2)
        | (Inr persisted, w2) \<Rightarrow>
            each_index (\<lambda>index w. if me_cancelled (env index) then (Some MgCancelled, w) else recoverManagedQuotaAccount (env index) index w)
              (sort (map fst (filter (\<lambda>(_, record). recovery_due now record) (st_ManagedLifecycle persisted)))) w2))"

definition earliest_check :: "time \<Rightarrow> ManagedDisableRecord \<Rightarrow> time \<Rightarrow> time" where
  "earliest_check now record deadline =
    (if \<not> md_DisableApplied record then deadline
     else let candidate = (if IsZero (md_NextQuotaCheckAt record) \<or> Before (md_NextQuotaCheckAt record) now then now
                           else md_NextQuotaCheckAt record)
          in if IsZero deadline \<or> Before candidate deadline then candidate else deadline)"

definition managedRecoveryDeadline :: "faults \<Rightarrow> Config \<Rightarrow> time \<Rightarrow> StateStore \<Rightarrow> time \<times> StateStore" where
  "managedRecoveryDeadline f cfg now s =
    (if \<not> cfg_EnableManagedQuotaDisable cfg then (ZeroTime, s)
     else case PersistentSnapshot (fst f) (snd f) s of (Inl _, s1) \<Rightarrow> (ZeroTime, s1)
     | (Inr persisted, s1) \<Rightarrow> (fold (earliest_check now) (map snd (st_ManagedLifecycle persisted)) ZeroTime, s1))"

end
