(* ===== verification/Managed_Props.thy ===== *)
theory Managed_Props
  imports Managed_Lifecycle Probe_WAL
begin

text \<open>
  Properties of the managed disabling of accounts: a file that an operator disabled is never
  touched, whatever the plugin does, through faults and restarts; a file is enabled only on
  evidence; and a recovered account is enabled.
\<close>

section \<open>The operator's files\<close>

definition no_record :: "string \<Rightarrow> PersistentState \<Rightarrow> bool" where
  "no_record i st \<longleftrightarrow> gget (st_ManagedLifecycle st) i = None"

definition unowned :: "string \<Rightarrow> ProbeRuntime \<Rightarrow> bool" where
  \<comment> \<open>in memory and on the disk\<close>
  "unowned i rt \<longleftrightarrow> so_loaded (pr_store rt) \<and> undamaged (so_disk (pr_store rt)) \<and> no_record i (so_state (pr_store rt))
     \<and> (\<forall>st. durable (so_disk (pr_store rt)) = Some st \<longrightarrow> no_record i st)"

definition names_apart :: "string \<Rightarrow> string \<Rightarrow> (string, string \<times> string) gmap \<Rightarrow> bool" where
  \<comment> \<open>no other file is written under the name of the file\<close>
  "names_apart i name files \<longleftrightarrow> (\<forall>j n r. gget files j = Some (n, r) \<longrightarrow> j \<noteq> i \<longrightarrow> file_name j n \<noteq> name)"

definition manual :: "json_lib \<Rightarrow> string \<Rightarrow> string \<times> string \<Rightarrow> managed_world \<Rightarrow> bool" where
  \<comment> \<open>the file is disabled and the plugin has no record of it\<close>
  "manual J i file w \<longleftrightarrow> gget (mw_files w) i = Some file \<and> names_apart i (fst file) (mw_files w) \<and> unowned i (mw_runtime w)
     \<and> (\<exists>object. jl_object J (snd file) = Some (Some object) \<and> gget object ''disabled'' = Some ''true'')"

definition gate_keeps :: "string \<Rightarrow> lifecycle_env \<Rightarrow> bool" where
  "gate_keeps i env \<longleftrightarrow> (\<forall>t rt. unowned i rt \<longrightarrow> unowned i (le_gate env t rt)) \<and> (\<forall>rt. unowned i rt \<longrightarrow> unowned i (le_mid env rt))"

inductive managed_step :: "json_lib \<Rightarrow> string \<Rightarrow> managed_world \<Rightarrow> managed_world \<Rightarrow> bool" for J i where
  disable: "me_json env = J \<Longrightarrow> managed_step J i w (snd (ApplyManagedQuotaDisable env event w))"
| recover: "(\<And>j. me_json (planned j) = J) \<Longrightarrow> (\<And>j. me_json (env j) = J) \<Longrightarrow> (\<And>j. gate_keeps i (me_lifecycle (env j)))
    \<Longrightarrow> managed_step J i w (snd (RecoverManagedQuotaAccounts f1 f2 now planned env w))"
| restart: "loadLocked None (\<lambda>_. False) (NewStateStore (so_disk (pr_store (mw_runtime w)))) = (Inr (st, report), s)
    \<Longrightarrow> managed_step J i w (w\<lparr>mw_runtime := (mw_runtime w)\<lparr>pr_store := s\<rparr>\<rparr>)"
| host: "gget files i = gget (mw_files w) i \<Longrightarrow> (\<And>name. names_apart i name (mw_files w) \<Longrightarrow> names_apart i name files)
    \<Longrightarrow> managed_step J i w (w\<lparr>mw_files := files\<rparr>)"
| plugin: "managed_step J i w (w\<lparr>mw_state := state\<rparr>)"
| other: "(\<And>st st'. fn st = Inr st' \<Longrightarrow> st_ManagedLifecycle st' = st_ManagedLifecycle st)
    \<Longrightarrow> managed_step J i w (w\<lparr>mw_runtime := snd (rt_update f fn (mw_runtime w))\<rparr>)"

section \<open>Updates of the store\<close>

lemma unowned_update:
  assumes "unowned i rt" and "\<And>st st'. fn st = Inr st' \<Longrightarrow> no_record i st \<Longrightarrow> no_record i st'"
  shows "unowned i (snd (rt_update f fn rt))"
proof -
  let ?s = "pr_store rt"
  obtain res s' where u: "store_Update (fst f) (snd f) fn ?s = (res, s')" by fastforce
  have stamp: "no_record i (written nxt ?s) = no_record i nxt" for nxt by (simp add: no_record_def written_def)
  have "(so_loaded s' \<and> undamaged (so_disk s')) \<and> no_record i (so_state s') \<and> (\<forall>st. durable (so_disk s') = Some st \<longrightarrow> no_record i st)"
    by (rule disk_store.update_keeps [where s = ?s and f = f and fn = fn and res = res])
      (use assms u in \<open>auto simp: unowned_def stamp\<close>)
  then show ?thesis using u by (simp add: rt_update_def unowned_def)
qed

lemma unowned_frame [simp]:
  "unowned i (rt\<lparr>pr_roster := r\<rparr>) = unowned i rt" "unowned i (rt\<lparr>pr_ctrl := c\<rparr>) = unowned i rt"
  "unowned i (rt\<lparr>pr_holdPending := b\<rparr>) = unowned i rt"
  by (simp_all add: unowned_def)

lemma snapshot_unowned: "unowned i rt \<Longrightarrow> PersistentSnapshot stop io (pr_store rt) = (Inr (so_state (pr_store rt)), pr_store rt)"
  by (simp add: unowned_def snapshot_loaded)

lemma hold_instance_keeps: "st_ManagedLifecycle (hold_instance iw st) = st_ManagedLifecycle st"
  by (cases iw) (simp add: hold_instance_def put_windows_def drop_attempt_def Let_def)

lemma hold_keeps: "no_record i (fold hold_instance snapshot st) = no_record i st"
  by (induction snapshot arbitrary: st) (simp_all add: no_record_def hold_instance_keeps)

lemma unowned_hold:
  assumes "unowned i rt"
  shows "unowned i (snd (persistProbeRosterHold f rt))"
proof -
  have "unowned i (snd (rt_update f (hold_tx (probe_Snapshot (pr_ctrl rt))) rt))"
    by (rule unowned_update [OF assms]) (auto simp: hold_tx_def hold_keeps)
  then show ?thesis
    by (auto simp: persistProbeRosterHold_def holdProbeForRoster_def Let_def split: prod.splits sum.splits)
qed

lemma unowned_request:
  assumes "unowned i rt" "gate_keeps i lenv"
  shows "unowned i (snd (doBackgroundHTTPRequest lenv cfg probe req rt))"
  using assms
  by (auto simp: doBackgroundHTTPRequest_def gate_keeps_def Let_def intro!: unowned_hold split: prod.split bool.split)

section \<open>The operations leave the operator's files alone\<close>

lemma mg_update_files [simp]: "mw_files (snd (mg_update f tx w)) = mw_files w" "mw_writes (snd (mg_update f tx w)) = mw_writes w"
  "mw_state (snd (mg_update f tx w)) = mw_state w"
  by (simp_all add: mg_update_def split: prod.split)

lemma mg_update_manual:
  assumes "manual J i file w" "\<And>st. no_record i st \<Longrightarrow> no_record i (tx st)"
  shows "manual J i file (snd (mg_update f tx w))"
proof -
  have "unowned i (snd (rt_update f (\<lambda>st. Inr (tx st)) (mw_runtime w)))"
    by (rule unowned_update) (use assms in \<open>auto simp: manual_def\<close>)
  then show ?thesis using assms(1)
    by (auto simp: manual_def mg_update_def rt_error_def split: prod.split sum.split)
qed

lemma mg_snapshot_manual: "manual J i file w \<Longrightarrow> mg_snapshot f w = (Inr (so_state (pr_store (mw_runtime w))), w)"
  using snapshot_unowned [of i "mw_runtime w"] by (simp add: mg_snapshot_def manual_def)

lemma manual_no_record: "manual J i file w \<Longrightarrow> no_record i (so_state (pr_store (mw_runtime w)))"
  by (simp add: manual_def unowned_def)

lemma save_manual:
  assumes "manual J i file w" "gget (mw_files w) j = Some (n, r)" "j \<noteq> i"
  shows "manual J i file (snd (file_SaveAuth env (file_name j n) raw w))"
proof -
  have "file_name j n \<noteq> fst file" using assms by (auto simp: manual_def names_apart_def)
  moreover have "names_apart i (fst file) (write_file name raw' (mw_files w))" for name raw'
    using assms(1) by (auto simp: manual_def names_apart_def write_file_def gget_vals split: if_splits)
  ultimately show ?thesis using assms(1)
    by (auto simp: file_SaveAuth_def manual_def write_file_def gget_vals split: prod.split)
qed

lemma record_keeps:
  assumes "j \<noteq> i"
  shows "no_record i (put_record j r st) = no_record i st" "no_record i (drop_record j st) = no_record i st"
    "no_record i (confirm_disable cfg kind now j st) = no_record i st"
  using assms by (auto simp: no_record_def put_record_def drop_record_def confirm_disable_def update_conv' go_simps Let_def)

lemma plan_keeps: "qe_AuthIndex event \<noteq> i \<Longrightarrow> no_record i (plan_disable cfg event now fp st) = no_record i st"
  by (simp add: no_record_def put_record_def plan_disable_def update_conv' Let_def)

lemma disable_planned_manual:
  assumes "manual J i file w" "gget (mw_files w) (qe_AuthIndex event) = Some (name, json)" "qe_AuthIndex event \<noteq> i"
  shows "manual J i file (snd (disable_planned env event name raw fp w))"
proof (cases "mg_update (me_faults env 1) (plan_disable (ps_cfg (mw_state w)) event (me_now env) fp) w")
  case (Pair err w1)
  have w1: "manual J i file w1"
    using mg_update_manual [OF assms(1), of "plan_disable (ps_cfg (mw_state w)) event (me_now env) fp" "me_faults env 1"]
      plan_keeps [OF assms(3)] Pair by simp
  have files: "gget (mw_files w1) (qe_AuthIndex event) = Some (name, json)"
    using Pair assms(2) mg_update_files(1) by (metis snd_conv)
  have confirm: "manual J i file (snd (mg_update f (confirm_disable cfg kind t (qe_AuthIndex event)) w2))"
    if "manual J i file w2" for f cfg kind t w2
    using mg_update_manual [OF that] record_keeps(3) [OF assms(3)] by simp
  have save: "manual J i file w2" if "file_SaveAuth env (file_name (qe_AuthIndex event) name) raw' w1 = (e, w2)" for raw' e w2
    using save_manual [OF w1 files assms(3), of env raw'] that by simp
  show ?thesis using Pair w1
    by (auto simp: disable_planned_def Let_def split: option.split prod.split intro: confirm save)
qed

lemma decode_manual:
  assumes "manual J i file w" "me_json env = J" "decode_file env (snd file) = Some raw"
  shows "disabled_flag raw"
  using assms by (auto simp: manual_def decode_file_def disabled_flag_def split: if_splits)

lemma disable_manual:
  assumes "manual J i file w" "me_json env = J"
  shows "manual J i file (snd (ApplyManagedQuotaDisable env event w))"
proof (cases "file_GetAuth env (qe_AuthIndex event) w")
  case (Some nj)
  obtain name json where nj: "nj = (name, json)" by fastforce
  have here: "gget (mw_files w) (qe_AuthIndex event) = Some (name, json)" using Some nj by (simp add: file_GetAuth_def split: if_splits)
  show ?thesis
  proof (cases "qe_AuthIndex event = i")
    case True
    then have "(name, json) = file" using here assms(1) by (simp add: manual_def)
    moreover have "gget (st_ManagedLifecycle (so_state (pr_store (mw_runtime w)))) i = None"
      using manual_no_record [OF assms(1)] by (simp add: no_record_def)
    ultimately show ?thesis
      using decode_manual [OF assms(1,2)] True Some nj assms(1)
      by (auto simp: ApplyManagedQuotaDisable_def mg_snapshot_manual [OF assms(1)] Let_def split: option.split)
  next
    case False
    note planned = disable_planned_manual [OF assms(1) here False]
    have "manual J i file (snd (mg_update f (drop_record (qe_AuthIndex event)) w))" for f
      using mg_update_manual [OF assms(1)] record_keeps(2) [OF False] by simp
    with planned Some nj assms(1) show ?thesis
      by (auto simp: ApplyManagedQuotaDisable_def mg_snapshot_manual [OF assms(1)] Let_def split: option.split)
  qed
qed (use assms in \<open>auto simp: ApplyManagedQuotaDisable_def Let_def\<close>)

lemma manual_frame [simp]: "manual J i file (w\<lparr>mw_state := st\<rparr>) = manual J i file w"
  by (simp add: manual_def)

lemma managed_log_manual [simp]: "manual J i file (managed_log env level event message j w) = manual J i file w"
  by (simp add: managed_log_def)

lemma drop_manual: "manual J i file w \<Longrightarrow> j \<noteq> i \<Longrightarrow> manual J i file (snd (mg_update f (drop_record j) w))"
  by (simp add: mg_update_manual record_keeps)

lemma check_manual: "manual J i file w \<Longrightarrow> j \<noteq> i \<Longrightarrow> manual J i file (snd (recordManagedQuotaCheck env j t w))"
  by (auto simp: recordManagedQuotaCheck_def Let_def record_keeps intro!: mg_update_manual split: option.split)

lemma quota_read_manual:
  assumes "manual J i file w" "gate_keeps i (me_lifecycle env)" "managed_quota_read env c w = (q, w')"
  shows "manual J i file w' \<and> mw_files w' = mw_files w"
proof -
  let ?r = "doBackgroundHTTPRequest (me_lifecycle env) (ps_cfg (mw_state w)) False
    \<lparr>hq_Method = ''GET'', hq_URL = cfg_QuotaEndpoint (ps_cfg (mw_state w)), hq_Headers = account_headers c, hq_Body = []\<rparr> (mw_runtime w)"
  have "unowned i (snd ?r)" using assms(1,2) by (intro unowned_request) (simp_all add: manual_def)
  moreover have "w' = w\<lparr>mw_runtime := snd ?r\<rparr>"
    using assms(3) by (auto simp: managed_quota_read_def Let_def split: prod.splits option.splits sum.splits if_splits)
  ultimately show ?thesis using assms(1) by (simp add: manual_def)
qed

lemma enable_manual:
  assumes "manual J i file w" "gget (mw_files w) j = Some (name, json)" "j \<noteq> i"
  shows "manual J i file (snd (enable_file env j name raw w))"
proof -
  have save: "manual J i file w1" if "file_SaveAuth env (file_name j name) raw' w = (e, w1)" for raw' e w1
    using save_manual [OF assms, of env raw'] that by simp
  have dropped: "manual J i file w2" if "manual J i file w1" "mg_update f (drop_record j) w1 = (e, w2)" for f e w1 w2
    using drop_manual [OF that(1) assms(3), of f] that(2) by simp
  show ?thesis using assms(1)
    by (auto simp: enable_file_def split: option.split prod.split intro: save dropped)
qed

lemma recover_manual:
  assumes "manual J i file w" "j \<noteq> i" "gate_keeps i (me_lifecycle env)"
  shows "manual J i file (snd (recoverManagedQuotaAccount env j w))"
proof (cases "file_GetAuth env j w")
  case (Some nj)
  obtain name json where nj: "nj = (name, json)" by fastforce
  have here: "gget (mw_files w) j = Some (name, json)" using Some nj by (simp add: file_GetAuth_def split: if_splits)
  have dropped: "manual J i file w2" if "mg_update f (drop_record j) w = (e, w2)" for f e w2
    using drop_manual [OF assms(1,2), of f] that by simp
  have read: "manual J i file w2" "gget (mw_files w2) j = Some (name, json)" if "managed_quota_read env c w = (q, w2)" for c q w2
    using quota_read_manual [OF assms(1,3) that] here by simp_all
  show ?thesis using Some nj assms(1)
    by (auto simp: recoverManagedQuotaAccount_def mg_snapshot_manual [OF assms(1)] split: option.split sum.split prod.split
        intro: dropped check_manual [OF _ assms(2)] enable_manual [OF _ _ assms(2)] read)
qed (use assms in \<open>simp add: recoverManagedQuotaAccount_def\<close>)

lemma reconcile_manual:
  assumes "manual J i file w" "j \<noteq> i"
  shows "manual J i file (snd (reconcile_record env j w))"
proof -
  have "manual J i file (snd (mg_update f (\<lambda>st. if gget (st_ManagedLifecycle st) j = None then st
      else if b then confirm_disable cfg kind t j st else drop_record j st) w))" for f b cfg kind t
    by (rule mg_update_manual [OF assms(1)]) (simp add: record_keeps [OF assms(2)])
  then show ?thesis using assms(1) by (simp add: reconcile_record_def split: option.split)
qed

lemma each_index_manual:
  assumes "manual J i file w" "\<And>j w. j \<in> set js \<Longrightarrow> manual J i file w \<Longrightarrow> manual J i file (snd (f j w))"
  shows "manual J i file (snd (each_index f js w))"
  using assms
proof (induction js arbitrary: w)
  case (Cons j js)
  obtain e w1 where w1: "f j w = (e, w1)" by fastforce
  then have "manual J i file w1" using Cons.prems(2) [of j w] Cons.prems(1) by simp
  with w1 Cons show ?case by (cases e) simp_all
qed simp

lemma recorded_not_manual:
  "manual J i file w \<Longrightarrow> i \<notin> set (map fst (filter P (st_ManagedLifecycle (so_state (pr_store (mw_runtime w))))))"
  by (drule manual_no_record) (force simp: no_record_def map_of_eq_None_iff)

lemma recover_all_manual:
  assumes "manual J i file w" "\<And>j. gate_keeps i (me_lifecycle (env j))"
  shows "manual J i file (snd (RecoverManagedQuotaAccounts f1 f2 now planned env w))"
proof -
  obtain e w1 where w1: "reconcilePlannedManagedRecords f1 planned w = (e, w1)" by fastforce
  have "manual J i file (snd (reconcilePlannedManagedRecords f1 planned w))"
    using recorded_not_manual [OF assms(1)] assms(1)
    by (auto simp: reconcilePlannedManagedRecords_def mg_snapshot_manual [OF assms(1)] intro!: each_index_manual reconcile_manual)
  then have m: "manual J i file w1" using w1 by simp
  have "manual J i file (snd (each_index (\<lambda>j w. if me_cancelled (env j) then (Some MgCancelled, w) else recoverManagedQuotaAccount (env j) j w)
      (sort (map fst (filter (\<lambda>(_, record). recovery_due now record) (st_ManagedLifecycle (so_state (pr_store (mw_runtime w1))))))) w1))"
    using recorded_not_manual [OF m] assms(2) by (intro each_index_manual [OF m]) (auto intro: recover_manual)
  then show ?thesis using w1 m assms(1)
    by (simp add: RecoverManagedQuotaAccounts_def mg_snapshot_manual [OF m] split: option.split)
qed


section \<open>Evidence\<close>

lemma managed_log_writes [simp]: "mw_writes (managed_log env level event message j w) = mw_writes w"
  by (simp add: managed_log_def)

lemma mg_snapshot_writes: "mg_snapshot f w = (res, w') \<Longrightarrow> mw_writes w' = mw_writes w"
  by (auto simp: mg_snapshot_def split: prod.splits)

lemma mg_update_writes: "mg_update f tx w = (e, w') \<Longrightarrow> mw_writes w' = mw_writes w"
  using mg_update_files(2) [of f tx w] by simp

lemma check_writes: "recordManagedQuotaCheck env j t w = (e, w') \<Longrightarrow> mw_writes w' = mw_writes w"
  by (simp add: recordManagedQuotaCheck_def Let_def mg_update_writes)

definition usable_answer :: "managed_env \<Rightarrow> Config \<Rightarrow> bool" where
  \<comment> \<open>the provider answered with a quota that allows the account to be enabled\<close>
  "usable_answer env cfg \<longleftrightarrow> (\<exists>req status body quota. me_do env req = Some (status, body) \<and> http_ok status
     \<and> ParseCodexUsagePayload (me_rfc3339 env) (me_usage env body) (me_now env) = Inr quota
     \<and> managedQuotaUsable quota (me_now env) (me_now env) (cfg_QuotaRefreshInterval cfg))"

lemma quota_read_usable:
  assumes "managed_quota_read env c w = (q, w')"
  shows "mw_writes w' = mw_writes w" "q \<noteq> None \<Longrightarrow> usable_answer env (ps_cfg (mw_state w))"
  using assms
  by (auto simp: managed_quota_read_def usable_answer_def Let_def split: prod.splits option.splits sum.splits if_splits)

lemma read_check_writes:
  "managed_quota_read env c w = (q, w1) \<Longrightarrow> recordManagedQuotaCheck env j t w1 = (e, w') \<Longrightarrow> mw_writes w' = mw_writes w"
  using quota_read_usable(1) check_writes by metis

lemma enable_file_writes:
  assumes "enable_file env index name raw w = (e, w')" "mw_writes w' \<noteq> mw_writes w"
  shows "\<exists>object. raw = Some object \<and> mw_writes w' = mw_writes w @ [(file_name index name, set_disabled env False object)]"
  using assms
  by (auto simp: enable_file_def file_SaveAuth_def split: option.splits prod.splits if_splits dest: mg_update_writes)


section \<open>Runs\<close>

definition flag_json :: json_lib where
  \<comment> \<open>enough JSON for files that hold the flag only\<close>
  "flag_json = \<lparr>jl_valid = (\<lambda>_. True), jl_any = (\<lambda>_. None),
     jl_object = (\<lambda>s. Some (if s = ''off'' then Some [(''disabled'', ''true'')] else if s = ''null'' then None else Some [])),
     jl_array = (\<lambda>_. None), jl_string = (\<lambda>_. None), jl_marshal_string = id, jl_marshal_array = (\<lambda>_. []),
     jl_marshal_object = (\<lambda>m. if gget m ''disabled'' = Some ''true'' then ''off'' else ''on'')\<rparr>"

definition weekly_doc :: "rat \<Rightarrow> doc" where
  "weekly_doc used = [(''rate_limit'', AMap [(''secondary_window'', AMap [(''used_percent'', AFloat used),
     (''limit_window_seconds'', AFloat 604800)])])]"

definition flag_env :: managed_env where
  "flag_env = \<lparr>me_json = flag_json, me_lib = file_lib, me_remarshal = Some, me_cancelled = False, me_getFails = False, me_saveFails = False,
     me_now = 50, me_now2 = 51, me_faults = (\<lambda>_. (None, \<lambda>_. False)),
     me_lifecycle = \<lparr>le_gate = (\<lambda>_ rt. rt), le_mid = id, le_faults = (None, \<lambda>_. False), le_now = 50, le_now2 = 50, le_now3 = 50\<rparr>,
     me_do = (\<lambda>_. Some (200, [])), me_usage = (\<lambda>_. Inr (weekly_doc 20)), me_rfc3339 = (\<lambda>_. None)\<rparr>"

definition flag_world :: "(string, ManagedDisableRecord) gmap \<Rightarrow> string \<Rightarrow> managed_world" where
  "flag_world records json = \<lparr>mw_runtime = \<lparr>pr_store =
       \<lparr>so_disk = \<lparr>dk_primary = None, dk_backup = None, dk_primary_corrupt = None, dk_backup_corrupt = None\<rparr>, so_readOnly = False,
        so_loaded = True, so_state = NewPersistentState\<lparr>st_ManagedLifecycle := records\<rparr>\<rparr>,
       pr_ctrl = NewProbeController 0, pr_persistPending = [], pr_holdPending = False, pr_roster = sample_roster, pr_permit = False,
       pr_bindings = [], pr_sent = []\<rparr>,
     mw_state = NewPluginState (DefaultConfig\<lparr>cfg_EnableManagedQuotaDisable := True\<rparr>), mw_files = [(''1'', (''a.json'', json))], mw_writes = []\<rparr>"

definition limit_event :: QuotaFailureEvent where
  "limit_event = \<lparr>qe_AuthID = ''a'', qe_AuthIndex = ''1'', qe_ResetAt = 40, qe_Reason = ''usage_limit_reached''\<rparr>"


definition applied_record :: ManagedDisableRecord where
  "applied_record = zero_ManagedDisableRecord\<lparr>md_DisabledAt := 5, md_DisableApplied := True, md_NextQuotaCheckAt := 40\<rparr>"

lemma enable_file_effect:
  assumes "\<not> me_saveFails env"
  shows "mw_writes (snd (enable_file env index name (Some object) w)) = mw_writes w @ [(file_name index name, set_disabled env False object)]"
proof -
  let ?w = "w\<lparr>mw_files := write_file (file_name index name) (set_disabled env False object) (mw_files w),
    mw_writes := mw_writes w @ [(file_name index name, set_disabled env False object)]\<rparr>"
  obtain e w2 where u: "mg_update (me_faults env 2) (drop_record index) ?w = (e, w2)" by fastforce
  from mg_update_writes [OF u] show ?thesis using assms u
    by (cases e) (simp_all add: enable_file_def file_SaveAuth_def)
qed

text \<open>An account whose quota is usable again is enabled by the recovery, unless its credential changed or the host refuses.\<close>

lemma recovered_account_enabled:
  assumes "so_loaded (pr_store (mw_runtime w))" "file_GetAuth env index w = Some (name, json)"
    and "decode_file env json = Some (Some object)" "disabled_flag (Some object)"
    and "ExtractCodexCredentials (me_lib env) json = Inr c" "cc_ChatGPTAccountID c \<noteq> []"
    and "\<And>record. gget (st_ManagedLifecycle (so_state (pr_store (mw_runtime w)))) index = Some record \<Longrightarrow>
       ValidHashes (md_Fingerprint record) \<Longrightarrow> md_Fingerprint record = managedAuthFingerprint env index c"
    and "managed_quota_read env c w = (Some quota, w1)" "\<not> me_saveFails env"
  shows "mw_writes (snd (recoverManagedQuotaAccount env index w)) = mw_writes w @ [(file_name index name, set_disabled env False object)]"
proof -
  have snap: "mg_snapshot f w = (Inr (so_state (pr_store (mw_runtime w))), w)" for f
    using snapshot_loaded [OF assms(1)] by (simp add: mg_snapshot_def)
  have "recoverManagedQuotaAccount env index w = enable_file env index name (Some object) w1"
    using assms(2-8) by (auto simp: recoverManagedQuotaAccount_def snap split: option.split)
  then show ?thesis using enable_file_effect [OF assms(9)] quota_read_usable(1) [OF assms(8)] by simp
qed

lemma weekly_usable:
  "\<exists>quota. ParseCodexUsagePayload (\<lambda>_. None) (Inr (weekly_doc 20)) 50 = Inr quota
     \<and> managedQuotaUsable quota 50 50 (cfg_QuotaRefreshInterval DefaultConfig)"
proof -
  have "case ParseCodexUsagePayload (\<lambda>_. None) (Inr (weekly_doc 20)) 50 of Inl _ \<Rightarrow> False
    | Inr quota \<Rightarrow> managedQuotaUsable quota 50 50 (cfg_QuotaRefreshInterval DefaultConfig)" by code_simp
  then show ?thesis by (auto split: sum.splits)
qed

lemma flag_quota_read: "\<exists>quota. managed_quota_read flag_env c (flag_world records json) = (Some quota, flag_world records json)"
  using weekly_usable
  by (auto simp: managed_quota_read_def flag_env_def flag_world_def doBackgroundHTTPRequest_def failClosedRosterAt_def request_allowed_def
      normalRosterBackgroundAllowed_def lifecycle_marker_def normalizeHostRosterLifecycle_def sample_roster_def zero_HostRosterSnapshot_def
      http_ok_def NewPluginState_def Let_def)

lemma any_file_extracted: "ExtractCodexCredentials file_lib json = Inr file_credentials"
proof -
  have "ExtractCodexCredentials file_lib json = ExtractCodexCredentials file_lib ''file''"
    by (simp add: ExtractCodexCredentials_def file_lib_def)
  then show ?thesis by (simp add: file_credentials_extracted)
qed

lemma flag_recovery:
  assumes "\<And>record. gget records ''1'' = Some record \<Longrightarrow> \<not> ValidHashes (md_Fingerprint record)"
  shows "mw_writes (snd (recoverManagedQuotaAccount flag_env ''1'' (flag_world records ''off''))) = [(''a.json'', ''on'')]"
proof -
  let ?w = "flag_world records ''off''"
  from flag_quota_read obtain quota where q: "managed_quota_read flag_env file_credentials ?w = (Some quota, ?w)" by blast
  have "mw_writes (snd (recoverManagedQuotaAccount flag_env ''1'' ?w)) = mw_writes ?w
      @ [(file_name ''1'' ''a.json'', set_disabled flag_env False [(''disabled'', ''true'')])]"
    by (rule recovered_account_enabled [OF _ _ _ _ _ _ _ q, where json = "''off''"])
      (use assms in \<open>auto simp: flag_world_def flag_env_def file_GetAuth_def decode_file_def flag_json_def disabled_flag_def
          any_file_extracted file_credentials_def\<close>)
  then show ?thesis by (simp add: flag_world_def file_name_def set_disabled_def flag_env_def flag_json_def)
qed

section \<open>Where the ownership is weaker than documented\<close>

lemma unowned_account_enabled:
  \<comment> \<open>the recovery of one account does not ask for its record: a record dropped since the list was made is not missed\<close>
  "mw_writes (snd (recoverManagedQuotaAccount flag_env ''1'' (flag_world [] ''off''))) = [(''a.json'', ''on'')]"
  by (rule flag_recovery) simp

lemma planned_record_adopts_file:
  \<comment> \<open>a plan whose write failed is confirmed by a flag that someone else sets later\<close>
  assumes "\<not> me_cancelled env" "file_GetAuth env index w = Some (name, json)" "decode_file env json = Some raw" "disabled_flag raw"
  shows "reconcile_record env index w = mg_update (me_faults env 1) (\<lambda>st. if gget (st_ManagedLifecycle st) index = None then st
     else confirm_disable (ps_cfg (mw_state w)) ''disable_confirmed'' (me_now2 env) index st) w"
  using assms by (simp add: reconcile_record_def cong: if_cong)

lemma null_file_panics:
  \<comment> \<open>the text \<^verbatim>\<open>null\<close> decodes into a nil map, and the assignment to its entry panics after the plan was recorded\<close>
  assumes "mg_update (me_faults env 1) (plan_disable (ps_cfg (mw_state w)) event (me_now env) fp) w = (None, w1)"
  shows "disable_planned env event name None fp w = (Some MgPanic, w1)"
  using assms by (simp add: disable_planned_def disabled_flag_def)


end
