(* ===== verification/Spec2Isabelle.thy ===== *)
theory Spec2Isabelle
  imports Quota Scheduler_Props State_Props Store_Props Fence Binding_Registry Typed_Reads Probe_Props Probe_Refines Roster_Props
    Retry_Runs Retry_Body Retry_Classify_Props Usage_Props Refresh_Props Managed_Props
begin

text \<open>
  Verification of the Codex quota scheduler, a plugin of the CLI proxy that chooses the account
  for each request by its remaining quota, refreshes the quotas in the background, probes
  windows whose reset has passed, and retries failed requests on other models.

  \<^bold>\<open>The program and its model.\<close> Pure functions are HOL functions; methods pass their state explicitly;
  code under a mutex is one step, and what other goroutines may do between two critical
  sections is either a step relation that interleaves them or an argument of the definition.
  Errors are values. Host calls, clocks, faults of the file system and crash points are inputs.
  Library code that is not part of the repository is an argument: JSON, time formats, YAML,
  regular expressions, the host. Maps are association lists with distinct keys, \<^verbatim>\<open>uint64\<close> is a 64-bit word,
  times and durations are integers in nanoseconds with the saturation and wrap-around of Go
  written out, and \<^verbatim>\<open>float64\<close> is a rational rounded as the hardware does.

  \<^item> \<open>Prelude\<close>, \<open>Go_Float\<close>, \<open>Go_Base\<close>, \<open>Go_Hash\<close>, \<open>Go_Text\<close>: association lists, runs of a machine with the locale
    \<open>invariant_machine\<close>, and the parts of Go's library the code relies on.
  \<^item> \<open>Models\<close>, \<open>Quota\<close>: \<^verbatim>\<open>models.go\<close>, \<^verbatim>\<open>quota.go\<close>. \<open>Configuration\<close>, \<open>Retry_Chain\<close>, \<open>Annotations\<close>: \<^verbatim>\<open>config.go\<close>,
    \<^verbatim>\<open>retry_chain.go\<close>, \<^verbatim>\<open>annotations.go\<close>.
  \<^item> \<open>Circuit\<close>, \<open>Plugin_State\<close>, \<open>State_Props\<close>: \<^verbatim>\<open>state.go\<close>. Every operation keeps the account map keyed; a
    changed admission fences older results; logs stay bounded; exhaustion is dropped on evidence only.
  \<^item> \<open>Trial\<close>, \<open>Selection\<close>, \<open>Scheduler\<close>, \<open>Scheduler_Props\<close>: \<^verbatim>\<open>trial.go\<close>, \<^verbatim>\<open>selection.go\<close>, \<^verbatim>\<open>scheduler.go\<close>,
    \<^verbatim>\<open>scheduler_snapshot.go\<close>. A pick returns the best selectable candidate, never one whose trial is running, and
    trials end.
  \<^item> \<open>Persistent\<close>, \<open>State_Store\<close>, \<open>Store_Props\<close>, \<open>Fence\<close>: \<^verbatim>\<open>state_store.go\<close>, \<^verbatim>\<open>runtime_state.go\<close>, \<^verbatim>\<open>fence.go\<close>. The locale \<open>transactional_store\<close>
    is the contract of the store: an update is all or nothing in memory and on disk, whatever
    write fails. Fences increase strictly across restarts.
  \<^item> \<open>Identity\<close>, \<open>Credential_WAL\<close>, \<open>Binding_Registry\<close>: \<^verbatim>\<open>identity.go\<close>, \<^verbatim>\<open>credential_wal.go\<close>, \<^verbatim>\<open>binding_registry.go\<close>. A
    credential save that stops anywhere is recognised later; a reconciled roster makes older tokens invalid.
  \<^item> \<open>Coordinator\<close> with \<open>Coordinator_Tables\<close>, \<open>Coordinator_Props\<close>, \<open>Coordinator_Runs\<close>, \<open>Typed_Reads\<close>: \<^verbatim>\<open>coordinator.go\<close>.
    Exclusive jobs, cancellation, results applied once, no lost job, a drain that ends, shared reads.
  \<^item> \<open>Probe\<close> with \<open>Probe_Props\<close>, \<open>Probe_WAL\<close>, \<open>Probe_Runtime\<close>, \<open>Probe_Sequence\<close>, \<open>Probe_Safety\<close>, \<open>Probe_Refines\<close>:
    \<^verbatim>\<open>probe.go\<close>, \<^verbatim>\<open>probe_classify.go\<close>, \<^verbatim>\<open>probe_state.go\<close>, \<^verbatim>\<open>probe_wal.go\<close>, \<^verbatim>\<open>probe_runtime.go\<close>. A probe is sent on strict
    evidence and at most once, and is verified after a restart; the sequence refines the log machine.
  \<^item> \<open>Capability\<close>, \<open>Roster_Controller\<close>, \<open>Roster_Props\<close>: \<^verbatim>\<open>capability.go\<close>, \<^verbatim>\<open>roster_controller.go\<close>. When background work is
    allowed, and that a degraded roster closes.
  \<^item> \<open>Retry_Classify\<close>, \<open>Retry_Frames\<close>, \<open>Retry_Runtime\<close> with \<open>Retry_Props\<close>, \<open>Retry_Stream_Props\<close>, \<open>Retry_Body\<close>,
    \<open>Retry_Classify_Props\<close>, \<open>Retry_Runs\<close>: \<^verbatim>\<open>retry_classify.go\<close>, \<^verbatim>\<open>retry_frames.go\<close>, \<^verbatim>\<open>retry_runtime.go\<close>, \<^verbatim>\<open>retry_hostcall.go\<close>.
    No attempt follows the first output, the client's stream is closed once, attempts follow the plan,
    payloads are forwarded in order, the decision does not depend on how the stream is cut.
  \<^item> \<open>Usage\<close>, \<open>Usage_Props\<close>: \<^verbatim>\<open>usage.go\<close>, \<^verbatim>\<open>stream_observer.go\<close>, \<^verbatim>\<open>request_complete.go\<close> and the usage handler of
    \<^verbatim>\<open>dispatch.go\<close>. An account reported exhausted is not picked before its reset.
  \<^item> \<open>Codex_Auth\<close>, \<open>Refresh_Controller\<close>, \<open>Refresh_Lifecycle\<close>, \<open>Quota_Refresh\<close>, \<open>Refresh_Props\<close>: \<^verbatim>\<open>auth.go\<close>,
    \<^verbatim>\<open>refresh_controller.go\<close>, \<^verbatim>\<open>auth_transaction.go\<close> and of \<^verbatim>\<open>refresh.go\<close> the roster lifecycle, the request gate and the
    refresh of one account. Every host call of a refresh is made with a current admission and binding,
    every request under an authorised roster; saved credentials are read back; the refresh deadline is kept.
  \<^item> \<open>Managed_Lifecycle\<close>, \<open>Managed_Props\<close>: \<^verbatim>\<open>managed_lifecycle.go\<close>. A file that the operator
    disabled is never touched, and an account is enabled on evidence only.

  \<^bold>\<open>How the parts meet.\<close> The store and its contract carry the fences, the credential log, the bindings, the
  probe log and the managed records. The plugin state is published as a snapshot that the pick path reads. The
  roster decides what the refresh and the probe may do; the coordinator serialises their jobs
  per credential instance; usage feedback and refreshes write the plugin state under its admission version.

  \<^bold>\<open>Bounds and fuel.\<close> Loops are structural or have a termination proof. The loop of the refresh controller may
  run forever on an interval that is not positive and is a \<open>partial_function\<close>; it is proved to return for
  every controller that is built. \<open>replace_all\<close> takes as many steps as the text has bytes, which is
  enough since every step consumes one. A nested stream is a finite list of answers; a read
  past its end never returns and is the outcome \<open>Blocked\<close>.

  \<^bold>\<open>Not modelled.\<close> The selection of accounts for a refresh, its wake-up loop, the launch of probes and the
  publication of a roster in \<^verbatim>\<open>refresh.go\<close>: goroutines, timers and channels around modelled operations.
  \<^verbatim>\<open>pick_activity.go\<close>, \<^verbatim>\<open>quota_provider.go\<close>, \<^verbatim>\<open>disk_state.go\<close>, \<^verbatim>\<open>user_data.go\<close>, \<^verbatim>\<open>management.go\<close>, \<^verbatim>\<open>management_page.go\<close>, \<^verbatim>\<open>main.go\<close>,
  \<^verbatim>\<open>runtime_host_adapter.go\<close>, the renames of \<^verbatim>\<open>state_replace_unix.go\<close> and \<^verbatim>\<open>state_replace_windows.go\<close>, and the rest of \<^verbatim>\<open>dispatch.go\<close>: the C interface, JSON and HTTP dispatch, pages and files. The
  slots of the coordinator for HTTP calls only wait. Test doubles and source analysers are not part of the plugin.
\<close>

end
